(* ===== verification/Prelude.thy ===== *)
theory Prelude
  imports Main "HOL-Library.Sublist"
begin

text \<open>
  Shared vocabulary of the development: the fatal errors of the compiler as values, the
  result type and its sequencing, the C locale's character classes, the string helpers of
  the C library the sources call, and growable vectors as an interface.
\<close>

section \<open>Proof collections\<close>

named_theorems char_defs \<open>character classes, unfolded to character codes\<close>
named_theorems result_simps \<open>sequencing of results\<close>

section \<open>Fatal errors as values\<close>

text \<open>
  Every phase exits the process on the first error. \<open>Die\<close> is a call of \<open>die_at\<close>,
  \<open>DieMsg\<close> a call of \<open>die_message\<close>. \<open>OutOfBounds\<close> marks a read past the end of an
  array, \<open>Overflow\<close> a signed integer that leaves its range and \<open>NullDeref\<close> a dereference of a
  null pointer: all three are undefined behaviour in the source, and kept apart from every diagnostic so that their absence can be stated.
  \<open>OutOfFuel\<close> marks a recursion cut off by the model's fuel.
\<close>

datatype error =
    Die nat nat string
  | DieMsg string
  | OutOfBounds
  | Overflow
  | NullDeref
  | OutOfFuel

type_synonym 'a result = "error + 'a"

fun is_diagnostic :: "error \<Rightarrow> bool" where
  "is_diagnostic (Die l c m) = True"
| "is_diagnostic (DieMsg m) = True"
| "is_diagnostic OutOfBounds = False"
| "is_diagnostic Overflow = False"
| "is_diagnostic NullDeref = False"
| "is_diagnostic OutOfFuel = False"

text \<open>
  Code that ends the process with its own \<open>fprintf(stderr, ...); exit(1)\<close>, past both diagnostics,
  is in the driver's last steps and in the run-time code of a compiled program. Only their results
  have \<open>ExitMsg\<close>, so that the type of a phase says that it never ends this way.
\<close>

datatype exit_error = ExitMsg string | Failed error

type_synonym 'a exit_result = "exit_error + 'a"

definition or_failed :: "'a result \<Rightarrow> 'a exit_result" where
  "or_failed = map_sum Failed id"

lemma or_failed_simps [simp]: "or_failed (Inl e) = Inl (Failed e)" "or_failed (Inr x) = Inr x"
  by (simp_all add: or_failed_def)

lemma or_failed_Inr [simp]: "or_failed r = Inr x \<longleftrightarrow> r = Inr x"
  by (cases r) simp_all

definition rbind :: "'e + 'a \<Rightarrow> ('a \<Rightarrow> 'e + 'b) \<Rightarrow> 'e + 'b" where
  "rbind m f = (case m of Inl e \<Rightarrow> Inl e | Inr x \<Rightarrow> f x)"

lemma rbind_simps [simp, result_simps]:
  "rbind (Inl e) f = Inl e"
  "rbind (Inr x) f = f x"
  by (simp_all add: rbind_def)

lemma rbind_eq_Inr [result_simps]:
  "rbind m f = Inr y \<longleftrightarrow> (\<exists>x. m = Inr x \<and> f x = Inr y)"
  by (cases m) auto

lemma rbind_eq_Inl:
  "rbind m f = Inl e \<longleftrightarrow> m = Inl e \<or> (\<exists>x. m = Inr x \<and> f x = Inl e)"
  by (cases m) auto

lemma rbind_cong [fundef_cong]:
  "m = m' \<Longrightarrow> (\<And>x. m' = Inr x \<Longrightarrow> f x = f' x) \<Longrightarrow> rbind m f = rbind m' f'"
  by (cases m') auto

section \<open>Characters\<close>

text \<open>
  A C \<open>char\<close> is a byte, as is Isabelle's \<^typ>\<open>char\<close>; the classes are those of the C
  locale, which the compiler never leaves. A C string is the list of its bytes before the
  terminating zero byte; reading at its end gives that zero byte, \<open>NUL\<close>.
\<close>

abbreviation (input) NUL :: char where "NUL \<equiv> CHR 0x00"
abbreviation (input) TAB :: char where "TAB \<equiv> CHR 0x09"
abbreviation (input) NL :: char where "NL \<equiv> CHR 0x0A"
abbreviation (input) CR :: char where "CR \<equiv> CHR 0x0D"
abbreviation (input) SPACE :: char where "SPACE \<equiv> CHR 0x20"
abbreviation (input) DQUOTE :: char where "DQUOTE \<equiv> CHR 0x22"
abbreviation (input) SQUOTE :: char where "SQUOTE \<equiv> CHR 0x27"
abbreviation (input) SLASH :: char where "SLASH \<equiv> CHR 0x2F"
abbreviation (input) STAR :: char where "STAR \<equiv> CHR 0x2A"
abbreviation (input) BSLASH :: char where "BSLASH \<equiv> CHR 0x5C"
abbreviation (input) BQUOTE :: char where "BQUOTE \<equiv> CHR 0x60"

definition code :: "char \<Rightarrow> nat" where
  "code c = of_char c"

definition isdigit :: "char \<Rightarrow> bool" where
  "isdigit c \<longleftrightarrow> 48 \<le> code c \<and> code c \<le> 57"

definition isupper :: "char \<Rightarrow> bool" where
  "isupper c \<longleftrightarrow> 65 \<le> code c \<and> code c \<le> 90"

definition islower :: "char \<Rightarrow> bool" where
  "islower c \<longleftrightarrow> 97 \<le> code c \<and> code c \<le> 122"

definition isalpha :: "char \<Rightarrow> bool" where
  "isalpha c \<longleftrightarrow> isupper c \<or> islower c"

definition isalnum :: "char \<Rightarrow> bool" where
  "isalnum c \<longleftrightarrow> isalpha c \<or> isdigit c"

definition isspace :: "char \<Rightarrow> bool" where
  "isspace c \<longleftrightarrow> code c = 32 \<or> (9 \<le> code c \<and> code c \<le> 13)"

definition tolower :: "char \<Rightarrow> char" where
  "tolower c = (if isupper c then char_of (code c + 32) else c)"

definition toupper :: "char \<Rightarrow> char" where
  "toupper c = (if islower c then char_of (code c - 32) else c)"

lemmas [char_defs] = isdigit_def isupper_def islower_def isalpha_def isalnum_def
  isspace_def tolower_def toupper_def code_def

lemma code_less: "code c < 256"
  by (simp add: code_def)

lemma code_inject [simp]: "code c = code d \<longleftrightarrow> c = d"
  by (simp add: code_def)

lemma code_char_of [simp]: "n < 256 \<Longrightarrow> code (char_of n) = n"
  by (simp add: code_def)

lemma isdigit_isalnum [simp]: "isdigit c \<Longrightarrow> isalnum c"
  by (simp add: isalnum_def)

lemma isalpha_isalnum [simp]: "isalpha c \<Longrightarrow> isalnum c"
  by (simp add: isalnum_def)

lemma isalpha_not_isdigit [simp]: "isalpha c \<Longrightarrow> \<not> isdigit c"
  by (auto simp: isalpha_def isdigit_def isupper_def islower_def)

lemma code_tolower: "code (tolower c) = (if isupper c then code c + 32 else code c)"
  by (auto simp: tolower_def isupper_def)

lemma code_toupper: "code (toupper c) = (if islower c then code c - 32 else code c)"
  by (auto simp: toupper_def islower_def)

lemma isalnum_tolower [simp]: "isalnum (tolower c) = isalnum c"
  by (auto simp: isalnum_def isalpha_def isdigit_def islower_def isupper_def code_tolower)

lemma isalnum_toupper [simp]: "isalnum (toupper c) = isalnum c"
  by (auto simp: isalnum_def isalpha_def isdigit_def islower_def isupper_def code_toupper)

lemma tolower_toupper_tolower [simp]: "tolower (toupper c) = tolower c"
proof -
  have "code (tolower (toupper c)) = code (tolower c)"
    by (auto simp: code_tolower code_toupper isupper_def islower_def)
  then show ?thesis by simp
qed

lemma tolower_idem [simp]: "tolower (tolower c) = tolower c"
proof -
  have "code (tolower (tolower c)) = code (tolower c)"
    by (auto simp: code_tolower isupper_def)
  then show ?thesis by simp
qed

section \<open>C strings\<close>

text \<open>\<open>cat s i\<close> is \<open>s[i]\<close> for an index up to the terminating zero byte.\<close>

definition cat :: "string \<Rightarrow> nat \<Rightarrow> char" where
  "cat s i = (if i < length s then s ! i else NUL)"

definition chead :: "string \<Rightarrow> char" where
  "chead s = (case s of [] \<Rightarrow> NUL | c # _ \<Rightarrow> c)"

lemma chead_simps [simp]: "chead [] = NUL" "chead (c # s) = c"
  by (simp_all add: chead_def)

lemma chead_eq_cat: "chead s = cat s 0"
  by (cases s) (simp_all add: cat_def)

definition starts_with :: "string \<Rightarrow> string \<Rightarrow> bool" where
  "starts_with s pre \<longleftrightarrow> take (length pre) s = pre"

lemma starts_with_iff_prefix: "starts_with s pre \<longleftrightarrow> prefix pre s"
proof
  assume "starts_with s pre"
  then show "prefix pre s" by (metis starts_with_def take_is_prefix)
next
  assume "prefix pre s"
  then show "starts_with s pre" by (auto simp: prefix_def starts_with_def)
qed

lemma starts_with_append [simp]: "starts_with (pre @ s) pre"
  by (simp add: starts_with_def)

definition ends_with :: "string \<Rightarrow> string \<Rightarrow> bool" where
  "ends_with s suf \<longleftrightarrow> length suf \<le> length s \<and> drop (length s - length suf) s = suf"

lemma ends_with_append [simp]: "ends_with (s @ suf) suf"
  by (simp add: ends_with_def)

lemma ends_with_iff_suffix: "ends_with s suf \<longleftrightarrow> suffix suf s"
proof
  assume "ends_with s suf"
  then have "s = take (length s - length suf) s @ suf"
    by (metis append_take_drop_id ends_with_def)
  then show "suffix suf s" by (auto simp: suffix_def)
next
  assume "suffix suf s"
  then show "ends_with s suf" by (auto simp: suffix_def)
qed

text \<open>\<open>contains\<close> is \<open>strstr(s, sub) != NULL\<close>.\<close>

fun contains :: "string \<Rightarrow> string \<Rightarrow> bool" where
  "contains [] sub = (sub = [])"
| "contains (c # s) sub = (starts_with (c # s) sub \<or> contains s sub)"

lemma contains_iff_sublist: "contains s sub \<longleftrightarrow> sublist sub s"
  by (induction s) (auto simp: starts_with_iff_prefix sublist_Cons_right)

text \<open>Decimal output, the \<open>%d\<close> of a non-negative number.\<close>

fun show_nat :: "nat \<Rightarrow> string" where
  "show_nat n = (if n < 10 then [char_of (48 + n)] else show_nat (n div 10) @ [char_of (48 + n mod 10)])"

declare show_nat.simps [simp del]

lemma takeWhile_append_stop:
  "(\<And>x. x \<in> set xs \<Longrightarrow> P x) \<Longrightarrow> (ys = [] \<or> \<not> P (hd ys)) \<Longrightarrow> takeWhile P (xs @ ys) = xs"
  by (cases ys) (auto simp: takeWhile_append)

lemma dropWhile_append_stop:
  "(\<And>x. x \<in> set xs \<Longrightarrow> P x) \<Longrightarrow> (ys = [] \<or> \<not> P (hd ys)) \<Longrightarrow> dropWhile P (xs @ ys) = ys"
  by (cases ys) (auto simp: dropWhile_append)

end
