(* ===== verification/Common.thy ===== *)
theory Common
  imports Prelude
begin

text \<open>
  The compiler's shared runtime (\<open>src/caster/driver/common.c\<close>): JSON escaping and the
  diagnostic that \<open>caster check --json\<close> prints, the two fatal-error exits, reading a
  file as a C string, and the growable vectors. The vectors are modelled with their slots,
  length and capacity and refined to lists; every later theory uses the lists.
\<close>

section \<open>JSON diagnostics\<close>

definition hex_digit :: "nat \<Rightarrow> char" where
  "hex_digit n = (if n < 10 then char_of (48 + n) else char_of (87 + n))"

text \<open>One round of the loop of \<open>json_write_escaped\<close>: the bytes written for one byte.\<close>

definition json_escape_char :: "char \<Rightarrow> string" where
  "json_escape_char c =
     (if c = DQUOTE then [BSLASH, DQUOTE]
      else if c = BSLASH then [BSLASH, BSLASH]
      else if c = CHR 0x08 then [BSLASH, CHR ''b'']
      else if c = CHR 0x0C then [BSLASH, CHR ''f'']
      else if c = NL then [BSLASH, CHR ''n'']
      else if c = CR then [BSLASH, CHR ''r'']
      else if c = TAB then [BSLASH, CHR ''t'']
      else if code c < 32
        then [BSLASH, CHR ''u'', CHR ''0'', CHR ''0'', hex_digit (code c div 16), hex_digit (code c mod 16)]
      else [c])"

definition json_write_escaped :: "string \<Rightarrow> string" where
  "json_write_escaped s = [DQUOTE] @ concat (map json_escape_char s) @ [DQUOTE]"

definition print_json_diagnostic :: "string option \<Rightarrow> nat \<Rightarrow> nat \<Rightarrow> string \<Rightarrow> string" where
  "print_json_diagnostic source_path line col message =
     (let file = (case source_path of Some f \<Rightarrow> f | None \<Rightarrow> '''');
          safe_line = (if 0 < line then line else 1);
          safe_col = (if 0 < col then col else 1);
          end_col = safe_col + 1;
          key = (\<lambda>k. [DQUOTE] @ k @ [DQUOTE] @ '': '');
          sep = '','' @ [NL] @ ''    ''
      in ''['' @ [NL] @ ''  {'' @ [NL] @ ''    '' @ key ''file'' @ json_write_escaped file
         @ sep @ key ''line'' @ show_nat safe_line
         @ sep @ key ''col'' @ show_nat safe_col
         @ sep @ key ''endLine'' @ show_nat safe_line
         @ sep @ key ''endCol'' @ show_nat end_col
         @ sep @ key ''severity'' @ [DQUOTE] @ ''error'' @ [DQUOTE]
         @ sep @ key ''message'' @ json_write_escaped message
         @ [NL] @ ''  }'' @ [NL] @ '']'' @ [NL])"

text \<open>
  What the process writes before it exits with status 1, as a pair of standard output and
  standard error. The globals \<open>g_diagnostics_json\<close> and \<open>g_diagnostics_source_path\<close> are
  arguments.
\<close>

definition die_at :: "bool \<Rightarrow> string option \<Rightarrow> nat \<Rightarrow> nat \<Rightarrow> string \<Rightarrow> string \<times> string" where
  "die_at json source_path line col message =
     (if json then (print_json_diagnostic source_path line col message, '''')
      else ('''', ''caster: error: '' @ show_nat line @ '':'' @ show_nat col @ '': '' @ message @ [NL]))"

definition die_message :: "bool \<Rightarrow> string option \<Rightarrow> string \<Rightarrow> string \<times> string" where
  "die_message json source_path message =
     (if json then (print_json_diagnostic source_path 1 1 message, '''')
      else ('''', ''caster: error: '' @ message @ [NL]))"

text \<open>
  \<open>read_file\<close>: \<open>disk\<close> gives a file's bytes, or nothing when it cannot be opened. The
  buffer is used as a C string, so it ends at the first zero byte.
\<close>

definition read_file :: "(string \<Rightarrow> string option) \<Rightarrow> string \<Rightarrow> string result" where
  "read_file disk path =
     (case disk path of
        None \<Rightarrow> Inl (DieMsg (''cannot open '' @ path))
      | Some bytes \<Rightarrow> Inr (takeWhile (\<lambda>c. c \<noteq> NUL) bytes))"

subsection \<open>A JSON reader as the reference\<close>

text \<open>
  What a conforming reader does with a string literal after its opening quote (RFC 8259,
  section 7): it accepts the escapes below, refuses raw control characters, and returns the
  decoded text with the input after the closing quote.
\<close>

definition hex_val :: "char \<Rightarrow> nat option" where
  "hex_val c =
     (if isdigit c then Some (code c - 48)
      else if 97 \<le> code c \<and> code c \<le> 102 then Some (code c - 87)
      else if 65 \<le> code c \<and> code c \<le> 70 then Some (code c - 55)
      else None)"

definition json_simple_escape :: "char \<Rightarrow> char option" where
  "json_simple_escape c =
     (if c = DQUOTE \<or> c = BSLASH \<or> c = SLASH then Some c
      else if c = CHR ''b'' then Some (CHR 0x08)
      else if c = CHR ''f'' then Some (CHR 0x0C)
      else if c = CHR ''n'' then Some NL
      else if c = CHR ''r'' then Some CR
      else if c = CHR ''t'' then Some TAB
      else None)"

definition json_char :: "string \<Rightarrow> (char \<times> string) option" where
  "json_char s =
     (case s of
        [] \<Rightarrow> None
      | c # s1 \<Rightarrow>
          if c = BSLASH then
            (case s1 of
               [] \<Rightarrow> None
             | e # s2 \<Rightarrow>
                 if e = CHR ''u'' then
                   (case s2 of
                      h3 # h2 # h1 # h0 # s3 \<Rightarrow>
                        (case (hex_val h3, hex_val h2, hex_val h1, hex_val h0) of
                           (Some a, Some b, Some d, Some g) \<Rightarrow>
                             (if a = 0 \<and> b = 0 then Some (char_of (16 * d + g), s3) else None)
                         | _ \<Rightarrow> None)
                    | _ \<Rightarrow> None)
                 else (case json_simple_escape e of None \<Rightarrow> None | Some d \<Rightarrow> Some (d, s2)))
          else if code c < 32 \<or> c = DQUOTE then None
          else Some (c, s1))"

fun json_read_n :: "nat \<Rightarrow> string \<Rightarrow> (string \<times> string) option" where
  "json_read_n 0 s = None"
| "json_read_n (Suc n) s =
     (if s \<noteq> [] \<and> hd s = DQUOTE then Some ([], tl s)
      else (case json_char s of
              None \<Rightarrow> None
            | Some (c, s') \<Rightarrow> map_option (\<lambda>(t, r). (c # t, r)) (json_read_n n s')))"

definition json_read_string :: "string \<Rightarrow> (string \<times> string) option" where
  "json_read_string s =
     (case s of [] \<Rightarrow> None | c # s' \<Rightarrow> if c = DQUOTE then json_read_n (length s) s' else None)"

lemma hex_val_hex_digit: "n < 16 \<Longrightarrow> hex_val (hex_digit n) = Some n"
  by (auto simp: hex_val_def hex_digit_def isdigit_def)

lemma hex_val_zero [simp]: "hex_val (CHR ''0'') = Some 0"
  by (simp add: hex_val_def char_defs)

lemma json_char_escape [simp]: "json_char (json_escape_char c @ s) = Some (c, s)"
proof -
  have "code c div 16 < 16" "code c mod 16 < 16" and *: "16 * (code c div 16) + code c mod 16 = code c"
    using code_less [of c] by simp_all
  moreover have "char_of (code c) = c" by (simp add: code_def)
  ultimately show ?thesis
    by (simp add: json_escape_char_def json_char_def json_simple_escape_def hex_val_hex_digit)
qed

lemma json_escape_char_not_quote:
  "json_escape_char c @ s \<noteq> [] \<and> hd (json_escape_char c @ s) \<noteq> DQUOTE"
  by (simp add: json_escape_char_def)

lemma length_json_escape_char: "1 \<le> length (json_escape_char c)"
  by (simp add: json_escape_char_def)

lemma json_read_n_escaped:
  "length (concat (map json_escape_char s)) < n
   \<Longrightarrow> json_read_n n (concat (map json_escape_char s) @ DQUOTE # r) = Some (s, r)"
proof (induction s arbitrary: n)
  case Nil
  then show ?case by (cases n) simp_all
next
  case (Cons c s)
  obtain m where n: "n = Suc m" using Cons.prems by (cases n) auto
  have "length (concat (map json_escape_char s)) < m"
    using Cons.prems length_json_escape_char [of c] by (simp add: n)
  from Cons.IH [OF this] show ?case
    using json_escape_char_not_quote [of c "concat (map json_escape_char s) @ DQUOTE # r"]
    by (simp add: n)
qed

text \<open>
  C13: JSON diagnostics are decodable. A reader that follows RFC 8259 recovers from
  \<open>json_write_escaped\<close> exactly the bytes given to it and stops right after the closing
  quote, whatever follows: no file name or message can break the diagnostic's structure.
\<close>

theorem json_write_escaped_roundtrip:
  "json_read_string (json_write_escaped s @ rest) = Some (s, rest)"
  by (simp add: json_read_string_def json_write_escaped_def json_read_n_escaped del: json_read_n.simps)

section \<open>Vectors\<close>

text \<open>
  A vector of \<open>common.c\<close> owns \<open>v_cap\<close> slots, of which the first \<open>v_len\<close> are
  initialised; \<open>None\<close> is a slot \<open>realloc\<close> left uninitialised.
\<close>

record 'a vec =
  v_items :: "'a option list"
  v_len :: nat
  v_cap :: nat

definition vec_empty :: "'a vec" where
  "vec_empty = \<lparr>v_items = [], v_len = 0, v_cap = 0\<rparr>"

definition push_from :: "nat \<Rightarrow> 'a vec \<Rightarrow> 'a \<Rightarrow> 'a vec" where
  "push_from first v item =
     (let v1 = (if v_len v = v_cap v
                then (let c = (if v_cap v \<noteq> 0 then v_cap v * 2 else first)
                      in v\<lparr>v_cap := c, v_items := v_items v @ replicate (c - v_cap v) None\<rparr>)
                else v)
      in v1\<lparr>v_items := (v_items v1)[v_len v1 := Some item], v_len := Suc (v_len v1)\<rparr>)"

definition vec_push :: "'a vec \<Rightarrow> 'a \<Rightarrow> 'a vec" where
  "vec_push v item = push_from 8 v item"

text \<open>\<open>vec_ok\<close> is the representation invariant, \<open>contents\<close> the abstraction.\<close>

definition vec_ok :: "'a vec \<Rightarrow> bool" where
  "vec_ok v \<longleftrightarrow> v_len v \<le> v_cap v \<and> length (v_items v) = v_cap v
     \<and> (\<forall>i < v_len v. v_items v ! i \<noteq> None)"

definition contents :: "'a vec \<Rightarrow> 'a list" where
  "contents v = map the (take (v_len v) (v_items v))"

text \<open>
  The interface the phases rely on: a vector that starts empty and grows by one item at
  its end. The client's lemma is about any sequence of pushes.
\<close>

locale growable =
  fixes empty :: "'v"
    and push :: "'v \<Rightarrow> 'a \<Rightarrow> 'v"
    and abs :: "'v \<Rightarrow> 'a list"
    and inv :: "'v \<Rightarrow> bool"
  assumes inv_empty: "inv empty"
    and abs_empty: "abs empty = []"
    and inv_push: "inv v \<Longrightarrow> inv (push v x)"
    and abs_push: "inv v \<Longrightarrow> abs (push v x) = abs v @ [x]"
begin

lemma pushes: "inv v \<Longrightarrow> inv (foldl push v xs) \<and> abs (foldl push v xs) = abs v @ xs"
  by (induction xs arbitrary: v) (simp_all add: inv_push abs_push)

lemma pushes_empty: "inv (foldl push empty xs) \<and> abs (foldl push empty xs) = xs"
  using pushes [OF inv_empty, of xs] by (simp add: abs_empty)

end

lemma vec_ok_empty: "vec_ok vec_empty"
  by (simp add: vec_ok_def vec_empty_def)

lemma contents_empty: "contents vec_empty = []"
  by (simp add: contents_def vec_empty_def)

lemma take_update_last: "n < length xs \<Longrightarrow> take (Suc n) (xs[n := x]) = take n xs @ [x]"
  by (simp add: take_Suc_conv_app_nth)

lemma vec_ok_push_from:
  assumes "0 < first" and "vec_ok v"
  shows "vec_ok (push_from first v x)"
  using assms
  by (auto simp: vec_ok_def push_from_def Let_def nth_list_update nth_append less_Suc_eq)

lemma contents_push_from:
  assumes "0 < first" and "vec_ok v"
  shows "contents (push_from first v x) = contents v @ [x]"
  using assms
  by (auto simp: vec_ok_def push_from_def contents_def Let_def take_update_last)

interpretation ptrvec: growable vec_empty vec_push contents vec_ok
  by unfold_locales
    (simp_all add: vec_ok_empty contents_empty vec_push_def vec_ok_push_from contents_push_from)

end
