(* ===== verification/Lexer.thy ===== *)
theory Lexer
  imports Common
begin

text \<open>
  The lexer (\<open>src/caster/lex/lexer.c\<close>): source text to a flat token stream with line
  and column positions. \<open>lex_source\<close> is one loop over the source; each branch of its body
  is a definition here, \<open>lex_step\<close> is one round, and \<open>lex_loop\<close> runs rounds until the
  terminating zero byte. The scanner's index \<open>i\<close> is the split of the source into
  \<open>lx_past\<close> (the bytes before \<open>i\<close>, last first) and \<open>lx_rest\<close> (the bytes from \<open>i\<close> on).
\<close>

section \<open>Tokens\<close>

datatype token_kind =
    TK_EOF | TK_NEWLINE | TK_NAME | TK_INT_LITERAL | TK_FLT_LITERAL | TK_STRING_LITERAL
    | TK_BOL_LITERAL | TK_TYPE | TK_MAP | TK_FN | TK_REF | TK_TSK | TK_INIT | TK_INT
    | TK_FLT | TK_BOL | TK_STR | TK_NUL_TYPE | TK_ARR | TK_RET | TK_IF | TK_ELX
    | TK_ELSE | TK_LOOP | TK_PASS | TK_THROW | TK_FREE | TK_HOLD | TK_AS | TK_IS
    | TK_LPAREN | TK_RPAREN | TK_LBRACKET | TK_RBRACKET | TK_LBRACE | TK_RBRACE
    | TK_COLON | TK_EQUAL | TK_ARROW | TK_PLUSPLUS | TK_PLUSEQ | TK_MINUSEQ | TK_PLUS
    | TK_MINUS | TK_STAR | TK_SLASH | TK_PERCENT | TK_BANG | TK_LT | TK_LTE | TK_GT
    | TK_GTE | TK_EQEQ | TK_NEQ | TK_ANDAND | TK_OROR | TK_PIPE | TK_COMMA | TK_DOT

record token =
  tk_kind :: token_kind
  tk_text :: string
  tk_line :: nat
  tk_col :: nat

definition tok_push :: "token vec \<Rightarrow> token \<Rightarrow> token vec" where
  "tok_push v t = push_from 64 v t"

interpretation tokvec: growable vec_empty tok_push contents vec_ok
  by unfold_locales
    (simp_all add: vec_ok_empty contents_empty tok_push_def vec_ok_push_from contents_push_from)

text \<open>The chain of string comparisons of \<open>keyword_kind\<close>, as a table in the same order.\<close>

definition keyword_table :: "(string \<times> token_kind) list" where
  "keyword_table =
    [(''TYPE'', TK_TYPE),
     (''MAP'', TK_MAP),
     (''FN'', TK_FN),
     (''REF'', TK_REF),
     (''TSK'', TK_TSK),
     (''INIT'', TK_INIT),
     (''INT'', TK_INT),
     (''FLT'', TK_FLT),
     (''BOL'', TK_BOL),
     (''STR'', TK_STR),
     (''NUL'', TK_NUL_TYPE),
     (''ARR'', TK_ARR),
     (''ret'', TK_RET),
     (''if'', TK_IF),
     (''elx'', TK_ELX),
     (''else'', TK_ELSE),
     (''loop'', TK_LOOP),
     (''pass'', TK_PASS),
     (''throw'', TK_THROW),
     (''FREE'', TK_FREE),
     (''hold'', TK_HOLD),
     (''as'', TK_AS),
     (''IS'', TK_IS)]"

definition keyword_kind :: "string \<Rightarrow> token_kind" where
  "keyword_kind s =
     (case map_of keyword_table s of
        Some k \<Rightarrow> k
      | None \<Rightarrow> if s = ''true'' \<or> s = ''false'' then TK_BOL_LITERAL else TK_NAME)"

section \<open>The scanner's state\<close>

record lexer =
  lx_past :: string
  lx_rest :: string
  lx_line :: nat
  lx_col :: nat
  lx_out :: "token list"

definition eat :: "nat \<Rightarrow> lexer \<Rightarrow> lexer" where
  "eat n s = s\<lparr>lx_past := rev (take n (lx_rest s)) @ lx_past s, lx_rest := drop n (lx_rest s), lx_col := lx_col s + n\<rparr>"

definition push :: "token_kind \<Rightarrow> string \<Rightarrow> nat \<Rightarrow> nat \<Rightarrow> lexer \<Rightarrow> lexer" where
  "push k text l c s =
     s\<lparr>lx_out := lx_out s @ [\<lparr>tk_kind = k, tk_text = text, tk_line = l, tk_col = c\<rparr>]\<rparr>"

definition is_eol :: "char \<Rightarrow> bool" where
  "is_eol c \<longleftrightarrow> c = NL \<or> c = CR"

text \<open>The length of the line break at the head: \<open>\\r\\n\<close> counts as one break.\<close>

definition eol_len :: "string \<Rightarrow> nat" where
  "eol_len s = (if chead s = CR \<and> chead (tl s) = NL then 2 else 1)"

lemma eol_len_pos [simp]: "0 < eol_len s"
  by (simp add: eol_len_def)

section \<open>Comments and literals\<close>

text \<open>
  The scans below return how many bytes they pass over, with the position after them.
  \<open>block_comment\<close> stops in front of the closing \<open>*/\<close>; \<open>None\<close> is the end of the source.
\<close>

function block_comment :: "string \<Rightarrow> nat \<Rightarrow> nat \<Rightarrow> (nat \<times> nat \<times> nat) option" where
  "block_comment s l c =
     (if s = [] then None
      else if chead s = STAR \<and> chead (tl s) = SLASH then Some (0, l, c)
      else if is_eol (chead s)
        then map_option (\<lambda>(n, p). (n + eol_len s, p)) (block_comment (drop (eol_len s) s) (l + 1) 1)
      else map_option (\<lambda>(n, p). (n + 1, p)) (block_comment (tl s) l (c + 1)))"
  by pat_completeness auto
termination
  by (relation "measure (\<lambda>(s, l, c). length s)") (auto simp: eol_len_def)

declare block_comment.simps [simp del]

definition escape_char :: "char \<Rightarrow> char option" where
  "escape_char e =
     (if e = DQUOTE then Some DQUOTE
      else if e = BSLASH then Some BSLASH
      else if e = CHR ''n'' then Some NL
      else if e = CHR ''t'' then Some TAB
      else None)"

text \<open>\<open>tl0\<close>, \<open>tc0\<close> are the position of the opening quote, \<open>l\<close>, \<open>c\<close> the current one.\<close>

fun string_body ::
  "nat \<Rightarrow> nat \<Rightarrow> nat \<Rightarrow> string \<Rightarrow> nat \<Rightarrow> (string \<times> nat) result" where
  "string_body tl0 tc0 l [] c = Inl (Die tl0 tc0 ''unterminated string literal'')"
| "string_body tl0 tc0 l (ch # s) c =
     (if ch = DQUOTE then Inr ([], 0)
      else if is_eol ch then Inl (Die tl0 tc0 ''unterminated string literal'')
      else if ch = BSLASH then
        (case s of
           [] \<Rightarrow> Inl (Die l c ''unterminated string escape'')
         | e # s' \<Rightarrow>
             (case escape_char e of
                None \<Rightarrow> Inl (Die l c (''unsupported string escape '' @ [BSLASH, e]))
              | Some d \<Rightarrow>
                  rbind (string_body tl0 tc0 l s' (c + 2)) (\<lambda>(buf, n). Inr (d # buf, n + 2))))
      else rbind (string_body tl0 tc0 l s (c + 1)) (\<lambda>(buf, n). Inr (ch # buf, n + 1)))"

function raw_body :: "string \<Rightarrow> nat \<Rightarrow> nat \<Rightarrow> (string \<times> nat \<times> nat \<times> nat) option" where
  "raw_body s l c =
     (if s = [] then None
      else if chead s = BQUOTE then Some ([], 0, l, c)
      else if is_eol (chead s)
        then map_option (\<lambda>(buf, n, p). (NL # buf, n + eol_len s, p)) (raw_body (drop (eol_len s) s) (l + 1) 1)
      else map_option (\<lambda>(buf, n, p). (chead s # buf, n + 1, p)) (raw_body (tl s) l (c + 1)))"
  by pat_completeness auto
termination
  by (relation "measure (\<lambda>(s, l, c). length s)") (auto simp: eol_len_def)

declare raw_body.simps [simp del]

definition digits :: "string \<Rightarrow> nat" where
  "digits s = length (takeWhile isdigit s)"

text \<open>\<open>number s\<close>: whether the literal is a float, and its length; \<open>Inl\<close> is the column offset
  of the missing exponent digits.\<close>

definition number :: "string \<Rightarrow> nat + bool \<times> nat" where
  "number s =
     (let n1 = digits s; s1 = drop n1 s;
          frac = (chead s1 = CHR ''.'' \<and> isdigit (chead (tl s1)));
          n2 = (if frac then n1 + 1 + digits (tl s1) else n1); s2 = drop n2 s
      in if chead s2 = CHR ''e'' \<or> chead s2 = CHR ''E'' then
           (let n3 = n2 + 1;
                n4 = (if chead (drop n3 s) = CHR ''+'' \<or> chead (drop n3 s) = CHR ''-'' then n3 + 1 else n3)
            in if isdigit (chead (drop n4 s)) then Inr (True, n4 + digits (drop n4 s)) else Inl n4)
         else Inr (frac, n2))"

definition word_char :: "char \<Rightarrow> bool" where
  "word_char c \<longleftrightarrow> isalnum c \<or> c = CHR ''_''"

definition word_start :: "char \<Rightarrow> bool" where
  "word_start c \<longleftrightarrow> isalpha c \<or> c = CHR ''_''"

definition two_char_ops :: "(string \<times> token_kind) list" where
  "two_char_ops =
    [(''->'', TK_ARROW),
     (''++'', TK_PLUSPLUS),
     (''+='', TK_PLUSEQ),
     (''-='', TK_MINUSEQ),
     (''=='', TK_EQEQ),
     (''!='', TK_NEQ),
     (''<='', TK_LTE),
     (''>='', TK_GTE),
     (''&&'', TK_ANDAND),
     (''||'', TK_OROR)]"

definition one_char_ops :: "(char \<times> token_kind) list" where
  "one_char_ops =
    [(CHR ''('', TK_LPAREN),
     (CHR '')'', TK_RPAREN),
     (CHR ''['', TK_LBRACKET),
     (CHR '']'', TK_RBRACKET),
     (CHR ''{'', TK_LBRACE),
     (CHR ''}'', TK_RBRACE),
     (CHR '':'', TK_COLON),
     (CHR ''='', TK_EQUAL),
     (CHR ''+'', TK_PLUS),
     (CHR ''-'', TK_MINUS),
     (CHR ''*'', TK_STAR),
     (CHR ''/'', TK_SLASH),
     (CHR ''%'', TK_PERCENT),
     (CHR ''!'', TK_BANG),
     (CHR ''<'', TK_LT),
     (CHR ''>'', TK_GT),
     (CHR ''|'', TK_PIPE),
     (CHR '','', TK_COMMA),
     (CHR ''.'', TK_DOT)]"

section \<open>The branches of the loop\<close>

definition lex_eol :: "lexer \<Rightarrow> lexer result" where
  "lex_eol s =
     Inr ((push TK_NEWLINE [NL] (lx_line s) (lx_col s) (eat (eol_len (lx_rest s)) s))\<lparr>lx_line := lx_line s + 1, lx_col := 1\<rparr>)"

definition lex_line_comment :: "lexer \<Rightarrow> lexer result" where
  "lex_line_comment s =
     Inr (eat (2 + length (takeWhile (\<lambda>c. \<not> is_eol c) (drop 2 (lx_rest s)))) s)"

definition lex_block_comment :: "lexer \<Rightarrow> lexer result" where
  "lex_block_comment s =
     (case block_comment (drop 2 (lx_rest s)) (lx_line s) (lx_col s + 2) of
        None \<Rightarrow> Inl (Die (lx_line s) (lx_col s) ''unterminated block comment'')
      | Some (n, l, c) \<Rightarrow> Inr ((eat (n + 4) s)\<lparr>lx_line := l, lx_col := c + 2\<rparr>))"

definition lex_string :: "lexer \<Rightarrow> lexer result" where
  "lex_string s =
     rbind (string_body (lx_line s) (lx_col s) (lx_line s) (tl (lx_rest s)) (lx_col s + 1)) (\<lambda>(buf, n).
       Inr (push TK_STRING_LITERAL buf (lx_line s) (lx_col s) (eat (n + 2) s)))"

definition lex_raw_string :: "lexer \<Rightarrow> lexer result" where
  "lex_raw_string s =
     (case raw_body (tl (lx_rest s)) (lx_line s) (lx_col s + 1) of
        None \<Rightarrow> Inl (Die (lx_line s) (lx_col s) ''unterminated raw string literal'')
      | Some (buf, n, l, c) \<Rightarrow>
          Inr ((push TK_STRING_LITERAL buf (lx_line s) (lx_col s) (eat (n + 2) s))\<lparr>lx_line := l, lx_col := c + 1\<rparr>))"

definition lex_number :: "lexer \<Rightarrow> lexer result" where
  "lex_number s =
     (case number (lx_rest s) of
        Inl n \<Rightarrow> Inl (Die (lx_line s) (lx_col s + n) ''expected exponent digits'')
      | Inr (is_float, n) \<Rightarrow>
          Inr (push (if is_float then TK_FLT_LITERAL else TK_INT_LITERAL) (take n (lx_rest s))
                 (lx_line s) (lx_col s) (eat n s)))"

text \<open>
  The word branch. Right after a digit, an \<open>x\<close> followed by a word character or \<open>(\<close> is the
  separator of a shape literal such as \<open>[3x4]\<close> and a token of its own.
\<close>

definition splits_shape_x :: "lexer \<Rightarrow> bool" where
  "splits_shape_x s \<longleftrightarrow>
     chead (lx_rest s) = CHR ''x'' \<and> lx_past s \<noteq> [] \<and> isdigit (hd (lx_past s)) \<and>
     (word_char (chead (tl (lx_rest s))) \<or> chead (tl (lx_rest s)) = CHR ''('')"

definition lex_word :: "lexer \<Rightarrow> lexer result" where
  "lex_word s =
     (if splits_shape_x s then Inr (push TK_NAME ''x'' (lx_line s) (lx_col s) (eat 1 s))
      else (let text = takeWhile word_char (lx_rest s)
            in Inr (push (keyword_kind text) text (lx_line s) (lx_col s) (eat (length text) s))))"

definition lex_operator :: "lexer \<Rightarrow> lexer result" where
  "lex_operator s =
     (case map_of two_char_ops (take 2 (lx_rest s)) of
        Some k \<Rightarrow> Inr (push k (take 2 (lx_rest s)) (lx_line s) (lx_col s) (eat 2 s))
      | None \<Rightarrow>
          (case map_of one_char_ops (chead (lx_rest s)) of
             Some k \<Rightarrow> Inr (push k (take 1 (lx_rest s)) (lx_line s) (lx_col s) (eat 1 s))
           | None \<Rightarrow> Inl (Die (lx_line s) (lx_col s) (''unexpected character '' @ [SQUOTE, chead (lx_rest s), SQUOTE]))))"

definition lex_step :: "lexer \<Rightarrow> lexer result" where
  "lex_step s =
     (let ch = chead (lx_rest s); ch1 = chead (tl (lx_rest s)) in
      if ch = SPACE \<or> ch = TAB then Inr (eat 1 s)
      else if is_eol ch then lex_eol s
      else if ch = SLASH \<and> ch1 = SLASH then lex_line_comment s
      else if ch = SLASH \<and> ch1 = STAR then lex_block_comment s
      else if ch = DQUOTE then lex_string s
      else if ch = BQUOTE then lex_raw_string s
      else if isdigit ch then lex_number s
      else if word_start ch then lex_word s
      else lex_operator s)"

section \<open>Every round makes progress\<close>

lemma length_rest_eat [simp]: "length (lx_rest (eat n s)) = length (lx_rest s) - n"
  by (simp add: eat_def)

lemma push_fields [simp]:
  "lx_rest (push k t l c s) = lx_rest s" "lx_past (push k t l c s) = lx_past s"
  "lx_line (push k t l c s) = lx_line s" "lx_col (push k t l c s) = lx_col s"
  by (simp_all add: push_def)

lemma digits_pos: "isdigit (chead s) \<Longrightarrow> 0 < digits s"
  by (cases s) (auto simp: digits_def char_defs)

lemma number_pos: "isdigit (chead s) \<Longrightarrow> number s = Inr (f, n) \<Longrightarrow> 0 < n"
  by (auto simp: number_def Let_def split: if_splits dest: digits_pos)

lemma word_start_word_char [simp]: "word_start c \<Longrightarrow> word_char c"
  by (auto simp: word_start_def word_char_def)

lemma lex_step_progress:
  assumes "lx_rest s \<noteq> []" and "lex_step s = Inr s'"
  shows "length (lx_rest s') < length (lx_rest s)"
proof -
  obtain c cs where r: "lx_rest s = c # cs" using assms(1) by (cases "lx_rest s") auto
  show ?thesis
    using assms(2) number_pos [of "lx_rest s"]
    by (auto simp: r lex_step_def Let_def lex_eol_def lex_line_comment_def lex_block_comment_def
        lex_string_def lex_raw_string_def lex_number_def lex_word_def lex_operator_def rbind_eq_Inr
        split: if_splits option.splits sum.splits prod.splits)
qed

function lex_loop :: "lexer \<Rightarrow> token list result" where
  "lex_loop s =
     (if lx_rest s = [] then Inr (lx_out (push TK_EOF [] (lx_line s) (lx_col s) s))
      else rbind (lex_step s) lex_loop)"
  by pat_completeness auto
termination
  by (relation "measure (\<lambda>s. length (lx_rest s))") (auto dest: lex_step_progress)

declare lex_loop.simps [simp del]

definition lex_source :: "string \<Rightarrow> token list result" where
  "lex_source src = lex_loop \<lparr>lx_past = [], lx_rest = src, lx_line = 1, lx_col = 1, lx_out = []\<rparr>"

end
