(* ===== verification/Ast.thy ===== *)
theory Ast
  imports Lexer
begin

text \<open>
  The syntax tree (\<open>src/caster/ast/ast.c\<close>). A C \<open>Node\<close> is one struct with many optional
  fields; here its scalar fields are the record \<open>node_attrs\<close>, and a \<open>node\<close> is such a
  record with the twelve child pointers (null is \<open>None\<close>) and the nine child vectors. A
  store \<open>n->left = x\<close> is \<open>set_left x n\<close>, and \<open>vec_push(&n->args, x)\<close> is
  \<open>add_args x n\<close>. The parser shares a subtree only in \<open>IS\<close> checks, where two comparisons
  point at one subject; a tree here repeats it.
\<close>

section \<open>Nodes\<close>

datatype node_kind =
    NK_PROGRAM | NK_TYPE_ALIAS | NK_TYPE_STRUCT | NK_FIELD | NK_FN | NK_PARAM | NK_BLOCK
    | NK_VAR | NK_ASSIGN | NK_DESTRUCTURE | NK_EXPR_STMT | NK_RET | NK_IF | NK_ELX
    | NK_LOOP | NK_PASS | NK_THROW | NK_FREE | NK_AGG_STEP | NK_INT | NK_FLT | NK_BOL
    | NK_STR | NK_NIL | NK_NAME | NK_INIT | NK_ARRAY | NK_SHAPE | NK_MAP_LITERAL
    | NK_RECORD_LITERAL | NK_DOT | NK_UNARY | NK_BINARY | NK_CALL | NK_METHOD_CALL
    | NK_DECODE | NK_IF_EXPR

text \<open>
  The scalar fields. A null string is \<open>None\<close>. \<open>float_value\<close> is kept as the literal
  \<open>strtod\<close> reads, since its value plays no part before code generation.
\<close>

record node_attrs =
  a_kind :: node_kind
  n_line :: nat
  n_col :: nat
  checked_type :: "string option"
  declared_type :: "string option"
  n_name :: "string option"
  n_alias :: "string option"
  result_alias :: "string option"
  sort_dir :: "string option"
  n_text :: "string option"
  n_op :: "string option"
  c_expr :: "string option"
  loop_kind :: "string option"
  loop_hint :: "string option"
  index_name :: "string option"
  element_ptr :: "string option"
  inferred_decl :: bool
  ref_result_owned :: bool
  method_value :: bool
  implicit_deref :: bool
  mutation_target :: bool
  int_value :: int
  float_value :: string
  bool_value :: bool

datatype node = Node
    (attrs: node_attrs)
    (n_body: "node option")
    (n_value: "node option")
    (n_target: "node option")
    (n_expr: "node option")
    (n_condition: "node option")
    (n_then_block: "node option")
    (n_else_block: "node option")
    (n_object: "node option")
    (n_index: "node option")
    (n_callee: "node option")
    (n_left: "node option")
    (n_right: "node option")
    (n_type_decls: "node list")
    (n_globals: "node list")
    (n_fields: "node list")
    (n_functions: "node list")
    (n_params: "node list")
    (n_statements: "node list")
    (n_args: "node list")
    (n_elements: "node list")
    (n_elx_branches: "node list")

abbreviation n_kind :: "node \<Rightarrow> node_kind" where "n_kind n \<equiv> a_kind (attrs n)"

definition attrs_new :: "node_kind \<Rightarrow> nat \<Rightarrow> nat \<Rightarrow> node_attrs" where
  "attrs_new k l c =
     \<lparr>a_kind = k, n_line = l, n_col = c, checked_type = None, declared_type = None, n_name = None,
      n_alias = None, result_alias = None, sort_dir = None, n_text = None, n_op = None, c_expr = None,
      loop_kind = None, loop_hint = None, index_name = None, element_ptr = None,
      inferred_decl = False, ref_result_owned = False, method_value = False,
      implicit_deref = False, mutation_target = False, int_value = 0, float_value = [],
      bool_value = False\<rparr>"

lemma attrs_new_sel [simp]:
  "a_kind (attrs_new k l c) = k" "n_line (attrs_new k l c) = l" "n_col (attrs_new k l c) = c"
  "n_name (attrs_new k l c) = None" "n_op (attrs_new k l c) = None" "n_text (attrs_new k l c) = None"
  "declared_type (attrs_new k l c) = None" "checked_type (attrs_new k l c) = None"
  by (simp_all add: attrs_new_def)

definition node_new :: "node_kind \<Rightarrow> token \<Rightarrow> node" where
  "node_new k tok =
     Node (attrs_new k (tk_line tok) (tk_col tok))
       None None None None None None None None None None None None
       [] [] [] [] [] [] [] [] []"

lemma node_new_sel [simp]:
  "attrs (node_new k tok) = attrs_new k (tk_line tok) (tk_col tok)"
  "n_body (node_new k tok) = None" "n_value (node_new k tok) = None"
  "n_target (node_new k tok) = None" "n_expr (node_new k tok) = None"
  "n_condition (node_new k tok) = None" "n_then_block (node_new k tok) = None"
  "n_else_block (node_new k tok) = None" "n_object (node_new k tok) = None"
  "n_index (node_new k tok) = None" "n_callee (node_new k tok) = None"
  "n_left (node_new k tok) = None" "n_right (node_new k tok) = None"
  "n_type_decls (node_new k tok) = []" "n_globals (node_new k tok) = []"
  "n_fields (node_new k tok) = []" "n_functions (node_new k tok) = []"
  "n_params (node_new k tok) = []" "n_statements (node_new k tok) = []"
  "n_args (node_new k tok) = []" "n_elements (node_new k tok) = []"
  "n_elx_branches (node_new k tok) = []"
  by (simp_all add: node_new_def)

definition node_kind_name :: "node_kind \<Rightarrow> string" where
  "node_kind_name k =
     (case k of
      NK_PROGRAM \<Rightarrow> ''program'' | NK_TYPE_ALIAS \<Rightarrow> ''type_alias''
      | NK_TYPE_STRUCT \<Rightarrow> ''type_struct'' | NK_FIELD \<Rightarrow> ''field''
      | NK_FN \<Rightarrow> ''fn_decl'' | NK_PARAM \<Rightarrow> ''param''
      | NK_BLOCK \<Rightarrow> ''block'' | NK_VAR \<Rightarrow> ''var_decl''
      | NK_ASSIGN \<Rightarrow> ''assign'' | NK_DESTRUCTURE \<Rightarrow> ''destructure''
      | NK_EXPR_STMT \<Rightarrow> ''expr_stmt'' | NK_RET \<Rightarrow> ''ret''
      | NK_IF \<Rightarrow> ''if'' | NK_ELX \<Rightarrow> ''elx''
      | NK_LOOP \<Rightarrow> ''loop'' | NK_PASS \<Rightarrow> ''pass''
      | NK_THROW \<Rightarrow> ''throw'' | NK_FREE \<Rightarrow> ''free''
      | NK_AGG_STEP \<Rightarrow> ''agg_step'' | NK_INT \<Rightarrow> ''int''
      | NK_FLT \<Rightarrow> ''flt'' | NK_BOL \<Rightarrow> ''bol''
      | NK_STR \<Rightarrow> ''str'' | NK_NIL \<Rightarrow> ''NUL''
      | NK_NAME \<Rightarrow> ''name'' | NK_INIT \<Rightarrow> ''init''
      | NK_ARRAY \<Rightarrow> ''array_literal''
      | NK_SHAPE \<Rightarrow> ''shape_literal''
      | NK_MAP_LITERAL \<Rightarrow> ''map_literal''
      | NK_RECORD_LITERAL \<Rightarrow> ''record_literal''
      | NK_DOT \<Rightarrow> ''dot_access'' | NK_UNARY \<Rightarrow> ''unary''
      | NK_BINARY \<Rightarrow> ''binary'' | NK_CALL \<Rightarrow> ''call''
      | NK_METHOD_CALL \<Rightarrow> ''method_call'' | NK_DECODE \<Rightarrow> ''decode''
      | NK_IF_EXPR \<Rightarrow> ''if_expr'')"

subsection \<open>Stores into a node\<close>

definition upd_attrs :: "(node_attrs \<Rightarrow> node_attrs) \<Rightarrow> node \<Rightarrow> node" where
  "upd_attrs f n =
     Node (f (attrs n)) (n_body n) (n_value n) (n_target n) (n_expr n) (n_condition n)
       (n_then_block n) (n_else_block n) (n_object n) (n_index n) (n_callee n) (n_left n)
       (n_right n) (n_type_decls n) (n_globals n) (n_fields n) (n_functions n) (n_params n)
       (n_statements n) (n_args n) (n_elements n) (n_elx_branches n)"

definition set_body :: "node \<Rightarrow> node \<Rightarrow> node" where
  "set_body x n =
     Node (attrs n) (Some x) (n_value n) (n_target n) (n_expr n) (n_condition n)
       (n_then_block n) (n_else_block n) (n_object n) (n_index n) (n_callee n) (n_left n)
       (n_right n) (n_type_decls n) (n_globals n) (n_fields n) (n_functions n) (n_params n)
       (n_statements n) (n_args n) (n_elements n) (n_elx_branches n)"

definition set_value :: "node \<Rightarrow> node \<Rightarrow> node" where
  "set_value x n =
     Node (attrs n) (n_body n) (Some x) (n_target n) (n_expr n) (n_condition n) (n_then_block
       n) (n_else_block n) (n_object n) (n_index n) (n_callee n) (n_left n) (n_right n)
       (n_type_decls n) (n_globals n) (n_fields n) (n_functions n) (n_params n) (n_statements
       n) (n_args n) (n_elements n) (n_elx_branches n)"

definition set_target :: "node \<Rightarrow> node \<Rightarrow> node" where
  "set_target x n =
     Node (attrs n) (n_body n) (n_value n) (Some x) (n_expr n) (n_condition n) (n_then_block
       n) (n_else_block n) (n_object n) (n_index n) (n_callee n) (n_left n) (n_right n)
       (n_type_decls n) (n_globals n) (n_fields n) (n_functions n) (n_params n) (n_statements
       n) (n_args n) (n_elements n) (n_elx_branches n)"

definition set_expr :: "node \<Rightarrow> node \<Rightarrow> node" where
  "set_expr x n =
     Node (attrs n) (n_body n) (n_value n) (n_target n) (Some x) (n_condition n)
       (n_then_block n) (n_else_block n) (n_object n) (n_index n) (n_callee n) (n_left n)
       (n_right n) (n_type_decls n) (n_globals n) (n_fields n) (n_functions n) (n_params n)
       (n_statements n) (n_args n) (n_elements n) (n_elx_branches n)"

definition set_condition :: "node \<Rightarrow> node \<Rightarrow> node" where
  "set_condition x n =
     Node (attrs n) (n_body n) (n_value n) (n_target n) (n_expr n) (Some x) (n_then_block n)
       (n_else_block n) (n_object n) (n_index n) (n_callee n) (n_left n) (n_right n)
       (n_type_decls n) (n_globals n) (n_fields n) (n_functions n) (n_params n) (n_statements
       n) (n_args n) (n_elements n) (n_elx_branches n)"

definition set_then_block :: "node \<Rightarrow> node \<Rightarrow> node" where
  "set_then_block x n =
     Node (attrs n) (n_body n) (n_value n) (n_target n) (n_expr n) (n_condition n) (Some x)
       (n_else_block n) (n_object n) (n_index n) (n_callee n) (n_left n) (n_right n)
       (n_type_decls n) (n_globals n) (n_fields n) (n_functions n) (n_params n) (n_statements
       n) (n_args n) (n_elements n) (n_elx_branches n)"

definition set_else_block :: "node \<Rightarrow> node \<Rightarrow> node" where
  "set_else_block x n =
     Node (attrs n) (n_body n) (n_value n) (n_target n) (n_expr n) (n_condition n)
       (n_then_block n) (Some x) (n_object n) (n_index n) (n_callee n) (n_left n) (n_right n)
       (n_type_decls n) (n_globals n) (n_fields n) (n_functions n) (n_params n) (n_statements
       n) (n_args n) (n_elements n) (n_elx_branches n)"

definition set_object :: "node \<Rightarrow> node \<Rightarrow> node" where
  "set_object x n =
     Node (attrs n) (n_body n) (n_value n) (n_target n) (n_expr n) (n_condition n)
       (n_then_block n) (n_else_block n) (Some x) (n_index n) (n_callee n) (n_left n) (n_right
       n) (n_type_decls n) (n_globals n) (n_fields n) (n_functions n) (n_params n)
       (n_statements n) (n_args n) (n_elements n) (n_elx_branches n)"

definition set_index :: "node \<Rightarrow> node \<Rightarrow> node" where
  "set_index x n =
     Node (attrs n) (n_body n) (n_value n) (n_target n) (n_expr n) (n_condition n)
       (n_then_block n) (n_else_block n) (n_object n) (Some x) (n_callee n) (n_left n) (n_right
       n) (n_type_decls n) (n_globals n) (n_fields n) (n_functions n) (n_params n)
       (n_statements n) (n_args n) (n_elements n) (n_elx_branches n)"

definition set_callee :: "node \<Rightarrow> node \<Rightarrow> node" where
  "set_callee x n =
     Node (attrs n) (n_body n) (n_value n) (n_target n) (n_expr n) (n_condition n)
       (n_then_block n) (n_else_block n) (n_object n) (n_index n) (Some x) (n_left n) (n_right
       n) (n_type_decls n) (n_globals n) (n_fields n) (n_functions n) (n_params n)
       (n_statements n) (n_args n) (n_elements n) (n_elx_branches n)"

definition set_left :: "node \<Rightarrow> node \<Rightarrow> node" where
  "set_left x n =
     Node (attrs n) (n_body n) (n_value n) (n_target n) (n_expr n) (n_condition n)
       (n_then_block n) (n_else_block n) (n_object n) (n_index n) (n_callee n) (Some x)
       (n_right n) (n_type_decls n) (n_globals n) (n_fields n) (n_functions n) (n_params n)
       (n_statements n) (n_args n) (n_elements n) (n_elx_branches n)"

definition set_right :: "node \<Rightarrow> node \<Rightarrow> node" where
  "set_right x n =
     Node (attrs n) (n_body n) (n_value n) (n_target n) (n_expr n) (n_condition n)
       (n_then_block n) (n_else_block n) (n_object n) (n_index n) (n_callee n) (n_left n) (Some
       x) (n_type_decls n) (n_globals n) (n_fields n) (n_functions n) (n_params n)
       (n_statements n) (n_args n) (n_elements n) (n_elx_branches n)"

definition add_type_decls :: "node \<Rightarrow> node \<Rightarrow> node" where
  "add_type_decls x n =
     Node (attrs n) (n_body n) (n_value n) (n_target n) (n_expr n) (n_condition n)
       (n_then_block n) (n_else_block n) (n_object n) (n_index n) (n_callee n) (n_left n)
       (n_right n) (n_type_decls n @ [x]) (n_globals n) (n_fields n) (n_functions n) (n_params
       n) (n_statements n) (n_args n) (n_elements n) (n_elx_branches n)"

definition add_globals :: "node \<Rightarrow> node \<Rightarrow> node" where
  "add_globals x n =
     Node (attrs n) (n_body n) (n_value n) (n_target n) (n_expr n) (n_condition n)
       (n_then_block n) (n_else_block n) (n_object n) (n_index n) (n_callee n) (n_left n)
       (n_right n) (n_type_decls n) (n_globals n @ [x]) (n_fields n) (n_functions n) (n_params
       n) (n_statements n) (n_args n) (n_elements n) (n_elx_branches n)"

definition add_fields :: "node \<Rightarrow> node \<Rightarrow> node" where
  "add_fields x n =
     Node (attrs n) (n_body n) (n_value n) (n_target n) (n_expr n) (n_condition n)
       (n_then_block n) (n_else_block n) (n_object n) (n_index n) (n_callee n) (n_left n)
       (n_right n) (n_type_decls n) (n_globals n) (n_fields n @ [x]) (n_functions n) (n_params
       n) (n_statements n) (n_args n) (n_elements n) (n_elx_branches n)"

definition add_functions :: "node \<Rightarrow> node \<Rightarrow> node" where
  "add_functions x n =
     Node (attrs n) (n_body n) (n_value n) (n_target n) (n_expr n) (n_condition n)
       (n_then_block n) (n_else_block n) (n_object n) (n_index n) (n_callee n) (n_left n)
       (n_right n) (n_type_decls n) (n_globals n) (n_fields n) (n_functions n @ [x]) (n_params
       n) (n_statements n) (n_args n) (n_elements n) (n_elx_branches n)"

definition add_params :: "node \<Rightarrow> node \<Rightarrow> node" where
  "add_params x n =
     Node (attrs n) (n_body n) (n_value n) (n_target n) (n_expr n) (n_condition n)
       (n_then_block n) (n_else_block n) (n_object n) (n_index n) (n_callee n) (n_left n)
       (n_right n) (n_type_decls n) (n_globals n) (n_fields n) (n_functions n) (n_params n @
       [x]) (n_statements n) (n_args n) (n_elements n) (n_elx_branches n)"

definition add_statements :: "node \<Rightarrow> node \<Rightarrow> node" where
  "add_statements x n =
     Node (attrs n) (n_body n) (n_value n) (n_target n) (n_expr n) (n_condition n)
       (n_then_block n) (n_else_block n) (n_object n) (n_index n) (n_callee n) (n_left n)
       (n_right n) (n_type_decls n) (n_globals n) (n_fields n) (n_functions n) (n_params n)
       (n_statements n @ [x]) (n_args n) (n_elements n) (n_elx_branches n)"

definition add_args :: "node \<Rightarrow> node \<Rightarrow> node" where
  "add_args x n =
     Node (attrs n) (n_body n) (n_value n) (n_target n) (n_expr n) (n_condition n)
       (n_then_block n) (n_else_block n) (n_object n) (n_index n) (n_callee n) (n_left n)
       (n_right n) (n_type_decls n) (n_globals n) (n_fields n) (n_functions n) (n_params n)
       (n_statements n) (n_args n @ [x]) (n_elements n) (n_elx_branches n)"

definition add_elements :: "node \<Rightarrow> node \<Rightarrow> node" where
  "add_elements x n =
     Node (attrs n) (n_body n) (n_value n) (n_target n) (n_expr n) (n_condition n)
       (n_then_block n) (n_else_block n) (n_object n) (n_index n) (n_callee n) (n_left n)
       (n_right n) (n_type_decls n) (n_globals n) (n_fields n) (n_functions n) (n_params n)
       (n_statements n) (n_args n) (n_elements n @ [x]) (n_elx_branches n)"

definition add_elx_branches :: "node \<Rightarrow> node \<Rightarrow> node" where
  "add_elx_branches x n =
     Node (attrs n) (n_body n) (n_value n) (n_target n) (n_expr n) (n_condition n)
       (n_then_block n) (n_else_block n) (n_object n) (n_index n) (n_callee n) (n_left n)
       (n_right n) (n_type_decls n) (n_globals n) (n_fields n) (n_functions n) (n_params n)
       (n_statements n) (n_args n) (n_elements n) (n_elx_branches n @ [x])"

lemma set_body_sel [simp]:
  "attrs (set_body x n) = attrs n" "n_body (set_body x n) = Some x"
  "n_value (set_body x n) = n_value n" "n_target (set_body x n) = n_target n"
  "n_expr (set_body x n) = n_expr n" "n_condition (set_body x n) = n_condition n"
  "n_then_block (set_body x n) = n_then_block n" "n_else_block (set_body x n) = n_else_block n"
  "n_object (set_body x n) = n_object n" "n_index (set_body x n) = n_index n"
  "n_callee (set_body x n) = n_callee n" "n_left (set_body x n) = n_left n"
  "n_right (set_body x n) = n_right n" "n_type_decls (set_body x n) = n_type_decls n"
  "n_globals (set_body x n) = n_globals n" "n_fields (set_body x n) = n_fields n"
  "n_functions (set_body x n) = n_functions n" "n_params (set_body x n) = n_params n"
  "n_statements (set_body x n) = n_statements n" "n_args (set_body x n) = n_args n"
  "n_elements (set_body x n) = n_elements n" "n_elx_branches (set_body x n) = n_elx_branches n"
  by (simp_all add: set_body_def)

lemma set_value_sel [simp]:
  "attrs (set_value x n) = attrs n" "n_body (set_value x n) = n_body n"
  "n_value (set_value x n) = Some x" "n_target (set_value x n) = n_target n"
  "n_expr (set_value x n) = n_expr n" "n_condition (set_value x n) = n_condition n"
  "n_then_block (set_value x n) = n_then_block n" "n_else_block (set_value x n) = n_else_block n"
  "n_object (set_value x n) = n_object n" "n_index (set_value x n) = n_index n"
  "n_callee (set_value x n) = n_callee n" "n_left (set_value x n) = n_left n"
  "n_right (set_value x n) = n_right n" "n_type_decls (set_value x n) = n_type_decls n"
  "n_globals (set_value x n) = n_globals n" "n_fields (set_value x n) = n_fields n"
  "n_functions (set_value x n) = n_functions n" "n_params (set_value x n) = n_params n"
  "n_statements (set_value x n) = n_statements n" "n_args (set_value x n) = n_args n"
  "n_elements (set_value x n) = n_elements n" "n_elx_branches (set_value x n) = n_elx_branches n"
  by (simp_all add: set_value_def)

lemma set_target_sel [simp]:
  "attrs (set_target x n) = attrs n" "n_body (set_target x n) = n_body n"
  "n_value (set_target x n) = n_value n" "n_target (set_target x n) = Some x"
  "n_expr (set_target x n) = n_expr n" "n_condition (set_target x n) = n_condition n"
  "n_then_block (set_target x n) = n_then_block n"
  "n_else_block (set_target x n) = n_else_block n" "n_object (set_target x n) = n_object n"
  "n_index (set_target x n) = n_index n" "n_callee (set_target x n) = n_callee n"
  "n_left (set_target x n) = n_left n" "n_right (set_target x n) = n_right n"
  "n_type_decls (set_target x n) = n_type_decls n" "n_globals (set_target x n) = n_globals n"
  "n_fields (set_target x n) = n_fields n" "n_functions (set_target x n) = n_functions n"
  "n_params (set_target x n) = n_params n" "n_statements (set_target x n) = n_statements n"
  "n_args (set_target x n) = n_args n" "n_elements (set_target x n) = n_elements n"
  "n_elx_branches (set_target x n) = n_elx_branches n"
  by (simp_all add: set_target_def)

lemma set_expr_sel [simp]:
  "attrs (set_expr x n) = attrs n" "n_body (set_expr x n) = n_body n"
  "n_value (set_expr x n) = n_value n" "n_target (set_expr x n) = n_target n"
  "n_expr (set_expr x n) = Some x" "n_condition (set_expr x n) = n_condition n"
  "n_then_block (set_expr x n) = n_then_block n" "n_else_block (set_expr x n) = n_else_block n"
  "n_object (set_expr x n) = n_object n" "n_index (set_expr x n) = n_index n"
  "n_callee (set_expr x n) = n_callee n" "n_left (set_expr x n) = n_left n"
  "n_right (set_expr x n) = n_right n" "n_type_decls (set_expr x n) = n_type_decls n"
  "n_globals (set_expr x n) = n_globals n" "n_fields (set_expr x n) = n_fields n"
  "n_functions (set_expr x n) = n_functions n" "n_params (set_expr x n) = n_params n"
  "n_statements (set_expr x n) = n_statements n" "n_args (set_expr x n) = n_args n"
  "n_elements (set_expr x n) = n_elements n" "n_elx_branches (set_expr x n) = n_elx_branches n"
  by (simp_all add: set_expr_def)

lemma set_condition_sel [simp]:
  "attrs (set_condition x n) = attrs n" "n_body (set_condition x n) = n_body n"
  "n_value (set_condition x n) = n_value n" "n_target (set_condition x n) = n_target n"
  "n_expr (set_condition x n) = n_expr n" "n_condition (set_condition x n) = Some x"
  "n_then_block (set_condition x n) = n_then_block n"
  "n_else_block (set_condition x n) = n_else_block n" "n_object (set_condition x n) = n_object n"
  "n_index (set_condition x n) = n_index n" "n_callee (set_condition x n) = n_callee n"
  "n_left (set_condition x n) = n_left n" "n_right (set_condition x n) = n_right n"
  "n_type_decls (set_condition x n) = n_type_decls n"
  "n_globals (set_condition x n) = n_globals n" "n_fields (set_condition x n) = n_fields n"
  "n_functions (set_condition x n) = n_functions n" "n_params (set_condition x n) = n_params n"
  "n_statements (set_condition x n) = n_statements n" "n_args (set_condition x n) = n_args n"
  "n_elements (set_condition x n) = n_elements n"
  "n_elx_branches (set_condition x n) = n_elx_branches n"
  by (simp_all add: set_condition_def)

lemma set_then_block_sel [simp]:
  "attrs (set_then_block x n) = attrs n" "n_body (set_then_block x n) = n_body n"
  "n_value (set_then_block x n) = n_value n" "n_target (set_then_block x n) = n_target n"
  "n_expr (set_then_block x n) = n_expr n" "n_condition (set_then_block x n) = n_condition n"
  "n_then_block (set_then_block x n) = Some x"
  "n_else_block (set_then_block x n) = n_else_block n"
  "n_object (set_then_block x n) = n_object n" "n_index (set_then_block x n) = n_index n"
  "n_callee (set_then_block x n) = n_callee n" "n_left (set_then_block x n) = n_left n"
  "n_right (set_then_block x n) = n_right n" "n_type_decls (set_then_block x n) = n_type_decls n"
  "n_globals (set_then_block x n) = n_globals n" "n_fields (set_then_block x n) = n_fields n"
  "n_functions (set_then_block x n) = n_functions n" "n_params (set_then_block x n) = n_params n"
  "n_statements (set_then_block x n) = n_statements n" "n_args (set_then_block x n) = n_args n"
  "n_elements (set_then_block x n) = n_elements n"
  "n_elx_branches (set_then_block x n) = n_elx_branches n"
  by (simp_all add: set_then_block_def)

lemma set_else_block_sel [simp]:
  "attrs (set_else_block x n) = attrs n" "n_body (set_else_block x n) = n_body n"
  "n_value (set_else_block x n) = n_value n" "n_target (set_else_block x n) = n_target n"
  "n_expr (set_else_block x n) = n_expr n" "n_condition (set_else_block x n) = n_condition n"
  "n_then_block (set_else_block x n) = n_then_block n"
  "n_else_block (set_else_block x n) = Some x" "n_object (set_else_block x n) = n_object n"
  "n_index (set_else_block x n) = n_index n" "n_callee (set_else_block x n) = n_callee n"
  "n_left (set_else_block x n) = n_left n" "n_right (set_else_block x n) = n_right n"
  "n_type_decls (set_else_block x n) = n_type_decls n"
  "n_globals (set_else_block x n) = n_globals n" "n_fields (set_else_block x n) = n_fields n"
  "n_functions (set_else_block x n) = n_functions n" "n_params (set_else_block x n) = n_params n"
  "n_statements (set_else_block x n) = n_statements n" "n_args (set_else_block x n) = n_args n"
  "n_elements (set_else_block x n) = n_elements n"
  "n_elx_branches (set_else_block x n) = n_elx_branches n"
  by (simp_all add: set_else_block_def)

lemma set_object_sel [simp]:
  "attrs (set_object x n) = attrs n" "n_body (set_object x n) = n_body n"
  "n_value (set_object x n) = n_value n" "n_target (set_object x n) = n_target n"
  "n_expr (set_object x n) = n_expr n" "n_condition (set_object x n) = n_condition n"
  "n_then_block (set_object x n) = n_then_block n"
  "n_else_block (set_object x n) = n_else_block n" "n_object (set_object x n) = Some x"
  "n_index (set_object x n) = n_index n" "n_callee (set_object x n) = n_callee n"
  "n_left (set_object x n) = n_left n" "n_right (set_object x n) = n_right n"
  "n_type_decls (set_object x n) = n_type_decls n" "n_globals (set_object x n) = n_globals n"
  "n_fields (set_object x n) = n_fields n" "n_functions (set_object x n) = n_functions n"
  "n_params (set_object x n) = n_params n" "n_statements (set_object x n) = n_statements n"
  "n_args (set_object x n) = n_args n" "n_elements (set_object x n) = n_elements n"
  "n_elx_branches (set_object x n) = n_elx_branches n"
  by (simp_all add: set_object_def)

lemma set_index_sel [simp]:
  "attrs (set_index x n) = attrs n" "n_body (set_index x n) = n_body n"
  "n_value (set_index x n) = n_value n" "n_target (set_index x n) = n_target n"
  "n_expr (set_index x n) = n_expr n" "n_condition (set_index x n) = n_condition n"
  "n_then_block (set_index x n) = n_then_block n" "n_else_block (set_index x n) = n_else_block n"
  "n_object (set_index x n) = n_object n" "n_index (set_index x n) = Some x"
  "n_callee (set_index x n) = n_callee n" "n_left (set_index x n) = n_left n"
  "n_right (set_index x n) = n_right n" "n_type_decls (set_index x n) = n_type_decls n"
  "n_globals (set_index x n) = n_globals n" "n_fields (set_index x n) = n_fields n"
  "n_functions (set_index x n) = n_functions n" "n_params (set_index x n) = n_params n"
  "n_statements (set_index x n) = n_statements n" "n_args (set_index x n) = n_args n"
  "n_elements (set_index x n) = n_elements n" "n_elx_branches (set_index x n) = n_elx_branches n"
  by (simp_all add: set_index_def)

lemma set_callee_sel [simp]:
  "attrs (set_callee x n) = attrs n" "n_body (set_callee x n) = n_body n"
  "n_value (set_callee x n) = n_value n" "n_target (set_callee x n) = n_target n"
  "n_expr (set_callee x n) = n_expr n" "n_condition (set_callee x n) = n_condition n"
  "n_then_block (set_callee x n) = n_then_block n"
  "n_else_block (set_callee x n) = n_else_block n" "n_object (set_callee x n) = n_object n"
  "n_index (set_callee x n) = n_index n" "n_callee (set_callee x n) = Some x"
  "n_left (set_callee x n) = n_left n" "n_right (set_callee x n) = n_right n"
  "n_type_decls (set_callee x n) = n_type_decls n" "n_globals (set_callee x n) = n_globals n"
  "n_fields (set_callee x n) = n_fields n" "n_functions (set_callee x n) = n_functions n"
  "n_params (set_callee x n) = n_params n" "n_statements (set_callee x n) = n_statements n"
  "n_args (set_callee x n) = n_args n" "n_elements (set_callee x n) = n_elements n"
  "n_elx_branches (set_callee x n) = n_elx_branches n"
  by (simp_all add: set_callee_def)

lemma set_left_sel [simp]:
  "attrs (set_left x n) = attrs n" "n_body (set_left x n) = n_body n"
  "n_value (set_left x n) = n_value n" "n_target (set_left x n) = n_target n"
  "n_expr (set_left x n) = n_expr n" "n_condition (set_left x n) = n_condition n"
  "n_then_block (set_left x n) = n_then_block n" "n_else_block (set_left x n) = n_else_block n"
  "n_object (set_left x n) = n_object n" "n_index (set_left x n) = n_index n"
  "n_callee (set_left x n) = n_callee n" "n_left (set_left x n) = Some x"
  "n_right (set_left x n) = n_right n" "n_type_decls (set_left x n) = n_type_decls n"
  "n_globals (set_left x n) = n_globals n" "n_fields (set_left x n) = n_fields n"
  "n_functions (set_left x n) = n_functions n" "n_params (set_left x n) = n_params n"
  "n_statements (set_left x n) = n_statements n" "n_args (set_left x n) = n_args n"
  "n_elements (set_left x n) = n_elements n" "n_elx_branches (set_left x n) = n_elx_branches n"
  by (simp_all add: set_left_def)

lemma set_right_sel [simp]:
  "attrs (set_right x n) = attrs n" "n_body (set_right x n) = n_body n"
  "n_value (set_right x n) = n_value n" "n_target (set_right x n) = n_target n"
  "n_expr (set_right x n) = n_expr n" "n_condition (set_right x n) = n_condition n"
  "n_then_block (set_right x n) = n_then_block n" "n_else_block (set_right x n) = n_else_block n"
  "n_object (set_right x n) = n_object n" "n_index (set_right x n) = n_index n"
  "n_callee (set_right x n) = n_callee n" "n_left (set_right x n) = n_left n"
  "n_right (set_right x n) = Some x" "n_type_decls (set_right x n) = n_type_decls n"
  "n_globals (set_right x n) = n_globals n" "n_fields (set_right x n) = n_fields n"
  "n_functions (set_right x n) = n_functions n" "n_params (set_right x n) = n_params n"
  "n_statements (set_right x n) = n_statements n" "n_args (set_right x n) = n_args n"
  "n_elements (set_right x n) = n_elements n" "n_elx_branches (set_right x n) = n_elx_branches n"
  by (simp_all add: set_right_def)

lemma add_type_decls_sel [simp]:
  "attrs (add_type_decls x n) = attrs n" "n_body (add_type_decls x n) = n_body n"
  "n_value (add_type_decls x n) = n_value n" "n_target (add_type_decls x n) = n_target n"
  "n_expr (add_type_decls x n) = n_expr n" "n_condition (add_type_decls x n) = n_condition n"
  "n_then_block (add_type_decls x n) = n_then_block n"
  "n_else_block (add_type_decls x n) = n_else_block n"
  "n_object (add_type_decls x n) = n_object n" "n_index (add_type_decls x n) = n_index n"
  "n_callee (add_type_decls x n) = n_callee n" "n_left (add_type_decls x n) = n_left n"
  "n_right (add_type_decls x n) = n_right n"
  "n_type_decls (add_type_decls x n) = n_type_decls n @ [x]"
  "n_globals (add_type_decls x n) = n_globals n" "n_fields (add_type_decls x n) = n_fields n"
  "n_functions (add_type_decls x n) = n_functions n" "n_params (add_type_decls x n) = n_params n"
  "n_statements (add_type_decls x n) = n_statements n" "n_args (add_type_decls x n) = n_args n"
  "n_elements (add_type_decls x n) = n_elements n"
  "n_elx_branches (add_type_decls x n) = n_elx_branches n"
  by (simp_all add: add_type_decls_def)

lemma add_globals_sel [simp]:
  "attrs (add_globals x n) = attrs n" "n_body (add_globals x n) = n_body n"
  "n_value (add_globals x n) = n_value n" "n_target (add_globals x n) = n_target n"
  "n_expr (add_globals x n) = n_expr n" "n_condition (add_globals x n) = n_condition n"
  "n_then_block (add_globals x n) = n_then_block n"
  "n_else_block (add_globals x n) = n_else_block n" "n_object (add_globals x n) = n_object n"
  "n_index (add_globals x n) = n_index n" "n_callee (add_globals x n) = n_callee n"
  "n_left (add_globals x n) = n_left n" "n_right (add_globals x n) = n_right n"
  "n_type_decls (add_globals x n) = n_type_decls n"
  "n_globals (add_globals x n) = n_globals n @ [x]" "n_fields (add_globals x n) = n_fields n"
  "n_functions (add_globals x n) = n_functions n" "n_params (add_globals x n) = n_params n"
  "n_statements (add_globals x n) = n_statements n" "n_args (add_globals x n) = n_args n"
  "n_elements (add_globals x n) = n_elements n"
  "n_elx_branches (add_globals x n) = n_elx_branches n"
  by (simp_all add: add_globals_def)

lemma add_fields_sel [simp]:
  "attrs (add_fields x n) = attrs n" "n_body (add_fields x n) = n_body n"
  "n_value (add_fields x n) = n_value n" "n_target (add_fields x n) = n_target n"
  "n_expr (add_fields x n) = n_expr n" "n_condition (add_fields x n) = n_condition n"
  "n_then_block (add_fields x n) = n_then_block n"
  "n_else_block (add_fields x n) = n_else_block n" "n_object (add_fields x n) = n_object n"
  "n_index (add_fields x n) = n_index n" "n_callee (add_fields x n) = n_callee n"
  "n_left (add_fields x n) = n_left n" "n_right (add_fields x n) = n_right n"
  "n_type_decls (add_fields x n) = n_type_decls n" "n_globals (add_fields x n) = n_globals n"
  "n_fields (add_fields x n) = n_fields n @ [x]" "n_functions (add_fields x n) = n_functions n"
  "n_params (add_fields x n) = n_params n" "n_statements (add_fields x n) = n_statements n"
  "n_args (add_fields x n) = n_args n" "n_elements (add_fields x n) = n_elements n"
  "n_elx_branches (add_fields x n) = n_elx_branches n"
  by (simp_all add: add_fields_def)

lemma add_functions_sel [simp]:
  "attrs (add_functions x n) = attrs n" "n_body (add_functions x n) = n_body n"
  "n_value (add_functions x n) = n_value n" "n_target (add_functions x n) = n_target n"
  "n_expr (add_functions x n) = n_expr n" "n_condition (add_functions x n) = n_condition n"
  "n_then_block (add_functions x n) = n_then_block n"
  "n_else_block (add_functions x n) = n_else_block n" "n_object (add_functions x n) = n_object n"
  "n_index (add_functions x n) = n_index n" "n_callee (add_functions x n) = n_callee n"
  "n_left (add_functions x n) = n_left n" "n_right (add_functions x n) = n_right n"
  "n_type_decls (add_functions x n) = n_type_decls n"
  "n_globals (add_functions x n) = n_globals n" "n_fields (add_functions x n) = n_fields n"
  "n_functions (add_functions x n) = n_functions n @ [x]"
  "n_params (add_functions x n) = n_params n" "n_statements (add_functions x n) = n_statements n"
  "n_args (add_functions x n) = n_args n" "n_elements (add_functions x n) = n_elements n"
  "n_elx_branches (add_functions x n) = n_elx_branches n"
  by (simp_all add: add_functions_def)

lemma add_params_sel [simp]:
  "attrs (add_params x n) = attrs n" "n_body (add_params x n) = n_body n"
  "n_value (add_params x n) = n_value n" "n_target (add_params x n) = n_target n"
  "n_expr (add_params x n) = n_expr n" "n_condition (add_params x n) = n_condition n"
  "n_then_block (add_params x n) = n_then_block n"
  "n_else_block (add_params x n) = n_else_block n" "n_object (add_params x n) = n_object n"
  "n_index (add_params x n) = n_index n" "n_callee (add_params x n) = n_callee n"
  "n_left (add_params x n) = n_left n" "n_right (add_params x n) = n_right n"
  "n_type_decls (add_params x n) = n_type_decls n" "n_globals (add_params x n) = n_globals n"
  "n_fields (add_params x n) = n_fields n" "n_functions (add_params x n) = n_functions n"
  "n_params (add_params x n) = n_params n @ [x]" "n_statements (add_params x n) = n_statements n"
  "n_args (add_params x n) = n_args n" "n_elements (add_params x n) = n_elements n"
  "n_elx_branches (add_params x n) = n_elx_branches n"
  by (simp_all add: add_params_def)

lemma add_statements_sel [simp]:
  "attrs (add_statements x n) = attrs n" "n_body (add_statements x n) = n_body n"
  "n_value (add_statements x n) = n_value n" "n_target (add_statements x n) = n_target n"
  "n_expr (add_statements x n) = n_expr n" "n_condition (add_statements x n) = n_condition n"
  "n_then_block (add_statements x n) = n_then_block n"
  "n_else_block (add_statements x n) = n_else_block n"
  "n_object (add_statements x n) = n_object n" "n_index (add_statements x n) = n_index n"
  "n_callee (add_statements x n) = n_callee n" "n_left (add_statements x n) = n_left n"
  "n_right (add_statements x n) = n_right n" "n_type_decls (add_statements x n) = n_type_decls n"
  "n_globals (add_statements x n) = n_globals n" "n_fields (add_statements x n) = n_fields n"
  "n_functions (add_statements x n) = n_functions n" "n_params (add_statements x n) = n_params n"
  "n_statements (add_statements x n) = n_statements n @ [x]"
  "n_args (add_statements x n) = n_args n" "n_elements (add_statements x n) = n_elements n"
  "n_elx_branches (add_statements x n) = n_elx_branches n"
  by (simp_all add: add_statements_def)

lemma add_args_sel [simp]:
  "attrs (add_args x n) = attrs n" "n_body (add_args x n) = n_body n"
  "n_value (add_args x n) = n_value n" "n_target (add_args x n) = n_target n"
  "n_expr (add_args x n) = n_expr n" "n_condition (add_args x n) = n_condition n"
  "n_then_block (add_args x n) = n_then_block n" "n_else_block (add_args x n) = n_else_block n"
  "n_object (add_args x n) = n_object n" "n_index (add_args x n) = n_index n"
  "n_callee (add_args x n) = n_callee n" "n_left (add_args x n) = n_left n"
  "n_right (add_args x n) = n_right n" "n_type_decls (add_args x n) = n_type_decls n"
  "n_globals (add_args x n) = n_globals n" "n_fields (add_args x n) = n_fields n"
  "n_functions (add_args x n) = n_functions n" "n_params (add_args x n) = n_params n"
  "n_statements (add_args x n) = n_statements n" "n_args (add_args x n) = n_args n @ [x]"
  "n_elements (add_args x n) = n_elements n" "n_elx_branches (add_args x n) = n_elx_branches n"
  by (simp_all add: add_args_def)

lemma add_elements_sel [simp]:
  "attrs (add_elements x n) = attrs n" "n_body (add_elements x n) = n_body n"
  "n_value (add_elements x n) = n_value n" "n_target (add_elements x n) = n_target n"
  "n_expr (add_elements x n) = n_expr n" "n_condition (add_elements x n) = n_condition n"
  "n_then_block (add_elements x n) = n_then_block n"
  "n_else_block (add_elements x n) = n_else_block n" "n_object (add_elements x n) = n_object n"
  "n_index (add_elements x n) = n_index n" "n_callee (add_elements x n) = n_callee n"
  "n_left (add_elements x n) = n_left n" "n_right (add_elements x n) = n_right n"
  "n_type_decls (add_elements x n) = n_type_decls n" "n_globals (add_elements x n) = n_globals n"
  "n_fields (add_elements x n) = n_fields n" "n_functions (add_elements x n) = n_functions n"
  "n_params (add_elements x n) = n_params n" "n_statements (add_elements x n) = n_statements n"
  "n_args (add_elements x n) = n_args n" "n_elements (add_elements x n) = n_elements n @ [x]"
  "n_elx_branches (add_elements x n) = n_elx_branches n"
  by (simp_all add: add_elements_def)

lemma add_elx_branches_sel [simp]:
  "attrs (add_elx_branches x n) = attrs n" "n_body (add_elx_branches x n) = n_body n"
  "n_value (add_elx_branches x n) = n_value n" "n_target (add_elx_branches x n) = n_target n"
  "n_expr (add_elx_branches x n) = n_expr n" "n_condition (add_elx_branches x n) = n_condition n"
  "n_then_block (add_elx_branches x n) = n_then_block n"
  "n_else_block (add_elx_branches x n) = n_else_block n"
  "n_object (add_elx_branches x n) = n_object n" "n_index (add_elx_branches x n) = n_index n"
  "n_callee (add_elx_branches x n) = n_callee n" "n_left (add_elx_branches x n) = n_left n"
  "n_right (add_elx_branches x n) = n_right n"
  "n_type_decls (add_elx_branches x n) = n_type_decls n"
  "n_globals (add_elx_branches x n) = n_globals n" "n_fields (add_elx_branches x n) = n_fields n"
  "n_functions (add_elx_branches x n) = n_functions n"
  "n_params (add_elx_branches x n) = n_params n"
  "n_statements (add_elx_branches x n) = n_statements n"
  "n_args (add_elx_branches x n) = n_args n" "n_elements (add_elx_branches x n) = n_elements n"
  "n_elx_branches (add_elx_branches x n) = n_elx_branches n @ [x]"
  by (simp_all add: add_elx_branches_def)

lemma upd_attrs_sel [simp]:
  "attrs (upd_attrs f n) = f (attrs n)" "n_body (upd_attrs f n) = n_body n"
  "n_value (upd_attrs f n) = n_value n" "n_target (upd_attrs f n) = n_target n"
  "n_expr (upd_attrs f n) = n_expr n" "n_condition (upd_attrs f n) = n_condition n"
  "n_then_block (upd_attrs f n) = n_then_block n" "n_else_block (upd_attrs f n) = n_else_block n"
  "n_object (upd_attrs f n) = n_object n" "n_index (upd_attrs f n) = n_index n"
  "n_callee (upd_attrs f n) = n_callee n" "n_left (upd_attrs f n) = n_left n"
  "n_right (upd_attrs f n) = n_right n" "n_type_decls (upd_attrs f n) = n_type_decls n"
  "n_globals (upd_attrs f n) = n_globals n" "n_fields (upd_attrs f n) = n_fields n"
  "n_functions (upd_attrs f n) = n_functions n" "n_params (upd_attrs f n) = n_params n"
  "n_statements (upd_attrs f n) = n_statements n" "n_args (upd_attrs f n) = n_args n"
  "n_elements (upd_attrs f n) = n_elements n" "n_elx_branches (upd_attrs f n) = n_elx_branches n"
  by (simp_all add: upd_attrs_def)

end
