(* ===== verification/TypeText.thy ===== *)
theory TypeText
  imports Ast
begin

text \<open>
  Types are strings throughout the compiler: \<open>ARR[INT]\<close>, \<open>MAP[STR,ARR[INT]]\<close>,
  \<open>FN[INT->BOL]\<close>. This theory models the helpers that build, recognise and take apart
  those strings (\<open>src/caster/ast/ast.c\<close>, \<open>split_map_type\<close> and the predicates of
  \<open>src/caster/analyze/types.c\<close>) and shows that they implement an algebra of types
  \<open>cty\<close>, of which the string is the faithful rendering \<open>show_ty\<close>.
\<close>

section \<open>The string operations of the source\<close>

text \<open>\<open>type_eq\<close> on pointers: null equals nothing, not even null.\<close>

definition type_eq :: "string option \<Rightarrow> string option \<Rightarrow> bool" where
  "type_eq a b \<longleftrightarrow> a \<noteq> None \<and> b \<noteq> None \<and> a = b"

definition bracketed :: "string \<Rightarrow> string \<Rightarrow> bool" where
  "bracketed head t \<longleftrightarrow> starts_with t head \<and> t \<noteq> [] \<and> last t = CHR '']''"

definition is_array_type :: "string \<Rightarrow> bool" where "is_array_type t = bracketed ''ARR['' t"
definition is_map_type :: "string \<Rightarrow> bool" where "is_map_type t = bracketed ''MAP['' t"
definition is_ref_type :: "string \<Rightarrow> bool" where "is_ref_type t = bracketed ''REF['' t"
definition is_task_type :: "string \<Rightarrow> bool" where "is_task_type t = bracketed ''TSK['' t"
definition is_fn_type :: "string \<Rightarrow> bool" where "is_fn_type t = bracketed ''FN['' t"

definition array_type :: "string \<Rightarrow> string" where "array_type e = ''ARR['' @ e @ '']''"
definition map_type :: "string \<Rightarrow> string \<Rightarrow> string" where
  "map_type k v = ''MAP['' @ k @ '','' @ v @ '']''"
definition ref_type :: "string \<Rightarrow> string" where "ref_type e = ''REF['' @ e @ '']''"
definition task_type :: "string \<Rightarrow> string" where "task_type e = ''TSK['' @ e @ '']''"
definition fn_type :: "string \<Rightarrow> string \<Rightarrow> string" where
  "fn_type i r = ''FN['' @ i @ ''->'' @ r @ '']''"

text \<open>\<open>xstrndup(t + 4, strlen(t) - 5)\<close>, the text between the brackets.\<close>

definition inner4 :: "string \<Rightarrow> string" where
  "inner4 t = take (length t - 5) (drop 4 t)"

definition array_elem_type :: "string \<Rightarrow> string" where "array_elem_type t = inner4 t"
definition ref_target_type :: "string \<Rightarrow> string" where "ref_target_type t = inner4 t"
definition task_result_type :: "string \<Rightarrow> string" where "task_result_type t = inner4 t"

text \<open>
  The scan of \<open>split_fn_type\<close>, over the text between \<open>FN[\<close> and the last byte: the first
  \<open>->\<close> at bracket depth 0 splits it. \<open>acc\<close> is the text passed so far; \<open>None\<close> stands for
  the two null results.
\<close>

fun split_arrow :: "int \<Rightarrow> string \<Rightarrow> string \<Rightarrow> (string \<times> string) option" where
  "split_arrow depth acc (c # d # s) =
     (if c = CHR ''['' then split_arrow (depth + 1) (acc @ [c]) (d # s)
      else if c = CHR '']'' then split_arrow (depth - 1) (acc @ [c]) (d # s)
      else if c = CHR ''-'' \<and> d = CHR ''>'' \<and> depth = 0 then Some (acc, s)
      else split_arrow depth (acc @ [c]) (d # s))"
| "split_arrow depth acc s = None"

definition split_fn_type :: "string \<Rightarrow> (string \<times> string) option" where
  "split_fn_type t = split_arrow 0 [] (butlast (drop 3 t))"

definition fn_input_type :: "string \<Rightarrow> string option" where
  "fn_input_type t = map_option fst (split_fn_type t)"

definition fn_output_type :: "string \<Rightarrow> string option" where
  "fn_output_type t = map_option snd (split_fn_type t)"

fun split_comma :: "int \<Rightarrow> string \<Rightarrow> string \<Rightarrow> (string \<times> string) option" where
  "split_comma depth acc [] = None"
| "split_comma depth acc (c # s) =
     (if c = CHR ''['' then split_comma (depth + 1) (acc @ [c]) s
      else if c = CHR '']'' then split_comma (depth - 1) (acc @ [c]) s
      else if c = CHR '','' \<and> depth = 0 then Some (acc, s)
      else split_comma depth (acc @ [c]) s)"

definition split_map_type :: "string \<Rightarrow> (string \<times> string) option" where
  "split_map_type t = (if \<not> is_map_type t then None else split_comma 0 [] (butlast (drop 4 t)))"

definition map_key_type :: "string \<Rightarrow> string option" where
  "map_key_type t = map_option fst (split_map_type t)"

definition map_value_type :: "string \<Rightarrow> string option" where
  "map_value_type t = map_option snd (split_map_type t)"

definition is_loop_ctx_type :: "string \<Rightarrow> bool" where "is_loop_ctx_type t = bracketed ''CTX['' t"
definition loop_ctx_type :: "string \<Rightarrow> string" where "loop_ctx_type e = ''CTX['' @ e @ '']''"
definition loop_ctx_element_type :: "string \<Rightarrow> string" where "loop_ctx_element_type t = inner4 t"

definition is_unknown_type :: "string \<Rightarrow> bool" where
  "is_unknown_type t \<longleftrightarrow> t = ''?'' \<or> t = ''ARR[?]''"
definition is_shape_type :: "string \<Rightarrow> bool" where "is_shape_type t \<longleftrightarrow> t = ''SHAPE''"
definition is_open_data_type :: "string \<Rightarrow> bool" where "is_open_data_type t \<longleftrightarrow> t = ''OPEN''"
definition is_unknown_array_type :: "string \<Rightarrow> bool" where
  "is_unknown_array_type t \<longleftrightarrow> t = ''ARR[?]''"

definition is_builtin_type_name :: "string \<Rightarrow> bool" where
  "is_builtin_type_name s \<longleftrightarrow>
     s \<in> {''INT'', ''FLT'', ''BOL'', ''STR'', ''NUL'', ''ARR'', ''MAP'', ''REF'', ''TSK''}"

section \<open>The algebra of types\<close>

datatype cty =
    TName string
  | TArr cty
  | TMap cty cty
  | TRef cty
  | TTsk cty
  | TFn cty cty

fun show_ty :: "cty \<Rightarrow> string" where
  "show_ty (TName s) = s"
| "show_ty (TArr e) = array_type (show_ty e)"
| "show_ty (TMap k v) = map_type (show_ty k) (show_ty v)"
| "show_ty (TRef e) = ref_type (show_ty e)"
| "show_ty (TTsk e) = task_type (show_ty e)"
| "show_ty (TFn i r) = fn_type (show_ty i) (show_ty r)"

text \<open>Type names are non-empty words, as the lexer produces them.\<close>

definition name_ok :: "string \<Rightarrow> bool" where
  "name_ok s \<longleftrightarrow> s \<noteq> [] \<and> (\<forall>c \<in> set s. word_char c)"

fun wf_ty :: "cty \<Rightarrow> bool" where
  "wf_ty (TName s) = name_ok s"
| "wf_ty (TArr e) = wf_ty e"
| "wf_ty (TMap k v) = (wf_ty k \<and> wf_ty v)"
| "wf_ty (TRef e) = wf_ty e"
| "wf_ty (TTsk e) = wf_ty e"
| "wf_ty (TFn i r) = (wf_ty i \<and> wf_ty r)"

lemmas type_build_defs = array_type_def map_type_def ref_type_def task_type_def fn_type_def
lemmas type_test_defs = is_array_type_def is_map_type_def is_ref_type_def is_task_type_def
  is_fn_type_def bracketed_def starts_with_def

lemma word_char_not_punct:
  "word_char c \<Longrightarrow> c \<noteq> CHR ''['' \<and> c \<noteq> CHR '']'' \<and> c \<noteq> CHR '','' \<and> c \<noteq> CHR ''-'' \<and> c \<noteq> CHR ''>''"
  by (auto simp: word_char_def char_defs)

lemma name_ok_last: "name_ok s \<Longrightarrow> last s \<noteq> CHR '']''"
  using word_char_not_punct [of "last s"] by (auto simp: name_ok_def)

text \<open>Names are never bracketed, so the five tests tell the constructors apart.\<close>

lemma type_tests_show [simp]:
  assumes "wf_ty t"
  shows "is_array_type (show_ty t) \<longleftrightarrow> (\<exists>e. t = TArr e)"
    and "is_map_type (show_ty t) \<longleftrightarrow> (\<exists>k v. t = TMap k v)"
    and "is_ref_type (show_ty t) \<longleftrightarrow> (\<exists>e. t = TRef e)"
    and "is_task_type (show_ty t) \<longleftrightarrow> (\<exists>e. t = TTsk e)"
    and "is_fn_type (show_ty t) \<longleftrightarrow> (\<exists>i r. t = TFn i r)"
  using assms name_ok_last
  by (cases t; auto simp: type_test_defs type_build_defs)+

lemma inner4_bracketed: "length head = 4 \<Longrightarrow> inner4 (head @ e @ '']'') = e"
  by (simp add: inner4_def)

lemma inner_type_show [simp]:
  "array_elem_type (array_type e) = e"
  "ref_target_type (ref_type e) = e"
  "task_result_type (task_type e) = e"
  "loop_ctx_element_type (loop_ctx_type e) = e"
  by (simp_all add: array_elem_type_def array_type_def ref_target_type_def ref_type_def
      task_result_type_def task_type_def loop_ctx_element_type_def loop_ctx_type_def inner4_def)

text \<open>A name holds no bracket, comma or arrow, so both scans pass over it.\<close>

lemma split_comma_name:
  "(\<forall>c \<in> set s. word_char c) \<Longrightarrow> split_comma d acc (s @ rest) = split_comma d (acc @ s) rest"
  by (induction s arbitrary: acc) (auto dest: word_char_not_punct)

lemma split_arrow_step:
  "r \<noteq> [] \<Longrightarrow> c \<noteq> CHR ''['' \<Longrightarrow> c \<noteq> CHR '']'' \<Longrightarrow> c \<noteq> CHR ''-'' \<or> d \<noteq> 0
   \<Longrightarrow> split_arrow d acc (c # r) = split_arrow d (acc @ [c]) r"
  by (cases r) auto

lemma split_arrow_bracket:
  "r \<noteq> [] \<Longrightarrow> split_arrow d acc (CHR ''['' # r) = split_arrow (d + 1) (acc @ ''['') r"
  "r \<noteq> [] \<Longrightarrow> split_arrow d acc (CHR '']'' # r) = split_arrow (d - 1) (acc @ '']'') r"
  by (cases r; simp)+

lemma split_arrow_name:
  "(\<forall>c \<in> set s. word_char c) \<Longrightarrow> rest \<noteq> []
   \<Longrightarrow> split_arrow d acc (s @ rest) = split_arrow d (acc @ s) rest"
  by (induction s arbitrary: acc) (auto simp: split_arrow_step dest: word_char_not_punct)

text \<open>Inside a rendered type every comma and arrow is at a positive depth.\<close>

lemma split_comma_show:
  "wf_ty t \<Longrightarrow> 0 \<le> d \<Longrightarrow> split_comma d acc (show_ty t @ rest) = split_comma d (acc @ show_ty t) rest"
  by (induction t arbitrary: d acc rest)
    (auto simp: type_build_defs name_ok_def split_comma_name)

lemma split_arrow_show:
  "wf_ty t \<Longrightarrow> 0 \<le> d \<Longrightarrow> rest \<noteq> []
   \<Longrightarrow> split_arrow d acc (show_ty t @ rest) = split_arrow d (acc @ show_ty t) rest"
  by (induction t arbitrary: d acc rest)
    (auto simp: type_build_defs name_ok_def split_arrow_name split_arrow_step split_arrow_bracket)

lemma butlast_snoc_append: "butlast (xs @ ys @ [z]) = xs @ ys"
  by (simp add: butlast_append)

lemma split_map_type_show [simp]:
  assumes "wf_ty k" "wf_ty v"
  shows "split_map_type (map_type (show_ty k) (show_ty v)) = Some (show_ty k, show_ty v)"
proof -
  have "is_map_type (map_type (show_ty k) (show_ty v))"
    using type_tests_show(2) [of "TMap k v"] assms by simp
  moreover have "butlast (drop 4 (map_type (show_ty k) (show_ty v))) = show_ty k @ '','' @ show_ty v"
    by (simp add: map_type_def butlast_append)
  ultimately show ?thesis
    using split_comma_show [of k 0 "[]" "'','' @ show_ty v"] assms by (simp add: split_map_type_def)
qed

lemma show_ty_nonempty: "wf_ty t \<Longrightarrow> show_ty t \<noteq> []"
  by (cases t) (auto simp: type_build_defs name_ok_def)

lemma split_fn_type_show [simp]:
  assumes "wf_ty i" "wf_ty r"
  shows "split_fn_type (fn_type (show_ty i) (show_ty r)) = Some (show_ty i, show_ty r)"
proof -
  have "butlast (drop 3 (fn_type (show_ty i) (show_ty r))) = show_ty i @ ''->'' @ show_ty r"
    by (simp add: fn_type_def butlast_append)
  then show ?thesis
    using split_arrow_show [of i 0 "''->'' @ show_ty r" "[]"] assms
    by (simp add: split_fn_type_def)
qed

lemma map_fn_parts_show [simp]:
  assumes "wf_ty a" "wf_ty b"
  shows "map_key_type (map_type (show_ty a) (show_ty b)) = Some (show_ty a)"
    "map_value_type (map_type (show_ty a) (show_ty b)) = Some (show_ty b)"
    "fn_input_type (fn_type (show_ty a) (show_ty b)) = Some (show_ty a)"
    "fn_output_type (fn_type (show_ty a) (show_ty b)) = Some (show_ty b)"
  using assms
  by (simp_all add: map_key_type_def map_value_type_def fn_input_type_def fn_output_type_def)

text \<open>The constructor of a type, recovered from its text by the source's own operations.\<close>

fun read_ty :: "nat \<Rightarrow> string \<Rightarrow> cty" where
  "read_ty 0 t = TName t"
| "read_ty (Suc n) t =
     (if is_array_type t then TArr (read_ty n (array_elem_type t))
      else if is_map_type t
        then TMap (read_ty n (the (map_key_type t))) (read_ty n (the (map_value_type t)))
      else if is_ref_type t then TRef (read_ty n (ref_target_type t))
      else if is_task_type t then TTsk (read_ty n (task_result_type t))
      else if is_fn_type t
        then TFn (read_ty n (the (fn_input_type t))) (read_ty n (the (fn_output_type t)))
      else TName t)"

lemma type_tests_unary [simp]:
  assumes "wf_ty a"
  shows "is_array_type (array_type (show_ty a))"
    "is_ref_type (ref_type (show_ty a))" "is_task_type (task_type (show_ty a))"
    "\<not> is_array_type (ref_type (show_ty a))" "\<not> is_array_type (task_type (show_ty a))"
    "\<not> is_map_type (ref_type (show_ty a))" "\<not> is_map_type (task_type (show_ty a))"
    "\<not> is_ref_type (task_type (show_ty a))"
  using assms type_tests_show [of "TArr a"] type_tests_show [of "TRef a"]
    type_tests_show [of "TTsk a"]
  by simp_all

lemma type_tests_binary [simp]:
  assumes "wf_ty a" "wf_ty b"
  shows "is_map_type (map_type (show_ty a) (show_ty b))"
    "is_fn_type (fn_type (show_ty a) (show_ty b))"
    "\<not> is_array_type (map_type (show_ty a) (show_ty b))"
    "\<not> is_array_type (fn_type (show_ty a) (show_ty b))"
    "\<not> is_map_type (fn_type (show_ty a) (show_ty b))"
    "\<not> is_ref_type (fn_type (show_ty a) (show_ty b))"
    "\<not> is_task_type (fn_type (show_ty a) (show_ty b))"
  using assms type_tests_show [of "TMap a b"] type_tests_show [of "TFn a b"]
  by simp_all

lemma type_tests_name [simp]:
  assumes "name_ok s"
  shows "\<not> is_array_type s" "\<not> is_map_type s" "\<not> is_ref_type s" "\<not> is_task_type s"
    "\<not> is_fn_type s"
  using assms type_tests_show [of "TName s"] by simp_all

lemma read_ty_show: "wf_ty t \<Longrightarrow> size t \<le> n \<Longrightarrow> read_ty n (show_ty t) = t"
proof (induction t arbitrary: n)
  case (TName s)
  then show ?case by (cases n) auto
next
  case (TArr t)
  then show ?case by (cases n) auto
next
  case (TMap t1 t2)
  then show ?case by (cases n) auto
next
  case (TRef t)
  then show ?case by (cases n) auto
next
  case (TTsk t)
  then show ?case by (cases n) auto
next
  case (TFn t1 t2)
  then show ?case by (cases n) auto
qed

lemma show_ty_inject: "wf_ty t \<Longrightarrow> wf_ty u \<Longrightarrow> show_ty t = show_ty u \<Longrightarrow> t = u"
proof -
  assume w: "wf_ty t" "wf_ty u" and eq: "show_ty t = show_ty u"
  have "read_ty (size t + size u) (show_ty t) = t" by (rule read_ty_show [OF w(1)]) simp
  moreover have "read_ty (size t + size u) (show_ty u) = u" by (rule read_ty_show [OF w(2)]) simp
  ultimately show "t = u" unfolding eq by (rule trans [OF sym])
qed

section \<open>Properties\<close>

text \<open>
  C12: Type texts round trip: the operations that take a type text apart recover, from the text the
  builders wrote, the type it was built from, however deep types nest in MAP and FN.
\<close>

theorem type_text_roundtrip:
  assumes "wf_ty t"
  shows "read_ty (size t) (show_ty t) = t"
  by (rule read_ty_show [OF assms order_refl])

theorem type_text_roundtrip_witness:
  "read_ty (size (TMap (TName ''STR'') (TFn (TArr (TName ''INT'')) (TName ''Item''))))
     (show_ty (TMap (TName ''STR'') (TFn (TArr (TName ''INT'')) (TName ''Item''))))
   = TMap (TName ''STR'') (TFn (TArr (TName ''INT'')) (TName ''Item''))"
  by (rule type_text_roundtrip) (simp add: name_ok_def word_char_def char_defs)

end
