(* ===== verification/ParserCore.thy ===== *)
theory ParserCore
  imports TypeText
begin

text \<open>
  The parser's machinery (\<open>src/caster/parse/parser.c\<close>): its state, reads of the token
  array, sequencing, loops, the type grammar and the lookahead scans. A parse function takes
  the state and returns an error or a value with the new state. A read outside the token
  array is the error \<open>OutOfBounds\<close>, never a value; \<open>ParserSafe\<close> shows it does not occur.
\<close>

section \<open>State and sequencing\<close>

record parser =
  toks :: "token list"
  pos :: nat
  allow_newline_ops :: bool

type_synonym 'a parse = "parser \<Rightarrow> ('a \<times> parser) result"

definition ret :: "'a \<Rightarrow> 'a parse" where
  "ret x p = Inr (x, p)"

definition pbind :: "'a parse \<Rightarrow> ('a \<Rightarrow> 'b parse) \<Rightarrow> 'b parse" where
  "pbind m f p = (case m p of Inl e \<Rightarrow> Inl e | Inr (x, q) \<Rightarrow> f x q)"

definition pthen :: "'a parse \<Rightarrow> 'b parse \<Rightarrow> 'b parse" where
  "pthen m k = pbind m (\<lambda>_. k)"

definition pif :: "bool parse \<Rightarrow> 'a parse \<Rightarrow> 'a parse \<Rightarrow> 'a parse" where
  "pif c a b = pbind c (\<lambda>x. if x then a else b)"

text \<open>The short-circuit operators \<open>&&\<close> and \<open>||\<close> over tests that read tokens.\<close>

definition pand :: "bool parse \<Rightarrow> bool parse \<Rightarrow> bool parse" where
  "pand a b = pif a b (ret False)"

definition por :: "bool parse \<Rightarrow> bool parse \<Rightarrow> bool parse" where
  "por a b = pif a (ret True) b"

definition fail :: "error \<Rightarrow> 'a parse" where
  "fail e p = Inl e"

definition die :: "token \<Rightarrow> string \<Rightarrow> 'a parse" where
  "die t msg = fail (Die (tk_line t) (tk_col t) msg)"

definition die_node :: "node \<Rightarrow> string \<Rightarrow> 'a parse" where
  "die_node n msg = fail (Die (n_line (attrs n)) (n_col (attrs n)) msg)"

text \<open>
  \<open>ploop b s\<close> is a \<open>for (;;)\<close> loop with loop variables \<open>s\<close>: the body continues with
  \<open>Inl s'\<close> and leaves with \<open>Inr x\<close>. Its fuel is one more than the tokens left when it
  starts, which is enough because every loop of the parser consumes a token per round.
\<close>

primrec ploop_n :: "nat \<Rightarrow> ('s \<Rightarrow> ('s + 'a) parse) \<Rightarrow> 's \<Rightarrow> 'a parse" where
  "ploop_n 0 b s = fail OutOfFuel"
| "ploop_n (Suc n) b s = pbind (b s) (\<lambda>r. case r of Inl s' \<Rightarrow> ploop_n n b s' | Inr x \<Rightarrow> ret x)"

definition remaining :: "parser \<Rightarrow> nat" where
  "remaining p = length (toks p) - pos p"

definition ploop :: "('s \<Rightarrow> ('s + 'a) parse) \<Rightarrow> 's \<Rightarrow> 'a parse" where
  "ploop b s p = ploop_n (Suc (remaining p)) b s p"

section \<open>Reading tokens\<close>

definition peek :: "nat \<Rightarrow> token parse" where
  "peek i p = (if pos p + i < length (toks p) then Inr (toks p ! (pos p + i), p) else Inl OutOfBounds)"

definition cur :: "token parse" where
  "cur = peek 0"

definition prev :: "token parse" where
  "prev p = (if 0 < pos p \<and> pos p - 1 < length (toks p) then Inr (toks p ! (pos p - 1), p) else Inl OutOfBounds)"

definition bump :: "unit parse" where
  "bump p = Inr ((), p\<lparr>pos := pos p + 1\<rparr>)"

definition get_pos :: "nat parse" where
  "get_pos p = Inr (pos p, p)"

definition set_pos :: "nat \<Rightarrow> unit parse" where
  "set_pos i p = Inr ((), p\<lparr>pos := i\<rparr>)"

definition get_newline_ops :: "bool parse" where
  "get_newline_ops p = Inr (allow_newline_ops p, p)"

definition set_newline_ops :: "bool \<Rightarrow> unit parse" where
  "set_newline_ops b p = Inr ((), p\<lparr>allow_newline_ops := b\<rparr>)"

definition cur_is :: "token_kind \<Rightarrow> bool parse" where
  "cur_is k = pbind cur (\<lambda>t. ret (tk_kind t = k))"

definition peek_is :: "nat \<Rightarrow> token_kind \<Rightarrow> bool parse" where
  "peek_is i k = pbind (peek i) (\<lambda>t. ret (tk_kind t = k))"

definition match :: "token_kind \<Rightarrow> bool parse" where
  "match k = pbind cur (\<lambda>t. if tk_kind t = k then pthen bump (ret True) else ret False)"

primrec match_any :: "token_kind list \<Rightarrow> bool parse" where
  "match_any [] = ret False"
| "match_any (k # ks) = por (match k) (match_any ks)"

definition expect :: "token_kind \<Rightarrow> string \<Rightarrow> token parse" where
  "expect k msg = pbind cur (\<lambda>t. if tk_kind t \<noteq> k then die t msg else pthen bump (ret t))"

definition skip_newlines :: "unit parse" where
  "skip_newlines = ploop (\<lambda>_. pif (match TK_NEWLINE) (ret (Inl ())) (ret (Inr ()))) ()"

section \<open>Types\<close>

definition normalize_source_type_name :: "string \<Rightarrow> string" where
  "normalize_source_type_name s =
     (if s = ''Req'' then ''HttpReq'' else if s = ''Res'' then ''HttpRes'' else s)"

definition bracketed_type ::
  "(string \<times> token) parse \<Rightarrow> string \<Rightarrow> string \<Rightarrow> (string \<Rightarrow> string) \<Rightarrow> token \<Rightarrow> (string \<times> token) parse" where
  "bracketed_type self open_msg close_msg build tok =
     pthen (expect TK_LBRACKET open_msg) (pbind self (\<lambda>(ty, _).
     pthen (expect TK_RBRACKET close_msg) (ret (build ty, tok))))"

definition parse_type_step :: "(string \<times> token) parse \<Rightarrow> (string \<times> token) parse" where
  "parse_type_step self =
     pbind cur (\<lambda>tok.
     pif (match TK_ARR)
       (bracketed_type self ''expected '[' after ARR'' ''expected ']' after ARR element type'' array_type tok)
     (pif (match TK_MAP)
       (pthen (expect TK_LBRACKET ''expected '[' after MAP'') (pbind self (\<lambda>(key, _).
        pthen (expect TK_COMMA ''expected ',' after MAP key type'') (pbind self (\<lambda>(val, _).
        pthen (expect TK_RBRACKET ''expected ']' after MAP value type'')
          (ret (map_type key val, tok)))))))
     (pif (match TK_REF)
       (bracketed_type self ''expected '[' after REF'' ''expected ']' after REF target type'' ref_type tok)
     (pif (match TK_TSK)
       (bracketed_type self ''expected '[' after TSK'' ''expected ']' after TSK target type'' task_type tok)
     (pif (match TK_FN)
       (pthen (expect TK_LBRACKET ''expected '[' after FN'') (pbind self (\<lambda>(input, _).
        pthen (expect TK_ARROW ''expected '->' in FN type'') (pbind self (\<lambda>(output, _).
        pthen (expect TK_RBRACKET ''expected ']' after FN return type'')
          (ret (fn_type input output, tok)))))))
     (pif (match_any [TK_INT, TK_FLT, TK_BOL, TK_STR, TK_NUL_TYPE])
       (ret (tk_text tok, tok))
     (pif (match TK_NAME)
       (pif (match TK_DOT)
         (pbind (expect TK_NAME (''expected type name after module '.'' @ [SQUOTE])) (\<lambda>member.
            if tk_text tok = ''WEB'' then ret (normalize_source_type_name (tk_text member), tok)
            else if tk_text tok = ''BUF'' \<and> tk_text member = ''Buffer'' then ret (''Buffer'', tok)
            else ret (tk_text tok @ ''_'' @ tk_text member, tok)))
         (ret (normalize_source_type_name (tk_text tok), tok)))
     (die tok ''expected type''))))))))"

primrec parse_type_n :: "nat \<Rightarrow> (string \<times> token) parse" where
  "parse_type_n 0 = fail OutOfFuel"
| "parse_type_n (Suc n) = parse_type_step (parse_type_n n)"

definition parse_type :: "(string \<times> token) parse" where
  "parse_type p = parse_type_n (Suc (remaining p)) p"

section \<open>Lookahead\<close>

definition is_collection_body_method :: "string \<Rightarrow> bool" where
  "is_collection_body_method s \<longleftrightarrow> s = ''upd'' \<or> s = ''filt'' \<or> s = ''agg''"

definition match_method_name :: "token option parse" where
  "match_method_name =
     pbind cur (\<lambda>t. if tk_kind t \<in> {TK_NAME, TK_ARR, TK_STR, TK_INIT}
                    then pthen bump (ret (Some t)) else ret None)"

definition starts_method_body :: "string \<Rightarrow> bool parse" where
  "starts_method_body method =
     pif (por (ret (\<not> is_collection_body_method method)) (cur_is TK_RPAREN)) (ret False)
     (pbind cur (\<lambda>t.
        if method = ''agg'' \<and> tk_kind t \<in> {TK_PLUSEQ, TK_MINUS} then ret True
        else if tk_kind t \<in> {TK_RET, TK_IF, TK_LOOP, TK_PASS, TK_THROW} then ret True
        else if tk_kind t = TK_NAME then
          pbind (peek 1) (\<lambda>next. ret (tk_kind next \<in> {TK_EQUAL, TK_PLUSEQ, TK_PLUSPLUS}))
        else ret False))"

definition starts_inline_array_map :: "bool parse" where
  "starts_inline_array_map =
     pand (cur_is TK_ARR) (pand (peek_is 1 TK_LBRACKET)
       (pand (peek_is 2 TK_MAP) (peek_is 3 TK_RBRACKET)))"

definition is_shape_separator :: "bool parse" where
  "is_shape_separator = pbind cur (\<lambda>t. ret (tk_kind t = TK_NAME \<and> tk_text t = ''x''))"

definition starts_type :: "bool parse" where
  "starts_type =
     pbind cur (\<lambda>t.
       if tk_kind t \<in> {TK_INT, TK_FLT, TK_BOL, TK_STR, TK_NUL_TYPE, TK_ARR, TK_MAP, TK_REF, TK_TSK}
       then ret True
       else pand (ret (tk_kind t = TK_NAME))
              (por (peek_is 1 TK_NAME)
                   (pand (peek_is 1 TK_DOT) (pand (peek_is 2 TK_NAME) (peek_is 3 TK_NAME)))))"

text \<open>The scans below work on indices of the token array and move no position.\<close>

definition tok_kind_at :: "parser \<Rightarrow> nat \<Rightarrow> token_kind result" where
  "tok_kind_at p i = (if i < length (toks p) then Inr (tk_kind (toks p ! i)) else Inl OutOfBounds)"

function scan_newlines :: "parser \<Rightarrow> nat \<Rightarrow> nat result" where
  "scan_newlines p i =
     (if i < length (toks p)
      then (if tk_kind (toks p ! i) = TK_NEWLINE then scan_newlines p (i + 1) else Inr i)
      else Inl OutOfBounds)"
  by pat_completeness auto
termination
  by (relation "measure (\<lambda>(p, i). length (toks p) - i)") auto

declare scan_newlines.simps [simp del]

text \<open>Scans answer \<open>None\<close> for false and \<open>Some out\<close> for true with the end index.\<close>

definition scan_expect :: "parser \<Rightarrow> token_kind \<Rightarrow> nat \<Rightarrow> (nat \<Rightarrow> nat option result) \<Rightarrow> nat option result" where
  "scan_expect p k i next =
     rbind (tok_kind_at p i) (\<lambda>k'. if k' \<noteq> k then Inr None else next (i + 1))"

definition scan_inner ::
  "(nat \<Rightarrow> nat option result) \<Rightarrow> parser \<Rightarrow> nat \<Rightarrow> (nat \<Rightarrow> nat option result) \<Rightarrow> nat option result" where
  "scan_inner self p i next =
     rbind (scan_newlines p i) (\<lambda>i1. rbind (self i1) (\<lambda>r.
       case r of None \<Rightarrow> Inr None | Some i2 \<Rightarrow> rbind (scan_newlines p i2) next))"

definition scan_bracketed_type :: "(nat \<Rightarrow> nat option result) \<Rightarrow> parser \<Rightarrow> nat \<Rightarrow> nat option result" where
  "scan_bracketed_type self p i =
     scan_expect p TK_LBRACKET i (\<lambda>i1. scan_inner self p i1 (\<lambda>i2.
       scan_expect p TK_RBRACKET i2 (\<lambda>i3. Inr (Some i3))))"

definition scan_pair_type ::
  "(nat \<Rightarrow> nat option result) \<Rightarrow> parser \<Rightarrow> token_kind \<Rightarrow> nat \<Rightarrow> nat option result" where
  "scan_pair_type self p sep i =
     scan_expect p TK_LBRACKET i (\<lambda>i1. scan_inner self p i1 (\<lambda>i2.
       scan_expect p sep i2 (\<lambda>i3. scan_inner self p i3 (\<lambda>i4.
         scan_expect p TK_RBRACKET i4 (\<lambda>i5. Inr (Some i5))))))"

definition scan_type_name :: "parser \<Rightarrow> nat \<Rightarrow> nat option result" where
  "scan_type_name p i =
     rbind (tok_kind_at p i) (\<lambda>k1.
       if k1 \<noteq> TK_DOT then Inr (Some i)
       else rbind (tok_kind_at p (i + 1)) (\<lambda>k2.
         if k2 \<noteq> TK_NAME then Inr (Some i)
         else rbind (tok_kind_at p (i + 2)) (\<lambda>after.
           if after \<noteq> TK_COMMA \<and> after \<noteq> TK_RBRACE \<and> after \<noteq> TK_AS
           then Inr (Some (i + 2)) else Inr (Some i))))"

primrec scan_type_end_n :: "nat \<Rightarrow> parser \<Rightarrow> nat \<Rightarrow> nat option result" where
  "scan_type_end_n 0 p i = Inl OutOfFuel"
| "scan_type_end_n (Suc n) p i =
     rbind (tok_kind_at p i) (\<lambda>k.
       if k \<in> {TK_INT, TK_FLT, TK_BOL, TK_STR, TK_NUL_TYPE} then Inr (Some (i + 1))
       else if k \<in> {TK_ARR, TK_REF, TK_TSK} then scan_bracketed_type (scan_type_end_n n p) p (i + 1)
       else if k = TK_MAP then scan_pair_type (scan_type_end_n n p) p TK_COMMA (i + 1)
       else if k = TK_FN then scan_pair_type (scan_type_end_n n p) p TK_ARROW (i + 1)
       else if k = TK_NAME then scan_type_name p (i + 1)
       else Inr None)"

definition scan_type_end :: "parser \<Rightarrow> nat \<Rightarrow> nat option result" where
  "scan_type_end p i = scan_type_end_n (Suc (length (toks p) - i)) p i"

definition starts_destructure_scan :: "parser \<Rightarrow> bool result" where
  "starts_destructure_scan p =
     rbind (tok_kind_at p (pos p)) (\<lambda>k0.
       if k0 \<noteq> TK_LBRACE then Inr False
       else rbind (scan_newlines p (pos p + 1)) (\<lambda>i1. rbind (tok_kind_at p i1) (\<lambda>k1.
         if k1 = TK_RBRACE then Inr False
         else rbind (scan_type_end p i1) (\<lambda>r.
           case r of None \<Rightarrow> Inr False
           | Some i2 \<Rightarrow> rbind (scan_newlines p i2) (\<lambda>i3. rbind (tok_kind_at p i3) (\<lambda>k3.
               Inr (k3 = TK_NAME \<or> k3 = TK_DOT)))))))"

definition starts_destructure :: "bool parse" where
  "starts_destructure p = rbind (starts_destructure_scan p) (\<lambda>b. Inr (b, p))"

section \<open>Numbers and operators\<close>

text \<open>
  \<open>strtoll(text, NULL, 10)\<close> on a literal's digits: the decimal value, saturated at
  \<open>LLONG_MAX\<close>; the parser does not look at \<open>errno\<close>.
\<close>

definition decimal :: "string \<Rightarrow> int" where
  "decimal s = foldl (\<lambda>n c. 10 * n + int (code c - 48)) 0 (takeWhile isdigit s)"

definition llong_max :: int where
  "llong_max = 2 ^ 63 - 1"

definition strtoll :: "string \<Rightarrow> int" where
  "strtoll s = min (decimal s) llong_max"

definition precedence :: "token_kind \<Rightarrow> (nat \<times> string) option" where
  "precedence k =
     (case k of
        TK_OROR \<Rightarrow> Some (1, ''||'') | TK_ANDAND \<Rightarrow> Some (2, ''&&'')
      | TK_EQEQ \<Rightarrow> Some (3, ''=='') | TK_NEQ \<Rightarrow> Some (3, ''!='')
      | TK_LT \<Rightarrow> Some (4, ''<'') | TK_LTE \<Rightarrow> Some (4, ''<='')
      | TK_GT \<Rightarrow> Some (4, ''>'') | TK_GTE \<Rightarrow> Some (4, ''>='')
      | TK_PIPE \<Rightarrow> Some (5, ''|'')
      | TK_PLUS \<Rightarrow> Some (5, ''+'') | TK_MINUS \<Rightarrow> Some (5, ''-'')
      | TK_STAR \<Rightarrow> Some (6, ''*'') | TK_SLASH \<Rightarrow> Some (6, ''/'') | TK_PERCENT \<Rightarrow> Some (6, ''%'')
      | _ \<Rightarrow> None)"

definition is_is_check_op :: "token_kind \<Rightarrow> bool" where
  "is_is_check_op k \<longleftrightarrow> k \<in> {TK_LT, TK_LTE, TK_GT, TK_GTE, TK_EQEQ, TK_NEQ}"

definition token_binary_op :: "token_kind \<Rightarrow> string option" where
  "token_binary_op k = map_option snd (precedence k)"

end
