(* ===== verification/Parser.thy ===== *)
theory Parser
  imports ParserCore
begin

text \<open>
  The grammar of \<open>src/caster/parse/parser.c\<close>: tokens to syntax tree. The C functions are
  mutually recursive through \<open>parse_expression\<close> and \<open>parse_statement\<close> only, so each is a
  definition over those two, \<open>ex\<close> and \<open>st\<close>; the last section ties the knot with fuel.
\<close>

section \<open>Storing scalar fields\<close>

definition with_op :: "string \<Rightarrow> node \<Rightarrow> node" where
  "with_op s = upd_attrs (\<lambda>a. a\<lparr>n_op := Some s\<rparr>)"
definition with_name :: "string \<Rightarrow> node \<Rightarrow> node" where
  "with_name s = upd_attrs (\<lambda>a. a\<lparr>n_name := Some s\<rparr>)"
definition with_text :: "string \<Rightarrow> node \<Rightarrow> node" where
  "with_text s = upd_attrs (\<lambda>a. a\<lparr>n_text := Some s\<rparr>)"
definition with_type :: "string \<Rightarrow> node \<Rightarrow> node" where
  "with_type s = upd_attrs (\<lambda>a. a\<lparr>declared_type := Some s\<rparr>)"
definition with_sort :: "string \<Rightarrow> node \<Rightarrow> node" where
  "with_sort s = upd_attrs (\<lambda>a. a\<lparr>sort_dir := Some s\<rparr>)"
definition with_hint :: "string \<Rightarrow> node \<Rightarrow> node" where
  "with_hint s = upd_attrs (\<lambda>a. a\<lparr>loop_hint := Some s\<rparr>)"
definition with_int :: "int \<Rightarrow> node \<Rightarrow> node" where
  "with_int i = upd_attrs (\<lambda>a. a\<lparr>int_value := i\<rparr>)"
definition with_float :: "string \<Rightarrow> node \<Rightarrow> node" where
  "with_float s = upd_attrs (\<lambda>a. a\<lparr>float_value := s\<rparr>)"
definition with_bool :: "bool \<Rightarrow> node \<Rightarrow> node" where
  "with_bool b = upd_attrs (\<lambda>a. a\<lparr>bool_value := b\<rparr>)"

lemmas with_defs = with_op_def with_name_def with_text_def with_type_def with_sort_def
  with_hint_def with_int_def with_float_def with_bool_def

text \<open>Storing a pointer that may be null.\<close>

definition set_opt :: "(node \<Rightarrow> node \<Rightarrow> node) \<Rightarrow> node option \<Rightarrow> node \<Rightarrow> node" where
  "set_opt store x n = (case x of None \<Rightarrow> n | Some y \<Rightarrow> store y n)"

section \<open>Values in parentheses and conditional expressions\<close>

definition if_expr :: "token \<Rightarrow> node \<Rightarrow> node \<Rightarrow> node option \<Rightarrow> node" where
  "if_expr tok cond val fallback =
     set_opt set_right fallback (set_value val (set_condition cond (node_new NK_IF_EXPR tok)))"

definition parse_paren_value_expr :: "(nat \<Rightarrow> node parse) \<Rightarrow> string \<Rightarrow> node parse" where
  "parse_paren_value_expr ex message =
     pthen (expect TK_LPAREN message)
     (pbind get_newline_ops (\<lambda>old. pthen (set_newline_ops True)
     (pthen skip_newlines (pbind (ex 0) (\<lambda>expr. pthen skip_newlines
     (pthen (set_newline_ops old)
     (pthen (expect TK_RPAREN ''expected ')' after value expression'') (ret expr))))))))"

text \<open>\<open>'(' condition ')' '(' value ')'\<close>, the common head of the conditional forms.\<close>

definition parse_if_head :: "(nat \<Rightarrow> node parse) \<Rightarrow> (node \<times> node) parse" where
  "parse_if_head ex =
     pthen (expect TK_LPAREN ''expected '(' after if'')
     (pbind (ex 0) (\<lambda>condition.
      pthen (expect TK_RPAREN ''expected ')' after if condition'')
     (pbind (parse_paren_value_expr ex ''expected '(' after if expression condition'') (\<lambda>then_value.
      pthen skip_newlines (ret (condition, then_value))))))"

definition parse_if_value_expr :: "(nat \<Rightarrow> node parse) \<Rightarrow> token \<Rightarrow> node parse" where
  "parse_if_value_expr ex if_tok =
     pbind (parse_if_head ex) (\<lambda>(condition, then_value).
     pthen (expect TK_ELSE ''if expression needs else(value) fallback'')
     (pbind (parse_paren_value_expr ex ''expected '(' after if expression fallback'') (\<lambda>else_value.
        ret (if_expr if_tok condition then_value (Some else_value)))))"

section \<open>Method bodies and arguments\<close>

definition agg_step_value :: "(nat \<Rightarrow> node parse) \<Rightarrow> node parse" where
  "agg_step_value ex =
     pbind cur (\<lambda>if_tok.
       if tk_kind if_tok = TK_IF then
         pthen bump (pbind (parse_if_head ex) (\<lambda>(condition, then_value).
         pif (match TK_ELSE)
           (pbind (parse_paren_value_expr ex ''expected '(' after if expression fallback'')
              (\<lambda>fallback. ret (if_expr if_tok condition then_value (Some fallback))))
           (ret (if_expr if_tok condition then_value None))))
       else ex 0)"

definition agg_step_suffix :: "(nat \<Rightarrow> node parse) \<Rightarrow> node \<Rightarrow> node parse" where
  "agg_step_suffix ex val =
     pif (match TK_IF)
       (pbind prev (\<lambda>if_tok.
        pthen (expect TK_LPAREN ''expected '(' after agg step conditional if'')
       (pbind (ex 0) (\<lambda>condition.
        pthen (expect TK_RPAREN ''expected ')' after agg step conditional if'')
       (pif (match TK_ELSE)
          (pbind (ex 0) (\<lambda>fallback. ret (if_expr if_tok condition val (Some fallback))))
          (ret (if_expr if_tok condition val None)))))))
       (ret val)"

definition agg_step :: "(nat \<Rightarrow> node parse) \<Rightarrow> token \<Rightarrow> node parse" where
  "agg_step ex tok =
     pbind (pif (match TK_PLUSEQ) (ret ''+='') (pif (match TK_MINUS) (ret ''-'')
              (die tok ''.agg() accumulator body expects '+= expression' or '- expression' ''))) (\<lambda>op.
     pthen skip_newlines
     (pbind get_newline_ops (\<lambda>old. pthen (set_newline_ops False)
     (pbind (agg_step_value ex) (\<lambda>val. pbind (agg_step_suffix ex val) (\<lambda>val'.
      pthen (set_newline_ops old)
        (ret (set_value val' (with_op op (node_new NK_AGG_STEP tok))))))))))"

text \<open>
  A body of items up to a closing token, with newlines between them: the loop of
  \<open>parse_agg_method_body\<close>, \<open>parse_method_body\<close> and \<open>parse_block\<close>.
\<close>

definition items_until ::
  "token_kind \<Rightarrow> string \<Rightarrow> (token \<Rightarrow> node parse) \<Rightarrow> (node \<Rightarrow> node \<Rightarrow> node) \<Rightarrow> node \<Rightarrow> node parse" where
  "items_until close unterminated item push_to n =
     ploop (\<lambda>b. pbind cur (\<lambda>t.
       if tk_kind t = close then ret (Inr b)
       else if tk_kind t = TK_EOF then die t unterminated
       else pbind (item t) (\<lambda>x. pthen skip_newlines (ret (Inl (push_to x b)))))) n"

definition parse_agg_method_body :: "(nat \<Rightarrow> node parse) \<Rightarrow> token \<Rightarrow> node parse" where
  "parse_agg_method_body ex opn =
     pthen skip_newlines
       (items_until TK_RPAREN ''unterminated agg body'' (agg_step ex) add_statements
          (node_new NK_BLOCK opn))"

definition parse_method_body :: "node parse \<Rightarrow> token \<Rightarrow> node parse" where
  "parse_method_body st opn =
     pthen skip_newlines
       (items_until TK_RPAREN ''unterminated method body'' (\<lambda>_. st) add_statements
          (node_new NK_BLOCK opn))"

definition parse_method_argument :: "(nat \<Rightarrow> node parse) \<Rightarrow> string \<Rightarrow> node parse" where
  "parse_method_argument ex method =
     pbind get_newline_ops (\<lambda>old.
     pthen (if is_collection_body_method method \<or> method = ''group'' \<or> method = ''sort''
            then set_newline_ops True else ret ())
     (pbind (ex 0) (\<lambda>arg. pthen (set_newline_ops old)
     (pif (pand (ret (method = ''agg'')) (match TK_IF))
       (pbind prev (\<lambda>if_tok.
        pthen (expect TK_LPAREN ''expected '(' after agg conditional if'')
       (pbind (ex 0) (\<lambda>condition.
        pthen (expect TK_RPAREN ''expected ')' after agg conditional if'')
          (ret (if_expr if_tok condition arg None))))))
       (ret arg)))))"

definition parse_sort_args :: "(nat \<Rightarrow> node parse) \<Rightarrow> node \<Rightarrow> node parse" where
  "parse_sort_args ex method =
     pbind (ex 0) (\<lambda>key.
     pthen skip_newlines
     (pbind cur (\<lambda>t.
     pbind (if tk_kind t = TK_NAME \<and> (tk_text t = ''ASC'' \<or> tk_text t = ''DESC'')
            then pthen bump (ret (tk_text t)) else ret ''ASC'') (\<lambda>dir.
     pthen skip_newlines
     (pbind cur (\<lambda>t2.
       if tk_kind t2 = TK_COMMA
       then die t2 ''.sort() expects one key expression and optional ASC or DESC''
       else ret (with_sort dir (add_args key method))))))))"

section \<open>IS checks\<close>

definition binary :: "token \<Rightarrow> string \<Rightarrow> node \<Rightarrow> node \<Rightarrow> node" where
  "binary tok op l r = set_right r (set_left l (with_op op (node_new NK_BINARY tok)))"

text \<open>\<open>xstrdup(NULL)\<close>, were the token no operator, would be the error \<open>NullDeref\<close>.\<close>

definition op_of_token :: "token \<Rightarrow> string parse" where
  "op_of_token tok = (case token_binary_op (tk_kind tok) of None \<Rightarrow> fail NullDeref | Some op \<Rightarrow> ret op)"

definition parse_is_piece :: "(nat \<Rightarrow> node parse) \<Rightarrow> node \<Rightarrow> node parse" where
  "parse_is_piece ex subject =
     pbind cur (\<lambda>tok.
     pbind (if is_is_check_op (tk_kind tok)
            then pbind (op_of_token tok) (\<lambda>op. pthen bump (ret op)) else ret ''=='') (\<lambda>op.
     pbind (ex 5) (\<lambda>right. ret (binary tok op subject right))))"

definition parse_is_check :: "(nat \<Rightarrow> node parse) \<Rightarrow> token \<Rightarrow> node \<Rightarrow> node parse" where
  "parse_is_check ex is_tok subject =
     pbind (parse_is_piece ex subject) (\<lambda>first.
     pbind (ploop (\<lambda>(expr, pieces). pbind cur (\<lambda>tok.
         if tk_kind tok = TK_ANDAND \<or> tk_kind tok = TK_OROR then
           pthen bump (pbind (parse_is_piece ex subject) (\<lambda>right.
           pbind (op_of_token tok) (\<lambda>op. ret (Inl (binary tok op expr right, pieces + 1)))))
         else ret (Inr (expr, pieces)))) (first, 1::nat)) (\<lambda>(expr, pieces).
     if pieces < 2
     then die is_tok ''IS expects at least two comparison clauses; use an ordinary comparison for one clause''
     else ret expr))"

section \<open>Postfix forms: calls, dot access, method calls\<close>

definition skip_newlines_before_dot :: "unit parse" where
  "skip_newlines_before_dot =
     pbind get_pos (\<lambda>newline_save.
     pthen skip_newlines
     (pbind cur (\<lambda>t. if tk_kind t \<noteq> TK_DOT then set_pos newline_save else ret ())))"

definition parse_call :: "(nat \<Rightarrow> node parse) \<Rightarrow> node \<Rightarrow> node parse" where
  "parse_call ex callee =
     pbind prev (\<lambda>opn.
     pbind (pif (cur_is TK_RPAREN)
         (ret (set_callee callee (node_new NK_CALL opn)))
         (ploop (\<lambda>call. pbind (ex 0) (\<lambda>arg.
            pif (match TK_COMMA) (ret (Inl (add_args arg call))) (ret (Inr (add_args arg call)))))
            (set_callee callee (node_new NK_CALL opn)))) (\<lambda>call.
     pthen (expect TK_RPAREN ''expected ')' after call arguments'') (ret call)))"

definition parse_method_args :: "(nat \<Rightarrow> node parse) \<Rightarrow> string \<Rightarrow> node \<Rightarrow> node parse" where
  "parse_method_args ex method m =
     pbind cur (\<lambda>t.
       if method = ''agg''
       then die t ''.agg() expects accumulator steps starting with += or -''
       else ploop (\<lambda>m. pbind (parse_method_argument ex method) (\<lambda>arg.
              pthen skip_newlines
              (pif (match TK_COMMA) (pthen skip_newlines (ret (Inl (add_args arg m))))
                 (ret (Inr (add_args arg m)))))) m)"

definition parse_method_inside ::
  "(nat \<Rightarrow> node parse) \<Rightarrow> node parse \<Rightarrow> token \<Rightarrow> string \<Rightarrow> node \<Rightarrow> node parse" where
  "parse_method_inside ex st opn method m =
     pif (cur_is TK_RPAREN) (ret m)
     (pif (starts_method_body method)
        (pbind cur (\<lambda>t.
           if method = ''agg'' \<and> tk_kind t \<in> {TK_PLUSEQ, TK_MINUS}
           then pbind (parse_agg_method_body ex opn) (\<lambda>b. ret (set_body b m))
           else pbind (parse_method_body st opn) (\<lambda>b. ret (set_body b m))))
        (if method = ''sort'' then parse_sort_args ex m else parse_method_args ex method m))"

definition parse_block :: "node parse \<Rightarrow> node parse" where
  "parse_block st =
     pbind (expect TK_LPAREN ''expected '(' to start block'') (\<lambda>opn.
     pthen skip_newlines
     (pbind (items_until TK_RPAREN ''unterminated block'' (\<lambda>_. st) add_statements
               (node_new NK_BLOCK opn)) (\<lambda>b.
     pthen (expect TK_RPAREN ''expected ')' to end block'') (ret b))))"

definition parse_method_call ::
  "(nat \<Rightarrow> node parse) \<Rightarrow> node parse \<Rightarrow> token \<Rightarrow> string \<Rightarrow> node \<Rightarrow> node parse" where
  "parse_method_call ex st dot method obj =
     pbind (expect TK_LPAREN ''expected '(' after method name'') (\<lambda>opn.
     pthen skip_newlines
     (pbind (parse_method_inside ex st opn method
               (with_name method (set_object obj (node_new NK_METHOD_CALL dot)))) (\<lambda>m.
     pthen (expect TK_RPAREN ''expected ')' after method arguments'')
     (pif (pand (ret (method = ''tap'')) (cur_is TK_LPAREN))
        (pbind (parse_block st) (\<lambda>b. ret (set_body b m)))
        (ret m)))))"

definition parse_dot :: "(nat \<Rightarrow> node parse) \<Rightarrow> node parse \<Rightarrow> node \<Rightarrow> node parse" where
  "parse_dot ex st obj =
     pbind prev (\<lambda>dot.
     pif (match TK_INT_LITERAL)
       (pbind prev (\<lambda>it. ret (set_index (with_int (strtoll (tk_text it)) (node_new NK_INT it))
                               (set_object obj (node_new NK_DOT dot)))))
     (pif (match TK_LBRACKET)
       (pbind (ex 0) (\<lambda>index.
        pthen (expect TK_RBRACKET ''expected ']' after computed dot expression'')
          (ret (set_index index (set_object obj (node_new NK_DOT dot))))))
     (pif (match TK_LPAREN)
       (pbind prev (\<lambda>t. die t ''computed dot access uses .[expression], not .(...)''))
       (pbind match_method_name (\<lambda>r.
          case r of
            None \<Rightarrow> pbind cur (\<lambda>t. die t (''expected name, numeric index, or [expression] after '' @ [SQUOTE, CHR ''.'', SQUOTE]))
          | Some nm \<Rightarrow>
              pif (cur_is TK_LPAREN) (parse_method_call ex st dot (tk_text nm) obj)
                (ret (with_name (tk_text nm) (set_object obj (node_new NK_DOT dot)))))))))"

definition parse_postfix :: "(nat \<Rightarrow> node parse) \<Rightarrow> node parse \<Rightarrow> node \<Rightarrow> node parse" where
  "parse_postfix ex st =
     ploop (\<lambda>expr.
       pthen skip_newlines_before_dot
       (pif (match TK_LPAREN) (pbind (parse_call ex expr) (\<lambda>n. ret (Inl n)))
       (pif (match TK_DOT) (pbind (parse_dot ex st expr) (\<lambda>n. ret (Inl n)))
         (ret (Inr expr)))))"

section \<open>Literals\<close>

definition parse_shape :: "(nat \<Rightarrow> node parse) \<Rightarrow> token \<Rightarrow> node \<Rightarrow> node parse" where
  "parse_shape ex opn first =
     pbind (ploop (\<lambda>shape. pif is_shape_separator
         (pthen bump (pthen skip_newlines (pbind cur (\<lambda>t.
            if tk_kind t = TK_RBRACKET \<or> tk_kind t = TK_COMMA
            then die t ''expected dimension expression after shape separator''
            else pbind (ex 0) (\<lambda>d. pthen skip_newlines (ret (Inl (add_elements d shape))))))))
         (ret (Inr shape))) (add_elements first (node_new NK_SHAPE opn))) (\<lambda>shape.
     pthen (expect TK_RBRACKET ''expected ']' after shape literal'') (ret shape))"

definition parse_array_rest :: "(nat \<Rightarrow> node parse) \<Rightarrow> node \<Rightarrow> node parse" where
  "parse_array_rest ex =
     ploop (\<lambda>arr. pif (cur_is TK_RBRACKET) (ret (Inr arr))
       (pif (match TK_COMMA)
          (pthen skip_newlines (pif (cur_is TK_RBRACKET) (ret (Inr arr))
             (pbind (ex 0) (\<lambda>e. pthen skip_newlines (ret (Inl (add_elements e arr)))))))
          (ret (Inr arr))))"

definition parse_array_literal :: "(nat \<Rightarrow> node parse) \<Rightarrow> token \<Rightarrow> node parse" where
  "parse_array_literal ex opn =
     pthen skip_newlines
     (pif (cur_is TK_RBRACKET)
       (pthen (expect TK_RBRACKET ''expected ']' after array literal'') (ret (node_new NK_ARRAY opn)))
       (pbind (ex 0) (\<lambda>first. pthen skip_newlines
         (pif is_shape_separator (parse_shape ex opn first)
           (pbind (parse_array_rest ex (add_elements first (node_new NK_ARRAY opn))) (\<lambda>arr.
            pthen (expect TK_RBRACKET ''expected ']' after array literal'') (ret arr)))))))"

text \<open>The separator after an entry of a map, record or type: newlines and an optional comma.\<close>

definition entry_separator :: "unit parse" where
  "entry_separator = pthen skip_newlines (pthen (match TK_COMMA) skip_newlines)"

definition parse_map_literal_after_open :: "(nat \<Rightarrow> node parse) \<Rightarrow> token \<Rightarrow> node parse" where
  "parse_map_literal_after_open ex opn =
     pthen skip_newlines
     (pbind (ploop (\<lambda>m. pbind cur (\<lambda>t.
         if tk_kind t = TK_RBRACE then ret (Inr m)
         else if tk_kind t = TK_EOF then die t ''unterminated map literal''
         else pbind (pif (match TK_LBRACKET)
                (pbind (ex 0) (\<lambda>key.
                 pthen (expect TK_RBRACKET ''expected ']' after computed map key'') (ret key)))
                (ex 0)) (\<lambda>key.
              pthen (expect TK_EQUAL ''expected '=' after map literal key'')
             (pbind (ex 0) (\<lambda>val.
              let field_tok = \<lparr>tk_kind = TK_NAME, tk_text = ''field'',
                    tk_line = n_line (attrs key), tk_col = n_col (attrs key)\<rparr>;
                  entry = set_target key (node_new NK_FIELD field_tok);
                  entry = (case (if n_kind key = NK_STR then n_text (attrs key) else None) of
                             None \<Rightarrow> entry | Some s \<Rightarrow> with_text s entry)
              in pthen entry_separator (ret (Inl (add_fields (set_value val entry) m)))))))) 
       (node_new NK_MAP_LITERAL opn)) (\<lambda>m.
     pthen (expect TK_RBRACE ''expected '}' after map literal'') (ret m)))"

definition parse_record_literal_until ::
  "(nat \<Rightarrow> node parse) \<Rightarrow> token \<Rightarrow> token_kind \<Rightarrow> string \<Rightarrow> node parse" where
  "parse_record_literal_until ex opn close_kind close_message =
     pthen skip_newlines
     (pbind (ploop (\<lambda>r. pbind cur (\<lambda>t.
         if tk_kind t = close_kind then ret (Inr r)
         else if tk_kind t = TK_EOF then die t ''unterminated fixed-map literal''
         else pbind (expect TK_NAME ''expected fixed-map field name'') (\<lambda>nm.
              pthen (expect TK_EQUAL ''expected '=' after fixed-map field name'')
             (pbind (ex 0) (\<lambda>val.
              pthen entry_separator
                (ret (Inl (add_fields (set_value val (with_name (tk_text nm) (node_new NK_FIELD nm))) r))))))))
       (node_new NK_RECORD_LITERAL opn)) (\<lambda>r.
     pthen (expect close_kind close_message) (ret r)))"

text \<open>
  \<open>'{'\<close> opens a record, a wrapped expression or a map: the expression is tried, and the
  position goes back when no \<open>'}'\<close> follows it.
\<close>

definition parse_wrapped_or_map :: "(nat \<Rightarrow> node parse) \<Rightarrow> token \<Rightarrow> node parse" where
  "parse_wrapped_or_map ex opn =
     pif (cur_is TK_RBRACE) (parse_map_literal_after_open ex opn)
     (pbind get_pos (\<lambda>save_pos. pbind get_newline_ops (\<lambda>save_newline_ops.
      pbind (ex 0) (\<lambda>wrapped. pthen skip_newlines
     (pif (match TK_RBRACE) (ret wrapped)
       (pthen (set_pos save_pos) (pthen (set_newline_ops save_newline_ops)
          (parse_map_literal_after_open ex opn))))))))"

definition parse_brace_literal :: "(nat \<Rightarrow> node parse) \<Rightarrow> token \<Rightarrow> node parse" where
  "parse_brace_literal ex opn =
     pthen skip_newlines
     (pif (pand (cur_is TK_NAME) (peek_is 1 TK_EQUAL))
       (parse_record_literal_until ex opn TK_RBRACE ''expected '}' after fixed-map literal'')
       (parse_wrapped_or_map ex opn))"

section \<open>Prefix forms\<close>

lemma size_object: "n_object d = Some ob \<Longrightarrow> size ob < size d"
  by (cases d) simp

text \<open>
  \<open>*a.b.c\<close> dereferences \<open>a\<close>: the walk down the chain of dots puts \<open>star\<close> around the
  object of the innermost one.
\<close>

function star_innermost :: "node \<Rightarrow> node \<Rightarrow> node" where
  "star_innermost star dot =
     (case n_object dot of
        None \<Rightarrow> set_object star dot
      | Some ob \<Rightarrow>
          if n_kind ob = NK_DOT then set_object (star_innermost star ob) dot
          else set_object (set_expr ob star) dot)"
  by pat_completeness auto
termination
  by (relation "measure (\<lambda>(s, d). size d)") (auto dest: size_object)

declare star_innermost.simps [simp del]

definition unary :: "token \<Rightarrow> node \<Rightarrow> node" where
  "unary tok e = set_expr e (with_op (tk_text tok) (node_new NK_UNARY tok))"

definition parse_star :: "(nat \<Rightarrow> node parse) \<Rightarrow> node parse \<Rightarrow> token \<Rightarrow> node parse" where
  "parse_star ex st tok =
     pbind (ex 7) (\<lambda>e.
       if n_kind e = NK_DOT
       then parse_postfix ex st (star_innermost (with_op (tk_text tok) (node_new NK_UNARY tok)) e)
       else parse_postfix ex st (unary tok e))"

definition parse_group :: "(nat \<Rightarrow> node parse) \<Rightarrow> node parse \<Rightarrow> token \<Rightarrow> node parse" where
  "parse_group ex st opn =
     pthen skip_newlines
     (pif (pand (cur_is TK_NAME) (peek_is 1 TK_EQUAL))
       (die opn ''fixed-map literals use '{...}', not '(...)' '')
       (pbind (ex 0) (\<lambda>n.
        pthen (expect TK_RPAREN ''expected ')' after grouped expression'')
          (parse_postfix ex st n))))"

definition name_node :: "token \<Rightarrow> string \<Rightarrow> node" where
  "name_node tok s = with_name s (node_new NK_NAME tok)"

definition parse_prefix :: "(nat \<Rightarrow> node parse) \<Rightarrow> node parse \<Rightarrow> node parse" where
  "parse_prefix ex st =
     pbind cur (\<lambda>tok.
     pif (match TK_INT_LITERAL) (ret (with_int (strtoll (tk_text tok)) (node_new NK_INT tok)))
     (pif (match TK_FLT_LITERAL) (ret (with_float (tk_text tok) (node_new NK_FLT tok)))
     (pif (match TK_BOL_LITERAL) (ret (with_bool (tk_text tok = ''true'') (node_new NK_BOL tok)))
     (pif (match TK_STRING_LITERAL) (parse_postfix ex st (with_text (tk_text tok) (node_new NK_STR tok)))
     (pif (match TK_NUL_TYPE) (ret (node_new NK_NIL tok))
     (pif (match TK_INIT) (ret (node_new NK_INIT tok))
     (if tk_kind tok = TK_DOT then parse_postfix ex st (name_node tok ''e'') else
     (pif (match TK_IF) (pbind (parse_if_value_expr ex tok) (parse_postfix ex st))
     (pif (match_any [TK_INT, TK_FLT, TK_STR, TK_ARR]) (parse_postfix ex st (name_node tok (tk_text tok)))
     (pif (match TK_NAME) (parse_postfix ex st (name_node tok (tk_text tok)))
     (pif (match TK_LBRACKET) (pbind (parse_array_literal ex tok) (parse_postfix ex st))
     (pif (match TK_LBRACE) (pbind (parse_brace_literal ex tok) (parse_postfix ex st))
     (pif (match TK_STAR) (parse_star ex st tok)
     (pif (match_any [TK_MINUS, TK_BANG]) (pbind (ex 7) (\<lambda>e. parse_postfix ex st (unary tok e)))
     (pif (match_any [TK_REF, TK_HOLD]) (pbind (ex 7) (\<lambda>e. parse_postfix ex st (unary tok e)))
     (pif (match TK_LPAREN) (parse_group ex st tok)
     (die tok ''expected expression'')))))))))))))))))"

section \<open>Expressions\<close>

text \<open>
  One round of the precedence loop: the left operand \<open>left\<close> grows by the operator at hand,
  or is the result.
\<close>

definition expression_round :: "(nat \<Rightarrow> node parse) \<Rightarrow> nat \<Rightarrow> node \<Rightarrow> (node + node) parse" where
  "expression_round ex min_prec left =
     pthen (pif get_newline_ops skip_newlines (ret ()))
     (pbind cur (\<lambda>tok.
       if tk_kind tok = TK_ELSE then
         (if 0 < min_prec then ret (Inr left)
          else pthen bump (pbind (ex 1) (\<lambda>right. ret (Inl (binary tok ''else'' left right)))))
       else if tk_kind tok = TK_IS then
         (if 0 < min_prec then ret (Inr left)
          else pthen bump (pbind (parse_is_check ex tok left) (\<lambda>n. ret (Inl n))))
       else if tk_kind tok = TK_ARROW
         then die tok (SQUOTE # ''->' is only valid in function signatures and FN[...] types'')
       else (case precedence (tk_kind tok) of
               None \<Rightarrow> ret (Inr left)
             | Some (prec, op) \<Rightarrow>
                 if prec < min_prec then ret (Inr left)
                 else pthen bump (pbind (ex (prec + 1)) (\<lambda>right. ret (Inl (binary tok op left right)))))))"

definition parse_expression_step :: "(nat \<Rightarrow> node parse) \<Rightarrow> node parse \<Rightarrow> nat \<Rightarrow> node parse" where
  "parse_expression_step ex st min_prec =
     pbind (parse_prefix ex st) (ploop (expression_round ex min_prec))"

section \<open>Statements\<close>

definition parse_condition_block ::
  "(nat \<Rightarrow> node parse) \<Rightarrow> node parse \<Rightarrow> string \<Rightarrow> string \<Rightarrow> (node \<times> node) parse" where
  "parse_condition_block ex st open_msg close_msg =
     pthen (expect TK_LPAREN open_msg)
     (pbind (ex 0) (\<lambda>condition. pthen (expect TK_RPAREN close_msg)
     (pbind (parse_block st) (\<lambda>b. pthen skip_newlines (ret (condition, b))))))"

text \<open>
  The condition and block of \<open>if\<close> are each followed by \<open>skip_newlines\<close>, as are those of
  every \<open>elx\<close>.
\<close>

definition parse_if :: "(nat \<Rightarrow> node parse) \<Rightarrow> node parse \<Rightarrow> node parse" where
  "parse_if ex st =
     pbind (expect TK_IF ''expected if'') (\<lambda>tok.
     pbind (parse_condition_block ex st ''expected '(' after if'' ''expected ')' after if condition'') (\<lambda>(c, b).
     pbind (ploop (\<lambda>n. pif (match TK_ELX)
         (pbind prev (\<lambda>et.
          pbind (parse_condition_block ex st ''expected '(' after elx'' ''expected ')' after elx condition'') (\<lambda>(ec, eb).
            ret (Inl (add_elx_branches (set_body eb (set_condition ec (node_new NK_ELX et))) n)))))
         (ret (Inr n))) (set_then_block b (set_condition c (node_new NK_IF tok)))) (\<lambda>n.
     pif (match TK_ELSE) (pbind (parse_block st) (\<lambda>eb. ret (set_else_block eb n))) (ret n))))"

definition loop_wrapper_inner_can_be_target :: "node \<Rightarrow> bool" where
  "loop_wrapper_inner_can_be_target inner \<longleftrightarrow> n_kind inner \<in> {NK_NAME, NK_DOT, NK_CALL, NK_METHOD_CALL}"

definition try_parse_loop_wrapped_arg ::
  "(nat \<Rightarrow> node parse) \<Rightarrow> token_kind \<Rightarrow> token_kind \<Rightarrow> string \<Rightarrow> node option parse" where
  "try_parse_loop_wrapped_arg ex open_kind close_kind hint =
     pbind get_pos (\<lambda>save.
     pif (match open_kind)
       (pthen skip_newlines
       (pif (cur_is close_kind) (pthen (set_pos save) (ret None))
         (pbind (ex 0) (\<lambda>inner. pthen skip_newlines
         (pbind cur (\<lambda>t.
            if tk_kind t \<noteq> close_kind \<or> \<not> loop_wrapper_inner_can_be_target inner
            then pthen (set_pos save) (ret None)
            else pthen bump (ret (Some (with_hint hint inner)))))))))
       (ret None))"

text \<open>The loop node is passed through: its hint is set by the first wrapped argument.\<close>

definition parse_loop_argument :: "(nat \<Rightarrow> node parse) \<Rightarrow> node \<Rightarrow> (node \<times> node) parse" where
  "parse_loop_argument ex loop =
     pbind (pbind (try_parse_loop_wrapped_arg ex TK_LBRACKET TK_RBRACKET ''array'') (\<lambda>r.
              case r of Some a \<Rightarrow> ret (Some a)
              | None \<Rightarrow> try_parse_loop_wrapped_arg ex TK_LBRACE TK_RBRACE ''map'')) (\<lambda>r.
     case r of
       Some arg \<Rightarrow>
         if loop_hint (attrs loop) \<noteq> None then die_node arg ''loop accepts one collection wrapper''
         else ret (arg, upd_attrs (\<lambda>a. a\<lparr>loop_hint := loop_hint (attrs arg)\<rparr>) loop)
     | None \<Rightarrow> pbind (ex 0) (\<lambda>arg. ret (arg, loop)))"

definition parse_loop_args :: "(nat \<Rightarrow> node parse) \<Rightarrow> node \<Rightarrow> node parse" where
  "parse_loop_args ex =
     ploop (\<lambda>n. pbind (parse_loop_argument ex n) (\<lambda>(arg, n').
       let n2 = add_args arg n' in
       pif (cur_is TK_AS) (ret (Inr n2))
       (pif (match TK_COMMA) (ret (Inl n2)) (ret (Inr n2)))))"

definition parse_loop_name :: "node \<Rightarrow> node parse" where
  "parse_loop_name n =
     pif (match TK_AS)
       (pbind (expect TK_NAME ''expected loop context name after as'') (\<lambda>nm.
        pbind cur (\<lambda>t.
          if tk_kind t = TK_COMMA then die t ''loop context name must come after all loop arguments''
          else ret (with_name (tk_text nm) n))))
       (ret n)"

definition parse_loop :: "(nat \<Rightarrow> node parse) \<Rightarrow> node parse \<Rightarrow> node parse" where
  "parse_loop ex st =
     pbind (expect TK_LOOP ''expected loop'') (\<lambda>tok.
     pthen (expect TK_LPAREN ''expected '(' after loop'')
     (pbind (pif (cur_is TK_RPAREN) (ret (node_new NK_LOOP tok))
               (pbind (parse_loop_args ex (node_new NK_LOOP tok)) parse_loop_name)) (\<lambda>n.
     pthen (expect TK_RPAREN ''expected ')' after loop arguments'')
     (pbind (parse_block st) (\<lambda>b. ret (set_body b n))))))"

definition parse_destructure_type :: "(string \<times> token) parse" where
  "parse_destructure_type =
     pif (pand (cur_is TK_NAME) (pand (peek_is 1 TK_DOT) (peek_is 2 TK_NAME)))
       (pbind (peek 3) (\<lambda>after_member.
          if tk_kind after_member \<in> {TK_COMMA, TK_RBRACE, TK_AS}
          then pbind cur (\<lambda>tok. pthen bump (ret (normalize_source_type_name (tk_text tok), tok)))
          else parse_type))
       parse_type"

definition parse_destructure_field :: "nat \<Rightarrow> node parse" where
  "parse_destructure_field position =
     pbind parse_destructure_type (\<lambda>(ty, tok).
     let field = with_int (int position) (with_type ty (node_new NK_FIELD tok)) in
     pif (match TK_DOT)
       (pbind (expect TK_NAME ''expected source field name after '.' in destructure pattern'') (\<lambda>source.
        pif (match TK_AS)
          (pbind (expect TK_NAME ''expected local name after 'as' in destructure pattern'') (\<lambda>local_alias.
             ret (with_name (tk_text local_alias) (with_text (tk_text source) field))))
          (ret (with_name (tk_text source) (with_text (tk_text source) field)))))
       (pbind (expect TK_NAME ''expected local name in destructure pattern'') (\<lambda>local_name.
          ret (with_name (tk_text local_name) field))))"

definition parse_destructure_statement :: "(nat \<Rightarrow> node parse) \<Rightarrow> node parse" where
  "parse_destructure_statement ex =
     pbind (expect TK_LBRACE ''expected '{' to start destructure pattern'') (\<lambda>opn.
     pthen skip_newlines
     (pbind (ploop (\<lambda>(n, position). pbind cur (\<lambda>t.
         if tk_kind t = TK_RBRACE then ret (Inr n)
         else if tk_kind t = TK_EOF then die t ''unterminated destructure pattern''
         else pbind (parse_destructure_field position) (\<lambda>field.
              pthen skip_newlines
              (pif (match TK_COMMA)
                 (pthen skip_newlines (ret (Inl (add_fields field n, position + 1))))
                 (ret (Inr (add_fields field n))))))) (node_new NK_DESTRUCTURE opn, 0)) (\<lambda>n.
     pthen (expect TK_RBRACE ''expected '}' after destructure pattern'')
     (pthen (expect TK_EQUAL ''expected '=' after destructure pattern'')
     (pbind (ex 0) (\<lambda>v. ret (set_value v n)))))))"

definition parse_fn_params :: "node \<Rightarrow> node parse" where
  "parse_fn_params =
     ploop (\<lambda>fn. pbind parse_type (\<lambda>(ty, tok).
       pbind (expect TK_NAME ''expected parameter name'') (\<lambda>pn.
       let fn' = add_params (with_name (tk_text pn) (with_type ty (node_new NK_PARAM tok))) fn in
       pthen skip_newlines
       (pif (match TK_COMMA) (pthen skip_newlines (ret (Inl fn'))) (ret (Inr fn'))))))"

definition parse_fn_decl :: "node parse \<Rightarrow> node parse" where
  "parse_fn_decl st =
     pbind (expect TK_FN ''expected function declaration'') (\<lambda>ft.
     pbind (expect TK_NAME ''expected function name after FN'') (\<lambda>nm.
     pthen (expect TK_LPAREN ''expected '(' after function name'')
     (pthen skip_newlines
     (pbind (pif (cur_is TK_RPAREN) (ret (with_name (tk_text nm) (node_new NK_FN ft)))
               (parse_fn_params (with_name (tk_text nm) (node_new NK_FN ft)))) (\<lambda>fn.
     pthen (expect TK_RPAREN ''expected ')' after function parameters'')
     (pbind (pif (match TK_ARROW) (pbind parse_type (\<lambda>(ty, _). ret (with_type ty fn))) (ret fn)) (\<lambda>fn.
     pthen (expect TK_EQUAL ''expected '=' before function body'')
     (pbind (parse_block st) (\<lambda>b. ret (set_body b fn))))))))))"

definition assign :: "token \<Rightarrow> string \<Rightarrow> node \<Rightarrow> node" where
  "assign tok op target = set_target target (with_op op (node_new NK_ASSIGN tok))"

definition parse_var_decl :: "(nat \<Rightarrow> node parse) \<Rightarrow> node parse" where
  "parse_var_decl ex =
     pbind parse_type (\<lambda>(ty, tok).
     pbind (expect TK_NAME ''expected variable name'') (\<lambda>nm.
     let n = with_name (tk_text nm) (with_type ty (node_new NK_VAR tok)) in
     pif (match TK_EQUAL) (pbind (ex 0) (\<lambda>v. ret (set_value v n))) (ret n)))"

definition parse_ret :: "(nat \<Rightarrow> node parse) \<Rightarrow> token \<Rightarrow> node parse" where
  "parse_ret ex tok =
     pthen bump (pbind cur (\<lambda>t.
       if tk_kind t \<noteq> TK_NEWLINE \<and> tk_kind t \<noteq> TK_RPAREN \<and> tk_kind t \<noteq> TK_EOF
       then pbind (ex 0) (\<lambda>v. ret (set_value v (node_new NK_RET tok)))
       else ret (node_new NK_RET tok)))"

definition parse_throw :: "(nat \<Rightarrow> node parse) \<Rightarrow> token \<Rightarrow> node parse" where
  "parse_throw ex tok =
     pthen bump (pthen (expect TK_LPAREN ''expected '(' after throw'')
     (pbind (ex 0) (\<lambda>v. pthen (expect TK_RPAREN ''expected ')' after throw message'')
       (ret (set_value v (node_new NK_THROW tok))))))"

definition parse_free :: "(nat \<Rightarrow> node parse) \<Rightarrow> token \<Rightarrow> node parse" where
  "parse_free ex tok =
     pthen bump (pif (match TK_LPAREN)
       (pbind (ex 0) (\<lambda>e. pthen (expect TK_RPAREN ''expected ')' after FREE value'')
          (ret (set_expr e (node_new NK_FREE tok)))))
       (pbind (ex 0) (\<lambda>e. ret (set_expr e (node_new NK_FREE tok)))))"

definition parse_expression_statement :: "(nat \<Rightarrow> node parse) \<Rightarrow> token \<Rightarrow> node parse" where
  "parse_expression_statement ex tok =
     pbind (ex 0) (\<lambda>expr.
     pif (match TK_EQUAL) (pbind (ex 0) (\<lambda>v. ret (set_value v (assign tok ''='' expr))))
     (pif (match TK_PLUSEQ) (pbind (ex 0) (\<lambda>v. ret (set_value v (assign tok ''+='' expr))))
     (pif (match TK_MINUSEQ) (pbind (ex 0) (\<lambda>v. ret (set_value v (assign tok ''-='' expr))))
     (pif (match TK_PLUSPLUS) (ret (assign tok ''++'' expr))
       (ret (set_expr expr (node_new NK_EXPR_STMT tok)))))))"

definition parse_statement_step :: "(nat \<Rightarrow> node parse) \<Rightarrow> node parse \<Rightarrow> node parse" where
  "parse_statement_step ex st =
     pbind cur (\<lambda>tok.
       if tk_kind tok = TK_FN then parse_fn_decl st
       else pif starts_destructure (parse_destructure_statement ex)
       (pif starts_type (parse_var_decl ex)
       (if tk_kind tok = TK_RET then parse_ret ex tok
        else if tk_kind tok = TK_IF then parse_if ex st
        else if tk_kind tok = TK_LOOP then parse_loop ex st
        else if tk_kind tok = TK_PASS then pthen bump (ret (node_new NK_PASS tok))
        else if tk_kind tok = TK_THROW then parse_throw ex tok
        else if tk_kind tok = TK_FREE then parse_free ex tok
        else parse_expression_statement ex tok)))"

section \<open>The recursion\<close>

text \<open>
  Each nested call of \<open>parse_expression\<close> or \<open>parse_statement\<close> spends a unit of fuel.
  \<open>parse_fuel\<close> gives two units per remaining token and one more, since a statement calls
  for an expression before it has consumed a token and every other call comes after one.
\<close>

fun parse_expression_n :: "nat \<Rightarrow> nat \<Rightarrow> node parse"
and parse_statement_n :: "nat \<Rightarrow> node parse" where
  "parse_expression_n 0 min_prec = fail OutOfFuel"
| "parse_expression_n (Suc n) min_prec =
     parse_expression_step (parse_expression_n n) (parse_statement_n n) min_prec"
| "parse_statement_n 0 = fail OutOfFuel"
| "parse_statement_n (Suc n) = parse_statement_step (parse_expression_n n) (parse_statement_n n)"

definition parse_fuel :: "parser \<Rightarrow> nat" where
  "parse_fuel p = 2 * remaining p + 1"

definition parse_expression :: "nat \<Rightarrow> node parse" where
  "parse_expression min_prec p = parse_expression_n (parse_fuel p) min_prec p"

definition parse_statement :: "node parse" where
  "parse_statement p = parse_statement_n (parse_fuel p) p"

section \<open>Type declarations and the program\<close>

definition typed_field :: "token \<Rightarrow> string \<Rightarrow> string \<Rightarrow> node" where
  "typed_field tok ty nm = with_text ty (with_name nm (with_type ty (node_new NK_FIELD tok)))"

text \<open>\<open>ARR[MAP] name = [{\<close>, the head of an array of inline maps: its two tokens.\<close>

definition inline_array_head :: "string \<Rightarrow> string \<Rightarrow> string \<Rightarrow> string \<Rightarrow> (token \<times> token) parse" where
  "inline_array_head name_msg eq_msg bracket_msg brace_msg =
     pbind (expect TK_ARR ''expected ARR'') (\<lambda>arr_tok.
     pthen (expect TK_LBRACKET ''expected '[' after ARR'')
     (pthen (expect TK_MAP ''expected MAP inside ARR[MAP]'')
     (pthen (expect TK_RBRACKET ''expected ']' after ARR[MAP]'')
     (pbind (expect TK_NAME name_msg) (\<lambda>nm.
     pthen (expect TK_EQUAL eq_msg)
     (pthen (expect TK_LBRACKET bracket_msg)
     (pthen (expect TK_LBRACE brace_msg) (ret (arr_tok, nm)))))))))"

definition nested_array_field :: "(node \<Rightarrow> string \<Rightarrow> string \<Rightarrow> node parse) \<Rightarrow> string \<Rightarrow> node \<Rightarrow> node parse" where
  "nested_array_field self_fields decl_name decl =
     pbind (inline_array_head ''expected nested ARR[MAP] field name''
        ''expected '=' after nested ARR[MAP] field name''
        ''expected '[' before nested ARR[MAP] element definition''
        ''expected '{' for nested ARR[MAP] element definition'') (\<lambda>(arr_tok, field_name).
     let nested_name = decl_name @ ''_'' @ tk_text field_name in
     pbind (self_fields (with_name nested_name (node_new NK_TYPE_STRUCT arr_tok)) nested_name
              ''expected '}' after nested ARR[MAP] element definition'') (\<lambda>nested.
     pthen (expect TK_RBRACKET ''expected ']' after nested ARR[MAP] element definition'')
       (ret (add_fields (set_value (node_new NK_ARRAY arr_tok)
               (typed_field arr_tok (array_type nested_name) (tk_text field_name)))
             (add_type_decls nested decl)))))"

definition nested_map_field :: "(node \<Rightarrow> string \<Rightarrow> string \<Rightarrow> node parse) \<Rightarrow> string \<Rightarrow> node \<Rightarrow> node parse" where
  "nested_map_field self_fields decl_name decl =
     pbind (expect TK_MAP ''expected MAP'') (\<lambda>map_tok.
     pbind (expect TK_NAME ''expected nested MAP field name'') (\<lambda>field_name.
     pthen (expect TK_EQUAL ''expected '=' after nested MAP field name'')
     (pif (match TK_LPAREN)
       (pbind prev (\<lambda>t. die t ''fixed MAP definitions use '{...}', not '(...)' ''))
       (pthen (expect TK_LBRACE ''expected '{' for nested MAP definition'')
       (let nested_name = decl_name @ ''_'' @ tk_text field_name in
        pbind (self_fields (with_name nested_name (node_new NK_TYPE_STRUCT map_tok)) nested_name
                 ''expected '}' after nested MAP definition'') (\<lambda>nested.
          ret (add_fields (set_value (node_new NK_INIT map_tok)
                 (typed_field map_tok nested_name (tk_text field_name)))
               (add_type_decls nested decl))))))))"

definition plain_field :: "node \<Rightarrow> node parse" where
  "plain_field decl =
     pbind parse_type (\<lambda>(ty, tok).
     pbind (expect TK_NAME ''expected field name'') (\<lambda>field_name.
     let field = typed_field tok ty (tk_text field_name) in
     pif (match TK_EQUAL)
       (pbind (parse_expression 0) (\<lambda>v. ret (add_fields (set_value v field) decl)))
       (ret (add_fields field decl))))"

text \<open>
  \<open>self_fields\<close> is \<open>parse_type_struct_fields\<close> for a nested declaration; every caller passes
  \<open>TK_RBRACE\<close> as the closing kind.
\<close>

definition type_struct_fields_step ::
  "(node \<Rightarrow> string \<Rightarrow> string \<Rightarrow> node parse) \<Rightarrow> node \<Rightarrow> string \<Rightarrow> string \<Rightarrow> node parse" where
  "type_struct_fields_step self_fields decl decl_name close_message =
     pthen skip_newlines
     (pbind (ploop (\<lambda>decl. pbind cur (\<lambda>t.
         if tk_kind t = TK_RBRACE then ret (Inr decl)
         else if tk_kind t = TK_EOF then die t ''unterminated TYPE struct''
         else pbind (pif (pand starts_inline_array_map (pand (peek_is 4 TK_NAME) (peek_is 5 TK_EQUAL)))
                (nested_array_field self_fields decl_name decl)
              (pif (pand (cur_is TK_MAP) (pand (peek_is 1 TK_NAME) (peek_is 2 TK_EQUAL)))
                (nested_map_field self_fields decl_name decl)
                (plain_field decl))) (\<lambda>decl'. pthen entry_separator (ret (Inl decl'))))) decl) (\<lambda>decl.
     pthen (expect TK_RBRACE close_message) (ret decl)))"

primrec parse_type_struct_fields_n :: "nat \<Rightarrow> node \<Rightarrow> string \<Rightarrow> string \<Rightarrow> node parse" where
  "parse_type_struct_fields_n 0 decl decl_name close_message = fail OutOfFuel"
| "parse_type_struct_fields_n (Suc n) decl decl_name close_message =
     type_struct_fields_step (parse_type_struct_fields_n n) decl decl_name close_message"

definition parse_type_struct_fields :: "node \<Rightarrow> string \<Rightarrow> string \<Rightarrow> node parse" where
  "parse_type_struct_fields decl decl_name close_message p =
     parse_type_struct_fields_n (Suc (remaining p)) decl decl_name close_message p"

definition parse_inline_array_map_alias :: "node parse" where
  "parse_inline_array_map_alias =
     pbind (inline_array_head ''expected array name after ARR[MAP]''
        ''expected '=' after ARR[MAP] name''
        ''expected '[' before ARR[MAP] element definition''
        ''expected '{' for ARR[MAP] element definition'') (\<lambda>(arr_tok, nm).
     let nested_name = tk_text nm @ ''_item'' in
     pbind (parse_type_struct_fields (with_name nested_name (node_new NK_TYPE_STRUCT arr_tok))
              nested_name ''expected '}' after ARR[MAP] element definition'') (\<lambda>nested.
     pthen (expect TK_RBRACKET ''expected ']' after ARR[MAP] element definition'')
       (ret (add_type_decls nested
              (set_value (node_new NK_ARRAY arr_tok)
                (with_type (array_type nested_name)
                  (with_name (tk_text nm) (node_new NK_TYPE_ALIAS arr_tok))))))))"

definition parse_type_decl :: "node parse" where
  "parse_type_decl =
     pbind cur (\<lambda>tok.
     pif (por (match TK_TYPE) (match TK_MAP))
      (pbind (expect TK_NAME ''expected map/type name after MAP'') (\<lambda>nm.
       pthen (expect TK_EQUAL ''expected '=' in MAP declaration'')
       (pif (match TK_LPAREN)
         (pbind prev (\<lambda>t. die t ''fixed MAP definitions use '{...}', not '(...)' ''))
       (pif (match TK_LBRACE)
         (parse_type_struct_fields (with_name (tk_text nm) (node_new NK_TYPE_STRUCT tok)) (tk_text nm)
            ''expected '}' after TYPE struct'')
       (if tk_kind tok = TK_MAP
        then pbind cur (\<lambda>t. die t (''named dynamic MAP and ARR values use type-first syntax, for example '' @
               ''MAP[STR, INT] Scores = {...} or ARR[BOL] Row = []''))
        else pbind parse_type (\<lambda>(ty, _).
             let decl = with_type ty (with_name (tk_text nm) (node_new NK_TYPE_ALIAS tok)) in
             pbind cur (\<lambda>t.
               if tk_kind t \<noteq> TK_NEWLINE \<and> tk_kind t \<noteq> TK_EOF
               then pbind (parse_expression 0) (\<lambda>v. ret (set_value v decl))
               else ret decl)))))))
      (die tok ''expected MAP declaration''))"

definition parse_top_level_value :: "node parse" where
  "parse_top_level_value =
     pbind parse_type (\<lambda>(ty, tok).
     pbind (expect TK_NAME ''expected top-level value name'') (\<lambda>nm.
     pif (match TK_EQUAL)
       (pbind (parse_expression 0) (\<lambda>v.
          ret (set_value v (with_name (tk_text nm) (with_type ty (node_new NK_TYPE_ALIAS tok))))))
       (die nm ''expected '=' after top-level named value'')))"

definition parse_top_item :: "node \<Rightarrow> node parse" where
  "parse_top_item prog =
     pif (pand starts_inline_array_map (pand (peek_is 4 TK_NAME) (peek_is 5 TK_EQUAL)))
       (pbind parse_inline_array_map_alias (\<lambda>d. ret (add_type_decls d prog)))
     (pif (pand (por (cur_is TK_TYPE) (cur_is TK_MAP)) (pand (peek_is 1 TK_NAME) (peek_is 2 TK_EQUAL)))
       (pbind parse_type_decl (\<lambda>d. ret (add_type_decls d prog)))
     (pif starts_type
       (pbind parse_top_level_value (\<lambda>d. ret (add_type_decls d prog)))
     (pif (cur_is TK_FN)
       (pbind (parse_fn_decl parse_statement) (\<lambda>d. ret (add_functions d prog)))
       (pbind parse_statement (\<lambda>d. ret (add_statements d prog))))))"

definition parse_program_from :: "node parse" where
  "parse_program_from =
     pbind cur (\<lambda>first. pthen skip_newlines
     (ploop (\<lambda>prog. pif (cur_is TK_EOF) (ret (Inr prog))
        (pbind (parse_top_item prog) (\<lambda>prog'. pthen skip_newlines (ret (Inl prog')))))
        (node_new NK_PROGRAM first)))"

definition parse_program :: "token list \<Rightarrow> node result" where
  "parse_program ts =
     rbind (parse_program_from \<lparr>toks = ts, pos = 0, allow_newline_ops = False\<rparr>) (\<lambda>(n, _). Inr n)"

text \<open>The front end: source text to syntax tree.\<close>

definition front_end :: "string \<Rightarrow> node result" where
  "front_end src = rbind (lex_source src) parse_program"

end
