(* ===== verification/AstShape.thy ===== *)
theory AstShape
  imports Parser
begin

text \<open>
  What the later phases take for granted in a syntax tree: a node has the children and
  strings its kind calls for, its operator is one of the kind's operators, and a declared
  type is the text of a type. \<open>ParserSafe\<close> shows that the parser builds no other tree.
\<close>

section \<open>Well-formed type texts and operators\<close>

definition type_text_ok :: "string \<Rightarrow> bool" where
  "type_text_ok s \<longleftrightarrow> (\<exists>t. wf_ty t \<and> s = show_ty t)"

lemma type_text_ok_intros [intro]:
  "name_ok s \<Longrightarrow> type_text_ok s"
  "type_text_ok e \<Longrightarrow> type_text_ok (array_type e)"
  "type_text_ok e \<Longrightarrow> type_text_ok (ref_type e)"
  "type_text_ok e \<Longrightarrow> type_text_ok (task_type e)"
  "type_text_ok k \<Longrightarrow> type_text_ok v \<Longrightarrow> type_text_ok (map_type k v)"
  "type_text_ok k \<Longrightarrow> type_text_ok v \<Longrightarrow> type_text_ok (fn_type k v)"
  unfolding type_text_ok_def
  by (metis show_ty.simps(1) wf_ty.simps(1), metis show_ty.simps(2) wf_ty.simps(2),
      metis show_ty.simps(4) wf_ty.simps(4), metis show_ty.simps(5) wf_ty.simps(5),
      metis show_ty.simps(3) wf_ty.simps(3), metis show_ty.simps(6) wf_ty.simps(6))

definition binary_ops :: "string list" where
  "binary_ops = [''||'', ''&&'', ''=='', ''!='', ''<'', ''<='', ''>'', ''>='', ''|'', ''+'', ''-'',
     ''*'', ''/'', ''%'', ''else'']"

definition unary_ops :: "string list" where
  "unary_ops = [''*'', ''-'', ''!'', ''REF'', ''hold'']"

definition op_in :: "string list \<Rightarrow> string option \<Rightarrow> bool" where
  "op_in ops x \<longleftrightarrow> (case x of None \<Rightarrow> False | Some s \<Rightarrow> s \<in> set ops)"

lemma op_in_simps [simp]: "op_in ops (Some s) = (s \<in> set ops)" "\<not> op_in ops None"
  by (simp_all add: op_in_def)

section \<open>The shape of a node\<close>

text \<open>What a node of kind \<open>k\<close> expects of its fields.\<close>

fun field_fits :: "node_kind \<Rightarrow> node \<Rightarrow> bool" where
  "field_fits NK_TYPE_STRUCT f = (n_name (attrs f) \<noteq> None \<and> declared_type (attrs f) \<noteq> None)"
| "field_fits NK_DESTRUCTURE f = (n_name (attrs f) \<noteq> None \<and> declared_type (attrs f) \<noteq> None)"
| "field_fits NK_MAP_LITERAL f = (n_target f \<noteq> None \<and> n_value f \<noteq> None)"
| "field_fits NK_RECORD_LITERAL f = (n_name (attrs f) \<noteq> None \<and> n_value f \<noteq> None)"
| "field_fits _ f = True"

fun shape_of :: "node_kind \<Rightarrow> node \<Rightarrow> bool" where
  "shape_of NK_TYPE_ALIAS n = (n_name (attrs n) \<noteq> None \<and> declared_type (attrs n) \<noteq> None)"
| "shape_of NK_TYPE_STRUCT n =
     (n_name (attrs n) \<noteq> None \<and> list_all (field_fits NK_TYPE_STRUCT) (n_fields n))"
| "shape_of NK_FIELD n =
     (n_value n \<noteq> None \<and> n_target n \<noteq> None \<or> n_name (attrs n) \<noteq> None)"
| "shape_of NK_FN n = (n_name (attrs n) \<noteq> None \<and> pred_option name_ok (n_name (attrs n)) \<and> n_body n \<noteq> None)"
| "shape_of NK_PARAM n = (n_name (attrs n) \<noteq> None \<and> declared_type (attrs n) \<noteq> None)"
| "shape_of NK_VAR n = (n_name (attrs n) \<noteq> None \<and> declared_type (attrs n) \<noteq> None)"
| "shape_of NK_ASSIGN n =
     (n_target n \<noteq> None \<and> (op_in [''='', ''+='', ''-=''] (n_op (attrs n)) \<and> n_value n \<noteq> None
        \<or> op_in [''++''] (n_op (attrs n))))"
| "shape_of NK_DESTRUCTURE n = (n_value n \<noteq> None \<and> list_all (field_fits NK_DESTRUCTURE) (n_fields n))"
| "shape_of NK_MAP_LITERAL n = list_all (field_fits NK_MAP_LITERAL) (n_fields n)"
| "shape_of NK_RECORD_LITERAL n = list_all (field_fits NK_RECORD_LITERAL) (n_fields n)"
| "shape_of NK_EXPR_STMT n = (n_expr n \<noteq> None)"
| "shape_of NK_IF n = (n_condition n \<noteq> None \<and> n_then_block n \<noteq> None)"
| "shape_of NK_ELX n = (n_condition n \<noteq> None \<and> n_body n \<noteq> None)"
| "shape_of NK_LOOP n = (n_body n \<noteq> None)"
| "shape_of NK_THROW n = (n_value n \<noteq> None)"
| "shape_of NK_FREE n = (n_expr n \<noteq> None)"
| "shape_of NK_AGG_STEP n = (n_value n \<noteq> None \<and> op_in [''+='', ''-''] (n_op (attrs n)))"
| "shape_of NK_STR n = (n_text (attrs n) \<noteq> None)"
| "shape_of NK_NAME n = (n_name (attrs n) \<noteq> None)"
| "shape_of NK_DOT n = (n_object n \<noteq> None \<and> (n_name (attrs n) \<noteq> None \<or> n_index n \<noteq> None))"
| "shape_of NK_UNARY n = (n_expr n \<noteq> None \<and> op_in unary_ops (n_op (attrs n)))"
| "shape_of NK_BINARY n =
     (n_left n \<noteq> None \<and> n_right n \<noteq> None \<and> op_in binary_ops (n_op (attrs n)))"
| "shape_of NK_CALL n = (n_callee n \<noteq> None)"
| "shape_of NK_METHOD_CALL n = (n_object n \<noteq> None \<and> n_name (attrs n) \<noteq> None)"
| "shape_of NK_IF_EXPR n = (n_condition n \<noteq> None \<and> n_value n \<noteq> None)"
| "shape_of _ n = True"

definition shape :: "node \<Rightarrow> bool" where
  "shape n \<longleftrightarrow> shape_of (n_kind n) n \<and> pred_option type_text_ok (declared_type (attrs n))"

text \<open>
  \<open>kids_ok P\<close>: every child, through a pointer or in a vector, satisfies \<open>P\<close>, and
  the vectors hold nodes of their kind.
\<close>

definition is_type_decl :: "node \<Rightarrow> bool" where
  "is_type_decl n \<longleftrightarrow> n_kind n = NK_TYPE_ALIAS \<or> n_kind n = NK_TYPE_STRUCT"

definition of_kind :: "node_kind \<Rightarrow> node \<Rightarrow> bool" where
  "of_kind k n \<longleftrightarrow> n_kind n = k"

lemma of_kind_iff [simp]: "of_kind k n \<longleftrightarrow> n_kind n = k"
  by (simp add: of_kind_def)

definition kids_ok :: "(node \<Rightarrow> bool) \<Rightarrow> node \<Rightarrow> bool" where
  "kids_ok P n \<longleftrightarrow>
     pred_option P (n_body n) \<and> pred_option P (n_value n) \<and>
     pred_option P (n_target n) \<and> pred_option P (n_expr n) \<and>
     pred_option P (n_condition n) \<and> pred_option P (n_then_block n) \<and>
     pred_option P (n_else_block n) \<and> pred_option P (n_object n) \<and>
     pred_option P (n_index n) \<and> pred_option P (n_callee n) \<and>
     pred_option P (n_left n) \<and> pred_option P (n_right n) \<and>
     list_all P (n_type_decls n) \<and> list_all P (n_globals n) \<and>
     list_all P (n_fields n) \<and> list_all P (n_functions n) \<and>
     list_all P (n_params n) \<and> list_all P (n_statements n) \<and>
     list_all P (n_args n) \<and> list_all P (n_elements n) \<and>
     list_all P (n_elx_branches n) \<and> list_all is_type_decl (n_type_decls n) \<and>
     list_all (of_kind NK_FN) (n_functions n) \<and>
     list_all (of_kind NK_PARAM) (n_params n) \<and>
     list_all (of_kind NK_ELX) (n_elx_branches n) \<and>
     list_all (of_kind NK_FIELD) (n_fields n)"

lemma kids_ok_mono [mono]: "P \<le> Q \<Longrightarrow> kids_ok P \<le> kids_ok Q"
  by (auto simp: kids_ok_def le_fun_def list_all_iff option.pred_set)

inductive wf_node :: "node \<Rightarrow> bool" where
  "shape n \<Longrightarrow> kids_ok wf_node n \<Longrightarrow> wf_node n"

lemma wf_node_iff: "wf_node n \<longleftrightarrow> shape n \<and> kids_ok wf_node n"
  by (subst wf_node.simps) blast

lemma wf_nodeD: "wf_node n \<Longrightarrow> shape n" "wf_node n \<Longrightarrow> kids_ok wf_node n"
  by (simp_all add: wf_node_iff)

section \<open>Building well-formed nodes\<close>

lemma kids_ok_new [simp]: "kids_ok P (node_new k t)" "kids_ok P (upd_attrs f n) = kids_ok P n"
  by (simp_all add: kids_ok_def)

lemma kids_ok_store [simp]:
  assumes "kids_ok P n" "P x"
  shows "kids_ok P (set_body x n)"
    and "kids_ok P (set_value x n)"
    and "kids_ok P (set_target x n)"
    and "kids_ok P (set_expr x n)"
    and "kids_ok P (set_condition x n)"
    and "kids_ok P (set_then_block x n)"
    and "kids_ok P (set_else_block x n)"
    and "kids_ok P (set_object x n)"
    and "kids_ok P (set_index x n)"
    and "kids_ok P (set_callee x n)"
    and "kids_ok P (set_left x n)"
    and "kids_ok P (set_right x n)"
    and "is_type_decl x \<Longrightarrow> kids_ok P (add_type_decls x n)"
    and "kids_ok P (add_globals x n)"
    and "n_kind x = NK_FIELD \<Longrightarrow> kids_ok P (add_fields x n)"
    and "n_kind x = NK_FN \<Longrightarrow> kids_ok P (add_functions x n)"
    and "n_kind x = NK_PARAM \<Longrightarrow> kids_ok P (add_params x n)"
    and "kids_ok P (add_statements x n)"
    and "kids_ok P (add_args x n)"
    and "kids_ok P (add_elements x n)"
    and "n_kind x = NK_ELX \<Longrightarrow> kids_ok P (add_elx_branches x n)"
  using assms by (simp_all add: kids_ok_def)

lemma shape_of_store [simp]:
  assumes "shape_of k n"
  shows "shape_of k (set_body x n)"
    and "shape_of k (set_value x n)"
    and "shape_of k (set_target x n)"
    and "shape_of k (set_expr x n)"
    and "shape_of k (set_condition x n)"
    and "shape_of k (set_then_block x n)"
    and "shape_of k (set_else_block x n)"
    and "shape_of k (set_object x n)"
    and "shape_of k (set_index x n)"
    and "shape_of k (set_callee x n)"
    and "shape_of k (set_left x n)"
    and "shape_of k (set_right x n)"
    and "shape_of k (add_globals x n)"
    and "shape_of k (add_functions x n)"
    and "shape_of k (add_params x n)"
    and "shape_of k (add_statements x n)"
    and "shape_of k (add_args x n)"
    and "shape_of k (add_elements x n)"
    and "shape_of k (add_elx_branches x n)"
  using assms by (cases k; force)+

lemma shape_store [simp]:
  assumes "shape n"
  shows "shape (set_body x n)"
    and "shape (set_value x n)"
    and "shape (set_target x n)"
    and "shape (set_expr x n)"
    and "shape (set_condition x n)"
    and "shape (set_then_block x n)"
    and "shape (set_else_block x n)"
    and "shape (set_object x n)"
    and "shape (set_index x n)"
    and "shape (set_callee x n)"
    and "shape (set_left x n)"
    and "shape (set_right x n)"
    and "shape (add_globals x n)"
    and "shape (add_functions x n)"
    and "shape (add_params x n)"
    and "shape (add_statements x n)"
    and "shape (add_args x n)"
    and "shape (add_elements x n)"
    and "shape (add_elx_branches x n)"
  using assms by (simp_all add: shape_def)

lemma wf_node_store [simp]:
  assumes "wf_node n" "wf_node x"
  shows "wf_node (set_body x n)"
    and "wf_node (set_value x n)"
    and "wf_node (set_target x n)"
    and "wf_node (set_expr x n)"
    and "wf_node (set_condition x n)"
    and "wf_node (set_then_block x n)"
    and "wf_node (set_else_block x n)"
    and "wf_node (set_object x n)"
    and "wf_node (set_index x n)"
    and "wf_node (set_callee x n)"
    and "wf_node (set_left x n)"
    and "wf_node (set_right x n)"
    and "wf_node (add_globals x n)"
    and "n_kind x = NK_FN \<Longrightarrow> wf_node (add_functions x n)"
    and "n_kind x = NK_PARAM \<Longrightarrow> wf_node (add_params x n)"
    and "wf_node (add_statements x n)"
    and "wf_node (add_args x n)"
    and "wf_node (add_elements x n)"
    and "n_kind x = NK_ELX \<Longrightarrow> wf_node (add_elx_branches x n)"
  using assms by (simp_all add: wf_node_iff [of n] wf_node.intros)

text \<open>The fields of a node fit its kind.\<close>

lemma wf_node_add_fields [simp]:
  assumes "wf_node n" "wf_node x" "n_kind x = NK_FIELD" "field_fits (n_kind n) x"
  shows "wf_node (add_fields x n)"
proof -
  have "shape_of (n_kind n) (add_fields x n)"
    using wf_nodeD(1) [OF assms(1)] assms(4) by (cases "n_kind n") (auto simp: shape_def)
  then show ?thesis
    using assms(1-3) by (simp add: wf_node_iff [of n] wf_node_iff [of "add_fields x n"] shape_def)
qed

text \<open>Only type declarations are nested in \<open>type_decls\<close>.\<close>

lemma wf_node_add_type_decls [simp]:
  assumes "wf_node n" "wf_node x" "is_type_decl x"
  shows "wf_node (add_type_decls x n)"
proof -
  have "shape_of (n_kind n) (add_type_decls x n)"
    using wf_nodeD(1) [OF assms(1)] by (cases "n_kind n") (auto simp: shape_def)
  then show ?thesis
    using assms by (simp add: wf_node_iff [of n] wf_node_iff [of "add_type_decls x n"] shape_def)
qed

lemma n_kind_with [simp]:
  "n_kind (with_name s n) = n_kind n"
  "n_kind (with_text s n) = n_kind n"
  "n_kind (with_sort s n) = n_kind n"
  "n_kind (with_hint s n) = n_kind n"
  "n_kind (with_int i n) = n_kind n"
  "n_kind (with_float s n) = n_kind n"
  "n_kind (with_bool b n) = n_kind n"
  "n_kind (with_type s n) = n_kind n"
  by (simp_all add: with_defs)

lemma with_sel [simp]:
  "n_name (attrs (with_name s n)) = Some s"
  "n_name (attrs (with_text s n)) = n_name (attrs n)"
  "n_name (attrs (with_sort s n)) = n_name (attrs n)"
  "n_name (attrs (with_hint s n)) = n_name (attrs n)"
  "n_name (attrs (with_int i n)) = n_name (attrs n)"
  "n_name (attrs (with_float s n)) = n_name (attrs n)"
  "n_name (attrs (with_bool b n)) = n_name (attrs n)"
  "n_name (attrs (with_type s n)) = n_name (attrs n)"
  "declared_type (attrs (with_name s n)) = declared_type (attrs n)"
  "declared_type (attrs (with_text s n)) = declared_type (attrs n)"
  "declared_type (attrs (with_sort s n)) = declared_type (attrs n)"
  "declared_type (attrs (with_hint s n)) = declared_type (attrs n)"
  "declared_type (attrs (with_int i n)) = declared_type (attrs n)"
  "declared_type (attrs (with_float s n)) = declared_type (attrs n)"
  "declared_type (attrs (with_bool b n)) = declared_type (attrs n)"
  "declared_type (attrs (with_type s n)) = Some s"
  "n_value (with_name s n) = n_value n"
  "n_value (with_text s n) = n_value n"
  "n_value (with_sort s n) = n_value n"
  "n_value (with_hint s n) = n_value n"
  "n_value (with_int i n) = n_value n"
  "n_value (with_float s n) = n_value n"
  "n_value (with_bool b n) = n_value n"
  "n_value (with_type s n) = n_value n"
  "n_target (with_name s n) = n_target n"
  "n_target (with_text s n) = n_target n"
  "n_target (with_sort s n) = n_target n"
  "n_target (with_hint s n) = n_target n"
  "n_target (with_int i n) = n_target n"
  "n_target (with_float s n) = n_target n"
  "n_target (with_bool b n) = n_target n"
  "n_target (with_type s n) = n_target n"
  "n_fields (with_name s n) = n_fields n"
  "n_fields (with_text s n) = n_fields n"
  "n_fields (with_sort s n) = n_fields n"
  "n_fields (with_hint s n) = n_fields n"
  "n_fields (with_int i n) = n_fields n"
  "n_fields (with_float s n) = n_fields n"
  "n_fields (with_bool b n) = n_fields n"
  "n_fields (with_type s n) = n_fields n"
  by (simp_all add: with_defs)

lemma wf_node_with [simp]:
  assumes "wf_node n"
  shows "n_kind n \<noteq> NK_FN \<Longrightarrow> wf_node (with_name s n)"
    and "wf_node (with_text s n)"
    and "wf_node (with_sort s n)"
    and "wf_node (with_hint s n)"
    and "wf_node (with_int i n)"
    and "wf_node (with_float s n)"
    and "wf_node (with_bool b n)"
    and "type_text_ok s \<Longrightarrow> wf_node (with_type s n)"
proof -
  have upd: "wf_node (upd_attrs f n)"
    if "shape_of (a_kind (attrs n)) (upd_attrs f n)" "a_kind (f (attrs n)) = a_kind (attrs n)"
      "pred_option type_text_ok (declared_type (f (attrs n)))" for f
    using that assms by (simp add: wf_node_iff shape_def)
  have sh: "shape_of (n_kind n) n" "pred_option type_text_ok (declared_type (attrs n))"
    using wf_nodeD(1) [OF assms] by (simp_all add: shape_def)
  show "n_kind n \<noteq> NK_FN \<Longrightarrow> wf_node (with_name s n)"
    and "wf_node (with_text s n)"
    and "wf_node (with_sort s n)"
    and "wf_node (with_hint s n)"
    and "wf_node (with_int i n)"
    and "wf_node (with_float s n)"
    and "wf_node (with_bool b n)"
    and "type_text_ok s \<Longrightarrow> wf_node (with_type s n)"
    unfolding with_defs by (rule upd; use sh in \<open>cases "n_kind n"; force\<close>)+
qed

lemma wf_node_some [simp]: "wf_node n \<Longrightarrow> pred_option wf_node x \<Longrightarrow>
    wf_node (set_opt set_right x n)"
  by (cases x) (simp_all add: set_opt_def)

lemma wf_node_object: "wf_node n \<Longrightarrow> n_object n = Some b \<Longrightarrow> wf_node b"
  by (auto simp: wf_node_iff [of n] kids_ok_def)

text \<open>A node built from scratch: shape and children separately.\<close>

lemma wf_node_fresh [simp]:
  "k \<in> {NK_PROGRAM, NK_BLOCK, NK_RET, NK_PASS, NK_INT, NK_FLT, NK_BOL, NK_NIL, NK_INIT, NK_ARRAY,
      NK_SHAPE, NK_MAP_LITERAL, NK_RECORD_LITERAL, NK_DECODE} \<Longrightarrow> wf_node (node_new k t)"
  by (auto simp: wf_node_iff shape_def)

end
