(* ===== verification/TypeTable.thy ===== *)
theory TypeTable
  imports AstShape
begin

text \<open>
  The type table of the analyzer (\<open>src/caster/analyze/types.c\<close>): declarations, lookup, the
  resolution of type texts with cached and cycle-checked aliases, the built-in MAP types and
  the construction of the table from a program. The abstract view is the relation \<open>denotes\<close>
  on types: what a type means once every alias is expanded.
\<close>

section \<open>The table\<close>

datatype type_info_kind = TYPEINFO_ALIAS | TYPEINFO_STRUCT

record type_info =
  ti_name :: string
  ti_kind :: type_info_kind
  ti_node :: node
  target_raw :: "string option"
  target :: "string option"
  resolving :: bool
  open_runtime :: bool

type_synonym type_table = "type_info list"

text \<open>The address \<open>&types->items[i]\<close> is the index \<open>i\<close>.\<close>

fun type_index :: "type_table \<Rightarrow> string \<Rightarrow> nat option" where
  "type_index [] name = None"
| "type_index (info # types) name =
     (if ti_name info = name then Some 0 else map_option Suc (type_index types name))"

definition type_find :: "type_table \<Rightarrow> string \<Rightarrow> type_info option" where
  "type_find types name = map_option (\<lambda>i. types ! i) (type_index types name)"

definition die_node_at :: "node \<Rightarrow> string \<Rightarrow> 'a result" where
  "die_node_at n msg = Inl (Die (n_line (attrs n)) (n_col (attrs n)) msg)"

definition quoted :: "string \<Rightarrow> string" where
  "quoted s = [SQUOTE] @ s @ [SQUOTE]"

definition type_push :: "type_table \<Rightarrow> type_info \<Rightarrow> type_table result" where
  "type_push types info =
     (if type_find types (ti_name info) \<noteq> None
        then die_node_at (ti_node info) (''duplicate TYPE declaration '' @ quoted (ti_name info))
      else if is_builtin_type_name (ti_name info)
        then die_node_at (ti_node info) (''TYPE name '' @ quoted (ti_name info) @ '' conflicts with a built-in type'')
      else Inr (types @ [info]))"

lemma type_index_Some:
  "type_index types name = Some i \<Longrightarrow> i < length types \<and> ti_name (types ! i) = name"
  by (induction types arbitrary: i) (auto split: if_splits)

lemma type_index_None: "type_index types name = None \<longleftrightarrow> name \<notin> set (map ti_name types)"
  by (induction types) auto

lemma type_find_Some: "type_find types name = Some info \<Longrightarrow> info \<in> set types \<and> ti_name info = name"
  using type_index_Some by (fastforce simp: type_find_def)

lemma type_find_None: "type_find types name = None \<longleftrightarrow> name \<notin> set (map ti_name types)"
  by (simp add: type_find_def type_index_None)

lemma type_index_cong: "map ti_name ts = map ti_name us \<Longrightarrow> type_index ts = type_index us"
proof (induction ts arbitrary: us)
  case Nil
  then show ?case by simp
next
  case (Cons a ts)
  then obtain b us' where us: "us = b # us'" "ti_name a = ti_name b" "map ti_name ts = map ti_name us'"
    by (cases us) auto
  from Cons.IH [OF us(3)] show ?case by (simp add: us fun_eq_iff)
qed

section \<open>Resolution\<close>

definition base_types :: "string list" where
  "base_types = [''INT'', ''FLT'', ''BOL'', ''STR'', ''NUL'']"

definition resolve_alias ::
  "(type_table \<Rightarrow> string \<Rightarrow> node \<Rightarrow> (string \<times> type_table) result) \<Rightarrow>
   type_table \<Rightarrow> nat \<Rightarrow> node \<Rightarrow> (string \<times> type_table) result" where
  "resolve_alias resolve types i at =
     (let info = types ! i in
      if ti_kind info = TYPEINFO_STRUCT then Inr (ti_name info, types)
      else case target info of
        Some t \<Rightarrow> Inr (t, types)
      | None \<Rightarrow>
          if resolving info
          then die_node_at at (''cyclic TYPE alias involving '' @ quoted (ti_name info))
          else case target_raw info of
            None \<Rightarrow> Inl NullDeref
          | Some raw \<Rightarrow>
              rbind (resolve (types[i := info\<lparr>resolving := True\<rparr>]) raw (ti_node info)) (\<lambda>(t, ts).
                Inr (t, ts[i := (ts ! i)\<lparr>target := Some t, resolving := False\<rparr>])))"

text \<open>One round of \<open>resolve_type\<close>; \<open>resolve\<close> stands for the recursive calls.\<close>

definition resolve_type_step ::
  "(type_table \<Rightarrow> string \<Rightarrow> node \<Rightarrow> (string \<times> type_table) result) \<Rightarrow>
   type_table \<Rightarrow> string \<Rightarrow> node \<Rightarrow> (string \<times> type_table) result" where
  "resolve_type_step resolve types raw at =
     (if raw \<in> set base_types then Inr (raw, types)
      else if raw = ''DYN'' then Inr (''OBJ'', types)
      else if is_array_type raw then
        rbind (resolve types (array_elem_type raw) at) (\<lambda>(e, ts). Inr (array_type e, ts))
      else if is_map_type raw then
        (case split_map_type raw of
           None \<Rightarrow> die_node_at at (''invalid MAP type '' @ quoted raw)
         | Some (k, v) \<Rightarrow>
             rbind (resolve types k at) (\<lambda>(k', ts1). rbind (resolve ts1 v at) (\<lambda>(v', ts2).
               Inr (map_type k' v', ts2))))
      else if is_ref_type raw then
        rbind (resolve types (ref_target_type raw) at) (\<lambda>(e, ts). Inr (ref_type e, ts))
      else if is_task_type raw then
        rbind (resolve types (task_result_type raw) at) (\<lambda>(e, ts). Inr (task_type e, ts))
      else if is_fn_type raw then
        (case split_fn_type raw of
           None \<Rightarrow> die_node_at at (''invalid FN type '' @ quoted raw)
         | Some (inp, out) \<Rightarrow>
             rbind (resolve types inp at) (\<lambda>(i', ts1). rbind (resolve ts1 out at) (\<lambda>(o', ts2).
               Inr (fn_type i' o', ts2))))
      else (case type_index types raw of
              Some i \<Rightarrow> resolve_alias resolve types i at
            | None \<Rightarrow> die_node_at at (''unknown type '' @ quoted raw)))"

primrec resolve_type_n :: "nat \<Rightarrow> type_table \<Rightarrow> string \<Rightarrow> node \<Rightarrow> (string \<times> type_table) result" where
  "resolve_type_n 0 types raw at = Inl OutOfFuel"
| "resolve_type_n (Suc n) types raw at = resolve_type_step (resolve_type_n n) types raw at"

text \<open>
  The depth of the recursion: at most the text's length before an alias is entered, and each
  unresolved alias is entered once.
\<close>

definition is_live :: "type_info \<Rightarrow> bool" where
  "is_live info \<longleftrightarrow> ti_kind info = TYPEINFO_ALIAS \<and> target info = None \<and> \<not> resolving info"

definition raw_bound :: "type_table \<Rightarrow> nat" where
  "raw_bound types = sum_list (map (\<lambda>info. case target_raw info of None \<Rightarrow> 0 | Some r \<Rightarrow> length r) types)"

definition resolve_fuel :: "type_table \<Rightarrow> string \<Rightarrow> nat" where
  "resolve_fuel types raw = length (filter is_live types) * (raw_bound types + 1) + length raw + 1"

definition resolve_type :: "type_table \<Rightarrow> string \<Rightarrow> node \<Rightarrow> (string \<times> type_table) result" where
  "resolve_type types raw at = resolve_type_n (resolve_fuel types raw) types raw at"

section \<open>Facts about the table\<close>

definition is_struct_type :: "type_table \<Rightarrow> string \<Rightarrow> bool" where
  "is_struct_type types name \<longleftrightarrow>
     (case type_find types name of None \<Rightarrow> False | Some info \<Rightarrow> ti_kind info = TYPEINFO_STRUCT)"

definition is_open_struct_type :: "type_table \<Rightarrow> string \<Rightarrow> bool" where
  "is_open_struct_type types name \<longleftrightarrow>
     (case type_find types name of
        None \<Rightarrow> False | Some info \<Rightarrow> ti_kind info = TYPEINFO_STRUCT \<and> open_runtime info)"

definition mark_struct_open :: "type_table \<Rightarrow> string \<Rightarrow> type_table" where
  "mark_struct_open types name =
     (case type_index types name of
        None \<Rightarrow> types
      | Some i \<Rightarrow> if ti_kind (types ! i) = TYPEINFO_STRUCT
                  then types[i := (types ! i)\<lparr>open_runtime := True\<rparr>] else types)"

definition struct_field :: "type_table \<Rightarrow> string \<Rightarrow> string \<Rightarrow> node option" where
  "struct_field types struct_name field_name =
     (case type_find types struct_name of
        None \<Rightarrow> None
      | Some info \<Rightarrow> if ti_kind info \<noteq> TYPEINFO_STRUCT then None
                    else List.find (\<lambda>f. n_name (attrs f) = Some field_name) (n_fields (ti_node info)))"

definition type_has_complete_named_value_depth :: "type_table \<Rightarrow> type_info option \<Rightarrow> nat \<Rightarrow> bool" where
  "type_has_complete_named_value_depth types info depth =
     (case info of
        None \<Rightarrow> False
      | Some found \<Rightarrow>
          if length types < depth then False
          else if ti_kind found = TYPEINFO_ALIAS then n_value (ti_node found) \<noteq> None
          else list_all (\<lambda>f. n_value f \<noteq> None) (n_fields (ti_node found)))"

definition type_has_complete_named_value :: "type_table \<Rightarrow> type_info option \<Rightarrow> bool" where
  "type_has_complete_named_value types info = type_has_complete_named_value_depth types info 0"

definition field_has_default :: "type_table \<Rightarrow> node \<Rightarrow> bool" where
  "field_has_default types field \<longleftrightarrow>
     n_value field \<noteq> None \<or>
     (case n_text (attrs field) of
        None \<Rightarrow> False
      | Some t \<Rightarrow> type_find types t \<noteq> None \<and> type_has_complete_named_value types (type_find types t)) \<or>
     (case declared_type (attrs field) of
        None \<Rightarrow> False
      | Some ty \<Rightarrow> is_array_type ty \<or> is_map_type ty \<or> is_ref_type ty \<or> is_fn_type ty)"

definition named_value_storage_name :: "string \<Rightarrow> string" where
  "named_value_storage_name name = ''flx_named_'' @ name"

text \<open>\<open>set_type\<close> records an expression's or declaration's checked type.\<close>

definition set_type :: "string \<Rightarrow> node \<Rightarrow> node" where
  "set_type t = upd_attrs (\<lambda>a. a\<lparr>checked_type := Some t\<rparr>)"

section \<open>Building the table\<close>

text \<open>Nested declarations come before the one they are nested in.\<close>

lemma size_type_decls: "d \<in> set (n_type_decls n) \<Longrightarrow> size d < size n"
  by (cases n) (auto dest: size_list_estimation' [where f = size, OF _ order_refl])

function decl_order :: "node \<Rightarrow> node list" where
  "decl_order decl = concat (map decl_order (n_type_decls decl)) @ [decl]"
  by pat_completeness auto
termination
  by (relation "measure size") (auto dest: size_type_decls)

declare decl_order.simps [simp del]

definition type_info_of :: "string \<Rightarrow> node \<Rightarrow> type_info" where
  "type_info_of name decl =
     \<lparr>ti_name = name,
      ti_kind = (if n_kind decl = NK_TYPE_ALIAS then TYPEINFO_ALIAS else TYPEINFO_STRUCT),
      ti_node = decl,
      target_raw = (if n_kind decl = NK_TYPE_ALIAS then declared_type (attrs decl) else None),
      target = None, resolving = False, open_runtime = False\<rparr>"

definition push_decl :: "node \<Rightarrow> type_table \<Rightarrow> type_table result" where
  "push_decl decl types =
     (case n_name (attrs decl) of
        None \<Rightarrow> Inl NullDeref
      | Some name \<Rightarrow> type_push types (type_info_of name decl))"

primrec push_decls :: "node list \<Rightarrow> type_table \<Rightarrow> type_table result" where
  "push_decls [] types = Inr types"
| "push_decls (d # ds) types = rbind (push_decl d types) (push_decls ds)"

definition push_type_decl_recursive :: "node \<Rightarrow> type_table \<Rightarrow> type_table result" where
  "push_type_decl_recursive decl types = push_decls (decl_order decl) types"

definition synthetic :: "node_kind \<Rightarrow> token_kind \<Rightarrow> string \<Rightarrow> node" where
  "synthetic k tk s = node_new k \<lparr>tk_kind = tk, tk_text = s, tk_line = 1, tk_col = 1\<rparr>"

definition builtin_field :: "string \<Rightarrow> string \<Rightarrow> node \<Rightarrow> node" where
  "builtin_field type name val =
     set_value val (with_text type (with_name name (with_type type (synthetic NK_FIELD TK_NAME name))))"

definition builtin_int_value :: "int \<Rightarrow> node" where
  "builtin_int_value v = with_int v (synthetic NK_INT TK_INT_LITERAL ''0'')"

definition builtin_bol_value :: "bool \<Rightarrow> node" where
  "builtin_bol_value b = with_bool b (synthetic NK_BOL TK_BOL_LITERAL (if b then ''true'' else ''false''))"

definition builtin_str_value :: "string \<Rightarrow> node" where
  "builtin_str_value s = with_text s (synthetic NK_STR TK_STRING_LITERAL s)"

definition builtin_map_value :: node where
  "builtin_map_value = synthetic NK_MAP_LITERAL TK_LBRACE ''{''"

definition builtin_struct :: "string \<Rightarrow> node list \<Rightarrow> node" where
  "builtin_struct name fs =
     fold add_fields fs (with_name name (synthetic NK_TYPE_STRUCT TK_MAP ''MAP''))"

definition ensure_builtin :: "string \<Rightarrow> node list \<Rightarrow> type_table \<Rightarrow> type_table result" where
  "ensure_builtin name fs types =
     (if type_find types name \<noteq> None then Inr types
      else type_push types (type_info_of name (builtin_struct name fs)))"

definition ensure_builtin_httpreq :: "type_table \<Rightarrow> type_table result" where
  "ensure_builtin_httpreq = ensure_builtin ''HttpReq''
     [builtin_field ''STR'' ''method'' (builtin_str_value ''GET''),
      builtin_field ''STR'' ''path'' (builtin_str_value ''/''),
      builtin_field ''STR'' ''body'' (builtin_str_value []),
      builtin_field ''MAP[STR,STR]'' ''headers'' builtin_map_value]"

definition ensure_builtin_httpres :: "type_table \<Rightarrow> type_table result" where
  "ensure_builtin_httpres = ensure_builtin ''HttpRes''
     [builtin_field ''INT'' ''status'' (builtin_int_value 0),
      builtin_field ''STR'' ''body'' (builtin_str_value []),
      builtin_field ''MAP[STR,STR]'' ''headers'' builtin_map_value]"

definition ensure_builtin_filestat :: "type_table \<Rightarrow> type_table result" where
  "ensure_builtin_filestat = ensure_builtin ''FileStat''
     [builtin_field ''STR'' ''path'' (builtin_str_value []),
      builtin_field ''BOL'' ''exists'' (builtin_bol_value False),
      builtin_field ''BOL'' ''isFile'' (builtin_bol_value False),
      builtin_field ''BOL'' ''isDir'' (builtin_bol_value False),
      builtin_field ''INT'' ''size'' (builtin_int_value 0)]"

definition ensure_builtin_procresult :: "type_table \<Rightarrow> type_table result" where
  "ensure_builtin_procresult = ensure_builtin ''ProcResult''
     [builtin_field ''INT'' ''code'' (builtin_int_value 0),
      builtin_field ''STR'' ''out'' (builtin_str_value []),
      builtin_field ''STR'' ''err'' (builtin_str_value [])]"

definition ensure_builtin_sqldb :: "type_table \<Rightarrow> type_table result" where
  "ensure_builtin_sqldb = ensure_builtin ''SQL_DB'' [builtin_field ''INT'' ''handle'' (builtin_int_value 0)]"

definition ensure_builtin_sqlexec :: "type_table \<Rightarrow> type_table result" where
  "ensure_builtin_sqlexec = ensure_builtin ''SQL_Exec''
     [builtin_field ''INT'' ''rows'' (builtin_int_value 0),
      builtin_field ''INT'' ''lastId'' (builtin_int_value 0)]"

definition ensure_builtins :: "type_table \<Rightarrow> type_table result" where
  "ensure_builtins types =
     rbind (ensure_builtin_httpreq types) (\<lambda>ts. rbind (ensure_builtin_httpres ts) (\<lambda>ts.
     rbind (ensure_builtin_filestat ts) (\<lambda>ts. rbind (ensure_builtin_procresult ts) (\<lambda>ts.
     rbind (ensure_builtin_sqldb ts) ensure_builtin_sqlexec))))"

text \<open>A declaration's field with its type resolved.\<close>

definition resolve_field :: "node \<Rightarrow> type_table \<Rightarrow> (node \<times> type_table) result" where
  "resolve_field field types =
     (case declared_type (attrs field) of
        None \<Rightarrow> Inl NullDeref
      | Some raw \<Rightarrow>
          rbind (resolve_type types raw field) (\<lambda>(t, ts). Inr (set_type t (with_type t field), ts)))"

primrec resolve_fields :: "node list \<Rightarrow> type_table \<Rightarrow> (node list \<times> type_table) result" where
  "resolve_fields [] types = Inr ([], types)"
| "resolve_fields (f # fs) types =
     rbind (resolve_field f types) (\<lambda>(f', ts). rbind (resolve_fields fs ts) (\<lambda>(fs', ts').
       Inr (f' # fs', ts')))"

text \<open>The node with other field declarations in place of its own.\<close>

definition with_fields :: "node list \<Rightarrow> node \<Rightarrow> node" where
  "with_fields fs n =
     Node (attrs n) (n_body n) (n_value n) (n_target n) (n_expr n) (n_condition n) (n_then_block n)
       (n_else_block n) (n_object n) (n_index n) (n_callee n) (n_left n) (n_right n) (n_type_decls n)
       (n_globals n) fs (n_functions n) (n_params n) (n_statements n) (n_args n) (n_elements n)
       (n_elx_branches n)"

definition resolve_entry :: "nat \<Rightarrow> type_table \<Rightarrow> type_table result" where
  "resolve_entry i types =
     (let info = types ! i in
      if ti_kind info = TYPEINFO_ALIAS then
        (case target_raw info of
           None \<Rightarrow> Inl NullDeref
         | Some raw \<Rightarrow>
             rbind (resolve_type types raw (ti_node info)) (\<lambda>(t, ts).
               Inr (ts[i := (ts ! i)\<lparr>target := Some t, ti_node := set_type t (ti_node (ts ! i))\<rparr>])))
      else
        rbind (resolve_fields (n_fields (ti_node info)) types) (\<lambda>(fs, ts).
          Inr (ts[i := (ts ! i)\<lparr>ti_node := with_fields fs (set_type (ti_name info) (ti_node (ts ! i)))\<rparr>])))"

primrec resolve_entries :: "nat list \<Rightarrow> type_table \<Rightarrow> type_table result" where
  "resolve_entries [] types = Inr types"
| "resolve_entries (i # is) types = rbind (resolve_entry i types) (resolve_entries is)"

primrec push_type_decls :: "node list \<Rightarrow> type_table \<Rightarrow> type_table result" where
  "push_type_decls [] types = Inr types"
| "push_type_decls (d # ds) types = rbind (push_type_decl_recursive d types) (push_type_decls ds)"

definition build_type_table :: "node \<Rightarrow> type_table result" where
  "build_type_table prog =
     rbind (push_type_decls (n_type_decls prog) []) (\<lambda>ts.
     rbind (ensure_builtins ts) (\<lambda>ts. resolve_entries [0..<length ts] ts))"

end
