(* ===== verification/Symbols.thy ===== *)
theory Symbols
  imports TypeTable
begin

text \<open>
  The analyzer's symbols (\<open>src/caster/analyze/symbols.c\<close>): lexical scopes, the literal keys
  known of an open MAP, and the table of functions. The tables of the analyzer share the
  interface \<open>keyed\<close>; each is interpreted on the operations the code calls.
\<close>

section \<open>Tables with named entries\<close>

text \<open>
  Entries carry their name, \<open>key\<close>. \<open>fresh t k\<close> is what the code makes sure of before it adds
  an entry named \<open>k\<close>; the lookup then behaves as a map update, so that a sequence of additions
  is a map.
\<close>

locale keyed =
  fixes look :: "'t \<Rightarrow> string \<Rightarrow> 'v option"
    and key :: "'v \<Rightarrow> string"
    and put :: "'v \<Rightarrow> 't \<Rightarrow> 't"
    and fresh :: "'t \<Rightarrow> string \<Rightarrow> bool"
  assumes look_put: "fresh t (key v) \<Longrightarrow> look (put v t) = (look t)(key v \<mapsto> v)"
    and look_key: "look t k = Some v \<Longrightarrow> key v = k"
begin

lemma look_put_same: "fresh t (key v) \<Longrightarrow> look (put v t) (key v) = Some v"
  by (simp add: look_put)

lemma look_put_other: "fresh t (key v) \<Longrightarrow> k \<noteq> key v \<Longrightarrow> look (put v t) k = look t k"
  by (simp add: look_put)

lemma look_puts:
  "(\<And>t k. fresh t k) \<Longrightarrow> look (foldl (\<lambda>t v. put v t) t vs) = look t ++ map_of (rev (map (\<lambda>v. (key v, v)) vs))"
  by (induction vs arbitrary: t) (simp_all add: look_put)

end

locale keyed_del = keyed +
  fixes del :: "string \<Rightarrow> 't \<Rightarrow> 't"
    and wf :: "'t \<Rightarrow> bool"
  assumes look_del: "wf t \<Longrightarrow> look (del k t) = (look t)(k := None)"
    and wf_put: "wf t \<Longrightarrow> fresh t (key v) \<Longrightarrow> wf (put v t)"
    and wf_del: "wf t \<Longrightarrow> wf (del k t)"
begin

lemma look_del_put: "wf t \<Longrightarrow> fresh t (key v) \<Longrightarrow> look (del (key v) (put v t)) = (look t)(key v := None)"
  by (simp add: look_del wf_put look_put)

lemma wf_puts: "(\<And>t k. fresh t k) \<Longrightarrow> wf t \<Longrightarrow> wf (foldl (\<lambda>t v. put v t) t vs)"
  by (induction vs arbitrary: t) (simp_all add: wf_put)

end

text \<open>Updates in place, through the pointer a lookup returned.\<close>

locale keyed_upd = keyed +
  fixes upd :: "('b \<Rightarrow> 'b) \<Rightarrow> string \<Rightarrow> 'a \<Rightarrow> 'a"
  assumes look_upd: "(\<And>v. key (f v) = key v) \<Longrightarrow> look (upd f k t) = (look t)(k := map_option f (look t k))"
begin

lemma look_upd_same: "(\<And>v. key (f v) = key v) \<Longrightarrow> look (upd f k t) k = map_option f (look t k)"
  by (simp add: look_upd)

lemma look_upd_other: "(\<And>v. key (f v) = key v) \<Longrightarrow> k' \<noteq> k \<Longrightarrow> look (upd f k t) k' = look t k'"
  by (simp add: look_upd)

lemma look_upd_upd:
  "(\<And>v. key (f v) = key v) \<Longrightarrow> (\<And>v. key (g v) = key v) \<Longrightarrow>
     look (upd g k (upd f k t)) = look (upd (g \<circ> f) k t)"
  by (simp add: look_upd fun_eq_iff option.map_comp)

end

section \<open>Symbols and scopes\<close>

datatype ownership_state = OWNERSHIP_UNKNOWN | OWNERSHIP_BORROWED | OWNERSHIP_OWNED | OWNERSHIP_FREED

record symbol =
  sym_name :: string
  sym_type :: string
  sym_c_expr :: "string option"
  ctx_index :: "string option"
  ctx_element :: "string option"
  ctx_element_type :: "string option"
  ctx_min_depth :: int
  ref_source_name :: "string option"
  ref_source_type :: "string option"
  ownership :: ownership_state
  is_param :: bool
  is_global :: bool
  source_literal_keys :: "string list"
  source_literal_key_types :: "(string \<times> string) list"
  sym_node :: "node option"

text \<open>The chain of scopes, innermost first; \<open>[]\<close> is the null scope.\<close>

type_synonym scope = "symbol list list"

definition scope_new :: "scope \<Rightarrow> scope" where
  "scope_new parent = [] # parent"

definition scope_items :: "symbol list \<Rightarrow> string \<Rightarrow> symbol option" where
  "scope_items items name = List.find (\<lambda>sy. sym_name sy = name) items"

definition scope_lookup_current :: "scope \<Rightarrow> string \<Rightarrow> symbol option result" where
  "scope_lookup_current s name =
     (case s of [] \<Rightarrow> Inl NullDeref | items # _ \<Rightarrow> Inr (scope_items items name))"

primrec scope_try_resolve :: "scope \<Rightarrow> string \<Rightarrow> symbol option" where
  "scope_try_resolve [] name = None"
| "scope_try_resolve (items # parent) name =
     (case scope_items items name of Some sy \<Rightarrow> Some sy | None \<Rightarrow> scope_try_resolve parent name)"

definition scope_resolve :: "scope \<Rightarrow> string \<Rightarrow> node \<Rightarrow> symbol result" where
  "scope_resolve s name n =
     (case scope_try_resolve s name of
        Some sy \<Rightarrow> Inr sy
      | None \<Rightarrow> die_node_at n (''unknown name '' @ quoted name))"

definition new_symbol :: "string \<Rightarrow> string \<Rightarrow> string option \<Rightarrow> node \<Rightarrow> symbol" where
  "new_symbol name type c_ex n =
     \<lparr>sym_name = name, sym_type = type, sym_c_expr = c_ex, ctx_index = None, ctx_element = None,
      ctx_element_type = None, ctx_min_depth = 0, ref_source_name = None, ref_source_type = None,
      ownership = OWNERSHIP_UNKNOWN, is_param = False, is_global = False, source_literal_keys = [],
      source_literal_key_types = [], sym_node = Some n\<rparr>"

definition scope_put :: "symbol \<Rightarrow> scope \<Rightarrow> scope" where
  "scope_put sy s = (case s of [] \<Rightarrow> [] | items # parent \<Rightarrow> (items @ [sy]) # parent)"

text \<open>\<open>scope_define\<close> with the fields its callers set on the symbol it returns.\<close>

definition scope_define_symbol :: "symbol \<Rightarrow> node \<Rightarrow> scope \<Rightarrow> scope result" where
  "scope_define_symbol sy n s =
     rbind (scope_lookup_current s (sym_name sy)) (\<lambda>found.
       if found \<noteq> None then die_node_at n (''redeclaration of '' @ quoted (sym_name sy))
       else Inr (scope_put sy s))"

definition scope_define :: "scope \<Rightarrow> string \<Rightarrow> string \<Rightarrow> string option \<Rightarrow> node \<Rightarrow> scope result" where
  "scope_define s name type c_ex n = scope_define_symbol (new_symbol name type c_ex n) n s"

definition scope_define_ctx ::
  "scope \<Rightarrow> string \<Rightarrow> string \<Rightarrow> string option \<Rightarrow> string option \<Rightarrow> node \<Rightarrow> scope result" where
  "scope_define_ctx s name type index_expr element_expr n =
     scope_define_symbol
       ((new_symbol name type None n)\<lparr>ctx_index := index_expr, ctx_element := element_expr,
          ctx_element_type := (if element_expr \<noteq> None \<and> is_loop_ctx_type type
                               then Some (loop_ctx_element_type type) else None)\<rparr>) n s"

definition is_implicit_loop_source_name :: "string option \<Rightarrow> bool" where
  "is_implicit_loop_source_name name \<longleftrightarrow>
     name \<noteq> None \<and> name \<noteq> Some ''e'' \<and> name \<noteq> Some ''i'' \<and> name \<noteq> Some ''val''"

definition scope_define_loop_source_ctx ::
  "scope \<Rightarrow> scope \<Rightarrow> node option \<Rightarrow> string option \<Rightarrow> string option \<Rightarrow> string option \<Rightarrow> int \<Rightarrow> scope result" where
  "scope_define_loop_source_ctx s parent source index_expr element_expr element_type min_depth =
     (case source of
        None \<Rightarrow> Inr s
      | Some src \<Rightarrow>
          if n_kind src \<noteq> NK_NAME \<or> \<not> is_implicit_loop_source_name (n_name (attrs src)) then Inr s
          else (case n_name (attrs src) of
            None \<Rightarrow> Inr s
          | Some name \<Rightarrow>
              rbind (scope_lookup_current s name) (\<lambda>found.
                if found \<noteq> None then Inr s
                else (case scope_try_resolve parent name of
                  None \<Rightarrow> Inr s
                | Some base \<Rightarrow>
                    scope_define_symbol
                      ((new_symbol name (sym_type base) (sym_c_expr base) src)\<lparr>
                         ownership := ownership base, is_param := is_param base, is_global := is_global base,
                         ctx_index := index_expr, ctx_element := element_expr,
                         ctx_element_type := element_type, ctx_min_depth := min_depth\<rparr>) src s))))"

text \<open>An update through the pointer \<open>scope_try_resolve\<close> returned.\<close>

fun items_update :: "(symbol \<Rightarrow> symbol) \<Rightarrow> string \<Rightarrow> symbol list \<Rightarrow> symbol list" where
  "items_update f name [] = []"
| "items_update f name (sy # items) =
     (if sym_name sy = name then f sy # items else sy # items_update f name items)"

primrec scope_update :: "(symbol \<Rightarrow> symbol) \<Rightarrow> string \<Rightarrow> scope \<Rightarrow> scope" where
  "scope_update f name [] = []"
| "scope_update f name (items # parent) =
     (if scope_items items name \<noteq> None then items_update f name items # parent
      else items # scope_update f name parent)"

lemma scope_items_simps [simp]:
  "scope_items [] name = None"
  "scope_items (sy # items) name = (if sym_name sy = name then Some sy else scope_items items name)"
  by (simp_all add: scope_items_def)

lemma scope_items_append:
  "scope_items (xs @ ys) name = (case scope_items xs name of Some s \<Rightarrow> Some s | None \<Rightarrow> scope_items ys name)"
  by (induction xs) auto

lemma scope_items_name: "scope_items items name = Some sy \<Longrightarrow> sym_name sy = name \<and> sy \<in> set items"
  by (induction items) (auto split: if_splits)

lemma scope_items_None: "scope_items items name = None \<longleftrightarrow> name \<notin> sym_name ` set items"
  by (induction items) auto

text \<open>The scopes are a table; \<open>scope_define\<close> adds only what the current scope does not have.\<close>

definition scope_fresh :: "scope \<Rightarrow> string \<Rightarrow> bool" where
  "scope_fresh s name \<longleftrightarrow> scope_lookup_current s name = Inr None"

lemma scope_try_resolve_put:
  assumes "scope_fresh s (sym_name sy)"
  shows "scope_try_resolve (scope_put sy s) = (scope_try_resolve s)(sym_name sy \<mapsto> sy)"
proof (cases s)
  case (Cons items parent)
  then have "scope_items items (sym_name sy) = None"
    using assms by (simp add: scope_fresh_def scope_lookup_current_def)
  then show ?thesis
    using Cons by (auto simp: fun_eq_iff scope_put_def scope_items_append split: option.splits)
qed (use assms in \<open>simp add: scope_fresh_def scope_lookup_current_def\<close>)

lemma scope_try_resolve_name: "scope_try_resolve s name = Some sy \<Longrightarrow> sym_name sy = name"
  by (induction s) (auto split: option.splits dest: scope_items_name)

interpretation scopes: keyed scope_try_resolve sym_name scope_put scope_fresh
  by unfold_locales (simp_all add: scope_try_resolve_put scope_try_resolve_name)

lemma scope_items_update:
  "(\<And>v. sym_name (f v) = sym_name v) \<Longrightarrow>
     scope_items (items_update f name items) = (scope_items items)(name := map_option f (scope_items items name))"
  by (induction items) (auto simp: fun_eq_iff)

lemma scope_try_resolve_update:
  "(\<And>v. sym_name (f v) = sym_name v) \<Longrightarrow>
     scope_try_resolve (scope_update f name s) = (scope_try_resolve s)(name := map_option f (scope_try_resolve s name))"
  by (induction s) (auto simp: fun_eq_iff scope_items_update split: option.splits)

interpretation scopes: keyed_upd scope_try_resolve sym_name scope_put scope_fresh scope_update
  by unfold_locales (simp_all add: scope_try_resolve_update)

definition type_fresh :: "type_table \<Rightarrow> string \<Rightarrow> bool" where
  "type_fresh types name \<longleftrightarrow> type_find types name = None"

lemma type_find_Nil [simp]: "type_find [] name = None"
  by (simp add: type_find_def)

lemma type_find_Cons [simp]:
  "type_find (info # types) name = (if ti_name info = name then Some info else type_find types name)"
  by (simp add: type_find_def option.map_comp comp_def)

lemma type_find_append:
  "type_find (xs @ ys) name = (case type_find xs name of Some t \<Rightarrow> Some t | None \<Rightarrow> type_find ys name)"
  by (induction xs) auto

interpretation type_tables: keyed type_find ti_name "\<lambda>info types. types @ [info]" type_fresh
  by unfold_locales
    (auto simp: type_fresh_def type_find_append fun_eq_iff split: option.splits dest: type_find_Some)

section \<open>Literal keys\<close>

text \<open>The small vectors of strings, and of keys with their types.\<close>

definition ptrvec_has_string :: "string list \<Rightarrow> string \<Rightarrow> bool" where
  "ptrvec_has_string vec val \<longleftrightarrow> val \<in> set vec"

definition ptrvec_push_unique_string :: "string option \<Rightarrow> string list \<Rightarrow> string list" where
  "ptrvec_push_unique_string val vec =
     (case val of
        None \<Rightarrow> vec
      | Some v \<Rightarrow> if ptrvec_has_string vec v then vec else vec @ [v])"

type_synonym key_types = "(string \<times> string) list"

definition source_key_type_find :: "key_types \<Rightarrow> string \<Rightarrow> (string \<times> string) option" where
  "source_key_type_find vec key = List.find (\<lambda>entry. fst entry = key) vec"

fun key_type_replace :: "string \<times> string \<Rightarrow> key_types \<Rightarrow> key_types" where
  "key_type_replace kt [] = []"
| "key_type_replace kt (entry # vec) =
     (if fst entry = fst kt then kt # vec else entry # key_type_replace kt vec)"

definition key_type_put :: "string \<times> string \<Rightarrow> key_types \<Rightarrow> key_types" where
  "key_type_put kt vec =
     (if source_key_type_find vec (fst kt) \<noteq> None then key_type_replace kt vec else vec @ [kt])"

definition source_key_type_set :: "string option \<Rightarrow> string option \<Rightarrow> key_types \<Rightarrow> key_types" where
  "source_key_type_set key type vec =
     (case (key, type) of (Some k, Some t) \<Rightarrow> key_type_put (k, t) vec | _ \<Rightarrow> vec)"

fun source_key_type_remove :: "string \<Rightarrow> key_types \<Rightarrow> key_types" where
  "source_key_type_remove key [] = []"
| "source_key_type_remove key (entry # vec) =
     (if fst entry = key then vec else entry # source_key_type_remove key vec)"

definition symbol_remove_source_literal_key :: "string \<Rightarrow> symbol \<Rightarrow> symbol" where
  "symbol_remove_source_literal_key key sy =
     sy\<lparr>source_literal_keys := remove1 key (source_literal_keys sy),
         source_literal_key_types := source_key_type_remove key (source_literal_key_types sy)\<rparr>"

lemma key_type_find_simps [simp]:
  "source_key_type_find [] k = None"
  "source_key_type_find (kt # vec) k = (if fst kt = k then Some kt else source_key_type_find vec k)"
  by (simp_all add: source_key_type_find_def)

lemma key_type_find_append:
  "source_key_type_find (xs @ ys) k =
     (case source_key_type_find xs k of Some t \<Rightarrow> Some t | None \<Rightarrow> source_key_type_find ys k)"
  by (induction xs) auto

lemma key_type_find_None: "source_key_type_find vec k = None \<longleftrightarrow> k \<notin> fst ` set vec"
  by (induction vec) auto

lemma key_type_find_key: "source_key_type_find vec k = Some kt \<Longrightarrow> fst kt = k"
  by (induction vec) (auto split: if_splits)

lemma key_type_replace_keys: "map fst (key_type_replace kt vec) = map fst vec"
  by (induction vec) auto

lemma key_type_find_replace:
  "source_key_type_find vec (fst kt) \<noteq> None \<Longrightarrow>
     source_key_type_find (key_type_replace kt vec) = (source_key_type_find vec)(fst kt \<mapsto> kt)"
  by (induction vec) (auto simp: fun_eq_iff split: if_splits)

lemma key_type_find_put: "source_key_type_find (key_type_put kt vec) = (source_key_type_find vec)(fst kt \<mapsto> kt)"
  using key_type_find_replace [of vec kt]
  by (auto simp: key_type_put_def key_type_find_append fun_eq_iff split: option.splits)

lemma key_type_remove_keys: "map fst (source_key_type_remove k vec) = remove1 k (map fst vec)"
  by (induction vec) auto

lemma key_type_find_remove:
  "distinct (map fst vec) \<Longrightarrow> source_key_type_find (source_key_type_remove k vec) = (source_key_type_find vec)(k := None)"
proof (induction vec)
  case (Cons kt vec)
  then show ?case using key_type_find_None [of vec k] by (auto simp: fun_eq_iff)
qed (simp add: fun_eq_iff)

lemma key_type_put_keys: "map fst (key_type_put kt vec) = (if fst kt \<in> fst ` set vec then map fst vec else map fst vec @ [fst kt])"
  by (auto simp: key_type_put_def key_type_find_None key_type_replace_keys simp flip: not_None_eq)

interpretation key_types: keyed_del source_key_type_find fst key_type_put "\<lambda>t k. True"
    source_key_type_remove "\<lambda>vec. distinct (map fst vec)"
  by unfold_locales
    (auto simp: key_type_find_put key_type_find_key key_type_find_remove key_type_put_keys key_type_remove_keys)

text \<open>
  The literal keys an expression proves. Both collectors walk the same way: through literals,
  names and \<open>+\<close>; a name that is no symbol stands for its named MAP value, whose expression is
  walked in its place. \<open>by_map\<close>, \<open>by_record\<close> are what an entry of a literal adds, \<open>by_symbol\<close>
  what a symbol adds and \<open>by_struct\<close> what a declared MAP adds. \<open>self\<close> is the recursive call.
\<close>

definition named_map_value :: "type_info \<Rightarrow> node option" where
  "named_map_value info =
     (if ti_kind info = TYPEINFO_ALIAS \<and> (case target info of None \<Rightarrow> False | Some t \<Rightarrow> is_map_type t)
      then n_value (ti_node info) else None)"

definition walk_step ::
  "(node \<Rightarrow> 'a \<Rightarrow> 'a) \<Rightarrow> (node \<Rightarrow> 'a \<Rightarrow> 'a) \<Rightarrow> (symbol \<Rightarrow> 'a \<Rightarrow> 'a) \<Rightarrow> (type_info \<Rightarrow> 'a \<Rightarrow> 'a) \<Rightarrow>
   (node option \<Rightarrow> 'a \<Rightarrow> 'a result) \<Rightarrow> scope \<Rightarrow> type_table \<Rightarrow> node option \<Rightarrow> 'a \<Rightarrow> 'a result" where
  "walk_step by_map by_record by_symbol by_struct self s types expr acc =
     (case expr of
        None \<Rightarrow> Inr acc
      | Some e \<Rightarrow>
          if n_kind e = NK_MAP_LITERAL then Inr (fold by_map (n_fields e) acc)
          else if n_kind e = NK_RECORD_LITERAL then Inr (fold by_record (n_fields e) acc)
          else if n_kind e = NK_NAME then
            (case n_name (attrs e) of
               None \<Rightarrow> Inl NullDeref
             | Some name \<Rightarrow>
                 (case scope_try_resolve s name of
                    Some sy \<Rightarrow> Inr (by_symbol sy acc)
                  | None \<Rightarrow>
                      (case type_find types name of
                         None \<Rightarrow> Inr acc
                       | Some info \<Rightarrow>
                           (case named_map_value info of
                              Some v \<Rightarrow> self (Some v) acc
                            | None \<Rightarrow> Inr (if ti_kind info = TYPEINFO_STRUCT then by_struct info acc else acc)))))
          else if n_kind e = NK_BINARY \<and> n_op (attrs e) = Some ''+''
            then rbind (self (n_left e) acc) (self (n_right e))
          else Inr acc)"

definition map_entry_key :: "node \<Rightarrow> string option" where
  "map_entry_key entry =
     (case n_target entry of
        None \<Rightarrow> None
      | Some k \<Rightarrow> if n_kind k = NK_STR then n_text (attrs k) else None)"

definition entry_type :: "node \<Rightarrow> string option" where
  "entry_type entry = (case n_value entry of None \<Rightarrow> None | Some v \<Rightarrow> checked_type (attrs v))"

primrec collect_source_literal_keys ::
  "nat \<Rightarrow> scope \<Rightarrow> type_table \<Rightarrow> node option \<Rightarrow> string list \<Rightarrow> string list result" where
  "collect_source_literal_keys 0 s types expr keys = Inl OutOfFuel"
| "collect_source_literal_keys (Suc n) s types expr keys =
     walk_step (\<lambda>entry. ptrvec_push_unique_string (map_entry_key entry))
       (\<lambda>entry. ptrvec_push_unique_string (n_name (attrs entry)))
       (\<lambda>sy. fold (\<lambda>k. ptrvec_push_unique_string (Some k)) (source_literal_keys sy))
       (\<lambda>info keys. keys)
       (collect_source_literal_keys n s types) s types expr keys"

primrec collect_source_literal_key_types ::
  "nat \<Rightarrow> scope \<Rightarrow> type_table \<Rightarrow> node option \<Rightarrow> key_types \<Rightarrow> key_types result" where
  "collect_source_literal_key_types 0 s types expr kts = Inl OutOfFuel"
| "collect_source_literal_key_types (Suc n) s types expr kts =
     walk_step (\<lambda>entry. source_key_type_set (map_entry_key entry) (entry_type entry))
       (\<lambda>entry. source_key_type_set (n_name (attrs entry)) (entry_type entry))
       (\<lambda>sy. fold key_type_put (source_literal_key_types sy))
       (\<lambda>info. fold (\<lambda>f. source_key_type_set (n_name (attrs f)) (declared_type (attrs f))) (n_fields (ti_node info)))
       (collect_source_literal_key_types n s types) s types expr kts"

definition symbol_set_source_literal_keys_from_expr ::
  "nat \<Rightarrow> scope \<Rightarrow> type_table \<Rightarrow> node option \<Rightarrow> symbol \<Rightarrow> symbol result" where
  "symbol_set_source_literal_keys_from_expr fuel s types expr sy =
     rbind (collect_source_literal_keys fuel s types expr []) (\<lambda>keys.
     rbind (collect_source_literal_key_types fuel s types expr []) (\<lambda>kts.
       Inr (sy\<lparr>source_literal_keys := fold (\<lambda>k. ptrvec_push_unique_string (Some k)) keys [],
               source_literal_key_types := fold key_type_put kts []\<rparr>)))"

definition symbol_add_source_literal_keys_from_expr ::
  "nat \<Rightarrow> scope \<Rightarrow> type_table \<Rightarrow> node option \<Rightarrow> symbol \<Rightarrow> symbol result" where
  "symbol_add_source_literal_keys_from_expr fuel s types expr sy =
     rbind (collect_source_literal_keys fuel s types expr (source_literal_keys sy)) (\<lambda>keys.
     rbind (collect_source_literal_key_types fuel s types expr (source_literal_key_types sy)) (\<lambda>kts.
       Inr (sy\<lparr>source_literal_keys := keys, source_literal_key_types := kts\<rparr>)))"

definition expr_has_source_literal_key :: "nat \<Rightarrow> scope \<Rightarrow> type_table \<Rightarrow> node option \<Rightarrow> string \<Rightarrow> bool result" where
  "expr_has_source_literal_key fuel s types expr key =
     rbind (collect_source_literal_keys fuel s types expr []) (\<lambda>keys. Inr (ptrvec_has_string keys key))"

definition expr_source_literal_key_type ::
  "nat \<Rightarrow> scope \<Rightarrow> type_table \<Rightarrow> node option \<Rightarrow> string \<Rightarrow> string option result" where
  "expr_source_literal_key_type fuel s types expr key =
     rbind (collect_source_literal_key_types fuel s types expr []) (\<lambda>kts.
       Inr (map_option snd (source_key_type_find kts key)))"

text \<open>
  The declaration a symbol points at is refined with it: the node is the symbol's own, the
  updated copy stands for the node of the tree.
\<close>

definition refine_symbol_type :: "string \<Rightarrow> symbol \<Rightarrow> symbol" where
  "refine_symbol_type type sy =
     sy\<lparr>sym_type := type,
        sym_node := map_option (\<lambda>n.
          if inferred_decl (attrs n) then
            (let n1 = with_type type n in
             case n_value n1 of
               Some v \<Rightarrow> if type_eq (checked_type (attrs v)) (Some ''ARR[?]'')
                         then set_value (set_type type v) n1 else n1
             | None \<Rightarrow> n1)
          else n) (sym_node sy)\<rparr>"

end
