(* ===== verification/SymbolFacts.thy ===== *)
theory SymbolFacts
  imports Symbols
begin

text \<open>
  What the symbol operations guarantee: scoping, the facts kept about literal keys, and when
  the walks that collect them end.
\<close>

section \<open>The key sets of a symbol\<close>

definition symbol_ok :: "symbol \<Rightarrow> bool" where
  "symbol_ok sy \<longleftrightarrow> distinct (source_literal_keys sy) \<and> distinct (map fst (source_literal_key_types sy))"

lemma push_unique_distinct: "distinct keys \<Longrightarrow> distinct (ptrvec_push_unique_string k keys)"
  by (auto simp: ptrvec_push_unique_string_def ptrvec_has_string_def split: option.splits)

lemma push_unique_set: "set (ptrvec_push_unique_string k keys) = set keys \<union> set_option k"
  by (auto simp: ptrvec_push_unique_string_def ptrvec_has_string_def split: option.splits)

lemma key_type_put_distinct: "distinct (map fst kts) \<Longrightarrow> distinct (map fst (key_type_put kt kts))"
  by (rule key_types.wf_put) auto

lemma key_type_set_distinct: "distinct (map fst kts) \<Longrightarrow> distinct (map fst (source_key_type_set k t kts))"
  by (auto simp: source_key_type_set_def key_type_put_distinct split: option.splits)

lemma fold_invariant: "(\<And>x a. x \<in> set xs \<Longrightarrow> P a \<Longrightarrow> P (f x a)) \<Longrightarrow> P a \<Longrightarrow> P (fold f xs a)"
  by (induction xs arbitrary: a) auto

text \<open>A walk keeps what each of its additions keeps.\<close>

lemma walk_step_invariant:
  assumes run: "walk_step bm br bs bt self s types expr a = Inr b" and a: "P a"
    and add: "\<And>x a. P a \<Longrightarrow> P (bm x a)" "\<And>x a. P a \<Longrightarrow> P (br x a)" "\<And>x a. P a \<Longrightarrow> P (bs x a)"
      "\<And>x a. P a \<Longrightarrow> P (bt x a)"
    and self: "\<And>e a b. P a \<Longrightarrow> self e a = Inr b \<Longrightarrow> P b"
  shows "P b"
  using run a self
  by (auto simp: walk_step_def rbind_eq_Inr fold_invariant add split: option.splits if_splits) blast+

lemma collect_keys_distinct:
  "collect_source_literal_keys n s types expr keys = Inr keys' \<Longrightarrow> distinct keys \<Longrightarrow> distinct keys'"
proof (induction n arbitrary: expr keys keys')
  case (Suc n)
  have fold: "distinct ks \<Longrightarrow> distinct (fold (\<lambda>k. ptrvec_push_unique_string (Some k)) xs ks)" for xs ks
    by (rule fold_invariant) (auto intro: push_unique_distinct)
  show ?case
    by (rule walk_step_invariant [OF Suc.prems(1) [unfolded collect_source_literal_keys.simps], where P = distinct])
      (use Suc in \<open>auto intro: push_unique_distinct fold\<close>)
qed simp

lemma collect_types_distinct:
  "collect_source_literal_key_types n s types expr kts = Inr kts' \<Longrightarrow> distinct (map fst kts) \<Longrightarrow> distinct (map fst kts')"
proof (induction n arbitrary: expr kts kts')
  case (Suc n)
  have fold: "distinct (map fst ks) \<Longrightarrow> distinct (map fst (fold key_type_put xs ks))" for xs ks
    by (rule fold_invariant) (auto intro: key_type_put_distinct)
  have fold': "distinct (map fst ks) \<Longrightarrow> distinct (map fst (fold (\<lambda>f. source_key_type_set (g f) (h f)) xs ks))"
    for xs :: "node list" and ks g h
    by (rule fold_invariant) (auto intro: key_type_set_distinct)
  show ?case
    by (rule walk_step_invariant [OF Suc.prems(1) [unfolded collect_source_literal_key_types.simps],
          where P = "\<lambda>kts. distinct (map fst kts)"])
      (use Suc in \<open>auto intro: key_type_set_distinct fold fold'\<close>)
qed simp

section \<open>When the walks end\<close>

text \<open>The names an expression reaches through \<open>+\<close>.\<close>

function plus_names :: "node \<Rightarrow> string list" where
  "plus_names e =
     (if n_kind e = NK_NAME then (case n_name (attrs e) of None \<Rightarrow> [] | Some nm \<Rightarrow> [nm])
      else if n_kind e = NK_BINARY \<and> n_op (attrs e) = Some ''+'' then
        (case n_left e of None \<Rightarrow> [] | Some l \<Rightarrow> plus_names l)
        @ (case n_right e of None \<Rightarrow> [] | Some r \<Rightarrow> plus_names r)
      else [])"
  by pat_completeness auto

termination
proof (relation "measure size")
  show "n_left e = Some l \<Longrightarrow> (l, e) \<in> measure size" for e l by (cases e) auto
  show "n_right e = Some r \<Longrightarrow> (r, e) \<in> measure size" for e r by (cases e) auto
qed simp

declare plus_names.simps [simp del]

lemma size_left: "n_left e = Some l \<Longrightarrow> size l < size e"
  and size_right: "n_right e = Some r \<Longrightarrow> size r < size e"
  by (cases e; auto)+

text \<open>Named MAP values refer to values of a smaller rank only: none reaches itself.\<close>

definition ranked :: "type_table \<Rightarrow> (string \<Rightarrow> nat) \<Rightarrow> bool" where
  "ranked types r \<longleftrightarrow>
     (\<forall>a info v. type_find types a = Some info \<longrightarrow> named_map_value info = Some v \<longrightarrow>
        (\<forall>b \<in> set (plus_names v). r b < r a))"

lemma walk_ends:
  fixes f :: "nat \<Rightarrow> node option \<Rightarrow> 'a \<Rightarrow> 'a result"
  assumes step: "\<And>n expr acc. f (Suc n) expr acc = walk_step bm br bs bt (f n) s types expr acc"
    and ranked: "ranked types r"
  shows "(\<forall>b \<in> set (plus_names e). r b < k) \<Longrightarrow> \<exists>n. \<forall>m \<ge> n. \<forall>acc. f m (Some e) acc \<noteq> Inl OutOfFuel"
proof (induction k arbitrary: e rule: less_induct)
  case (less k)
  note outer = less.IH
  have "\<exists>n. \<forall>m \<ge> n. \<forall>acc. f m (Some e) acc \<noteq> Inl OutOfFuel" if "\<forall>b \<in> set (plus_names e). r b < k" for e
    using that
  proof (induction e rule: measure_induct_rule [where f = size])
    case (less e)
    note inner = less
    have opt: "\<exists>n. \<forall>m \<ge> n. \<forall>acc. f m x acc \<noteq> Inl OutOfFuel"
      if plus: "n_kind e = NK_BINARY" "n_op (attrs e) = Some ''+''" and x: "x = n_left e \<or> x = n_right e" for x
    proof (cases x)
      case None
      have "f m x acc \<noteq> Inl OutOfFuel" if "Suc 0 \<le> m" for m acc
        using that None by (cases m) (simp_all add: step walk_step_def)
      then show ?thesis by blast
    next
      case (Some c)
      have "size c < size e" using x Some size_left size_right by metis
      moreover have "\<forall>b \<in> set (plus_names c). r b < k"
        using inner(2) plus x Some by (subst (asm) plus_names.simps) auto
      ultimately show ?thesis using inner(1) Some by blast
    qed
    have stop: "f (Suc n) (Some e) acc \<noteq> Inl OutOfFuel"
      if "\<not> (n_kind e = NK_BINARY \<and> n_op (attrs e) = Some ''+'')"
        "\<And>a info v. n_kind e = NK_NAME \<Longrightarrow> n_name (attrs e) = Some a \<Longrightarrow> scope_try_resolve s a = None \<Longrightarrow>
           type_find types a = Some info \<Longrightarrow> named_map_value info = Some v \<Longrightarrow> False" for n acc
      using that by (auto simp: step walk_step_def split: option.splits)
    consider (name) a info v where "n_kind e = NK_NAME" "n_name (attrs e) = Some a" "scope_try_resolve s a = None"
        "type_find types a = Some info" "named_map_value info = Some v"
      | (plus) "n_kind e = NK_BINARY" "n_op (attrs e) = Some ''+''"
      | (leaf) "\<And>n acc. f (Suc n) (Some e) acc \<noteq> Inl OutOfFuel"
      using stop by blast
    then show ?case
    proof cases
      case name
      have "r a < k" using inner(2) name(1,2) by (simp add: plus_names.simps)
      moreover have "\<forall>b \<in> set (plus_names v). r b < r a" using ranked name(4,5) by (auto simp: ranked_def)
      ultimately obtain n where n: "\<forall>m \<ge> n. \<forall>acc. f m (Some v) acc \<noteq> Inl OutOfFuel"
        using outer by blast
      have "f m (Some e) acc \<noteq> Inl OutOfFuel" if "Suc n \<le> m" for m acc
        using that n name by (cases m) (simp_all add: step walk_step_def)
      then show ?thesis by blast
    next
      case plus
      obtain n1 n2 where n: "\<forall>m \<ge> n1. \<forall>acc. f m (n_left e) acc \<noteq> Inl OutOfFuel"
          "\<forall>m \<ge> n2. \<forall>acc. f m (n_right e) acc \<noteq> Inl OutOfFuel"
        using opt [OF plus, of "n_left e"] opt [OF plus, of "n_right e"] by blast
      have "f m (Some e) acc \<noteq> Inl OutOfFuel" if "Suc (max n1 n2) \<le> m" for m acc
        using that n plus by (cases m) (auto simp: step walk_step_def rbind_eq_Inl)
      then show ?thesis by blast
    next
      case leaf
      have "f m (Some e) acc \<noteq> Inl OutOfFuel" if "Suc 0 \<le> m" for m acc
        using that leaf by (cases m) simp_all
      then show ?thesis by blast
    qed
  qed
  then show ?case using less.prems by blast
qed

section \<open>Properties\<close>

text \<open>
  C15: Scoping is lexical: defining a name in a new scope makes it visible there, hides the outer
  symbol of that name, changes no other name, and leaves the outer scopes as they were; defining
  it again in the same scope is the diagnostic for a redeclaration at the second definition.
\<close>

theorem scope_define_lexical:
  "case scope_define (scope_new s) name type c_ex n of
     Inl e \<Rightarrow> False
   | Inr s' \<Rightarrow>
       scope_try_resolve s' = (scope_try_resolve s)(name \<mapsto> new_symbol name type c_ex n)
       \<and> tl s' = s
       \<and> scope_define s' name type' c_ex' n' = die_node_at n' (''redeclaration of '' @ quoted name)"
proof -
  let ?sy = "new_symbol name type c_ex n"
  have nm: "sym_name ?sy = name" "sym_name (new_symbol name type' c_ex' n') = name" by (simp_all add: new_symbol_def)
  have "scope_fresh (scope_new s) (sym_name ?sy)"
    by (simp add: scope_fresh_def scope_new_def scope_lookup_current_def)
  from scopes.look_put [OF this] show ?thesis
    by (simp add: nm scope_define_def scope_define_symbol_def scope_lookup_current_def scope_new_def scope_put_def
        fun_eq_iff)
qed

text \<open>
  C16: The literal keys of a symbol are exact: removing a key forgets the key and its type and
  nothing else, and replacing or extending the keys from an expression never records a key twice,
  so that one removal is enough.
\<close>

theorem symbol_keys_exact:
  assumes "symbol_ok sy"
  shows "(let sy' = symbol_remove_source_literal_key k sy in
        symbol_ok sy' \<and> set (source_literal_keys sy') = set (source_literal_keys sy) - {k} \<and>
        source_key_type_find (source_literal_key_types sy') =
          (source_key_type_find (source_literal_key_types sy))(k := None))
     \<and> (case symbol_set_source_literal_keys_from_expr fuel s types expr sy of
          Inl e \<Rightarrow> True | Inr sy' \<Rightarrow> symbol_ok sy')
     \<and> (case symbol_add_source_literal_keys_from_expr fuel s types expr sy of
          Inl e \<Rightarrow> True | Inr sy' \<Rightarrow> symbol_ok sy')"
proof (intro conjI)
  have keys: "distinct (source_literal_keys sy)" and types: "distinct (map fst (source_literal_key_types sy))"
    using assms by (simp_all add: symbol_ok_def)
  show "let sy' = symbol_remove_source_literal_key k sy in
        symbol_ok sy' \<and> set (source_literal_keys sy') = set (source_literal_keys sy) - {k} \<and>
        source_key_type_find (source_literal_key_types sy') =
          (source_key_type_find (source_literal_key_types sy))(k := None)"
    using keys key_types.look_del [OF types] key_types.wf_del [OF types]
    by (simp add: symbol_remove_source_literal_key_def symbol_ok_def Let_def)
  have unique: "distinct (fold (\<lambda>k. ptrvec_push_unique_string (Some k)) xs [])" for xs
    by (rule fold_invariant) (auto intro: push_unique_distinct)
  have puts: "distinct (map fst (fold key_type_put xs []))" for xs
    by (rule fold_invariant) (auto intro: key_type_put_distinct)
  show "case symbol_set_source_literal_keys_from_expr fuel s types expr sy of
          Inl e \<Rightarrow> True | Inr sy' \<Rightarrow> symbol_ok sy'"
    by (auto simp: symbol_set_source_literal_keys_from_expr_def symbol_ok_def rbind_eq_Inr unique puts split: sum.split)
  show "case symbol_add_source_literal_keys_from_expr fuel s types expr sy of
          Inl e \<Rightarrow> True | Inr sy' \<Rightarrow> symbol_ok sy'"
    using keys types collect_keys_distinct collect_types_distinct
    by (auto simp: symbol_add_source_literal_keys_from_expr_def symbol_ok_def rbind_eq_Inr split: sum.split)
qed

text \<open>A symbol with two literal keys, one of them typed.\<close>

definition sample_keyed :: symbol where
  "sample_keyed = (new_symbol ''m'' ''OPEN'' None builtin_map_value)
     \<lparr>source_literal_keys := [''a'', ''b''], source_literal_key_types := [(''a'', ''INT'')]\<rparr>"

theorem symbol_keys_exact_witness:
  "symbol_ok sample_keyed \<and>
   (let sy' = symbol_remove_source_literal_key ''a'' sample_keyed in
        symbol_ok sy' \<and> set (source_literal_keys sy')
          = set (source_literal_keys sample_keyed) - {''a''} \<and>
        source_key_type_find (source_literal_key_types sy') =
          (source_key_type_find (source_literal_key_types sample_keyed))(''a'' := None))"
proof
  show ok: "symbol_ok sample_keyed"
    by (simp add: symbol_ok_def sample_keyed_def new_symbol_def)
  show "let sy' = symbol_remove_source_literal_key ''a'' sample_keyed in
        symbol_ok sy' \<and> set (source_literal_keys sy')
          = set (source_literal_keys sample_keyed) - {''a''} \<and>
        source_key_type_find (source_literal_key_types sy') =
          (source_key_type_find (source_literal_key_types sample_keyed))(''a'' := None)"
    by (rule conjunct1 [OF symbol_keys_exact [OF ok]])
qed

text \<open>
  C17: Collecting the literal keys of an expression terminates when no named MAP value reaches
  itself through the values it names: from some depth on the recursion is never cut off.
\<close>

theorem collect_literal_keys_ends:
  assumes "ranked types r"
  shows "\<exists>n. \<forall>m \<ge> n.
     (\<forall>keys. collect_source_literal_keys m s types (Some e) keys \<noteq> Inl OutOfFuel) \<and>
     (\<forall>kts. collect_source_literal_key_types m s types (Some e) kts \<noteq> Inl OutOfFuel)"
proof -
  define k where "k = Suc (sum_list (map r (plus_names e)))"
  have "r b < k" if "b \<in> set (plus_names e)" for b
    using that member_le_sum_list [of "r b" "map r (plus_names e)"] by (simp add: k_def less_Suc_eq_le)
  then have bound: "\<forall>b \<in> set (plus_names e). r b < k" by simp
  obtain n1 where 1: "\<forall>m \<ge> n1. \<forall>keys. collect_source_literal_keys m s types (Some e) keys \<noteq> Inl OutOfFuel"
    using walk_ends [where f = "\<lambda>n. collect_source_literal_keys n s types", OF collect_source_literal_keys.simps(2) assms bound] by blast
  obtain n2 where 2: "\<forall>m \<ge> n2. \<forall>kts. collect_source_literal_key_types m s types (Some e) kts \<noteq> Inl OutOfFuel"
    using walk_ends [where f = "\<lambda>n. collect_source_literal_key_types n s types", OF collect_source_literal_key_types.simps(2) assms bound]
    by blast
  from 1 2 show ?thesis by (intro exI [of _ "max n1 n2"]) simp
qed

text \<open>
  Two named MAP values, \<open>MAP[STR,INT] A = {"k": NUL}\<close> and \<open>MAP[STR,INT] B = A + A\<close>: the walk for
  \<open>B\<close> goes through both named values, so that a depth of three is not enough and four is.
\<close>

definition sample_name_node :: "string \<Rightarrow> node" where
  "sample_name_node nm = with_name nm (synthetic NK_NAME TK_NAME nm)"

definition sample_named_map :: "string \<Rightarrow> node \<Rightarrow> type_info" where
  "sample_named_map nm v =
     \<lparr>ti_name = nm, ti_kind = TYPEINFO_ALIAS,
      ti_node = set_value v (with_name nm (synthetic NK_TYPE_ALIAS TK_MAP ''MAP'')),
      target_raw = Some ''MAP[STR,INT]'', target = Some ''MAP[STR,INT]'', resolving = False, open_runtime = False\<rparr>"

definition sample_map_table :: type_table where
  "sample_map_table =
     [sample_named_map ''A'' (add_fields (set_target (with_text ''k'' (synthetic NK_STR TK_STRING_LITERAL ''k''))
        (synthetic NK_FIELD TK_STRING_LITERAL ''k'')) (synthetic NK_MAP_LITERAL TK_LBRACE ''{'')),
      sample_named_map ''B'' (set_right (sample_name_node ''A'') (set_left (sample_name_node ''A'')
        (with_op ''+'' (synthetic NK_BINARY TK_PLUS ''+''))))]"

lemma sample_map_ranked: "ranked sample_map_table (\<lambda>a. if a = ''B'' then 1 else 0)"
  by (auto simp: ranked_def sample_map_table_def sample_named_map_def sample_name_node_def type_find_def
      named_map_value_def synthetic_def with_defs plus_names.simps split: if_splits)

theorem collect_literal_keys_ends_witness:
  "(\<exists>n. \<forall>m \<ge> n.
     (\<forall>keys. collect_source_literal_keys m [] sample_map_table (Some (sample_name_node ''B'')) keys \<noteq> Inl OutOfFuel) \<and>
     (\<forall>kts. collect_source_literal_key_types m [] sample_map_table (Some (sample_name_node ''B'')) kts \<noteq> Inl OutOfFuel)) \<and>
   collect_source_literal_keys 4 [] sample_map_table (Some (sample_name_node ''B'')) [] = Inr [''k''] \<and>
   collect_source_literal_keys 3 [] sample_map_table (Some (sample_name_node ''B'')) [] = Inl OutOfFuel"
proof (intro conjI)
  show "\<exists>n. \<forall>m \<ge> n.
     (\<forall>keys. collect_source_literal_keys m [] sample_map_table (Some (sample_name_node ''B'')) keys \<noteq> Inl OutOfFuel) \<and>
     (\<forall>kts. collect_source_literal_key_types m [] sample_map_table (Some (sample_name_node ''B'')) kts \<noteq> Inl OutOfFuel)"
    by (rule collect_literal_keys_ends [OF sample_map_ranked])
qed (simp_all add: eval_nat_numeral walk_step_def sample_map_table_def sample_named_map_def sample_name_node_def
    named_map_value_def synthetic_def with_defs type_find_def is_map_type_def bracketed_def starts_with_def
    map_entry_key_def ptrvec_push_unique_string_def ptrvec_has_string_def)

text \<open>
  The hypothesis of the last property is needed: for a named MAP value whose value is its own
  name the collection of keys never returns, whatever the depth allowed.
\<close>

theorem collect_literal_keys_self_reference:
  "collect_source_literal_keys n []
     [\<lparr>ti_name = ''A'', ti_kind = TYPEINFO_ALIAS,
       ti_node = set_value (with_name ''A'' (synthetic NK_NAME TK_NAME ''A'')) (synthetic NK_TYPE_ALIAS TK_MAP ''MAP''),
       target_raw = Some ''MAP[STR,INT]'', target = Some ''MAP[STR,INT]'', resolving = False, open_runtime = False\<rparr>]
     (Some (with_name ''A'' (synthetic NK_NAME TK_NAME ''A''))) keys = Inl OutOfFuel"
  (is "collect_source_literal_keys n [] ?types ?e keys = _")
proof (induction n)
  case (Suc n)
  have "collect_source_literal_keys (Suc n) [] ?types ?e keys = collect_source_literal_keys n [] ?types ?e keys"
    by (simp add: walk_step_def named_map_value_def synthetic_def with_name_def is_map_type_def bracketed_def starts_with_def)
  then show ?case by (simp only: Suc)
qed simp

end
