(* ===== verification/Names.thy ===== *)
theory Names
  imports Symbols
begin

text \<open>
  The names the C emitter writes (\<open>src/caster/emit/names.c\<close>): type texts turned into C
  identifiers and C types, the names of the runtime helpers of a type, and string literals.
  The lookups in the global type table take it as an argument. A type text that cannot be
  split is a null pointer in the source, and \<open>sanitize_upper\<close> reads through it.
\<close>

section \<open>Mangling\<close>

definition sanitize_char :: "char \<Rightarrow> char" where
  "sanitize_char c = (if isalnum c then toupper c else CHR ''_'')"

definition sanitize_upper :: "string \<Rightarrow> string" where
  "sanitize_upper s = map sanitize_char s"

lemma length_inner4: "length t \<ge> 5 \<Longrightarrow> length (inner4 t) < length t"
  by (simp add: inner4_def)

lemma bracketed_length: "bracketed head t \<Longrightarrow> last head \<noteq> CHR '']'' \<Longrightarrow> head \<noteq> [] \<Longrightarrow> length head < length t"
proof (rule ccontr)
  assume b: "bracketed head t" "last head \<noteq> CHR '']''" "head \<noteq> []" "\<not> length head < length t"
  then have "t = head" by (auto simp: bracketed_def starts_with_def)
  with b show False by (simp add: bracketed_def)
qed

lemma split_arrow_length:
  "split_arrow d acc s = Some (a, b) \<Longrightarrow> length a \<le> length acc + length s \<and> length b \<le> length s"
  by (induction d acc s rule: split_arrow.induct) (fastforce split: if_splits)+

lemma split_fn_type_length:
  assumes "is_fn_type t" and "split_fn_type t = Some (a, b)"
  shows "length a < length t" "length b < length t"
proof -
  have "3 < length t" using bracketed_length [of "''FN[''" t] assms(1) by (simp add: is_fn_type_def)
  then show "length a < length t" "length b < length t"
    using split_arrow_length assms(2) by (fastforce simp: split_fn_type_def)+
qed

lemma split_comma_length:
  "split_comma d acc s = Some (a, b) \<Longrightarrow> length a \<le> length acc + length s \<and> length b \<le> length s"
  by (induction d acc s rule: split_comma.induct) (fastforce split: if_splits)+

lemma array_elem_length: "is_array_type t \<Longrightarrow> length (array_elem_type t) < length t"
  and ref_target_length: "is_ref_type t \<Longrightarrow> length (ref_target_type t) < length t"
  and task_result_length: "is_task_type t \<Longrightarrow> length (task_result_type t) < length t"
  using bracketed_length [of "''ARR[''" t] bracketed_length [of "''REF[''" t] bracketed_length [of "''TSK[''" t]
  by (simp_all add: is_array_type_def is_ref_type_def is_task_type_def array_elem_type_def
      ref_target_type_def task_result_type_def length_inner4)

function mangle :: "string \<Rightarrow> string result" where
  "mangle t =
     (if t \<in> {''INT'', ''FLT'', ''BOL'', ''STR''} then Inr t
      else if is_array_type t then rbind (mangle (array_elem_type t)) (\<lambda>m. Inr (''ARR_'' @ m))
      else if is_task_type t then rbind (mangle (task_result_type t)) (\<lambda>m. Inr (''TSK_'' @ m))
      else if is_fn_type t then
        (case split_fn_type t of
           None \<Rightarrow> Inl NullDeref
         | Some (i, r) \<Rightarrow>
             rbind (mangle i) (\<lambda>mi. rbind (mangle r) (\<lambda>mr. Inr (''FN_'' @ mi @ ''_TO_'' @ mr))))
      else Inr (sanitize_upper t))"
  by pat_completeness auto

termination
  by (relation "measure length") (auto simp: array_elem_length task_result_length split_fn_type_length)

declare mangle.simps [simp del]

function ctype :: "type_table \<Rightarrow> string \<Rightarrow> string result" where
  "ctype types t =
     (if t = ''INT'' then Inr ''int64_t''
      else if t = ''FLT'' then Inr ''double''
      else if t = ''BOL'' then Inr ''bool''
      else if t = ''STR'' then Inr ''FLX_STR''
      else if t = ''OBJ'' then Inr ''FLX_OBJ''
      else if t = ''OPEN'' then Inr ''FLX_OBJMAP''
      else if t = ''NUL'' then Inr ''void''
      else if is_ref_type t then rbind (ctype types (ref_target_type t)) (\<lambda>c. Inr (c @ ''*''))
      else if is_task_type t \<or> is_fn_type t \<or> is_array_type t \<or> is_map_type t
        then rbind (mangle t) (\<lambda>m. Inr (''FLX_'' @ m))
      else if is_struct_type types t then Inr (''FLX_'' @ t)
      else Inr ''void'')"
  by pat_completeness auto

termination
  by (relation "measure (\<lambda>(types, t). length t)") (auto simp: ref_target_length)

declare ctype.simps [simp del]

section \<open>Helper names\<close>

definition lower_mangle :: "string \<Rightarrow> string result" where
  "lower_mangle t = rbind (mangle t) (\<lambda>m. Inr (map tolower m))"

definition flx_name :: "string \<Rightarrow> string \<Rightarrow> string \<Rightarrow> string result" where
  "flx_name pre t post = rbind (lower_mangle t) (\<lambda>m. Inr (pre @ m @ post))"

definition arr_make :: "string \<Rightarrow> string result" where "arr_make t = flx_name ''flx_'' t ''_make''"
definition arr_add :: "string \<Rightarrow> string result" where "arr_add t = flx_name ''flx_'' t ''_add''"
definition arr_concat :: "string \<Rightarrow> string result" where "arr_concat t = flx_name ''flx_'' t ''_concat''"
definition arr_sub_value :: "string \<Rightarrow> string result" where "arr_sub_value t = flx_name ''flx_'' t ''_sub_value''"
definition arr_drop :: "string \<Rightarrow> string result" where "arr_drop t = flx_name ''flx_'' t ''_drop''"

definition struct_copy_fn_for_type :: "string \<Rightarrow> string result" where
  "struct_copy_fn_for_type t = flx_name ''flx_copy_'' t []"

definition struct_promote_fn_for_type :: "string \<Rightarrow> string result" where
  "struct_promote_fn_for_type t = flx_name ''flx_promote_'' t []"

definition struct_promote_ref_fn_for_type :: "string \<Rightarrow> string result" where
  "struct_promote_ref_fn_for_type t = flx_name ''flx_promote_ref_'' t []"

definition ref_owner_field_name :: "string \<Rightarrow> string" where
  "ref_owner_field_name name = ''flx_owns_'' @ name"

definition map_entry_ctype :: "type_table \<Rightarrow> string \<Rightarrow> string result" where
  "map_entry_ctype types t = rbind (ctype types t) (\<lambda>c. Inr (c @ ''_ENTRY''))"

definition map_fn :: "string \<Rightarrow> string \<Rightarrow> string result" where
  "map_fn t suf = flx_name ''flx_'' t (''_'' @ suf)"

definition json_decode_fn :: "string \<Rightarrow> string result" where
  "json_decode_fn t = flx_name ''flx_json_decode_'' t []"

definition is_obj_scalar_type :: "string \<Rightarrow> bool" where
  "is_obj_scalar_type t \<longleftrightarrow> t \<in> {''INT'', ''FLT'', ''BOL'', ''STR''}"

definition obj_from_fn :: "string \<Rightarrow> string result" where
  "obj_from_fn t =
     (if t = ''INT'' then Inr ''flx_obj_from_int''
      else if t = ''FLT'' then Inr ''flx_obj_from_flt''
      else if t = ''BOL'' then Inr ''flx_obj_from_bol''
      else if t = ''STR'' then Inr ''flx_obj_from_str''
      else if t = ''NUL'' then Inr ''flx_obj_from_nil''
      else if t = ''OPEN'' then Inr ''flx_obj_from_objmap''
      else flx_name ''flx_obj_from_'' t [])"

definition obj_as_fn :: "string \<Rightarrow> string result" where
  "obj_as_fn t =
     (if t = ''INT'' then Inr ''flx_obj_as_int''
      else if t = ''FLT'' then Inr ''flx_obj_as_flt''
      else if t = ''BOL'' then Inr ''flx_obj_as_bol''
      else if t = ''STR'' then Inr ''flx_obj_as_str''
      else if t = ''OPEN'' then Inr ''flx_obj_as_objmap''
      else flx_name ''flx_obj_as_'' t [])"

section \<open>String literals\<close>

definition c_escape_piece :: "char \<Rightarrow> string" where
  "c_escape_piece c =
     (if c = DQUOTE then [BSLASH, DQUOTE]
      else if c = BSLASH then [BSLASH, BSLASH]
      else if c = NL then [BSLASH, CHR ''n'']
      else if c = TAB then [BSLASH, CHR ''t'']
      else [c])"

definition c_escape :: "string \<Rightarrow> string" where
  "c_escape s = [DQUOTE] @ concat (map c_escape_piece s) @ [DQUOTE]"

definition emit_key_literal :: "string \<Rightarrow> string" where
  "emit_key_literal key = ''flx_str_lit('' @ c_escape key @ '', '' @ show_nat (length key) @ '')''"

definition emit_obj_value :: "string \<Rightarrow> string \<Rightarrow> string result" where
  "emit_obj_value t e =
     (if t = ''OBJ'' then Inr e
      else if t = ''NUL'' then Inr ''flx_obj_from_nil()''
      else rbind (obj_from_fn t) (\<lambda>f. Inr (f @ ''('' @ e @ '')'')))"

definition emit_obj_get_typed :: "string \<Rightarrow> string \<Rightarrow> string \<Rightarrow> string result" where
  "emit_obj_get_typed t obj key_expr =
     rbind (obj_as_fn t) (\<lambda>f. Inr (f @ ''(flx_objmap_get('' @ obj @ '', '' @ key_expr @ ''))''))"

definition emit_obj_set_typed :: "string \<Rightarrow> string \<Rightarrow> string \<Rightarrow> string \<Rightarrow> string result" where
  "emit_obj_set_typed obj key_expr t value_expr =
     rbind (emit_obj_value t value_expr) (\<lambda>v.
       Inr (''flx_objmap_add('' @ obj @ '', '' @ key_expr @ '', '' @ v @ '')''))"

definition emit_named_value_fn_name :: "string \<Rightarrow> string" where
  "emit_named_value_fn_name name = ''flx_value_'' @ name"

definition emit_named_value_storage_name :: "string \<Rightarrow> string" where
  "emit_named_value_storage_name name = ''flx_named_'' @ name"

section \<open>What the names are worth\<close>

text \<open>The mangling of a type, by its structure.\<close>

fun mangle_ty :: "cty \<Rightarrow> string" where
  "mangle_ty (TArr e) = ''ARR_'' @ mangle_ty e"
| "mangle_ty (TTsk e) = ''TSK_'' @ mangle_ty e"
| "mangle_ty (TFn i r) = ''FN_'' @ mangle_ty i @ ''_TO_'' @ mangle_ty r"
| "mangle_ty t = sanitize_upper (show_ty t)"

lemma sanitize_upper_append [simp]: "sanitize_upper (s @ t) = sanitize_upper s @ sanitize_upper t"
  by (simp add: sanitize_upper_def)

lemma sanitize_literals [simp]:
  "sanitize_upper ''ARR['' = ''ARR_''" "sanitize_upper ''MAP['' = ''MAP_''" "sanitize_upper ''REF['' = ''REF_''"
  "sanitize_upper ''TSK['' = ''TSK_''" "sanitize_upper ''FN['' = ''FN_''" "sanitize_upper '']'' = ''_''"
  "sanitize_upper '','' = ''_''" "sanitize_upper ''->'' = ''__''"
  "sanitize_upper ''INT'' = ''INT''" "sanitize_upper ''FLT'' = ''FLT''"
  "sanitize_upper ''BOL'' = ''BOL''" "sanitize_upper ''STR'' = ''STR''"
  by (simp_all add: sanitize_upper_def sanitize_char_def char_defs)

lemma mangle_show: "wf_ty t \<Longrightarrow> mangle (show_ty t) = Inr (mangle_ty t)"
proof (induction t)
  case (TName s)
  then show ?case by (auto simp: mangle.simps [of s])
next
  case (TFn i r)
  then show ?case
    using split_fn_type_show [of i r] type_tests_show [of "TFn i r"]
    by (simp add: mangle.simps [of "fn_type _ _"]) (simp add: fn_type_def)
next
  case (TArr e)
  then show ?case
    using type_tests_show [of "TArr e"] by (simp add: mangle.simps [of "array_type _"]) (simp add: array_type_def)
next
  case (TTsk e)
  then show ?case
    using type_tests_show [of "TTsk e"] by (simp add: mangle.simps [of "task_type _"]) (simp add: task_type_def)
next
  case (TMap k v)
  then show ?case
    using type_tests_show [of "TMap k v"] by (simp add: mangle.simps [of "map_type _ _"])
next
  case (TRef e)
  then show ?case
    using type_tests_show [of "TRef e"] by (simp add: mangle.simps [of "ref_type _"])
qed

text \<open>The characters of C identifiers that the emitter uses.\<close>

definition ident_char :: "char \<Rightarrow> bool" where
  "ident_char c \<longleftrightarrow> isalnum c \<or> c = CHR ''_''"

lemma ident_char_literals [simp]: "ident_char (CHR ''_'')"
  by (simp add: ident_char_def)

lemma code_underscore [simp]: "code (CHR ''_'') = 95"
  by (simp add: code_def)

lemma tolower_underscore: "tolower c = CHR ''_'' \<longleftrightarrow> c = CHR ''_''"
proof -
  have "code (tolower c) = 95 \<longleftrightarrow> code c = 95" by (auto simp: code_tolower isupper_def)
  then show ?thesis by (metis code_inject code_underscore)
qed

lemma ident_char_sanitize [simp]: "ident_char (sanitize_char c)" "ident_char (tolower c) = ident_char c"
  by (auto simp: ident_char_def sanitize_char_def tolower_underscore)

lemma sanitize_upper_ident: "list_all ident_char (sanitize_upper s)"
  by (simp add: sanitize_upper_def list_all_iff)

lemma mangle_ty_ident: "list_all ident_char (mangle_ty t)"
proof (induction t)
  case (TFn i r)
  then show ?case by (simp add: ident_char_def char_defs)
qed (simp_all add: sanitize_upper_ident del: sanitize_upper_append show_ty.simps, simp_all add: ident_char_def char_defs)

lemma mangle_ty_nonempty: "wf_ty t \<Longrightarrow> mangle_ty t \<noteq> []"
  by (cases t) (auto simp: name_ok_def sanitize_upper_def type_build_defs)

text \<open>Upper case and digits: what mangling writes, on which lowering is injective.\<close>

definition upper_char :: "char \<Rightarrow> bool" where
  "upper_char c \<longleftrightarrow> \<not> islower c"

lemma upper_char_sanitize [simp]: "upper_char (sanitize_char c)"
  by (auto simp: upper_char_def sanitize_char_def islower_def code_toupper)

lemma mangle_ty_upper: "list_all upper_char (mangle_ty t)"
proof -
  have s: "list_all upper_char (sanitize_upper s)" for s by (simp add: sanitize_upper_def list_all_iff)
  show ?thesis
    by (induction t) (simp_all add: s del: sanitize_upper_append show_ty.simps, simp_all add: upper_char_def char_defs)
qed

lemma tolower_inject: "upper_char c \<Longrightarrow> upper_char d \<Longrightarrow> tolower c = tolower d \<longleftrightarrow> c = d"
proof
  assume u: "upper_char c" "upper_char d" and eq: "tolower c = tolower d"
  then have "code (tolower c) = code (tolower d)" by simp
  with u have "code c = code d" by (auto simp: code_tolower upper_char_def isupper_def islower_def split: if_splits)
  then show "c = d" by simp
qed simp

lemma map_tolower_inject:
  "list_all upper_char s \<Longrightarrow> list_all upper_char t \<Longrightarrow> map tolower s = map tolower t \<longleftrightarrow> s = t"
proof (induction s arbitrary: t)
  case (Cons c s)
  then show ?case by (cases t) (auto simp: tolower_inject)
qed auto

text \<open>Types that name no type of the program: only the language's own names occur in them.\<close>

definition own_names :: "string list" where
  "own_names = [''INT'', ''FLT'', ''BOL'', ''STR'', ''NUL'', ''OBJ'', ''OPEN'', ''SHAPE'']"

fun builtin_ty :: "cty \<Rightarrow> bool" where
  "builtin_ty (TName s) = (s \<in> set own_names)"
| "builtin_ty (TArr e) = builtin_ty e"
| "builtin_ty (TMap k v) = (builtin_ty k \<and> builtin_ty v)"
| "builtin_ty (TRef e) = builtin_ty e"
| "builtin_ty (TTsk e) = builtin_ty e"
| "builtin_ty (TFn i r) = (builtin_ty i \<and> builtin_ty r)"

lemma own_names_ok: "s \<in> set own_names \<Longrightarrow> name_ok s \<and> sanitize_upper s = s"
  by (auto simp: own_names_def name_ok_def word_char_def sanitize_upper_def sanitize_char_def char_defs)

lemma builtin_wf: "builtin_ty t \<Longrightarrow> wf_ty t"
  by (induction t) (auto simp: own_names_ok)

text \<open>Both codes are prefix codes: what follows a code word cannot change how it is read.\<close>

lemma own_names_prefix_code:
  "s \<in> set own_names \<Longrightarrow> u \<in> set own_names \<Longrightarrow> s @ r = u @ r' \<Longrightarrow> s = u \<and> r = r'"
  by (simp add: own_names_def, elim disjE; simp)

lemma own_names_no_head:
  assumes "s \<in> set own_names"
  shows "s @ r \<noteq> ''ARR_'' @ x" "s @ r \<noteq> ''MAP_'' @ x" "s @ r \<noteq> ''REF_'' @ x" "s @ r \<noteq> ''TSK_'' @ x"
    "s @ r \<noteq> ''FN_'' @ x"
  using assms by (auto simp: own_names_def)

lemmas own_names_no_head_sym = own_names_no_head [THEN not_sym]
lemmas own_names_code = own_names_ok own_names_no_head [simplified] own_names_no_head_sym [simplified]

lemma sanitize_types:
  "sanitize_upper (array_type e) = ''ARR_'' @ sanitize_upper e @ ''_''"
  "sanitize_upper (map_type k v) = ''MAP_'' @ sanitize_upper k @ ''_'' @ sanitize_upper v @ ''_''"
  "sanitize_upper (ref_type e) = ''REF_'' @ sanitize_upper e @ ''_''"
  "sanitize_upper (task_type e) = ''TSK_'' @ sanitize_upper e @ ''_''"
  "sanitize_upper (fn_type i o') = ''FN_'' @ sanitize_upper i @ ''__'' @ sanitize_upper o' @ ''_''"
  by (simp_all only: type_build_defs sanitize_upper_append sanitize_literals)

lemma sanitize_prefix_code:
  "builtin_ty t \<Longrightarrow> builtin_ty u \<Longrightarrow> sanitize_upper (show_ty t) @ r = sanitize_upper (show_ty u) @ r'
   \<Longrightarrow> t = u \<and> r = r'"
proof (induction t arbitrary: u r r')
  case (TName s)
  then show ?case by (cases u) (auto simp: own_names_code sanitize_types dest: own_names_prefix_code)
next
  case (TArr e)
  have "\<exists>e'. u = TArr e'"
    using TArr.prems by (cases u) (simp_all add: own_names_code sanitize_types)
  then obtain e' where u: "u = TArr e'" by blast
  from TArr.IH [of e' "''_'' @ r" "''_'' @ r'"] TArr.prems u show ?case by (simp add: sanitize_types)
next
  case (TMap k v)
  have "\<exists>k' v'. u = TMap k' v'"
    using TMap.prems by (cases u) (simp_all add: own_names_code sanitize_types)
  then obtain k' v' where u: "u = TMap k' v'" by blast
  with TMap.prems have "sanitize_upper (show_ty k) @ ''_'' @ sanitize_upper (show_ty v) @ ''_'' @ r
      = sanitize_upper (show_ty k') @ ''_'' @ sanitize_upper (show_ty v') @ ''_'' @ r'"
    by (simp add: sanitize_types)
  from TMap.IH(1) [OF _ _ this] TMap.IH(2) [of v' "''_'' @ r" "''_'' @ r'"] TMap.prems u show ?case by simp
next
  case (TRef e)
  have "\<exists>e'. u = TRef e'"
    using TRef.prems by (cases u) (simp_all add: own_names_code sanitize_types)
  then obtain e' where u: "u = TRef e'" by blast
  from TRef.IH [of e' "''_'' @ r" "''_'' @ r'"] TRef.prems u show ?case by (simp add: sanitize_types)
next
  case (TTsk e)
  have "\<exists>e'. u = TTsk e'"
    using TTsk.prems by (cases u) (simp_all add: own_names_code sanitize_types)
  then obtain e' where u: "u = TTsk e'" by blast
  from TTsk.IH [of e' "''_'' @ r" "''_'' @ r'"] TTsk.prems u show ?case by (simp add: sanitize_types)
next
  case (TFn i o')
  have "\<exists>j p. u = TFn j p"
    using TFn.prems by (cases u) (simp_all add: own_names_code sanitize_types)
  then obtain j p where u: "u = TFn j p" by blast
  with TFn.prems have "sanitize_upper (show_ty i) @ ''__'' @ sanitize_upper (show_ty o') @ ''_'' @ r
      = sanitize_upper (show_ty j) @ ''__'' @ sanitize_upper (show_ty p) @ ''_'' @ r'"
    by (simp add: sanitize_types)
  from TFn.IH(1) [OF _ _ this] TFn.IH(2) [of p "''_'' @ r" "''_'' @ r'"] TFn.prems u show ?case by simp
qed

lemma mangle_prefix_code:
  "builtin_ty t \<Longrightarrow> builtin_ty u \<Longrightarrow> mangle_ty t @ r = mangle_ty u @ r' \<Longrightarrow> t = u \<and> r = r'"
proof (induction t arbitrary: u r r')
  case (TName s)
  then show ?case by (cases u) (auto simp: own_names_code sanitize_types dest: own_names_prefix_code)
next
  case (TArr e)
  have "\<exists>e'. u = TArr e'"
    using TArr.prems by (cases u) (simp_all add: own_names_code sanitize_types)
  then obtain e' where u: "u = TArr e'" by blast
  from TArr.IH [of e' r r'] TArr.prems u show ?case by (simp add: sanitize_types)
next
  case (TMap k v)
  have "\<exists>k' v'. u = TMap k' v'"
    using TMap.prems by (cases u) (simp_all add: own_names_code sanitize_types)
  then obtain k' v' where u: "u = TMap k' v'" by blast
  from sanitize_prefix_code [of "TMap k v" u r r'] TMap.prems show ?case unfolding u by simp
next
  case (TRef e)
  have "\<exists>e'. u = TRef e'"
    using TRef.prems by (cases u) (simp_all add: own_names_code sanitize_types)
  then obtain e' where u: "u = TRef e'" by blast
  from sanitize_prefix_code [of "TRef e" u r r'] TRef.prems show ?case unfolding u by simp
next
  case (TTsk e)
  have "\<exists>e'. u = TTsk e'"
    using TTsk.prems by (cases u) (simp_all add: own_names_code sanitize_types)
  then obtain e' where u: "u = TTsk e'" by blast
  from TTsk.IH [of e' r r'] TTsk.prems u show ?case by (simp add: sanitize_types)
next
  case (TFn i o')
  have "\<exists>j p. u = TFn j p"
    using TFn.prems by (cases u) (simp_all add: own_names_code sanitize_types)
  then obtain j p where u: "u = TFn j p" by blast
  with TFn.prems have "mangle_ty i @ ''_TO_'' @ mangle_ty o' @ r = mangle_ty j @ ''_TO_'' @ mangle_ty p @ r'"
    by simp
  from TFn.IH(1) [OF _ _ this] TFn.IH(2) [of p r r'] TFn.prems u show ?case by simp
qed

section \<open>How a C compiler reads a literal\<close>

text \<open>
  The reference for \<open>c_escape\<close> is C11: the phases of translation replace trigraphs (5.2.1.1),
  which the compiler the driver runs does because of \<open>-std=c11\<close>, then splice lines (5.1.1.2),
  and read a string literal with its simple escapes (6.4.4.4). Octal, hexadecimal and universal
  escapes are left out: they do not occur.
\<close>

definition trigraph :: "char \<Rightarrow> char option" where
  "trigraph c =
     (if c = CHR ''='' then Some (CHR ''#'')
      else if c = CHR ''('' then Some (CHR ''['')
      else if c = SLASH then Some BSLASH
      else if c = CHR '')'' then Some (CHR '']'')
      else if c = SQUOTE then Some (CHR 0x5E)
      else if c = CHR ''<'' then Some (CHR 0x7B)
      else if c = CHR ''!'' then Some (CHR 0x7C)
      else if c = CHR ''>'' then Some (CHR 0x7D)
      else if c = CHR ''-'' then Some (CHR 0x7E)
      else None)"

fun replace_trigraphs :: "string \<Rightarrow> string" where
  "replace_trigraphs (a # b # c # s) =
     (if a = CHR ''?'' \<and> b = CHR ''?'' \<and> trigraph c \<noteq> None
      then the (trigraph c) # replace_trigraphs s
      else a # replace_trigraphs (b # c # s))"
| "replace_trigraphs s = s"

fun splice_lines :: "string \<Rightarrow> string" where
  "splice_lines (a # b # s) =
     (if a = BSLASH \<and> b = NL then splice_lines s else a # splice_lines (b # s))"
| "splice_lines s = s"

definition c_simple_escape :: "char \<Rightarrow> char option" where
  "c_simple_escape c =
     (if c = DQUOTE \<or> c = SQUOTE \<or> c = BSLASH \<or> c = CHR ''?'' then Some c
      else if c = CHR ''a'' then Some (CHR 0x07)
      else if c = CHR ''b'' then Some (CHR 0x08)
      else if c = CHR ''f'' then Some (CHR 0x0C)
      else if c = CHR ''n'' then Some NL
      else if c = CHR ''r'' then Some CR
      else if c = CHR ''t'' then Some TAB
      else if c = CHR ''v'' then Some (CHR 0x0B)
      else None)"

fun c_read_chars :: "string \<Rightarrow> (string \<times> string) option" where
  "c_read_chars [] = None"
| "c_read_chars (c # s) =
     (if c = DQUOTE then Some ([], s)
      else if c = NL then None
      else if c = BSLASH then
        (case s of
           [] \<Rightarrow> None
         | e # s' \<Rightarrow>
             (case c_simple_escape e of
                None \<Rightarrow> None
              | Some d \<Rightarrow> map_option (\<lambda>(t, r). (d # t, r)) (c_read_chars s')))
      else map_option (\<lambda>(t, r). (c # t, r)) (c_read_chars s))"

definition c_read_literal :: "string \<Rightarrow> (string \<times> string) option" where
  "c_read_literal text =
     (case splice_lines (replace_trigraphs text) of
        [] \<Rightarrow> None
      | c # s \<Rightarrow> if c = DQUOTE then c_read_chars s else None)"

fun no_trigraph :: "string \<Rightarrow> bool" where
  "no_trigraph (a # b # c # s) =
     ((a = CHR ''?'' \<and> b = CHR ''?'' \<longrightarrow> trigraph c = None) \<and> no_trigraph (b # c # s))"
| "no_trigraph s = True"

lemma replace_trigraphs_none: "no_trigraph s \<Longrightarrow> replace_trigraphs s = s"
  by (induction s rule: no_trigraph.induct) auto

lemma splice_lines_none: "NL \<notin> set s \<Longrightarrow> splice_lines s = s"
  by (induction s rule: splice_lines.induct) auto

lemma no_trigraph_Cons: "no_trigraph (c # s) \<longleftrightarrow>
    no_trigraph s \<and> (c = CHR ''?'' \<longrightarrow> (case s of b # d # _ \<Rightarrow> b = CHR ''?'' \<longrightarrow> trigraph d = None | _ \<Rightarrow> True))"
  by (cases s rule: no_trigraph.cases) auto

lemma no_trigraph_other: "c \<noteq> CHR ''?'' \<Longrightarrow> no_trigraph (c # s) = no_trigraph s"
  by (simp add: no_trigraph_Cons)

lemma escape_piece_head: "c_escape_piece c = [c] \<or> (\<exists>d. c_escape_piece c = [BSLASH, d] \<and> d \<noteq> CHR ''?'' \<and> c \<noteq> CHR ''?'')"
  by (auto simp: c_escape_piece_def)

lemma no_trigraph_pieces:
  "no_trigraph s \<Longrightarrow> no_trigraph (concat (map c_escape_piece s) @ [DQUOTE])"
proof (induction s)
  case (Cons c s)
  have IH: "no_trigraph (concat (map c_escape_piece s) @ [DQUOTE])"
    using Cons by (simp add: no_trigraph_Cons)
  show ?case
  proof (cases "c_escape_piece c = [c]")
    case False
    then show ?thesis using IH escape_piece_head [of c] by (auto simp: no_trigraph_other)
  next
    case True
    have "case concat (map c_escape_piece s) @ [DQUOTE] of
        b # d # _ \<Rightarrow> b = CHR ''?'' \<longrightarrow> trigraph d = None | _ \<Rightarrow> True" if q: "c = CHR ''?''"
    proof (cases s)
      case s: (Cons b s')
      show ?thesis
      proof (cases "c_escape_piece b = [b]")
        case b: True
        show ?thesis
        proof (cases s')
          case (Cons d s'')
          then show ?thesis
            using Cons.prems q s b escape_piece_head [of d] by (auto simp: trigraph_def)
        qed (use s b in \<open>simp add: trigraph_def\<close>)
      qed (use s escape_piece_head [of b] in auto)
    qed simp
    then show ?thesis using IH True by (simp add: no_trigraph_Cons)
  qed
qed simp

lemma c_read_escaped: "c_read_chars (concat (map c_escape_piece s) @ [DQUOTE]) = Some (s, [])"
  by (induction s) (simp_all add: c_escape_piece_def c_simple_escape_def)

section \<open>Properties\<close>

text \<open>
  C23: String literals survive the C compiler: without a trigraph in it, a string comes back from
  its emitted literal byte for byte, and nothing is left over.
\<close>

theorem c_escape_roundtrip:
  assumes "no_trigraph s"
  shows "c_read_literal (c_escape s) = Some (s, [])"
proof -
  have "no_trigraph (c_escape s)"
    using no_trigraph_pieces [OF assms] by (simp add: c_escape_def no_trigraph_other)
  moreover have "NL \<notin> set (c_escape s)" by (auto simp: c_escape_def c_escape_piece_def split: if_splits)
  ultimately have "splice_lines (replace_trigraphs (c_escape s)) = c_escape s"
    by (simp add: replace_trigraphs_none splice_lines_none)
  then show ?thesis using c_read_escaped [of s] by (simp add: c_read_literal_def c_escape_def)
qed

theorem c_escape_roundtrip_witness:
  "c_read_literal (c_escape (''say '' @ [DQUOTE] @ ''what??'' @ [DQUOTE, BSLASH, NL, TAB])) =
     Some (''say '' @ [DQUOTE] @ ''what??'' @ [DQUOTE, BSLASH, NL, TAB], [])"
  by (rule c_escape_roundtrip) (simp add: trigraph_def)

text \<open>
  The hypothesis of the last property is needed. Trigraphs are not escaped: the literal of \<open>a??!\<close> is read as the two bytes \<open>a|\<close> while its
  emitted length is 4, and the literal of \<open>a??/\<close> swallows its own closing quote.
\<close>

lemma c_escape_trigraphs:
  "c_read_literal (c_escape ''a??!'') = Some ([CHR ''a'', CHR 0x7C], [])
   \<and> emit_key_literal ''a??!'' = ''flx_str_lit('' @ c_escape ''a??!'' @ '', 4)''
   \<and> c_read_literal (c_escape ''a??/'') = None"
  by (simp add: c_escape_def c_escape_piece_def c_read_literal_def trigraph_def c_simple_escape_def
      emit_key_literal_def show_nat.simps char_of_def bit_0)

text \<open>
  Mangled names are C identifiers: the name of a well-formed type exists, is not empty and is made
  of letters, digits and underscores, in the lowered form of the helper functions too.
\<close>

theorem mangle_identifier:
  assumes "wf_ty t"
  shows "\<exists>m. mangle (show_ty t) = Inr m \<and> m \<noteq> [] \<and> list_all ident_char m
    \<and> lower_mangle (show_ty t) = Inr (map tolower m) \<and> list_all ident_char (map tolower m)"
  using mangle_show [OF assms] mangle_ty_ident [of t] mangle_ty_nonempty [OF assms]
  by (simp add: lower_mangle_def list_all_iff)

theorem mangle_identifier_witness:
  "\<exists>m. mangle (show_ty (TMap (TName ''STR'') (TArr (TName ''Item'')))) = Inr m \<and> m \<noteq> [] \<and> list_all ident_char m
    \<and> lower_mangle (show_ty (TMap (TName ''STR'') (TArr (TName ''Item'')))) = Inr (map tolower m)
    \<and> list_all ident_char (map tolower m)"
  by (rule mangle_identifier) (simp add: name_ok_def word_char_def char_defs)

text \<open>
  C22: Helper names do not clash for the language's own types: two different types built without a
  declared name have different helper names, so no two runtime functions of the emitted program
  share one.
\<close>

theorem helper_names_injective:
  assumes "builtin_ty t" and "builtin_ty u" and "t \<noteq> u"
  shows "lower_mangle (show_ty t) \<noteq> lower_mangle (show_ty u)"
proof -
  have "mangle_ty t \<noteq> mangle_ty u" using mangle_prefix_code [of t u "[]" "[]"] assms by auto
  then show ?thesis
    by (simp add: lower_mangle_def mangle_show assms builtin_wf map_tolower_inject mangle_ty_upper)
qed

theorem helper_names_injective_witness:
  "lower_mangle (show_ty (TMap (TName ''STR'') (TArr (TName ''INT'')))) \<noteq>
     lower_mangle (show_ty (TArr (TMap (TName ''STR'') (TName ''INT''))))"
  by (rule helper_names_injective) (simp_all add: own_names_def)

text \<open>
  With declared names they do clash: a MAP named \<open>ARR_INT\<close> has the C type and the helper names of
  \<open>ARR[INT]\<close>, and two MAPs whose names differ in case share their copy and promote helpers.
\<close>

theorem helper_names_clash:
  "mangle ''ARR_INT'' = mangle (show_ty (TArr (TName ''INT'')))
   \<and> ctype types ''ARR_INT'' =
        (if is_struct_type types ''ARR_INT'' then ctype types (show_ty (TArr (TName ''INT''))) else Inr ''void'')
   \<and> struct_copy_fn_for_type ''Item'' = struct_copy_fn_for_type ''ITEM''"
proof -
  have w: "wf_ty (TName ''ARR_INT'')" "wf_ty (TName ''Item'')" "wf_ty (TName ''ITEM'')"
    by (simp_all add: name_ok_def word_char_def char_defs)
  have m: "mangle ''ARR_INT'' = Inr ''ARR_INT''" "mangle ''Item'' = Inr ''ITEM''" "mangle ''ITEM'' = Inr ''ITEM''"
    using w [THEN mangle_show] by (simp_all add: sanitize_upper_def sanitize_char_def char_defs char_of_def bit_0)
  have a: "mangle ''ARR[INT]'' = Inr ''ARR_INT''"
    using mangle_show [of "TArr (TName ''INT'')"]
    by (simp add: name_ok_def word_char_def char_defs array_type_def sanitize_upper_def sanitize_char_def)
  have "is_array_type ''ARR[INT]''" by (simp add: type_test_defs)
  then show ?thesis
    using m a
    by (auto simp: array_type_def ctype.simps [of _ "''ARR_INT''"] ctype.simps [of _ "''ARR[INT]''"] type_test_defs
        struct_copy_fn_for_type_def flx_name_def lower_mangle_def)
qed

end
