(* ===== verification/TypeRules.thy ===== *)
theory TypeRules
  imports SymbolFacts Names
begin

text \<open>
  The rules of the analyzer (\<open>src/caster/analyze/type_rules.c\<close>): which types may be assigned,
  who owns a value, which borrows may escape, and when open data conforms to a declared type.
  A null pointer to a type is \<open>None\<close>; a node or symbol the code changes in place is returned.
\<close>

section \<open>Compatibility of types\<close>

definition opt_holds :: "('a \<Rightarrow> bool) \<Rightarrow> 'a option \<Rightarrow> bool" where
  "opt_holds p x = (case x of None \<Rightarrow> False | Some y \<Rightarrow> p y)"

lemma opt_holds_simps [simp]: "opt_holds p None = False" "opt_holds p (Some y) = p y"
  by (simp_all add: opt_holds_def)

definition type_assignable_to_expected :: "type_table \<Rightarrow> string option \<Rightarrow> string option \<Rightarrow> bool" where
  "type_assignable_to_expected types actual expected \<longleftrightarrow>
     (if expected = None then True
      else if type_eq actual expected then True
      else if type_eq actual (Some ''NUL'') \<and> opt_holds is_ref_type expected then True
      else if type_eq actual (Some ''NUL'') \<and> opt_holds is_fn_type expected then True
      else opt_holds is_open_data_type actual \<and> opt_holds (is_struct_type types) expected)"

definition is_numeric_type :: "string option \<Rightarrow> bool" where
  "is_numeric_type t \<longleftrightarrow> type_eq t (Some ''INT'') \<or> type_eq t (Some ''FLT'')"

definition is_cast_call_name :: "string \<Rightarrow> bool" where
  "is_cast_call_name name \<longleftrightarrow> name \<in> {''INT'', ''FLT'', ''STR'', ''ARR''}"

definition is_cast_source_type :: "string option \<Rightarrow> bool" where
  "is_cast_source_type t \<longleftrightarrow> type_eq t (Some ''INT'') \<or> type_eq t (Some ''FLT'') \<or> type_eq t (Some ''BOL'')
     \<or> type_eq t (Some ''STR'')"

definition is_str_array_type :: "string option \<Rightarrow> bool" where
  "is_str_array_type t = opt_holds (\<lambda>t. is_array_type t \<and> array_elem_type t = ''STR'') t"

definition nested_array_type :: "string \<Rightarrow> nat \<Rightarrow> string" where
  "nested_array_type element_type dimensions = (array_type ^^ dimensions) element_type"

definition type_is_manual_freeable :: "type_table \<Rightarrow> string option \<Rightarrow> bool" where
  "type_is_manual_freeable types t =
     (case t of
        None \<Rightarrow> False
      | Some t \<Rightarrow> t \<in> {''STR'', ''OBJ'', ''OPEN''} \<or> is_array_type t \<or> is_map_type t \<or> is_task_type t
          \<or> is_ref_type t \<or> is_open_struct_type types t)"

definition numeric_binary_type :: "string option \<Rightarrow> string option \<Rightarrow> string option" where
  "numeric_binary_type left right =
     (if \<not> is_numeric_type left \<or> \<not> is_numeric_type right then None
      else if type_eq left (Some ''FLT'') \<or> type_eq right (Some ''FLT'') then Some ''FLT'' else Some ''INT'')"

definition type_conforms_to_expected :: "string option \<Rightarrow> string option \<Rightarrow> bool" where
  "type_conforms_to_expected actual expected \<longleftrightarrow>
     type_eq actual expected
     \<or> type_eq actual (Some ''NUL'') \<and> opt_holds is_ref_type expected
     \<or> type_eq actual (Some ''NUL'') \<and> opt_holds is_fn_type expected
     \<or> type_eq actual (Some ''INT'') \<and> type_eq expected (Some ''FLT'')"

definition is_json_dynamic_type :: "string option \<Rightarrow> bool" where
  "is_json_dynamic_type t \<longleftrightarrow> type_eq t (Some ''OBJ'') \<or> opt_holds is_open_data_type t"

definition is_json_decode_target_type :: "type_table \<Rightarrow> string \<Rightarrow> bool" where
  "is_json_decode_target_type types t \<longleftrightarrow> is_struct_type types t \<or> is_map_type t \<or> is_array_type t"

section \<open>Ownership and borrows\<close>

text \<open>\<open>REF x\<close>: the name that is borrowed, if the expression is such a borrow.\<close>

definition expr_is_ref_borrow_of_name :: "node \<Rightarrow> node option" where
  "expr_is_ref_borrow_of_name expr =
     (case n_expr expr of
        None \<Rightarrow> None
      | Some x \<Rightarrow> if n_kind expr = NK_UNARY \<and> n_op (attrs expr) = Some ''REF'' \<and> n_kind x = NK_NAME
                  then Some x else None)"

definition expr_produces_owned_ref :: "node option \<Rightarrow> bool" where
  "expr_produces_owned_ref expr = opt_holds (\<lambda>e. ref_result_owned (attrs e)) expr"

definition symbol_clear_ref_source :: "symbol \<Rightarrow> symbol" where
  "symbol_clear_ref_source sy = sy\<lparr>ref_source_name := None, ref_source_type := None\<rparr>"

definition symbol_set_ref_source :: "string option \<Rightarrow> string option \<Rightarrow> symbol \<Rightarrow> symbol" where
  "symbol_set_ref_source name type sy = sy\<lparr>ref_source_name := name, ref_source_type := type\<rparr>"

text \<open>A lookup of the name a node carries; the parser gives every name node a name.\<close>

definition resolve_node :: "scope \<Rightarrow> node \<Rightarrow> symbol option" where
  "resolve_node s n = (case n_name (attrs n) of None \<Rightarrow> None | Some name \<Rightarrow> scope_try_resolve s name)"

definition is_function_local :: "symbol \<Rightarrow> bool" where
  "is_function_local sy \<longleftrightarrow> \<not> is_param sy \<and> \<not> is_global sy"

text \<open>
  The functions that change a symbol get a pointer into the scope they read: the symbol is named
  here by its name, and every store is made in the scope before the next lookup, since a value
  may name the very symbol that is being changed.
\<close>

definition symbol_set_ref_source_from_expr :: "node option \<Rightarrow> string \<Rightarrow> scope \<Rightarrow> scope" where
  "symbol_set_ref_source_from_expr value_expr name s =
     (let s = scope_update symbol_clear_ref_source name s in
      case (scope_try_resolve s name, value_expr) of
        (Some sy, Some v) \<Rightarrow>
          if \<not> is_ref_type (sym_type sy) then s
          else (case expr_is_ref_borrow_of_name v of
            Some x \<Rightarrow>
              (case resolve_node s x of
                 None \<Rightarrow> s
               | Some source \<Rightarrow>
                   if is_function_local source
                   then scope_update (symbol_set_ref_source (Some (sym_name source)) (Some (sym_type source))) name s
                   else s)
          | None \<Rightarrow>
              if n_kind v = NK_NAME then
                (case resolve_node s v of
                   None \<Rightarrow> s
                 | Some source_ref \<Rightarrow>
                     if is_ref_type (sym_type source_ref) \<and> ref_source_name source_ref \<noteq> None
                     then scope_update
                            (symbol_set_ref_source (ref_source_name source_ref) (ref_source_type source_ref)) name s
                     else s)
              else s)
      | _ \<Rightarrow> s)"

definition expr_produces_independent_heap_value :: "node option \<Rightarrow> scope \<Rightarrow> type_table \<Rightarrow> bool" where
  "expr_produces_independent_heap_value expr s types =
     (case expr of
        None \<Rightarrow> False
      | Some e \<Rightarrow>
          if n_kind e \<in> {NK_NIL, NK_STR} then False
          else if n_kind e = NK_UNARY \<and> n_op (attrs e) \<noteq> None
            then n_op (attrs e) \<noteq> Some ''REF'' \<and> n_op (attrs e) \<noteq> Some ''*''
          else if n_kind e = NK_NAME then
            opt_holds (\<lambda>c. starts_with c ''flx_value_'') (c_expr (attrs e)) \<or>
            (case resolve_node s e of
               Some sy \<Rightarrow> ownership sy \<noteq> OWNERSHIP_FREED
             | None \<Rightarrow>
                 (case n_name (attrs e) of
                    None \<Rightarrow> False
                  | Some name \<Rightarrow> type_find types name \<noteq> None
                      \<and> type_has_complete_named_value types (type_find types name)))
          else n_kind e \<in> {NK_DOT, NK_ARRAY, NK_MAP_LITERAL, NK_RECORD_LITERAL, NK_CALL, NK_METHOD_CALL,
                            NK_DECODE, NK_BINARY})"

definition set_ownership :: "ownership_state \<Rightarrow> symbol \<Rightarrow> symbol" where
  "set_ownership own sy = sy\<lparr>ownership := own\<rparr>"

definition symbol_set_assignment_ownership :: "node option \<Rightarrow> type_table \<Rightarrow> string \<Rightarrow> scope \<Rightarrow> scope" where
  "symbol_set_assignment_ownership value_expr types name s =
     (case scope_try_resolve s name of
        None \<Rightarrow> s
      | Some sy \<Rightarrow>
          if is_ref_type (sym_type sy) then
            symbol_set_ref_source_from_expr value_expr name
              (scope_update (set_ownership
                 (if expr_produces_owned_ref value_expr then OWNERSHIP_OWNED else OWNERSHIP_BORROWED)) name s)
          else
            (let s = scope_update symbol_clear_ref_source name s;
                 own = (if \<not> type_is_manual_freeable types (Some (sym_type sy)) then OWNERSHIP_UNKNOWN
                        else if expr_produces_independent_heap_value value_expr s types
                        then OWNERSHIP_OWNED else OWNERSHIP_BORROWED)
             in scope_update (set_ownership own) name s))"

definition symbol_mark_owned_if_freeable :: "type_table \<Rightarrow> string \<Rightarrow> scope \<Rightarrow> scope" where
  "symbol_mark_owned_if_freeable types name s =
     scope_update (\<lambda>sy. if type_is_manual_freeable types (Some (sym_type sy))
                        then set_ownership OWNERSHIP_OWNED sy else sy) name s"

definition reject_local_ref_escape :: "node \<Rightarrow> symbol option \<Rightarrow> string \<Rightarrow> unit result" where
  "reject_local_ref_escape expr source escape_site =
     (case source of
        None \<Rightarrow> Inr ()
      | Some sy \<Rightarrow>
          if \<not> is_function_local sy then Inr ()
          else die_node_at expr
            (''REF escape through '' @ escape_site @ '' is rejected: '' @ quoted (sym_name sy) @
             '' is a function-local borrow; keep ownership in the caller and pass it to nested helpers with REF''))"

definition set_ref_result_owned :: "node \<Rightarrow> node" where
  "set_ref_result_owned n = upd_attrs (\<lambda>a. a\<lparr>ref_result_owned := True\<rparr>) n"

text \<open>The result says whether the reference is owned; the node is the one the code leaves.\<close>

definition mark_ref_escape_expr :: "node option \<Rightarrow> scope \<Rightarrow> string \<Rightarrow> (bool \<times> node option) result" where
  "mark_ref_escape_expr expr s escape_site =
     (case expr of
        None \<Rightarrow> Inr (False, None)
      | Some e \<Rightarrow>
          if \<not> opt_holds is_ref_type (checked_type (attrs e)) then Inr (False, Some e)
          else if n_kind e = NK_NIL \<or> ref_result_owned (attrs e) then Inr (ref_result_owned (attrs e), Some e)
          else (case expr_is_ref_borrow_of_name e of
            Some x \<Rightarrow>
              rbind (reject_local_ref_escape e (resolve_node s x) escape_site) (\<lambda>_. Inr (False, Some e))
          | None \<Rightarrow>
              if n_kind e = NK_NAME then
                (case resolve_node s e of
                   None \<Rightarrow> Inr (False, Some e)
                 | Some sy \<Rightarrow>
                     if \<not> is_ref_type (sym_type sy) then Inr (False, Some e)
                     else if ownership sy = OWNERSHIP_OWNED then Inr (True, Some (set_ref_result_owned e))
                     else (case ref_source_name sy of
                       None \<Rightarrow> Inr (False, Some e)
                     | Some name \<Rightarrow>
                         rbind (reject_local_ref_escape e (scope_try_resolve s name) escape_site)
                           (\<lambda>_. Inr (False, Some e))))
              else Inr (False, Some e)))"

definition ref_assignment_target_may_escape :: "node option \<Rightarrow> scope \<Rightarrow> bool" where
  "ref_assignment_target_may_escape tgt s =
     (case tgt of
        None \<Rightarrow> False
      | Some t \<Rightarrow>
          if n_kind t = NK_NAME then opt_holds is_global (resolve_node s t)
          else if n_kind t = NK_DOT then
            (case n_object t of
               None \<Rightarrow> False
             | Some obj \<Rightarrow>
                 if n_kind obj = NK_NAME then opt_holds (\<lambda>sy. \<not> is_param sy) (resolve_node s obj)
                 else if n_kind obj = NK_UNARY \<and> n_op (attrs obj) = Some ''*''
                   \<and> opt_holds (\<lambda>x. n_kind x = NK_NAME) (n_expr obj)
                 then opt_holds (\<lambda>sy. is_param sy \<or> is_global sy \<or> ownership sy = OWNERSHIP_OWNED)
                        (resolve_node s (the (n_expr obj)))
                 else False)
          else False)"

section \<open>Conformance of open data\<close>

text \<open>
  The expression behind a proved key: through the declaration of a symbol, or a named MAP value.
  Neither walk is bounded by the tree, so both have fuel.
\<close>

definition find_entry :: "(node \<Rightarrow> string option) \<Rightarrow> string \<Rightarrow> node list \<Rightarrow> node option" where
  "find_entry entry_key key entries =
     (case List.find (\<lambda>entry. entry_key entry = Some key) entries of None \<Rightarrow> None | Some entry \<Rightarrow> n_value entry)"

definition symbol_value :: "scope \<Rightarrow> node \<Rightarrow> node option" where
  "symbol_value s e =
     (case resolve_node s e of
        None \<Rightarrow> None
      | Some sy \<Rightarrow> (case sym_node sy of None \<Rightarrow> None | Some n \<Rightarrow> n_value n))"

primrec expr_source_literal_key_expr ::
  "nat \<Rightarrow> scope \<Rightarrow> type_table \<Rightarrow> node option \<Rightarrow> string \<Rightarrow> node option result" where
  "expr_source_literal_key_expr 0 s types expr key = Inl OutOfFuel"
| "expr_source_literal_key_expr (Suc n) s types expr key =
     (case expr of
        None \<Rightarrow> Inr None
      | Some e \<Rightarrow>
          if n_kind e = NK_MAP_LITERAL then Inr (find_entry map_entry_key key (n_fields e))
          else if n_kind e = NK_RECORD_LITERAL
            then Inr (find_entry (\<lambda>entry. n_name (attrs entry)) key (n_fields e))
          else if n_kind e = NK_NAME then
            (case symbol_value s e of
               Some v \<Rightarrow> expr_source_literal_key_expr n s types (Some v) key
             | None \<Rightarrow>
                 (case Option.bind (Option.bind (n_name (attrs e)) (type_find types)) named_map_value of
                    Some v \<Rightarrow> expr_source_literal_key_expr n s types (Some v) key
                  | None \<Rightarrow> Inr None))
          else Inr None)"

text \<open>The loops over fields, elements and keys, stopping where the source returns or exits.\<close>

primrec for_all_result :: "('a \<Rightarrow> bool result) \<Rightarrow> 'a list \<Rightarrow> bool result" where
  "for_all_result f [] = Inr True"
| "for_all_result f (x # xs) = rbind (f x) (\<lambda>b. if b then for_all_result f xs else Inr False)"

primrec each_result :: "('a \<Rightarrow> unit result) \<Rightarrow> 'a list \<Rightarrow> unit result" where
  "each_result f [] = Inr ()"
| "each_result f (x # xs) = rbind (f x) (\<lambda>_. each_result f xs)"

text \<open>
  One field of \<open>validate_open_conforms_to_struct\<close>; \<open>validate\<close> is the recursive call. A field of
  the type table has a name and a declared type.
\<close>

definition validate_open_field ::
  "(node option \<Rightarrow> string option \<Rightarrow> bool result) \<Rightarrow> nat \<Rightarrow> scope \<Rightarrow> type_table \<Rightarrow> node \<Rightarrow> string \<Rightarrow> node \<Rightarrow> unit result" where
  "validate_open_field validate n s types expr target_type field =
     (case (n_name (attrs field), declared_type (attrs field)) of
        (Some name, Some want) \<Rightarrow>
          rbind (expr_source_literal_key_type n s types (Some expr) name) (\<lambda>source_type.
            case source_type of
              None \<Rightarrow>
                if field_has_default types field then Inr ()
                else die_node_at expr (''missing required field '' @ quoted name @ '' for '' @ target_type)
            | Some got \<Rightarrow>
                if type_conforms_to_expected (Some got) (Some want) then Inr ()
                else rbind (expr_source_literal_key_expr n s types (Some expr) name) (\<lambda>source_expr.
                  let mismatch = die_node_at expr (''field '' @ quoted name @ '' must be '' @ want @ '', got '' @ got)
                  in case source_expr of
                       None \<Rightarrow> mismatch
                     | Some e \<Rightarrow> rbind (validate (Some e) (Some want)) (\<lambda>ok. if ok then Inr () else mismatch)))
      | _ \<Rightarrow> Inl NullDeref)"

definition validate_open_step ::
  "(node option \<Rightarrow> string option \<Rightarrow> bool result) \<Rightarrow> nat \<Rightarrow> scope \<Rightarrow> type_table \<Rightarrow> node \<Rightarrow> string \<Rightarrow> unit result" where
  "validate_open_step validate n s types expr target_type =
     (case type_find types target_type of
        None \<Rightarrow> die_node_at expr (''expected fixed MAP type, got '' @ target_type)
      | Some info \<Rightarrow>
          if ti_kind info \<noteq> TYPEINFO_STRUCT then die_node_at expr (''expected fixed MAP type, got '' @ target_type)
          else
            rbind (each_result (validate_open_field validate n s types expr target_type) (n_fields (ti_node info))) (\<lambda>_.
              if is_open_struct_type types target_type then Inr ()
              else rbind (collect_source_literal_keys n s types (Some expr) []) (each_result (\<lambda>key.
                if struct_field types target_type key \<noteq> None then Inr ()
                else die_node_at expr (''type '' @ target_type @ '' has no field '' @ quoted key)))))"

primrec validate_expr_conforms_to_type ::
  "nat \<Rightarrow> scope \<Rightarrow> type_table \<Rightarrow> node option \<Rightarrow> string option \<Rightarrow> bool result" where
  "validate_expr_conforms_to_type 0 s types expr target_type = Inl OutOfFuel"
| "validate_expr_conforms_to_type (Suc n) s types expr target_type =
     (case (expr, target_type) of
        (Some e, Some want) \<Rightarrow>
          (case checked_type (attrs e) of
             None \<Rightarrow> Inr False
           | Some got \<Rightarrow>
               if type_conforms_to_expected (Some got) (Some want) then Inr True
               else if n_kind e = NK_NAME \<and> symbol_value s e \<noteq> None
                 then validate_expr_conforms_to_type n s types (symbol_value s e) (Some want)
               else if is_struct_type types want \<and> is_open_data_type got
                 then rbind (validate_open_step (validate_expr_conforms_to_type n s types) n s types e want) (\<lambda>_. Inr True)
               else if is_array_type want \<and> is_array_type got \<and> n_kind e = NK_ARRAY
                 then for_all_result
                        (\<lambda>item. validate_expr_conforms_to_type n s types (Some item) (Some (array_elem_type want)))
                        (n_elements e)
               else if is_map_type want \<and> is_map_type got \<and> n_kind e = NK_MAP_LITERAL
                 then (if \<not> type_eq (map_key_type want) (Some ''STR'') then Inr False
                       else for_all_result
                              (\<lambda>entry. validate_expr_conforms_to_type n s types (n_value entry) (map_value_type want))
                              (n_fields e))
               else Inr False)
      | _ \<Rightarrow> Inr False)"

definition validate_open_conforms_to_struct ::
  "nat \<Rightarrow> scope \<Rightarrow> type_table \<Rightarrow> node \<Rightarrow> string \<Rightarrow> unit result" where
  "validate_open_conforms_to_struct n s types expr target_type =
     validate_open_step (validate_expr_conforms_to_type n s types) n s types expr target_type"

section \<open>The decoding boundary\<close>

text \<open>The mangling of the analyzer, which writes names the emitter defines.\<close>

function analyzer_lower_mangle :: "string \<Rightarrow> string result" where
  "analyzer_lower_mangle t =
     rbind
       (if t \<in> {''INT'', ''FLT'', ''BOL'', ''STR''} then Inr t
        else if is_array_type t
          then rbind (analyzer_lower_mangle (array_elem_type t)) (\<lambda>m. Inr (''ARR_'' @ m))
        else if is_task_type t
          then rbind (analyzer_lower_mangle (task_result_type t)) (\<lambda>m. Inr (''TSK_'' @ m))
        else if is_fn_type t then
          (case split_fn_type t of
             None \<Rightarrow> Inl NullDeref
           | Some (i, r) \<Rightarrow>
               rbind (analyzer_lower_mangle i) (\<lambda>mi.
               rbind (analyzer_lower_mangle r) (\<lambda>mr. Inr (''FN_'' @ mi @ ''_TO_'' @ mr))))
        else Inr t)
       (\<lambda>out. Inr (map (\<lambda>c. if isalnum c then tolower c else CHR ''_'') out))"
  by pat_completeness auto

termination
  by (relation "measure length") (auto simp: array_elem_length task_result_length split_fn_type_length)

declare analyzer_lower_mangle.simps [simp del]

definition json_decode_boundary_expr :: "string \<Rightarrow> string \<Rightarrow> string \<Rightarrow> string result" where
  "json_decode_boundary_expr target_type source_type source_expr =
     rbind (analyzer_lower_mangle target_type) (\<lambda>m.
       Inr (''flx_json_decode_'' @ m @
         (if source_type \<noteq> ''OBJ'' then ''('' @ source_expr @ '')''
          else if is_array_type target_type then ''(flx_obj_as_objarr('' @ source_expr @ ''))''
          else ''(flx_obj_as_objmap('' @ source_expr @ ''))'')))"

text \<open>\<open>allow\<close> is the context's \<open>allow_json_decode_boundary\<close>; a null context does not occur.\<close>

definition conform_inferred_open_local ::
  "nat \<Rightarrow> bool \<Rightarrow> scope \<Rightarrow> type_table \<Rightarrow> node option \<Rightarrow> string option \<Rightarrow> node option result" where
  "conform_inferred_open_local n allow s types expr target_type =
     (case (expr, target_type) of
        (Some e, Some want) \<Rightarrow>
          if n_kind e \<noteq> NK_NAME \<or> \<not> is_json_decode_target_type types want then Inr expr
          else (case resolve_node s e of
            None \<Rightarrow> Inr expr
          | Some sy \<Rightarrow>
              if \<not> is_json_dynamic_type (Some (sym_type sy)) \<or> sym_type sy = ''OBJ'' \<and> \<not> allow then Inr expr
              else
                rbind (if is_open_data_type (sym_type sy) \<and> is_struct_type types want
                       then validate_open_conforms_to_struct n s types e want else Inr ()) (\<lambda>_.
                rbind (json_decode_boundary_expr want (sym_type sy)
                         (case sym_c_expr sy of Some c \<Rightarrow> c | None \<Rightarrow> sym_name sy)) (\<lambda>c.
                  Inr (Some (set_type want
                    (upd_attrs (\<lambda>a. a\<lparr>declared_type := Some want, c_expr := Some c\<rparr>) e))))))
      | _ \<Rightarrow> Inr expr)"

end
