(* ===== verification/TypeRuleFacts.thy ===== *)
theory TypeRuleFacts
  imports TypeRules
begin

text \<open>
  What the rules guarantee: the analyzer and the emitter name the same helpers, borrows are
  tracked through copies, and where the tracking and the conformance walk fall short.
\<close>

section \<open>The two manglings\<close>

definition lower_char :: "char \<Rightarrow> char" where
  "lower_char c = (if isalnum c then tolower c else CHR ''_'')"

lemma tolower_underscore_self [simp]: "tolower (CHR ''_'') = CHR ''_''"
  by (simp add: tolower_underscore)

lemma lower_char_sanitize: "lower_char c = tolower (sanitize_char c)"
  by (simp add: lower_char_def sanitize_char_def)

lemma lower_char_lower: "ident_char c \<Longrightarrow> lower_char (tolower c) = tolower c"
  by (auto simp: lower_char_def ident_char_def)

lemma map_lower_char_lower: "list_all ident_char s \<Longrightarrow> map lower_char (map tolower s) = map tolower s"
  by (auto simp: list_all_iff lower_char_lower)

lemma map_lower_char: "map lower_char s = map tolower (sanitize_upper s)"
  by (simp add: sanitize_upper_def lower_char_sanitize)

lemma ident_literals:
  "list_all ident_char ''ARR_''" "list_all ident_char ''TSK_''" "list_all ident_char ''FN_''"
  "list_all ident_char ''_TO_''" "list_all ident_char ''INT''" "list_all ident_char ''FLT''"
  "list_all ident_char ''BOL''" "list_all ident_char ''STR''"
  by (simp_all add: ident_char_def char_defs)

lemma lower_literals:
  "map lower_char ''ARR_'' = map tolower ''ARR_''" "map lower_char ''TSK_'' = map tolower ''TSK_''"
  "map lower_char ''FN_'' = map tolower ''FN_''" "map lower_char ''_TO_'' = map tolower ''_TO_''"
  "map lower_char ''INT'' = map tolower ''INT''" "map lower_char ''FLT'' = map tolower ''FLT''"
  "map lower_char ''BOL'' = map tolower ''BOL''" "map lower_char ''STR'' = map tolower ''STR''"
  by (simp_all add: lower_char_def char_defs)

text \<open>Both manglings split on the same five kinds of text.\<close>

lemma mangle_kinds:
  obtains (base) "t \<in> {''INT'', ''FLT'', ''BOL'', ''STR''}"
  | (arr) "t \<notin> {''INT'', ''FLT'', ''BOL'', ''STR''}" "is_array_type t" "length (array_elem_type t) < length t"
  | (tsk) "t \<notin> {''INT'', ''FLT'', ''BOL'', ''STR''}" "\<not> is_array_type t" "is_task_type t"
      "length (task_result_type t) < length t"
  | (bad) "t \<notin> {''INT'', ''FLT'', ''BOL'', ''STR''}" "\<not> is_array_type t" "\<not> is_task_type t" "is_fn_type t"
      "split_fn_type t = None"
  | (fn) i r where "t \<notin> {''INT'', ''FLT'', ''BOL'', ''STR''}" "\<not> is_array_type t" "\<not> is_task_type t" "is_fn_type t"
      "split_fn_type t = Some (i, r)" "length i < length t" "length r < length t"
  | (other) "t \<notin> {''INT'', ''FLT'', ''BOL'', ''STR''}" "\<not> is_array_type t" "\<not> is_task_type t" "\<not> is_fn_type t"
  using array_elem_length [of t] task_result_length [of t] split_fn_type_length [of t] that
  by (metis option.exhaust surj_pair)

lemma ident_heads:
  "list_all ident_char (''ARR_'' @ r) = list_all ident_char r"
  "list_all ident_char (''TSK_'' @ r) = list_all ident_char r"
  "list_all ident_char (''FN_'' @ i @ ''_TO_'' @ r) = (list_all ident_char i \<and> list_all ident_char r)"
  by (simp_all only: list_all_append ident_literals simp_thms)

lemma mangle_ident: "mangle t = Inr m \<Longrightarrow> list_all ident_char m"
proof (induction t arbitrary: m rule: measure_induct_rule [where f = length])
  case (less t)
  show ?case
  proof (cases t rule: mangle_kinds)
    case base
    then have "t \<in> {''INT'', ''FLT'', ''BOL'', ''STR''}" "m = t" using less.prems by (auto simp: mangle.simps [of t])
    then show ?thesis using ident_literals by auto
  next
    case arr
    then obtain x where x: "mangle (array_elem_type t) = Inr x" and m: "m = ''ARR_'' @ x"
      using less.prems by (auto simp: mangle.simps [of t] rbind_eq_Inr)
    from less.IH [OF arr(3) x] show ?thesis unfolding m ident_heads .
  next
    case tsk
    then obtain x where x: "mangle (task_result_type t) = Inr x" and m: "m = ''TSK_'' @ x"
      using less.prems by (auto simp: mangle.simps [of t] rbind_eq_Inr)
    from less.IH [OF tsk(4) x] show ?thesis unfolding m ident_heads .
  next
    case bad
    then show ?thesis using less.prems by (simp add: mangle.simps [of t])
  next
    case (fn i r)
    then obtain x y where x: "mangle i = Inr x" and y: "mangle r = Inr y" and m: "m = ''FN_'' @ x @ ''_TO_'' @ y"
      using less.prems by (auto simp: mangle.simps [of t] rbind_eq_Inr)
    from less.IH [OF fn(6) x] less.IH [OF fn(7) y] show ?thesis unfolding m ident_heads by blast
  next
    case other
    then show ?thesis using less.prems sanitize_upper_ident by (auto simp: mangle.simps [of t])
  qed
qed

lemma lower_heads:
  "list_all ident_char r \<Longrightarrow> map lower_char (''ARR_'' @ map tolower r) = map tolower (''ARR_'' @ r)"
  "list_all ident_char r \<Longrightarrow> map lower_char (''TSK_'' @ map tolower r) = map tolower (''TSK_'' @ r)"
  "list_all ident_char i \<Longrightarrow> list_all ident_char r \<Longrightarrow>
     map lower_char (''FN_'' @ map tolower i @ ''_TO_'' @ map tolower r) = map tolower (''FN_'' @ i @ ''_TO_'' @ r)"
  by (simp_all only: map_append lower_literals map_lower_char_lower)

lemma analyzer_lower_mangle_step:
  "analyzer_lower_mangle t =
     rbind
       (if t \<in> {''INT'', ''FLT'', ''BOL'', ''STR''} then Inr t
        else if is_array_type t
          then rbind (analyzer_lower_mangle (array_elem_type t)) (\<lambda>m. Inr (''ARR_'' @ m))
        else if is_task_type t
          then rbind (analyzer_lower_mangle (task_result_type t)) (\<lambda>m. Inr (''TSK_'' @ m))
        else if is_fn_type t then
          (case split_fn_type t of
             None \<Rightarrow> Inl NullDeref
           | Some (i, r) \<Rightarrow>
               rbind (analyzer_lower_mangle i) (\<lambda>mi.
               rbind (analyzer_lower_mangle r) (\<lambda>mr. Inr (''FN_'' @ mi @ ''_TO_'' @ mr))))
        else Inr t)
       (\<lambda>out. Inr (map lower_char out))"
  unfolding lower_char_def [abs_def] by (rule analyzer_lower_mangle.simps)

lemma mangle_error: "mangle t = Inl e \<Longrightarrow> lower_mangle t = Inl e"
  by (simp add: lower_mangle_def)

lemma analyzer_lower_mangle_eq: "analyzer_lower_mangle t = lower_mangle t"
proof (induction t rule: measure_induct_rule [where f = length])
  case (less t)
  show ?case
  proof (cases t rule: mangle_kinds)
    case base
    then show ?thesis
      using lower_literals by (auto simp: analyzer_lower_mangle_step [of t] lower_mangle_def mangle.simps [of t])
  next
    case arr
    then show ?thesis
      using less.IH [OF arr(3)] lower_heads(1) mangle_ident
      by (cases "mangle (array_elem_type t)")
        (auto simp: analyzer_lower_mangle_step [of t] lower_mangle_def mangle.simps [of t])
  next
    case tsk
    then show ?thesis
      using less.IH [OF tsk(4)] lower_heads(2) mangle_ident
      by (cases "mangle (task_result_type t)")
        (auto simp: analyzer_lower_mangle_step [of t] lower_mangle_def mangle.simps [of t])
  next
    case bad
    then show ?thesis by (simp add: analyzer_lower_mangle_step [of t] lower_mangle_def mangle.simps [of t])
  next
    case (fn i r)
    then show ?thesis
      using less.IH [OF fn(6)] less.IH [OF fn(7)] lower_heads(3) mangle_ident
      by (cases "mangle i"; cases "mangle r")
        (auto simp: analyzer_lower_mangle_step [of t] lower_mangle_def mangle.simps [of t])
  next
    case other
    then show ?thesis
      by (simp add: analyzer_lower_mangle_step [of t] lower_mangle_def mangle.simps [of t] map_lower_char)
  qed
qed

section \<open>Borrows\<close>

text \<open>
  The specification: what a REF variable borrows after a sequence of assignments, as a map from
  the variables to the local each one borrows from, and whether it owns what it refers to. A
  variable assigned to itself borrows nothing any more: that is what the code does, and wrong,
  since it still refers to the same local.
\<close>

definition borrow_of :: "scope \<Rightarrow> (string \<Rightarrow> string option) \<Rightarrow> node \<Rightarrow> string option" where
  "borrow_of s g v =
     (case expr_is_ref_borrow_of_name v of
        Some x \<Rightarrow> if opt_holds is_function_local (resolve_node s x) then n_name (attrs x) else None
      | None \<Rightarrow>
          if n_kind v = NK_NAME \<and> opt_holds (\<lambda>sy. is_ref_type (sym_type sy)) (resolve_node s v)
          then Option.bind (n_name (attrs v)) g else None)"

definition names :: "string \<Rightarrow> node \<Rightarrow> bool" where
  "names r v \<longleftrightarrow> n_kind v = NK_NAME \<and> n_name (attrs v) = Some r"

definition borrows :: "scope \<Rightarrow> (string \<Rightarrow> string option) \<Rightarrow> (string \<times> node) list \<Rightarrow> string \<Rightarrow> string option" where
  "borrows s = foldl (\<lambda>g (r, v). g(r := (if names r v then None else borrow_of s g v)))"

definition owns :: "(string \<Rightarrow> bool) \<Rightarrow> (string \<times> node) list \<Rightarrow> string \<Rightarrow> bool" where
  "owns = foldl (\<lambda>g (r, v). g(r := ref_result_owned (attrs v)))"

lemma owns_other: "r \<notin> fst ` set steps \<Longrightarrow> owns g steps r = g r"
  by (induction steps arbitrary: g) (auto simp: owns_def)

text \<open>The implementation: the assignments the analyzer runs, and the source a symbol records.\<close>

definition assign_refs :: "type_table \<Rightarrow> scope \<Rightarrow> (string \<times> node) list \<Rightarrow> scope" where
  "assign_refs types = foldl (\<lambda>s (r, v). symbol_set_assignment_ownership (Some v) types r s)"

definition tracked :: "scope \<Rightarrow> string \<Rightarrow> string option" where
  "tracked s r = Option.bind (scope_try_resolve s r) ref_source_name"

definition ref_step_ok :: "scope \<Rightarrow> string \<times> node \<Rightarrow> bool" where
  "ref_step_ok s step \<longleftrightarrow>
     opt_holds (\<lambda>sy. is_ref_type (sym_type sy)) (scope_try_resolve s (fst step))"

text \<open>What assignments leave alone.\<close>

definition statics :: "scope \<Rightarrow> string \<Rightarrow> (string \<times> bool \<times> bool) option" where
  "statics s k = map_option (\<lambda>sy. (sym_type sy, is_param sy, is_global sy)) (scope_try_resolve s k)"

lemma statics_resolve:
  assumes "statics s = statics s'"
  shows "opt_holds is_function_local (scope_try_resolve s k) = opt_holds is_function_local (scope_try_resolve s' k)"
    and "opt_holds (\<lambda>sy. is_ref_type (sym_type sy)) (scope_try_resolve s k)
      = opt_holds (\<lambda>sy. is_ref_type (sym_type sy)) (scope_try_resolve s' k)"
  using fun_cong [OF assms, of k]
  by (auto simp: statics_def is_function_local_def opt_holds_def split: option.splits)

lemma borrow_of_statics: "statics s = statics s' \<Longrightarrow> borrow_of s = borrow_of s'"
  using statics_resolve [of s s']
  by (auto simp: borrow_of_def resolve_node_def fun_eq_iff split: option.splits)

lemma ref_step_ok_statics: "statics s = statics s' \<Longrightarrow> ref_step_ok s = ref_step_ok s'"
  using statics_resolve [of s s'] by (simp add: ref_step_ok_def fun_eq_iff)

lemma symbol_updates_name [simp]:
  "sym_name (symbol_clear_ref_source sy) = sym_name sy"
  "sym_name (set_ownership own sy) = sym_name sy"
  "sym_name (symbol_set_ref_source n t sy) = sym_name sy"
  by (simp_all add: symbol_clear_ref_source_def set_ownership_def symbol_set_ref_source_def)

lemma symbol_updates_sel [simp]:
  "sym_type (symbol_clear_ref_source sy) = sym_type sy"
  "sym_type (set_ownership own sy) = sym_type sy"
  "sym_type (symbol_set_ref_source n t sy) = sym_type sy"
  "is_param (symbol_clear_ref_source sy) = is_param sy"
  "is_param (set_ownership own sy) = is_param sy"
  "is_param (symbol_set_ref_source n t sy) = is_param sy"
  "is_global (symbol_clear_ref_source sy) = is_global sy"
  "is_global (set_ownership own sy) = is_global sy"
  "is_global (symbol_set_ref_source n t sy) = is_global sy"
  "ref_source_name (symbol_clear_ref_source sy) = None"
  "ref_source_name (set_ownership own sy) = ref_source_name sy"
  "ref_source_name (symbol_set_ref_source n t sy) = n"
  "ownership (symbol_clear_ref_source sy) = ownership sy"
  "ownership (set_ownership own sy) = own"
  "ownership (symbol_set_ref_source n t sy) = ownership sy"
  by (simp_all add: symbol_clear_ref_source_def set_ownership_def symbol_set_ref_source_def)

lemmas resolve_update = scopes.look_upd [OF symbol_updates_name(1)] scopes.look_upd [OF symbol_updates_name(2)]
  scopes.look_upd [OF symbol_updates_name(3)]

lemma function_local_sel [simp]:
  "is_function_local (symbol_clear_ref_source sy) = is_function_local sy"
  "is_function_local (set_ownership own sy) = is_function_local sy"
  "is_function_local (symbol_set_ref_source n t sy) = is_function_local sy"
  by (simp_all add: is_function_local_def)

text \<open>One assignment: the target records what the specification says, nothing else changes.\<close>

lemma assign_ref_resolve:
  assumes ok: "ref_step_ok s (r, v)"
  shows "\<exists>sy t. scope_try_resolve s r = Some sy \<and> is_ref_type (sym_type sy) \<and>
    scope_try_resolve (symbol_set_assignment_ownership (Some v) types r s) =
      (scope_try_resolve s)(r \<mapsto> symbol_set_ref_source (if names r v then None else borrow_of s (tracked s) v) t
        (set_ownership (if ref_result_owned (attrs v) then OWNERSHIP_OWNED else OWNERSHIP_BORROWED) sy))"
proof -
  obtain sy where sy: "scope_try_resolve s r = Some sy" "is_ref_type (sym_type sy)"
    using ok by (auto simp: ref_step_ok_def opt_holds_def split: option.splits)
  have clear: "symbol_set_ref_source None None y = symbol_clear_ref_source y" for y
    by (simp add: symbol_set_ref_source_def symbol_clear_ref_source_def)
  have idem: "symbol_set_ref_source a b (symbol_clear_ref_source y) = symbol_set_ref_source a b y" for a b y
    by (simp add: symbol_set_ref_source_def symbol_clear_ref_source_def)
  note defs = symbol_set_assignment_ownership_def symbol_set_ref_source_from_expr_def expr_produces_owned_ref_def
    names_def
  show ?thesis
  proof (cases "expr_is_ref_borrow_of_name v")
    case (Some x)
    then have "n_kind v = NK_UNARY" by (auto simp: expr_is_ref_borrow_of_name_def split: if_splits option.splits)
    note Some = Some this
    show ?thesis
    proof (cases "resolve_node s x")
      case None
      then show ?thesis
        using sy ok Some
        by (intro exI [of _ sy] exI [of _ None])
          (auto simp: defs resolve_update borrow_of_def resolve_node_def ref_step_ok_def clear fun_eq_iff
            split: option.splits)
    next
      case src: (Some y)
      then have nm: "n_name (attrs x) = Some (sym_name y)"
        by (auto simp: resolve_node_def split: option.splits dest: scope_try_resolve_name)
      show ?thesis
        using sy ok Some src nm
        by (intro exI [of _ sy] exI [of _ "if is_function_local y then Some (sym_type y) else None"])
          (auto simp: defs resolve_update borrow_of_def resolve_node_def ref_step_ok_def clear idem fun_eq_iff
            split: option.splits)
    qed
  next
    case None
    show ?thesis
    proof (cases "n_kind v = NK_NAME")
      case False
      then show ?thesis
        using sy ok None
        by (intro exI [of _ sy] exI [of _ None])
          (auto simp: defs resolve_update borrow_of_def ref_step_ok_def clear fun_eq_iff split: option.splits)
    next
      case name: True
      show ?thesis
      proof (cases "resolve_node s v")
        case un: None
        then show ?thesis
          using sy ok None name
          by (intro exI [of _ sy] exI [of _ None])
            (auto simp: defs resolve_update borrow_of_def resolve_node_def ref_step_ok_def clear fun_eq_iff
              split: option.splits)
      next
        case src: (Some y)
        then have nm: "n_name (attrs v) = Some (sym_name y)"
          by (auto simp: resolve_node_def split: option.splits dest: scope_try_resolve_name)
        have look: "scope_try_resolve s (sym_name y) = Some y" using src nm by (simp add: resolve_node_def)
        show ?thesis
        proof (cases "sym_name y = r")
          case True
          then show ?thesis
            using sy ok None name nm look
            by (intro exI [of _ sy] exI [of _ None])
              (auto simp: defs resolve_update resolve_node_def clear fun_eq_iff split: option.splits)
        next
          case False
          then show ?thesis
          using sy ok None name nm look
          by (intro exI [of _ sy]
              exI [of _ "if is_ref_type (sym_type y) \<and> ref_source_name y \<noteq> None then ref_source_type y else None"])
            (auto simp: defs resolve_update borrow_of_def resolve_node_def ref_step_ok_def tracked_def clear idem fun_eq_iff
              split: option.splits)
        qed
      qed
    qed
  qed
qed

lemma assign_ref_step:
  assumes "ref_step_ok s (r, v)"
  shows "statics (symbol_set_assignment_ownership (Some v) types r s) = statics s"
    and "tracked (symbol_set_assignment_ownership (Some v) types r s) = (tracked s)(r := (if names r v then None else borrow_of s (tracked s) v))"
    and "map_option ownership (scope_try_resolve (symbol_set_assignment_ownership (Some v) types r s) k) =
      (if k = r then Some (if ref_result_owned (attrs v) then OWNERSHIP_OWNED else OWNERSHIP_BORROWED) else map_option ownership (scope_try_resolve s k))"
  using assign_ref_resolve [OF assms, of types] by (auto simp: statics_def tracked_def fun_eq_iff)

lemma assign_refs_run:
  assumes "list_all (ref_step_ok s) steps"
  shows "statics (assign_refs types s steps) = statics s
    \<and> tracked (assign_refs types s steps) = borrows s (tracked s) steps
    \<and> (\<forall>r. map_option ownership (scope_try_resolve (assign_refs types s steps) r) =
         (if r \<in> fst ` set steps then Some (if owns g steps r then OWNERSHIP_OWNED else OWNERSHIP_BORROWED)
          else map_option ownership (scope_try_resolve s r)))"
  using assms
proof (induction steps arbitrary: s g)
  case (Cons step steps)
  obtain r v where step: "step = (r, v)" by fastforce
  let ?s = "symbol_set_assignment_ownership (Some v) types r s"
  have ok: "ref_step_ok s (r, v)" using Cons.prems step by simp
  note st = assign_ref_step [OF ok, of types]
  have "list_all (ref_step_ok ?s) steps" using Cons.prems ref_step_ok_statics [OF st(1)] by simp
  note IH = Cons.IH [OF this, of "g(r := ref_result_owned (attrs v))"]
  have owner: "owns g (step # steps) = owns (g(r := ref_result_owned (attrs v))) steps" by (simp add: owns_def step)
  have run: "assign_refs types s (step # steps) = assign_refs types ?s steps"
    by (simp add: step assign_refs_def)
  have "borrows ?s (tracked ?s) steps = borrows s (tracked s) (step # steps)"
    unfolding borrows_def borrow_of_statics [OF st(1)] st(2) by (simp add: step)
  with IH show ?case unfolding run owner using st(1,3) owns_other [of r steps] by (simp add: step)
qed (simp add: assign_refs_def borrows_def)

lemma mark_name_escape:
  assumes "n_kind e = NK_NAME" "n_name (attrs e) = Some r" "opt_holds is_ref_type (checked_type (attrs e))"
    "\<not> ref_result_owned (attrs e)" and "scope_try_resolve s r = Some sy" "is_ref_type (sym_type sy)"
  shows "mark_ref_escape_expr (Some e) s site =
    (if ownership sy = OWNERSHIP_OWNED then Inr (True, Some (set_ref_result_owned e))
     else case tracked s r of
       None \<Rightarrow> Inr (False, Some e)
     | Some x \<Rightarrow> rbind (reject_local_ref_escape e (scope_try_resolve s x) site) (\<lambda>_. Inr (False, Some e)))"
  using assms
  by (auto simp: mark_ref_escape_expr_def expr_is_ref_borrow_of_name_def resolve_node_def tracked_def split: option.splits)

section \<open>Properties\<close>

text \<open>
  C21: The analyzer and the emitter agree on the names of runtime helpers, for every type text and
  down to the texts neither can read: the decoders the analyzer calls are those the emitter
  defines.
\<close>

theorem manglings_agree:
  "analyzer_lower_mangle t = lower_mangle t
   \<and> json_decode_boundary_expr t ''OPEN'' e = rbind (json_decode_fn t) (\<lambda>f. Inr (f @ ''('' @ e @ '')''))"
  by (cases "lower_mangle t")
    (simp_all add: analyzer_lower_mangle_eq json_decode_boundary_expr_def json_decode_fn_def flx_name_def)

text \<open>
  C20: Borrows are tracked through copies, for every sequence of assignments to REF variables of the
  scope: letting an assigned variable escape hands over the ownership when the value assigned last
  is an owned result, and otherwise is the diagnostic exactly when what the variable borrows,
  according to the sequence, is a local of the function in scope. The borrow is that of the
  assigned REF expression or variable, except that assigning a variable to itself loses it.
\<close>

theorem borrow_tracking:
  assumes "list_all (ref_step_ok s) steps" and "r \<in> fst ` set steps"
    and "n_kind e = NK_NAME" and "n_name (attrs e) = Some r"
    and "opt_holds is_ref_type (checked_type (attrs e))" and "\<not> ref_result_owned (attrs e)"
  shows "mark_ref_escape_expr (Some e) (assign_refs types s steps) site =
    (if owns (\<lambda>_. False) steps r then Inr (True, Some (set_ref_result_owned e))
     else case borrows s (tracked s) steps r of
       None \<Rightarrow> Inr (False, Some e)
     | Some x \<Rightarrow>
         if opt_holds is_function_local (scope_try_resolve s x)
         then die_node_at e (''REF escape through '' @ site @ '' is rejected: '' @ quoted x @
           '' is a function-local borrow; keep ownership in the caller and pass it to nested helpers with REF'')
         else Inr (False, Some e))"
proof -
  let ?s = "assign_refs types s steps"
  note run = assign_refs_run [OF assms(1), of types "\<lambda>_. False"]
  have "\<exists>v. (r, v) \<in> set steps" using assms(2) by force
  then have "opt_holds (\<lambda>sy. is_ref_type (sym_type sy)) (scope_try_resolve s r)"
    using assms(1) by (auto simp: list_all_iff ref_step_ok_def)
  then obtain sy where sy: "scope_try_resolve ?s r = Some sy" "is_ref_type (sym_type sy)"
    using statics_resolve(2) [of ?s s r] run by (auto simp: opt_holds_def split: option.splits)
  have own: "(ownership sy = OWNERSHIP_OWNED) = owns (\<lambda>_. False) steps r"
    using run [THEN conjunct2, THEN conjunct2, rule_format, of r] assms(2) sy(1) by simp
  have loc: "opt_holds is_function_local (scope_try_resolve ?s x) = opt_holds is_function_local (scope_try_resolve s x)" for x
    using statics_resolve(1) [of ?s s] run by simp
  have tr: "tracked ?s r = borrows s (tracked s) steps r" using run by simp
  have reject: "rbind (reject_local_ref_escape e (scope_try_resolve ?s x) site) (\<lambda>_. Inr (False, Some e)) =
      (if opt_holds is_function_local (scope_try_resolve s x)
       then die_node_at e (''REF escape through '' @ site @ '' is rejected: '' @ quoted x @
         '' is a function-local borrow; keep ownership in the caller and pass it to nested helpers with REF'')
       else Inr (False, Some e))" for x
    unfolding loc [of x, symmetric]
    by (cases "scope_try_resolve ?s x")
      (auto simp: reject_local_ref_escape_def die_node_at_def dest: scope_try_resolve_name)
  show ?thesis unfolding mark_name_escape [OF assms(3-6) sy] tr own by (simp only: reject)
qed

text \<open>A scope with a local \<open>x\<close> and two REF variables, and the expressions over them.\<close>

definition name_expr :: "string \<Rightarrow> node" where
  "name_expr x = upd_attrs (\<lambda>a. a\<lparr>n_name := Some x, checked_type := Some ''REF[INT]''\<rparr>) (synthetic NK_NAME TK_NAME x)"

definition borrow_expr :: "string \<Rightarrow> node" where
  "borrow_expr x = set_expr (name_expr x) (upd_attrs (\<lambda>a. a\<lparr>n_op := Some ''REF''\<rparr>) (synthetic NK_UNARY TK_NAME ''REF''))"

definition local_symbol :: "string \<Rightarrow> string \<Rightarrow> symbol" where
  "local_symbol x t = new_symbol x t None (name_expr x)"

definition sample_scope :: scope where
  "sample_scope = [[local_symbol ''x'' ''INT'', local_symbol ''r'' ''REF[INT]'', local_symbol ''q'' ''REF[INT]'']]"

lemma sample_nodes [simp]:
  "n_kind (name_expr x) = NK_NAME" "n_name (attrs (name_expr x)) = Some x"
  "checked_type (attrs (name_expr x)) = Some ''REF[INT]''" "\<not> ref_result_owned (attrs (name_expr x))"
  "n_kind (borrow_expr x) = NK_UNARY" "n_op (attrs (borrow_expr x)) = Some ''REF''"
  "n_expr (borrow_expr x) = Some (name_expr x)" "\<not> ref_result_owned (attrs (borrow_expr x))"
  "n_expr (name_expr x) = None"
  by (simp_all add: name_expr_def borrow_expr_def synthetic_def attrs_new_def)

lemma sample_ref_type [simp]: "is_ref_type ''REF[INT]''" "\<not> is_ref_type ''INT''"
  by (simp_all add: type_test_defs)

lemma sample_symbols [simp]:
  "sym_name (local_symbol x t) = x" "sym_type (local_symbol x t) = t" "is_function_local (local_symbol x t)"
  "ref_source_name (local_symbol x t) = None" "ownership (local_symbol x t) = OWNERSHIP_UNKNOWN"
  by (simp_all add: local_symbol_def new_symbol_def is_function_local_def)

lemmas sample_simps = expr_is_ref_borrow_of_name_def resolve_node_def

text \<open>
  After \<open>r = REF x\<close> and \<open>q = r\<close> the escape of \<open>q\<close> is rejected; with \<open>r = r\<close> in between it
  is not, though \<open>q\<close> still refers to \<open>x\<close>.
\<close>

theorem borrow_tracking_witness:
  "mark_ref_escape_expr (Some (name_expr ''q''))
     (assign_refs [] sample_scope [(''r'', borrow_expr ''x''), (''q'', name_expr ''r'')]) ''return'' =
   die_node_at (name_expr ''q'') (''REF escape through '' @ ''return'' @ '' is rejected: '' @ quoted ''x'' @
     '' is a function-local borrow; keep ownership in the caller and pass it to nested helpers with REF'')
   \<and> mark_ref_escape_expr (Some (name_expr ''q''))
     (assign_refs [] sample_scope [(''r'', borrow_expr ''x''), (''r'', name_expr ''r''), (''q'', name_expr ''r'')]) ''return'' =
   Inr (False, Some (name_expr ''q''))"
proof -
  note eval = borrows_def borrow_of_def names_def owns_def sample_scope_def sample_simps
  let ?a = "[(''r'', borrow_expr ''x''), (''q'', name_expr ''r'')]"
  let ?b = "[(''r'', borrow_expr ''x''), (''r'', name_expr ''r''), (''q'', name_expr ''r'')]"
  have spec: "borrows sample_scope (tracked sample_scope) ?a ''q'' = Some ''x''" "\<not> owns (\<lambda>_. False) ?a ''q''"
    "borrows sample_scope (tracked sample_scope) ?b ''q'' = None" "\<not> owns (\<lambda>_. False) ?b ''q''"
    by (simp_all add: eval)
  have l: "opt_holds is_function_local (scope_try_resolve sample_scope ''x'')" by (simp add: sample_scope_def)
  have ok: "list_all (ref_step_ok sample_scope) ?a" "list_all (ref_step_ok sample_scope) ?b"
    by (simp_all add: ref_step_ok_def sample_scope_def)
  show ?thesis
    using borrow_tracking [OF ok(1), of "''q''" "name_expr ''q''" "[]" "''return''"]
      borrow_tracking [OF ok(2), of "''q''" "name_expr ''q''" "[]" "''return''"]
    unfolding spec(1,3) by (simp add: l spec)
qed

text \<open>
  Leaving the block of the borrowed local loses the borrow as well: once the name of the local is
  gone, a variable of an outer block that borrows it is let go.
\<close>

lemma borrow_outlives_block:
  assumes "n_kind e = NK_NAME" "n_name (attrs e) = Some r" "opt_holds is_ref_type (checked_type (attrs e))"
    "\<not> ref_result_owned (attrs e)"
    and "scope_try_resolve outer r = Some sy" "is_ref_type (sym_type sy)" "ownership sy \<noteq> OWNERSHIP_OWNED"
    and "ref_source_name sy = Some x" "scope_try_resolve outer x = None"
  shows "mark_ref_escape_expr (Some e) outer site = Inr (False, Some e)"
  using mark_name_escape [OF assms(1-6)] assms(5,7-9) by (simp add: tracked_def reject_local_ref_escape_def)

text \<open>
  The conformance walk does not end on the element of a loop over the text of an outer loop's
  element: the symbol \<open>e\<close> of the inner loop points at the loop, whose value is the name \<open>e\<close>.
\<close>

theorem conformance_loops:
  "let e = set_type ''STR'' (name_expr ''e'');
       inner = (local_symbol ''e'' ''STR'')\<lparr>sym_node := Some (set_value e (synthetic NK_LOOP TK_NAME ''loop''))\<rparr>
   in validate_expr_conforms_to_type n [[inner], [local_symbol ''e'' ''STR'']] types (Some e) (Some ''INT'') = Inl OutOfFuel"
proof (induction n)
  case (Suc n)
  then show ?case
    by (simp add: Let_def type_conforms_to_expected_def type_eq_def symbol_value_def resolve_node_def set_type_def
        type_test_defs)
qed simp

end
