(* ===== verification/TypeFacts.thy ===== *)
theory TypeFacts
  imports TypeTable
begin

text \<open>
  The resolver of types implements the expansion of aliases: every answer is what the type
  \<open>denotes\<close>, the caching never changes an answer, and the recursion ends.
\<close>

section \<open>What a type denotes\<close>

inductive denotes :: "type_table \<Rightarrow> cty \<Rightarrow> cty \<Rightarrow> bool" for ts where
  base: "s \<in> set base_types \<Longrightarrow> denotes ts (TName s) (TName s)"
| dyn: "denotes ts (TName ''DYN'') (TName ''OBJ'')"
| struct: "s \<notin> set base_types \<Longrightarrow> s \<noteq> ''DYN'' \<Longrightarrow> type_index ts s = Some i
    \<Longrightarrow> ti_kind (ts ! i) = TYPEINFO_STRUCT \<Longrightarrow> denotes ts (TName s) (TName s)"
| expand: "s \<notin> set base_types \<Longrightarrow> s \<noteq> ''DYN'' \<Longrightarrow> type_index ts s = Some i
    \<Longrightarrow> ti_kind (ts ! i) = TYPEINFO_ALIAS \<Longrightarrow> target_raw (ts ! i) = Some (show_ty u) \<Longrightarrow> wf_ty u
    \<Longrightarrow> denotes ts u v \<Longrightarrow> denotes ts (TName s) v"
| arr: "denotes ts a b \<Longrightarrow> denotes ts (TArr a) (TArr b)"
| ref: "denotes ts a b \<Longrightarrow> denotes ts (TRef a) (TRef b)"
| task: "denotes ts a b \<Longrightarrow> denotes ts (TTsk a) (TTsk b)"
| map_t: "denotes ts a b \<Longrightarrow> denotes ts c d \<Longrightarrow> denotes ts (TMap a c) (TMap b d)"
| fn_t: "denotes ts a b \<Longrightarrow> denotes ts c d \<Longrightarrow> denotes ts (TFn a c) (TFn b d)"

inductive_cases denotes_TName: "denotes ts (TName s) v"
inductive_cases denotes_TArr: "denotes ts (TArr a) v"
inductive_cases denotes_TRef: "denotes ts (TRef a) v"
inductive_cases denotes_TTsk: "denotes ts (TTsk a) v"
inductive_cases denotes_TMap: "denotes ts (TMap a c) v"
inductive_cases denotes_TFn: "denotes ts (TFn a c) v"

lemma dyn_not_base: "''DYN'' \<notin> set base_types"
  by (simp add: base_types_def)

lemma denotes_name_unique:
  assumes "denotes ts (TName s) c" "s \<notin> set base_types" "s \<noteq> ''DYN''"
    "type_index ts s = Some i"
  shows "ti_kind (ts ! i) = TYPEINFO_STRUCT \<Longrightarrow> c = TName s"
    and "ti_kind (ts ! i) = TYPEINFO_ALIAS \<Longrightarrow> target_raw (ts ! i) = Some (show_ty u) \<Longrightarrow> wf_ty u
      \<Longrightarrow> denotes ts u c"
proof -
  from assms(1) have "(ti_kind (ts ! i) = TYPEINFO_STRUCT \<longrightarrow> c = TName s) \<and>
     (ti_kind (ts ! i) = TYPEINFO_ALIAS \<longrightarrow> (\<exists>u. target_raw (ts ! i) = Some (show_ty u) \<and> wf_ty u \<and> denotes ts u c))"
    by (rule denotes_TName) (use assms(2-4) in auto)
  then show "ti_kind (ts ! i) = TYPEINFO_STRUCT \<Longrightarrow> c = TName s"
    and "ti_kind (ts ! i) = TYPEINFO_ALIAS \<Longrightarrow> target_raw (ts ! i) = Some (show_ty u) \<Longrightarrow> wf_ty u
      \<Longrightarrow> denotes ts u c"
    using show_ty_inject [of u] by auto
qed

lemma denotes_base: "s \<in> set base_types \<Longrightarrow> denotes ts (TName s) c \<Longrightarrow> c = TName s"
  using dyn_not_base by (auto elim: denotes_TName)

lemma denotes_dyn: "denotes ts (TName ''DYN'') c \<Longrightarrow> c = TName ''OBJ''"
  using dyn_not_base by (auto elim: denotes_TName)

lemma denotes_fun: "denotes ts a b \<Longrightarrow> denotes ts a c \<Longrightarrow> b = c"
proof (induction arbitrary: c rule: denotes.induct)
  case (base s)
  then show ?case using denotes_base by blast
next
  case dyn
  then show ?case using denotes_dyn by blast
next
  case (struct s i)
  then show ?case using denotes_name_unique(1) by blast
next
  case (expand s i u v)
  then show ?case using denotes_name_unique(2) by blast
next
  case (arr a b)
  then show ?case by (blast elim: denotes_TArr)
next
  case (ref a b)
  then show ?case by (blast elim: denotes_TRef)
next
  case (task a b)
  then show ?case by (blast elim: denotes_TTsk)
next
  case (map_t a b c d)
  then show ?case by (blast elim: denotes_TMap)
next
  case (fn_t a b c d)
  then show ?case by (blast elim: denotes_TFn)
qed

text \<open>Canonical types: no alias is left, every name is a base type, \<open>OBJ\<close> or a MAP type.\<close>

fun canonical :: "type_table \<Rightarrow> cty \<Rightarrow> bool" where
  "canonical ts (TName s) = (s \<in> set base_types \<or> s = ''OBJ'' \<or> is_struct_type ts s)"
| "canonical ts (TArr a) = canonical ts a"
| "canonical ts (TMap a b) = (canonical ts a \<and> canonical ts b)"
| "canonical ts (TRef a) = canonical ts a"
| "canonical ts (TTsk a) = canonical ts a"
| "canonical ts (TFn a b) = (canonical ts a \<and> canonical ts b)"

lemma denotes_canonical: "denotes ts a b \<Longrightarrow> canonical ts b"
  by (induction rule: denotes.induct) (auto simp: is_struct_type_def type_find_def)

lemma denotes_wf: "denotes ts a b \<Longrightarrow> wf_ty a \<Longrightarrow> wf_ty b"
  by (induction rule: denotes.induct) (auto simp: name_ok_def word_char_def char_defs)

section \<open>Invariants\<close>

text \<open>Tables that differ in caches and flags only, and have no more live aliases.\<close>

definition same_decl :: "type_info \<Rightarrow> type_info \<Rightarrow> bool" where
  "same_decl a b \<longleftrightarrow> ti_name a = ti_name b \<and> ti_kind a = ti_kind b \<and> target_raw a = target_raw b"

definition evolves :: "type_table \<Rightarrow> type_table \<Rightarrow> bool" where
  "evolves ts us \<longleftrightarrow> list_all2 (\<lambda>a b. same_decl a b \<and> (is_live b \<longrightarrow> is_live a)) ts us"

lemma evolves_refl [simp]: "evolves ts ts"
  by (simp add: evolves_def list_all2_same same_decl_def)

lemma evolves_trans: "evolves ts us \<Longrightarrow> evolves us vs \<Longrightarrow> evolves ts vs"
  unfolding evolves_def list_all2_conv_all_nth by (auto simp: same_decl_def)

lemma evolves_length: "evolves ts us \<Longrightarrow> length us = length ts"
  by (auto simp: evolves_def dest: list_all2_lengthD)

lemma evolves_nth:
  "evolves ts us \<Longrightarrow> i < length ts \<Longrightarrow> same_decl (ts ! i) (us ! i) \<and> (is_live (us ! i) \<longrightarrow> is_live (ts ! i))"
  by (auto simp: evolves_def list_all2_conv_all_nth)

lemma evolves_update:
  "i < length ts \<Longrightarrow> same_decl (ts ! i) x \<Longrightarrow> (is_live x \<Longrightarrow> is_live (ts ! i)) \<Longrightarrow> evolves ts (ts[i := x])"
  by (auto simp: evolves_def list_all2_conv_all_nth nth_list_update same_decl_def)

lemma evolves_names: "evolves ts us \<Longrightarrow> map ti_name ts = map ti_name us"
  by (auto simp: evolves_def list_all2_conv_all_nth same_decl_def intro: nth_equalityI)

lemma evolves_index: "evolves ts us \<Longrightarrow> type_index us = type_index ts"
  by (metis evolves_names type_index_cong)

lemma evolves_raw_bound: "evolves ts us \<Longrightarrow> raw_bound us = raw_bound ts"
  unfolding raw_bound_def
  by (rule arg_cong [of _ _ sum_list], rule nth_equalityI)
    (auto dest: evolves_nth simp: evolves_length same_decl_def)

lemma evolves_live: "evolves ts us \<Longrightarrow> length (filter is_live us) \<le> length (filter is_live ts)"
  unfolding evolves_def by (induction rule: list_all2_induct) auto

lemma evolves_denotes: "evolves ts us \<Longrightarrow> denotes ts a b \<longleftrightarrow> denotes us a b"
proof -
  have one: "denotes us a b" if "denotes ts a b" "map ti_name ts = map ti_name us"
    "\<And>i. i < length ts \<Longrightarrow> same_decl (ts ! i) (us ! i)" for ts us a b
    using that
  proof (induction rule: denotes.induct)
    case (struct s i)
    have "i < length ts" using struct(3) type_index_Some by blast
    then show ?case using struct type_index_cong [OF struct(5)]
      by (intro denotes.struct [of s us i]) (auto simp: same_decl_def)
  next
    case (expand s i u v)
    have "i < length ts" using expand(3) type_index_Some by blast
    then have "same_decl (ts ! i) (us ! i)" by (rule expand(10))
    then show ?case using expand type_index_cong [OF expand(9)]
      by (intro denotes.expand [of s us i u]) (auto simp: same_decl_def)
  qed (auto intro: denotes.intros)
  assume ev: "evolves ts us"
  have "same_decl (ts ! i) (us ! i)" if "i < length ts" for i using evolves_nth [OF ev that] by simp
  then have "same_decl (us ! i) (ts ! i)" if "i < length us" for i
    using that evolves_length [OF ev] by (auto simp: same_decl_def)
  then show ?thesis using one [of ts a b us] one [of us a b ts] evolves_names [OF ev] evolves_nth [OF ev] by auto
qed

text \<open>
  The invariant of the table: an alias has the text of a type, and what is cached for it is
  what that type denotes.
\<close>

definition info_ok :: "type_table \<Rightarrow> type_info \<Rightarrow> bool" where
  "info_ok ts info \<longleftrightarrow>
     (ti_kind info = TYPEINFO_ALIAS \<longrightarrow>
        (\<exists>u. wf_ty u \<and> target_raw info = Some (show_ty u) \<and>
           (\<forall>t. target info = Some t \<longrightarrow> (\<exists>v. denotes ts u v \<and> t = show_ty v))))"

definition table_ok :: "type_table \<Rightarrow> bool" where
  "table_ok ts \<longleftrightarrow> (\<forall>info \<in> set ts. info_ok ts info)"

lemma info_ok_evolves: "evolves ts us \<Longrightarrow> info_ok ts info \<longleftrightarrow> info_ok us info"
  by (simp add: info_ok_def evolves_denotes)

lemma table_ok_update:
  assumes "table_ok ts" "i < length ts" "info_ok ts x" "evolves ts (ts[i := x])"
  shows "table_ok (ts[i := x])"
proof -
  have "info_ok ts y" if "y \<in> set (ts[i := x])" for y
    using that assms(1,3) set_update_subset_insert [of ts i x] by (auto simp: table_ok_def)
  then show ?thesis using info_ok_evolves [OF assms(4)] by (simp add: table_ok_def)
qed

section \<open>The branches of the resolver\<close>

lemma constructed_not_base:
  "array_type s \<notin> set base_types" "map_type s t \<notin> set base_types" "ref_type s \<notin> set base_types"
  "task_type s \<notin> set base_types" "fn_type s t \<notin> set base_types"
  "array_type s \<noteq> ''DYN''" "map_type s t \<noteq> ''DYN''" "ref_type s \<noteq> ''DYN''" "task_type s \<noteq> ''DYN''"
  "fn_type s t \<noteq> ''DYN''"
  by (simp_all add: base_types_def type_build_defs)

lemma resolve_step_show:
  assumes "wf_ty a" "wf_ty b"
  shows "resolve_type_step r ts (array_type (show_ty a)) at =
      rbind (r ts (show_ty a) at) (\<lambda>(e, ts). Inr (array_type e, ts))"
    and "resolve_type_step r ts (ref_type (show_ty a)) at =
      rbind (r ts (show_ty a) at) (\<lambda>(e, ts). Inr (ref_type e, ts))"
    and "resolve_type_step r ts (task_type (show_ty a)) at =
      rbind (r ts (show_ty a) at) (\<lambda>(e, ts). Inr (task_type e, ts))"
    and "resolve_type_step r ts (map_type (show_ty a) (show_ty b)) at =
      rbind (r ts (show_ty a) at) (\<lambda>(k', ts1). rbind (r ts1 (show_ty b) at) (\<lambda>(v', ts2).
        Inr (map_type k' v', ts2)))"
    and "resolve_type_step r ts (fn_type (show_ty a) (show_ty b)) at =
      rbind (r ts (show_ty a) at) (\<lambda>(i', ts1). rbind (r ts1 (show_ty b) at) (\<lambda>(o', ts2).
        Inr (fn_type i' o', ts2)))"
  using assms type_tests_unary [OF assms(1)] type_tests_binary [OF assms]
    type_tests_show [of "TArr a"] type_tests_show [of "TRef a"] type_tests_show [of "TTsk a"]
  by (simp_all add: resolve_type_step_def constructed_not_base)

lemma resolve_step_name:
  assumes "name_ok s"
  shows "resolve_type_step r ts s at =
     (if s \<in> set base_types then Inr (s, ts)
      else if s = ''DYN'' then Inr (''OBJ'', ts)
      else (case type_index ts s of
              Some i \<Rightarrow> resolve_alias r ts i at
            | None \<Rightarrow> die_node_at at (''unknown type '' @ quoted s)))"
  using assms by (simp add: resolve_type_step_def)

section \<open>Soundness\<close>

definition answers :: "type_table \<Rightarrow> cty \<Rightarrow> string \<times> type_table \<Rightarrow> bool" where
  "answers ts ty = (\<lambda>(t, us). evolves ts us \<and> table_ok us \<and> map resolving us = map resolving ts \<and>
     (\<exists>v. denotes ts ty v \<and> t = show_ty v))"

definition resolver_ok :: "(type_table \<Rightarrow> string \<Rightarrow> node \<Rightarrow> (string \<times> type_table) result) \<Rightarrow> bool" where
  "resolver_ok r \<longleftrightarrow>
     (\<forall>ts ty at x. table_ok ts \<longrightarrow> wf_ty ty \<longrightarrow> r ts (show_ty ty) at = Inr x \<longrightarrow> answers ts ty x)"

lemma resolver_okD:
  assumes "resolver_ok r" "table_ok ts" "wf_ty ty" "r ts (show_ty ty) at = Inr (t, us)"
  shows "evolves ts us" "table_ok us" "\<exists>v. denotes ts ty v \<and> t = show_ty v"
    "map resolving us = map resolving ts"
  using assms by (auto simp: resolver_ok_def answers_def)

lemma resolve_alias_ok:
  assumes r: "resolver_ok r" and ts: "table_ok ts" and i: "type_index ts s = Some i"
    and s: "s \<notin> set base_types" "s \<noteq> ''DYN''"
    and run: "resolve_alias r ts i at = Inr x"
  shows "answers ts (TName s) x"
proof -
  let ?info = "ts ! i"
  have len: "i < length ts" and nm: "ti_name ?info = s" using type_index_Some [OF i] by auto
  have ok: "info_ok ts ?info" using ts len by (simp add: table_ok_def)
  show ?thesis
  proof (cases "ti_kind ?info")
    case TYPEINFO_STRUCT
    then show ?thesis
      using run nm s i ts by (auto simp: resolve_alias_def answers_def intro: denotes.struct)
  next
    case TYPEINFO_ALIAS
    then obtain u where u: "wf_ty u" "target_raw ?info = Some (show_ty u)"
      and cached: "\<And>t. target ?info = Some t \<Longrightarrow> \<exists>v. denotes ts u v \<and> t = show_ty v"
      using ok by (auto simp: info_ok_def)
    note den = denotes.expand [OF s i TYPEINFO_ALIAS u(2,1)]
    show ?thesis
    proof (cases "target ?info")
      case (Some t)
      then show ?thesis
        using run TYPEINFO_ALIAS cached [OF Some] den ts by (auto simp: resolve_alias_def answers_def)
    next
      case None
      let ?ts1 = "ts[i := ?info\<lparr>resolving := True\<rparr>]"
      have ev1: "evolves ts ?ts1"
        by (rule evolves_update [OF len]) (auto simp: same_decl_def is_live_def)
      have ok1: "table_ok ?ts1"
        by (rule table_ok_update [OF ts len _ ev1]) (use ok in \<open>simp add: info_ok_def\<close>)
      obtain t us where run1: "r ?ts1 (show_ty u) (ti_node ?info) = Inr (t, us)"
        and x: "x = (t, us[i := (us ! i)\<lparr>target := Some t, resolving := False\<rparr>])"
        using run TYPEINFO_ALIAS None u
        by (auto simp: resolve_alias_def Let_def die_node_at_def rbind_eq_Inr split: if_splits)
      note res = resolver_okD [OF r ok1 u(1) run1]
      let ?y = "(us ! i)\<lparr>target := Some t, resolving := False\<rparr>"
      have ev: "evolves ts us" using evolves_trans [OF ev1 res(1)] .
      have lenu: "i < length us" using evolves_length [OF ev] len by simp
      obtain v where v: "denotes ts u v" "t = show_ty v"
        using res(3) evolves_denotes [OF ev1] by auto
      have evy: "evolves us (us[i := ?y])"
        by (rule evolves_update [OF lenu]) (auto simp: same_decl_def is_live_def)
      have "info_ok us ?y"
        using u v evolves_denotes [OF ev] evolves_nth [OF ev len]
        by (auto simp: info_ok_def same_decl_def)
      then have "table_ok (us[i := ?y])" by (rule table_ok_update [OF res(2) lenu _ evy])
      moreover have "map resolving (us[i := ?y]) = map resolving ts"
      proof -
        have "map resolving us = (map resolving ts)[i := True]" using res(4) by (simp add: map_update)
        moreover have "\<not> resolving ?info"
          using run TYPEINFO_ALIAS None by (auto simp: resolve_alias_def Let_def die_node_at_def)
        ultimately show ?thesis using len by (simp add: map_update list_update_same_conv)
      qed
      ultimately show ?thesis
        using evolves_trans [OF ev evy] den [OF v(1)] v(2) by (auto simp: answers_def x)
    qed
  qed
qed

lemma resolver_ok_unary:
  assumes r: "resolver_ok r" and ts: "table_ok ts" "wf_ty a"
    and run: "rbind (r ts (show_ty a) at) (\<lambda>(e, us). Inr (bld e, us)) = Inr x"
    and den: "\<And>v. denotes ts a v \<Longrightarrow> denotes ts (con a) (con v)" and build: "\<And>v. show_ty (con v) = bld (show_ty v)"
  shows "answers ts (con a) x"
proof -
  obtain e us where run1: "r ts (show_ty a) at = Inr (e, us)" and x: "x = (bld e, us)"
    using run by (auto simp: rbind_eq_Inr)
  note res = resolver_okD [OF r ts run1]
  then obtain v where "denotes ts a v" "e = show_ty v" by blast
  then have "denotes ts (con a) (con v)" "bld e = show_ty (con v)" using den build by simp_all
  then show ?thesis using res(1,2,4) by (auto simp: answers_def x)
qed

lemma resolver_ok_binary:
  assumes r: "resolver_ok r" and ts: "table_ok ts" "wf_ty a" "wf_ty b"
    and run: "rbind (r ts (show_ty a) at) (\<lambda>(k, us). rbind (r us (show_ty b) at) (\<lambda>(v, vs). Inr (bld k v, vs))) = Inr x"
    and den: "\<And>v w. denotes ts a v \<Longrightarrow> denotes ts b w \<Longrightarrow> denotes ts (con a b) (con v w)"
    and build: "\<And>v w. show_ty (con v w) = bld (show_ty v) (show_ty w)"
  shows "answers ts (con a b) x"
proof -
  obtain k us v vs where run1: "r ts (show_ty a) at = Inr (k, us)"
    and run2: "r us (show_ty b) at = Inr (v, vs)" and x: "x = (bld k v, vs)"
    using run by (auto simp: rbind_eq_Inr)
  note res1 = resolver_okD [OF r ts(1,2) run1]
  note res2 = resolver_okD [OF r res1(2) ts(3) run2]
  obtain v' w' where "denotes ts a v'" "k = show_ty v'" "denotes ts b w'" "v = show_ty w'"
    using res1(3) res2(3) evolves_denotes [OF res1(1)] by auto
  then have "denotes ts (con a b) (con v' w')" "bld k v = show_ty (con v' w')" using den build by simp_all
  then show ?thesis
    using evolves_trans [OF res1(1) res2(1)] res2(2,4) res1(4) by (auto simp: answers_def x)
qed

lemma resolve_type_n_ok: "resolver_ok (resolve_type_n n)"
proof (induction n)
  case 0
  then show ?case by (simp add: resolver_ok_def)
next
  case (Suc n)
  show ?case
    unfolding resolver_ok_def
  proof (intro allI impI)
    fix ts ty at x
    assume ts: "table_ok ts" and wf: "wf_ty ty" and "resolve_type_n (Suc n) ts (show_ty ty) at = Inr x"
    then have run: "resolve_type_step (resolve_type_n n) ts (show_ty ty) at = Inr x" by simp
    show "answers ts ty x"
    proof (cases ty)
      case (TName s)
      then have nm: "name_ok s" using wf by simp
      show ?thesis
      proof (cases "s \<in> set base_types \<or> s = ''DYN''")
        case True
        then show ?thesis
          using run ts TName dyn_not_base
          by (auto simp: resolve_step_name [OF nm] answers_def split: if_splits intro: denotes.intros)
      next
        case False
        then obtain i where "type_index ts s = Some i" "resolve_alias (resolve_type_n n) ts i at = Inr x"
          using run TName by (auto simp: resolve_step_name [OF nm] die_node_at_def split: option.splits)
        then show ?thesis using resolve_alias_ok [OF Suc.IH ts] False TName by auto
      qed
    next
      case (TArr a)
      then show ?thesis
        using run wf resolver_ok_unary [OF Suc.IH ts, of a at array_type x TArr]
        by (simp add: resolve_step_show(1) [OF _ wf] denotes.arr)
    next
      case (TRef a)
      then show ?thesis
        using run wf resolver_ok_unary [OF Suc.IH ts, of a at ref_type x TRef]
        by (simp add: resolve_step_show(2) [OF _ wf] denotes.ref)
    next
      case (TTsk a)
      then show ?thesis
        using run wf resolver_ok_unary [OF Suc.IH ts, of a at task_type x TTsk]
        by (simp add: resolve_step_show(3) [OF _ wf] denotes.task)
    next
      case (TMap a b)
      then show ?thesis
        using run wf resolver_ok_binary [OF Suc.IH ts, of a b at map_type x TMap]
        by (simp add: resolve_step_show(4) denotes.map_t)
    next
      case (TFn a b)
      then show ?thesis
        using run wf resolver_ok_binary [OF Suc.IH ts, of a b at fn_type x TFn]
        by (simp add: resolve_step_show(5) denotes.fn_t)
    qed
  qed
qed

section \<open>Termination and diagnostics\<close>

definition fuel_for :: "type_table \<Rightarrow> nat \<Rightarrow> nat" where
  "fuel_for ts k = length (filter is_live ts) * (raw_bound ts + 1) + k"

lemma fuel_for_evolves: "evolves ts us \<Longrightarrow> fuel_for us k \<le> fuel_for ts k"
  using evolves_raw_bound [of ts us] unfolding fuel_for_def
  by (auto intro!: add_le_mono mult_le_mono1 evolves_live simp del: mult_Suc_right)

lemma raw_bound_nth:
  "i < length ts \<Longrightarrow> target_raw (ts ! i) = Some r \<Longrightarrow> length r \<le> raw_bound ts"
proof (induction ts arbitrary: i)
  case (Cons a ts)
  then show ?case by (cases i) (auto simp: raw_bound_def trans_le_add2)
qed simp

lemma live_update:
  "i < length ts \<Longrightarrow> is_live (ts ! i) \<Longrightarrow> \<not> is_live x \<Longrightarrow>
     Suc (length (filter is_live (ts[i := x]))) = length (filter is_live ts)"
proof (induction ts arbitrary: i)
  case (Cons a ts)
  then show ?case by (cases i) auto
qed simp

lemma fuel_for_enter:
  assumes "i < length ts" "is_live (ts ! i)" "target_raw (ts ! i) = Some r" "evolves ts (ts[i := x])" "\<not> is_live x"
  shows "fuel_for (ts[i := x]) (length r) < fuel_for ts k"
  using live_update [OF assms(1,2,5)] raw_bound_nth [OF assms(1,3)] evolves_raw_bound [OF assms(4)]
  by (simp add: fuel_for_def flip: live_update [OF assms(1,2,5)])

lemma resolve_alias_state:
  assumes ts: "table_ok ts" and i: "i < length ts" and kind: "ti_kind (ts ! i) = TYPEINFO_ALIAS"
    and None: "target (ts ! i) = None" and res: "\<not> resolving (ts ! i)"
  defines "us \<equiv> ts[i := (ts ! i)\<lparr>resolving := True\<rparr>]"
  obtains u where "wf_ty u" "target_raw (ts ! i) = Some (show_ty u)" "table_ok us" "evolves ts us"
    "\<And>k. fuel_for us (length (show_ty u)) < fuel_for ts k"
    "\<And>r at. resolve_alias r ts i at = rbind (r us (show_ty u) (ti_node (ts ! i))) (\<lambda>(t, vs).
        Inr (t, vs[i := (vs ! i)\<lparr>target := Some t, resolving := False\<rparr>]))"
proof -
  have ok: "info_ok ts (ts ! i)" using ts i by (simp add: table_ok_def)
  then obtain u where u: "wf_ty u" "target_raw (ts ! i) = Some (show_ty u)"
    using kind by (auto simp: info_ok_def)
  have ev: "evolves ts us"
    unfolding us_def by (rule evolves_update [OF i]) (auto simp: same_decl_def is_live_def)
  have "table_ok us"
    unfolding us_def by (rule table_ok_update [OF ts i _ ev [unfolded us_def]]) (use ok in \<open>simp add: info_ok_def\<close>)
  moreover have "fuel_for us (length (show_ty u)) < fuel_for ts k" for k
    unfolding us_def
    by (rule fuel_for_enter [OF i _ u(2) ev [unfolded us_def]]) (use kind None res in \<open>auto simp: is_live_def\<close>)
  moreover have "resolve_alias r ts i at = rbind (r us (show_ty u) (ti_node (ts ! i))) (\<lambda>(t, vs).
        Inr (t, vs[i := (vs ! i)\<lparr>target := Some t, resolving := False\<rparr>]))" for r at
    using kind None res u by (simp add: resolve_alias_def us_def Let_def)
  ultimately show thesis using that u ev by blast
qed

lemma length_constructed:
  "length s < length (array_type s)" "length s < length (ref_type s)" "length s < length (task_type s)"
  "length s < length (map_type s t)" "length t < length (map_type s t)"
  "length s < length (fn_type s t)" "length t < length (fn_type s t)"
  by (simp_all add: type_build_defs)

lemma resolve_type_n_error:
  "table_ok ts \<Longrightarrow> wf_ty ty \<Longrightarrow> fuel_for ts (length (show_ty ty)) < n \<Longrightarrow>
     resolve_type_n n ts (show_ty ty) at = Inl e \<Longrightarrow> is_diagnostic e"
proof (induction n arbitrary: ts ty at e)
  case 0
  then show ?case by simp
next
  case (Suc n)
  note step = Suc.prems(4)
  have unary: "is_diagnostic e"
    if "rbind (resolve_type_n n ts (show_ty a) at) f = Inl e" "wf_ty a" "length (show_ty a) < length (show_ty ty)"
      "\<And>x. \<exists>y. f x = Inr y" for a f
  proof -
    have "resolve_type_n n ts (show_ty a) at = Inl e"
      using that(1,4) by (auto simp: rbind_eq_Inl) (metis Inl_Inr_False)
    then show ?thesis by (rule Suc.IH [rotated 3]) (use Suc.prems that in \<open>auto simp: fuel_for_def\<close>)
  qed
  have binary: "is_diagnostic e"
    if run: "rbind (resolve_type_n n ts (show_ty a) at) (\<lambda>(x, us). rbind (resolve_type_n n us (show_ty b) at) (f x)) = Inl e"
      and wf: "wf_ty a" "wf_ty b" and len: "length (show_ty a) < length (show_ty ty)" "length (show_ty b) < length (show_ty ty)"
      and f: "\<And>x y. \<exists>z. f x y = Inr z" for a b f
  proof (cases "resolve_type_n n ts (show_ty a) at")
    case (Inl e')
    then have "e' = e" using run by simp
    then show ?thesis
      using Suc.IH [OF Suc.prems(1) wf(1) _ Inl] len(1) Suc.prems(3) by (simp add: fuel_for_def)
  next
    case (Inr r)
    obtain x us where r: "r = (x, us)" by (cases r)
    note res = resolver_okD [OF resolve_type_n_ok Suc.prems(1) wf(1) Inr [unfolded r]]
    have "resolve_type_n n us (show_ty b) at = Inl e"
      using run f [of x] Inr r by (auto simp: rbind_eq_Inl) (metis Inl_Inr_False)
    then show ?thesis
      by (rule Suc.IH [OF res(2) wf(2), rotated])
        (use fuel_for_evolves [OF res(1), of "length (show_ty b)"] len(2) Suc.prems(3) in \<open>simp add: fuel_for_def\<close>)
  qed
  show ?case
  proof (cases ty)
    case (TName s)
    then have nm: "name_ok s" using Suc.prems(2) by simp
    show ?thesis
    proof (cases "s \<in> set base_types \<or> s = ''DYN'' \<or> type_index ts s = None")
      case True
      then show ?thesis
        using step TName by (auto simp: resolve_step_name [OF nm] die_node_at_def split: if_splits)
    next
      case False
      then obtain i where i: "type_index ts s = Some i" by auto
      then have run: "resolve_alias (resolve_type_n n) ts i at = Inl e"
        using step False TName by (simp add: resolve_step_name [OF nm])
      have len: "i < length ts" using type_index_Some [OF i] by simp
      show ?thesis
      proof (cases "ti_kind (ts ! i) = TYPEINFO_ALIAS \<and> target (ts ! i) = None \<and> \<not> resolving (ts ! i)")
        case True
        then have *: "ti_kind (ts ! i) = TYPEINFO_ALIAS" "target (ts ! i) = None" "\<not> resolving (ts ! i)"
          by simp_all
        let ?us = "ts[i := (ts ! i)\<lparr>resolving := True\<rparr>]"
        show ?thesis
        proof (rule resolve_alias_state [OF Suc.prems(1) len *])
          fix u assume u: "wf_ty u" "table_ok ?us"
            "\<And>k. fuel_for ?us (length (show_ty u)) < fuel_for ts k"
            "\<And>r at. resolve_alias r ts i at = rbind (r ?us (show_ty u) (ti_node (ts ! i)))
               (\<lambda>(t, vs). Inr (t, vs[i := (vs ! i)\<lparr>target := Some t, resolving := False\<rparr>]))"
          have "resolve_type_n n ?us (show_ty u) (ti_node (ts ! i)) = Inl e"
            using run unfolding u(4) by (auto simp: rbind_eq_Inl)
          then show "is_diagnostic e"
            by (rule Suc.IH [OF u(2,1), rotated])
              (use u(3) [of "length (show_ty ty)"] Suc.prems(3) in simp)
        qed
      next
        case False
        have "info_ok ts (ts ! i)" using Suc.prems(1) len by (simp add: table_ok_def)
        then show ?thesis
          using run False
          by (auto simp: resolve_alias_def Let_def die_node_at_def info_ok_def
              split: if_splits option.splits intro: type_info_kind.exhaust)
      qed
    qed
  next
    case (TArr a)
    then show ?thesis
      using step Suc.prems(2) unary [of a "\<lambda>(e, ts). Inr (array_type e, ts)"] length_constructed
      by (simp add: resolve_step_show(1) case_prod_unfold)
  next
    case (TRef a)
    then show ?thesis
      using step Suc.prems(2) unary [of a "\<lambda>(e, ts). Inr (ref_type e, ts)"] length_constructed
      by (simp add: resolve_step_show(2) case_prod_unfold)
  next
    case (TTsk a)
    then show ?thesis
      using step Suc.prems(2) unary [of a "\<lambda>(e, ts). Inr (task_type e, ts)"] length_constructed
      by (simp add: resolve_step_show(3) case_prod_unfold)
  next
    case (TMap a b)
    then show ?thesis
      using step Suc.prems(2) binary [of a b "\<lambda>x (y, us). Inr (map_type x y, us)"] length_constructed
      by (simp add: resolve_step_show(4) case_prod_unfold)
  next
    case (TFn a b)
    then show ?thesis
      using step Suc.prems(2) binary [of a b "\<lambda>x (y, us). Inr (fn_type x y, us)"] length_constructed
      by (simp add: resolve_step_show(5) case_prod_unfold)
  qed
qed

end
