(* ===== verification/TypeBuild.thy ===== *)
theory TypeBuild
  imports TypeFacts
begin

text \<open>
  The resolver is complete as well as sound, and \<open>build_type_table\<close> leaves a table in which
  every alias and every field has a canonical type.
\<close>

section \<open>Completeness\<close>

text \<open>\<open>den ts k a b\<close>: \<open>a\<close> denotes \<open>b\<close>, expanding aliases at most \<open>k\<close> deep.\<close>

inductive den :: "type_table \<Rightarrow> nat \<Rightarrow> cty \<Rightarrow> cty \<Rightarrow> bool" for ts where
  base: "s \<in> set base_types \<Longrightarrow> den ts k (TName s) (TName s)"
| dyn: "den ts k (TName ''DYN'') (TName ''OBJ'')"
| struct: "s \<notin> set base_types \<Longrightarrow> s \<noteq> ''DYN'' \<Longrightarrow> type_index ts s = Some i
    \<Longrightarrow> ti_kind (ts ! i) = TYPEINFO_STRUCT \<Longrightarrow> den ts k (TName s) (TName s)"
| expand: "s \<notin> set base_types \<Longrightarrow> s \<noteq> ''DYN'' \<Longrightarrow> type_index ts s = Some i
    \<Longrightarrow> ti_kind (ts ! i) = TYPEINFO_ALIAS \<Longrightarrow> target_raw (ts ! i) = Some (show_ty u) \<Longrightarrow> wf_ty u
    \<Longrightarrow> den ts k u v \<Longrightarrow> den ts (Suc k) (TName s) v"
| arr: "den ts k a b \<Longrightarrow> den ts k (TArr a) (TArr b)"
| ref: "den ts k a b \<Longrightarrow> den ts k (TRef a) (TRef b)"
| task: "den ts k a b \<Longrightarrow> den ts k (TTsk a) (TTsk b)"
| map_t: "den ts k a b \<Longrightarrow> den ts k c d \<Longrightarrow> den ts k (TMap a c) (TMap b d)"
| fn_t: "den ts k a b \<Longrightarrow> den ts k c d \<Longrightarrow> den ts k (TFn a c) (TFn b d)"

inductive_cases den_TName: "den ts k (TName s) v"
inductive_cases den_TArr: "den ts k (TArr a) v"
inductive_cases den_TRef: "den ts k (TRef a) v"
inductive_cases den_TTsk: "den ts k (TTsk a) v"
inductive_cases den_TMap: "den ts k (TMap a c) v"
inductive_cases den_TFn: "den ts k (TFn a c) v"

lemma den_denotes: "den ts k a b \<Longrightarrow> denotes ts a b"
  by (induction rule: den.induct) (auto intro: denotes.intros)

lemma den_mono: "den ts k a b \<Longrightarrow> k \<le> m \<Longrightarrow> den ts m a b"
proof (induction arbitrary: m rule: den.induct)
  case (expand s i u k v)
  then obtain m' where "m = Suc m'" "k \<le> m'" by (cases m) auto
  with expand show ?case by (auto intro: den.expand)
qed (auto intro: den.intros)

lemma denotes_den: "denotes ts a b \<Longrightarrow> \<exists>k. den ts k a b"
proof (induction rule: denotes.induct)
  case (map_t a b c d)
  then obtain k m where "den ts k a b" "den ts m c d" by blast
  then have "den ts (max k m) (TMap a c) (TMap b d)"
    by (intro den.map_t) (erule den_mono, simp)+
  then show ?case by blast
next
  case (fn_t a b c d)
  then obtain k m where "den ts k a b" "den ts m c d" by blast
  then have "den ts (max k m) (TFn a c) (TFn b d)"
    by (intro den.fn_t) (erule den_mono, simp)+
  then show ?case by blast
qed (blast intro: den.intros)+

lemma den_same:
  assumes "den ts k a b" and names: "map ti_name ts = map ti_name us"
    and same: "\<And>i. i < length ts \<Longrightarrow> same_decl (ts ! i) (us ! i)"
  shows "den us k a b"
  using assms(1)
proof (induction rule: den.induct)
  case (struct s i k)
  have "i < length ts" using struct(3) type_index_Some by blast
  then show ?case using struct same type_index_cong [OF names]
    by (intro den.struct [of s us i]) (auto simp: same_decl_def)
next
  case (expand s i u k v)
  have "i < length ts" using expand(3) type_index_Some by blast
  then show ?case using expand same type_index_cong [OF names]
    by (intro den.expand [of s us i u]) (auto simp: same_decl_def)
qed (auto intro: den.intros)

lemma evolves_den:
  assumes ev: "evolves ts us"
  shows "den us k a b \<longleftrightarrow> den ts k a b"
proof
  have same: "same_decl (ts ! i) (us ! i)" if "i < length ts" for i
    using evolves_nth [OF ev that] by simp
  show "den us k a b" if "den ts k a b"
    by (rule den_same [OF that evolves_names [OF ev] same])
  show "den ts k a b" if "den us k a b"
    by (rule den_same [OF that evolves_names [OF ev, symmetric]])
      (use same evolves_length [OF ev] in \<open>auto simp: same_decl_def\<close>)
qed

text \<open>The aliases being resolved are not needed at depth \<open>k\<close>: no cycle is met there.\<close>

definition unblocked :: "type_table \<Rightarrow> nat \<Rightarrow> bool" where
  "unblocked ts k \<longleftrightarrow>
     (\<forall>s i. type_index ts s = Some i \<longrightarrow> resolving (ts ! i) \<longrightarrow> (\<nexists>v. den ts k (TName s) v))"

lemma unblocked_evolves:
  assumes ev: "evolves ts us" and flags: "map resolving us = map resolving ts" and ok: "unblocked ts k"
  shows "unblocked us k"
  unfolding unblocked_def evolves_den [OF ev] evolves_index [OF ev]
proof (intro allI impI)
  fix s i assume i: "type_index ts s = Some i" "resolving (us ! i)"
  have len: "i < length ts" "i < length us" using type_index_Some [OF i(1)] evolves_length [OF ev] by auto
  have "resolving (us ! i) = map resolving us ! i" using len by simp
  also have "\<dots> = resolving (ts ! i)" unfolding flags using len by simp
  finally show "\<nexists>v. den ts k (TName s) v" using ok i by (auto simp: unblocked_def)
qed

lemma den_expand_least:
  assumes d: "den ts k (TName s) v" and s: "s \<notin> set base_types" "s \<noteq> ''DYN''" "type_index ts s = Some i"
    and kind: "ti_kind (ts ! i) = TYPEINFO_ALIAS" and u: "target_raw (ts ! i) = Some (show_ty u)" "wf_ty u"
  obtains m where "m < k" "den ts m u v" "\<nexists>w. den ts m (TName s) w"
proof -
  let ?P = "\<lambda>m. den ts m (TName s) v"
  let ?m = "LEAST m. ?P m"
  have "?P ?m" using d by (rule LeastI)
  moreover have "w = u" if "wf_ty w" "show_ty w = show_ty u" for w
    using show_ty_inject [OF that(1) u(2) that(2)] .
  ultimately obtain m' where m': "?m = Suc m'" "den ts m' u v"
    by (elim den_TName) (use s kind u in auto)
  have "?m \<le> k" using d by (rule Least_le)
  moreover have "\<not> ?P m'" using not_less_Least [of m' ?P] m'(1) by simp
  then have "\<nexists>w. den ts m' (TName s) w"
    using denotes_fun [OF den_denotes [OF d]] den_denotes by blast
  ultimately show thesis using that [of m'] m' by simp
qed

lemma resolve_type_n_complete:
  "table_ok ts \<Longrightarrow> wf_ty ty \<Longrightarrow> den ts k ty v \<Longrightarrow> unblocked ts k \<Longrightarrow>
     fuel_for ts (length (show_ty ty)) < n \<Longrightarrow>
     \<exists>us. resolve_type_n n ts (show_ty ty) at = Inr (show_ty v, us)"
proof (induction n arbitrary: ts ty at k v)
  case 0
  then show ?case by simp
next
  case (Suc n)
  have part: "\<exists>us. resolve_type_n n us0 (show_ty a) at = Inr (show_ty w, us)"
    if "evolves ts us0" "table_ok us0" "map resolving us0 = map resolving ts" "wf_ty a" "den ts k a w"
      "length (show_ty a) < length (show_ty ty)" for us0 a w
    by (rule Suc.IH [OF that(2,4)])
      (use that evolves_den [OF that(1)] unblocked_evolves [OF that(1,3)] Suc.prems(4,5)
         fuel_for_evolves [OF that(1), of "length (show_ty a)"] in \<open>auto simp: fuel_for_def\<close>)
  have binary: "\<exists>x us ys. resolve_type_n n ts (show_ty a) at = Inr (show_ty w, us) \<and>
      resolve_type_n n us (show_ty b) at = Inr (show_ty x, ys)
      \<and> x = w'" if ab: "wf_ty a" "wf_ty b" "den ts k a w" "den ts k b w'"
      "length (show_ty a) < length (show_ty ty)" "length (show_ty b) < length (show_ty ty)" for a b w w'
  proof -
    obtain us where us: "resolve_type_n n ts (show_ty a) at = Inr (show_ty w, us)"
      using part [OF evolves_refl Suc.prems(1) refl ab(1,3,5)] by blast
    note res = resolver_okD [OF resolve_type_n_ok Suc.prems(1) ab(1) us]
    show ?thesis using part [OF res(1,2,4) ab(2,4,6)] us by blast
  qed
  show ?case
  proof (cases ty)
    case (TName s)
    then have nm: "name_ok s" and d: "den ts k (TName s) v" using Suc.prems by auto
    show ?thesis
    proof (cases "s \<in> set base_types \<or> s = ''DYN''")
      case True
      then have "v = TName (if s = ''DYN'' then ''OBJ'' else s)"
        using denotes_base [of s ts v] denotes_dyn [of ts v] den_denotes [OF d] dyn_not_base by auto
      then show ?thesis
        using True TName dyn_not_base by (auto simp: resolve_step_name [OF nm])
    next
      case False
      then obtain i where i: "type_index ts s = Some i" using d by (auto elim: den_TName)
      have len: "i < length ts" using type_index_Some [OF i] by simp
      have run: "resolve_type_n (Suc n) ts (show_ty ty) at = resolve_alias (resolve_type_n n) ts i at"
        using False i TName by (simp add: resolve_step_name [OF nm])
      show ?thesis
      proof (cases "ti_kind (ts ! i)")
        case TYPEINFO_STRUCT
        then have "v = TName s" using denotes_name_unique(1) [OF den_denotes [OF d]] False i by blast
        then show ?thesis
          using TYPEINFO_STRUCT type_index_Some [OF i] unfolding run by (simp add: resolve_alias_def)
      next
        case TYPEINFO_ALIAS
        obtain u where u: "wf_ty u" "target_raw (ts ! i) = Some (show_ty u)"
          "\<And>t. target (ts ! i) = Some t \<Longrightarrow> \<exists>v. denotes ts u v \<and> t = show_ty v"
          using Suc.prems(1) len TYPEINFO_ALIAS by (force simp: table_ok_def info_ok_def)
        obtain m where m: "m < k" "den ts m u v" "\<nexists>w. den ts m (TName s) w"
          by (rule den_expand_least [OF d _ _ i TYPEINFO_ALIAS u(2,1)]) (use False in auto)
        show ?thesis
        proof (cases "target (ts ! i)")
          case (Some t)
          then have "t = show_ty v"
            using u(3) denotes_fun den_denotes [OF m(2)] by blast
          then show ?thesis using Some TYPEINFO_ALIAS unfolding run by (simp add: resolve_alias_def)
        next
          case None
          have free: "\<not> resolving (ts ! i)" using Suc.prems(4) i d by (auto simp: unblocked_def)
          let ?us = "ts[i := (ts ! i)\<lparr>resolving := True\<rparr>]"
          show ?thesis
          proof (rule resolve_alias_state [OF Suc.prems(1) len TYPEINFO_ALIAS None free])
            fix u' assume u': "target_raw (ts ! i) = Some (show_ty u')" "wf_ty u'" "table_ok ?us" "evolves ts ?us"
              "\<And>k. fuel_for ?us (length (show_ty u')) < fuel_for ts k"
              "\<And>r at. resolve_alias r ts i at = rbind (r ?us (show_ty u') (ti_node (ts ! i)))
               (\<lambda>(t, vs). Inr (t, vs[i := (vs ! i)\<lparr>target := Some t, resolving := False\<rparr>]))"
            have eq: "u' = u" using u u'(1,2) show_ty_inject by auto
            have "unblocked ?us m"
              unfolding unblocked_def evolves_den [OF u'(4)] evolves_index [OF u'(4)]
            proof (intro allI impI)
              fix s' j assume j: "type_index ts s' = Some j" "resolving (?us ! j)"
              show "\<nexists>w. den ts m (TName s') w"
              proof (cases "j = i")
                case True
                then have "s' = s" using type_index_Some [OF i] type_index_Some [OF j(1)] by simp
                then show ?thesis using m(3) by simp
              next
                case False
                then have "\<nexists>w. den ts k (TName s') w" using Suc.prems(4) j by (auto simp: unblocked_def)
                then show ?thesis using den_mono m(1) less_imp_le by blast
              qed
            qed
            moreover have "den ?us m u v" using m(2) evolves_den [OF u'(4)] by simp
            ultimately have "\<exists>vs. resolve_type_n n ?us (show_ty u) (ti_node (ts ! i)) = Inr (show_ty v, vs)"
              using Suc.IH [OF u'(3) u(1), of m v "ti_node (ts ! i)"] u'(5) [of "length (show_ty ty)"] Suc.prems(5) eq
              by simp
            then show ?thesis unfolding run u'(6) eq by auto
          qed
        qed
      qed
    qed
  next
    case (TArr a)
    then obtain w where "den ts k a w" "v = TArr w" using Suc.prems(3) by (auto elim: den_TArr)
    then show ?thesis
      using part [OF evolves_refl Suc.prems(1) refl, of a w] Suc.prems(2) TArr length_constructed
      by (auto simp: resolve_step_show(1) [of a a])
  next
    case (TRef a)
    then obtain w where "den ts k a w" "v = TRef w" using Suc.prems(3) by (auto elim: den_TRef)
    then show ?thesis
      using part [OF evolves_refl Suc.prems(1) refl, of a w] Suc.prems(2) TRef length_constructed
      by (auto simp: resolve_step_show(2) [of a a])
  next
    case (TTsk a)
    then obtain w where "den ts k a w" "v = TTsk w" using Suc.prems(3) by (auto elim: den_TTsk)
    then show ?thesis
      using part [OF evolves_refl Suc.prems(1) refl, of a w] Suc.prems(2) TTsk length_constructed
      by (auto simp: resolve_step_show(3) [of a a])
  next
    case (TMap a b)
    then obtain w x where "den ts k a w" "den ts k b x" "v = TMap w x" using Suc.prems(3) by (auto elim: den_TMap)
    then show ?thesis
      using binary [of a b w x] Suc.prems(2) TMap length_constructed
      by (auto simp: resolve_step_show(4) [of a b])
  next
    case (TFn a b)
    then obtain w x where "den ts k a w" "den ts k b x" "v = TFn w x" using Suc.prems(3) by (auto elim: den_TFn)
    then show ?thesis
      using binary [of a b w x] Suc.prems(2) TFn length_constructed
      by (auto simp: resolve_step_show(5) [of a b])
  qed
qed

lemma resolve_type_outcome:
  assumes ok: "table_ok ts" and wf: "wf_ty ty" and idle: "\<forall>info \<in> set ts. \<not> resolving info"
  shows "case resolve_type ts (show_ty ty) at of
           Inl e \<Rightarrow> is_diagnostic e \<and> (\<nexists>v. denotes ts ty v)
         | Inr (t, us) \<Rightarrow> (\<exists>v. denotes ts ty v \<and> canonical ts v \<and> t = show_ty v) \<and> table_ok us"
proof (cases "resolve_type ts (show_ty ty) at")
  case (Inl e)
  have fuel: "fuel_for ts (length (show_ty ty)) < resolve_fuel ts (show_ty ty)"
    by (simp add: fuel_for_def resolve_fuel_def)
  have "is_diagnostic e"
    using resolve_type_n_error [OF ok wf fuel] Inl by (simp add: resolve_type_def)
  moreover have False if d: "denotes ts ty v" for v
  proof -
    obtain k where "den ts k ty v" using denotes_den [OF d] by blast
    moreover have "unblocked ts k"
      using idle type_index_Some unfolding unblocked_def by (metis nth_mem)
    ultimately obtain us where "resolve_type ts (show_ty ty) at = Inr (show_ty v, us)"
      using resolve_type_n_complete [OF ok wf _ _ fuel, of k v at] by (auto simp: resolve_type_def)
    then show False using Inl by simp
  qed
  ultimately show ?thesis using Inl by auto
next
  case (Inr x)
  obtain t us where x: "x = (t, us)" by (cases x)
  have "resolve_type_n (resolve_fuel ts (show_ty ty)) ts (show_ty ty) at = Inr (t, us)"
    using Inr x by (simp add: resolve_type_def)
  note res = resolver_okD [OF resolve_type_n_ok ok wf this]
  then obtain v where v: "denotes ts ty v" "t = show_ty v" by blast
  with denotes_canonical [OF v(1)] res(2) Inr x show ?thesis by auto
qed

section \<open>The table after resolution\<close>

text \<open>What resolution changes in an entry: its target, once, and the mark it sets while it runs.\<close>

definition resolved_more :: "type_info \<Rightarrow> type_info \<Rightarrow> bool" where
  "resolved_more a b \<longleftrightarrow>
     b = a\<lparr>target := target b, resolving := resolving b\<rparr> \<and> (target a \<noteq> None \<longrightarrow> target b \<noteq> None)"

lemma resolved_more_refl [simp]: "resolved_more a a"
  by (simp add: resolved_more_def)

lemma resolved_more_trans: "resolved_more a b \<Longrightarrow> resolved_more b c \<Longrightarrow> resolved_more a c"
  by (cases a; cases b; cases c) (auto simp: resolved_more_def)

definition grows :: "type_table \<Rightarrow> type_table \<Rightarrow> bool" where
  "grows = list_all2 resolved_more"

lemma grows_refl [simp]: "grows ts ts"
  by (simp add: grows_def list_all2_same)

lemma grows_trans: "grows ts us \<Longrightarrow> grows us vs \<Longrightarrow> grows ts vs"
  unfolding grows_def list_all2_conv_all_nth using resolved_more_trans by metis

lemma grows_update: "grows ts us \<Longrightarrow> i < length us \<Longrightarrow> resolved_more (us ! i) x \<Longrightarrow> grows ts (us[i := x])"
  using resolved_more_trans by (fastforce simp: grows_def list_all2_conv_all_nth nth_list_update)

lemma grows_nth:
  "grows ts us \<Longrightarrow> i < length ts \<Longrightarrow>
     n_fields (ti_node (us ! i)) = n_fields (ti_node (ts ! i)) \<and> (target (ts ! i) \<noteq> None \<longrightarrow> target (us ! i) \<noteq> None)"
  unfolding grows_def list_all2_conv_all_nth resolved_more_def by (metis type_info.select_convs(3) type_info.surjective type_info.update_convs)

definition keeps_nodes :: "(type_table \<Rightarrow> string \<Rightarrow> node \<Rightarrow> (string \<times> type_table) result) \<Rightarrow> bool" where
  "keeps_nodes r \<longleftrightarrow> (\<forall>ts raw at t us. r ts raw at = Inr (t, us) \<longrightarrow> grows ts us)"

lemma keeps_nodesD: "keeps_nodes r \<Longrightarrow> r ts raw at = Inr (t, us) \<Longrightarrow> grows ts us"
  by (auto simp: keeps_nodes_def)

lemma resolve_alias_grows:
  assumes r: "keeps_nodes r" and i: "i < length ts" and run: "resolve_alias r ts i at = Inr (t, us)"
  shows "grows ts us"
proof (cases "us = ts")
  case False
  then obtain raw vs where vs: "r (ts[i := (ts ! i)\<lparr>resolving := True\<rparr>]) raw (ti_node (ts ! i)) = Inr (t, vs)"
    and us: "us = vs[i := (vs ! i)\<lparr>target := Some t, resolving := False\<rparr>]"
    using run by (auto simp: resolve_alias_def Let_def die_node_at_def rbind_eq_Inr
        split: if_splits option.splits)
  have 1: "grows ts (ts[i := (ts ! i)\<lparr>resolving := True\<rparr>])"
    by (rule grows_update [OF grows_refl i]) (simp add: resolved_more_def)
  have 2: "grows ts vs" by (rule grows_trans [OF 1 keeps_nodesD [OF r vs]])
  then have "i < length vs" using i by (simp add: grows_def list_all2_lengthD)
  then show ?thesis unfolding us by (intro grows_update [OF 2]) (auto simp: resolved_more_def)
qed simp

lemma resolve_type_n_grows: "keeps_nodes (resolve_type_n n)"
proof (induction n)
  case 0
  then show ?case by (simp add: keeps_nodes_def)
next
  case (Suc n)
  note one = keeps_nodesD [OF Suc]
  show ?case
    unfolding keeps_nodes_def
  proof (intro allI impI)
    fix ts raw at t us
    assume "resolve_type_n (Suc n) ts raw at = Inr (t, us)"
    then have "resolve_type_step (resolve_type_n n) ts raw at = Inr (t, us)" by simp
    then show "grows ts us"
      unfolding resolve_type_step_def
      by (auto simp: rbind_eq_Inr die_node_at_def split: if_splits option.splits prod.splits
          dest!: one dest: grows_trans resolve_alias_grows [OF Suc] type_index_Some)
  qed
qed

lemma resolve_type_grows: "resolve_type ts raw at = Inr (t, us) \<Longrightarrow> grows ts us"
  using keeps_nodesD [OF resolve_type_n_grows] by (simp add: resolve_type_def)

text \<open>\<open>same_decls\<close>: the declarations agree, so types have the same meaning.\<close>

definition same_decls :: "type_table \<Rightarrow> type_table \<Rightarrow> bool" where
  "same_decls = list_all2 same_decl"

lemma same_decls_nth: "same_decls ts us \<Longrightarrow> i < length ts \<Longrightarrow> same_decl (ts ! i) (us ! i)"
  by (auto simp: same_decls_def list_all2_conv_all_nth)

lemma same_decls_sym: "same_decls ts us \<Longrightarrow> same_decls us ts"
  by (auto simp: same_decls_def list_all2_conv_all_nth same_decl_def)

lemma same_decls_trans: "same_decls ts us \<Longrightarrow> same_decls us vs \<Longrightarrow> same_decls ts vs"
  by (auto simp: same_decls_def list_all2_conv_all_nth same_decl_def)

lemma evolves_same_decls: "evolves ts us \<Longrightarrow> same_decls ts us"
  by (auto simp: same_decls_def evolves_def list_all2_conv_all_nth)

lemma same_decls_update: "i < length ts \<Longrightarrow> same_decl (ts ! i) x \<Longrightarrow> same_decls ts (ts[i := x])"
  by (auto simp: same_decls_def list_all2_conv_all_nth nth_list_update same_decl_def)

lemma same_decls_names: "same_decls ts us \<Longrightarrow> map ti_name ts = map ti_name us"
  by (auto simp: same_decls_def list_all2_conv_all_nth same_decl_def intro: nth_equalityI)

lemma same_decls_denotes: "same_decls ts us \<Longrightarrow> denotes us a b \<longleftrightarrow> denotes ts a b"
proof -
  have one: "denotes us a b" if d: "denotes ts a b" and eq: "same_decls ts us" for ts us a b
  proof -
    obtain k where "den ts k a b" using denotes_den [OF d] by blast
    from den_denotes [OF den_same [OF this same_decls_names [OF eq] same_decls_nth [OF eq]]]
    show ?thesis .
  qed
  then show "same_decls ts us \<Longrightarrow> denotes us a b \<longleftrightarrow> denotes ts a b"
    using same_decls_sym by blast
qed

lemma same_decls_struct:
  assumes "same_decls ts us"
  shows "is_struct_type us s = is_struct_type ts s"
proof -
  have "type_index us = type_index ts"
    using type_index_cong [OF same_decls_names [OF assms]] by simp
  then show ?thesis
    using same_decls_nth [OF assms] type_index_Some [of ts s]
    by (auto simp: is_struct_type_def type_find_def same_decl_def split: option.splits)
qed

lemma same_decls_canonical: "same_decls ts us \<Longrightarrow> canonical us ty \<longleftrightarrow> canonical ts ty"
  by (induction ty) (simp_all add: same_decls_struct)

text \<open>
  A field with its type resolved, an entry with its types resolved, and the invariant of the
  loop over the entries.
\<close>

definition field_done :: "type_table \<Rightarrow> node \<Rightarrow> bool" where
  "field_done ts f \<longleftrightarrow>
     (\<exists>v. wf_ty v \<and> canonical ts v \<and> declared_type (attrs f) = Some (show_ty v) \<and>
        checked_type (attrs f) = Some (show_ty v))"

definition entry_done :: "type_table \<Rightarrow> type_info \<Rightarrow> bool" where
  "entry_done ts info \<longleftrightarrow>
     (case ti_kind info of
        TYPEINFO_ALIAS \<Rightarrow> (\<exists>u v. target_raw info = Some (show_ty u) \<and> denotes ts u v \<and> canonical ts v \<and>
          target info = Some (show_ty v))
      | TYPEINFO_STRUCT \<Rightarrow> list_all (field_done ts) (n_fields (ti_node info)))"

definition fields_typed :: "node list \<Rightarrow> bool" where
  "fields_typed = list_all (\<lambda>f. \<exists>s. declared_type (attrs f) = Some s \<and> type_text_ok s)"

definition entry_typed :: "type_info \<Rightarrow> bool" where
  "entry_typed info \<longleftrightarrow> (ti_kind info = TYPEINFO_STRUCT \<longrightarrow> fields_typed (n_fields (ti_node info)))"

definition ready_table :: "type_table \<Rightarrow> bool" where
  "ready_table ts \<longleftrightarrow> table_ok ts \<and> (\<forall>info \<in> set ts. entry_typed info \<and> \<not> resolving info)"

lemma field_done_decls: "same_decls ts us \<Longrightarrow> field_done us f \<longleftrightarrow> field_done ts f"
  by (simp add: field_done_def same_decls_canonical)

lemma entry_done_decls: "same_decls ts us \<Longrightarrow> entry_done us info \<longleftrightarrow> entry_done ts info"
proof -
  assume eq: "same_decls ts us"
  then have "field_done us = field_done ts" by (simp add: fun_eq_iff field_done_decls)
  then show ?thesis
    by (cases "ti_kind info") (simp_all add: entry_done_def same_decls_denotes [OF eq] same_decls_canonical [OF eq])
qed

lemma field_done_typed: "list_all (field_done ts) fs \<Longrightarrow> fields_typed fs"
  unfolding list_all_iff fields_typed_def field_done_def type_text_ok_def by blast

text \<open>Growing keeps finished entries finished.\<close>

lemma entry_done_grows:
  assumes "evolves ts us" "grows ts us" "table_ok us" "i < length ts" "entry_done ts (ts ! i)"
  shows "entry_done us (us ! i)"
proof -
  note dec = evolves_same_decls [OF assms(1)]
  have same: "same_decl (ts ! i) (us ! i)" by (rule same_decls_nth [OF dec assms(4)])
  have "info_ok us (us ! i)"
    using assms(3,4) evolves_length [OF assms(1)] by (simp add: table_ok_def)
  then have "entry_done us (us ! i)" if "ti_kind (us ! i) = TYPEINFO_ALIAS"
    using that same grows_nth [OF assms(2,4)] assms(5) denotes_canonical [of us]
    unfolding entry_done_def info_ok_def same_decl_def by fastforce
  moreover have "entry_done us (us ! i)" if "ti_kind (us ! i) = TYPEINFO_STRUCT"
    using that same grows_nth [OF assms(2,4)] assms(5) field_done_decls [OF dec]
    by (simp add: entry_done_def same_decl_def cong: list.pred_cong)
  ultimately show ?thesis by (cases "ti_kind (us ! i)") auto
qed

lemma ready_grows:
  assumes "ready_table ts" "evolves ts us" "grows ts us" "table_ok us" "map resolving us = map resolving ts"
  shows "ready_table us"
proof -
  have "entry_typed (us ! i) \<and> \<not> resolving (us ! i)" if i: "i < length us" for i
  proof -
    have len: "i < length ts" using i evolves_length [OF assms(2)] by simp
    have "resolving (us ! i) = resolving (ts ! i)"
      using arg_cong [OF assms(5), of "\<lambda>xs. xs ! i"] i len by simp
    then show ?thesis
      using assms(1) len grows_nth [OF assms(3) len] evolves_nth [OF assms(2) len]
      by (auto simp: ready_table_def entry_typed_def same_decl_def)
  qed
  then show ?thesis
    using assms(4) by (auto simp: ready_table_def in_set_conv_nth)
qed

section \<open>Resolving the entries\<close>

lemma resolve_type_ready:
  assumes "ready_table ts" "wf_ty ty" "resolve_type ts (show_ty ty) at = Inr (t, us)"
  shows "ready_table us" "evolves ts us" "grows ts us"
    "\<exists>v. wf_ty v \<and> denotes ts ty v \<and> canonical ts v \<and> t = show_ty v"
proof -
  have ok: "table_ok ts" using assms(1) by (simp add: ready_table_def)
  note res = resolver_okD [OF resolve_type_n_ok ok assms(2) assms(3) [unfolded resolve_type_def]]
  show "evolves ts us" "grows ts us" using res(1) resolve_type_grows [OF assms(3)] by auto
  then show "ready_table us" using ready_grows assms(1) res by blast
  show "\<exists>v. wf_ty v \<and> denotes ts ty v \<and> canonical ts v \<and> t = show_ty v"
    using res(3) denotes_canonical denotes_wf assms(2) by blast
qed

lemma resolve_type_ready_error:
  assumes "ready_table ts" "wf_ty ty" "resolve_type ts (show_ty ty) at = Inl e"
  shows "is_diagnostic e"
  using resolve_type_outcome [of ts ty at] assms by (auto simp: ready_table_def)

lemma resolve_fields_ok:
  "ready_table ts \<Longrightarrow> fields_typed fs \<Longrightarrow>
     case resolve_fields fs ts of
       Inl e \<Rightarrow> is_diagnostic e
     | Inr (fs', us) \<Rightarrow> list_all (field_done ts) fs' \<and> ready_table us \<and> evolves ts us \<and> grows ts us"
proof (induction fs arbitrary: ts)
  case Nil
  then show ?case by simp
next
  case (Cons f fs)
  then obtain ty where ty: "wf_ty ty" "declared_type (attrs f) = Some (show_ty ty)"
    by (auto simp: fields_typed_def type_text_ok_def)
  show ?case
  proof (cases "resolve_type ts (show_ty ty) f")
    case (Inl e)
    then show ?thesis
      using resolve_type_ready_error [OF Cons.prems(1) ty(1)] ty by (simp add: resolve_field_def)
  next
    case (Inr x)
    obtain t us where x: "x = (t, us)" by (cases x)
    note res = resolve_type_ready [OF Cons.prems(1) ty(1) Inr [unfolded x]]
    let ?f = "set_type t (with_type t f)"
    have run: "resolve_field f ts = Inr (?f, us)" using Inr x ty by (simp add: resolve_field_def)
    have f: "field_done ts ?f"
      using res(4) by (auto simp: field_done_def set_type_def with_type_def)
    have "fields_typed fs" using Cons.prems(2) by (simp add: fields_typed_def)
    note ih = Cons.IH [OF res(1) this]
    show ?thesis
    proof (cases "resolve_fields fs us")
      case Inl
      then show ?thesis using ih run by simp
    next
      case (Inr y)
      obtain fs' vs where y: "y = (fs', vs)" by (cases y)
      have "field_done us = field_done ts"
        using field_done_decls [OF evolves_same_decls [OF res(2)]] by (simp add: fun_eq_iff)
      then show ?thesis
        using ih run f Inr y evolves_trans [OF res(2)] grows_trans [OF res(3)] by simp
    qed
  qed
qed

lemma with_fields_sel [simp]: "n_fields (with_fields fs n) = fs" "attrs (with_fields fs n) = attrs n"
  by (simp_all add: with_fields_def)

lemma set_type_fields [simp]: "n_fields (set_type t n) = n_fields n"
  by (simp add: set_type_def)

lemma ready_info: "ready_table ts \<Longrightarrow> i < length ts \<Longrightarrow>
    info_ok ts (ts ! i) \<and> entry_typed (ts ! i) \<and> \<not> resolving (ts ! i)"
  by (simp add: ready_table_def table_ok_def)

lemma ready_update:
  assumes ts: "ready_table ts" and i: "i < length ts" and x: "same_decl (ts ! i) x" "is_live x \<Longrightarrow> is_live (ts ! i)"
    "info_ok ts x" "entry_typed x" "\<not> resolving x"
  shows "ready_table (ts[i := x])"
proof -
  have "table_ok (ts[i := x])"
    by (rule table_ok_update [OF _ i x(3) evolves_update [OF i x(1,2)]]) (use ts in \<open>auto simp: ready_table_def\<close>)
  then show ?thesis
    using ts x(4,5) set_update_subset_insert [of ts i x] by (auto simp: ready_table_def)
qed

text \<open>One entry: the ones before it stay resolved.\<close>

lemma entries_update:
  assumes fin: "\<And>j. j < i \<Longrightarrow> entry_done ts (ts ! j)" and i: "i < length ts" and x: "same_decl (ts ! i) x" "entry_done ts x"
  shows "\<forall>j < Suc i. entry_done (ts[i := x]) (ts[i := x] ! j)"
  unfolding entry_done_decls [OF same_decls_update [OF i x(1)]]
  using fin i x(2) by (auto simp: less_Suc_eq)

lemma resolve_entry_ok:
  assumes ts: "ready_table ts" and i: "i < length ts" and fin: "\<And>j. j < i \<Longrightarrow> entry_done ts (ts ! j)"
  shows "case resolve_entry i ts of
           Inl e \<Rightarrow> is_diagnostic e
         | Inr us \<Rightarrow> ready_table us \<and> same_decls ts us \<and> (\<forall>j < Suc i. entry_done us (us ! j))"
proof (cases "ti_kind (ts ! i)")
  case TYPEINFO_ALIAS
  obtain u where u: "wf_ty u" "target_raw (ts ! i) = Some (show_ty u)"
    using ready_info [OF ts i] TYPEINFO_ALIAS by (auto simp: info_ok_def)
  show ?thesis
  proof (cases "resolve_type ts (show_ty u) (ti_node (ts ! i))")
    case (Inl e)
    then show ?thesis
      using resolve_type_ready_error [OF ts u(1)] TYPEINFO_ALIAS u(2) by (simp add: resolve_entry_def)
  next
    case (Inr y)
    obtain t us where y: "y = (t, us)" by (cases y)
    note res = resolve_type_ready [OF ts u(1) Inr [unfolded y]]
    have len: "i < length us" and same: "same_decl (ts ! i) (us ! i)"
      using i evolves_length [OF res(2)] evolves_nth [OF res(2) i] by auto
    obtain v where v: "denotes us u v" "canonical us v" "t = show_ty v"
      using res(4) evolves_denotes [OF res(2)] same_decls_canonical [OF evolves_same_decls [OF res(2)]] by blast
    let ?x = "(us ! i)\<lparr>target := Some t, ti_node := set_type t (ti_node (us ! i))\<rparr>"
    have x: "same_decl (us ! i) ?x" "\<not> is_live ?x" by (auto simp: same_decl_def is_live_def)
    have "entry_done us ?x"
      using v same TYPEINFO_ALIAS u(2)
      by (simp add: entry_done_def same_decl_def) metis
    then have "\<forall>j < Suc i. entry_done (us[i := ?x]) (us[i := ?x] ! j)"
      using entry_done_grows [OF res(2,3)] res(1) fin i
      by (intro entries_update [OF _ len x(1)]) (auto simp: ready_table_def)
    moreover have "ready_table (us[i := ?x])"
      by (rule ready_update [OF res(1) len x(1)])
        (use x(2) ready_info [OF res(1) len] u v same in \<open>auto simp: entry_typed_def info_ok_def same_decl_def\<close>)
    moreover have "same_decls ts (us[i := ?x])"
      using same_decls_trans [OF evolves_same_decls [OF res(2)] same_decls_update [OF len x(1)]] .
    ultimately show ?thesis
      using Inr y TYPEINFO_ALIAS u(2) by (simp add: resolve_entry_def)
  qed
next
  case TYPEINFO_STRUCT
  have "fields_typed (n_fields (ti_node (ts ! i)))"
    using ready_info [OF ts i] TYPEINFO_STRUCT by (simp add: entry_typed_def)
  note ok = resolve_fields_ok [OF ts this]
  show ?thesis
  proof (cases "resolve_fields (n_fields (ti_node (ts ! i))) ts")
    case (Inl e)
    then show ?thesis using ok TYPEINFO_STRUCT by (simp add: resolve_entry_def)
  next
    case (Inr y)
    obtain fs us where y: "y = (fs, us)" by (cases y)
    have fs: "list_all (field_done ts) fs" and us: "ready_table us" "evolves ts us" "grows ts us"
      using ok Inr y by auto
    have len: "i < length us" and same: "same_decl (ts ! i) (us ! i)"
      using i evolves_length [OF us(2)] evolves_nth [OF us(2) i] by auto
    let ?x = "(us ! i)\<lparr>ti_node := with_fields fs (set_type (ti_name (ts ! i)) (ti_node (us ! i)))\<rparr>"
    have kind: "ti_kind (us ! i) = TYPEINFO_STRUCT" using same TYPEINFO_STRUCT by (simp add: same_decl_def)
    have x: "same_decl (us ! i) ?x" "\<not> is_live ?x" using kind by (auto simp: same_decl_def is_live_def)
    have "field_done us = field_done ts"
      using field_done_decls [OF evolves_same_decls [OF us(2)]] by (simp add: fun_eq_iff)
    then have "entry_done us ?x" using fs kind by (simp add: entry_done_def)
    then have "\<forall>j < Suc i. entry_done (us[i := ?x]) (us[i := ?x] ! j)"
      using entry_done_grows [OF us(2,3)] us(1) fin i
      by (intro entries_update [OF _ len x(1)]) (auto simp: ready_table_def)
    moreover have "ready_table (us[i := ?x])"
      by (rule ready_update [OF us(1) len x(1)])
        (use x(2) ready_info [OF us(1) len] kind field_done_typed [OF fs] in \<open>auto simp: entry_typed_def info_ok_def\<close>)
    moreover have "same_decls ts (us[i := ?x])"
      using same_decls_trans [OF evolves_same_decls [OF us(2)] same_decls_update [OF len x(1)]] .
    ultimately show ?thesis
      using Inr y TYPEINFO_STRUCT by (simp add: resolve_entry_def)
  qed
qed

lemma resolve_entries_ok:
  "ready_table ts \<Longrightarrow> i + k = length ts \<Longrightarrow> (\<And>j. j < i \<Longrightarrow> entry_done ts (ts ! j)) \<Longrightarrow>
     case resolve_entries [i..<i + k] ts of
       Inl e \<Rightarrow> is_diagnostic e
     | Inr us \<Rightarrow> same_decls ts us \<and> list_all (entry_done us) us \<and> ready_table us"
proof (induction k arbitrary: i ts)
  case 0
  then show ?case
    by (auto simp: list_all_length same_decls_def list_all2_same same_decl_def)
next
  case (Suc k)
  have i: "i < length ts" and upt: "[i..<i + Suc k] = i # [Suc i..<Suc i + k]"
    using Suc.prems(2) by (auto simp: upt_conv_Cons)
  note ok = resolve_entry_ok [OF Suc.prems(1) i Suc.prems(3)]
  show ?case
  proof (cases "resolve_entry i ts")
    case (Inl e)
    then show ?thesis using ok unfolding upt by simp
  next
    case (Inr us)
    then have us: "ready_table us" "same_decls ts us" "\<And>j. j < Suc i \<Longrightarrow> entry_done us (us ! j)"
      using ok by auto
    have "Suc i + k = length us" using Suc.prems(2) us(2) by (simp add: same_decls_def list_all2_lengthD)
    from Suc.IH [OF us(1) this us(3)] show ?thesis
      using Inr same_decls_trans [OF us(2)] unfolding upt by (auto split: sum.splits simp del: upt_Suc)
  qed
qed

section \<open>The table of a program\<close>

definition fresh_info :: "type_info \<Rightarrow> bool" where
  "fresh_info info \<longleftrightarrow> \<not> resolving info \<and> target info = None \<and> entry_typed info \<and>
     (ti_kind info = TYPEINFO_ALIAS \<longrightarrow> (\<exists>s. target_raw info = Some s \<and> type_text_ok s))"

definition fresh_table :: "type_table \<Rightarrow> bool" where
  "fresh_table ts \<longleftrightarrow> list_all fresh_info ts \<and> distinct (map ti_name ts) \<and>
     list_all (\<lambda>info. \<not> is_builtin_type_name (ti_name info)) ts"

definition fresh_result :: "type_table result \<Rightarrow> bool" where
  "fresh_result r \<longleftrightarrow> (case r of Inl e \<Rightarrow> is_diagnostic e | Inr ts \<Rightarrow> fresh_table ts)"

lemma fresh_result_simps [simp]: "fresh_result (Inl e) = is_diagnostic e" "fresh_result (Inr ts) = fresh_table ts"
  by (simp_all add: fresh_result_def)

lemma fresh_result_bind: "fresh_result r \<Longrightarrow> (\<And>ts. fresh_table ts \<Longrightarrow> fresh_result (f ts)) \<Longrightarrow> fresh_result (rbind r f)"
  by (cases r) auto

lemma fresh_ready: "fresh_table ts \<Longrightarrow> ready_table ts"
  by (auto simp: fresh_table_def ready_table_def table_ok_def fresh_info_def info_ok_def list_all_iff
      type_text_ok_def)

lemma type_push_fresh: "fresh_table ts \<Longrightarrow> fresh_info info \<Longrightarrow> fresh_result (type_push ts info)"
  by (auto simp: type_push_def fresh_table_def type_find_None die_node_at_def)

definition declares :: "node \<Rightarrow> bool" where
  "declares d \<longleftrightarrow> wf_node d \<and> is_type_decl d"

lemma declares_info:
  assumes "declares d"
  shows "fresh_info (type_info_of s d)"
proof (cases "n_kind d = NK_TYPE_ALIAS")
  case True
  then have "\<exists>s. declared_type (attrs d) = Some s \<and> type_text_ok s"
    using wf_nodeD(1) [of d] assms by (auto simp: declares_def shape_def)
  with True show ?thesis
    by (auto simp: fresh_info_def type_info_of_def entry_typed_def)
next
  case False
  then have kind: "n_kind d = NK_TYPE_STRUCT" and d: "shape d" "kids_ok wf_node d"
    using assms wf_nodeD [of d] by (auto simp: declares_def is_type_decl_def)
  have "\<exists>s. declared_type (attrs f) = Some s \<and> type_text_ok s" if f: "f \<in> set (n_fields d)" for f
  proof -
    have "wf_node f" using d(2) f by (simp add: kids_ok_def list_all_iff)
    then have "pred_option type_text_ok (declared_type (attrs f))" using wf_nodeD(1) by (simp add: shape_def)
    moreover have "declared_type (attrs f) \<noteq> None"
      using d(1) kind f by (auto simp: shape_def list_all_iff)
    ultimately show ?thesis by auto
  qed
  then have "fields_typed (n_fields d)" by (simp add: fields_typed_def list_all_iff)
  with kind show ?thesis by (simp add: fresh_info_def type_info_of_def entry_typed_def)
qed

lemma declares_named: "declares d \<Longrightarrow> \<exists>s. n_name (attrs d) = Some s"
  using wf_nodeD(1) [of d] by (auto simp: declares_def is_type_decl_def shape_def)

lemma declares_order: "declares d \<Longrightarrow> list_all declares (decl_order d)"
proof (induction d rule: decl_order.induct)
  case (1 d)
  have "declares x" if "x \<in> set (n_type_decls d)" for x
    using 1(2) wf_nodeD(2) [of d] that by (auto simp: declares_def kids_ok_def list_all_iff)
  then show ?case
    using 1 by (auto simp: decl_order.simps [of d] list_all_iff)
qed

lemma push_decls_fresh: "list_all declares ds \<Longrightarrow> fresh_table ts \<Longrightarrow> fresh_result (push_decls ds ts)"
proof (induction ds arbitrary: ts)
  case (Cons d ds)
  obtain s where "n_name (attrs d) = Some s" using Cons.prems(1) declares_named by auto
  then have "fresh_result (push_decl d ts)"
    using type_push_fresh [OF Cons.prems(2) declares_info] Cons.prems(1) by (simp add: push_decl_def)
  then show ?case
    using Cons by (auto intro: fresh_result_bind)
qed simp

lemma push_type_decls_fresh: "list_all declares ds \<Longrightarrow> fresh_table ts \<Longrightarrow> fresh_result (push_type_decls ds ts)"
  by (induction ds arbitrary: ts)
    (auto simp: push_type_decl_recursive_def intro!: fresh_result_bind push_decls_fresh declares_order)

lemma ensure_builtin_fresh:
  assumes "fields_typed fs" "fresh_table ts"
  shows "fresh_result (ensure_builtin nm fs ts)"
proof -
  have "n_fields (fold add_fields fs n) = n_fields n @ fs" "n_kind (fold add_fields fs n) = n_kind n" for n
    by (induction fs arbitrary: n) auto
  then have "fresh_info (type_info_of nm (builtin_struct nm fs))"
    using assms(1) by (simp add: fresh_info_def type_info_of_def entry_typed_def builtin_struct_def synthetic_def with_defs)
  then show ?thesis
    using type_push_fresh [OF assms(2)] assms(2) by (simp add: ensure_builtin_def)
qed

lemma builtin_field_typed:
  "type_text_ok s \<Longrightarrow> fields_typed (builtin_field s nm x # fs) \<longleftrightarrow> fields_typed fs"
  by (simp add: fields_typed_def builtin_field_def with_defs)

lemma fields_typed_Nil: "fields_typed []"
  by (simp add: fields_typed_def)

lemma builtin_types_ok:
  "type_text_ok ''INT''" "type_text_ok ''STR''" "type_text_ok ''BOL''" "type_text_ok ''MAP[STR,STR]''"
proof -
  show "type_text_ok ''INT''" "type_text_ok ''STR''" "type_text_ok ''BOL''"
    by (auto intro!: type_text_ok_intros simp: name_ok_def word_char_def char_defs)
  then have "type_text_ok (map_type ''STR'' ''STR'')" by (simp add: type_text_ok_intros(5))
  then show "type_text_ok ''MAP[STR,STR]''" by (simp add: type_build_defs)
qed

lemma ensure_builtins_fresh: "fresh_table ts \<Longrightarrow> fresh_result (ensure_builtins ts)"
  unfolding ensure_builtins_def ensure_builtin_httpreq_def ensure_builtin_httpres_def
    ensure_builtin_filestat_def ensure_builtin_procresult_def ensure_builtin_sqldb_def ensure_builtin_sqlexec_def
  by (intro fresh_result_bind ensure_builtin_fresh)
    (simp_all add: builtin_field_typed builtin_types_ok fields_typed_Nil)

lemma build_type_table_correct:
  assumes "wf_node prog"
  shows "case build_type_table prog of
           Inl e \<Rightarrow> is_diagnostic e
         | Inr ts \<Rightarrow> distinct (map ti_name ts) \<and> list_all (entry_done ts) ts \<and> ready_table ts"
proof -
  have "list_all declares (n_type_decls prog)"
    using wf_nodeD(2) [OF assms] by (auto simp: kids_ok_def declares_def list_all_iff)
  then have "fresh_result (push_type_decls (n_type_decls prog) [])"
    by (rule push_type_decls_fresh) (simp add: fresh_table_def)
  then have fresh: "fresh_result (rbind (push_type_decls (n_type_decls prog) []) ensure_builtins)"
    by (rule fresh_result_bind) (rule ensure_builtins_fresh)
  let ?r = "rbind (push_type_decls (n_type_decls prog) []) ensure_builtins"
  have run: "build_type_table prog = rbind ?r (\<lambda>ts. resolve_entries [0..<length ts] ts)"
    by (cases "push_type_decls (n_type_decls prog) []") (simp_all add: build_type_table_def)
  show ?thesis
  proof (cases ?r)
    case (Inl e)
    then show ?thesis using fresh run by simp
  next
    case (Inr ts)
    have ts: "fresh_table ts" using fresh Inr by simp
    then have "distinct (map ti_name ts)" by (simp add: fresh_table_def)
    then show ?thesis
      using resolve_entries_ok [OF fresh_ready [OF ts], of 0 "length ts"] Inr same_decls_names [of ts]
      by (auto simp: run split: sum.splits)
  qed
qed

section \<open>Properties\<close>

text \<open>
  C3: The type resolver is sound, complete and total: on a table whose invariant holds and in which
  no alias is being resolved, a type text resolves to the canonical type it denotes once every
  alias is expanded, and when it denotes none (an unknown name or an alias cycle is met) the
  resolver stops with a diagnostic. What it caches keeps the invariant.
\<close>

theorem resolve_type_correct:
  assumes "table_ok ts" "wf_ty ty" "\<forall>info \<in> set ts. \<not> resolving info"
  shows "case resolve_type ts (show_ty ty) at of
           Inl e \<Rightarrow> is_diagnostic e \<and> (\<nexists>v. denotes ts ty v)
         | Inr (t, us) \<Rightarrow> (\<exists>v. denotes ts ty v \<and> canonical ts v \<and> t = show_ty v) \<and> table_ok us"
  by (rule resolve_type_outcome [OF assms])

theorem resolve_type_correct_witness:
  "case resolve_type [\<lparr>ti_name = ''Ids'', ti_kind = TYPEINFO_ALIAS, ti_node = builtin_map_value,
         target_raw = Some ''ARR[INT]'', target = None, resolving = False, open_runtime = False\<rparr>]
       (show_ty (TMap (TName ''STR'') (TName ''Ids''))) builtin_map_value of
     Inl e \<Rightarrow> is_diagnostic e \<and> (\<nexists>v. denotes [\<lparr>ti_name = ''Ids'', ti_kind = TYPEINFO_ALIAS,
         ti_node = builtin_map_value, target_raw = Some ''ARR[INT]'', target = None, resolving = False,
         open_runtime = False\<rparr>] (TMap (TName ''STR'') (TName ''Ids'')) v)
   | Inr (t, us) \<Rightarrow> (\<exists>v. denotes [\<lparr>ti_name = ''Ids'', ti_kind = TYPEINFO_ALIAS,
         ti_node = builtin_map_value, target_raw = Some ''ARR[INT]'', target = None, resolving = False,
         open_runtime = False\<rparr>] (TMap (TName ''STR'') (TName ''Ids'')) v
       \<and> canonical [\<lparr>ti_name = ''Ids'', ti_kind = TYPEINFO_ALIAS, ti_node = builtin_map_value,
         target_raw = Some ''ARR[INT]'', target = None, resolving = False, open_runtime = False\<rparr>] v
       \<and> t = show_ty v) \<and> table_ok us"
proof (rule resolve_type_correct)
  have "show_ty (TArr (TName ''INT'')) = ''ARR[INT]''" "wf_ty (TArr (TName ''INT''))"
    by (simp_all add: type_build_defs name_ok_def word_char_def char_defs)
  then show "table_ok [\<lparr>ti_name = ''Ids'', ti_kind = TYPEINFO_ALIAS, ti_node = builtin_map_value,
      target_raw = Some ''ARR[INT]'', target = None, resolving = False, open_runtime = False\<rparr>]"
    unfolding table_ok_def info_ok_def by (intro ballI impI exI [of _ "TArr (TName ''INT'')"]) simp
qed (simp_all add: name_ok_def word_char_def char_defs)

end
