(* ===== verification/Functions.thy ===== *)
theory Functions
  imports TypeRuleFacts TypeBuild
begin

text \<open>
  The table of functions (\<open>src/caster/analyze/symbols.c\<close>) and its construction in
  \<open>analyze_program\<close> (\<open>src/caster/analyze/program.c\<close>): every function of the program, nested ones
  included, is registered under its C name with its resolved signature before any body is
  analyzed. The analysis of named values and globals that comes before it is in \<open>Analyze\<close>.
\<close>

section \<open>The table\<close>

text \<open>
  \<open>fi_node\<close> is the declaration as it is registered; what is stored later through the pointer is
  stored in the tree.
\<close>

record fn_info =
  fi_name :: string
  fi_node :: node
  fi_param_types :: "string list"
  declared_return_type :: "string option"
  return_type :: "string option"
  returns_owned_ref :: bool
  fi_state :: int

type_synonym fn_table = "fn_info list"

definition fntable_push :: "fn_info \<Rightarrow> fn_table \<Rightarrow> fn_table" where
  "fntable_push f t = t @ [f]"

definition fn_find :: "fn_table \<Rightarrow> string \<Rightarrow> fn_info option" where
  "fn_find t name = List.find (\<lambda>f. fi_name f = name) t"

definition fn_fresh :: "fn_table \<Rightarrow> string \<Rightarrow> bool" where
  "fn_fresh t name \<longleftrightarrow> fn_find t name = None"

lemma fn_find_simps [simp]:
  "fn_find [] name = None"
  "fn_find (f # t) name = (if fi_name f = name then Some f else fn_find t name)"
  by (simp_all add: fn_find_def)

lemma fn_find_append:
  "fn_find (t @ u) name = (case fn_find t name of Some f \<Rightarrow> Some f | None \<Rightarrow> fn_find u name)"
  by (induction t) auto

lemma fn_find_name: "fn_find t name = Some f \<Longrightarrow> fi_name f = name \<and> f \<in> set t"
  by (induction t) (auto split: if_splits)

lemma fn_find_None: "fn_find t name = None \<longleftrightarrow> name \<notin> fi_name ` set t"
  by (induction t) auto

interpretation fn_tables: keyed fn_find fi_name fntable_push fn_fresh
  by unfold_locales
    (auto simp: fn_fresh_def fntable_push_def fn_find_append fun_eq_iff split: option.splits dest: fn_find_name)

section \<open>Registration\<close>

definition nested_function_c_name :: "string option \<Rightarrow> node \<Rightarrow> string result" where
  "nested_function_c_name owner fn =
     (case n_name (attrs fn) of
        None \<Rightarrow> Inl NullDeref
      | Some name \<Rightarrow>
          rbind (analyzer_lower_mangle (case owner of Some s \<Rightarrow> s | None \<Rightarrow> ''script'')) (\<lambda>o_name.
          rbind (analyzer_lower_mangle name) (\<lambda>f_name.
            Inr (''flx_nested_'' @ o_name @ ''_'' @ f_name @ ''_'' @ show_nat (n_line (attrs fn)) @ ''_''
              @ show_nat (n_col (attrs fn))))))"

definition with_params :: "node list \<Rightarrow> node \<Rightarrow> node" where
  "with_params ps n =
     Node (attrs n) (n_body n) (n_value n) (n_target n) (n_expr n) (n_condition n) (n_then_block n)
       (n_else_block n) (n_object n) (n_index n) (n_callee n) (n_left n) (n_right n) (n_type_decls n)
       (n_globals n) (n_fields n) (n_functions n) ps (n_statements n) (n_args n) (n_elements n)
       (n_elx_branches n)"

definition with_statements :: "node list \<Rightarrow> node \<Rightarrow> node" where
  "with_statements ss n =
     Node (attrs n) (n_body n) (n_value n) (n_target n) (n_expr n) (n_condition n) (n_then_block n)
       (n_else_block n) (n_object n) (n_index n) (n_callee n) (n_left n) (n_right n) (n_type_decls n)
       (n_globals n) (n_fields n) (n_functions n) (n_params n) ss (n_args n) (n_elements n)
       (n_elx_branches n)"

definition with_functions :: "node list \<Rightarrow> node \<Rightarrow> node" where
  "with_functions fs n =
     Node (attrs n) (n_body n) (n_value n) (n_target n) (n_expr n) (n_condition n) (n_then_block n)
       (n_else_block n) (n_object n) (n_index n) (n_callee n) (n_left n) (n_right n) (n_type_decls n)
       (n_globals n) (n_fields n) fs (n_params n) (n_statements n) (n_args n) (n_elements n)
       (n_elx_branches n)"

text \<open>A node with the four children the registration descends into.\<close>

definition with_blocks ::
  "node option \<Rightarrow> node option \<Rightarrow> node option \<Rightarrow> node list \<Rightarrow> node \<Rightarrow> node" where
  "with_blocks bdy thn els brs n =
     Node (attrs n) bdy (n_value n) (n_target n) (n_expr n) (n_condition n) thn
       els (n_object n) (n_index n) (n_callee n) (n_left n) (n_right n) (n_type_decls n)
       (n_globals n) (n_fields n) (n_functions n) (n_params n) (n_statements n) (n_args n) (n_elements n)
       brs"

text \<open>The loops that update each node of a vector and thread the tables through.\<close>

primrec each_node :: "(node \<Rightarrow> 's \<Rightarrow> (node \<times> 's) result) \<Rightarrow> node list \<Rightarrow> 's \<Rightarrow> (node list \<times> 's) result" where
  "each_node f [] s = Inr ([], s)"
| "each_node f (x # xs) s =
     rbind (f x s) (\<lambda>(x', s). rbind (each_node f xs s) (\<lambda>(xs', s). Inr (x' # xs', s)))"

definition each_opt :: "(node \<Rightarrow> 's \<Rightarrow> (node \<times> 's) result) \<Rightarrow> node option \<Rightarrow> 's \<Rightarrow> (node option \<times> 's) result" where
  "each_opt f x s = (case x of None \<Rightarrow> Inr (None, s) | Some y \<Rightarrow> rbind (f y s) (\<lambda>(y', s). Inr (Some y', s)))"

lemma each_node_cong [fundef_cong]:
  "xs = ys \<Longrightarrow> s = t \<Longrightarrow> (\<And>y u. y \<in> set ys \<Longrightarrow> f y u = g y u) \<Longrightarrow> each_node f xs s = each_node g ys t"
proof (induction xs arbitrary: ys s t)
  case (Cons x xs)
  have "each_node f xs u = each_node g xs u" for u by (rule Cons.IH) (use Cons.prems in auto)
  then have "(\<lambda>(x', s). rbind (each_node f xs s) (\<lambda>(xs', s). Inr (x' # xs', s)))
      = (\<lambda>(x', s). rbind (each_node g xs s) (\<lambda>(xs', s). Inr (x' # xs', s)))" by simp
  with Cons.prems show ?case by auto
qed auto

lemma each_opt_cong [fundef_cong]:
  "x = y \<Longrightarrow> s = t \<Longrightarrow> (\<And>z u. y = Some z \<Longrightarrow> f z u = g z u) \<Longrightarrow> each_opt f x s = each_opt g y t"
  by (cases y) (simp_all add: each_opt_def)

definition resolve_param :: "node \<Rightarrow> type_table \<Rightarrow> (node \<times> type_table) result" where
  "resolve_param param types =
     (case declared_type (attrs param) of
        None \<Rightarrow> Inl NullDeref
      | Some raw \<Rightarrow> rbind (resolve_type types raw param) (\<lambda>(t, ts). Inr (with_type t param, ts)))"

type_synonym tables = "fn_table \<times> type_table"

definition register_function_info :: "string \<Rightarrow> node \<Rightarrow> tables \<Rightarrow> (node \<times> tables) result" where
  "register_function_info table_name fn tabs =
     (case (tabs, n_name (attrs fn)) of
        ((table, types), Some name) \<Rightarrow>
          if fn_find table table_name \<noteq> None then die_node_at fn (''duplicate function '' @ quoted name)
          else
            rbind (each_node resolve_param (n_params fn) types) (\<lambda>(ps, types).
            let fn = with_params ps fn in
            case declared_type (attrs fn) of
              None \<Rightarrow> die_node_at fn (''function '' @ quoted name @
                '' must declare an explicit return type; use -> NUL for no value'')
            | Some raw \<Rightarrow>
                rbind (resolve_type types raw fn) (\<lambda>(t, types).
                  let fn = with_type t fn;
                      info = \<lparr>fi_name = table_name, fi_node = fn,
                              fi_param_types = map (\<lambda>p. the (declared_type (attrs p))) ps,
                              declared_return_type = Some t, return_type = Some t,
                              returns_owned_ref = False, fi_state = 0\<rparr>
                  in Inr (fn, fntable_push info table, types)))
      | (_, None) \<Rightarrow> Inl NullDeref)"

text \<open>
  \<open>register_nested_functions_in_block\<close>, one statement at a time: a block hands its statements
  to \<open>register_statement\<close> in order.
\<close>

definition on_block :: "(node \<Rightarrow> 's \<Rightarrow> (node \<times> 's) result) \<Rightarrow> node \<Rightarrow> 's \<Rightarrow> (node \<times> 's) result" where
  "on_block f b s = rbind (each_node f (n_statements b) s) (\<lambda>(ss, s). Inr (with_statements ss b, s))"

lemma on_block_cong [fundef_cong]:
  "b = c \<Longrightarrow> s = t \<Longrightarrow> (\<And>y u. y \<in> set (n_statements c) \<Longrightarrow> f y u = g y u) \<Longrightarrow> on_block f b s = on_block g c t"
  unfolding on_block_def using each_node_cong [of "n_statements b" "n_statements c" s t f g] by simp

definition on_branch :: "(node \<Rightarrow> 's \<Rightarrow> (node \<times> 's) result) \<Rightarrow> node \<Rightarrow> 's \<Rightarrow> (node \<times> 's) result" where
  "on_branch f br s =
     rbind (each_opt (on_block f) (n_body br) s) (\<lambda>(b, s).
       Inr (with_blocks b (n_then_block br) (n_else_block br) (n_elx_branches br) br, s))"

lemma on_branch_cong [fundef_cong]:
  "b = c \<Longrightarrow> s = t \<Longrightarrow> (\<And>y z u. n_body c = Some z \<Longrightarrow> y \<in> set (n_statements z) \<Longrightarrow> f y u = g y u) \<Longrightarrow>
     on_branch f b s = on_branch g c t"
proof -
  assume eq: "b = c" "s = t" and fg: "\<And>y z u. n_body c = Some z \<Longrightarrow> y \<in> set (n_statements z) \<Longrightarrow> f y u = g y u"
  have "each_opt (on_block f) (n_body b) s = each_opt (on_block g) (n_body c) t"
    by (rule each_opt_cong) (simp_all add: eq, rule on_block_cong, simp_all add: fg)
  then show ?thesis by (simp add: on_branch_def eq)
qed

lemma size_kids:
  "x \<in> set (n_statements n) \<Longrightarrow> size x < size n"
  "x \<in> set (n_elx_branches n) \<Longrightarrow> size x < size n"
  "n_body n = Some x \<Longrightarrow> size x < size n"
  "n_then_block n = Some x \<Longrightarrow> size x < size n"
  "n_else_block n = Some x \<Longrightarrow> size x < size n"
  by (cases n; auto dest: size_list_estimation' [where f = size, OF _ order_refl])+

function register_statement :: "string option \<Rightarrow> node \<Rightarrow> tables \<Rightarrow> (node \<times> tables) result" where
  "register_statement owner n tabs =
     (if n_kind n = NK_FN then
        (case n_name (attrs n) of
           None \<Rightarrow> Inl NullDeref
         | Some name \<Rightarrow>
             if name = ''main'' then die_node_at n ''nested function cannot be named main''
             else
               rbind (case c_expr (attrs n) of Some c \<Rightarrow> Inr c | None \<Rightarrow> nested_function_c_name owner n) (\<lambda>c.
               rbind (register_function_info c (upd_attrs (\<lambda>a. a\<lparr>c_expr := Some c\<rparr>) n) tabs) (\<lambda>(fn, tabs).
               rbind (each_opt (on_block (register_statement (Some name))) (n_body n) tabs) (\<lambda>(b, tabs).
                 Inr (with_blocks b (n_then_block fn) (n_else_block fn) (n_elx_branches fn) fn, tabs)))))
      else if n_kind n = NK_LOOP then
        rbind (each_opt (on_block (register_statement owner)) (n_body n) tabs) (\<lambda>(b, tabs).
          Inr (with_blocks b (n_then_block n) (n_else_block n) (n_elx_branches n) n, tabs))
      else if n_kind n = NK_IF then
        rbind (each_opt (on_block (register_statement owner)) (n_then_block n) tabs) (\<lambda>(thn, tabs).
        rbind (each_node (on_branch (register_statement owner)) (n_elx_branches n) tabs) (\<lambda>(brs, tabs).
        rbind (each_opt (on_block (register_statement owner)) (n_else_block n) tabs) (\<lambda>(els, tabs).
          Inr (with_blocks (n_body n) thn els brs n, tabs))))
      else Inr (n, tabs))"
  by pat_completeness auto

termination
  by (relation "measure (\<lambda>(owner, n, tabs). size n)") (auto dest!: size_kids)

declare register_statement.simps [simp del]

definition register_nested_functions_in_block :: "string option \<Rightarrow> node option \<Rightarrow> tables \<Rightarrow> (node option \<times> tables) result" where
  "register_nested_functions_in_block owner b tabs = each_opt (on_block (register_statement owner)) b tabs"

text \<open>The functions of a program, as \<open>analyze_program\<close> registers them.\<close>

definition register_top :: "node \<Rightarrow> tables \<Rightarrow> (node \<times> tables) result" where
  "register_top fn tabs =
     (case n_name (attrs fn) of None \<Rightarrow> Inl NullDeref | Some name \<Rightarrow> register_function_info name fn tabs)"

definition register_nested :: "node \<Rightarrow> tables \<Rightarrow> (node \<times> tables) result" where
  "register_nested fn tabs =
     rbind (register_nested_functions_in_block (n_name (attrs fn)) (n_body fn) tabs) (\<lambda>(b, tabs).
       Inr (with_blocks b (n_then_block fn) (n_else_block fn) (n_elx_branches fn) fn, tabs))"

definition check_main :: "node \<Rightarrow> fn_table \<Rightarrow> unit result" where
  "check_main prog table =
     (case fn_find table ''main'' of
        None \<Rightarrow> Inr ()
      | Some m \<Rightarrow>
          if fi_param_types m \<noteq> [] then die_node_at (fi_node m) ''FN main() cannot take parameters yet''
          else if n_statements prog \<noteq> []
            then die_node_at (fi_node m) ''cannot combine FN main() with top-level script statements''
          else Inr ())"

definition register_program :: "node \<Rightarrow> type_table \<Rightarrow> (node \<times> tables) result" where
  "register_program prog types =
     rbind (each_node register_top (n_functions prog) ([], types)) (\<lambda>(fns, tabs).
     rbind (each_node register_nested fns tabs) (\<lambda>(fns, tabs).
     let prog = with_functions fns prog in
     rbind (if n_statements prog \<noteq> [] then on_block (register_statement (Some ''script'')) prog tabs
            else Inr (prog, tabs)) (\<lambda>(prog, tabs).
     rbind (check_main prog (fst tabs)) (\<lambda>_. Inr (prog, tabs)))))"

end
