(* ===== verification/LexerFacts.thy ===== *)
theory LexerFacts
  imports Lexer
begin

text \<open>
  What the token stream of \<open>lex_source\<close> guarantees: it ends in its only end-of-file
  token, and every token's line and column locate its spelling in the source.
\<close>

section \<open>The end-of-file token\<close>

text \<open>What the parser relies on: a stream that ends in \<open>TK_EOF\<close> and has no other.\<close>

definition stream_ok :: "token list \<Rightarrow> bool" where
  "stream_ok ts \<longleftrightarrow>
     ts \<noteq> [] \<and> tk_kind (last ts) = TK_EOF \<and> (\<forall>t \<in> set (butlast ts). tk_kind t \<noteq> TK_EOF)"

definition no_eof :: "token list \<Rightarrow> bool" where
  "no_eof ts \<longleftrightarrow> (\<forall>t \<in> set ts. tk_kind t \<noteq> TK_EOF)"

lemma out_eat [simp]: "lx_out (eat n s) = lx_out s"
  by (simp add: eat_def)

lemma out_push [simp]:
  "lx_out (push k t l c s) = lx_out s @ [\<lparr>tk_kind = k, tk_text = t, tk_line = l, tk_col = c\<rparr>]"
  by (simp add: push_def)

lemma map_of_ran: "map_of xs x = Some y \<Longrightarrow> y \<in> snd ` set xs"
  by (force dest: map_of_SomeD)

lemma two_char_kind_not_eof: "map_of two_char_ops s \<noteq> Some TK_EOF"
  by (auto simp: two_char_ops_def dest!: map_of_ran)

lemma one_char_kind_not_eof: "map_of one_char_ops c \<noteq> Some TK_EOF"
  by (auto simp: one_char_ops_def dest!: map_of_ran)

lemma keyword_kind_not_eof: "keyword_kind s \<noteq> TK_EOF"
proof (cases "map_of keyword_table s")
  case None
  then show ?thesis by (simp add: keyword_kind_def)
next
  case (Some k)
  then have "k \<in> snd ` set keyword_table" by (rule map_of_ran)
  then have "k \<noteq> TK_EOF" by (auto simp: keyword_table_def)
  with Some show ?thesis by (simp add: keyword_kind_def)
qed

lemmas lex_branches = lex_eol_def lex_line_comment_def lex_block_comment_def lex_string_def
  lex_raw_string_def lex_number_def lex_word_def lex_operator_def

lemma lex_step_no_eof:
  assumes "lex_step s = Inr s'" and "no_eof (lx_out s)"
  shows "no_eof (lx_out s')"
  using assms
  by (auto simp: no_eof_def lex_step_def Let_def lex_branches rbind_eq_Inr keyword_kind_not_eof
      two_char_kind_not_eof one_char_kind_not_eof
      split: if_splits option.splits sum.splits prod.splits)

lemma lex_loop_stream_ok:
  "lex_loop s = Inr ts \<Longrightarrow> no_eof (lx_out s) \<Longrightarrow> stream_ok ts"
proof (induction s rule: lex_loop.induct)
  case (1 s)
  show ?case
  proof (cases "lx_rest s = []")
    case True
    with "1.prems" show ?thesis
      by (auto simp: lex_loop.simps [of s] stream_ok_def no_eof_def)
  next
    case False
    with "1.prems"(1) obtain s' where "lex_step s = Inr s'" "lex_loop s' = Inr ts"
      by (auto simp: lex_loop.simps [of s] rbind_eq_Inr)
    with "1.IH" [OF False] "1.prems"(2) show ?thesis by (blast intro: lex_step_no_eof)
  qed
qed

lemma lex_source_stream_ok: "lex_source src = Inr ts \<Longrightarrow> stream_ok ts"
  unfolding lex_source_def by (erule lex_loop_stream_ok) (simp add: no_eof_def)

section \<open>The lexer fails with diagnostics only\<close>

lemma string_body_error: "string_body l0 c0 l s c = Inl e \<Longrightarrow> is_diagnostic e"
  by (induction l0 c0 l s c rule: string_body.induct)
    (auto simp: rbind_eq_Inl split: if_splits list.splits option.splits)

lemma lex_step_error: "lex_step s = Inl e \<Longrightarrow> is_diagnostic e"
  by (auto simp: lex_step_def Let_def lex_branches rbind_eq_Inl
      split: if_splits option.splits sum.splits prod.splits dest: string_body_error)

lemma lex_loop_error: "lex_loop s = Inl e \<Longrightarrow> is_diagnostic e"
proof (induction s rule: lex_loop.induct)
  case (1 s)
  then show ?case
    by (auto simp: lex_loop.simps [of s] rbind_eq_Inl split: if_splits dest: lex_step_error)
qed

lemma lex_source_error: "lex_source src = Inl e \<Longrightarrow> is_diagnostic e"
  by (simp add: lex_source_def lex_loop_error)

section \<open>Positions\<close>

text \<open>
  The line and column reached from a position by reading text: a line break (\<open>\\r\\n\<close> is
  one) starts the next line at column 1, any other byte is one column.
\<close>

function advance :: "nat \<Rightarrow> nat \<Rightarrow> string \<Rightarrow> nat \<times> nat" where
  "advance l c s =
     (if s = [] then (l, c)
      else if is_eol (chead s) then advance (l + 1) 1 (drop (eol_len s) s)
      else advance l (c + 1) (tl s))"
  by pat_completeness auto
termination
  by (relation "measure (\<lambda>(l, c, s). length s)") (auto simp: eol_len_def)

declare advance.simps [simp del]

text \<open>A split that does not fall inside a \<open>\\r\\n\<close>.\<close>

definition clean_split :: "string \<Rightarrow> string \<Rightarrow> bool" where
  "clean_split xs ys \<longleftrightarrow> \<not> (xs \<noteq> [] \<and> last xs = CR \<and> chead ys = NL)"

lemma advance_Nil [simp]: "advance l c [] = (l, c)"
  by (simp add: advance.simps)

lemma eol_len_append:
  assumes "xs \<noteq> []" and "clean_split xs ys"
  shows "eol_len (xs @ ys) = eol_len xs" "eol_len xs \<le> length xs"
  using assms by (cases xs; cases "tl xs"; auto simp: eol_len_def clean_split_def)+

lemma clean_split_drop:
  "clean_split xs ys \<Longrightarrow> clean_split (drop n xs) ys"
  by (auto simp: clean_split_def)

lemma advance_append:
  "clean_split xs ys \<Longrightarrow> advance l c (xs @ ys) = (case advance l c xs of (l', c') \<Rightarrow> advance l' c' ys)"
proof (induction l c xs rule: advance.induct)
  case (1 l c xs)
  show ?case
  proof (cases "xs = []")
    case True
    then show ?thesis by simp
  next
    case False
    note ne = this
    then have hd: "chead (xs @ ys) = chead xs" "tl (xs @ ys) = tl xs @ ys" by (cases xs; simp)+
    show ?thesis
    proof (cases "is_eol (chead xs)")
      case True
      have d: "drop (eol_len xs) (xs @ ys) = drop (eol_len xs) xs @ ys"
        using eol_len_append [OF ne "1.prems"] by simp
      show ?thesis
        using "1.IH"(1) [OF ne True clean_split_drop [OF "1.prems"]] ne True
        by (simp add: advance.simps [of l c xs] advance.simps [of l c "xs @ ys"] hd d
            eol_len_append [OF ne "1.prems"])
    next
      case False
      then show ?thesis
        using "1.IH"(2) [OF ne False] clean_split_drop [OF "1.prems", of 1] ne False
        by (simp add: advance.simps [of l c xs] advance.simps [of l c "xs @ ys"] hd drop_Suc)
    qed
  qed
qed

lemma advance_plain:
  "(\<And>x. x \<in> set xs \<Longrightarrow> \<not> is_eol x) \<Longrightarrow> advance l c xs = (l, c + length xs)"
  by (induction xs arbitrary: c) (simp_all add: advance.simps [of l _ "_ # _"])

text \<open>
  How a token is spelled at the place it points to: names, numbers, keywords and operators
  literally; a string by its opening quote (its text is the decoded contents); a line break
  by \<open>\\n\<close> or \<open>\\r\<close>; the end of file by the end of the text.
\<close>

definition spells :: "token \<Rightarrow> string \<Rightarrow> bool" where
  "spells t suf \<longleftrightarrow>
     (if tk_kind t = TK_EOF then suf = []
      else if tk_kind t = TK_NEWLINE then is_eol (chead suf)
      else if tk_kind t = TK_STRING_LITERAL then chead suf = DQUOTE \<or> chead suf = BQUOTE
      else tk_text t \<noteq> [] \<and> prefix (tk_text t) suf)"

definition located :: "string \<Rightarrow> token \<Rightarrow> bool" where
  "located src t \<longleftrightarrow>
     (\<exists>pre suf. src = pre @ suf \<and> advance 1 1 pre = (tk_line t, tk_col t) \<and> spells t suf)"

lemma eat_push_fields [simp]:
  "lx_past (eat n s) = rev (take n (lx_rest s)) @ lx_past s" "lx_rest (eat n s) = drop n (lx_rest s)"
  "lx_line (eat n s) = lx_line s" "lx_col (eat n s) = lx_col s + n"
  by (simp_all add: eat_def)

lemma word_char_noeol: "word_char c \<Longrightarrow> \<not> is_eol c"
  by (auto simp: word_char_def is_eol_def char_defs)

lemma isdigit_noeol: "isdigit c \<Longrightarrow> \<not> is_eol c"
  by (auto simp: is_eol_def char_defs)

lemma take_digits: "x \<in> set (take (digits s) s) \<Longrightarrow> isdigit x"
  by (metis digits_def set_takeWhileD takeWhile_eq_take)

lemma digits_le: "digits s \<le> length s"
  by (simp add: digits_def length_takeWhile_le)

lemma set_take_drop_split:
  "m \<le> n \<Longrightarrow> set (take n s) = set (take m s) \<union> set (take (n - m) (drop m s))"
  by (metis le_add_diff_inverse set_append take_add)

lemma take_noeol_step:
  "\<lbrakk>\<And>x. x \<in> set (take m s) \<Longrightarrow> \<not> is_eol x; \<And>x. x \<in> set (take k (drop m s)) \<Longrightarrow> \<not> is_eol x;
    x \<in> set (take (m + k) s)\<rbrakk> \<Longrightarrow> \<not> is_eol x"
  using set_take_drop_split [of m "m + k" s] by auto

lemma take_digits_noeol: "x \<in> set (take (digits s) s) \<Longrightarrow> \<not> is_eol x"
  by (blast dest: take_digits isdigit_noeol)

lemma chead_pos: "chead s \<noteq> NUL \<Longrightarrow> 1 \<le> length s"
  by (cases s) auto

lemma isdigit_not_NUL [simp]: "\<not> isdigit NUL"
  by (simp add: char_defs)

text \<open>The digits, fraction and exponent of a number lie inside the text and on one line.\<close>

definition plain_upto :: "nat \<Rightarrow> string \<Rightarrow> bool" where
  "plain_upto n s \<longleftrightarrow> n \<le> length s \<and> (\<forall>x \<in> set (take n s). \<not> is_eol x)"

lemma plain_upto_digits: "plain_upto m s \<Longrightarrow> plain_upto (m + digits (drop m s)) s"
  using digits_le [of "drop m s"]
  by (auto simp: plain_upto_def dest: take_noeol_step [rotated -1] take_digits_noeol)

lemma plain_upto_one:
  "plain_upto m s \<Longrightarrow> chead (drop m s) \<noteq> NUL \<Longrightarrow> \<not> is_eol (chead (drop m s)) \<Longrightarrow> plain_upto (m + 1) s"
  using chead_pos [of "drop m s"]
  by (auto simp: plain_upto_def take_Suc_conv_app_nth chead_eq_cat cat_def split: if_splits)

lemma number_plain:
  assumes "number s = Inr (f, n)"
  shows "plain_upto n s"
proof -
  define n1 where "n1 = digits s"
  define frac where "frac \<longleftrightarrow> chead (drop n1 s) = CHR ''.'' \<and> isdigit (chead (tl (drop n1 s)))"
  define n2 where "n2 = (if frac then n1 + 1 + digits (tl (drop n1 s)) else n1)"
  have p1: "plain_upto n1 s"
    using plain_upto_digits [of 0 s] by (simp add: n1_def plain_upto_def)
  have p2: "plain_upto n2 s"
    using p1 plain_upto_digits [OF plain_upto_one [OF p1]]
    by (auto simp: n2_def frac_def is_eol_def tl_drop drop_Suc)
  define ex where "ex \<longleftrightarrow> chead (drop n2 s) = CHR ''e'' \<or> chead (drop n2 s) = CHR ''E''"
  define n4 where "n4 = (if chead (drop (n2 + 1) s) = CHR ''+'' \<or> chead (drop (n2 + 1) s) = CHR ''-''
                         then n2 + 1 + 1 else n2 + 1)"
  have p4: "ex \<Longrightarrow> plain_upto n4 s"
    using plain_upto_one [OF p2] plain_upto_one [of "n2 + 1" s]
    by (auto simp: ex_def n4_def is_eol_def)
  have "n = (if ex then n4 + digits (drop n4 s) else n2)"
    using assms by (auto simp: number_def Let_def n1_def frac_def n2_def ex_def n4_def split: if_splits)
  then show ?thesis using p2 p4 plain_upto_digits [of n4 s] by auto
qed

lemma eol_noncut:
  assumes "s \<noteq> []" and "is_eol (chead s)"
  shows "eol_len s \<le> length s" "clean_split (take (eol_len s) s) (drop (eol_len s) s)"
    "advance l c (take (eol_len s) s) = (l + 1, 1)"
proof -
  obtain x xs where s: "s = x # xs" using assms(1) by (cases s) auto
  show "eol_len s \<le> length s" using s by (cases xs) (auto simp: eol_len_def)
  show "clean_split (take (eol_len s) s) (drop (eol_len s) s)"
    using s assms(2) by (cases xs) (auto simp: eol_len_def clean_split_def is_eol_def)
  show "advance l c (take (eol_len s) s) = (l + 1, 1)"
    using s assms(2)
    by (cases xs) (auto simp: advance.simps [of l c] eol_len_def is_eol_def)
qed

text \<open>The same condition at an index of one string.\<close>

lemma clean_split_index:
  "n \<le> length s \<Longrightarrow> clean_split (take n s) (drop n s) \<longleftrightarrow>
     (0 < n \<and> n < length s \<longrightarrow> \<not> (s ! (n - 1) = CR \<and> s ! n = NL))"
  by (cases n)
    (auto simp: clean_split_def chead_eq_cat cat_def take_Suc_conv_app_nth split: if_splits)

text \<open>\<open>spans s n (l, c) (l', c')\<close>: reading the first \<open>n\<close> bytes of \<open>s\<close> moves the position.\<close>

definition spans :: "string \<Rightarrow> nat \<Rightarrow> nat \<times> nat \<Rightarrow> nat \<times> nat \<Rightarrow> bool" where
  "spans s n p q \<longleftrightarrow> n \<le> length s \<and> clean_split (take n s) (drop n s) \<and>
     advance (fst p) (snd p) (take n s) = q"

lemma spans_0: "spans s 0 p p"
  by (simp add: spans_def clean_split_def)

lemma spans_plain:
  assumes "plain_upto n s"
  shows "spans s n (l, c) (l, c + n)"
proof -
  have n: "n \<le> length s" and noeol: "\<And>x. x \<in> set (take n s) \<Longrightarrow> \<not> is_eol x"
    using assms by (auto simp: plain_upto_def)
  have "clean_split (take n s) (drop n s)"
    using n noeol by (cases n) (auto simp: clean_split_def is_eol_def take_Suc_conv_app_nth)
  then show ?thesis using n advance_plain [OF noeol, where l = l and c = c] by (simp add: spans_def)
qed

lemma spans_eol:
  "s \<noteq> [] \<Longrightarrow> is_eol (chead s) \<Longrightarrow> spans s (eol_len s) (l, c) (l + 1, 1)"
  by (simp add: spans_def eol_noncut)

lemma clean_split_take:
  assumes "clean_split (take n s) (drop n s)"
  shows "clean_split (take n s) (take m (drop n s))"
  using assms by (cases "drop n s"; cases m) (auto simp: clean_split_def)

lemma spans_add:
  assumes "spans s n p q" and "spans (drop n s) m q r"
  shows "spans s (n + m) p r"
proof -
  have "clean_split (take n s) (take m (drop n s))"
    using assms(1) by (simp add: spans_def clean_split_take)
  moreover have "n + m \<le> length s" using assms by (auto simp: spans_def)
  moreover from this have "clean_split (take (n + m) s) (drop (n + m) s)"
    using assms clean_split_index [of m "drop n s"]
    by (cases m) (auto simp: spans_def clean_split_index)
  ultimately show ?thesis
    using assms advance_append [of "take n s" "take m (drop n s)" "fst p" "snd p"]
    by (auto simp: spans_def take_add split: prod.splits)
qed

lemma spans_one:
  "chead s \<noteq> NUL \<Longrightarrow> \<not> is_eol (chead s) \<Longrightarrow> spans s 1 (l, c) (l, c + 1)"
  using spans_plain [of 1 s l c] plain_upto_one [of 0 s] by (simp add: plain_upto_def)

lemma block_comment_spans:
  "block_comment s l c = Some (n, q) \<Longrightarrow> spans s (n + 2) (l, c) (fst q, snd q + 2)"
proof (induction s l c arbitrary: n q rule: block_comment.induct)
  case (1 s l c)
  note eq = block_comment.simps [of s l c]
  consider "s = []" | "s \<noteq> []" "chead s = STAR \<and> chead (tl s) = SLASH"
    | "s \<noteq> []" "\<not> (chead s = STAR \<and> chead (tl s) = SLASH)" "is_eol (chead s)"
    | "s \<noteq> []" "\<not> (chead s = STAR \<and> chead (tl s) = SLASH)" "\<not> is_eol (chead s)"
    by blast
  then show ?case
  proof cases
    case 1
    with "1.prems" eq show ?thesis by simp
  next
    case 2
    then have "plain_upto 2 s"
      by (cases s; cases "tl s") (auto simp: plain_upto_def is_eol_def)
    from spans_plain [OF this, of l c] 2 "1.prems" eq show ?thesis
      by (auto simp: numeral_2_eq_2)
  next
    case 3
    with "1.prems" eq obtain m where m: "block_comment (drop (eol_len s) s) (l + 1) 1 = Some (m, q)"
      and n: "n = m + eol_len s" by auto
    from spans_add [OF spans_eol [OF 3(1,3)] "1.IH"(1) [OF 3 m]] show ?thesis
      by (simp add: n ac_simps)
  next
    case 4
    with "1.prems" eq obtain m where m: "block_comment (tl s) l (c + 1) = Some (m, q)"
      and n: "n = m + 1" by auto
    have "plain_upto 1 s" using 4 by (cases s) (auto simp: plain_upto_def)
    from spans_add [OF spans_plain [OF this, of l c], of "m + 2"] "1.IH"(2) [OF 4 m] show ?thesis
      by (simp add: n drop_Suc)
  qed
qed

lemma raw_body_spans:
  "raw_body s l c = Some (buf, n, q) \<Longrightarrow> spans s (n + 1) (l, c) (fst q, snd q + 1)"
proof (induction s l c arbitrary: buf n q rule: raw_body.induct)
  case (1 s l c)
  note eq = raw_body.simps [of s l c]
  have one: "plain_upto 1 s" if "s \<noteq> []" "\<not> is_eol (chead s)"
    using that by (cases s) (auto simp: plain_upto_def)
  consider "s = []" | "s \<noteq> []" "chead s = BQUOTE"
    | "s \<noteq> []" "chead s \<noteq> BQUOTE" "is_eol (chead s)"
    | "s \<noteq> []" "chead s \<noteq> BQUOTE" "\<not> is_eol (chead s)"
    by blast
  then show ?case
  proof cases
    case 1
    with "1.prems" eq show ?thesis by simp
  next
    case 2
    with "1.prems" eq one show ?thesis
      by (auto simp: is_eol_def dest!: spans_plain [where l = l and c = c])
  next
    case 3
    with "1.prems" eq obtain m b where m: "raw_body (drop (eol_len s) s) (l + 1) 1 = Some (b, m, q)"
      and n: "n = m + eol_len s" by auto
    from spans_add [OF spans_eol [OF 3(1,3)] "1.IH"(1) [OF 3 m]] show ?thesis
      by (simp add: n ac_simps)
  next
    case 4
    with "1.prems" eq obtain m b where m: "raw_body (tl s) l (c + 1) = Some (b, m, q)"
      and n: "n = m + 1" by auto
    from spans_add [OF spans_plain [OF one [OF 4(1,3)], of l c], of "m + 1"] "1.IH"(2) [OF 4 m]
    show ?thesis by (simp add: n drop_Suc)
  qed
qed

lemma plain_upto_Cons: "plain_upto n s \<Longrightarrow> \<not> is_eol c \<Longrightarrow> plain_upto (n + 1) (c # s)"
  by (auto simp: plain_upto_def)

lemma string_body_plain:
  "string_body l0 c0 l s c = Inr (buf, n) \<Longrightarrow> plain_upto (n + 1) s"
proof (induction l0 c0 l s c arbitrary: buf n rule: string_body.induct)
  case (1 l0 c0 l c)
  then show ?case by simp
next
  case (2 l0 c0 l ch s c)
  consider "ch = DQUOTE" | "ch \<noteq> DQUOTE" "\<not> is_eol ch" "ch = BSLASH"
    | "ch \<noteq> DQUOTE" "\<not> is_eol ch" "ch \<noteq> BSLASH"
    using "2.prems" by (auto split: if_splits)
  then show ?case
  proof cases
    case 1
    with "2.prems" show ?thesis by (auto simp: plain_upto_def is_eol_def)
  next
    case 2
    with "2.prems" obtain e s' d b m where s: "s = e # s'" and e: "escape_char e = Some d"
      and m: "string_body l0 c0 l s' (c + 2) = Inr (b, m)" and n: "n = m + 2"
      by (auto simp: rbind_eq_Inr split: list.splits option.splits)
    have "\<not> is_eol e" using e by (auto simp: escape_char_def is_eol_def split: if_splits)
    then show ?thesis
      using "2.IH"(1) [OF 2 s e m] 2 plain_upto_Cons plain_upto_Cons [of "m + 1 + 1" "e # s'" ch]
      by (simp add: s n)
  next
    case 3
    with "2.prems" obtain b m where m: "string_body l0 c0 l s (c + 1) = Inr (b, m)" and n: "n = m + 1"
      by (auto simp: rbind_eq_Inr)
    from "2.IH"(2) [OF 3 m] 3 plain_upto_Cons show ?thesis by (simp add: n)
  qed
qed

text \<open>One round spans \<open>n\<close> bytes, keeps the position in step, and adds at most one token.\<close>

definition moves_by :: "nat \<Rightarrow> lexer \<Rightarrow> lexer \<Rightarrow> bool" where
  "moves_by n s s' \<longleftrightarrow>
     0 < n \<and> lx_past s' = rev (take n (lx_rest s)) @ lx_past s \<and> lx_rest s' = drop n (lx_rest s) \<and>
     spans (lx_rest s) n (lx_line s, lx_col s) (lx_line s', lx_col s') \<and>
     (lx_out s' = lx_out s \<or>
      (\<exists>t. lx_out s' = lx_out s @ [t] \<and> tk_line t = lx_line s \<and> tk_col t = lx_col s \<and> spells t (lx_rest s)))"

lemma moves_plain:
  assumes "0 < n" "plain_upto n (lx_rest s)"
    and "lx_past s' = rev (take n (lx_rest s)) @ lx_past s" "lx_rest s' = drop n (lx_rest s)"
    and "lx_line s' = lx_line s" "lx_col s' = lx_col s + n"
    and "lx_out s' = lx_out s \<or>
      (\<exists>t. lx_out s' = lx_out s @ [t] \<and> tk_line t = lx_line s \<and> tk_col t = lx_col s \<and> spells t (lx_rest s))"
  shows "moves_by n s s'"
  using assms spans_plain [OF assms(2), of "lx_line s" "lx_col s"] by (simp add: moves_by_def)

lemma length_takeWhile_plain:
  "(\<And>c. P c \<Longrightarrow> \<not> is_eol c) \<Longrightarrow> plain_upto (length (takeWhile P s)) s"
  by (auto simp: plain_upto_def length_takeWhile_le takeWhile_eq_take [symmetric] dest: set_takeWhileD)

lemma two_char_op_spelling:
  "map_of two_char_ops (take 2 s) = Some k \<Longrightarrow> plain_upto 2 s \<and> take 2 s \<noteq> []
     \<and> k \<noteq> TK_EOF \<and> k \<noteq> TK_NEWLINE \<and> k \<noteq> TK_STRING_LITERAL"
  by (drule map_of_SomeD, cases s; cases "tl s")
    (auto simp: two_char_ops_def plain_upto_def is_eol_def)

lemma one_char_op_spelling:
  "map_of one_char_ops (chead s) = Some k \<Longrightarrow> plain_upto 1 s \<and> take 1 s \<noteq> []
     \<and> k \<noteq> TK_EOF \<and> k \<noteq> TK_NEWLINE \<and> k \<noteq> TK_STRING_LITERAL"
  by (drule map_of_SomeD, cases s) (auto simp: one_char_ops_def plain_upto_def is_eol_def)

lemma keyword_kind_plain:
  "keyword_kind s \<noteq> TK_EOF \<and> keyword_kind s \<noteq> TK_NEWLINE \<and> keyword_kind s \<noteq> TK_STRING_LITERAL"
proof (cases "map_of keyword_table s")
  case None
  then show ?thesis by (simp add: keyword_kind_def)
next
  case (Some k)
  from map_of_ran [OF this] have "k \<noteq> TK_EOF \<and> k \<noteq> TK_NEWLINE \<and> k \<noteq> TK_STRING_LITERAL"
    by (auto simp: keyword_table_def)
  with Some show ?thesis by (simp add: keyword_kind_def)
qed

lemma plain_upto_Suc_0: "s \<noteq> [] \<Longrightarrow> \<not> is_eol (chead s) \<Longrightarrow> plain_upto (Suc 0) s"
  by (cases s) (auto simp: plain_upto_def)

lemma plain_upto_tl:
  assumes "s \<noteq> []" "\<not> is_eol (chead s)" "plain_upto n (tl s)"
  shows "plain_upto (Suc n) s"
  using assms plain_upto_Cons [of n "tl s" "chead s"] by (cases s) auto

lemma moves_eol: "lx_rest s \<noteq> [] \<Longrightarrow> is_eol (chead (lx_rest s)) \<Longrightarrow> lex_eol s = Inr s' \<Longrightarrow> \<exists>n. moves_by n s s'"
  using spans_eol [of "lx_rest s" "lx_line s" "lx_col s"]
  by (auto simp: lex_eol_def moves_by_def spells_def intro!: exI [of _ "eol_len (lx_rest s)"])

lemma moves_line_comment:
  assumes "chead (lx_rest s) = SLASH" "chead (tl (lx_rest s)) = SLASH" "lex_line_comment s = Inr s'"
  shows "\<exists>n. moves_by n s s'"
proof -
  obtain cs where r: "lx_rest s = SLASH # SLASH # cs"
    using assms(1,2) by (cases "lx_rest s"; cases "tl (lx_rest s)") auto
  let ?n = "length (takeWhile (\<lambda>c. \<not> is_eol c) cs)"
  have "plain_upto (?n + 1 + 1) (lx_rest s)"
    unfolding r by (intro plain_upto_Cons length_takeWhile_plain) (auto simp: is_eol_def)
  then show ?thesis
    using assms(3)
    by (auto simp: lex_line_comment_def r intro!: exI [of _ "Suc (Suc ?n)"] moves_plain)
qed

lemma moves_block_comment:
  assumes "chead (lx_rest s) = SLASH" "chead (tl (lx_rest s)) = STAR" "lex_block_comment s = Inr s'"
  shows "\<exists>n. moves_by n s s'"
proof -
  obtain cs where r: "lx_rest s = SLASH # STAR # cs"
    using assms(1,2) by (cases "lx_rest s"; cases "tl (lx_rest s)") auto
  obtain n q where b: "block_comment cs (lx_line s) (lx_col s + 2) = Some (n, q)"
    and s': "s' = (eat (n + 4) s)\<lparr>lx_line := fst q, lx_col := snd q + 2\<rparr>"
    using assms(3) by (auto simp: lex_block_comment_def r split: option.splits)
  have "plain_upto 2 (lx_rest s)" by (simp add: plain_upto_def r is_eol_def)
  then have "spans (lx_rest s) (2 + (n + 2)) (lx_line s, lx_col s) (fst q, snd q + 2)"
    by (rule spans_add [OF spans_plain]) (use block_comment_spans [OF b] in \<open>simp add: r\<close>)
  moreover have "2 + (n + 2) = n + 4" by simp
  ultimately have "moves_by (n + 4) s s'"
    by (simp only: moves_by_def s') (simp add: r)
  then show ?thesis by blast
qed

lemma moves_string:
  assumes "chead (lx_rest s) = DQUOTE" "lx_rest s \<noteq> []" "lex_string s = Inr s'"
  shows "\<exists>n. moves_by n s s'"
proof -
  obtain buf n where b: "string_body (lx_line s) (lx_col s) (lx_line s) (tl (lx_rest s)) (lx_col s + 1) = Inr (buf, n)"
    and s': "s' = push TK_STRING_LITERAL buf (lx_line s) (lx_col s) (eat (n + 2) s)"
    using assms(3) by (auto simp: lex_string_def rbind_eq_Inr)
  have "plain_upto (n + 2) (lx_rest s)"
    using plain_upto_tl [OF assms(2) _ string_body_plain [OF b]] assms(1) by (simp add: is_eol_def)
  then show ?thesis
    using assms(1) by (auto simp: s' spells_def intro!: exI [of _ "n + 2"] moves_plain)
qed

lemma moves_raw_string:
  assumes "chead (lx_rest s) = BQUOTE" "lx_rest s \<noteq> []" "lex_raw_string s = Inr s'"
  shows "\<exists>n. moves_by n s s'"
proof -
  obtain buf n q where b: "raw_body (tl (lx_rest s)) (lx_line s) (lx_col s + 1) = Some (buf, n, q)"
    and s': "s' = (push TK_STRING_LITERAL buf (lx_line s) (lx_col s) (eat (n + 2) s))\<lparr>lx_line := fst q, lx_col := snd q + 1\<rparr>"
    using assms(3) by (auto simp: lex_raw_string_def split: option.splits)
  have "plain_upto 1 (lx_rest s)"
    using plain_upto_Suc_0 [OF assms(2)] assms(1) by (simp add: is_eol_def)
  from spans_add [OF spans_plain [OF this, of "lx_line s" "lx_col s"], of "n + 1"] raw_body_spans [OF b]
  show ?thesis
    using assms(1) by (auto simp: moves_by_def s' spells_def drop_Suc intro!: exI [of _ "n + 2"])
qed

lemma moves_number:
  assumes "isdigit (chead (lx_rest s))" "lx_rest s \<noteq> []" "lex_number s = Inr s'"
  shows "\<exists>n. moves_by n s s'"
proof -
  obtain f n where n: "number (lx_rest s) = Inr (f, n)"
    and s': "s' = push (if f then TK_FLT_LITERAL else TK_INT_LITERAL) (take n (lx_rest s)) (lx_line s) (lx_col s) (eat n s)"
    using assms(3) by (auto simp: lex_number_def split: sum.splits)
  show ?thesis
    using number_plain [OF n] number_pos [OF assms(1) n] assms(2)
    by (auto simp: s' spells_def take_is_prefix intro!: exI [of _ n] moves_plain)
qed

lemma moves_word:
  assumes "word_start (chead (lx_rest s))" "lx_rest s \<noteq> []" "lex_word s = Inr s'"
  shows "\<exists>n. moves_by n s s'"
proof (cases "splits_shape_x s")
  case True
  then have "chead (lx_rest s) = CHR ''x''" by (simp add: splits_shape_x_def)
  with True assms show ?thesis
    using plain_upto_Suc_0 [OF assms(2)]
    by (cases "lx_rest s")
      (auto simp: lex_word_def spells_def is_eol_def intro!: exI [of _ "Suc 0"] moves_plain)
next
  case False
  let ?w = "takeWhile word_char (lx_rest s)"
  have "?w \<noteq> []" using assms(1,2) by (cases "lx_rest s") auto
  moreover have "prefix ?w (lx_rest s)" by (simp add: takeWhile_is_prefix)
  moreover have "plain_upto (length ?w) (lx_rest s)"
    by (intro length_takeWhile_plain) (rule word_char_noeol)
  ultimately show ?thesis
    using False assms(3) keyword_kind_plain [of ?w]
    by (auto simp: lex_word_def Let_def spells_def intro!: exI [of _ "length ?w"] moves_plain)
qed

lemma moves_operator:
  assumes "lex_operator s = Inr s'"
  shows "\<exists>n. moves_by n s s'"
proof (cases "map_of two_char_ops (take 2 (lx_rest s))")
  case None
  with assms obtain k where "map_of one_char_ops (chead (lx_rest s)) = Some k"
    and s': "s' = push k (take 1 (lx_rest s)) (lx_line s) (lx_col s) (eat 1 s)"
    by (auto simp: lex_operator_def split: option.splits)
  from one_char_op_spelling [OF this(1)] show ?thesis
    by (auto simp: s' spells_def take_is_prefix intro!: exI [of _ "Suc 0"] moves_plain)
next
  case (Some k)
  with assms two_char_op_spelling [OF Some] show ?thesis
    by (auto simp: lex_operator_def spells_def take_is_prefix intro!: exI [of _ 2] moves_plain)
qed

lemma lex_step_moves:
  assumes "lx_rest s \<noteq> []" and "lex_step s = Inr s'"
  shows "\<exists>n. moves_by n s s'"
proof -
  have blank: "\<exists>n. moves_by n s (eat (Suc 0) s)"
    if "chead (lx_rest s) = SPACE \<or> chead (lx_rest s) = TAB"
    using that assms(1) plain_upto_Suc_0 [OF assms(1)]
    by (auto simp: is_eol_def intro!: exI [of _ "Suc 0"] moves_plain)
  show ?thesis
    using assms(2) unfolding lex_step_def Let_def
    by (auto split: if_splits intro: blank moves_eol [OF assms(1)] moves_line_comment
        moves_block_comment moves_string [OF _ assms(1)] moves_raw_string [OF _ assms(1)]
        moves_number [OF _ assms(1)] moves_word [OF _ assms(1)] moves_operator)
qed

section \<open>Every token is located\<close>

definition lex_inv :: "string \<Rightarrow> lexer \<Rightarrow> bool" where
  "lex_inv src s \<longleftrightarrow>
     (\<exists>n. src = rev (lx_past s) @ lx_rest s \<and> n = length (lx_past s) \<and> spans src n (1, 1) (lx_line s, lx_col s)) \<and>
     (\<forall>t \<in> set (lx_out s). located src t)"

lemma lex_inv_located:
  assumes "lex_inv src s" "tk_line t = lx_line s" "tk_col t = lx_col s" "spells t (lx_rest s)"
  shows "located src t"
proof -
  from assms(1) have "src = rev (lx_past s) @ lx_rest s" "advance 1 1 (rev (lx_past s)) = (lx_line s, lx_col s)"
    by (auto simp: lex_inv_def spans_def)
  with assms(2-) show ?thesis by (auto simp: located_def)
qed

lemma lex_inv_moves:
  assumes "lex_inv src s" and "moves_by n s s'"
  shows "lex_inv src s'"
proof -
  let ?m = "length (lx_past s)"
  from assms have src: "src = rev (lx_past s) @ lx_rest s" and sp: "spans src ?m (1, 1) (lx_line s, lx_col s)"
    and mv: "spans (lx_rest s) n (lx_line s, lx_col s) (lx_line s', lx_col s')"
    by (auto simp: lex_inv_def moves_by_def)
  have "spans (drop ?m src) n (lx_line s, lx_col s) (lx_line s', lx_col s')" using mv by (simp add: src)
  from spans_add [OF sp this] have "spans src (?m + n) (1, 1) (lx_line s', lx_col s')" .
  moreover have "n \<le> length (lx_rest s)" using mv by (simp add: spans_def)
  ultimately show ?thesis
    using assms(2) src assms(1) lex_inv_located [OF assms(1)]
    by (auto simp: lex_inv_def moves_by_def add.commute)
qed

lemma lex_loop_located:
  "lex_loop s = Inr ts \<Longrightarrow> lex_inv src s \<Longrightarrow> \<forall>t \<in> set ts. located src t"
proof (induction s rule: lex_loop.induct)
  case (1 s)
  show ?case
  proof (cases "lx_rest s = []")
    case True
    let ?t = "\<lparr>tk_kind = TK_EOF, tk_text = [], tk_line = lx_line s, tk_col = lx_col s\<rparr>"
    have "located src ?t"
      by (rule lex_inv_located [OF "1.prems"(2)]) (simp_all add: spells_def True)
    with True "1.prems" show ?thesis by (auto simp: lex_loop.simps [of s] lex_inv_def)
  next
    case False
    with "1.prems"(1) obtain s' where "lex_step s = Inr s'" "lex_loop s' = Inr ts"
      by (auto simp: lex_loop.simps [of s] rbind_eq_Inr)
    with "1.IH" [OF False] "1.prems"(2) lex_step_moves [OF False] show ?thesis
      by (blast intro: lex_inv_moves)
  qed
qed

lemma lex_source_located: "lex_source src = Inr ts \<Longrightarrow> \<forall>t \<in> set ts. located src t"
  unfolding lex_source_def by (erule lex_loop_located) (simp add: lex_inv_def spans_0)

section \<open>Properties\<close>

text \<open>
  C9: The lexer is total: it ends with a diagnostic at a position of the source, or with a token
  stream whose only end-of-file token is its last one and in which every token's line and
  column locate, in the source, the text the token was read from.
\<close>

theorem lex_source_correct:
  "case lex_source src of
     Inl e \<Rightarrow> is_diagnostic e
   | Inr ts \<Rightarrow> stream_ok ts \<and> list_all (located src) ts"
proof (cases "lex_source src")
  case (Inl e)
  then show ?thesis using lex_source_error by simp
next
  case (Inr ts)
  then show ?thesis using lex_source_stream_ok lex_source_located by (auto simp: list_all_iff)
qed

text \<open>The source spelling of a string: its four escapes.\<close>

definition literal_char :: "char \<Rightarrow> string" where
  "literal_char c =
     (if c = DQUOTE \<or> c = BSLASH then [BSLASH, c]
      else if c = NL then [BSLASH, CHR ''n''] else if c = TAB then [BSLASH, CHR ''t''] else [c])"

lemma literal_char_simps:
  "literal_char DQUOTE = [BSLASH, DQUOTE]" "literal_char BSLASH = [BSLASH, BSLASH]"
  "literal_char NL = [BSLASH, CHR ''n'']" "literal_char TAB = [BSLASH, CHR ''t'']"
  "c \<noteq> DQUOTE \<Longrightarrow> c \<noteq> BSLASH \<Longrightarrow> c \<noteq> NL \<Longrightarrow> c \<noteq> TAB \<Longrightarrow> literal_char c = [c]"
  by (simp_all add: literal_char_def)

lemma string_body_literal:
  "CR \<notin> set s \<Longrightarrow>
     string_body l0 c0 l (concat (map literal_char s) @ DQUOTE # r) c = Inr (s, length (concat (map literal_char s)))"
proof (induction s arbitrary: c)
  case (Cons ch s)
  then have ih: "string_body l0 c0 l (concat (map literal_char s) @ DQUOTE # r) c' =
      Inr (s, length (concat (map literal_char s)))" for c' by simp
  show ?case
    using Cons.prems
    by (cases "ch = DQUOTE"; cases "ch = BSLASH"; cases "ch = NL"; cases "ch = TAB")
      (auto simp: literal_char_simps escape_char_def is_eol_def ih)
qed simp

text \<open>
  C10: String literals round trip: a string without carriage returns, written with the
  language's escapes between double quotes, is read back as one string token with exactly
  that text, and the column after it counts the spelling, not the text.
\<close>

theorem lex_string_literal:
  assumes "CR \<notin> set s"
  shows "lex_source (DQUOTE # concat (map literal_char s) @ [DQUOTE]) =
     Inr [\<lparr>tk_kind = TK_STRING_LITERAL, tk_text = s, tk_line = 1, tk_col = 1\<rparr>,
          \<lparr>tk_kind = TK_EOF, tk_text = [], tk_line = 1,
             tk_col = length (concat (map literal_char s)) + 3\<rparr>]"
proof -
  let ?t = "concat (map literal_char s)"
  let ?s0 = "\<lparr>lx_past = [], lx_rest = DQUOTE # ?t @ [DQUOTE], lx_line = 1, lx_col = 1, lx_out = []\<rparr>"
  let ?s1 = "push TK_STRING_LITERAL s 1 1 (eat (length ?t + 2) ?s0)"
  have "lex_step ?s0 = Inr ?s1"
    by (simp add: lex_step_def lex_string_def is_eol_def Let_def string_body_literal [OF assms, of _ _ _ "[]", simplified])
  then have "lex_loop ?s0 = lex_loop ?s1" by (subst lex_loop.simps) simp
  also have "\<dots> = Inr (lx_out ?s1 @ [\<lparr>tk_kind = TK_EOF, tk_text = [], tk_line = 1, tk_col = length ?t + 3\<rparr>])"
    by (subst lex_loop.simps) (simp add: push_def eat_def)
  finally show ?thesis by (simp add: lex_source_def push_def eat_def)
qed

theorem lex_string_literal_witness:
  "lex_source (DQUOTE # concat (map literal_char [CHR ''a'', DQUOTE, NL]) @ [DQUOTE]) =
     Inr [\<lparr>tk_kind = TK_STRING_LITERAL, tk_text = [CHR ''a'', DQUOTE, NL], tk_line = 1, tk_col = 1\<rparr>,
          \<lparr>tk_kind = TK_EOF, tk_text = [], tk_line = 1,
             tk_col = length (concat (map literal_char [CHR ''a'', DQUOTE, NL])) + 3\<rparr>]"
  by (rule lex_string_literal) simp

end
