(* ===== verification/ParserLogic.thy ===== *)
theory ParserLogic
  imports AstShape LexerFacts
begin

text \<open>
  A small program logic for the parser. \<open>spec T R d V m\<close> says of the parse action \<open>m\<close>:
  from any well-formed state with at most \<open>R\<close> tokens left and the current token in \<open>T\<close>, it
  either reports a diagnostic or returns an \<open>x\<close> with \<open>V x\<close> in a well-formed state over the
  same tokens, at least \<open>d x\<close> tokens further on. So it never reads outside the token array,
  never runs out of fuel and never dereferences null. One rule per construct.
\<close>

section \<open>Well-formed states\<close>

text \<open>What the later phases rely on in a single token: the spelling its kind promises.\<close>

definition tok_ok :: "token \<Rightarrow> bool" where
  "tok_ok t \<longleftrightarrow>
     (tk_kind t = TK_STAR \<longrightarrow> tk_text t = ''*'') \<and> (tk_kind t = TK_MINUS \<longrightarrow> tk_text t = ''-'') \<and>
     (tk_kind t = TK_BANG \<longrightarrow> tk_text t = ''!'') \<and> (tk_kind t = TK_REF \<longrightarrow> tk_text t = ''REF'') \<and>
     (tk_kind t = TK_HOLD \<longrightarrow> tk_text t = ''hold'') \<and>
     (tk_kind t \<in> {TK_NAME, TK_INT, TK_FLT, TK_BOL, TK_STR, TK_NUL_TYPE, TK_ARR}
        \<longrightarrow> name_ok (tk_text t))"

definition tokens_ok :: "token list \<Rightarrow> bool" where
  "tokens_ok ts \<longleftrightarrow> stream_ok ts \<and> (\<forall>t \<in> set ts. tok_ok t)"

definition wf_state :: "parser \<Rightarrow> bool" where
  "wf_state p \<longleftrightarrow> tokens_ok (toks p) \<and> pos p < length (toks p)"

definition cur_tok :: "parser \<Rightarrow> token" where
  "cur_tok p = toks p ! pos p"

lemma stream_ok_eof:
  "stream_ok ts \<Longrightarrow> i < length ts \<Longrightarrow> tk_kind (ts ! i) = TK_EOF \<longleftrightarrow> Suc i = length ts"
  by (cases ts rule: rev_cases) (auto simp: stream_ok_def nth_append less_Suc_eq)

lemma wf_state_next:
  "wf_state p \<Longrightarrow> i < length (toks p) \<Longrightarrow> tk_kind (toks p ! i) \<noteq> TK_EOF \<Longrightarrow> Suc i < length (toks p)"
  using stream_ok_eof [of "toks p" i] by (auto simp: wf_state_def tokens_ok_def)

lemma wf_state_remaining: "wf_state p \<Longrightarrow> 0 < remaining p"
  by (simp add: wf_state_def remaining_def)

lemma wf_state_cur_ok: "wf_state p \<Longrightarrow> tok_ok (cur_tok p)"
  by (simp add: wf_state_def tokens_ok_def cur_tok_def)

section \<open>The judgement\<close>

fun outcome :: "parser \<Rightarrow> ('a \<Rightarrow> nat) \<Rightarrow> ('a \<Rightarrow> bool) \<Rightarrow> ('a \<times> parser) result \<Rightarrow> bool" where
  "outcome p d V (Inl e) = is_diagnostic e"
| "outcome p d V (Inr (x, q)) = (wf_state q \<and> toks q = toks p \<and> pos p + d x \<le> pos q \<and> V x)"

definition spec :: "token set \<Rightarrow> nat \<Rightarrow> ('a \<Rightarrow> nat) \<Rightarrow> ('a \<Rightarrow> bool) \<Rightarrow> 'a parse \<Rightarrow> bool" where
  "spec T R d V m \<longleftrightarrow>
     (\<forall>p. wf_state p \<and> remaining p \<le> R \<and> cur_tok p \<in> T \<longrightarrow> outcome p d V (m p))"

lemma specI:
  assumes "\<And>p. wf_state p \<Longrightarrow> remaining p \<le> R \<Longrightarrow> cur_tok p \<in> T \<Longrightarrow> outcome p d V (m p)"
  shows "spec T R d V m"
  using assms by (simp add: spec_def)

lemma specD:
  "spec T R d V m \<Longrightarrow> wf_state p \<Longrightarrow> remaining p \<le> R \<Longrightarrow> cur_tok p \<in> T \<Longrightarrow> outcome p d V (m p)"
  by (simp add: spec_def)

lemma outcome_remaining:
  "outcome p d V (Inr (x, q)) \<Longrightarrow> wf_state p \<Longrightarrow> remaining q + d x \<le> remaining p"
  by (auto simp: remaining_def wf_state_def)

lemma outcome_cases:
  assumes "outcome p d V r" "\<And>e. r = Inl e \<Longrightarrow> is_diagnostic e \<Longrightarrow> thesis"
    "\<And>x q. r = Inr (x, q) \<Longrightarrow> wf_state q \<Longrightarrow> toks q = toks p \<Longrightarrow> pos p + d x \<le> pos q \<Longrightarrow> V x \<Longrightarrow> thesis"
  shows thesis
  using assms by (cases r rule: sum.exhaust) auto

lemma outcome_weaken:
  assumes "outcome p d' V' r" "\<And>x. V' x \<Longrightarrow> d x \<le> d' x \<and> V x"
  shows "outcome p d V r"
  using assms(1) by (rule outcome_cases) (use assms(2) in \<open>fastforce+\<close>)

lemma spec_weaken:
  assumes "spec T' R' d' V' m" "T \<subseteq> T'" "R \<le> R'" "\<And>x. V' x \<Longrightarrow> d x \<le> d' x \<and> V x"
  shows "spec T R d V m"
  by (rule specI, rule outcome_weaken, rule specD [OF assms(1)]) (use assms(2-4) in auto)

lemma spec_conseq:
  assumes "spec T R d' V' m" "\<And>x. V' x \<Longrightarrow> d x \<le> d' x \<and> V x"
  shows "spec T R d V m"
  using assms by (blast intro: spec_weaken)

lemma spec_ret: "d x = 0 \<Longrightarrow> V x \<Longrightarrow> spec T R d V (ret x)"
  by (simp add: spec_def ret_def)

lemma spec_fail: "is_diagnostic e \<Longrightarrow> spec T R d V (fail e)"
  by (simp add: spec_def fail_def)

lemma spec_die: "spec T R d V (die t msg)"
  by (simp add: die_def spec_fail)

lemma spec_die_node: "spec T R d V (die_node n msg)"
  by (simp add: die_node_def spec_fail)

lemma spec_bind:
  assumes m: "spec T R d1 V1 m"
    and f: "\<And>x. V1 x \<Longrightarrow> spec UNIV (R - d1 x) (\<lambda>y. d y - d1 x) V (f x)"
  shows "spec T R d V (pbind m f)"
proof (rule specI)
  fix p assume p: "wf_state p" "remaining p \<le> R" "cur_tok p \<in> T"
  from specD [OF m p] show "outcome p d V (pbind m f p)"
  proof (rule outcome_cases)
    fix x q assume mp: "m p = Inr (x, q)" and q: "wf_state q" "toks q = toks p" "pos p + d1 x \<le> pos q" "V1 x"
    have "remaining q \<le> R - d1 x" using p(1,2) q(1-3) by (auto simp: remaining_def wf_state_def)
    from specD [OF f [OF q(4)] q(1) this UNIV_I] show ?thesis
      by (rule outcome_cases) (use q mp in \<open>auto simp: pbind_def\<close>)
  qed (simp add: pbind_def)
qed

lemma spec_then:
  assumes "spec T R d1 V1 m"
    and "\<And>x. V1 x \<Longrightarrow> spec UNIV (R - d1 x) (\<lambda>y. d y - d1 x) V k"
  shows "spec T R d V (pthen m k)"
  unfolding pthen_def by (rule spec_bind [OF assms])

text \<open>Two actions with the same result on the states considered.\<close>

lemma spec_cong:
  assumes "spec T' R d V k" "\<And>p. wf_state p \<Longrightarrow> cur_tok p \<in> T \<Longrightarrow> cur_tok p \<in> T' \<and> m p = k p"
  shows "spec T R d V m"
  using assms by (simp add: spec_def)

subsection \<open>Reading tokens\<close>

lemma peek_eq:
  "wf_state p \<Longrightarrow> cur p = Inr (cur_tok p, p)"
  by (simp add: cur_def peek_def cur_tok_def wf_state_def)

lemma spec_cur_bind:
  assumes "\<And>t. t \<in> T \<Longrightarrow> tok_ok t \<Longrightarrow> spec {t} R d V (f t)"
  shows "spec T R d V (pbind cur f)"
proof (rule specI)
  fix p assume p: "wf_state p" "remaining p \<le> R" "cur_tok p \<in> T"
  have "pbind cur f p = f (cur_tok p) p" using p(1) by (simp add: pbind_def peek_eq)
  with assms [OF p(3) wf_state_cur_ok [OF p(1)]] p
  show "outcome p d V (pbind cur f p)"
    by (simp add: spec_def)
qed

lemma bump_wf:
  assumes "wf_state p" "tk_kind (cur_tok p) \<noteq> TK_EOF"
  shows "wf_state (p\<lparr>pos := Suc (pos p)\<rparr>)"
  using assms wf_state_next [of p "pos p"] by (auto simp: wf_state_def cur_tok_def)

lemma spec_bump:
  "(\<And>t. t \<in> T \<Longrightarrow> tk_kind t \<noteq> TK_EOF) \<Longrightarrow> spec T R (\<lambda>_. 1) (\<lambda>_. True) bump"
  by (rule specI) (auto simp: bump_def bump_wf)

lemma spec_bump_then:
  assumes "\<And>t. t \<in> T \<Longrightarrow> tk_kind t \<noteq> TK_EOF" "spec UNIV (R - 1) (\<lambda>y. d y - 1) V k"
  shows "spec T R d V (pthen bump k)"
  using assms by (blast intro: spec_then [OF spec_bump])

lemma spec_expect:
  assumes "k \<noteq> TK_EOF"
  shows "spec T R (\<lambda>_. 1) (\<lambda>t. tk_kind t = k \<and> tok_ok t) (expect k msg)"
  unfolding expect_def
  by (rule spec_cur_bind) (auto simp: assms intro!: spec_die spec_bump_then spec_ret)

lemma spec_expect_bind:
  assumes "k \<noteq> TK_EOF"
    and "\<And>t. tk_kind t = k \<Longrightarrow> tok_ok t \<Longrightarrow> spec UNIV (R - 1) (\<lambda>y. d y - 1) V (f t)"
  shows "spec T R d V (pbind (expect k msg) f)"
  by (rule spec_bind [OF spec_expect]) (use assms in auto)

lemma spec_expect_then:
  assumes "k \<noteq> TK_EOF" and "spec UNIV (R - 1) (\<lambda>y. d y - 1) V f"
  shows "spec T R d V (pthen (expect k msg) f)"
  by (rule spec_then [OF spec_expect]) (use assms in auto)

lemma spec_match:
  assumes "k \<noteq> TK_EOF"
  shows "spec T R (\<lambda>b. if b then 1 else 0) (\<lambda>_. True) (match k)"
  unfolding match_def
  by (rule spec_cur_bind) (auto simp: assms intro!: spec_bump_then spec_ret)

text \<open>When a test fails, the state has not moved and the current token is known to differ.\<close>

lemma pif_match_eq:
  "wf_state p \<Longrightarrow> pif (match k) a b p = (if tk_kind (cur_tok p) = k then pthen bump a p else b p)"
  by (simp add: pif_def match_def pbind_def pthen_def peek_eq bump_def ret_def)

lemma spec_pif_match:
  assumes k: "k \<noteq> TK_EOF" and a: "\<exists>t \<in> T. tk_kind t = k \<Longrightarrow> spec UNIV (R - 1) (\<lambda>y. d y - 1) V a"
    and b: "spec (T \<inter> {t. tk_kind t \<noteq> k}) R d V b"
  shows "spec T R d V (pif (match k) a b)"
proof (rule specI)
  fix p assume p: "wf_state p" "remaining p \<le> R" "cur_tok p \<in> T"
  have "spec {t. tk_kind t = k} R d V (pthen bump a)" if "tk_kind (cur_tok p) = k"
    by (rule spec_bump_then [OF _ a]) (use k p that in auto)
  then show "outcome p d V (pif (match k) a b p)"
    using p b by (auto simp: pif_match_eq spec_def)
qed

lemma pif_por: "pif (por c e) a b = pif c a (pif e a b)"
  by (rule ext) (auto simp: pif_def por_def pbind_def ret_def split: sum.splits prod.splits if_splits)

lemma pif_pand: "pif (pand c e) a b = pif c (pif e a b) b"
  by (rule ext) (auto simp: pif_def pand_def pbind_def ret_def split: sum.splits prod.splits if_splits)

lemma pif_ret: "pif (ret c) a b = (if c then a else b)"
  by (rule ext) (simp add: pif_def pbind_def ret_def)

lemma spec_pif_match_any:
  assumes a: "\<exists>t \<in> T. tk_kind t \<in> set ks \<Longrightarrow> spec UNIV (R - 1) (\<lambda>y. d y - 1) V a"
    and k: "TK_EOF \<notin> set ks" and b: "spec (T \<inter> {t. tk_kind t \<notin> set ks}) R d V b"
  shows "spec T R d V (pif (match_any ks) a b)"
  using assms
proof (induction ks arbitrary: T)
  case Nil
  then show ?case by (simp add: pif_ret)
next
  case (Cons k ks)
  have eq: "T \<inter> {t. tk_kind t \<noteq> k} \<inter> {t. tk_kind t \<notin> set ks} = T \<inter> {t. tk_kind t \<notin> set (k # ks)}"
    by auto
  have "k \<noteq> TK_EOF" using Cons.prems(2) by auto
  moreover have "spec UNIV (R - 1) (\<lambda>y. d y - 1) V a" if "\<exists>t \<in> T. tk_kind t = k"
    by (rule Cons.prems(1)) (use that in auto)
  moreover have "spec (T \<inter> {t. tk_kind t \<noteq> k}) R d V (pif (match_any ks) a b)"
    by (rule Cons.IH) (use Cons.prems in \<open>simp_all only: eq, auto\<close>)
  ultimately show ?case unfolding match_any.simps pif_por pif_ret if_True by (rule spec_pif_match)
qed

lemma spec_pif_cur_is:
  assumes "spec (T \<inter> {t. tk_kind t = k}) R d V a" "spec (T \<inter> {t. tk_kind t \<noteq> k}) R d V b"
  shows "spec T R d V (pif (cur_is k) a b)"
proof -
  have "pif (cur_is k) a b = pbind cur (\<lambda>t. if tk_kind t = k then a else b)"
    by (rule ext) (simp add: pif_def cur_is_def pbind_def ret_def split: sum.splits prod.splits)
  moreover have "spec T R d V (pbind cur (\<lambda>t. if tk_kind t = k then a else b))"
    by (rule spec_cur_bind) (auto intro: spec_weaken [OF assms(1)] spec_weaken [OF assms(2)])
  ultimately show ?thesis by simp
qed

text \<open>Tests that read further tokens only after the earlier ones excluded the end of file.\<close>

definition reads :: "token set \<Rightarrow> 'a parse \<Rightarrow> bool" where
  "reads T c \<longleftrightarrow> (\<forall>p. wf_state p \<and> cur_tok p \<in> T \<longrightarrow> (\<exists>x. c p = Inr (x, p)))"

lemma spec_reads_bind:
  assumes "reads T c" "\<And>x. spec T R d V (f x)"
  shows "spec T R d V (pbind c f)"
proof (rule specI)
  fix p assume p: "wf_state p" "remaining p \<le> R" "cur_tok p \<in> T"
  with assms(1) obtain x where "c p = Inr (x, p)" by (auto simp: reads_def)
  with assms(2) [of x] p
  show "outcome p d V (pbind c f p)"
    by (simp add: spec_def pbind_def)
qed

lemma spec_pif_reads:
  assumes "reads T c" "spec T R d V a" "spec T R d V b"
  shows "spec T R d V (pif c a b)"
  unfolding pif_def using assms by (auto intro: spec_reads_bind)

lemma spec_get_newline_ops_bind:
  "(\<And>b. spec T R d V (f b)) \<Longrightarrow> spec T R d V (pbind get_newline_ops f)"
  by (rule spec_reads_bind) (simp_all add: reads_def get_newline_ops_def)

lemma spec_set_newline_ops: "spec T R (\<lambda>_. 0) (\<lambda>_. True) (set_newline_ops b)"
  by (rule specI) (simp add: set_newline_ops_def wf_state_def)

lemma spec_set_newline_ops_then:
  "spec UNIV R d V k \<Longrightarrow> spec T R d V (pthen (set_newline_ops b) k)"
  by (rule spec_then [OF spec_set_newline_ops]) simp

text \<open>\<open>prev\<close> reads the token before a position that is never the first one.\<close>

definition prev_ok :: "parser \<Rightarrow> bool" where
  "prev_ok p \<longleftrightarrow> wf_state p \<and> 0 < pos p"

lemma prev_eq: "prev_ok p \<Longrightarrow> prev p = Inr (toks p ! (pos p - 1), p)"
  by (auto simp: prev_ok_def prev_def wf_state_def)

lemma bump_prev_eq:
  "wf_state p \<Longrightarrow> pthen bump (pbind prev f) p = pthen bump (f (cur_tok p)) p"
  by (simp add: pbind_def pthen_def bump_def prev_def wf_state_def cur_tok_def)

lemma spec_pif_match_prev:
  assumes k: "k \<noteq> TK_EOF"
    and a: "\<And>t. tk_kind t = k \<Longrightarrow> tok_ok t \<Longrightarrow> spec UNIV (R - 1) (\<lambda>y. d y - 1) V (f t)"
    and b: "spec (T \<inter> {t. tk_kind t \<noteq> k}) R d V b"
  shows "spec T R d V (pif (match k) (pbind prev f) b)"
proof (rule specI)
  fix p assume p: "wf_state p" "remaining p \<le> R" "cur_tok p \<in> T"
  show "outcome p d V (pif (match k) (pbind prev f) b p)"
  proof (cases "tk_kind (cur_tok p) = k")
    case True
    have "spec {cur_tok p} R d V (pthen bump (f (cur_tok p)))"
      by (rule spec_bump_then [OF _ a]) (use True k wf_state_cur_ok [OF p(1)] in auto)
    from specD [OF this p(1,2) singletonI] show ?thesis
      using p True by (simp add: pif_match_eq bump_prev_eq)
  next
    case False
    then show ?thesis using p b by (auto simp: pif_match_eq spec_def)
  qed
qed

subsection \<open>Loops\<close>

text \<open>
  The loop rule: \<open>I\<close> is kept by every round, and a round that continues has consumed a
  token.
\<close>

abbreviation more :: "'s + 'a \<Rightarrow> nat" where
  "more r \<equiv> (case r of Inl _ \<Rightarrow> 1 | Inr _ \<Rightarrow> 0)"

abbreviation keeps :: "('s \<Rightarrow> bool) \<Rightarrow> ('a \<Rightarrow> bool) \<Rightarrow> 's + 'a \<Rightarrow> bool" where
  "keeps I V \<equiv> case_sum I V"

lemma ploop_n_Suc:
  "ploop_n (Suc n) b s p =
     (case b s p of Inl e \<Rightarrow> Inl e | Inr (Inl s', q) \<Rightarrow> ploop_n n b s' q | Inr (Inr x, q) \<Rightarrow> Inr (x, q))"
  by (auto simp: pbind_def ret_def split: sum.splits)

declare ploop_n.simps(2) [simp del]

lemma ploop_n_spec:
  assumes round: "\<And>s. I s \<Longrightarrow> spec UNIV R more (keeps I V) (b s)"
  shows "I s \<Longrightarrow> wf_state p \<Longrightarrow> remaining p \<le> R \<Longrightarrow> remaining p < n \<Longrightarrow>
     outcome p (\<lambda>_. 0) V (ploop_n n b s p)"
proof (induction n arbitrary: s p)
  case 0
  then show ?case by simp
next
  case (Suc n)
  from specD [OF round [OF Suc.prems(1)] Suc.prems(2,3) UNIV_I] show ?case
  proof (rule outcome_cases)
    fix y q assume bs: "b s p = Inr (y, q)"
      and q: "wf_state q" "toks q = toks p" "pos p + more y \<le> pos q" "keeps I V y"
    show ?thesis
    proof (cases y)
      case (Inl s')
      then have lt: "I s'" "remaining q < remaining p"
        using q Suc.prems(2) by (auto simp: remaining_def wf_state_def)
      have "outcome q (\<lambda>_. 0) V (ploop_n n b s' q)"
        by (rule Suc.IH) (use lt q Suc.prems(3,4) in auto)
      then show ?thesis
        by (rule outcome_cases) (use q Inl bs in \<open>auto simp: ploop_n_Suc\<close>)
    next
      case (Inr x)
      then show ?thesis using q bs by (simp add: ploop_n_Suc)
    qed
  qed (simp add: ploop_n_Suc)
qed

lemma spec_ploop:
  assumes "I s" "\<And>s. I s \<Longrightarrow> spec UNIV R more (keeps I V) (b s)"
  shows "spec T R (\<lambda>_. 0) V (ploop b s)"
  by (rule specI) (use ploop_n_spec [of I R V b, OF assms(2) assms(1)] in \<open>simp add: ploop_def\<close>)

text \<open>Enough fuel is enough: a loop is its first round and the loop again.\<close>

lemma ploop_n_mono:
  assumes round: "\<And>s. I s \<Longrightarrow> spec UNIV R more (keeps I (\<lambda>_. True)) (b s)"
  shows "I s \<Longrightarrow> wf_state p \<Longrightarrow> remaining p \<le> R \<Longrightarrow> remaining p < n \<Longrightarrow> remaining p < m \<Longrightarrow>
     ploop_n n b s p = ploop_n m b s p"
proof (induction n arbitrary: m s p)
  case 0
  then show ?case by simp
next
  case (Suc n)
  obtain m' where m: "m = Suc m'" using Suc.prems(5) by (cases m) auto
  from specD [OF round [OF Suc.prems(1)] Suc.prems(2,3) UNIV_I] show ?case
  proof (rule outcome_cases)
    fix y q assume bs: "b s p = Inr (y, q)"
      and q: "wf_state q" "toks q = toks p" "pos p + more y \<le> pos q" "keeps I (\<lambda>_. True) y"
    show ?thesis
    proof (cases y)
      case (Inl s')
      then have lt: "I s'" "remaining q < remaining p"
        using q Suc.prems(2) by (auto simp: remaining_def wf_state_def)
      have "ploop_n n b s' q = ploop_n m' b s' q"
        by (rule Suc.IH) (use lt q Suc.prems in \<open>auto simp: m\<close>)
      then show ?thesis using Inl bs by (simp add: m ploop_n_Suc)
    next
      case (Inr x)
      then show ?thesis using bs by (simp add: m ploop_n_Suc)
    qed
  qed (simp add: m ploop_n_Suc)
qed

lemma ploop_unfold:
  assumes round: "\<And>s. I s \<Longrightarrow> spec UNIV R more (keeps I (\<lambda>_. True)) (b s)"
    and "I s" "wf_state p" "remaining p \<le> R"
  shows "ploop b s p =
    (case b s p of Inl e \<Rightarrow> Inl e | Inr (Inl s', q) \<Rightarrow> ploop b s' q | Inr (Inr x, q) \<Rightarrow> Inr (x, q))"
  using specD [OF round [OF assms(2)] assms(3,4) UNIV_I]
proof (rule outcome_cases)
  fix y q assume bs: "b s p = Inr (y, q)"
    and q: "wf_state q" "toks q = toks p" "pos p + more y \<le> pos q" "keeps I (\<lambda>_. True) y"
  show ?thesis
  proof (cases y)
    case (Inl s')
    then have lt: "I s'" "remaining q < remaining p"
      using q assms(3) by (auto simp: remaining_def wf_state_def)
    have "ploop_n (remaining p) b s' q = ploop_n (Suc (remaining q)) b s' q"
      by (rule ploop_n_mono [of I R b, OF round]) (use lt q assms(4) in auto)
    then show ?thesis using Inl bs by (simp add: ploop_def ploop_n_Suc)
  next
    case (Inr x)
    then show ?thesis using bs by (simp add: ploop_def ploop_n_Suc)
  qed
qed (simp add: ploop_def ploop_n_Suc)

text \<open>A loop whose first round, on the tokens at hand, consumes one consumes one itself.\<close>

lemma spec_ploop_first:
  assumes round: "\<And>s. I s \<Longrightarrow> spec UNIV R more (keeps I V) (b s)"
    and first: "spec T R (\<lambda>_. 1) (keeps I V) (b s)" and s: "I s"
  shows "spec T R (\<lambda>_. 1) V (ploop b s)"
proof (rule specI)
  fix p assume p: "wf_state p" "remaining p \<le> R" "cur_tok p \<in> T"
  have rnd: "spec UNIV R more (keeps I (\<lambda>_. True)) (b s)" if "I s" for s
    by (rule spec_conseq [OF round [OF that]]) (simp split: sum.splits)
  note unf = ploop_unfold [of I R b, OF rnd s p(1,2)]
  from specD [OF first p] show "outcome p (\<lambda>_. 1) V (ploop b s p)"
  proof (rule outcome_cases)
    fix y q assume bs: "b s p = Inr (y, q)"
      and q: "wf_state q" "toks q = toks p" "pos p + 1 \<le> pos q" "keeps I V y"
    show ?thesis
    proof (cases y)
      case (Inl s')
      then have "remaining q \<le> R" "I s'" using p q by (auto simp: remaining_def)
      then have "outcome q (\<lambda>_. 0) V (ploop b s' q)"
        using spec_ploop [of I s' R V b UNIV, OF _ round] q(1) by (simp add: spec_def)
      then show ?thesis by (rule outcome_cases) (use q Inl bs unf in auto)
    next
      case (Inr x)
      then show ?thesis using q bs unf by simp
    qed
  qed (simp add: unf)
qed

subsection \<open>Going back\<close>

text \<open>
  \<open>spec_base i\<close> is the judgement for code that may set the position back to \<open>i\<close>, where it
  once was: progress is counted from there.
\<close>

definition spec_base :: "nat \<Rightarrow> nat \<Rightarrow> ('a \<Rightarrow> nat) \<Rightarrow> ('a \<Rightarrow> bool) \<Rightarrow> 'a parse \<Rightarrow> bool" where
  "spec_base i R d V m \<longleftrightarrow>
     (\<forall>p. wf_state p \<and> i \<le> pos p \<and> length (toks p) - i \<le> R \<longrightarrow> outcome (p\<lparr>pos := i\<rparr>) d V (m p))"

lemma spec_get_pos_bind:
  assumes "\<And>i. spec_base i R d V (f i)"
  shows "spec T R d V (pbind get_pos f)"
proof (rule specI)
  fix p assume "wf_state p" "remaining p \<le> R" "cur_tok p \<in> T"
  with assms [of "pos p"] have "outcome (p\<lparr>pos := pos p\<rparr>) d V (f (pos p) p)"
    by (auto simp: spec_base_def remaining_def)
  then show "outcome p d V (pbind get_pos f p)" by (simp add: pbind_def get_pos_def)
qed

lemma spec_base_spec:
  assumes "spec UNIV R d V m"
  shows "spec_base i R d V m"
  unfolding spec_base_def
proof (intro allI impI, elim conjE)
  fix p assume p: "wf_state p" "i \<le> pos p" "length (toks p) - i \<le> R"
  then have "outcome p d V (m p)" by (intro specD [OF assms]) (auto simp: remaining_def)
  then show "outcome (p\<lparr>pos := i\<rparr>) d V (m p)" by (rule outcome_cases) (use p in auto)
qed

lemma spec_base_bind:
  assumes m: "spec UNIV R d1 V1 m" and f: "\<And>x. V1 x \<Longrightarrow> spec_base i R d V (f x)"
  shows "spec_base i R d V (pbind m f)"
  unfolding spec_base_def
proof (intro allI impI, elim conjE)
  fix p assume p: "wf_state p" "i \<le> pos p" "length (toks p) - i \<le> R"
  then have "outcome p d1 V1 (m p)" by (intro specD [OF m]) (auto simp: remaining_def)
  then show "outcome (p\<lparr>pos := i\<rparr>) d V (pbind m f p)"
  proof (rule outcome_cases)
    fix x q assume mp: "m p = Inr (x, q)" and q: "wf_state q" "toks q = toks p" "pos p + d1 x \<le> pos q" "V1 x"
    have "outcome (q\<lparr>pos := i\<rparr>) d V (f x q)"
      using f [OF q(4)] q p by (simp add: spec_base_def)
    then show ?thesis by (rule outcome_cases) (use q mp in \<open>auto simp: pbind_def\<close>)
  qed (simp add: pbind_def)
qed

lemma spec_base_then:
  assumes m: "spec UNIV R d1 V1 m" and f: "\<And>x. V1 x \<Longrightarrow> spec_base i R d V k"
  shows "spec_base i R d V (pthen m k)"
  unfolding pthen_def by (rule spec_base_bind [OF assms])

lemma spec_base_pif:
  assumes "spec UNIV R d1 V1 c" "spec_base i R d V a" "spec_base i R d V b"
  shows "spec_base i R d V (pif c a b)"
  unfolding pif_def by (rule spec_base_bind [OF assms(1)]) (simp add: assms)

lemma spec_base_set_pos:
  assumes "spec UNIV R d V k"
  shows "spec_base i R d V (pthen (set_pos i) k)"
  unfolding spec_base_def
proof (intro allI impI, elim conjE)
  fix p assume p: "wf_state p" "i \<le> pos p" "length (toks p) - i \<le> R"
  have "outcome (p\<lparr>pos := i\<rparr>) d V (k (p\<lparr>pos := i\<rparr>))"
    using p by (intro specD [OF assms]) (auto simp: remaining_def wf_state_def)
  then show "outcome (p\<lparr>pos := i\<rparr>) d V (pthen (set_pos i) k p)"
    by (simp add: pthen_def pbind_def set_pos_def)
qed

subsection \<open>Cases, fuel and normal forms\<close>

lemma spec_if:
  "(c \<Longrightarrow> spec T R d V a) \<Longrightarrow> (\<not> c \<Longrightarrow> spec T R d V b) \<Longrightarrow> spec T R d V (if c then a else b)"
  by simp

lemma spec_case_prod:
  "(\<And>x y. z = (x, y) \<Longrightarrow> spec T R d V (f x y)) \<Longrightarrow> spec T R d V (case z of (x, y) \<Rightarrow> f x y)"
  by (cases z) simp

lemma spec_case_option:
  "(z = None \<Longrightarrow> spec T R d V a) \<Longrightarrow> (\<And>x. z = Some x \<Longrightarrow> spec T R d V (f x))
   \<Longrightarrow> spec T R d V (case z of None \<Rightarrow> a | Some x \<Rightarrow> f x)"
  by (cases z) simp_all

lemma spec_fuel:
  assumes "\<And>n. spec UNIV n d V (f n)"
  shows "spec T R d V (\<lambda>p. f (Suc (remaining p)) p)"
  by (rule specI) (intro specD [OF assms], auto)

lemma spec_no_fuel: "spec T 0 d V m"
  using wf_state_remaining by (fastforce simp: spec_def)

lemma pbind_assoc: "pbind (pbind m f) g = pbind m (\<lambda>x. pbind (f x) g)"
  by (rule ext) (simp add: pbind_def split: sum.splits prod.splits)

lemma pbind_then: "pbind (pthen m k) g = pthen m (pbind k g)"
  by (simp add: pthen_def pbind_assoc)

lemma pthen_then: "pthen (pthen m k) g = pthen m (pthen k g)"
  by (simp add: pthen_def pbind_assoc)

lemma pbind_ret: "pbind (ret x) f = f x" "pthen (ret x) k = k"
  by (rule ext, simp add: pthen_def pbind_def ret_def)+

lemma pbind_fail: "pbind (fail e) f = fail e"
  by (rule ext, simp add: pbind_def fail_def)

lemma pbind_die: "pbind (die t s) f = die t s"
  by (simp add: pbind_fail die_def)

lemma pbind_pif: "pbind (pif c a b) f = pif c (pbind a f) (pbind b f)"
  unfolding pif_def pbind_assoc by (rule arg_cong [of _ _ "pbind c"]) auto

lemma pthen_pif: "pthen (pif c a b) k = pif c (pthen a k) (pthen b k)"
  by (simp add: pthen_def pbind_pif)

lemma pthen_if: "pthen (if c then a else b) k = (if c then pthen a k else pthen b k)"
  by simp

lemma pbind_if: "pbind (if c then a else b) k = (if c then pbind a k else pbind b k)"
  by simp

lemma pbind_case_prod: "pbind (case z of (x, y) \<Rightarrow> f x y) g = (case z of (x, y) \<Rightarrow> pbind (f x y) g)"
  by (cases z) simp

lemma pbind_case_option:
  "pbind (case z of None \<Rightarrow> a | Some x \<Rightarrow> f x) g = (case z of None \<Rightarrow> pbind a g | Some x \<Rightarrow> pbind (f x) g)"
  by (cases z) simp_all

lemmas parse_norm = pbind_assoc pbind_then pthen_then pbind_ret pbind_fail pbind_die pbind_pif
  pthen_pif pthen_if pbind_if pif_pand pif_por pif_ret pbind_case_prod pbind_case_option

lemma spec_ret_bind: "spec T R d V (f x) \<Longrightarrow> spec T R d V (pbind (ret x) f)"
  by (simp add: pbind_ret)

lemmas spec_rules = spec_ret spec_die spec_die_node spec_cur_bind spec_expect_bind spec_expect_then
  spec_set_newline_ops_then spec_get_newline_ops_bind spec_pif_match_prev spec_pif_match
  spec_pif_match_any spec_pif_cur_is spec_bump_then spec_if spec_case_prod spec_case_option

text \<open>Rounds of a loop end in \<open>ret (Inl s)\<close> or \<open>ret (Inr x)\<close>.\<close>

lemma spec_skip_newlines: "spec T R (\<lambda>_. 0) (\<lambda>_. True) skip_newlines"
  unfolding skip_newlines_def
  by (rule spec_ploop [where I = "\<lambda>_. True"]) (auto intro!: spec_rules)

lemma spec_skip_newlines_then:
  "spec UNIV R d V k \<Longrightarrow> spec T R d V (pthen skip_newlines k)"
  by (rule spec_then [OF spec_skip_newlines]) simp

end
