(* ===== verification/ParserSafe.thy ===== *)
theory ParserSafe
  imports ParserLogic
begin

text \<open>
  The judgement \<open>spec\<close> for every function of the parser, in the order of the source: no
  read outside the token array, no null dereference, enough fuel, and only well-formed nodes.
\<close>

section \<open>Types\<close>

definition type_result :: "string \<times> token \<Rightarrow> bool" where
  "type_result = (\<lambda>(ty, tok). type_text_ok ty \<and> tok_ok tok)"

lemma tok_ok_name: "tok_ok t \<Longrightarrow> tk_kind t = TK_NAME \<Longrightarrow> name_ok (tk_text t)"
  by (simp add: tok_ok_def)

lemma tok_ok_type:
  "tok_ok t \<Longrightarrow> tk_kind t \<in> {TK_INT, TK_FLT, TK_BOL, TK_STR, TK_NUL_TYPE} \<Longrightarrow> name_ok (tk_text t)"
  by (auto simp: tok_ok_def)

lemma name_ok_join: "name_ok a \<Longrightarrow> name_ok b \<Longrightarrow> name_ok (a @ CHR ''_'' # b)"
  by (auto simp: name_ok_def word_char_def char_defs)

lemma name_ok_normalize: "name_ok s \<Longrightarrow> name_ok (normalize_source_type_name s)"
  by (auto simp: normalize_source_type_name_def name_ok_def word_char_def char_defs)

lemma name_ok_buffer: "name_ok ''Buffer''"
  by (simp add: name_ok_def word_char_def char_defs)

lemma spec_use:
  assumes "spec UNIV R' d' V' m" "R \<le> R'" "\<And>x. V' x \<Longrightarrow> spec UNIV (R - d' x) (\<lambda>y. d y - d' x) V (f x)"
  shows "spec T R d V (pbind m f)"
  by (rule spec_bind [where ?d1.0 = d' and ?V1.0 = V', OF spec_weaken [OF assms(1)]])
    (use assms(2,3) in auto)

lemma spec_bracketed_type:
  assumes self: "spec UNIV n (\<lambda>_. 1) type_result self" and "R \<le> n"
    and build: "\<And>s. type_text_ok s \<Longrightarrow> type_text_ok (build s)" and tok: "tok_ok tok"
  shows "spec T R (\<lambda>_. 0) type_result (bracketed_type self m1 m2 build tok)"
  unfolding bracketed_type_def
  by (intro spec_rules spec_use [OF self]) (use assms in \<open>auto simp: type_result_def\<close>)

lemma spec_parse_type_n: "spec UNIV n (\<lambda>_. 1) type_result (parse_type_n n)"
proof (induction n)
  case 0
  then show ?case by (rule spec_no_fuel)
next
  case (Suc n)
  show ?case
    unfolding parse_type_n.simps(2) parse_type_step_def
    by (intro spec_rules spec_conseq [OF spec_bracketed_type [OF Suc.IH]] spec_use [OF Suc.IH])
      (auto simp: type_result_def
      intro!: type_text_ok_intros(2-6) name_ok_join name_ok_normalize name_ok_buffer
      intro: tok_ok_name tok_ok_type)
qed

lemma spec_parse_type: "spec T R (\<lambda>_. 1) type_result parse_type"
  using spec_fuel [of "\<lambda>_. 1" type_result parse_type_n, OF spec_parse_type_n, of T R]
  by (simp add: spec_def parse_type_def)

lemma spec_parse_type_bind:
  assumes "\<And>ty tok. type_text_ok ty \<Longrightarrow> tok_ok tok \<Longrightarrow> spec UNIV (R - 1) (\<lambda>y. d y - 1) V (f (ty, tok))"
  shows "spec T R d V (pbind parse_type f)"
  by (rule spec_bind [OF spec_parse_type]) (use assms in \<open>auto simp: type_result_def\<close>)

section \<open>Lookahead\<close>

text \<open>
  Each test looks one token further only when the ones before it are not the end of file.
\<close>

lemma peek_read:
  "wf_state p \<Longrightarrow> pos p + i < length (toks p) \<Longrightarrow> peek i p = Inr (toks p ! (pos p + i), p)"
  by (simp add: peek_def)

lemma ahead:
  "wf_state p \<Longrightarrow> pos p + i < length (toks p) \<Longrightarrow> tk_kind (toks p ! (pos p + i)) \<noteq> TK_EOF
   \<Longrightarrow> pos p + Suc i < length (toks p)"
  using wf_state_next [of p "pos p + i"] by simp

lemmas test_defs = pand_def por_def pif_def pbind_def ret_def cur_is_def peek_is_def cur_def

definition reads_if :: "parser \<Rightarrow> nat \<Rightarrow> bool parse \<Rightarrow> bool" where
  "reads_if p i c \<longleftrightarrow> (wf_state p \<and> pos p + i < length (toks p) \<longrightarrow> (\<exists>x. c p = Inr (x, p)))"

lemma reads_if_peek_is: "reads_if p i (peek_is i k)"
  by (simp add: reads_if_def peek_is_def pbind_def peek_read ret_def)

lemma reads_if_cur_is: "reads_if p 0 (cur_is k)"
  using reads_if_peek_is [of p 0 k] by (simp add: cur_is_def peek_is_def cur_def)

lemma reads_if_ret: "reads_if p i (ret b)"
  by (simp add: reads_if_def ret_def)

lemma reads_if_pand:
  "k \<noteq> TK_EOF \<Longrightarrow> reads_if p (Suc i) c \<Longrightarrow> reads_if p i (pand (peek_is i k) c)"
  using ahead [of p i]
  by (auto simp: reads_if_def pand_def pif_def peek_is_def pbind_def peek_read ret_def)

lemma reads_if_pand_cur:
  "k \<noteq> TK_EOF \<Longrightarrow> reads_if p (Suc 0) c \<Longrightarrow> reads_if p 0 (pand (cur_is k) c)"
  using reads_if_pand [of k p 0 c] by (simp add: cur_is_def peek_is_def cur_def)

lemma reads_if_por: "reads_if p i a \<Longrightarrow> reads_if p i b \<Longrightarrow> reads_if p i (por a b)"
  by (auto simp: reads_if_def por_def pif_def pbind_def ret_def)

lemma reads_if_pand_ret: "(b \<Longrightarrow> reads_if p i c) \<Longrightarrow> reads_if p i (pand (ret b) c)"
  by (auto simp: reads_if_def pand_def pif_def pbind_def ret_def)

lemma reads_if_pand_assoc: "reads_if p i (pand a (pand b c)) \<Longrightarrow> reads_if p i (pand (pand a b) c)"
  by (auto simp: reads_if_def pand_def pif_def pbind_def ret_def split: sum.splits if_splits)

lemma reads_if_cur_bind:
  "(\<And>t. t = cur_tok p \<Longrightarrow> reads_if p 0 (f t)) \<Longrightarrow> reads_if p 0 (pbind cur f)"
  by (auto simp: reads_if_def pbind_def peek_eq)

lemma reads_if_peek_bind:
  "(\<And>t. reads_if p i (f t)) \<Longrightarrow> reads_if p i (pbind (peek i) f)"
  by (auto simp: reads_if_def pbind_def peek_read)

lemma reads_if_after_cur:
  "tk_kind (cur_tok p) \<noteq> TK_EOF \<Longrightarrow> reads_if p (Suc 0) c \<Longrightarrow> reads_if p 0 c"
  using ahead [of p 0] by (auto simp: reads_if_def cur_tok_def)

lemma reads_if_if:
  "(b \<Longrightarrow> reads_if p i c) \<Longrightarrow> (\<not> b \<Longrightarrow> reads_if p i d) \<Longrightarrow> reads_if p i (if b then c else d)"
  by simp

lemma readsI: "(\<And>p. wf_state p \<Longrightarrow> reads_if p 0 c) \<Longrightarrow> reads UNIV c"
  by (auto simp: reads_def reads_if_def wf_state_def)

lemma reads_mono: "reads UNIV c \<Longrightarrow> reads T c"
  by (simp add: reads_def)

lemmas reads_rules = reads_if_pand_assoc reads_if_pand_cur reads_if_pand reads_if_peek_is
  reads_if_cur_is reads_if_ret reads_if_por reads_if_peek_bind

lemma reads_inline_array_map:
  "reads UNIV (pand starts_inline_array_map (pand (peek_is 4 TK_NAME) (peek_is 5 TK_EQUAL)))"
  unfolding starts_inline_array_map_def
  by (rule readsI)
    (intro reads_if_pand_assoc reads_if_pand_cur reads_if_pand reads_if_peek_is;
     simp add: numeral_eq_Suc reads_if_pand_assoc reads_if_pand_cur reads_if_pand reads_if_peek_is)

lemma reads_map_entry: "reads UNIV (pand (cur_is TK_MAP) (pand (peek_is 1 TK_NAME) (peek_is 2 TK_EQUAL)))"
  by (rule readsI)
    (simp add: numeral_eq_Suc reads_if_pand_cur reads_if_pand reads_if_peek_is)

lemma reads_record_entry: "reads UNIV (pand (cur_is TK_NAME) (peek_is 1 TK_EQUAL))"
  by (rule readsI) (simp add: reads_if_pand_cur reads_if_peek_is)

lemma reads_starts_type: "reads UNIV starts_type"
  unfolding starts_type_def
  by (rule readsI)
    (auto simp: numeral_eq_Suc intro!: reads_if_cur_bind reads_if_if reads_if_ret reads_if_pand_ret
      reads_if_por reads_if_pand reads_if_peek_is
      intro: reads_if_after_cur)

lemma reads_shape_separator: "reads UNIV is_shape_separator"
  unfolding is_shape_separator_def by (rule readsI) (intro reads_if_cur_bind reads_if_ret)

lemma reads_starts_method_body: "reads UNIV (starts_method_body m)"
proof (rule readsI)
  fix p assume "wf_state p"
  have after: "reads_if p 0 (pbind cur (\<lambda>t.
        if m = ''agg'' \<and> tk_kind t \<in> {TK_PLUSEQ, TK_MINUS} then ret True
        else if tk_kind t \<in> {TK_RET, TK_IF, TK_LOOP, TK_PASS, TK_THROW} then ret True
        else if tk_kind t = TK_NAME then
          pbind (peek 1) (\<lambda>next. ret (tk_kind next \<in> {TK_EQUAL, TK_PLUSEQ, TK_PLUSPLUS}))
        else ret False))"
    by (intro reads_if_cur_bind reads_if_if reads_if_ret reads_if_after_cur)
      (auto intro!: reads_if_peek_bind reads_if_ret)
  have "reads_if p 0 (por (ret (\<not> is_collection_body_method m)) (cur_is TK_RPAREN))"
    by (intro reads_if_por reads_if_ret reads_if_cur_is)
  with after show "reads_if p 0 (starts_method_body m)"
    unfolding starts_method_body_def by (auto simp: reads_if_def pif_def pbind_def ret_def)
qed

subsection \<open>The scan for a destructuring pattern\<close>

definition scan_ok :: "parser \<Rightarrow> nat \<Rightarrow> nat option result \<Rightarrow> bool" where
  "scan_ok p i r \<longleftrightarrow> (\<exists>x. r = Inr x \<and> (\<forall>j. x = Some j \<longrightarrow> i \<le> j \<and> j < length (toks p)))"

lemma scan_ok_stop [simp]: "scan_ok p i (Inr None)"
  "scan_ok p i (Inr (Some j)) \<longleftrightarrow> i \<le> j \<and> j < length (toks p)"
  by (simp_all add: scan_ok_def)

lemma scan_ok_mono: "scan_ok p i r \<Longrightarrow> i' \<le> i \<Longrightarrow> scan_ok p i' r"
  by (force simp: scan_ok_def)

lemma tok_kind_at_in [simp]: "i < length (toks p) \<Longrightarrow> tok_kind_at p i = Inr (tk_kind (toks p ! i))"
  by (simp add: tok_kind_at_def)

lemma scan_newlines_ok:
  "wf_state p \<Longrightarrow> i < length (toks p) \<Longrightarrow>
     \<exists>j. scan_newlines p i = Inr j \<and> i \<le> j \<and> j < length (toks p)"
proof (induction p i rule: scan_newlines.induct)
  case (1 p i)
  show ?case
  proof (cases "tk_kind (toks p ! i) = TK_NEWLINE")
    case True
    then have "Suc i < length (toks p)" using wf_state_next [of p i] 1(2,3) by simp
    then show ?thesis using True 1 by (subst scan_newlines.simps) force
  next
    case False
    then show ?thesis using 1 by (subst scan_newlines.simps) simp
  qed
qed

lemma scan_expect_ok:
  assumes "wf_state p" "k \<noteq> TK_EOF" "i < length (toks p)"
    "Suc i < length (toks p) \<Longrightarrow> scan_ok p (Suc i) (f (Suc i))"
  shows "scan_ok p i (scan_expect p k i f)"
  using assms wf_state_next [of p i] scan_ok_mono [of p "Suc i" "f (Suc i)" i]
  by (auto simp: scan_expect_def)

lemma scan_inner_ok:
  assumes p: "wf_state p"
    and self: "\<And>j. i \<le> j \<Longrightarrow> j < length (toks p) \<Longrightarrow> scan_ok p j (self j)"
    and i: "i < length (toks p)"
    and k: "\<And>j. i \<le> j \<Longrightarrow> j < length (toks p) \<Longrightarrow> scan_ok p j (f j)"
  shows "scan_ok p i (scan_inner self p i f)"
proof -
  obtain j where j: "scan_newlines p i = Inr j" "i \<le> j" "j < length (toks p)"
    using scan_newlines_ok [OF p i] by blast
  obtain x where x: "self j = Inr x" "\<And>k. x = Some k \<Longrightarrow> j \<le> k \<and> k < length (toks p)"
    using self [OF j(2,3)] by (auto simp: scan_ok_def)
  show ?thesis
  proof (cases x)
    case None
    then show ?thesis using j x by (simp add: scan_inner_def)
  next
    case (Some m)
    then obtain l where l: "scan_newlines p m = Inr l" "m \<le> l" "l < length (toks p)"
      using scan_newlines_ok [OF p, of m] x(2) by blast
    have le: "i \<le> l" using j x(2) [OF Some] l by simp
    show ?thesis
      using j x Some l scan_ok_mono [OF k [OF le l(3)] le] by (simp add: scan_inner_def)
  qed
qed

lemma scan_type_end_n_ok:
  assumes p: "wf_state p"
  shows "i < length (toks p) \<Longrightarrow> length (toks p) - i \<le> n \<Longrightarrow> scan_ok p i (scan_type_end_n n p i)"
proof (induction n arbitrary: i)
  case 0
  then show ?case by simp
next
  case (Suc n)
  let ?self = "scan_type_end_n n p"
  note rules = scan_expect_ok [OF p] scan_inner_ok [OF p]
  have self: "scan_ok p j (?self j)" if "Suc i \<le> j" "j < length (toks p)" for j
    by (rule Suc.IH) (use that Suc.prems in auto)
  have more: "Suc i < length (toks p)" if "tk_kind (toks p ! i) \<noteq> TK_EOF"
    using wf_state_next [OF p Suc.prems(1) that] .
  have "scan_ok p (Suc i) (scan_bracketed_type ?self p (Suc i))" if "Suc i < length (toks p)"
    unfolding scan_bracketed_type_def using that by (intro rules self) auto
  then have bracketed: "scan_ok p i (scan_bracketed_type ?self p (Suc i))" if "Suc i < length (toks p)"
    using that scan_ok_mono by fastforce
  have "scan_ok p (Suc i) (scan_pair_type ?self p sep (Suc i))"
    if "Suc i < length (toks p)" "sep \<noteq> TK_EOF" for sep
    unfolding scan_pair_type_def using that by (intro rules self) auto
  then have pair: "scan_ok p i (scan_pair_type ?self p sep (Suc i))"
    if "Suc i < length (toks p)" "sep \<noteq> TK_EOF" for sep
    using that scan_ok_mono by fastforce
  have nm: "scan_ok p i (scan_type_name p (Suc i))" if "Suc i < length (toks p)"
    using that wf_state_next [OF p, of "Suc i"] wf_state_next [OF p, of "Suc (Suc i)"]
    by (auto simp: scan_type_name_def)
  show ?case
    unfolding scan_type_end_n.simps(2) tok_kind_at_in [OF Suc.prems(1)] rbind_simps
    using Suc.prems(1) more bracketed pair nm by (auto simp del: scan_type_end_n.simps)
qed

lemma reads_starts_destructure: "reads UNIV starts_destructure"
proof -
  have "\<exists>b. starts_destructure_scan p = Inr b" if p: "wf_state p" for p
  proof (cases "tk_kind (cur_tok p) = TK_LBRACE")
    case False
    then show ?thesis using p by (auto simp: starts_destructure_scan_def cur_tok_def wf_state_def)
  next
    case True
    have pos: "pos p < length (toks p)" using p by (simp add: wf_state_def)
    then have "Suc (pos p) < length (toks p)"
      using wf_state_next [OF p] True by (simp add: cur_tok_def)
    then obtain j where j: "scan_newlines p (Suc (pos p)) = Inr j" "j < length (toks p)"
      using scan_newlines_ok [OF p] by blast
    obtain x where x: "scan_type_end p j = Inr x" "\<And>k. x = Some k \<Longrightarrow> k < length (toks p)"
      using scan_type_end_n_ok [OF p j(2), of "Suc (length (toks p) - j)"]
      by (auto simp: scan_ok_def scan_type_end_def)
    show ?thesis
    proof (cases x)
      case None
      then show ?thesis using pos True j x by (auto simp: starts_destructure_scan_def cur_tok_def)
    next
      case (Some k)
      then obtain l where "scan_newlines p k = Inr l" "l < length (toks p)"
        using scan_newlines_ok [OF p] x(2) by blast
      then show ?thesis using pos True j x Some by (auto simp: starts_destructure_scan_def cur_tok_def)
    qed
  qed
  then have "\<exists>x. starts_destructure p = Inr (x, p)" if "wf_state p" for p
    using that by (metis rbind_simps(2) starts_destructure_def)
  then show ?thesis by (simp add: reads_def)
qed

section \<open>The recursion as hypotheses\<close>

definition ok_ex :: "nat \<Rightarrow> (nat \<Rightarrow> node parse) \<Rightarrow> bool" where
  "ok_ex R ex \<longleftrightarrow> (\<forall>m. spec UNIV R (\<lambda>_. 1) wf_node (ex m))"

definition ok_st :: "nat \<Rightarrow> node parse \<Rightarrow> bool" where
  "ok_st R st \<longleftrightarrow> spec UNIV R (\<lambda>_. 1) wf_node st"

lemma ok_mono: "ok_ex R ex \<Longrightarrow> R' \<le> R \<Longrightarrow> ok_ex R' ex" "ok_st R st \<Longrightarrow> R' \<le> R \<Longrightarrow> ok_st R' st"
  by (auto simp: ok_ex_def ok_st_def intro: spec_weaken)

lemma ex_bind:
  assumes "ok_ex Rx ex" "R \<le> Rx"
    "\<And>x. wf_node x \<Longrightarrow> spec UNIV (R - 1) (\<lambda>y. d y - 1) V (f x)"
  shows "spec T R d V (pbind (ex m) f)"
  by (rule spec_bind [where ?d1.0 = "\<lambda>_. 1" and ?V1.0 = wf_node])
    (use ok_mono(1) [OF assms(1,2)] assms(3) in \<open>auto simp: ok_ex_def intro: spec_weaken\<close>)

lemma ex_tail:
  assumes "ok_ex Rx ex" "R \<le> Rx" "\<And>x. wf_node x \<Longrightarrow> d x \<le> 1 \<and> V x"
  shows "spec T R d V (ex m)"
  using ok_mono(1) [OF assms(1,2)] assms(3) by (auto simp: ok_ex_def intro: spec_weaken)

lemma st_bind:
  assumes "ok_st Rx st" "R \<le> Rx"
    "\<And>x. wf_node x \<Longrightarrow> spec UNIV (R - 1) (\<lambda>y. d y - 1) V (f x)"
  shows "spec T R d V (pbind st f)"
  by (rule spec_bind [where ?d1.0 = "\<lambda>_. 1" and ?V1.0 = wf_node])
    (use ok_mono(2) [OF assms(1,2)] assms(3) in \<open>auto simp: ok_st_def intro: spec_weaken\<close>)

section \<open>Nodes the parser builds\<close>

lemmas wf_build = wf_node_iff shape_def with_defs

lemma wf_if_expr [simp]:
  "wf_node c \<Longrightarrow> wf_node v \<Longrightarrow> wf_node (if_expr t c v None)"
  "wf_node c \<Longrightarrow> wf_node v \<Longrightarrow> wf_node f \<Longrightarrow> wf_node (if_expr t c v (Some f))"
  by (simp_all add: wf_build if_expr_def set_opt_def)

lemma wf_binary [simp]:
  "wf_node l \<Longrightarrow> wf_node r \<Longrightarrow> op \<in> set binary_ops \<Longrightarrow> wf_node (binary t op l r)"
  by (simp add: wf_build binary_def)

lemma wf_unary [simp]:
  "wf_node e \<Longrightarrow> tk_text t \<in> set unary_ops \<Longrightarrow> wf_node (unary t e)"
  by (simp add: wf_build unary_def)

lemma wf_leaf [simp]:
  "wf_node (name_node t s)"
  "wf_node (with_text s (node_new NK_STR t))"
  by (simp_all add: wf_build name_node_def)

lemma typed_field_type [simp]: "declared_type (attrs (typed_field t ty s)) = Some ty"
  "n_kind (typed_field t ty s) = NK_FIELD" "n_name (attrs (typed_field t ty s)) = Some s"
  by (simp_all add: typed_field_def with_defs)

lemma wf_struct_node [simp]: "wf_node (with_name s (node_new NK_TYPE_STRUCT t))"
  by (simp add: wf_build)

lemma wf_child_node [simp]:
  assumes "wf_node x"
  shows "wf_node (set_callee x (node_new NK_CALL t))"
    "wf_node (set_expr x (node_new NK_FREE t))"
    "wf_node (set_expr x (node_new NK_EXPR_STMT t))"
    "wf_node (set_value x (node_new NK_THROW t))"
    "wf_node (with_name s (set_object x (node_new NK_DOT t)))"
    "wf_node (with_name s (set_object x (node_new NK_METHOD_CALL t)))"
    "op \<in> {''+='', ''-''} \<Longrightarrow> wf_node (set_value x (with_op op (node_new NK_AGG_STEP t)))"
    "wf_node (set_value x (with_name s (node_new NK_FIELD t)))"
    "wf_node (assign t ''++'' x)"
  using assms by (auto simp: wf_build assign_def)

lemma wf_two_children [simp]:
  assumes "wf_node x" "wf_node y"
  shows "wf_node (set_index x (set_object y (node_new NK_DOT t)))"
    "wf_node (set_value x (set_target y (node_new NK_FIELD t)))"
    "wf_node (set_value x (with_text s (set_target y (node_new NK_FIELD t))))"
    "wf_node (set_then_block x (set_condition y (node_new NK_IF t)))"
    "wf_node (set_body x (set_condition y (node_new NK_ELX t)))"
    "op \<in> {''='', ''+='', ''-=''} \<Longrightarrow> wf_node (set_value x (assign t op y))"
  using assms by (auto simp: wf_build assign_def)

lemma wf_typed_node [simp]:
  assumes "type_text_ok ty"
  shows "wf_node (with_name s (with_type ty (node_new NK_PARAM t)))"
    "wf_node (with_name s (with_type ty (node_new NK_VAR t)))"
    "wf_node (with_name s (with_type ty (node_new NK_TYPE_ALIAS t)))"
    "wf_node (with_type ty (with_name s (node_new NK_TYPE_ALIAS t)))"
    "wf_node (typed_field t ty s)"
    "wf_node (with_name s (with_int i (with_type ty (node_new NK_FIELD t))))"
    "wf_node (with_name s (with_text u (with_int i (with_type ty (node_new NK_FIELD t)))))"
  using assms by (simp_all add: wf_build typed_field_def)

text \<open>The dereference put into a chain of dots keeps the chain well-formed.\<close>

lemma wf_star_innermost:
  "wf_node d \<Longrightarrow> n_kind d = NK_DOT \<Longrightarrow> n_kind star = NK_UNARY \<Longrightarrow> kids_ok wf_node star
   \<Longrightarrow> op_in unary_ops (n_op (attrs star)) \<Longrightarrow> declared_type (attrs star) = None
   \<Longrightarrow> wf_node (star_innermost star d)"
proof (induction star d rule: star_innermost.induct)
  case (1 star d)
  from wf_nodeD(1) [OF "1.prems"(1)] "1.prems"(2) obtain ob where ob: "n_object d = Some ob"
    by (auto simp: shape_def)
  have wf: "wf_node ob" using "1.prems"(1) ob by (rule wf_node_object)
  show ?case
  proof (cases "n_kind ob = NK_DOT")
    case True
    then have "wf_node (star_innermost star ob)" using 1 ob wf by blast
    then show ?thesis using True ob "1.prems"(1) by (subst star_innermost.simps) simp
  next
    case False
    have "wf_node (set_expr ob star)" using "1.prems" wf by (simp add: wf_node_iff [of "set_expr ob star"] shape_def)
    then show ?thesis using False ob "1.prems"(1) by (subst star_innermost.simps) simp
  qed
qed

section \<open>Values, method bodies and arguments\<close>

lemma spec_paren_value:
  assumes ex: "ok_ex R ex"
  shows "spec T R (\<lambda>_. 1) wf_node (parse_paren_value_expr ex msg)"
  unfolding parse_paren_value_expr_def
  by (intro spec_rules ex_bind [OF ex] spec_skip_newlines_then) auto

lemma spec_if_head:
  assumes ex: "ok_ex R ex"
  shows "spec T R (\<lambda>_. 1) (\<lambda>(c, v). wf_node c \<and> wf_node v) (parse_if_head ex)"
  unfolding parse_if_head_def
  by (intro spec_rules ex_bind [OF ex] spec_skip_newlines_then
      spec_bind [OF spec_paren_value [OF ok_mono(1) [OF ex]]]) auto

lemma spec_if_value:
  assumes ex: "ok_ex R ex"
  shows "spec T R (\<lambda>_. 1) wf_node (parse_if_value_expr ex tok)"
  unfolding parse_if_value_expr_def
  by (intro spec_bind [OF spec_if_head] spec_rules spec_bind [OF spec_paren_value] ok_mono(1) [OF ex]) auto

lemma spec_agg_step_value:
  assumes ex: "ok_ex R ex"
  shows "spec T R (\<lambda>_. 1) wf_node (agg_step_value ex)"
  unfolding agg_step_value_def
  by (intro spec_rules spec_bind [OF spec_if_head] spec_bind [OF spec_paren_value] ex_tail [OF ex]
      ok_mono(1) [OF ex]) auto

lemma spec_agg_step_suffix:
  assumes ex: "ok_ex R ex" and "wf_node v"
  shows "spec T R (\<lambda>_. 0) wf_node (agg_step_suffix ex v)"
  unfolding agg_step_suffix_def
  by (intro spec_rules ex_bind [OF ex]) (use assms(2) in auto)

lemma spec_agg_step:
  assumes ex: "ok_ex R ex"
  shows "spec T R (\<lambda>_. 1) wf_node (agg_step ex tok)"
  unfolding agg_step_def parse_norm
  by (intro spec_rules spec_skip_newlines_then spec_bind [OF spec_agg_step_value]
      spec_bind [OF spec_agg_step_suffix] ok_mono(1) [OF ex]) auto

lemma spec_items_until:
  assumes item: "\<And>t. spec {t} R (\<lambda>_. 1) wf_node (item t)" and n: "wf_node n"
    and push: "\<And>x b. wf_node x \<Longrightarrow> wf_node b \<Longrightarrow> wf_node (push_to x b)"
  shows "spec T R (\<lambda>_. 0) wf_node (items_until close msg item push_to n)"
  unfolding items_until_def
  by (rule spec_ploop [where I = wf_node, OF n])
    (intro spec_rules spec_bind [OF item] spec_skip_newlines_then; simp add: push)

lemma spec_agg_method_body:
  assumes ex: "ok_ex R ex"
  shows "spec T R (\<lambda>_. 0) wf_node (parse_agg_method_body ex opn)"
  unfolding parse_agg_method_body_def
  by (intro spec_skip_newlines_then spec_items_until spec_agg_step ex) auto

lemma spec_st_item: "ok_st R st \<Longrightarrow> spec T R (\<lambda>_. 1) wf_node st"
  by (auto simp: ok_st_def intro: spec_weaken)

lemma spec_method_body:
  assumes st: "ok_st R st"
  shows "spec T R (\<lambda>_. 0) wf_node (parse_method_body st opn)"
  unfolding parse_method_body_def
  by (intro spec_skip_newlines_then spec_items_until spec_st_item st) auto

lemma spec_block:
  assumes st: "ok_st R st"
  shows "spec T R (\<lambda>_. 1) wf_node (parse_block st)"
  unfolding parse_block_def
  by (intro spec_rules spec_skip_newlines_then spec_bind [OF spec_items_until] spec_st_item
      ok_mono(2) [OF st]) auto

lemma spec_method_argument:
  assumes ex: "ok_ex R ex"
  shows "spec T R (\<lambda>_. 1) wf_node (parse_method_argument ex m)"
  unfolding parse_method_argument_def parse_norm
  by (intro spec_rules ex_bind [OF ex]) auto

lemma spec_sort_args:
  assumes ex: "ok_ex R ex" and n: "wf_node n"
  shows "spec T R (\<lambda>_. 0) wf_node (parse_sort_args ex n)"
  unfolding parse_sort_args_def parse_norm
  by (intro spec_rules ex_bind [OF ex] spec_skip_newlines_then) (use n in auto)

section \<open>Checks and postfix forms\<close>

lemma token_binary_op_ops: "token_binary_op k = Some op \<Longrightarrow> op \<in> set binary_ops"
  by (cases k) (auto simp: token_binary_op_def precedence_def binary_ops_def)

lemma token_binary_op_some:
  "is_is_check_op k \<or> k = TK_ANDAND \<or> k = TK_OROR \<Longrightarrow> \<exists>op. token_binary_op k = Some op"
  by (cases k) (simp_all add: is_is_check_op_def token_binary_op_def precedence_def)

lemma op_of_token_bind:
  assumes "\<exists>op. token_binary_op (tk_kind t) = Some op"
    "\<And>op. op \<in> set binary_ops \<Longrightarrow> spec T R d V (f op)"
  shows "spec T R d V (pbind (op_of_token t) f)"
  using assms token_binary_op_ops by (auto simp: op_of_token_def pbind_ret)

lemma binary_ops_else [simp]: "''=='' \<in> set binary_ops" "''else'' \<in> set binary_ops"
  by (simp_all add: binary_ops_def)

lemma spec_is_piece:
  assumes ex: "ok_ex R ex" and n: "wf_node n"
  shows "spec T R (\<lambda>_. 1) wf_node (parse_is_piece ex n)"
  unfolding parse_is_piece_def parse_norm
  by (intro spec_rules op_of_token_bind ex_bind [OF ex] token_binary_op_some)
    (use n in \<open>auto simp: is_is_check_op_def\<close>)

lemma spec_is_check:
  assumes ex: "ok_ex R ex" and n: "wf_node n"
  shows "spec T R (\<lambda>_. 0) wf_node (parse_is_check ex tok n)"
proof -
  let ?I = "\<lambda>(x, k :: nat). wf_node x"
  have round: "spec UNIV R' more (keeps ?I ?I) ((\<lambda>(expr, pieces). pbind cur (\<lambda>tok.
         if tk_kind tok = TK_ANDAND \<or> tk_kind tok = TK_OROR then
           pthen bump (pbind (parse_is_piece ex n) (\<lambda>right.
           pbind (op_of_token tok) (\<lambda>op. ret (Inl (binary tok op expr right, pieces + 1)))))
         else ret (Inr (expr, pieces)))) s)" if "?I s" "R' \<le> R" for s R'
    using that(1)
    by (intro spec_rules spec_bind [OF spec_is_piece] op_of_token_bind token_binary_op_some
        ok_mono(1) [OF ex] n)
      (use n that in auto)
  show ?thesis
    unfolding parse_is_check_def
    by (intro spec_bind [OF spec_is_piece] ok_mono(1) [OF ex] n
        spec_bind [OF spec_ploop [where I = ?I and V = ?I, OF _ round]] spec_rules) auto
qed

lemma spec_skip_newlines_before_dot: "spec T R (\<lambda>_. 0) (\<lambda>_. True) skip_newlines_before_dot"
proof -
  have "spec_base i R (\<lambda>_. 0) (\<lambda>_. True)
      (pthen skip_newlines (pbind cur (\<lambda>t. if tk_kind t \<noteq> TK_DOT then set_pos i else ret ())))" for i
  proof (intro spec_base_then [OF spec_skip_newlines] spec_base_bind)
    show "spec UNIV R (\<lambda>_. 0) (\<lambda>_. True) cur"
      by (rule specI) (simp add: peek_eq)
    have "spec_base i R (\<lambda>_. 0) (\<lambda>_. True) (pthen (set_pos i) (ret ()))"
      by (intro spec_base_set_pos spec_ret) auto
    then have "spec_base i R (\<lambda>_. 0) (\<lambda>_. True) (set_pos i)"
      by (simp add: spec_base_def pthen_def pbind_def set_pos_def ret_def)
    then show "spec_base i R (\<lambda>_. 0) (\<lambda>_. True) (if tk_kind t \<noteq> TK_DOT then set_pos i else ret ())" for t
      by (auto intro!: spec_base_spec spec_ret)
  qed
  then show ?thesis unfolding skip_newlines_before_dot_def by (rule spec_get_pos_bind)
qed

lemma skip_newlines_before_dot_at_dot:
  assumes "wf_state p" "tk_kind (cur_tok p) = TK_DOT"
  shows "skip_newlines_before_dot p = Inr ((), p)"
  using assms
  by (simp add: skip_newlines_before_dot_def pbind_def pthen_def get_pos_def skip_newlines_def
      ploop_def ploop_n_Suc pif_match_eq peek_eq ret_def)

lemma spec_call_args:
  assumes ex: "ok_ex R ex" and n: "wf_node n"
  shows "spec T R (\<lambda>_. 0) wf_node
    (ploop (\<lambda>call. pbind (ex 0) (\<lambda>arg.
       pif (match TK_COMMA) (ret (Inl (add_args arg call))) (ret (Inr (add_args arg call))))) n)"
  by (rule spec_ploop [where I = wf_node, OF n]) (intro spec_rules ex_bind [OF ex]; simp)

lemma spec_method_args:
  assumes ex: "ok_ex R ex" and n: "wf_node n"
  shows "spec T R (\<lambda>_. 0) wf_node (parse_method_args ex m n)"
  unfolding parse_method_args_def
  by (intro spec_rules spec_conseq [OF spec_ploop [where I = wf_node and V = wf_node]]
      spec_bind [OF spec_method_argument] spec_skip_newlines_then ok_mono(1) [OF ex]) (use n in auto)

lemma spec_method_inside:
  assumes ex: "ok_ex R ex" and st: "ok_st R st" and n: "wf_node n"
  shows "spec T R (\<lambda>_. 0) wf_node (parse_method_inside ex st opn m n)"
  unfolding parse_method_inside_def
  by (intro spec_rules spec_pif_reads spec_bind [OF spec_agg_method_body]
      spec_bind [OF spec_method_body] spec_sort_args spec_method_args ex st n)
    (use n reads_starts_method_body in \<open>auto simp: reads_def\<close>)

lemma spec_method_call:
  assumes ex: "ok_ex R ex" and st: "ok_st R st" and n: "wf_node n"
  shows "spec T R (\<lambda>_. 0) wf_node (parse_method_call ex st dot m n)"
  unfolding parse_method_call_def parse_norm
  by (intro spec_rules spec_skip_newlines_then spec_bind [OF spec_method_inside]
      spec_bind [OF spec_block] ok_mono(1) [OF ex] ok_mono(2) [OF st]) (use n in auto)

text \<open>
  A round of \<open>parse_postfix\<close>. \<open>parse_call\<close> and \<open>parse_dot\<close> open with \<open>prev\<close>, which reads
  back the token just matched.
\<close>

lemma spec_postfix_tail:
  assumes ex: "ok_ex (R - 1) ex" and st: "ok_st (R - 1) st" and n: "wf_node n"
  shows "spec T R more (keeps wf_node wf_node)
     (pif (match TK_LPAREN) (pbind (parse_call ex n) (\<lambda>n. ret (Inl n)))
       (pif (match TK_DOT) (pbind (parse_dot ex st n) (\<lambda>n. ret (Inl n)))
         (ret (Inr n))))"
  unfolding parse_call_def parse_dot_def match_method_name_def parse_norm
  by (intro spec_rules spec_bind [OF spec_call_args] spec_bind [OF spec_method_call] ex_bind [OF ex]
      ok_mono(1) [OF ex] ok_mono(2) [OF st]) (use n in auto)

lemma spec_postfix:
  assumes ex: "ok_ex (R - 1) ex" and st: "ok_st (R - 1) st" and n: "wf_node n"
  shows "spec T R (\<lambda>_. 0) wf_node (parse_postfix ex st n)"
  unfolding parse_postfix_def
  by (rule spec_ploop [where I = wf_node, OF n], rule spec_then [OF spec_skip_newlines_before_dot])
    (use spec_postfix_tail [OF ex st] in simp)

text \<open>
  At a \<open>'.'\<close> the first round consumes it: \<open>.name\<close>, the element of a method body, opens an
  expression without a token of its own.
\<close>

lemma spec_postfix_at_dot:
  assumes ex: "ok_ex (R - 1) ex" and st: "ok_st (R - 1) st" and n: "wf_node n"
  shows "spec {t. tk_kind t = TK_DOT} R (\<lambda>_. 1) wf_node (parse_postfix ex st n)"
  unfolding parse_postfix_def
proof (rule spec_ploop_first [where I = wf_node, OF _ _ n])
  fix s :: node assume s: "wf_node s"
  show "spec UNIV R more (keeps wf_node wf_node)
     (pthen skip_newlines_before_dot
       (pif (match TK_LPAREN) (pbind (parse_call ex s) (\<lambda>n. ret (Inl n)))
       (pif (match TK_DOT) (pbind (parse_dot ex st s) (\<lambda>n. ret (Inl n)))
         (ret (Inr s)))))"
    by (rule spec_then [OF spec_skip_newlines_before_dot]) (use spec_postfix_tail [OF ex st s] in simp)
next
  have "spec {t. tk_kind t = TK_DOT} R (\<lambda>_. 1) (keeps wf_node wf_node)
       (pif (match TK_LPAREN) (pbind (parse_call ex n) (\<lambda>n. ret (Inl n)))
       (pif (match TK_DOT) (pbind (parse_dot ex st n) (\<lambda>n. ret (Inl n)))
         (fail (DieMsg []))))"
    unfolding parse_call_def parse_dot_def match_method_name_def parse_norm
    by (intro spec_rules spec_bind [OF spec_call_args] spec_bind [OF spec_method_call] ex_bind [OF ex]
      ok_mono(1) [OF ex] ok_mono(2) [OF st] spec_fail) (use n in auto)
  then show "spec {t. tk_kind t = TK_DOT} R (\<lambda>_. 1) (keeps wf_node wf_node)
     (pthen skip_newlines_before_dot
       (pif (match TK_LPAREN) (pbind (parse_call ex n) (\<lambda>n. ret (Inl n)))
       (pif (match TK_DOT) (pbind (parse_dot ex st n) (\<lambda>n. ret (Inl n)))
         (ret (Inr n)))))"
    by (rule spec_cong)
      (simp add: pthen_def pbind_def skip_newlines_before_dot_at_dot pif_match_eq)
qed

section \<open>Literals\<close>

lemma spec_entry_separator: "spec T R (\<lambda>_. 0) (\<lambda>_. True) entry_separator"
  unfolding entry_separator_def
  by (intro spec_skip_newlines_then spec_then [OF spec_match] spec_conseq [OF spec_skip_newlines]) auto

lemma spec_entry_separator_then:
  "spec UNIV R d V k \<Longrightarrow> spec T R d V (pthen entry_separator k)"
  by (rule spec_then [OF spec_entry_separator]) simp

text \<open>A test that answers yes tells about the current token.\<close>

lemma spec_pif_tells:
  assumes "reads UNIV c" "\<And>p. wf_state p \<Longrightarrow> c p = Inr (True, p) \<Longrightarrow> cur_tok p \<in> A"
    "spec (T \<inter> A) R d V a" "spec T R d V b"
  shows "spec T R d V (pif c a b)"
proof (rule specI)
  fix p assume p: "wf_state p" "remaining p \<le> R" "cur_tok p \<in> T"
  with assms(1) obtain x where x: "c p = Inr (x, p)" by (auto simp: reads_def)
  then have "pif c a b p = (if x then a p else b p)" by (simp add: pif_def pbind_def)
  then show "outcome p d V (pif c a b p)"
    using assms(2-4) p x by (cases x) (simp_all add: spec_def)
qed

lemma shape_separator_tells:
  "wf_state p \<Longrightarrow> is_shape_separator p = Inr (True, p) \<Longrightarrow> cur_tok p \<in> {t. tk_kind t = TK_NAME}"
  by (simp add: is_shape_separator_def pbind_def peek_eq ret_def)

lemma spec_shape:
  assumes ex: "ok_ex R ex" and n: "wf_node n"
  shows "spec T R (\<lambda>_. 0) wf_node (parse_shape ex opn n)"
  unfolding parse_shape_def
  by (intro spec_rules spec_bind [OF spec_ploop [where I = wf_node and V = wf_node]]
      spec_pif_tells [OF reads_shape_separator shape_separator_tells] ex_bind [OF ex]
      spec_skip_newlines_then)
    (use n in auto)

lemma spec_array_rest:
  assumes ex: "ok_ex R ex" and n: "wf_node n"
  shows "spec T R (\<lambda>_. 0) wf_node (parse_array_rest ex n)"
  unfolding parse_array_rest_def
  by (intro spec_rules spec_ploop [where I = wf_node] ex_bind [OF ex] spec_skip_newlines_then)
    (use n in auto)

lemma spec_array_literal:
  assumes ex: "ok_ex R ex"
  shows "spec T R (\<lambda>_. 0) wf_node (parse_array_literal ex opn)"
  unfolding parse_array_literal_def
  by (intro spec_rules ex_bind [OF ex] spec_skip_newlines_then
      spec_pif_reads [OF reads_mono [OF reads_shape_separator]] spec_conseq [OF spec_shape]
      spec_bind [OF spec_array_rest] ok_mono(1) [OF ex])
    auto

lemma spec_map_literal:
  assumes ex: "ok_ex R ex"
  shows "spec T R (\<lambda>_. 0) wf_node (parse_map_literal_after_open ex opn)"
  unfolding parse_map_literal_after_open_def parse_norm Let_def
  by (intro spec_rules spec_skip_newlines_then spec_bind [OF spec_ploop [where V = wf_node
        and I = "\<lambda>n. wf_node n \<and> n_kind n = NK_MAP_LITERAL"]] ex_bind [OF ex] spec_entry_separator_then)
    (auto split: option.splits)

lemma spec_record_literal:
  assumes ex: "ok_ex R ex" and k: "close \<noteq> TK_EOF"
  shows "spec T R (\<lambda>_. 0) wf_node (parse_record_literal_until ex opn close msg)"
  unfolding parse_record_literal_until_def
  by (intro spec_rules spec_skip_newlines_then spec_bind [OF spec_ploop [where V = wf_node
        and I = "\<lambda>n. wf_node n \<and> n_kind n = NK_RECORD_LITERAL"]] ex_bind [OF ex] spec_entry_separator_then k)
    auto

lemma spec_wrapped_or_map:
  assumes ex: "ok_ex R ex"
  shows "spec T R (\<lambda>_. 0) wf_node (parse_wrapped_or_map ex opn)"
proof -
  have "spec_base i R (\<lambda>_. 0) wf_node
     (pbind get_newline_ops (\<lambda>save_newline_ops.
      pbind (ex 0) (\<lambda>wrapped. pthen skip_newlines
     (pif (match TK_RBRACE) (ret wrapped)
       (pthen (set_pos i) (pthen (set_newline_ops save_newline_ops)
          (parse_map_literal_after_open ex opn)))))))" for i
  proof (rule spec_base_bind)
    show "spec UNIV R (\<lambda>_. 0) (\<lambda>_. True) get_newline_ops"
      by (rule specI) (simp add: get_newline_ops_def)
    show "spec_base i R (\<lambda>_. 0) wf_node
       (pbind (ex 0) (\<lambda>wrapped. pthen skip_newlines
     (pif (match TK_RBRACE) (ret wrapped)
       (pthen (set_pos i) (pthen (set_newline_ops b)
          (parse_map_literal_after_open ex opn))))))" for b
      by (intro spec_base_bind [where ?d1.0 = "\<lambda>_. 1" and ?V1.0 = wf_node]
          spec_base_then [OF spec_skip_newlines] spec_base_pif [OF spec_match] spec_base_set_pos
          spec_set_newline_ops_then spec_map_literal ex ex_tail [OF ex])
        (auto intro!: spec_base_spec spec_ret)
  qed
  then show ?thesis
    unfolding parse_wrapped_or_map_def
    by (intro spec_pif_cur_is spec_map_literal ex spec_get_pos_bind)
qed

lemma spec_brace_literal:
  assumes ex: "ok_ex R ex"
  shows "spec T R (\<lambda>_. 0) wf_node (parse_brace_literal ex opn)"
  unfolding parse_brace_literal_def
  by (intro spec_skip_newlines_then spec_pif_reads reads_record_entry spec_record_literal
      spec_wrapped_or_map ex) auto

section \<open>Prefix forms and expressions\<close>

lemma tok_ok_unary:
  "tok_ok t \<Longrightarrow> tk_kind t \<in> {TK_STAR, TK_MINUS, TK_BANG, TK_REF, TK_HOLD} \<Longrightarrow> tk_text t \<in> set unary_ops"
  by (auto simp: tok_ok_def unary_ops_def)

lemma spec_star:
  assumes ex: "ok_ex R ex" and st: "ok_st R st" and t: "tok_ok tok" "tk_kind tok = TK_STAR"
  shows "spec T R (\<lambda>_. 0) wf_node (parse_star ex st tok)"
proof -
  have "wf_node (star_innermost (with_op (tk_text tok) (node_new NK_UNARY tok)) e)"
    if "wf_node e" "n_kind e = NK_DOT" for e
    using that t tok_ok_unary by (intro wf_star_innermost) (auto simp: with_op_def)
  then show ?thesis
    unfolding parse_star_def
    by (intro spec_rules ex_bind [OF ex] spec_conseq [OF spec_postfix] ok_mono(1) [OF ex] ok_mono(2) [OF st])
      (use t tok_ok_unary in auto)
qed

lemma spec_group:
  assumes ex: "ok_ex R ex" and st: "ok_st R st"
  shows "spec T R (\<lambda>_. 0) wf_node (parse_group ex st opn)"
  unfolding parse_group_def
  by (intro spec_skip_newlines_then spec_pif_reads reads_record_entry spec_rules ex_bind [OF ex]
      spec_conseq [OF spec_postfix] ok_mono(1) [OF ex] ok_mono(2) [OF st])
    auto

lemma spec_dot_or:
  assumes ex: "ok_ex (R - 1) ex" and st: "ok_st (R - 1) st" and n: "wf_node n" and T: "T \<subseteq> {tok}"
    and "tk_kind tok \<noteq> TK_DOT \<Longrightarrow> spec T R (\<lambda>_. 1) wf_node b"
  shows "spec T R (\<lambda>_. 1) wf_node (if tk_kind tok = TK_DOT then parse_postfix ex st n else b)"
  using assms(5) T by (auto intro!: spec_weaken [OF spec_postfix_at_dot [OF ex st n]])

lemma spec_prefix:
  assumes ex: "ok_ex (R - 1) ex" and st: "ok_st (R - 1) st"
  shows "spec T R (\<lambda>_. 1) wf_node (parse_prefix ex st)"
  unfolding parse_prefix_def
  by (intro spec_dot_or [OF ex st] spec_rules spec_conseq [OF spec_postfix] spec_bind [OF spec_if_value]
      spec_bind [OF spec_array_literal] spec_bind [OF spec_brace_literal] spec_conseq [OF spec_star]
      spec_conseq [OF spec_group] ex_bind [OF ex] ok_mono(1) [OF ex] ok_mono(2) [OF st])
    (auto intro!: wf_unary intro: tok_ok_unary)

lemma spec_pif_newline_ops:
  "spec T R d V a \<Longrightarrow> spec T R d V b \<Longrightarrow> spec T R d V (pif get_newline_ops a b)"
  by (rule spec_pif_reads) (simp_all add: reads_def get_newline_ops_def)

lemma precedence_ops: "precedence k = Some (prec, op) \<Longrightarrow> op \<in> set binary_ops"
  using token_binary_op_ops [of k op] by (simp add: token_binary_op_def)

lemma precedence_eof: "precedence TK_EOF = None"
  by (simp add: precedence_def)

lemma spec_expression_round:
  assumes ex: "ok_ex R ex" and n: "wf_node n"
  shows "spec T R more (keeps wf_node wf_node) (expression_round ex m n)"
  unfolding expression_round_def parse_norm
  by (intro spec_pif_newline_ops spec_rules spec_skip_newlines_then ex_bind [OF ex]
      spec_bind [OF spec_is_check] ok_mono(1) [OF ex])
    (use n precedence_ops in \<open>auto simp: precedence_eof\<close>)

lemma spec_expression_step:
  assumes ex: "ok_ex (R - 1) ex" and st: "ok_st (R - 1) st"
  shows "spec T R (\<lambda>_. 1) wf_node (parse_expression_step ex st m)"
  unfolding parse_expression_step_def
  by (intro spec_bind [OF spec_prefix [OF ex st]]
      spec_conseq [OF spec_ploop [where I = wf_node and V = wf_node]]
      spec_expression_round ex) auto

section \<open>Statements\<close>

lemma spec_condition_block:
  assumes ex: "ok_ex R ex" and st: "ok_st R st"
  shows "spec T R (\<lambda>_. 1) (\<lambda>(c, b). wf_node c \<and> wf_node b) (parse_condition_block ex st m1 m2)"
  unfolding parse_condition_block_def
  by (intro spec_rules spec_skip_newlines_then ex_bind [OF ex] spec_bind [OF spec_block]
      ok_mono(2) [OF st]) auto

lemma spec_parse_if:
  assumes ex: "ok_ex R ex" and st: "ok_st (R - 1) st"
  shows "spec T R (\<lambda>_. 1) wf_node (parse_if ex st)"
  unfolding parse_if_def
  by (intro spec_rules spec_bind [OF spec_condition_block]
      spec_bind [OF spec_ploop [where I = wf_node and V = wf_node]] spec_bind [OF spec_block]
      ok_mono(2) [OF st] ok_mono(1) [OF ex]) auto

definition loop_part :: "node \<Rightarrow> bool" where
  "loop_part n \<longleftrightarrow> n_kind n = NK_LOOP \<and> kids_ok wf_node n \<and> declared_type (attrs n) = None"

lemma loop_part_simps [simp]:
  "loop_part (node_new NK_LOOP t)"
  "loop_part n \<Longrightarrow> wf_node x \<Longrightarrow> loop_part (add_args x n)"
  "loop_part n \<Longrightarrow> loop_part (with_name s n)"
  "loop_part n \<Longrightarrow> loop_part (upd_attrs (\<lambda>a. a\<lparr>loop_hint := h\<rparr>) n)"
  by (simp_all add: loop_part_def with_defs)

lemma loop_part_body [simp]: "loop_part n \<Longrightarrow> wf_node b \<Longrightarrow> wf_node (set_body b n)"
  by (simp add: wf_node_iff [of "set_body b n"] shape_def loop_part_def)

lemma spec_wrapped_arg:
  assumes ex: "ok_ex R ex" and k: "opn \<noteq> TK_EOF" "close \<noteq> TK_EOF"
  shows "spec T R (\<lambda>_. 0) (pred_option wf_node) (try_parse_loop_wrapped_arg ex opn close h)"
proof -
  have go_back: "spec_base i R (\<lambda>_. 0) (pred_option wf_node) (pthen (set_pos i) (ret None))" for i
    by (intro spec_base_set_pos spec_ret) auto
  have cur: "spec UNIV R (\<lambda>_. 0) (\<lambda>_. True) cur"
    by (rule specI) (simp add: peek_eq)
  have cur_is: "spec UNIV R (\<lambda>_. 0) (\<lambda>_. True) (cur_is close)"
    by (rule specI) (simp add: cur_is_def pbind_def peek_eq ret_def)
  have closing: "spec_base i R (\<lambda>_. 0) (pred_option wf_node) (pbind cur (\<lambda>t.
            if tk_kind t \<noteq> close \<or> \<not> loop_wrapper_inner_can_be_target n
            then pthen (set_pos i) (ret None)
            else pthen bump (ret (Some (with_hint h n)))))" if n: "wf_node n" for i n
  proof (cases "loop_wrapper_inner_can_be_target n")
    case True
    have "spec_base i R (\<lambda>_. 0) (pred_option wf_node)
        (pif (match close) (ret (Some (with_hint h n))) (pthen (set_pos i) (ret None)))"
      by (intro spec_base_pif [OF spec_match [OF k(2)]] go_back spec_base_spec spec_ret) (use n in auto)
    moreover have "pif (match close) (ret (Some (with_hint h n))) (pthen (set_pos i) (ret None)) =
        pbind cur (\<lambda>t. if tk_kind t \<noteq> close then pthen (set_pos i) (ret None)
                    else pthen bump (ret (Some (with_hint h n))))"
      unfolding pif_def match_def pbind_assoc
      by (intro arg_cong [of _ _ "pbind cur"] ext) (simp add: pbind_then pbind_ret)
    ultimately show ?thesis using True by simp
  next
    case False
    then show ?thesis using spec_base_bind [OF cur go_back] by simp
  qed
  have "spec_base i R (\<lambda>_. 0) (pred_option wf_node)
     (pif (match opn)
       (pthen skip_newlines
       (pif (cur_is close) (pthen (set_pos i) (ret None))
         (pbind (ex 0) (\<lambda>inner. pthen skip_newlines
         (pbind cur (\<lambda>t.
            if tk_kind t \<noteq> close \<or> \<not> loop_wrapper_inner_can_be_target inner
            then pthen (set_pos i) (ret None)
            else pthen bump (ret (Some (with_hint h inner)))))))))
       (ret None))" for i
    by (intro spec_base_pif [OF spec_match [OF k(1)]] spec_base_pif [OF cur_is] go_back closing
        spec_base_then [OF spec_skip_newlines] spec_base_spec [OF spec_ret]
        spec_base_bind [where ?d1.0 = "\<lambda>_. 1" and ?V1.0 = wf_node] ex_tail [OF ex]) auto
  then show ?thesis
    unfolding try_parse_loop_wrapped_arg_def by (intro spec_get_pos_bind)
qed

lemma spec_loop_argument:
  assumes ex: "ok_ex R ex" and n: "loop_part n"
  shows "spec T R (\<lambda>_. 0) (\<lambda>(a, l). wf_node a \<and> loop_part l) (parse_loop_argument ex n)"
  unfolding parse_loop_argument_def parse_norm
  by (intro spec_bind [OF spec_wrapped_arg] ok_mono(1) [OF ex] spec_rules ex_bind [OF ex])
    (use n in auto)

lemma spec_loop_args:
  assumes ex: "ok_ex R ex" and n: "loop_part n"
  shows "spec T R (\<lambda>_. 0) loop_part (parse_loop_args ex n)"
  unfolding parse_loop_args_def Let_def
  by (intro spec_ploop [where I = loop_part] n spec_bind [OF spec_loop_argument] ok_mono(1) [OF ex]
      spec_rules) auto

lemma spec_loop_name:
  assumes n: "loop_part n"
  shows "spec T R (\<lambda>_. 0) loop_part (parse_loop_name n)"
  unfolding parse_loop_name_def by (intro spec_rules) (use n in auto)

lemma spec_parse_loop:
  assumes ex: "ok_ex R ex" and st: "ok_st (R - 1) st"
  shows "spec T R (\<lambda>_. 1) wf_node (parse_loop ex st)"
  unfolding parse_loop_def parse_norm
  by (intro spec_rules spec_bind [OF spec_loop_args] spec_bind [OF spec_loop_name]
      spec_bind [OF spec_block] ok_mono(2) [OF st] ok_mono(1) [OF ex]) auto

text \<open>Nodes under construction, not yet of their kind's shape.\<close>

definition fn_part :: "node \<Rightarrow> bool" where
  "fn_part n \<longleftrightarrow> n_kind n = NK_FN \<and> n_name (attrs n) \<noteq> None \<and> pred_option name_ok (n_name (attrs n))
     \<and> kids_ok wf_node n
     \<and> pred_option type_text_ok (declared_type (attrs n))"

lemma fn_part_simps [simp]:
  "tok_ok u \<Longrightarrow> tk_kind u = TK_NAME \<Longrightarrow> fn_part (with_name (tk_text u) (node_new NK_FN t))"
  "fn_part n \<Longrightarrow> wf_node x \<Longrightarrow> n_kind x = NK_PARAM \<Longrightarrow> fn_part (add_params x n)"
  "fn_part n \<Longrightarrow> type_text_ok ty \<Longrightarrow> fn_part (with_type ty n)"
  by (simp_all add: fn_part_def with_defs tok_ok_def)

lemma fn_part_body [simp]: "fn_part n \<Longrightarrow> wf_node b \<Longrightarrow> wf_node (set_body b n) \<and> n_kind n = NK_FN"
  by (simp add: wf_node_iff [of "set_body b n"] shape_def fn_part_def)

definition destructure_part :: "node \<Rightarrow> bool" where
  "destructure_part n \<longleftrightarrow> n_kind n = NK_DESTRUCTURE \<and> kids_ok wf_node n \<and> declared_type (attrs n) = None
     \<and> list_all (field_fits NK_DESTRUCTURE) (n_fields n)"

definition destructure_field :: "node \<Rightarrow> bool" where
  "destructure_field f \<longleftrightarrow> wf_node f \<and> n_kind f = NK_FIELD \<and> field_fits NK_DESTRUCTURE f"

lemma destructure_part_simps [simp]:
  "destructure_part (node_new NK_DESTRUCTURE t)"
  "destructure_part n \<Longrightarrow> destructure_field x \<Longrightarrow> destructure_part (add_fields x n)"
  "destructure_part n \<Longrightarrow> wf_node x \<Longrightarrow> wf_node (set_value x n)"
  by (simp_all add: destructure_part_def destructure_field_def wf_node_iff [of "set_value x n"] shape_def)

lemma pif_at: "c p = Inr (b, p) \<Longrightarrow> pif c x y p = (if b then x p else y p)"
  by (simp add: pif_def pbind_def)

lemma spec_destructure_type_bind:
  assumes f: "\<And>ty tok. type_text_ok ty \<Longrightarrow> tok_ok tok \<Longrightarrow> spec UNIV (R - 1) (\<lambda>y. d y - 1) V (f (ty, tok))"
  shows "spec T R d V (pbind parse_destructure_type f)"
proof -
  have "spec T R (\<lambda>_. 1) type_result parse_destructure_type"
  proof (rule specI)
    fix p assume p: "wf_state p" "remaining p \<le> R" "cur_tok p \<in> T"
    let ?c = "pand (cur_is TK_NAME) (pand (peek_is 1 TK_DOT) (peek_is 2 TK_NAME))"
    have ty: "outcome p (\<lambda>_. 1) type_result (parse_type p)"
      by (rule specD [OF spec_parse_type p])
    have "reads UNIV ?c"
      by (rule readsI) (simp add: numeral_eq_Suc reads_if_pand_cur reads_if_pand reads_if_peek_is)
    then obtain b where b: "?c p = Inr (b, p)" using p by (auto simp: reads_def)
    show "outcome p (\<lambda>_. 1) type_result (parse_destructure_type p)"
    proof (cases b)
      case False
      then have "parse_destructure_type p = parse_type p"
        unfolding parse_destructure_type_def pif_at [where c = ?c, OF b] by simp
      with ty show ?thesis by simp
    next
      case True
      then have nm: "tk_kind (cur_tok p) = TK_NAME" and len: "pos p + 2 < length (toks p)"
        and k2: "tk_kind (toks p ! (pos p + 2)) = TK_NAME"
        using b p(1)
        by (auto simp: test_defs peek_def cur_tok_def split: if_splits)
      have "pos p + 3 < length (toks p)"
        using ahead [OF p(1) len] k2 by (simp add: numeral_eq_Suc)
      then obtain t where t: "peek 3 p = Inr (t, p)" using p(1) by (simp add: peek_def)
      have "outcome p (\<lambda>_. 1) type_result
        (pbind cur (\<lambda>tok. pthen bump (ret (normalize_source_type_name (tk_text tok), tok))) p)"
      proof (rule specD [where T = "{t. tk_kind t = TK_NAME}", OF _ p(1) order_refl])
        show "spec {t. tk_kind t = TK_NAME} (remaining p) (\<lambda>_. 1) type_result
          (pbind cur (\<lambda>tok. pthen bump (ret (normalize_source_type_name (tk_text tok), tok))))"
          by (intro spec_rules) (auto simp: type_result_def tok_ok_name name_ok_normalize)
      qed (simp add: nm)
      then show ?thesis
        unfolding parse_destructure_type_def pif_at [where c = ?c, OF b] using True t ty
        by (simp add: pbind_def [of "peek 3"])
    qed
  qed
  then show ?thesis
    by (rule spec_bind) (use f in \<open>auto simp: type_result_def\<close>)
qed

lemma spec_destructure_field: "spec T R (\<lambda>_. 1) destructure_field (parse_destructure_field i)"
  unfolding parse_destructure_field_def Let_def
  by (intro spec_destructure_type_bind spec_rules) (auto simp: destructure_field_def)

lemma spec_destructure_statement:
  assumes ex: "ok_ex R ex"
  shows "spec T R (\<lambda>_. 1) wf_node (parse_destructure_statement ex)"
  unfolding parse_destructure_statement_def
  by (intro spec_rules spec_skip_newlines_then ex_bind [OF ex]
      spec_bind [OF spec_ploop [where I = "\<lambda>(n, i :: nat). destructure_part n" and V = destructure_part]]
      spec_bind [OF spec_destructure_field])
    auto

lemma spec_fn_params:
  assumes "fn_part n"
  shows "spec T R (\<lambda>_. 0) fn_part (parse_fn_params n)"
  unfolding parse_fn_params_def Let_def
  by (intro spec_ploop [where I = fn_part] assms spec_parse_type_bind spec_rules spec_skip_newlines_then) auto

lemma spec_fn_decl:
  assumes st: "ok_st (R - 1) st"
  shows "spec T R (\<lambda>_. 1) (\<lambda>n. wf_node n \<and> n_kind n = NK_FN) (parse_fn_decl st)"
  unfolding parse_fn_decl_def parse_norm
  by (intro spec_rules spec_parse_type_bind spec_skip_newlines_then spec_bind [OF spec_fn_params]
      spec_bind [OF spec_block] ok_mono(2) [OF st]) auto

lemma spec_var_decl:
  assumes ex: "ok_ex R ex"
  shows "spec T R (\<lambda>_. 1) wf_node (parse_var_decl ex)"
  unfolding parse_var_decl_def Let_def
  by (intro spec_parse_type_bind spec_rules ex_bind [OF ex]) auto

lemma spec_expression_statement:
  assumes ex: "ok_ex R ex"
  shows "spec T R (\<lambda>_. 1) wf_node (parse_expression_statement ex tok)"
  unfolding parse_expression_statement_def by (intro spec_rules ex_bind [OF ex]) auto

lemma spec_statement_step:
  assumes ex: "ok_ex R ex" and st: "ok_st (R - 1) st"
  shows "spec T R (\<lambda>_. 1) wf_node (parse_statement_step ex st)"
  unfolding parse_statement_step_def parse_ret_def parse_throw_def parse_free_def
  by (intro spec_rules spec_pif_reads [OF reads_mono] reads_starts_destructure reads_starts_type
      spec_conseq [OF spec_fn_decl] spec_parse_if spec_parse_loop
      spec_destructure_statement spec_var_decl spec_expression_statement ex st ex_bind [OF ex])
    auto

section \<open>The knot\<close>

theorem recursion_ok:
  "ok_ex ((n + 1) div 2) (parse_expression_n n) \<and> ok_st (n div 2) (parse_statement_n n)"
proof (induction n)
  case 0
  then show ?case using spec_no_fuel by (auto simp: ok_ex_def ok_st_def)
next
  case (Suc n)
  have half: "(Suc n + 1) div 2 - 1 = n div 2" by simp
  have ex: "ok_ex ((Suc n + 1) div 2) (parse_expression_n (Suc n))"
    unfolding ok_ex_def parse_expression_n.simps(2)
    by (intro allI spec_expression_step; unfold half) (use Suc.IH ok_mono(1) in \<open>auto intro: ok_mono(1)\<close>)
  have st: "ok_st (Suc n div 2) (parse_statement_n (Suc n))"
    unfolding ok_st_def parse_statement_n.simps(2)
    by (rule spec_statement_step) (use Suc.IH in \<open>auto intro: ok_mono\<close>)
  from ex st show ?case ..
qed

lemma spec_parse_expression: "spec T R (\<lambda>_. 1) wf_node (parse_expression m)"
proof (rule specI)
  fix p assume p: "wf_state p"
  have "spec UNIV (remaining p) (\<lambda>_. 1) wf_node (parse_expression_n (parse_fuel p) m)"
    using recursion_ok [of "parse_fuel p"] by (simp add: ok_ex_def parse_fuel_def spec_def)
  from specD [OF this p order_refl UNIV_I] show "outcome p (\<lambda>_. 1) wf_node (parse_expression m p)"
    by (simp add: parse_expression_def)
qed

lemma spec_parse_statement: "spec T R (\<lambda>_. 1) wf_node parse_statement"
proof (rule specI)
  fix p assume p: "wf_state p"
  have "spec UNIV (remaining p) (\<lambda>_. 1) wf_node (parse_statement_n (parse_fuel p))"
    using recursion_ok [of "parse_fuel p"] by (simp add: ok_st_def parse_fuel_def)
  from specD [OF this p order_refl UNIV_I] show "outcome p (\<lambda>_. 1) wf_node (parse_statement p)"
    by (simp add: parse_statement_def)
qed

lemma parse_expression_bind:
  assumes "\<And>x. wf_node x \<Longrightarrow> spec UNIV (R - 1) (\<lambda>y. d y - 1) V (f x)"
  shows "spec T R d V (pbind (parse_expression m) f)"
  by (rule spec_bind [OF spec_parse_expression]) (use assms in auto)

section \<open>Declarations and the program\<close>

definition is_name :: "token \<Rightarrow> bool" where
  "is_name t \<longleftrightarrow> name_ok (tk_text t)"

lemma spec_inline_head:
  "spec T R (\<lambda>_. 1) (\<lambda>(a, nm). is_name nm) (inline_array_head m1 m2 m3 m4)"
  unfolding inline_array_head_def
  by (intro spec_rules) (auto simp: is_name_def intro: tok_ok_name)

definition decl_ok :: "node \<Rightarrow> bool" where
  "decl_ok n \<longleftrightarrow> wf_node n \<and> is_type_decl n"

lemma decl_ok_intro: "wf_node n \<Longrightarrow> n_kind n = NK_TYPE_ALIAS \<or> n_kind n = NK_TYPE_STRUCT \<Longrightarrow> decl_ok n"
  by (simp add: decl_ok_def is_type_decl_def)

definition fields_ok :: "nat \<Rightarrow> (node \<Rightarrow> string \<Rightarrow> string \<Rightarrow> node parse) \<Rightarrow> bool" where
  "fields_ok R f \<longleftrightarrow> (\<forall>decl nm msg. decl_ok decl \<longrightarrow> name_ok nm \<longrightarrow>
     spec UNIV R (\<lambda>_. 0) decl_ok (f decl nm msg))"

lemma fields_bind:
  assumes "fields_ok Rx f" "R \<le> Rx" "decl_ok decl" "name_ok nm"
    "\<And>x. decl_ok x \<Longrightarrow> spec UNIV R d V (g x)"
  shows "spec T R d V (pbind (f decl nm msg) g)"
  by (rule spec_bind [where ?d1.0 = "\<lambda>_. 0" and ?V1.0 = decl_ok])
    (use assms in \<open>auto simp: fields_ok_def intro: spec_weaken\<close>)

lemma spec_nested_array_field:
  assumes f: "fields_ok (R - 1) f" and n: "decl_ok n" "name_ok nm"
  shows "spec T R (\<lambda>_. 1) decl_ok (nested_array_field f nm n)"
  unfolding nested_array_field_def Let_def
  by (intro spec_bind [OF spec_inline_head] spec_rules fields_bind [OF f])
    (use n in \<open>auto simp: decl_ok_def is_type_decl_def is_name_def name_ok_join type_text_ok_intros\<close>)

lemma spec_nested_map_field:
  assumes f: "fields_ok (R - 1) f" and n: "decl_ok n" "name_ok nm"
  shows "spec T R (\<lambda>_. 1) decl_ok (nested_map_field f nm n)"
  unfolding nested_map_field_def Let_def
  by (intro spec_rules fields_bind [OF f]) (use n in \<open>auto simp: decl_ok_def is_type_decl_def tok_ok_name name_ok_join type_text_ok_intros\<close>)

lemma spec_plain_field:
  assumes n: "decl_ok n"
  shows "spec T R (\<lambda>_. 1) decl_ok (plain_field n)"
  unfolding plain_field_def Let_def
  by (intro spec_parse_type_bind spec_rules parse_expression_bind) (use n in \<open>auto simp: decl_ok_def is_type_decl_def\<close>)

lemma spec_type_struct_fields_step:
  assumes f: "fields_ok (R - 1) f" and n: "decl_ok n" "name_ok nm"
  shows "spec T R (\<lambda>_. 0) decl_ok (type_struct_fields_step f n nm msg)"
  unfolding type_struct_fields_step_def pbind_pif
  by (intro spec_skip_newlines_then spec_bind [OF spec_ploop [where I = decl_ok and V = decl_ok]]
      spec_rules spec_pif_reads [OF reads_mono] reads_inline_array_map reads_map_entry
      spec_bind [OF spec_nested_array_field] spec_bind [OF spec_nested_map_field]
      spec_bind [OF spec_plain_field] spec_entry_separator_then)
    (use f n in \<open>auto simp: fields_ok_def intro: spec_weaken\<close>)

lemma spec_type_struct_fields_n: "fields_ok n (parse_type_struct_fields_n n)"
proof (induction n)
  case 0
  then show ?case by (simp add: fields_ok_def spec_no_fuel)
next
  case (Suc n)
  then show ?case
    unfolding fields_ok_def parse_type_struct_fields_n.simps(2)
    by (intro allI impI spec_type_struct_fields_step) (auto simp: fields_ok_def)
qed

lemma spec_type_struct_fields:
  assumes "decl_ok decl" "name_ok nm"
  shows "spec T R (\<lambda>_. 0) decl_ok (parse_type_struct_fields decl nm msg)"
proof -
  have "spec UNIV n (\<lambda>_. 0) decl_ok (parse_type_struct_fields_n n decl nm msg)" for n
    using spec_type_struct_fields_n [of n] assms by (simp add: fields_ok_def)
  from spec_fuel [OF this] show ?thesis
    by (simp add: parse_type_struct_fields_def [abs_def])
qed

lemma spec_inline_array_map_alias: "spec T R (\<lambda>_. 1) decl_ok parse_inline_array_map_alias"
proof -
  have nm: "name_ok (tk_text t @ ''_item'')" if "is_name t" for t
    using that name_ok_join [of "tk_text t" "''item''"] by (simp add: is_name_def name_ok_def word_char_def char_defs)
  show ?thesis
    unfolding parse_inline_array_map_alias_def Let_def
    by (intro spec_bind [OF spec_inline_head] spec_rules spec_bind [OF spec_type_struct_fields])
      (use nm in \<open>auto simp: decl_ok_def is_type_decl_def type_text_ok_intros\<close>)
qed

lemma spec_type_decl: "spec T R (\<lambda>_. 1) decl_ok parse_type_decl"
  unfolding parse_type_decl_def Let_def parse_norm
  by (intro spec_rules spec_type_struct_fields spec_conseq [OF spec_type_struct_fields]
      spec_parse_type_bind parse_expression_bind) (auto simp: decl_ok_def is_type_decl_def tok_ok_name)

lemma spec_top_level_value: "spec T R (\<lambda>_. 1) decl_ok parse_top_level_value"
  unfolding parse_top_level_value_def
  by (intro spec_parse_type_bind spec_rules parse_expression_bind) (auto simp: decl_ok_def is_type_decl_def)

lemma reads_type_entry:
  "reads UNIV (pand (por (cur_is TK_TYPE) (cur_is TK_MAP)) (pand (peek_is 1 TK_NAME) (peek_is 2 TK_EQUAL)))"
proof (rule readsI)
  fix p assume p: "wf_state p"
  let ?k = "tk_kind (cur_tok p)" and ?c = "pand (peek_is 1 TK_NAME) (peek_is 2 TK_EQUAL)"
  have por: "por (cur_is TK_TYPE) (cur_is TK_MAP) p = Inr (?k = TK_TYPE \<or> ?k = TK_MAP, p)"
    using p by (simp add: por_def pif_def cur_is_def pbind_def peek_eq ret_def)
  have "reads_if p 0 ?c" if "?k = TK_TYPE \<or> ?k = TK_MAP"
    by (rule reads_if_after_cur)
      (use that in \<open>auto simp: numeral_eq_Suc intro: reads_if_pand reads_if_peek_is\<close>)
  then show "reads_if p 0 (pand (por (cur_is TK_TYPE) (cur_is TK_MAP)) ?c)"
    unfolding reads_if_def pand_def [of "por (cur_is TK_TYPE) (cur_is TK_MAP)"] pif_at [where c = "por (cur_is TK_TYPE) (cur_is TK_MAP)", OF por]
    by (cases "?k = TK_TYPE \<or> ?k = TK_MAP") (auto simp: ret_def)
qed

lemma spec_top_item:
  assumes n: "wf_node n"
  shows "spec T R (\<lambda>_. 1) wf_node (parse_top_item n)"
proof -
  have st: "ok_st (R - 1) parse_statement" unfolding ok_st_def by (rule spec_parse_statement)
  show ?thesis
    unfolding parse_top_item_def
    by (intro spec_pif_reads [OF reads_mono] reads_inline_array_map reads_type_entry reads_starts_type
        spec_pif_cur_is spec_bind [OF spec_inline_array_map_alias] spec_bind [OF spec_type_decl]
        spec_bind [OF spec_top_level_value] spec_bind [OF spec_fn_decl] st
        spec_bind [OF spec_parse_statement] spec_ret)
      (use n in \<open>auto simp: decl_ok_def\<close>)
qed

theorem spec_program: "spec T R (\<lambda>_. 0) wf_node parse_program_from"
  unfolding parse_program_from_def
  by (intro spec_rules spec_skip_newlines_then spec_ploop [where I = wf_node]
      spec_bind [OF spec_top_item]) auto

end
