(* ===== verification/FrontEnd.thy ===== *)
theory FrontEnd
  imports ParserSafe
begin

text \<open>
  What the front end promises the analyzer: a program or a diagnostic, never undefined
  behaviour or a recursion cut short, and a syntax tree of the shape the later phases assume.
\<close>

section \<open>The tokens the parser gets\<close>

lemma keyword_kind_tok_ok:
  assumes "w \<noteq> []" "\<forall>c \<in> set w. word_char c"
  shows "tok_ok \<lparr>tk_kind = keyword_kind w, tk_text = w, tk_line = l, tk_col = c\<rparr>"
proof (cases "map_of keyword_table w")
  case None
  then show ?thesis using assms by (simp add: tok_ok_def keyword_kind_def name_ok_def)
next
  case (Some k)
  then have "(w, k) \<in> set keyword_table" by (rule map_of_SomeD)
  with Some assms show ?thesis
    by (auto simp: tok_ok_def keyword_kind_def name_ok_def keyword_table_def)
qed

lemma name_ok_x: "name_ok ''x''"
  by (simp add: name_ok_def word_char_def char_defs)

lemma operator_tok_ok:
  "map_of two_char_ops w = Some k \<Longrightarrow> tok_ok \<lparr>tk_kind = k, tk_text = w, tk_line = l, tk_col = c\<rparr>"
  "map_of one_char_ops ch = Some k \<Longrightarrow> tok_ok \<lparr>tk_kind = k, tk_text = [ch], tk_line = l, tk_col = c\<rparr>"
proof -
  show "tok_ok \<lparr>tk_kind = k, tk_text = w, tk_line = l, tk_col = c\<rparr>" if "map_of two_char_ops w = Some k"
    using map_of_SomeD [OF that] by (auto simp: two_char_ops_def tok_ok_def)
  show "tok_ok \<lparr>tk_kind = k, tk_text = [ch], tk_line = l, tk_col = c\<rparr>" if "map_of one_char_ops ch = Some k"
    using map_of_SomeD [OF that] by (auto simp: one_char_ops_def tok_ok_def)
qed

lemma other_tok_ok:
  "k \<in> {TK_NEWLINE, TK_STRING_LITERAL, TK_INT_LITERAL, TK_FLT_LITERAL, TK_EOF}
   \<Longrightarrow> tok_ok \<lparr>tk_kind = k, tk_text = w, tk_line = l, tk_col = c\<rparr>"
  by (auto simp: tok_ok_def)

lemma lex_step_tok_ok:
  assumes "lex_step s = Inr s'" and "lx_rest s \<noteq> []" and "\<forall>t \<in> set (lx_out s). tok_ok t"
  shows "\<forall>t \<in> set (lx_out s'). tok_ok t"
proof -
  obtain c cs where r: "lx_rest s = c # cs" using assms(2) by (cases "lx_rest s") auto
  have word_chars: "word_char x" if "x \<in> set (takeWhile word_char cs)" for x
    using set_takeWhileD [OF that] by simp
  have word: "takeWhile word_char (c # cs) \<noteq> []" if "word_start c" using that by simp
  show ?thesis
    using assms(1,3) word
    by (auto simp: r lex_step_def Let_def lex_branches rbind_eq_Inr other_tok_ok operator_tok_ok
        tok_ok_def [of "\<lparr>tk_kind = TK_NAME, tk_text = ''x'', tk_line = l, tk_col = c\<rparr>" for l c] name_ok_x
        split: if_splits option.splits sum.splits prod.splits
        intro!: keyword_kind_tok_ok)
      (simp_all add: word_chars)
qed

lemma lex_loop_tok_ok:
  "lex_loop s = Inr ts \<Longrightarrow> \<forall>t \<in> set (lx_out s). tok_ok t \<Longrightarrow> \<forall>t \<in> set ts. tok_ok t"
proof (induction s rule: lex_loop.induct)
  case (1 s)
  show ?case
  proof (cases "lx_rest s = []")
    case True
    with "1.prems" show ?thesis by (auto simp: lex_loop.simps [of s] other_tok_ok)
  next
    case False
    with "1.prems"(1) obtain s' where "lex_step s = Inr s'" "lex_loop s' = Inr ts"
      by (auto simp: lex_loop.simps [of s] rbind_eq_Inr)
    with "1.IH" [OF False] "1.prems"(2) False show ?thesis by (blast dest: lex_step_tok_ok)
  qed
qed

lemma lex_source_tokens_ok: "lex_source src = Inr ts \<Longrightarrow> tokens_ok ts"
  unfolding tokens_ok_def
  using lex_source_stream_ok lex_loop_tok_ok by (fastforce simp: lex_source_def)

section \<open>From source text to a well-formed tree\<close>

lemma parse_program_ok:
  assumes "tokens_ok ts"
  shows "case parse_program ts of Inl e \<Rightarrow> is_diagnostic e | Inr n \<Rightarrow> wf_node n"
proof -
  let ?p = "\<lparr>toks = ts, pos = 0, allow_newline_ops = False\<rparr>"
  have "wf_state ?p" using assms by (auto simp: wf_state_def tokens_ok_def stream_ok_def)
  from specD [OF spec_program this order_refl UNIV_I]
  show ?thesis by (rule outcome_cases) (simp_all add: parse_program_def)
qed

lemma front_end_outcome:
  "case front_end src of Inl e \<Rightarrow> is_diagnostic e | Inr n \<Rightarrow> wf_node n"
proof (cases "lex_source src")
  case (Inl e)
  then show ?thesis using lex_source_error by (simp add: front_end_def)
next
  case (Inr ts)
  then show ?thesis using parse_program_ok [OF lex_source_tokens_ok] by (simp add: front_end_def)
qed

text \<open>
  C1: Lexing and parsing are total and safe: any source ends with a diagnostic or with a well-formed
  tree. The parser never reads outside the token array, never follows a null pointer, and its
  recursion ends on its own, for every input.
\<close>

theorem front_end_total:
  "case front_end src of Inl e \<Rightarrow> is_diagnostic e | Inr n \<Rightarrow> wf_node n"
  by (rule front_end_outcome)

section \<open>Integer literals\<close>

lemma digit_code: "d < 10 \<Longrightarrow> code (char_of (48 + d)) = 48 + d"
  by (simp add: code_def)

lemma show_nat_digits: "\<forall>c \<in> set (show_nat n). isdigit c"
  by (induction n rule: show_nat.induct) (subst show_nat.simps, auto simp: isdigit_def digit_code)

lemma decimal_show: "decimal (show_nat n) = int n"
proof -
  have "foldl (\<lambda>n c. 10 * n + int (code c - 48)) 0 (show_nat n) = int n"
  proof (induction n rule: show_nat.induct)
    case (1 n)
    have m: "code (char_of (48 + n mod 10)) = 48 + n mod 10" by (rule digit_code) simp
    show ?case
    proof (cases "n < 10")
      case True
      then show ?thesis by (simp add: show_nat.simps [of n] digit_code)
    next
      case False
      then have "foldl (\<lambda>n c. 10 * n + int (code c - 48)) 0 (show_nat (n div 10)) = int (n div 10)" by (rule 1)
      moreover have "10 * int (n div 10) + int (n mod 10) = int n" by presburger
      ultimately show ?thesis using False m by (subst show_nat.simps) simp
    qed
  qed
  moreover have "takeWhile isdigit (show_nat n) = show_nat n"
    using show_nat_digits by (simp add: takeWhile_eq_all_conv)
  ultimately show ?thesis by (simp only: decimal_def)
qed

text \<open>The value a literal must have, and its node; a token as the lexer writes it.\<close>

definition literal_value :: "nat \<Rightarrow> int" where
  "literal_value n = (if n < 2 ^ 63 then int n else 2 ^ 63 - 1)"

definition literal_token :: "nat \<Rightarrow> nat \<Rightarrow> nat \<Rightarrow> token" where
  "literal_token n l c = \<lparr>tk_kind = TK_INT_LITERAL, tk_text = show_nat n, tk_line = l, tk_col = c\<rparr>"

definition literal_node :: "nat \<Rightarrow> token \<Rightarrow> node" where
  "literal_node n tok = with_int (literal_value n) (node_new NK_INT tok)"

lemma literal_token_sel [simp]:
  "tk_kind (literal_token n l c) = TK_INT_LITERAL" "tk_text (literal_token n l c) = show_nat n"
  "tk_line (literal_token n l c) = l" "tk_col (literal_token n l c) = c"
  by (simp_all add: literal_token_def)

lemma strtoll_literal: "strtoll (show_nat n) = literal_value n"
  by (simp add: strtoll_def decimal_show llong_max_def literal_value_def)

lemma show_nat_head:
  obtains d ds where "show_nat n = d # ds" and "isdigit d" and "\<forall>c \<in> set ds. isdigit c"
proof -
  have "show_nat n \<noteq> []" by (simp add: show_nat.simps [of n])
  with show_nat_digits [of n] that show thesis by (cases "show_nat n") auto
qed

lemma lex_step_digit:
  assumes "lx_rest s = d # ds" and "isdigit d"
  shows "lex_step s = lex_number s"
proof -
  have "d \<notin> {SPACE, TAB, NL, CR, SLASH, DQUOTE, BQUOTE}"
    using assms(2) by (auto simp: isdigit_def char_defs code_def)
  with assms show ?thesis by (simp add: lex_step_def Let_def is_eol_def)
qed

lemma number_digits:
  assumes "\<forall>c \<in> set s. isdigit c"
  shows "number s = Inr (False, length s)"
proof -
  have "digits s = length s" using assms by (simp add: digits_def takeWhile_eq_all_conv [THEN iffD2])
  then show ?thesis by (simp add: number_def Let_def)
qed

lemma lex_show_nat:
  "lex_source (show_nat n) =
     Inr [literal_token n 1 1,
          \<lparr>tk_kind = TK_EOF, tk_text = [], tk_line = 1, tk_col = 1 + length (show_nat n)\<rparr>]"
proof -
  let ?s0 = "\<lparr>lx_past = [], lx_rest = show_nat n, lx_line = 1, lx_col = 1, lx_out = []\<rparr>"
  let ?s1 = "push TK_INT_LITERAL (show_nat n) 1 1 (eat (length (show_nat n)) ?s0)"
  obtain d ds where d: "show_nat n = d # ds" and dd: "isdigit d" by (rule show_nat_head)
  have "lex_step ?s0 = lex_number ?s0" by (rule lex_step_digit [OF _ dd]) (simp add: d)
  then have "lex_step ?s0 = Inr ?s1" by (simp add: lex_number_def number_digits [OF show_nat_digits])
  moreover have "lx_rest ?s0 \<noteq> []" by (simp add: d)
  ultimately have "lex_loop ?s0 = lex_loop ?s1" by (subst lex_loop.simps) simp
  also have "\<dots> = Inr (lx_out ?s1 @ [\<lparr>tk_kind = TK_EOF, tk_text = [], tk_line = 1, tk_col = 1 + length (show_nat n)\<rparr>])"
    by (subst lex_loop.simps) (simp add: push_def eat_def)
  finally show ?thesis by (simp add: lex_source_def push_def eat_def literal_token_def)
qed

lemmas parser_core_defs = pbind_def pthen_def pif_def pand_def por_def ret_def cur_def peek_def
  match_def bump_def cur_is_def peek_is_def get_newline_ops_def

lemma prefix_literal:
  assumes "pos p < length (toks p)" and "toks p ! pos p = literal_token n l c"
  shows "parse_prefix ex st p = Inr (literal_node n (literal_token n l c), p\<lparr>pos := pos p + 1\<rparr>)"
  using assms by (simp add: parse_prefix_def parser_core_defs strtoll_literal literal_node_def)

text \<open>The statement that consists of the literal.\<close>

definition literal_program :: "nat \<Rightarrow> node" where
  "literal_program n =
     (let tok = literal_token n 1 1
      in add_statements (set_expr (literal_node n tok) (node_new NK_EXPR_STMT tok)) (node_new NK_PROGRAM tok))"

lemma starts_nothing:
  assumes "pos p + 1 < length (toks p)" and "tk_kind (toks p ! pos p) = TK_INT_LITERAL"
  shows "starts_destructure p = Inr (False, p)" "starts_type p = Inr (False, p)"
    "starts_inline_array_map p = Inr (False, p)"
  using assms
  by (simp_all add: starts_destructure_def starts_destructure_scan_def tok_kind_at_def starts_type_def
      starts_inline_array_map_def parser_core_defs)

lemma skip_newlines_stay:
  assumes "pos p < length (toks p)" and "tk_kind (toks p ! pos p) \<noteq> TK_NEWLINE"
  shows "skip_newlines p = Inr ((), p)"
  using assms by (simp add: skip_newlines_def ploop_def ploop_n.simps parser_core_defs)

lemma literal_parse:
  "tk_kind eof = TK_EOF
   \<Longrightarrow> parse_expression_n (Suc k) 0 \<lparr>toks = [literal_token n l c, eof], pos = 0, allow_newline_ops = False\<rparr> =
       Inr (literal_node n (literal_token n l c),
            \<lparr>toks = [literal_token n l c, eof], pos = Suc 0, allow_newline_ops = False\<rparr>)"
  by (simp add: parse_expression_step_def pbind_def [of "parse_prefix ex st" for ex st] prefix_literal
      ploop_def ploop_n.simps remaining_def expression_round_def parser_core_defs precedence_def)

lemma literal_front_end: "front_end (show_nat n) = Inr (literal_program n)"
proof -
  let ?eof = "\<lparr>tk_kind = TK_EOF, tk_text = [], tk_line = 1, tk_col = 1 + length (show_nat n)\<rparr>"
  let ?p = "\<lparr>toks = [literal_token n 1 1, ?eof], pos = 0, allow_newline_ops = False\<rparr>"
  let ?st = "set_expr (literal_node n (literal_token n 1 1)) (node_new NK_EXPR_STMT (literal_token n 1 1))"
  have st: "parse_statement ?p = Inr (?st, ?p\<lparr>pos := 1\<rparr>)"
    by (simp add: parse_statement_def parse_fuel_def remaining_def parse_statement_step_def starts_nothing
        parse_expression_statement_def literal_parse eval_nat_numeral parser_core_defs
        del: parse_expression_n.simps)
  have item: "parse_top_item (node_new NK_PROGRAM (literal_token n 1 1)) ?p =
      Inr (literal_program n, ?p\<lparr>pos := 1\<rparr>)"
    using st by (simp add: parse_top_item_def starts_nothing literal_program_def Let_def parser_core_defs)
  have "parse_program_from ?p = Inr (literal_program n, ?p\<lparr>pos := 1\<rparr>)"
    using item by (simp add: parse_program_from_def skip_newlines_stay ploop_def ploop_n.simps remaining_def
        parser_core_defs)
  then show ?thesis by (simp add: front_end_def lex_show_nat parse_program_def)
qed

text \<open>
  C14: An integer literal is lexed as one token and becomes a node whose value is the decimal value
  of its digits up to the largest 64-bit integer, where it saturates without a diagnostic. Wherever
  the parser meets such a token at the start of an operand it consumes exactly that token, and a
  source that is nothing but the literal is the program of that one expression statement.
\<close>

theorem int_literal_saturates:
  assumes "pos p < length (toks p)" and "toks p ! pos p = literal_token n l c"
  shows "parse_prefix ex st p = Inr (literal_node n (literal_token n l c), p\<lparr>pos := pos p + 1\<rparr>) \<and>
    front_end (show_nat n) = Inr (literal_program n)"
  using prefix_literal [OF assms] literal_front_end by blast

theorem int_literal_saturates_witness:
  "parse_prefix parse_expression parse_statement
       \<lparr>toks = [literal_token (2 ^ 64) 1 1], pos = 0, allow_newline_ops = False\<rparr> =
     Inr (with_int (2 ^ 63 - 1) (node_new NK_INT (literal_token (2 ^ 64) 1 1)),
          \<lparr>toks = [literal_token (2 ^ 64) 1 1], pos = 1, allow_newline_ops = False\<rparr>) \<and>
   front_end (show_nat (2 ^ 64)) = Inr (literal_program (2 ^ 64))"
  using int_literal_saturates [of "\<lparr>toks = [literal_token (2 ^ 64) 1 1], pos = 0, allow_newline_ops = False\<rparr>"
      "2 ^ 64" 1 1 parse_expression parse_statement]
  by (simp add: literal_node_def literal_value_def)

end
