(* ===== verification/FunctionFacts.thy ===== *)
theory FunctionFacts
  imports Functions FrontEnd
begin

text \<open>
  The table of functions is a table of distinct names with canonical signatures, and the C names
  of nested functions never clash.
\<close>

section \<open>C names of nested functions\<close>

lemma show_nat_inject [simp]: "show_nat m = show_nat n \<longleftrightarrow> m = n"
  by (metis decimal_show of_nat_eq_iff)

lemma show_nat_no_underscore: "CHR ''_'' \<notin> set (show_nat n)"
  using show_nat_digits [of n] by (auto simp: isdigit_def)

lemma last_underscore:
  assumes "CHR ''_'' \<notin> set b" "CHR ''_'' \<notin> set b'" "a @ ''_'' @ b = a' @ ''_'' @ b'"
  shows "a = a' \<and> b = b'"
proof -
  have "rev b @ CHR ''_'' # rev a = rev b' @ CHR ''_'' # rev a'"
    using arg_cong [OF assms(3), of rev] by simp
  then have "takeWhile (\<lambda>c. c \<noteq> CHR ''_'') (rev b @ CHR ''_'' # rev a)
      = takeWhile (\<lambda>c. c \<noteq> CHR ''_'') (rev b' @ CHR ''_'' # rev a')" by simp
  then have "rev b = rev b'"
    by (subst (asm) (1 2) takeWhile_append_stop) (use assms(1,2) in auto)
  with assms(3) show ?thesis by simp
qed

section \<open>Results over the tables\<close>

text \<open>A text of a canonical type, a finished signature, and the invariant of the registration.\<close>

definition ctext :: "type_table \<Rightarrow> string \<Rightarrow> bool" where
  "ctext ts s \<longleftrightarrow> (\<exists>v. wf_ty v \<and> canonical ts v \<and> s = show_ty v)"

definition fn_done :: "type_table \<Rightarrow> fn_info \<Rightarrow> bool" where
  "fn_done ts f \<longleftrightarrow>
     list_all (ctext ts) (fi_param_types f) \<and> length (fi_param_types f) = length (n_params (fi_node f))
     \<and> declared_return_type f = return_type f \<and> opt_holds (ctext ts) (return_type f)"

definition tables_ok :: "type_table \<Rightarrow> tables \<Rightarrow> bool" where
  "tables_ok ts tabs \<longleftrightarrow>
     distinct (map fi_name (fst tabs)) \<and> ready_table (snd tabs) \<and> same_decls ts (snd tabs)
     \<and> list_all (fn_done ts) (fst tabs)"

definition ok_res :: "('s \<Rightarrow> bool) \<Rightarrow> ('a \<Rightarrow> bool) \<Rightarrow> ('a \<times> 's) result \<Rightarrow> bool" where
  "ok_res S P r \<longleftrightarrow> (case r of Inl e \<Rightarrow> is_diagnostic e | Inr (x, s) \<Rightarrow> P x \<and> S s)"

lemma ok_res_simps [simp]:
  "ok_res S P (Inl e) = is_diagnostic e" "ok_res S P (Inr (x, s)) = (P x \<and> S s)"
  "ok_res S P (die_node_at n m)"
  by (simp_all add: ok_res_def die_node_at_def)

lemma ok_res_bind:
  assumes "ok_res S P r" and "\<And>x s. P x \<Longrightarrow> S s \<Longrightarrow> ok_res S Q (f x s)"
  shows "ok_res S Q (rbind r (\<lambda>(x, s). f x s))"
  using assms by (cases r) auto

lemma each_node_ok:
  assumes "\<And>x s. x \<in> set xs \<Longrightarrow> S s \<Longrightarrow> ok_res S (P x) (f x s)" and "S s"
  shows "ok_res S (list_all2 P xs) (each_node f xs s)"
  using assms
proof (induction xs arbitrary: s)
  case (Cons x xs)
  show ?case
    unfolding each_node.simps
    by (rule ok_res_bind [OF Cons.prems(1) [OF _ Cons.prems(2)]], simp)
      (rule ok_res_bind [OF Cons.IH], use Cons.prems in auto)
qed simp

lemma each_opt_ok:
  assumes "\<And>y s. x = Some y \<Longrightarrow> S s \<Longrightarrow> ok_res S (\<lambda>_. True) (f y s)" and "S s"
  shows "ok_res S (\<lambda>_. True) (each_opt f x s)"
  using assms ok_res_bind [of S "\<lambda>_. True" _ "\<lambda>_. True" "\<lambda>y' s. Inr (Some y', s)"]
  by (cases x) (auto simp: each_opt_def)

lemma on_block_ok:
  assumes "\<And>x s. x \<in> set (n_statements b) \<Longrightarrow> S s \<Longrightarrow> ok_res S (\<lambda>_. True) (f x s)" and "S s"
  shows "ok_res S (\<lambda>_. True) (on_block f b s)"
  unfolding on_block_def
  by (rule ok_res_bind [OF each_node_ok [where P = "\<lambda>_ _. True"]]) (use assms in auto)

lemma on_branch_ok:
  assumes "\<And>x z s. n_body b = Some z \<Longrightarrow> x \<in> set (n_statements z) \<Longrightarrow> S s \<Longrightarrow> ok_res S (\<lambda>_. True) (f x s)" and "S s"
  shows "ok_res S (\<lambda>_. True) (on_branch f b s)"
  unfolding on_branch_def
  by (rule ok_res_bind [OF each_opt_ok]) (use assms in \<open>auto intro: on_block_ok\<close>)

lemma opt_block_ok:
  assumes "\<And>b x s. y = Some b \<Longrightarrow> x \<in> set (n_statements b) \<Longrightarrow> S s \<Longrightarrow> ok_res S (\<lambda>_. True) (f x s)" and "S s"
  shows "ok_res S (\<lambda>_. True) (each_opt (on_block f) y s)"
  by (rule each_opt_ok) (use assms in \<open>auto intro: on_block_ok\<close>)

section \<open>Signatures\<close>

definition resolving_ok :: "type_table \<Rightarrow> type_table \<Rightarrow> bool" where
  "resolving_ok ts us \<longleftrightarrow> ready_table us \<and> same_decls ts us"

lemma resolve_declared_ok:
  assumes "resolving_ok ts us" "type_text_ok raw"
  shows "ok_res (resolving_ok ts) (ctext ts) (resolve_type us raw n)"
proof -
  obtain ty where ty: "wf_ty ty" "raw = show_ty ty" using assms(2) by (auto simp: type_text_ok_def)
  have us: "ready_table us" "same_decls ts us" using assms(1) by (simp_all add: resolving_ok_def)
  show ?thesis
  proof (cases "resolve_type us raw n")
    case (Inl e)
    then show ?thesis using resolve_type_ready_error [OF us(1) ty(1)] ty by simp
  next
    case (Inr y)
    obtain t vs where y: "y = (t, vs)" by (cases y)
    note res = resolve_type_ready [OF us(1) ty(1) Inr [unfolded y ty(2)]]
    have "same_decls ts vs" using same_decls_trans [OF us(2) evolves_same_decls [OF res(2)]] .
    moreover have "ctext ts t" using res(4) same_decls_canonical [OF us(2)] by (auto simp: ctext_def)
    ultimately show ?thesis using Inr y res(1) by (simp add: resolving_ok_def)
  qed
qed

definition param_typed :: "node \<Rightarrow> bool" where
  "param_typed p \<longleftrightarrow> opt_holds type_text_ok (declared_type (attrs p))"

lemma resolve_param_ok:
  assumes "resolving_ok ts us" "param_typed p"
  shows "ok_res (resolving_ok ts) (\<lambda>p'. opt_holds (ctext ts) (declared_type (attrs p'))) (resolve_param p us)"
proof -
  obtain raw where raw: "declared_type (attrs p) = Some raw" "type_text_ok raw"
    using assms(2) by (auto simp: param_typed_def opt_holds_def split: option.splits)
  show ?thesis
    unfolding resolve_param_def raw(1) option.simps
    by (rule ok_res_bind [OF resolve_declared_ok [OF assms(1) raw(2)]]) simp
qed

text \<open>A declaration whose signature is typed.\<close>

definition signature_ok :: "node \<Rightarrow> bool" where
  "signature_ok fn \<longleftrightarrow> opt_holds name_ok (n_name (attrs fn)) \<and> list_all param_typed (n_params fn)
     \<and> pred_option type_text_ok (declared_type (attrs fn))"

lemma wf_signature:
  assumes "wf_node n" "n_kind n = NK_FN"
  shows "signature_ok n"
proof -
  have "param_typed p" if "p \<in> set (n_params n)" for p
  proof -
    have "wf_node p" "n_kind p = NK_PARAM"
      using wf_nodeD(2) [OF assms(1)] that by (auto simp: kids_ok_def list_all_iff)
    then show ?thesis using wf_nodeD(1) [of p] by (auto simp: param_typed_def shape_def)
  qed
  moreover have "opt_holds name_ok (n_name (attrs n))" "pred_option type_text_ok (declared_type (attrs n))"
    using wf_nodeD(1) [OF assms(1)] assms(2) by (auto simp: shape_def)
  ultimately show ?thesis by (simp add: signature_ok_def list_all_iff)
qed

text \<open>What registration leaves of the declaration: its name and its body.\<close>

definition kept :: "node \<Rightarrow> node \<Rightarrow> bool" where
  "kept n n' \<longleftrightarrow> n_name (attrs n') = n_name (attrs n) \<and> n_body n' = n_body n"

lemma with_params_sel [simp]: "attrs (with_params ps n) = attrs n" "n_params (with_params ps n) = ps"
  "n_body (with_params ps n) = n_body n"
  by (simp_all add: with_params_def)

lemma with_type_params [simp]: "n_params (with_type t n) = n_params n" "n_body (with_type t n) = n_body n"
  by (simp_all add: with_defs)

lemma register_function_info_ok:
  assumes fn: "signature_ok fn" and tabs: "tables_ok ts tabs"
  shows "ok_res (tables_ok ts) (kept fn) (register_function_info c fn tabs)"
proof -
  obtain table us where t: "tabs = (table, us)" by (cases tabs)
  obtain name where nm: "n_name (attrs fn) = Some name"
    using fn by (auto simp: signature_ok_def opt_holds_def split: option.splits)
  have us: "resolving_ok ts us" using tabs t by (simp add: tables_ok_def resolving_ok_def)
  have ps: "ok_res (resolving_ok ts)
      (list_all2 (\<lambda>_ p'. opt_holds (ctext ts) (declared_type (attrs p'))) (n_params fn))
      (each_node resolve_param (n_params fn) us)"
    by (rule each_node_ok [OF resolve_param_ok us]) (use fn in \<open>auto simp: signature_ok_def list_all_iff\<close>)
  show ?thesis
  proof (cases "fn_find table c = None \<and> (\<exists>raw. declared_type (attrs fn) = Some raw)")
    case False
    then show ?thesis
      using ps by (cases "each_node resolve_param (n_params fn) us") (auto simp: register_function_info_def t nm)
  next
    case True
    then obtain raw where raw: "declared_type (attrs fn) = Some raw" and fresh: "fn_find table c = None" by blast
    have raw_ok: "type_text_ok raw" using fn raw by (simp add: signature_ok_def)
    show ?thesis
    proof (cases "each_node resolve_param (n_params fn) us")
      case (Inl e)
      then show ?thesis using ps by (simp add: register_function_info_def t nm fresh)
    next
      case (Inr y)
      obtain qs vs where y: "y = (qs, vs)" by (cases y)
      have qs: "list_all2 (\<lambda>_ p'. opt_holds (ctext ts) (declared_type (attrs p'))) (n_params fn) qs"
        and vs: "resolving_ok ts vs" using ps Inr y by simp_all
      have typed: "list_all (ctext ts) (map (\<lambda>p. the (declared_type (attrs p))) qs)"
        using qs by (fastforce simp: list_all_length list_all2_conv_all_nth opt_holds_def split: option.splits)
      note ret = resolve_declared_ok [OF vs raw_ok, of "with_params qs fn"]
      show ?thesis
      proof (cases "resolve_type vs raw (with_params qs fn)")
        case (Inl e)
        then show ?thesis using ret Inr y raw by (simp add: register_function_info_def t nm fresh)
      next
        case run: (Inr z)
        obtain r ws where z: "z = (r, ws)" by (cases z)
        then show ?thesis
          using ret run Inr y raw tabs typed t fresh
          by (simp add: register_function_info_def nm fntable_push_def tables_ok_def resolving_ok_def fn_done_def
              fn_find_None kept_def Let_def)
      qed
    qed
  qed
qed

section \<open>Registering a program\<close>

lemma lower_mangle_name: "name_ok s \<Longrightarrow> \<exists>m. analyzer_lower_mangle s = Inr m"
  using mangle_show [of "TName s"] by (simp add: analyzer_lower_mangle_eq lower_mangle_def)

lemma script_name: "name_ok ''script''"
  by (simp add: name_ok_def word_char_def char_defs)

lemma nested_name_ok:
  assumes "opt_holds name_ok (n_name (attrs n))" "pred_option name_ok owner"
  shows "\<exists>c. nested_function_c_name owner n = Inr c"
proof -
  obtain name where nm: "n_name (attrs n) = Some name" "name_ok name"
    using assms(1) by (auto simp: opt_holds_def split: option.splits)
  have "name_ok (case owner of Some s \<Rightarrow> s | None \<Rightarrow> ''script'')"
    using assms(2) script_name by (cases owner) simp_all
  from lower_mangle_name [OF this] lower_mangle_name [OF nm(2)] show ?thesis
    by (auto simp: nested_function_c_name_def nm)
qed

lemma signature_ok_upd [simp]:
  "signature_ok (upd_attrs (\<lambda>a. a\<lparr>c_expr := c\<rparr>) n) = signature_ok n"
  by (simp add: signature_ok_def)

lemma wf_child:
  assumes "wf_node n"
  shows "n_body n = Some b \<Longrightarrow> wf_node b" "n_then_block n = Some b \<Longrightarrow> wf_node b"
    "n_else_block n = Some b \<Longrightarrow> wf_node b" "x \<in> set (n_statements n) \<Longrightarrow> wf_node x"
    "x \<in> set (n_elx_branches n) \<Longrightarrow> wf_node x" "x \<in> set (n_functions n) \<Longrightarrow> wf_node x \<and> n_kind x = NK_FN"
  using wf_nodeD(2) [OF assms] by (auto simp: kids_ok_def list_all_iff)

lemma register_statement_ok:
  "wf_node n \<Longrightarrow> pred_option name_ok owner \<Longrightarrow> tables_ok ts tabs \<Longrightarrow>
     ok_res (tables_ok ts) (\<lambda>_. True) (register_statement owner n tabs)"
proof (induction n arbitrary: owner tabs rule: measure_induct_rule [where f = size])
  case (less n)
  have block: "ok_res (tables_ok ts) (\<lambda>_. True) (each_opt (on_block (register_statement own)) x t)"
    if x: "x \<in> {n_body n, n_then_block n, n_else_block n}" and own: "pred_option name_ok own"
      and t: "tables_ok ts t" for x own t
  proof (rule opt_block_ok [where S = "tables_ok ts"])
    fix b y u assume b: "x = Some b" and y: "y \<in> set (n_statements b)" and u: "tables_ok ts u"
    have "size y < size b" "size b < size n" using y b x size_kids(3-5) [of n b] by (auto dest: size_kids(1))
    moreover have "wf_node y" using wf_child [OF less.prems(1)] wf_child(4) b x y by (metis empty_iff insert_iff)
    ultimately show "ok_res (tables_ok ts) (\<lambda>_. True) (register_statement own y u)"
      using less.IH [OF _ _ own u] by simp
  qed (rule t)
  show ?case
  proof (cases "n_kind n = NK_FN")
    case True
    note sig = wf_signature [OF less.prems(1) True]
    then obtain name where nm: "n_name (attrs n) = Some name" "name_ok name"
      by (auto simp: signature_ok_def opt_holds_def split: option.splits)
    obtain c where c: "(case c_expr (attrs n) of Some c \<Rightarrow> Inr c | None \<Rightarrow> nested_function_c_name owner n) = Inr c"
      using nested_name_ok [OF _ less.prems(2), of n] nm by (cases "c_expr (attrs n)") auto
    show ?thesis
    proof (cases "name = ''main''")
      case False
      have "ok_res (tables_ok ts) (\<lambda>_. True)
          (rbind (register_function_info c (upd_attrs (\<lambda>a. a\<lparr>c_expr := Some c\<rparr>) n) tabs) (\<lambda>(fn, tabs).
             rbind (each_opt (on_block (register_statement (Some name))) (n_body n) tabs) (\<lambda>(b, tabs).
               Inr (with_blocks b (n_then_block fn) (n_else_block fn) (n_elx_branches fn) fn, tabs))))"
        by (rule ok_res_bind [OF register_function_info_ok [OF _ less.prems(3)]], simp add: sig)
          (rule ok_res_bind [OF block], use nm in auto)
      then show ?thesis using True nm False c by (simp add: register_statement.simps [of owner n])
    qed (use True nm in \<open>simp add: register_statement.simps [of owner n]\<close>)
  next
    case not_fn: False
    show ?thesis
    proof (cases "n_kind n = NK_LOOP")
      case True
      have "ok_res (tables_ok ts) (\<lambda>_. True)
          (rbind (each_opt (on_block (register_statement owner)) (n_body n) tabs) (\<lambda>(b, tabs).
             Inr (with_blocks b (n_then_block n) (n_else_block n) (n_elx_branches n) n, tabs)))"
        by (rule ok_res_bind [OF block [OF _ less.prems(2,3)]]) auto
      then show ?thesis using True by (simp add: register_statement.simps [of owner n])
    next
      case not_loop: False
      have branches: "ok_res (tables_ok ts) (list_all2 (\<lambda>_ _. True) (n_elx_branches n))
          (each_node (on_branch (register_statement owner)) (n_elx_branches n) t)" if t: "tables_ok ts t" for t
      proof (rule each_node_ok [where S = "tables_ok ts"], rule on_branch_ok [where S = "tables_ok ts"])
        fix br z y u assume br: "br \<in> set (n_elx_branches n)" and z: "n_body br = Some z" "y \<in> set (n_statements z)"
          and u: "tables_ok ts u"
        have "size y < size n" using size_kids(1) [OF z(2)] size_kids(3) [OF z(1)] size_kids(2) [OF br] by simp
        moreover have "wf_node y"
          using wf_child(4) [OF wf_child(1) [OF wf_child(5) [OF less.prems(1) br] z(1)] z(2)] .
        ultimately show "ok_res (tables_ok ts) (\<lambda>_. True) (register_statement owner y u)"
          using less.IH [OF _ _ less.prems(2) u] by simp
      qed (use t in auto)
      show ?thesis
      proof (cases "n_kind n = NK_IF")
        case True
        have "ok_res (tables_ok ts) (\<lambda>_. True)
            (rbind (each_opt (on_block (register_statement owner)) (n_then_block n) tabs) (\<lambda>(thn, tabs).
             rbind (each_node (on_branch (register_statement owner)) (n_elx_branches n) tabs) (\<lambda>(brs, tabs).
             rbind (each_opt (on_block (register_statement owner)) (n_else_block n) tabs) (\<lambda>(els, tabs).
               Inr (with_blocks (n_body n) thn els brs n, tabs)))))"
          by (rule ok_res_bind [OF block [OF _ less.prems(2,3)]], simp)
            (rule ok_res_bind [OF branches], assumption, rule ok_res_bind [OF block [OF _ less.prems(2)]], auto)
        then show ?thesis using True by (simp add: register_statement.simps [of owner n])
      next
        case False
        then show ?thesis using not_fn not_loop less.prems(3) by (simp add: register_statement.simps [of owner n])
      qed
    qed
  qed
qed

lemma check_main_error: "check_main prog table = Inl e \<Longrightarrow> is_diagnostic e"
  by (auto simp: check_main_def die_node_at_def split: option.splits if_splits)

text \<open>What the two passes over the top-level functions need of a function.\<close>

lemma register_program_ok:
  assumes wf: "wf_node prog" and ts: "ready_table ts"
  shows "ok_res (tables_ok ts) (\<lambda>_. True) (register_program prog ts)"
proof -
  have start: "tables_ok ts ([], ts)"
    using ts by (auto simp: tables_ok_def same_decls_def list_all2_same same_decl_def)
  have fn: "signature_ok x \<and> wf_node x" if "x \<in> set (n_functions prog)" for x
    using wf_child(6) [OF wf that] wf_signature by blast
  have top: "ok_res (tables_ok ts) (list_all2 kept (n_functions prog)) (each_node register_top (n_functions prog) ([], ts))"
  proof (rule each_node_ok [where S = "tables_ok ts"])
    fix x t assume x: "x \<in> set (n_functions prog)" and t: "tables_ok ts t"
    obtain name where "n_name (attrs x) = Some name"
      using fn [OF x] by (auto simp: signature_ok_def opt_holds_def split: option.splits)
    then show "ok_res (tables_ok ts) (kept x) (register_top x t)"
      using register_function_info_ok [OF _ t] fn [OF x] by (simp add: register_top_def)
  qed (rule start)
  have nested: "ok_res (tables_ok ts) (list_all2 (\<lambda>_ _. True) fns) (each_node register_nested fns t)"
    if fns: "list_all2 kept (n_functions prog) fns" and t: "tables_ok ts t" for fns t
  proof (rule each_node_ok [where S = "tables_ok ts"])
    fix x u assume x: "x \<in> set fns" and u: "tables_ok ts u"
    obtain y where y: "y \<in> set (n_functions prog)" "kept y x"
      using fns x by (auto simp: list_all2_conv_all_nth in_set_conv_nth) metis
    have own: "pred_option name_ok (n_name (attrs x))"
      using fn [OF y(1)] y(2) by (auto simp: kept_def signature_ok_def opt_holds_def split: option.splits)
    have "ok_res (tables_ok ts) (\<lambda>_. True)
        (each_opt (on_block (register_statement (n_name (attrs x)))) (n_body x) u)"
    proof (rule opt_block_ok [where S = "tables_ok ts"])
      fix b z v assume b: "n_body x = Some b" "z \<in> set (n_statements b)" and v: "tables_ok ts v"
      have "wf_node z" using wf_child(4) [OF wf_child(1) [of y b]] fn [OF y(1)] y(2) b by (simp add: kept_def)
      then show "ok_res (tables_ok ts) (\<lambda>_. True) (register_statement (n_name (attrs x)) z v)"
        using register_statement_ok own v by blast
    qed (rule u)
    then show "ok_res (tables_ok ts) (\<lambda>_. True) (register_nested x u)"
      unfolding register_nested_def register_nested_functions_in_block_def by (rule ok_res_bind) simp
  qed (rule t)
  have script: "ok_res (tables_ok ts) (\<lambda>_. True) (on_block (register_statement (Some ''script'')) (with_functions fns prog) t)"
    if t: "tables_ok ts t" for fns t
    by (rule on_block_ok [where S = "tables_ok ts"], rule register_statement_ok)
      (use t wf_child(4) [OF wf] script_name in \<open>auto simp: with_functions_def\<close>)
  show ?thesis
    unfolding register_program_def Let_def
  proof (rule ok_res_bind [OF top], rule ok_res_bind [OF nested], assumption+, rule ok_res_bind)
    fix fns t assume t: "tables_ok ts t"
    show "ok_res (tables_ok ts) (\<lambda>_. True)
        (if n_statements (with_functions fns prog) \<noteq> []
         then on_block (register_statement (Some ''script'')) (with_functions fns prog) t
         else Inr (with_functions fns prog, t))"
      using script [OF t] t by simp
  next
    fix p t assume "tables_ok ts t"
    then show "ok_res (tables_ok ts) (\<lambda>_. True) (rbind (check_main p (fst t)) (\<lambda>_. Inr (p, t)))"
      using check_main_error by (cases "check_main p (fst t)") auto
  qed
qed

lemma nested_name_place:
  assumes "nested_function_c_name owner f = Inr c" and "nested_function_c_name owner' g = Inr c"
  shows "n_line (attrs f) = n_line (attrs g) \<and> n_col (attrs f) = n_col (attrs g)"
proof -
  obtain a where a: "c = a @ ''_'' @ show_nat (n_line (attrs f)) @ ''_'' @ show_nat (n_col (attrs f))"
    using assms(1) by (auto simp: nested_function_c_name_def rbind_eq_Inr split: option.splits)
  obtain b where b: "c = b @ ''_'' @ show_nat (n_line (attrs g)) @ ''_'' @ show_nat (n_col (attrs g))"
    using assms(2) by (auto simp: nested_function_c_name_def rbind_eq_Inr split: option.splits)
  have "(a @ ''_'' @ show_nat (n_line (attrs f))) @ ''_'' @ show_nat (n_col (attrs f))
      = (b @ ''_'' @ show_nat (n_line (attrs g))) @ ''_'' @ show_nat (n_col (attrs g))"
    using a b by simp
  from last_underscore [OF show_nat_no_underscore show_nat_no_underscore this]
    last_underscore [OF show_nat_no_underscore show_nat_no_underscore]
  show ?thesis by (metis show_nat_inject)
qed

section \<open>Properties\<close>

text \<open>
  C19: C names of nested functions identify them: every function of a program gets one, and two nested
  functions at different places of the source never get the same, whatever their names and
  owners are.
\<close>

theorem nested_names_distinct:
  assumes "opt_holds name_ok (n_name (attrs f))" "opt_holds name_ok (n_name (attrs g))"
    and "pred_option name_ok owner" "pred_option name_ok owner'"
    and "n_line (attrs f) \<noteq> n_line (attrs g) \<or> n_col (attrs f) \<noteq> n_col (attrs g)"
  shows "\<exists>c d. nested_function_c_name owner f = Inr c \<and> nested_function_c_name owner' g = Inr d \<and> c \<noteq> d"
proof -
  from nested_name_ok [OF assms(1,3)] obtain c where c: "nested_function_c_name owner f = Inr c" by blast
  from nested_name_ok [OF assms(2,4)] obtain d where d: "nested_function_c_name owner' g = Inr d" by blast
  have "c \<noteq> d" using nested_name_place [OF c] d assms(5) by blast
  with c d show ?thesis by blast
qed

definition sample_fn :: "string \<Rightarrow> nat \<Rightarrow> node" where
  "sample_fn name col = upd_attrs (\<lambda>a. a\<lparr>n_name := Some name, n_col := col\<rparr>) (synthetic NK_FN TK_FN ''FN'')"

theorem nested_names_distinct_witness:
  "\<exists>c d. nested_function_c_name (Some ''outer'') (sample_fn ''a'' 12) = Inr c
     \<and> nested_function_c_name None (sample_fn ''a'' 3) = Inr d \<and> c \<noteq> d"
  by (rule nested_names_distinct) (simp_all add: sample_fn_def name_ok_def word_char_def char_defs)

text \<open>
  C18: Registering the functions of any well-formed program over any type table that satisfies the
  table invariant, as the table that build_type_table returns does, either stops in a diagnostic or
  gives a table of functions with distinct names, in which every parameter and every return type is
  canonical, and keeps the table invariant and every declaration of the type table.
\<close>

theorem registration_total:
  assumes "wf_node prog" and "ready_table ts"
  shows "case register_program prog ts of
     Inl e \<Rightarrow> is_diagnostic e
   | Inr (prog', table, us) \<Rightarrow>
       distinct (map fi_name table) \<and> list_all (fn_done us) table \<and> ready_table us \<and> same_decls ts us"
proof (cases "register_program prog ts")
  case (Inl e)
  then show ?thesis using register_program_ok [OF assms] by simp
next
  case (Inr y)
  obtain p table us where y: "y = (p, table, us)" by (cases y)
  have t: "distinct (map fi_name table)" "list_all (fn_done ts) table" "ready_table us" and us: "same_decls ts us"
    using register_program_ok [OF assms] Inr y by (simp_all add: tables_ok_def)
  have "ctext us = ctext ts" by (simp add: ctext_def fun_eq_iff same_decls_canonical [OF us])
  then have "fn_done us = fn_done ts" by (intro ext) (simp add: fn_done_def)
  then show ?thesis using t us Inr y by simp
qed

text \<open>\<open>FN a(INT x) -> STR\<close> and \<open>FN b(INT x) -> ARR[INT]\<close>, both with an empty body.\<close>

definition sample_param :: node where
  "sample_param = with_name ''x'' (with_type ''INT'' (synthetic NK_PARAM TK_INT ''INT''))"

definition sample_signature :: "string \<Rightarrow> nat \<Rightarrow> string \<Rightarrow> node" where
  "sample_signature name col ty =
     with_type ty (set_body (synthetic NK_BLOCK TK_LPAREN ''('') (add_params sample_param (sample_fn name col)))"

definition sample_two :: node where
  "sample_two = with_functions [sample_signature ''a'' 1 ''STR'', sample_signature ''b'' 30 ''ARR[INT]'']
     (synthetic NK_PROGRAM TK_EOF [])"

definition sample_two_types :: type_table where
  "sample_two_types = (case build_type_table sample_two of Inr ts \<Rightarrow> ts | Inl _ \<Rightarrow> [])"

lemma sample_two_built: "build_type_table sample_two = Inr sample_two_types"
  by code_simp

lemma sample_names_ok: "name_ok ''a''" "name_ok ''b''" "name_ok ''INT''" "name_ok ''STR''"
  by (simp_all add: name_ok_def word_char_def char_defs)

lemma sample_type_texts: "type_text_ok ''INT''" "type_text_ok ''STR''" "type_text_ok ''ARR[INT]''"
proof -
  show int: "type_text_ok ''INT''" and "type_text_ok ''STR''"
    using sample_names_ok by blast+
  show "type_text_ok ''ARR[INT]''" using type_text_ok_intros(2) [OF int] by (simp add: array_type_def)
qed

lemma wf_sample_signature:
  assumes "name_ok name" and "type_text_ok ty"
  shows "wf_node (sample_signature name col ty)" "n_kind (sample_signature name col ty) = NK_FN"
proof -
  have param: "wf_node sample_param" "n_kind sample_param = NK_PARAM"
    by (simp_all add: wf_node_iff sample_param_def with_defs synthetic_def shape_def sample_type_texts)
  have block: "wf_node (synthetic NK_BLOCK TK_LPAREN ''('')"
    by (simp add: wf_node_iff synthetic_def shape_def)
  show "n_kind (sample_signature name col ty) = NK_FN"
    by (simp add: sample_signature_def sample_fn_def with_defs set_body_def add_params_def synthetic_def)
  show "wf_node (sample_signature name col ty)"
    using param block assms
    by (subst wf_node_iff) (simp add: shape_def kids_ok_def
        sample_signature_def sample_fn_def with_defs set_body_def add_params_def synthetic_def)
qed

lemma wf_sample_two: "wf_node sample_two"
  using wf_sample_signature [OF sample_names_ok(1) sample_type_texts(2)]
    wf_sample_signature [OF sample_names_ok(2) sample_type_texts(3)]
  by (subst wf_node_iff) (simp add: shape_def kids_ok_def sample_two_def with_functions_def synthetic_def)

lemma sample_two_registered:
  "rbind (register_program sample_two sample_two_types) (\<lambda>(p, table, us). Inr (map fi_name table)) = Inr [''a'', ''b'']"
  by code_simp

theorem registration_total_witness:
  "\<exists>p table us. register_program sample_two sample_two_types = Inr (p, table, us) \<and>
     map fi_name table = [''a'', ''b''] \<and> list_all (fn_done us) table \<and> ready_table us"
proof -
  have "ready_table sample_two_types"
    using build_type_table_correct [OF wf_sample_two] sample_two_built by simp
  from registration_total [OF wf_sample_two this] sample_two_registered
  show ?thesis by (auto simp: rbind_eq_Inr split: sum.splits)
qed

end
