(* ===== verification/Buf.thy ===== *)
theory Buf
  imports Common
begin

text \<open>
  The native buffer adapter, adapters/buf.c: the table of growable texts that compiled programs
  reach through an integer handle. The table is the list of its slots in use and the number of
  slots allocated; the memory behind a slot is the list of its bytes, \<open>None\<close> a byte not written
  yet and \<open>[]\<close> the null pointer, so that a write or read outside it, or of a byte
  never written, is the error \<open>OutOfBounds\<close>. Lengths and capacities are C's \<open>int64_t\<close>: a sum that
  leaves the type is \<open>Overflow\<close>. Allocation itself is taken to succeed.
\<close>

section \<open>The table\<close>

record buf_slot =
  sl_data :: "char option list"
  sl_len :: nat
  sl_cap :: nat
  sl_alive :: bool

record buf_state =
  flx_buf_slots :: "buf_slot list"
  flx_buf_slots_cap :: nat

definition zero_slot :: buf_slot where
  "zero_slot = \<lparr>sl_data = [], sl_len = 0, sl_cap = 0, sl_alive = False\<rparr>"

definition buf_init :: buf_state where
  "buf_init = \<lparr>flx_buf_slots = [], flx_buf_slots_cap = 0\<rparr>"

definition check64 :: "int \<Rightarrow> int exit_result" where
  "check64 x = (if - (2 ^ 63) \<le> x \<and> x < 2 ^ 63 then Inr x else Inl (Failed Overflow))"

definition flx_buf_slot :: "buf_state \<Rightarrow> int \<Rightarrow> nat exit_result" where
  "flx_buf_slot S handle =
     rbind (check64 (handle - 1)) (\<lambda>index.
       if index < 0 \<or> int (length (flx_buf_slots S)) \<le> index
          \<or> \<not> sl_alive (flx_buf_slots S ! nat index)
       then Inl (ExitMsg ''caster: invalid Buffer handle'') else Inr (nat index))"

section \<open>Writing to a slot\<close>

text \<open>The doubling loop; a capacity of zero, which would never grow, is cut off as \<open>OutOfFuel\<close>.\<close>

function buf_grow :: "nat \<Rightarrow> nat \<Rightarrow> nat exit_result" where
  "buf_grow cap needed =
     (if needed \<le> cap then Inr cap
      else if cap = 0 then Inl (Failed OutOfFuel)
      else rbind (check64 (2 * int cap)) (\<lambda>_. buf_grow (2 * cap) needed))"
  by pat_completeness auto
termination
  by (relation "measure (\<lambda>(cap, needed). needed - cap)") auto

declare buf_grow.simps [simp del]

definition flx_buf_reserve :: "buf_slot \<Rightarrow> nat \<Rightarrow> buf_slot exit_result" where
  "flx_buf_reserve sl needed =
     (if needed \<le> sl_cap sl then Inr sl
      else rbind (buf_grow (if sl_cap sl \<noteq> 0 then sl_cap sl else 64) needed) (\<lambda>cap.
        let data = take (cap + 1) (sl_data sl) @ replicate (cap + 1 - length (sl_data sl)) None
        in Inr (sl\<lparr>sl_data := (if sl_len sl = 0 then data[0 := Some NUL] else data),
                  sl_cap := cap\<rparr>)))"

definition buf_memcpy :: "char option list \<Rightarrow> nat \<Rightarrow> char option list \<Rightarrow> nat \<Rightarrow> char option list exit_result" where
  "buf_memcpy dst at from n =
     (if at + n \<le> length dst \<and> n \<le> length from
      then Inr (take at dst @ take n from @ drop (at + n) dst) else Inl (Failed OutOfBounds))"

definition buf_store :: "char option list \<Rightarrow> nat \<Rightarrow> char \<Rightarrow> char option list exit_result" where
  "buf_store dst i c = (if i < length dst then Inr (dst[i := Some c]) else Inl (Failed OutOfBounds))"

definition flx_buf_append_bytes :: "buf_slot \<Rightarrow> char option list \<Rightarrow> nat \<Rightarrow> buf_slot exit_result" where
  "flx_buf_append_bytes sl data n =
     (if n = 0 then Inr sl
      else rbind (check64 (int (sl_len sl) + int n)) (\<lambda>_.
           rbind (flx_buf_reserve sl (sl_len sl + n)) (\<lambda>sl.
           rbind (buf_memcpy (sl_data sl) (sl_len sl) data n) (\<lambda>bytes.
           rbind (buf_store bytes (sl_len sl + n) NUL) (\<lambda>bytes.
             Inr (sl\<lparr>sl_data := bytes, sl_len := sl_len sl + n\<rparr>))))))"

definition buf_append :: "buf_state \<Rightarrow> int \<Rightarrow> char option list \<Rightarrow> nat \<Rightarrow> buf_state exit_result" where
  "buf_append S handle data n =
     rbind (flx_buf_slot S handle) (\<lambda>i.
     rbind (flx_buf_append_bytes (flx_buf_slots S ! i) data n) (\<lambda>sl.
       Inr (S\<lparr>flx_buf_slots := (flx_buf_slots S)[i := sl]\<rparr>)))"

section \<open>Allocating a slot\<close>

fun buf_dead :: "buf_slot list \<Rightarrow> nat option" where
  "buf_dead [] = None"
| "buf_dead (sl # sls) = (if sl_alive sl then map_option Suc (buf_dead sls) else Some 0)"

text \<open>
  A slot takes 32 bytes; a table whose size in bytes would not fit \<open>size_t\<close> is \<open>Overflow\<close>.
\<close>

definition flx_buf_alloc_slot :: "buf_state \<Rightarrow> (int \<times> buf_state) exit_result" where
  "flx_buf_alloc_slot S =
     (case buf_dead (flx_buf_slots S) of
        Some i \<Rightarrow>
          Inr (int i + 1, S\<lparr>flx_buf_slots := (flx_buf_slots S)[i := zero_slot\<lparr>sl_alive := True\<rparr>]\<rparr>)
      | None \<Rightarrow>
          rbind (if length (flx_buf_slots S) = flx_buf_slots_cap S
                 then rbind (if flx_buf_slots_cap S \<noteq> 0
                             then check64 (int (flx_buf_slots_cap S) * 2) else Inr 16)
                   (\<lambda>cap. if 2 ^ 64 \<le> 32 * cap then Inl (Failed Overflow)
                          else Inr (S\<lparr>flx_buf_slots_cap := nat cap\<rparr>))
                 else Inr S)
            (\<lambda>S. Inr (int (length (flx_buf_slots S)) + 1,
                     S\<lparr>flx_buf_slots := flx_buf_slots S @ [zero_slot\<lparr>sl_alive := True\<rparr>]\<rparr>)))"

section \<open>The operations of a program\<close>

text \<open>
  A value of type \<open>FLT\<close> is a parameter: \<open>fmt\<close> is what \<open>snprintf\<close> prints for it with \<open>%.17g\<close>.
  \<open>snprintf\<close> fills an array of \<open>room\<close> bytes: at most \<open>room - 1\<close> bytes of the text and a zero.
\<close>

definition snprintf_text :: "nat \<Rightarrow> string \<Rightarrow> char option list" where
  "snprintf_text room s =
     map Some (take (room - 1) s) @ [Some NUL] @ replicate (room - 1 - length s) None"

definition show_int :: "int \<Rightarrow> string" where
  "show_int i = (if i < 0 then CHR 0x2D # show_nat (nat (- i)) else show_nat (nat i))"

definition BUF_new :: "buf_state \<Rightarrow> (int \<times> buf_state) exit_result" where
  "BUF_new S = rbind (flx_buf_alloc_slot S) (\<lambda>(handle, S). Inr (handle, S))"

definition BUF_write_str :: "buf_state \<Rightarrow> int \<Rightarrow> string \<Rightarrow> buf_state exit_result" where
  "BUF_write_str S buffer s = buf_append S buffer (map Some s) (length s)"

definition BUF_write_int :: "buf_state \<Rightarrow> int \<Rightarrow> int \<Rightarrow> buf_state exit_result" where
  "BUF_write_int S buffer i =
     buf_append S buffer (snprintf_text 64 (show_int i)) (length (show_int i))"

definition BUF_write_flt :: "('f \<Rightarrow> string) \<Rightarrow> buf_state \<Rightarrow> int \<Rightarrow> 'f \<Rightarrow> buf_state exit_result" where
  "BUF_write_flt fmt S buffer x =
     buf_append S buffer (snprintf_text 128 (fmt x)) (length (fmt x))"

definition BUF_write_bol :: "buf_state \<Rightarrow> int \<Rightarrow> bool \<Rightarrow> buf_state exit_result" where
  "BUF_write_bol S buffer b =
     (if b then buf_append S buffer (map Some ''true'') 4
      else buf_append S buffer (map Some ''false'') 5)"

definition BUF_line_str :: "buf_state \<Rightarrow> int \<Rightarrow> string \<Rightarrow> buf_state exit_result" where
  "BUF_line_str S buffer s =
     rbind (BUF_write_str S buffer s) (\<lambda>S. buf_append S buffer [Some NL] 1)"

definition BUF_line_int :: "buf_state \<Rightarrow> int \<Rightarrow> int \<Rightarrow> buf_state exit_result" where
  "BUF_line_int S buffer i =
     rbind (BUF_write_int S buffer i) (\<lambda>S. buf_append S buffer [Some NL] 1)"

definition BUF_line_flt :: "('f \<Rightarrow> string) \<Rightarrow> buf_state \<Rightarrow> int \<Rightarrow> 'f \<Rightarrow> buf_state exit_result" where
  "BUF_line_flt fmt S buffer x =
     rbind (BUF_write_flt fmt S buffer x) (\<lambda>S. buf_append S buffer [Some NL] 1)"

definition BUF_line_bol :: "buf_state \<Rightarrow> int \<Rightarrow> bool \<Rightarrow> buf_state exit_result" where
  "BUF_line_bol S buffer b =
     rbind (BUF_write_bol S buffer b) (\<lambda>S. buf_append S buffer [Some NL] 1)"

definition BUF_toStr :: "buf_state \<Rightarrow> int \<Rightarrow> string exit_result" where
  "BUF_toStr S buffer =
     rbind (flx_buf_slot S buffer) (\<lambda>i.
       let sl = flx_buf_slots S ! i
       in if sl_len sl = 0 then Inr []
          else if length (sl_data sl) < sl_len sl then Inl (Failed OutOfBounds)
          else (case those (take (sl_len sl) (sl_data sl)) of
                  None \<Rightarrow> Inl (Failed OutOfBounds) | Some s \<Rightarrow> Inr s))"

definition BUF_len :: "buf_state \<Rightarrow> int \<Rightarrow> nat exit_result" where
  "BUF_len S buffer = rbind (flx_buf_slot S buffer) (\<lambda>i. Inr (sl_len (flx_buf_slots S ! i)))"

definition BUF_clear :: "buf_state \<Rightarrow> int \<Rightarrow> buf_state exit_result" where
  "BUF_clear S buffer =
     rbind (flx_buf_slot S buffer) (\<lambda>i.
       let sl = (flx_buf_slots S ! i)\<lparr>sl_len := 0\<rparr>
       in Inr (S\<lparr>flx_buf_slots := (flx_buf_slots S)
            [i := (if sl_data sl \<noteq> [] then sl\<lparr>sl_data := (sl_data sl)[0 := Some NUL]\<rparr> else sl)]\<rparr>))"

text \<open>Freeing a buffer also zeroes the handle in the variable it is called on.\<close>

definition BUF_free :: "buf_state \<Rightarrow> int \<Rightarrow> (int \<times> buf_state) exit_result" where
  "BUF_free S buffer =
     rbind (flx_buf_slot S buffer) (\<lambda>i.
       Inr (0, S\<lparr>flx_buf_slots := (flx_buf_slots S)[i := zero_slot]\<rparr>))"

end
