(* ===== verification/BufFacts.thy ===== *)
theory BufFacts
  imports Buf
begin

text \<open>
  The buffer adapter refines a finite map from handles to texts. The simulation argument is an
  interface of its own, \<open>simulation\<close>, whose budget bounds what the operations so far can have
  allocated, and the buffer table is its instance.
\<close>

section \<open>Simulation of a map\<close>

fun run_ops :: "('o \<Rightarrow> 's \<Rightarrow> ('r \<times> 's) exit_result) \<Rightarrow> 'o list \<Rightarrow> 's \<Rightarrow> 'r list exit_result" where
  "run_ops step [] S = Inr []"
| "run_ops step (a # as) S =
     rbind (step a S) (\<lambda>(r, S). rbind (run_ops step as S) (\<lambda>rs. Inr (r # rs)))"

locale simulation =
  fixes step :: "'o \<Rightarrow> 's \<Rightarrow> ('r \<times> 's) exit_result"
    and spec :: "'o \<Rightarrow> 'a \<Rightarrow> ('r \<times> 'a) exit_result"
    and abs_of :: "'s \<Rightarrow> 'a"
    and inv :: "nat \<Rightarrow> 's \<Rightarrow> bool"
    and cost :: "'o \<Rightarrow> nat"
    and fine :: "'o \<Rightarrow> bool"
    and limit :: nat
  assumes step_sim:
    "inv n S \<Longrightarrow> fine a \<Longrightarrow> n + cost a \<le> limit \<Longrightarrow>
       case step a S of Inl e \<Rightarrow> spec a (abs_of S) = Inl e
       | Inr (r, S') \<Rightarrow> inv (n + cost a) S' \<and> spec a (abs_of S) = Inr (r, abs_of S')"
begin

lemma run_sim:
  "inv n S \<Longrightarrow> \<forall>a \<in> set as. fine a \<Longrightarrow> n + sum_list (map cost as) \<le> limit \<Longrightarrow>
     run_ops step as S = run_ops spec as (abs_of S)"
proof (induction as arbitrary: n S)
  case (Cons a as)
  have s: "case step a S of Inl e \<Rightarrow> spec a (abs_of S) = Inl e
       | Inr (r, S') \<Rightarrow> inv (n + cost a) S' \<and> spec a (abs_of S) = Inr (r, abs_of S')"
    using Cons.prems by (intro step_sim) auto
  show ?case
  proof (cases "step a S")
    case (Inr p)
    obtain r S' where p: "p = (r, S')" by (cases p)
    have "run_ops step as S' = run_ops spec as (abs_of S')"
      using s Inr p Cons.prems by (intro Cons.IH) (auto simp: add.assoc)
    then show ?thesis using s Inr p by simp
  qed (use s in simp)
qed simp

end

section \<open>What a buffer promises\<close>

datatype 'f buf_value = VStr string | VInt int | VFlt 'f | VBol bool

datatype 'f buf_op =
    OpNew
  | OpWrite int "'f buf_value"
  | OpLine int "'f buf_value"
  | OpToStr int
  | OpLen int
  | OpClear int
  | OpFree int

datatype buf_out = OutHandle int | OutStr string | OutLen nat | OutUnit

definition no_out :: "buf_state exit_result \<Rightarrow> (buf_out \<times> buf_state) exit_result" where
  "no_out m = rbind m (\<lambda>S. Inr (OutUnit, S))"

fun buf_step :: "('f \<Rightarrow> string) \<Rightarrow> 'f buf_op \<Rightarrow> buf_state \<Rightarrow> (buf_out \<times> buf_state) exit_result" where
  "buf_step fmt OpNew S = rbind (BUF_new S) (\<lambda>(h, S). Inr (OutHandle h, S))"
| "buf_step fmt (OpWrite h (VStr s)) S = no_out (BUF_write_str S h s)"
| "buf_step fmt (OpWrite h (VInt i)) S = no_out (BUF_write_int S h i)"
| "buf_step fmt (OpWrite h (VFlt x)) S = no_out (BUF_write_flt fmt S h x)"
| "buf_step fmt (OpWrite h (VBol b)) S = no_out (BUF_write_bol S h b)"
| "buf_step fmt (OpLine h (VStr s)) S = no_out (BUF_line_str S h s)"
| "buf_step fmt (OpLine h (VInt i)) S = no_out (BUF_line_int S h i)"
| "buf_step fmt (OpLine h (VFlt x)) S = no_out (BUF_line_flt fmt S h x)"
| "buf_step fmt (OpLine h (VBol b)) S = no_out (BUF_line_bol S h b)"
| "buf_step fmt (OpToStr h) S = rbind (BUF_toStr S h) (\<lambda>s. Inr (OutStr s, S))"
| "buf_step fmt (OpLen h) S = rbind (BUF_len S h) (\<lambda>n. Inr (OutLen n, S))"
| "buf_step fmt (OpClear h) S = no_out (BUF_clear S h)"
| "buf_step fmt (OpFree h) S = rbind (BUF_free S h) (\<lambda>(h, S). Inr (OutHandle h, S))"

fun value_text :: "('f \<Rightarrow> string) \<Rightarrow> 'f buf_value \<Rightarrow> string" where
  "value_text fmt (VStr s) = s"
| "value_text fmt (VInt i) = show_int i"
| "value_text fmt (VFlt x) = fmt x"
| "value_text fmt (VBol b) = (if b then ''true'' else ''false'')"

type_synonym handle_texts = "int \<Rightarrow> string option"

definition spec_text :: "handle_texts \<Rightarrow> int \<Rightarrow> string exit_result" where
  "spec_text m h =
     (case m h of None \<Rightarrow> Inl (ExitMsg ''caster: invalid Buffer handle'') | Some s \<Rightarrow> Inr s)"

definition fresh_handle :: "handle_texts \<Rightarrow> int" where
  "fresh_handle m = int (LEAST i. m (int i + 1) = None) + 1"

fun spec_step :: "('f \<Rightarrow> string) \<Rightarrow> 'f buf_op \<Rightarrow> handle_texts \<Rightarrow> (buf_out \<times> handle_texts) exit_result" where
  "spec_step fmt OpNew m = Inr (OutHandle (fresh_handle m), m(fresh_handle m \<mapsto> []))"
| "spec_step fmt (OpWrite h v) m =
     rbind (spec_text m h) (\<lambda>s. Inr (OutUnit, m(h \<mapsto> s @ value_text fmt v)))"
| "spec_step fmt (OpLine h v) m =
     rbind (spec_text m h) (\<lambda>s. Inr (OutUnit, m(h \<mapsto> s @ value_text fmt v @ [NL])))"
| "spec_step fmt (OpToStr h) m = rbind (spec_text m h) (\<lambda>s. Inr (OutStr s, m))"
| "spec_step fmt (OpLen h) m = rbind (spec_text m h) (\<lambda>s. Inr (OutLen (length s), m))"
| "spec_step fmt (OpClear h) m = rbind (spec_text m h) (\<lambda>s. Inr (OutUnit, m(h \<mapsto> [])))"
| "spec_step fmt (OpFree h) m = rbind (spec_text m h) (\<lambda>s. Inr (OutHandle 0, m(h := None)))"

fun op_cost :: "('f \<Rightarrow> string) \<Rightarrow> 'f buf_op \<Rightarrow> nat" where
  "op_cost fmt OpNew = 1"
| "op_cost fmt (OpWrite h v) = length (value_text fmt v)"
| "op_cost fmt (OpLine h v) = length (value_text fmt v) + 1"
| "op_cost fmt a = 0"

text \<open>
  What is asked of an operation: its handle is a 64-bit integer other than the least one, an
  \<open>INT\<close> is one too, and a float prints in fewer bytes than the adapter's array.
\<close>

definition handle_ok :: "int \<Rightarrow> bool" where
  "handle_ok h \<longleftrightarrow> - (2 ^ 63) < h \<and> h < 2 ^ 63"

fun value_ok :: "('f \<Rightarrow> string) \<Rightarrow> 'f buf_value \<Rightarrow> bool" where
  "value_ok fmt (VInt i) = (- (2 ^ 63) \<le> i \<and> i < 2 ^ 63)"
| "value_ok fmt (VFlt x) = (length (fmt x) < 128)"
| "value_ok fmt v = True"

fun op_ok :: "('f \<Rightarrow> string) \<Rightarrow> 'f buf_op \<Rightarrow> bool" where
  "op_ok fmt OpNew = True"
| "op_ok fmt (OpWrite h v) = (handle_ok h \<and> value_ok fmt v)"
| "op_ok fmt (OpLine h v) = (handle_ok h \<and> value_ok fmt v)"
| "op_ok fmt (OpToStr h) = handle_ok h"
| "op_ok fmt (OpLen h) = handle_ok h"
| "op_ok fmt (OpClear h) = handle_ok h"
| "op_ok fmt (OpFree h) = handle_ok h"

section \<open>The invariant of the table\<close>

definition slot_text :: "buf_slot \<Rightarrow> string" where
  "slot_text sl = map the (take (sl_len sl) (sl_data sl))"

text \<open>
  With \<open>n\<close> bytes and buffers paid for: an unused slot is null, a slot in use ends its
  initialised bytes with a zero inside its allocation, and no allocation exceeds twice \<open>n\<close> and
  its first 64 bytes.
\<close>

definition slot_ok :: "nat \<Rightarrow> buf_slot \<Rightarrow> bool" where
  "slot_ok n sl \<longleftrightarrow>
     (if sl_cap sl = 0 then sl_data sl = [] \<and> sl_len sl = 0
      else length (sl_data sl) = sl_cap sl + 1 \<and> sl_len sl \<le> sl_cap sl
         \<and> (\<exists>k. sl_cap sl = 64 * 2 ^ k) \<and> sl_cap sl \<le> 64 + 2 * n
         \<and> take (sl_len sl) (sl_data sl) = map Some (slot_text sl)
         \<and> sl_data sl ! sl_len sl = Some NUL)
     \<and> sl_len sl \<le> n \<and> (\<not> sl_alive sl \<longrightarrow> sl = zero_slot)"

definition buf_ok :: "nat \<Rightarrow> buf_state \<Rightarrow> bool" where
  "buf_ok n S \<longleftrightarrow>
     (\<forall>sl \<in> set (flx_buf_slots S). slot_ok n sl)
     \<and> length (flx_buf_slots S) \<le> n \<and> length (flx_buf_slots S) \<le> flx_buf_slots_cap S"

definition buf_texts :: "buf_state \<Rightarrow> handle_texts" where
  "buf_texts S h =
     (if 0 < h \<and> h \<le> int (length (flx_buf_slots S))
         \<and> sl_alive (flx_buf_slots S ! nat (h - 1))
      then Some (slot_text (flx_buf_slots S ! nat (h - 1))) else None)"

lemma check64_ok [simp]: "- (2 ^ 63) \<le> x \<Longrightarrow> x < 2 ^ 63 \<Longrightarrow> check64 x = Inr x"
  by (simp add: check64_def)

lemma slot_ok_mono: "slot_ok n sl \<Longrightarrow> n \<le> m \<Longrightarrow> slot_ok m sl"
  by (auto simp: slot_ok_def split: if_splits)

lemma buf_ok_mono: "buf_ok n S \<Longrightarrow> n \<le> m \<Longrightarrow> buf_ok m S"
  by (auto simp: buf_ok_def intro: slot_ok_mono)

lemma slot_ok_zero [simp]: "slot_ok n zero_slot" "slot_ok n (zero_slot\<lparr>sl_alive := True\<rparr>)"
  by (simp_all add: slot_ok_def zero_slot_def)

lemma buf_init_ok [simp]: "buf_ok n buf_init" "buf_texts buf_init = Map.empty"
  by (auto simp: buf_ok_def buf_init_def buf_texts_def)

section \<open>Growing and appending\<close>

lemma buf_grow_doubles:
  "0 < cap \<Longrightarrow> needed \<le> 2 ^ 61 \<Longrightarrow>
     \<exists>k. buf_grow cap needed = Inr (cap * 2 ^ k) \<and> needed \<le> cap * 2 ^ k
       \<and> (cap < needed \<longrightarrow> cap * 2 ^ k < 2 * needed)"
proof (induction cap needed rule: buf_grow.induct)
  case (1 cap needed)
  show ?case
  proof (cases "needed \<le> cap")
    case True
    then show ?thesis by (intro exI [of _ 0]) (simp add: buf_grow.simps [of cap])
  next
    case False
    have c: "check64 (2 * int cap) = Inr (2 * int cap)" using False 1(3) by (intro check64_ok) auto
    obtain k where k: "buf_grow (2 * cap) needed = Inr (2 * cap * 2 ^ k)"
      "needed \<le> 2 * cap * 2 ^ k" "2 * cap < needed \<longrightarrow> 2 * cap * 2 ^ k < 2 * needed"
      using "1.IH" [OF False] "1.prems" c by auto
    show ?thesis
    proof (cases "2 * cap < needed")
      case True
      then show ?thesis using k False 1(2) c
        by (intro exI [of _ "Suc k"]) (simp add: buf_grow.simps [of cap] mult_ac)
    next
      case False2: False
      then show ?thesis using False 1(2) c
        by (intro exI [of _ 1]) (simp add: buf_grow.simps [of cap] buf_grow.simps [of "2 * cap"])
    qed
  qed
qed

text \<open>Reserving keeps the bytes of a slot and makes room, within twice what is needed.\<close>

lemma reserve_ok:
  assumes "slot_ok n sl" "sl_len sl \<le> needed" "0 < needed" "needed \<le> m" "n \<le> m" "needed \<le> 2 ^ 61"
  shows "\<exists>d cap. flx_buf_reserve sl needed = Inr (sl\<lparr>sl_data := d, sl_cap := cap\<rparr>)
           \<and> length d = cap + 1 \<and> needed \<le> cap \<and> (\<exists>k. cap = 64 * 2 ^ k) \<and> cap \<le> 64 + 2 * m
           \<and> take (sl_len sl) d = map Some (slot_text sl)"
proof (cases "needed \<le> sl_cap sl")
  case True
  then show ?thesis using assms
    by (intro exI [of _ "sl_data sl"] exI [of _ "sl_cap sl"])
      (auto simp: flx_buf_reserve_def slot_ok_def split: if_splits)
next
  case False
  define start where "start = (if sl_cap sl \<noteq> 0 then sl_cap sl else 64)"
  have start: "0 < start" "\<exists>k. start = 64 * 2 ^ k" "start \<le> 64 + 2 * m"
    using assms(1,5) by (auto simp: start_def slot_ok_def intro: exI [of _ 0] split: if_splits)
  obtain k where k: "buf_grow start needed = Inr (start * 2 ^ k)" "needed \<le> start * 2 ^ k"
    "start < needed \<longrightarrow> start * 2 ^ k < 2 * needed"
    using buf_grow_doubles [OF start(1) assms(6)] by blast
  define cap where "cap = start * 2 ^ k"
  have grown: "buf_grow start needed = Inr cap" using k(1) by (simp add: cap_def)
  obtain j where "start = 64 * 2 ^ j" using start(2) by blast
  then have pow: "\<exists>k. cap = 64 * 2 ^ k"
    by (intro exI [of _ "j + k"]) (simp add: cap_def power_add)
  have cap: "needed \<le> cap" "cap \<le> 64 + 2 * m"
  proof -
    show "needed \<le> cap" using k(2) by (simp add: cap_def)
    show "cap \<le> 64 + 2 * m"
    proof (cases "start < needed")
      case True
      then show ?thesis using k(3) assms(4) by (simp add: cap_def)
    next
      case False
      then have "buf_grow start needed = Inr start" by (simp add: buf_grow.simps [of start])
      then show ?thesis using grown start(3) by simp
    qed
  qed
  have len: "length (sl_data sl) \<le> cap + 1" "sl_len sl \<le> length (sl_data sl)"
    "take (sl_len sl) (sl_data sl) = map Some (slot_text sl)"
    using assms(1) False cap(1) by (auto simp: slot_ok_def slot_text_def split: if_splits)
  define d where "d = take (cap + 1) (sl_data sl) @ replicate (cap + 1 - length (sl_data sl)) None"
  have d: "length d = cap + 1" "take (sl_len sl) d = map Some (slot_text sl)"
    using len by (simp_all add: d_def)
  define d' where "d' = (if sl_len sl = 0 then d[0 := Some NUL] else d)"
  have "flx_buf_reserve sl needed = Inr (sl\<lparr>sl_data := d', sl_cap := cap\<rparr>)"
    using False grown unfolding flx_buf_reserve_def start_def [symmetric] d'_def d_def
    by (simp add: Let_def)
  moreover have "length d' = cap + 1" "take (sl_len sl) d' = map Some (slot_text sl)"
    using d by (auto simp: d'_def slot_text_def)
  ultimately show ?thesis using cap pow by blast
qed

text \<open>Appending the bytes of a text to a slot in use appends the text to the slot's.\<close>

lemma append_bytes_ok:
  assumes ok: "slot_ok n sl" "sl_alive sl" and room: "n + length s \<le> 2 ^ 58"
    and src: "take (length s) data = map Some s"
  shows "\<exists>sl'. flx_buf_append_bytes sl data (length s) = Inr sl' \<and> slot_ok (n + length s) sl'
           \<and> sl_alive sl' \<and> slot_text sl' = slot_text sl @ s"
proof (cases "s = []")
  case True
  then show ?thesis using ok by (simp add: flx_buf_append_bytes_def)
next
  case False
  define l where "l = sl_len sl"
  have l: "l \<le> n" using ok(1) by (simp add: slot_ok_def l_def)
  have src': "length s \<le> length data" using src by (metis length_map length_take min_def nle_le)
  obtain d cap where r: "flx_buf_reserve sl (l + length s) = Inr (sl\<lparr>sl_data := d, sl_cap := cap\<rparr>)"
    and d: "length d = cap + 1" "l + length s \<le> cap" "\<exists>k. cap = 64 * 2 ^ k"
      "cap \<le> 64 + 2 * (n + length s)" "take l d = map Some (slot_text sl)"
    using reserve_ok [OF ok(1), of "l + length s" "n + length s"] False l room by (auto simp: l_def)
  have sl: "length (slot_text sl) = l"
    using d(1,2,5) by (metis add.commute length_map length_take le_add1 min.absorb2 order_trans trans_le_add2)
  define b where "b = take l d @ map Some s @ drop (l + length s) d"
  have b: "length b = cap + 1" "take (l + length s) b = map Some (slot_text sl @ s)"
    using d sl by (simp_all add: b_def)
  define sl' where "sl' = sl\<lparr>sl_data := b[l + length s := Some NUL], sl_cap := cap,
                             sl_len := l + length s\<rparr>"
  have step: "flx_buf_append_bytes sl data (length s) = Inr sl'"
    using False r d b src src' room l
    by (simp add: flx_buf_append_bytes_def buf_memcpy_def buf_store_def l_def b_def sl'_def)
  have t: "slot_text sl' = slot_text sl @ s" using b by (simp add: slot_text_def sl'_def l_def take_map)
  have "slot_ok (n + length s) sl'"
    using d b l ok(2) t by (auto simp: slot_ok_def sl'_def)
  then show ?thesis using step t ok(2) by (auto simp: sl'_def)
qed

section \<open>The table as a map\<close>

lemma flx_buf_slot_texts:
  "handle_ok h \<Longrightarrow>
     flx_buf_slot S h = (case buf_texts S h of
        None \<Rightarrow> Inl (ExitMsg ''caster: invalid Buffer handle'') | Some t \<Rightarrow> Inr (nat (h - 1)))"
  by (auto simp: flx_buf_slot_def buf_texts_def handle_ok_def)

lemma buf_texts_Some:
  assumes "buf_texts S h = Some t"
  shows "0 < h" "nat (h - 1) < length (flx_buf_slots S)" "sl_alive (flx_buf_slots S ! nat (h - 1))"
    "slot_text (flx_buf_slots S ! nat (h - 1)) = t"
  using assms by (auto simp: buf_texts_def split: if_splits)

lemma buf_texts_update:
  assumes "0 < h" "nat (h - 1) < length (flx_buf_slots S)"
  shows "buf_texts (S\<lparr>flx_buf_slots := (flx_buf_slots S)[nat (h - 1) := sl]\<rparr>)
       = (buf_texts S)(h := if sl_alive sl then Some (slot_text sl) else None)"
proof
  fix x
  show "buf_texts (S\<lparr>flx_buf_slots := (flx_buf_slots S)[nat (h - 1) := sl]\<rparr>) x
       = ((buf_texts S)(h := if sl_alive sl then Some (slot_text sl) else None)) x"
    using assms by (cases "x = h") (auto simp: buf_texts_def nth_list_update)
qed

lemma buf_ok_update:
  "buf_ok n S \<Longrightarrow> n \<le> m \<Longrightarrow> slot_ok m sl \<Longrightarrow>
     buf_ok m (S\<lparr>flx_buf_slots := (flx_buf_slots S)[i := sl]\<rparr>)"
  by (auto simp: buf_ok_def dest!: set_update_subset_insert [THEN subsetD] intro: slot_ok_mono)

lemma buf_ok_slot: "buf_ok n S \<Longrightarrow> i < length (flx_buf_slots S) \<Longrightarrow> slot_ok n (flx_buf_slots S ! i)"
  by (simp add: buf_ok_def)

text \<open>Every write of the adapter is an append through the handle.\<close>

lemma buf_append_ok:
  assumes "buf_ok n S" "handle_ok h" "n + length s \<le> 2 ^ 58" "take (length s) data = map Some s"
  shows "case buf_texts S h of
           None \<Rightarrow> buf_append S h data (length s) = Inl (ExitMsg ''caster: invalid Buffer handle'')
         | Some t \<Rightarrow> \<exists>S'. buf_append S h data (length s) = Inr S' \<and> buf_ok (n + length s) S'
                     \<and> buf_texts S' = (buf_texts S)(h \<mapsto> t @ s)"
proof (cases "buf_texts S h")
  case None
  then show ?thesis using assms(2) by (simp add: buf_append_def flx_buf_slot_texts)
next
  case (Some t)
  note h = buf_texts_Some [OF Some]
  obtain sl where sl: "flx_buf_append_bytes (flx_buf_slots S ! nat (h - 1)) data (length s) = Inr sl"
    "slot_ok (n + length s) sl" "sl_alive sl" "slot_text sl = t @ s"
    using append_bytes_ok [OF buf_ok_slot [OF assms(1) h(2)] h(3) assms(3,4)] h(4) by auto
  then show ?thesis using Some assms(1,2) h
    by (simp add: buf_append_def flx_buf_slot_texts buf_texts_update buf_ok_update)
qed

section \<open>Handing out handles\<close>

lemma buf_dead_Some:
  "buf_dead sls = Some i \<Longrightarrow> i < length sls \<and> \<not> sl_alive (sls ! i) \<and> (\<forall>j<i. sl_alive (sls ! j))"
  by (induction sls arbitrary: i) (auto split: if_splits simp: less_Suc_eq_0_disj)

lemma buf_dead_None: "buf_dead sls = None \<Longrightarrow> \<forall>sl \<in> set sls. sl_alive sl"
  by (induction sls) (auto split: if_splits)

lemma fresh_handle_eq:
  "buf_texts S (int i + 1) = None \<Longrightarrow> (\<And>j. j < i \<Longrightarrow> buf_texts S (int j + 1) \<noteq> None) \<Longrightarrow>
     fresh_handle (buf_texts S) = int i + 1"
  unfolding fresh_handle_def by (simp, intro Least_equality) (auto, metis not_le option.distinct(1))

lemma alloc_slot_ok:
  assumes ok: "buf_ok n S" and n: "n < 2 ^ 58"
  shows "\<exists>S'. flx_buf_alloc_slot S = Inr (fresh_handle (buf_texts S), S') \<and> buf_ok (n + 1) S'
           \<and> buf_texts S' = (buf_texts S)(fresh_handle (buf_texts S) \<mapsto> [])"
proof (cases "buf_dead (flx_buf_slots S)")
  case (Some i)
  have i: "i < length (flx_buf_slots S)" "\<not> sl_alive (flx_buf_slots S ! i)"
    "\<forall>j<i. sl_alive (flx_buf_slots S ! j)" using buf_dead_Some [OF Some] by auto
  have "fresh_handle (buf_texts S) = int i + 1"
    using i by (intro fresh_handle_eq) (auto simp: buf_texts_def)
  moreover have "buf_ok (n + 1) (S\<lparr>flx_buf_slots := (flx_buf_slots S)[i := zero_slot\<lparr>sl_alive := True\<rparr>]\<rparr>)"
    using ok by (intro buf_ok_update [of n]) simp_all
  ultimately show ?thesis
    using Some buf_texts_update [of "int i + 1" S "zero_slot\<lparr>sl_alive := True\<rparr>"] i(1)
    by (simp add: flx_buf_alloc_slot_def slot_text_def zero_slot_def)
next
  case None
  let ?m = "length (flx_buf_slots S)" and ?new = "zero_slot\<lparr>sl_alive := True\<rparr>"
  have all: "\<forall>j < ?m. sl_alive (flx_buf_slots S ! j)" using buf_dead_None [OF None] by simp
  have m: "?m \<le> n" "?m \<le> flx_buf_slots_cap S" using ok by (simp_all add: buf_ok_def)
  obtain c where c: "flx_buf_alloc_slot S = Inr (int ?m + 1,
      S\<lparr>flx_buf_slots_cap := c, flx_buf_slots := flx_buf_slots S @ [?new]\<rparr>)" "?m < c"
  proof (cases "?m = flx_buf_slots_cap S")
    case True
    show ?thesis
      using None True m n that [of "if ?m = 0 then 16 else 2 * ?m"]
      by (auto simp: flx_buf_alloc_slot_def check64_def nat_mult_distrib mult.commute)
  next
    case False
    then show ?thesis using None m that [of "flx_buf_slots_cap S"]
      by (simp add: flx_buf_alloc_slot_def)
  qed
  have f: "fresh_handle (buf_texts S) = int ?m + 1"
    using all by (intro fresh_handle_eq) (auto simp: buf_texts_def)
  have "buf_texts (S\<lparr>flx_buf_slots_cap := c, flx_buf_slots := flx_buf_slots S @ [?new]\<rparr>)
      = (buf_texts S)(int ?m + 1 \<mapsto> [])"
    by (auto simp: buf_texts_def fun_eq_iff nth_append slot_text_def zero_slot_def)
  moreover have "buf_ok (n + 1) (S\<lparr>flx_buf_slots_cap := c, flx_buf_slots := flx_buf_slots S @ [?new]\<rparr>)"
    using ok c(2) m by (auto simp: buf_ok_def intro: slot_ok_mono)
  ultimately show ?thesis using c(1) f by simp
qed

section \<open>Every operation refines its specification\<close>

definition refines :: "('f \<Rightarrow> string) \<Rightarrow> nat \<Rightarrow> 'f buf_op \<Rightarrow> buf_state \<Rightarrow> bool" where
  "refines fmt n a S \<longleftrightarrow>
     (case buf_step fmt a S of Inl e \<Rightarrow> spec_step fmt a (buf_texts S) = Inl e
      | Inr (r, S') \<Rightarrow> buf_ok (n + op_cost fmt a) S'
          \<and> spec_step fmt a (buf_texts S) = Inr (r, buf_texts S'))"

lemma show_nat_length: "0 < k \<Longrightarrow> n < 10 ^ k \<Longrightarrow> length (show_nat n) \<le> k"
proof (induction k arbitrary: n)
  case (Suc k)
  show ?case
  proof (cases "n < 10")
    case True
    then show ?thesis by (simp add: show_nat.simps [of n])
  next
    case False
    then have "0 < k" using Suc.prems(2) by (cases k) auto
    moreover have "n div 10 < 10 ^ k" using Suc.prems(2) by (simp add: less_mult_imp_div_less mult.commute)
    ultimately show ?thesis using Suc.IH [of "n div 10"] False by (simp add: show_nat.simps [of n])
  qed
qed simp

lemma show_int_length:
  assumes "- (2 ^ 63) \<le> i" "i < 2 ^ 63"
  shows "length (show_int i) \<le> 20"
proof -
  have "nat \<bar>i\<bar> < 10 ^ 19" using assms by auto
  then have "length (show_nat (nat \<bar>i\<bar>)) \<le> 19" by (intro show_nat_length) simp_all
  then show ?thesis by (auto simp: show_int_def abs_if split: if_splits)
qed

lemma snprintf_take: "length s < room \<Longrightarrow> take (length s) (snprintf_text room s) = map Some s"
  by (simp add: snprintf_text_def)

text \<open>A write of any type is one append of the value's text, a line a second one.\<close>

definition value_bytes :: "('f \<Rightarrow> string) \<Rightarrow> 'f buf_value \<Rightarrow> char option list" where
  "value_bytes fmt v =
     (case v of VInt i \<Rightarrow> snprintf_text 64 (show_int i) | VFlt x \<Rightarrow> snprintf_text 128 (fmt x)
      | _ \<Rightarrow> map Some (value_text fmt v))"

lemma value_bytes_take:
  "value_ok fmt v \<Longrightarrow> take (length (value_text fmt v)) (value_bytes fmt v) = map Some (value_text fmt v)"
  by (cases v) (auto simp: value_bytes_def intro!: snprintf_take intro: le_less_trans [OF show_int_length])

lemma buf_step_write:
  "buf_step fmt (OpWrite h v) S
     = no_out (buf_append S h (value_bytes fmt v) (length (value_text fmt v)))"
proof (cases v)
  case (VBol b)
  then show ?thesis by (simp add: value_bytes_def BUF_write_bol_def numeral_eq_Suc)
qed (simp_all add: value_bytes_def BUF_write_str_def BUF_write_int_def BUF_write_flt_def)

lemma buf_step_line:
  "buf_step fmt (OpLine h v) S
     = no_out (rbind (buf_append S h (value_bytes fmt v) (length (value_text fmt v)))
         (\<lambda>S. buf_append S h [Some NL] 1))"
proof (cases v)
  case (VBol b)
  then show ?thesis
    by (simp add: value_bytes_def BUF_line_bol_def BUF_write_bol_def numeral_eq_Suc)
qed (simp_all add: value_bytes_def BUF_write_str_def BUF_write_int_def BUF_write_flt_def
    BUF_line_str_def BUF_line_int_def BUF_line_flt_def)

lemma refines_write:
  assumes "buf_ok n S" "op_ok fmt (OpWrite h v)" "n + op_cost fmt (OpWrite h v) \<le> 2 ^ 58"
  shows "refines fmt n (OpWrite h v) S"
  using buf_append_ok [OF assms(1) _ _ value_bytes_take, of h fmt v] assms(2,3)
  by (auto simp: refines_def buf_step_write no_out_def spec_text_def simp del: buf_step.simps
      split: option.splits)

lemma refines_line:
  assumes "buf_ok n S" "op_ok fmt (OpLine h v)" "n + op_cost fmt (OpLine h v) \<le> 2 ^ 58"
  shows "refines fmt n (OpLine h v) S"
proof (cases "buf_texts S h")
  case None
  then show ?thesis
    using buf_append_ok [OF assms(1) _ _ value_bytes_take, of h fmt v] assms(2,3)
    by (simp add: refines_def buf_step_line no_out_def spec_text_def del: buf_step.simps)
next
  case (Some t)
  obtain S1 where S1: "buf_append S h (value_bytes fmt v) (length (value_text fmt v)) = Inr S1"
    "buf_ok (n + length (value_text fmt v)) S1"
    "buf_texts S1 = (buf_texts S)(h \<mapsto> t @ value_text fmt v)"
    using buf_append_ok [OF assms(1) _ _ value_bytes_take, of h fmt v] assms(2,3) Some by auto
  show ?thesis
    using buf_append_ok [OF S1(2), of h "[NL]" "[Some NL]"] assms(2,3) S1 Some
    by (auto simp: refines_def buf_step_line no_out_def spec_text_def simp del: buf_step.simps)
qed

lemma those_map_Some [simp]: "those (map Some s) = Some s"
  by (induction s) simp_all

lemma slot_text_length: "slot_ok n sl \<Longrightarrow> length (slot_text sl) = sl_len sl"
  by (auto simp: slot_ok_def slot_text_def split: if_splits)

lemma slot_ok_bytes:
  "slot_ok n sl \<Longrightarrow> sl_len sl \<le> length (sl_data sl)"
  "slot_ok n sl \<Longrightarrow> take (sl_len sl) (sl_data sl) = map Some (slot_text sl)"
  by (auto simp: slot_ok_def slot_text_def split: if_splits)

lemma slot_text_clear [simp]: "slot_text (sl\<lparr>sl_len := 0\<rparr>) = []"
  "slot_text (sl\<lparr>sl_len := 0, sl_data := d\<rparr>) = []"
  by (simp_all add: slot_text_def)

lemma slot_clear_null:
  "sl_data sl = [] \<Longrightarrow> sl\<lparr>sl_len := 0, sl_data := []\<rparr> = sl\<lparr>sl_len := 0\<rparr>"
  by (cases sl) simp

lemma slot_ok_clear:
  "slot_ok n sl \<Longrightarrow> sl_alive sl \<Longrightarrow>
     slot_ok n (sl\<lparr>sl_len := 0, sl_data := (sl_data sl)[0 := Some NUL]\<rparr>)"
  by (simp add: slot_ok_def slot_text_def split: if_splits)

lemma refines_read:
  assumes "buf_ok n S" "handle_ok h"
  shows "refines fmt n (OpToStr h) S" "refines fmt n (OpLen h) S"
proof -
  have ok: "slot_ok n (flx_buf_slots S ! nat (h - 1))" if "buf_texts S h = Some t" for t
    using buf_ok_slot [OF assms(1)] buf_texts_Some [OF that] by simp
  show "refines fmt n (OpLen h) S"
    using assms ok by (auto simp: refines_def BUF_len_def flx_buf_slot_texts spec_text_def
        dest: slot_text_length buf_texts_Some split: option.splits)
  show "refines fmt n (OpToStr h) S"
  proof (cases "buf_texts S h")
    case None
    then show ?thesis using assms by (simp add: refines_def BUF_toStr_def flx_buf_slot_texts spec_text_def)
  next
    case (Some t)
    have len: "sl_len (flx_buf_slots S ! nat (h - 1)) = length t"
      using slot_text_length [OF ok [OF Some]] buf_texts_Some(4) [OF Some] by simp
    have "BUF_toStr S h = Inr t"
      using assms(2) Some buf_texts_Some(4) [OF Some] slot_ok_bytes [OF ok [OF Some]] len
      by (cases "t = []") (simp_all add: BUF_toStr_def flx_buf_slot_texts Let_def)
    then show ?thesis using assms(1) Some by (simp add: refines_def spec_text_def)
  qed
qed

lemma refines_drop:
  assumes "buf_ok n S" "handle_ok h"
  shows "refines fmt n (OpClear h) S" "refines fmt n (OpFree h) S"
proof -
  have ok: "slot_ok n (flx_buf_slots S ! nat (h - 1))" if "buf_texts S h = Some t" for t
    using buf_ok_slot [OF assms(1)] buf_texts_Some [OF that] by simp
  let ?sl = "flx_buf_slots S ! nat (h - 1)"
  let ?sl' = "?sl\<lparr>sl_len := 0, sl_data := (sl_data ?sl)[0 := Some NUL]\<rparr>"
  have clear: "BUF_clear S h = Inr (S\<lparr>flx_buf_slots := (flx_buf_slots S)[nat (h - 1) := ?sl']\<rparr>)"
    if "buf_texts S h = Some t" for t
    using assms that by (cases "sl_data ?sl = []") (simp_all add: BUF_clear_def flx_buf_slot_texts Let_def
        slot_clear_null)
  show "refines fmt n (OpClear h) S"
  proof (cases "buf_texts S h")
    case None
    then show ?thesis
      using assms by (simp add: refines_def BUF_clear_def no_out_def flx_buf_slot_texts spec_text_def)
  next
    case (Some t)
    then show ?thesis
      using assms(1) slot_ok_clear [OF ok [OF Some]] buf_texts_Some [OF Some]
      by (simp add: refines_def clear no_out_def spec_text_def buf_texts_update buf_ok_update)
  qed
  show "refines fmt n (OpFree h) S"
  proof (cases "buf_texts S h")
    case None
    then show ?thesis using assms by (simp add: refines_def BUF_free_def flx_buf_slot_texts spec_text_def)
  next
    case (Some t)
    then show ?thesis
      using assms buf_texts_Some [OF Some]
      by (simp add: refines_def BUF_free_def flx_buf_slot_texts spec_text_def buf_texts_update
          buf_ok_update) (simp add: zero_slot_def)
  qed
qed

lemma refines_new:
  assumes "buf_ok n S" "n + 1 \<le> 2 ^ 58"
  shows "refines fmt n OpNew S"
proof -
  obtain S' where "flx_buf_alloc_slot S = Inr (fresh_handle (buf_texts S), S')" "buf_ok (n + 1) S'"
    "buf_texts S' = (buf_texts S)(fresh_handle (buf_texts S) \<mapsto> [])"
    using alloc_slot_ok [OF assms(1)] assms(2) by auto
  then show ?thesis by (simp add: refines_def BUF_new_def)
qed

interpretation buf: simulation "buf_step fmt" "spec_step fmt" buf_texts buf_ok "op_cost fmt"
  "op_ok fmt" "2 ^ 58" for fmt :: "'f \<Rightarrow> string"
proof
  fix n S and a :: "'f buf_op"
  assume "buf_ok n S" "op_ok fmt a" "n + op_cost fmt a \<le> 2 ^ 58"
  then have "refines fmt n a S"
    by (cases a) (auto intro: refines_new refines_write refines_line refines_read refines_drop)
  then show "case buf_step fmt a S of Inl e \<Rightarrow> spec_step fmt a (buf_texts S) = Inl e
       | Inr (r, S') \<Rightarrow> buf_ok (n + op_cost fmt a) S'
           \<and> spec_step fmt a (buf_texts S) = Inr (r, buf_texts S')"
    by (simp add: refines_def)
qed

section \<open>The adapter as a whole\<close>

text \<open>
  C24: Any sequence of buffer operations of a program behaves as on a finite map from handles to
  texts: a new buffer takes the least handle not in use, a write appends the value's text, a
  handle not in use ends the program with a diagnostic, and no sequence whose new buffers and
  written bytes stay below 2^58 in number reads or writes outside an allocation, reads a byte not
  written or overflows a length.
\<close>

theorem buffers_refine_map:
  "\<forall>a \<in> set as. op_ok fmt a \<Longrightarrow> sum_list (map (op_cost fmt) as) \<le> 2 ^ 58 \<Longrightarrow>
     run_ops (buf_step fmt) as buf_init = run_ops (spec_step fmt) as Map.empty"
  using buf.run_sim [of 0 buf_init as fmt] by simp

lemma buffers_refine_map_witness:
  "run_ops (buf_step (\<lambda>x. ''1.5'')) [OpNew, OpWrite 1 (VStr ''a''), OpLine 1 (VFlt ()), OpToStr 1] buf_init
     = Inr [OutHandle 1, OutUnit, OutUnit, OutStr (''a1.5'' @ [NL])]"
proof -
  have "fresh_handle Map.empty = 1" by (simp add: fresh_handle_def)
  then show ?thesis
    by (subst buffers_refine_map) (simp_all add: handle_ok_def spec_text_def)
qed

lemma buf_step_keeps_ok:
  assumes "buf_ok n S" "op_ok fmt a" "n + op_cost fmt a \<le> 2 ^ 58"
  shows "case buf_step fmt a S of Inl e \<Rightarrow> e = ExitMsg ''caster: invalid Buffer handle''
         | Inr (r, S') \<Rightarrow> buf_ok (n + op_cost fmt a) S'"
proof -
  have "spec_step fmt a m = Inl e \<Longrightarrow> e = ExitMsg ''caster: invalid Buffer handle''" for m e
    by (cases a) (auto simp: spec_text_def split: option.splits)
  then show ?thesis
    using buf.step_sim [OF assms] by (auto split: sum.splits)
qed

text \<open>
  C25: Every operation keeps the table well formed: the bytes of a live buffer are initialised and
  end with a zero byte inside its allocation, whose size is 64 times a power of two and at most
  64 bytes more than twice what was ever written; a slot not in use is null. The only way an
  operation fails is the diagnostic for a bad handle.
\<close>

theorem buffer_table_invariant:
  assumes "buf_ok n S" "op_ok fmt a" "n + op_cost fmt a \<le> 2 ^ 58"
  shows "case buf_step fmt a S of Inl e \<Rightarrow> e = ExitMsg ''caster: invalid Buffer handle''
         | Inr (r, S') \<Rightarrow> buf_ok (n + op_cost fmt a) S'"
  using assms by (rule buf_step_keeps_ok)

lemma buffer_table_invariant_witness:
  "case buf_step (\<lambda>x::unit. []) OpNew buf_init of
     Inl e \<Rightarrow> e = ExitMsg ''caster: invalid Buffer handle'' | Inr (r, S') \<Rightarrow> buf_ok 1 S'"
  using buffer_table_invariant [of 0 buf_init "\<lambda>x::unit. []" OpNew]
  by (auto simp del: buf_step.simps split: sum.splits)

lemma fresh_after_free:
  assumes "m h \<noteq> None" "\<forall>h'. 0 < h' \<and> h' < h \<longrightarrow> m h' \<noteq> None" "0 < h"
  shows "fresh_handle (m(h := None)) = h"
proof -
  have "(LEAST i. (m(h := None)) (int i + 1) = None) = nat (h - 1)"
  proof (rule Least_equality)
    show "(m(h := None)) (int (nat (h - 1)) + 1) = None" using assms(3) by simp
    fix i
    assume free: "(m(h := None)) (int i + 1) = None"
    show "nat (h - 1) \<le> i"
    proof (rule ccontr)
      assume "\<not> nat (h - 1) \<le> i"
      then have "int i + 1 < h" by simp
      then show False using free assms(2) [rule_format, of "int i + 1"] by simp
    qed
  qed
  then show ?thesis using assms(3) by (simp add: fresh_handle_def)
qed



end
