(* ===== verification/Analysis.thy ===== *)
theory Analysis
  imports FunctionFacts Buf
begin

text \<open>
  The machinery of the analyzer's passes over function bodies (\<open>src/caster/analyze/\<close>): the
  state they share, sequencing, the stores they make in the tree they walk, and the helpers of
  \<open>collections.c\<close> that do not call back into the analysis of expressions.

  A pass takes a node and returns it as the code leaves it, next to the type the code returns;
  the caller puts it back where it came from. The chain of scopes is part of the state, its head
  the scope \<open>s\<close> the code passes; a scope that a function creates and drops is pushed and popped.
  \<open>ctx\<close> is part of the state as well, and a function that analyzes with a copy of it
  (\<open>AnalyzeCtx c = *ctx\<close>) runs \<open>with_ctx_copy\<close>. A symbol found before a recursive call is
  found again by its name after it, and an entry of the type table by its name: the code keeps
  pointers into the two tables.
\<close>

section \<open>The state\<close>

text \<open>\<open>ctx->fn\<close>: null, the descriptor of the script, or an entry of the table of functions.\<close>

datatype ctx_fn = NoFn | ScriptFn | TableFn string

record actx =
  cx_fn :: ctx_fn
  cx_fns :: bool
  cx_return_type :: "string option"
  cx_saw_return :: bool
  cx_enforce_local_style :: bool
  cx_allow_json_decode_boundary :: bool
  cx_allow_terminal_tap :: bool
  cx_preserve_ref_identity :: bool
  cx_next_loop_id :: nat
  cx_loop_depth :: nat

record an_state =
  an_scope :: scope
  an_types :: type_table
  an_fns :: fn_table
  an_ctx :: actx

type_synonym 'a an = "an_state \<Rightarrow> ('a \<times> an_state) result"

definition aret :: "'a \<Rightarrow> 'a an" where
  "aret x st = Inr (x, st)"

definition abind :: "'a an \<Rightarrow> ('a \<Rightarrow> 'b an) \<Rightarrow> 'b an" where
  "abind m f st = (case m st of Inl e \<Rightarrow> Inl e | Inr (x, st') \<Rightarrow> f x st')"

definition athen :: "'a an \<Rightarrow> 'b an \<Rightarrow> 'b an" where
  "athen m k = abind m (\<lambda>_. k)"

definition afail :: "error \<Rightarrow> 'a an" where
  "afail e st = Inl e"

definition adie :: "node \<Rightarrow> string \<Rightarrow> 'a an" where
  "adie n msg = afail (Die (n_line (attrs n)) (n_col (attrs n)) msg)"

text \<open>\<open>if (!ok) die_at(n->line, n->col, msg)\<close>, and the same at a child.\<close>

definition require :: "bool \<Rightarrow> node \<Rightarrow> string \<Rightarrow> unit an" where
  "require ok n msg = (if ok then aret () else adie n msg)"

definition require_at :: "bool \<Rightarrow> node option \<Rightarrow> string \<Rightarrow> unit an" where
  "require_at ok x msg =
     (if ok then aret () else case x of None \<Rightarrow> afail NullDeref | Some n \<Rightarrow> adie n msg)"

definition the_ptr :: "'a option \<Rightarrow> 'a an" where
  "the_ptr x = (case x of None \<Rightarrow> afail NullDeref | Some y \<Rightarrow> aret y)"

text \<open>A string as \<open>%s\<close> prints it.\<close>

definition shown :: "string option \<Rightarrow> string" where
  "shown x = (case x of Some s \<Rightarrow> s | None \<Rightarrow> ''(null)'')"

definition reads :: "(an_state \<Rightarrow> 'a) \<Rightarrow> 'a an" where
  "reads f st = Inr (f st, st)"

definition queries :: "(an_state \<Rightarrow> 'a result) \<Rightarrow> 'a an" where
  "queries f st = rbind (f st) (\<lambda>x. Inr (x, st))"

definition modifies :: "(an_state \<Rightarrow> an_state) \<Rightarrow> unit an" where
  "modifies f st = Inr ((), f st)"

text \<open>A function that reads and replaces the scopes, or the type table.\<close>

definition on_scope :: "(scope \<Rightarrow> scope result) \<Rightarrow> unit an" where
  "on_scope f st = rbind (f (an_scope st)) (\<lambda>s. Inr ((), st\<lparr>an_scope := s\<rparr>))"

definition upd_scope :: "(scope \<Rightarrow> scope) \<Rightarrow> unit an" where
  "upd_scope f = modifies (\<lambda>st. st\<lparr>an_scope := f (an_scope st)\<rparr>)"

definition on_types :: "(type_table \<Rightarrow> ('a \<times> type_table) result) \<Rightarrow> 'a an" where
  "on_types f st = rbind (f (an_types st)) (\<lambda>(x, ts). Inr (x, st\<lparr>an_types := ts\<rparr>))"

definition upd_types :: "(type_table \<Rightarrow> type_table) \<Rightarrow> unit an" where
  "upd_types f = modifies (\<lambda>st. st\<lparr>an_types := f (an_types st)\<rparr>)"

definition upd_ctx :: "(actx \<Rightarrow> actx) \<Rightarrow> unit an" where
  "upd_ctx f = modifies (\<lambda>st. st\<lparr>an_ctx := f (an_ctx st)\<rparr>)"

definition get_ctx :: "(actx \<Rightarrow> 'a) \<Rightarrow> 'a an" where
  "get_ctx f = reads (\<lambda>st. f (an_ctx st))"

definition lookup :: "string option \<Rightarrow> symbol option an" where
  "lookup name =
     (case name of None \<Rightarrow> afail NullDeref | Some x \<Rightarrow> reads (\<lambda>st. scope_try_resolve (an_scope st) x))"

definition resolve :: "string option \<Rightarrow> node \<Rightarrow> symbol an" where
  "resolve name n =
     (case name of None \<Rightarrow> afail NullDeref | Some x \<Rightarrow> queries (\<lambda>st. scope_resolve (an_scope st) x n))"

definition type_of_name :: "string option \<Rightarrow> type_info option an" where
  "type_of_name name =
     (case name of None \<Rightarrow> afail NullDeref | Some x \<Rightarrow> reads (\<lambda>st. type_find (an_types st) x))"

definition fn_of_name :: "string option \<Rightarrow> fn_info option an" where
  "fn_of_name name =
     reads (\<lambda>st. if cx_fns (an_ctx st) then (case name of None \<Rightarrow> None | Some x \<Rightarrow> fn_find (an_fns st) x)
                 else None)"

section \<open>Scopes and contexts around a pass\<close>

text \<open>
  A statement is the node its symbol points at: what \<open>refine_symbol_type\<close> stored in it through
  the symbol is put back into the tree when the scope is dropped.
\<close>

definition refreshed :: "node \<Rightarrow> node \<Rightarrow> node" where
  "refreshed d st =
     (let st = upd_attrs (\<lambda>a. a\<lparr>declared_type := declared_type (attrs d)\<rparr>) st in
      case (n_value d, n_value st) of
        (Some dv, Some v) \<Rightarrow>
          set_value (upd_attrs (\<lambda>a. a\<lparr>checked_type := checked_type (attrs dv)\<rparr>) v) st
      | _ \<Rightarrow> st)"

definition commit_stmt :: "symbol list \<Rightarrow> node \<Rightarrow> node" where
  "commit_stmt frame st =
     (if inferred_decl (attrs st) then
        (case Option.bind (n_name (attrs st)) (scope_items frame) of
           None \<Rightarrow> st
         | Some sy \<Rightarrow> (case sym_node sy of None \<Rightarrow> st | Some d \<Rightarrow> refreshed d st))
      else st)"

definition pop_frame :: "an_state \<Rightarrow> (symbol list \<times> an_state) result" where
  "pop_frame st =
     (case an_scope st of [] \<Rightarrow> Inl NullDeref
      | frame # parent \<Rightarrow> Inr (frame, st\<lparr>an_scope := parent\<rparr>))"

definition in_new_scope :: "'a an \<Rightarrow> ('a \<times> symbol list) an" where
  "in_new_scope m =
     athen (upd_scope scope_new) (abind m (\<lambda>x. abind pop_frame (\<lambda>frame. aret (x, frame))))"

text \<open>The statements of a node analyzed in a scope of their own.\<close>

definition scoped_statements :: "(node \<Rightarrow> ('a \<times> node) an) \<Rightarrow> node \<Rightarrow> ('a \<times> node) an" where
  "scoped_statements f b =
     abind (in_new_scope (f b)) (\<lambda>((x, b), frame).
       aret (x, with_statements (map (commit_stmt frame) (n_statements b)) b))"

definition with_ctx_copy :: "(actx \<Rightarrow> actx) \<Rightarrow> 'a an \<Rightarrow> 'a an" where
  "with_ctx_copy f m st =
     (case m (st\<lparr>an_ctx := f (an_ctx st)\<rparr>) of
        Inl e \<Rightarrow> Inl e
      | Inr (x, st') \<Rightarrow>
          Inr (x, st'\<lparr>an_ctx := (an_ctx st)\<lparr>cx_next_loop_id := cx_next_loop_id (an_ctx st')\<rparr>\<rparr>))"

definition fresh_loop_id :: "nat an" where
  "fresh_loop_id st =
     (let c = an_ctx st
      in Inr (cx_next_loop_id c, st\<lparr>an_ctx := c\<lparr>cx_next_loop_id := cx_next_loop_id c + 1\<rparr>\<rparr>))"

section \<open>Passes over children\<close>

definition at_child ::
  "(node \<Rightarrow> node option) \<Rightarrow> (node \<Rightarrow> node \<Rightarrow> node) \<Rightarrow> (node \<Rightarrow> ('a \<times> node) an) \<Rightarrow> node \<Rightarrow> ('a \<times> node) an" where
  "at_child get put f n =
     abind (the_ptr (get n)) (\<lambda>c. abind (f c) (\<lambda>(x, c). aret (x, put c n)))"

abbreviation "at_body \<equiv> at_child n_body set_body"
abbreviation "at_value \<equiv> at_child n_value set_value"
abbreviation "at_target \<equiv> at_child n_target set_target"
abbreviation "at_expr \<equiv> at_child n_expr set_expr"
abbreviation "at_condition \<equiv> at_child n_condition set_condition"
abbreviation "at_then_block \<equiv> at_child n_then_block set_then_block"
abbreviation "at_else_block \<equiv> at_child n_else_block set_else_block"
abbreviation "at_object \<equiv> at_child n_object set_object"
abbreviation "at_index \<equiv> at_child n_index set_index"
abbreviation "at_callee \<equiv> at_child n_callee set_callee"
abbreviation "at_left \<equiv> at_child n_left set_left"
abbreviation "at_right \<equiv> at_child n_right set_right"

definition with_args :: "node list \<Rightarrow> node \<Rightarrow> node" where
  "with_args xs n =
     Node (attrs n) (n_body n) (n_value n) (n_target n) (n_expr n) (n_condition n) (n_then_block n)
       (n_else_block n) (n_object n) (n_index n) (n_callee n) (n_left n) (n_right n) (n_type_decls n)
       (n_globals n) (n_fields n) (n_functions n) (n_params n) (n_statements n) xs (n_elements n)
       (n_elx_branches n)"

definition with_elements :: "node list \<Rightarrow> node \<Rightarrow> node" where
  "with_elements xs n =
     Node (attrs n) (n_body n) (n_value n) (n_target n) (n_expr n) (n_condition n) (n_then_block n)
       (n_else_block n) (n_object n) (n_index n) (n_callee n) (n_left n) (n_right n) (n_type_decls n)
       (n_globals n) (n_fields n) (n_functions n) (n_params n) (n_statements n) (n_args n) xs
       (n_elx_branches n)"

definition with_branches :: "node list \<Rightarrow> node \<Rightarrow> node" where
  "with_branches xs n = with_blocks (n_body n) (n_then_block n) (n_else_block n) xs n"

definition with_globals :: "node list \<Rightarrow> node \<Rightarrow> node" where
  "with_globals xs n =
     Node (attrs n) (n_body n) (n_value n) (n_target n) (n_expr n) (n_condition n) (n_then_block n)
       (n_else_block n) (n_object n) (n_index n) (n_callee n) (n_left n) (n_right n) (n_type_decls n)
       xs (n_fields n) (n_functions n) (n_params n) (n_statements n) (n_args n) (n_elements n)
       (n_elx_branches n)"

definition with_index :: "node option \<Rightarrow> node \<Rightarrow> node" where
  "with_index x n =
     Node (attrs n) (n_body n) (n_value n) (n_target n) (n_expr n) (n_condition n) (n_then_block n)
       (n_else_block n) (n_object n) x (n_callee n) (n_left n) (n_right n) (n_type_decls n)
       (n_globals n) (n_fields n) (n_functions n) (n_params n) (n_statements n) (n_args n) (n_elements n)
       (n_elx_branches n)"

definition at_item ::
  "(node \<Rightarrow> node list) \<Rightarrow> (node list \<Rightarrow> node \<Rightarrow> node) \<Rightarrow> nat \<Rightarrow> (node \<Rightarrow> ('a \<times> node) an) \<Rightarrow> node \<Rightarrow> ('a \<times> node) an" where
  "at_item get put i f n =
     (if i < length (get n)
      then abind (f (get n ! i)) (\<lambda>(x, c). aret (x, put ((get n)[i := c]) n))
      else afail OutOfBounds)"

abbreviation "at_arg \<equiv> at_item n_args with_args"
abbreviation "at_element \<equiv> at_item n_elements with_elements"

definition item_at :: "node list \<Rightarrow> nat \<Rightarrow> node option" where
  "item_at xs i = (if i < length xs then Some (xs ! i) else None)"

text \<open>A loop over a vector, with its index and a loop variable.\<close>

primrec afold :: "(nat \<Rightarrow> node \<Rightarrow> 'b \<Rightarrow> ('b \<times> node) an) \<Rightarrow> nat \<Rightarrow> node list \<Rightarrow> 'b \<Rightarrow> ('b \<times> node list) an" where
  "afold f i [] x = aret (x, [])"
| "afold f i (n # ns) x =
     abind (f i n x) (\<lambda>(x, n). abind (afold f (i + 1) ns x) (\<lambda>(x, ns). aret (x, n # ns)))"

definition at_items ::
  "(node \<Rightarrow> node list) \<Rightarrow> (node list \<Rightarrow> node \<Rightarrow> node) \<Rightarrow> (nat \<Rightarrow> node \<Rightarrow> 'b \<Rightarrow> ('b \<times> node) an) \<Rightarrow> 'b \<Rightarrow>
   node \<Rightarrow> ('b \<times> node) an" where
  "at_items get put f x n = abind (afold f 0 (get n) x) (\<lambda>(x, cs). aret (x, put cs n))"

section \<open>Stores in a node\<close>

text \<open>\<open>set_type\<close> returns the type it stores; its argument is never null in a correct program.\<close>

definition a_type :: "string \<Rightarrow> node \<Rightarrow> (string \<times> node) an" where
  "a_type t n = aret (t, set_type t n)"

definition a_type_ptr :: "string option \<Rightarrow> node \<Rightarrow> (string \<times> node) an" where
  "a_type_ptr t n = abind (the_ptr t) (\<lambda>t. a_type t n)"

definition with_c_expr :: "string option \<Rightarrow> node \<Rightarrow> node" where
  "with_c_expr c = upd_attrs (\<lambda>a. a\<lparr>c_expr := c\<rparr>)"

definition copy_c_expr :: "symbol \<Rightarrow> node \<Rightarrow> node" where
  "copy_c_expr sy n = (case sym_c_expr sy of None \<Rightarrow> n | Some c \<Rightarrow> with_c_expr (Some c) n)"

definition near :: "node \<Rightarrow> token_kind \<Rightarrow> string \<Rightarrow> token" where
  "near n k text = \<lparr>tk_kind = k, tk_text = text, tk_line = n_line (attrs n), tk_col = n_col (attrs n)\<rparr>"

text \<open>The key and index nodes that a dot access is rewritten to.\<close>

definition name_key :: "node \<Rightarrow> string \<Rightarrow> symbol \<Rightarrow> string \<Rightarrow> node" where
  "name_key e name sy t =
     set_type t (copy_c_expr sy (with_name name (node_new NK_NAME (near e TK_NAME name))))"

definition str_key :: "node \<Rightarrow> string \<Rightarrow> node" where
  "str_key e name = set_type ''STR'' (with_text name (node_new NK_STR (near e TK_STRING_LITERAL name)))"

section \<open>References read as values\<close>

definition wrap_expr_as_implicit_deref :: "node \<Rightarrow> string \<Rightarrow> string \<times> node" where
  "wrap_expr_as_implicit_deref e rt =
     (let t = ref_target_type rt
      in (t, set_type t (upd_attrs (\<lambda>a. a\<lparr>implicit_deref := True\<rparr>)
             (set_expr e (with_op ''*'' (node_new NK_UNARY (near e TK_STAR ''*'')))))))"

definition implicit_ref_read_if_assignable :: "type_table \<Rightarrow> node \<Rightarrow> string \<Rightarrow> string option \<Rightarrow> string \<times> node" where
  "implicit_ref_read_if_assignable types e actual expected =
     (if expected = None \<or> \<not> is_ref_type actual \<or> Some actual = expected then (actual, e)
      else
        let t = ref_target_type actual
        in if type_conforms_to_expected (Some t) expected \<or> type_assignable_to_expected types (Some t) expected
           then wrap_expr_as_implicit_deref e actual else (actual, e))"

definition implicit_ref_read_value :: "node \<Rightarrow> string \<Rightarrow> string \<times> node" where
  "implicit_ref_read_value e actual =
     (if \<not> is_ref_type actual then (actual, e) else wrap_expr_as_implicit_deref e actual)"

section \<open>Names\<close>

definition is_nested_fn :: "symbol \<Rightarrow> bool" where
  "is_nested_fn sy = opt_holds (\<lambda>d. n_kind d = NK_FN) (sym_node sy)"

definition named_value_type :: "type_info \<Rightarrow> string option" where
  "named_value_type info = (if ti_kind info = TYPEINFO_STRUCT then Some (ti_name info) else target info)"

definition analyze_name :: "node \<Rightarrow> (string \<times> node) an" where
  "analyze_name n =
     abind (the_ptr (n_name (attrs n))) (\<lambda>name.
     abind (lookup (Some name)) (\<lambda>sym.
       case sym of
         Some sy \<Rightarrow>
           if is_nested_fn sy
             then adie n (''nested function '' @ quoted name @
               '' can only be called directly inside its owning function'')
           else if ownership sy = OWNERSHIP_FREED then adie n (''use of freed value '' @ quoted name)
           else a_type (sym_type sy) (copy_c_expr sy n)
       | None \<Rightarrow>
           abind (type_of_name (Some name)) (\<lambda>info.
             case info of
               None \<Rightarrow> adie n (''unknown name '' @ quoted name)
             | Some info \<Rightarrow>
                 abind (reads (\<lambda>st. type_has_complete_named_value (an_types st) (Some info))) (\<lambda>ok.
                   if \<not> ok then adie n (''MAP '' @ quoted name @ '' has no complete named value'')
                   else a_type_ptr (named_value_type info)
                          (with_c_expr (Some (named_value_storage_name (ti_name info))) n)))))"

section \<open>Collection methods\<close>

definition make_int_node :: "int \<Rightarrow> node \<Rightarrow> node" where
  "make_int_node v at = set_type ''INT'' (with_int v (node_new NK_INT (near at TK_INT_LITERAL ''1'')))"

definition is_collection_method_name :: "string \<Rightarrow> bool" where
  "is_collection_method_name name \<longleftrightarrow>
     name \<in> {''upd'', ''filt'', ''agg'', ''tap'', ''group'', ''sort'', ''any''}"

definition singular_alias_from_name :: "string option \<Rightarrow> string option" where
  "singular_alias_from_name name =
     (case name of
        None \<Rightarrow> None
      | Some s \<Rightarrow>
          if s = [] then None
          else if 1 < length s \<and> last s = CHR ''s'' then Some (butlast s) else Some s)"

function infer_collection_alias :: "node option \<Rightarrow> string option" where
  "infer_collection_alias None = None"
| "infer_collection_alias (Some obj) =
     (if n_kind obj = NK_NAME then singular_alias_from_name (n_name (attrs obj))
      else if n_kind obj = NK_DOT \<and> n_name (attrs obj) \<noteq> None
        then singular_alias_from_name (n_name (attrs obj))
      else if n_kind obj = NK_METHOD_CALL then
        (if result_alias (attrs obj) \<noteq> None then result_alias (attrs obj)
         else if n_alias (attrs obj) \<noteq> None then n_alias (attrs obj)
         else infer_collection_alias (n_object obj))
      else None)"
  by pat_completeness auto

termination
  by (relation "measure (\<lambda>x. case x of None \<Rightarrow> 0 | Some n \<Rightarrow> size n + 1)")
    (auto split: option.splits dest: size_object)

definition infer_group_result_alias :: "node \<Rightarrow> string option" where
  "infer_group_result_alias key =
     (if n_kind key = NK_DOT \<and> n_name (attrs key) \<noteq> None then n_name (attrs key)
      else if n_kind key = NK_NAME then n_name (attrs key) else None)"

definition scope_define_alias :: "node \<Rightarrow> string option \<Rightarrow> string \<Rightarrow> string option \<Rightarrow> scope \<Rightarrow> scope result" where
  "scope_define_alias call alias_name type c_ex s =
     (case alias_name of
        None \<Rightarrow> Inr s
      | Some a \<Rightarrow>
          if a = [] \<or> a = ''e'' \<or> a = ''i'' \<or> a = ''val'' then Inr s
          else rbind (scope_lookup_current s a) (\<lambda>found.
            if found \<noteq> None then Inr s else scope_define s a type c_ex call))"

section \<open>Generated MAP types\<close>

definition synthetic_field :: "string \<Rightarrow> string \<Rightarrow> node" where
  "synthetic_field type name =
     set_type type (with_text type (with_name name (with_type type (synthetic NK_FIELD TK_NAME name))))"

definition synthesize_struct :: "string \<Rightarrow> node \<Rightarrow> node list \<Rightarrow> string an" where
  "synthesize_struct name at fs =
     abind (type_of_name (Some name)) (\<lambda>existing.
       case existing of
         Some info \<Rightarrow> aret (ti_name info)
       | None \<Rightarrow>
           on_types (\<lambda>types.
             rbind (type_push types (type_info_of name (set_type name (with_fields fs
                      (with_name name (node_new NK_TYPE_STRUCT (near at TK_MAP ''MAP''))))))) (\<lambda>ts.
               Inr (name, ts))))"

definition record_fields :: "node \<Rightarrow> node list" where
  "record_fields rec =
     map (\<lambda>entry. synthetic_field (the (Option.bind (n_value entry) (\<lambda>v. checked_type (attrs v))))
            (the (n_name (attrs entry))))
       (filter (\<lambda>entry. n_name (attrs entry) \<noteq> None
          \<and> Option.bind (n_value entry) (\<lambda>v. checked_type (attrs v)) \<noteq> None) (n_fields rec))"

definition synthesize_record_type :: "node \<Rightarrow> string \<Rightarrow> string an" where
  "synthesize_record_type rec pre =
     synthesize_struct (''__'' @ pre @ ''_'' @ show_nat (n_line (attrs rec)) @ ''_'' @ show_nat (n_col (attrs rec)))
       rec (record_fields rec)"

definition synthesize_group_type :: "node \<Rightarrow> string \<Rightarrow> string \<Rightarrow> string an" where
  "synthesize_group_type call key_type element_type =
     synthesize_struct (''__Group_'' @ show_nat (n_line (attrs call)) @ ''_'' @ show_nat (n_col (attrs call)))
       call [synthetic_field key_type ''key'', synthetic_field (array_type element_type) ''val'']"

end
