(* ===== verification/AnalyzeColl.thy ===== *)
theory AnalyzeColl
  imports Analysis
begin

text \<open>
  Collection methods, aggregates, overlays and in-place mutation
  (\<open>src/caster/analyze/collections.c\<close>). The analysis of expressions, statements, blocks and
  functions calls itself through these functions; the recursive calls are the fields of the
  record \<open>an_rec\<close>, and \<open>Analyze\<close> ties the knot. \<open>r_fuel\<close> is the fuel of the walks over
  declared values.
\<close>

record an_rec =
  r_fuel :: nat
  r_expr :: "node \<Rightarrow> string option \<Rightarrow> (string \<times> node) an"
  r_lvalue :: "node \<Rightarrow> (string \<times> node) an"
  r_stmt :: "node \<Rightarrow> node an"
  r_block :: "node \<Rightarrow> node an"
  r_value_block :: "string \<Rightarrow> node \<Rightarrow> (string \<times> node) an"
  r_fn :: "string \<Rightarrow> unit an"

definition expect_of :: "an_rec \<Rightarrow> string option \<Rightarrow> node \<Rightarrow> (string \<times> node) an" where
  "expect_of R want n = r_expr R n want"

definition infer_of :: "an_rec \<Rightarrow> node \<Rightarrow> (string \<times> node) an" where
  "infer_of R n = r_expr R n None"

definition no_value :: "('a \<Rightarrow> 'b an) \<Rightarrow> 'a \<Rightarrow> (unit \<times> 'b) an" where
  "no_value f x = abind (f x) (\<lambda>y. aret ((), y))"

definition block_of :: "an_rec \<Rightarrow> node \<Rightarrow> (unit \<times> node) an" where
  "block_of R = no_value (r_block R)"

definition analyze_chain_receiver :: "an_rec \<Rightarrow> node \<Rightarrow> (string \<times> node) an" where
  "analyze_chain_receiver R n = with_ctx_copy (\<lambda>c. c\<lparr>cx_allow_terminal_tap := True\<rparr>) (infer_of R n)"

definition analyze_loop_body :: "an_rec \<Rightarrow> node \<Rightarrow> (unit \<times> node) an" where
  "analyze_loop_body R bdy =
     abind (get_ctx cx_loop_depth) (\<lambda>saved_depth.
     athen (upd_ctx (\<lambda>c. c\<lparr>cx_loop_depth := saved_depth + 1\<rparr>))
     (abind (block_of R bdy) (\<lambda>r.
     athen (upd_ctx (\<lambda>c. c\<lparr>cx_loop_depth := saved_depth\<rparr>)) (aret r))))"

section \<open>Assignment targets\<close>

definition is_star :: "node \<Rightarrow> bool" where
  "is_star n \<longleftrightarrow> n_kind n = NK_UNARY \<and> n_op (attrs n) = Some ''*''"

definition analyze_lvalue :: "an_rec \<Rightarrow> node \<Rightarrow> (string \<times> node) an" where
  "analyze_lvalue R t =
     (if n_kind t = NK_NAME then
        abind (resolve (n_name (attrs t)) t) (\<lambda>sy. a_type (sym_type sy) (copy_c_expr sy t))
      else if is_star t then
        abind (at_expr (r_lvalue R) t) (\<lambda>(rt, t).
        athen (require (is_ref_type rt) t (''dereference assignment target needs REF, got '' @ rt))
          (a_type (ref_target_type rt) t))
      else if n_kind t = NK_DOT then
        abind (at_object (\<lambda>obj. infer_of R
                 (if is_star obj then upd_attrs (\<lambda>a. a\<lparr>mutation_target := True\<rparr>) obj else obj)) t) (\<lambda>(ot, t).
        athen (require (\<not> is_ref_type ot) t
                 ''mutation through REF field access requires '*' on the mutation target'')
          (infer_of R t))
      else adie t (''cannot assign to '' @ node_kind_name (n_kind t)))"

section \<open>Scopes of methods\<close>

definition method_scoped :: "'a an \<Rightarrow> 'a an" where
  "method_scoped m = abind (in_new_scope m) (\<lambda>(x, frame). aret x)"

text \<open>Both set up the scope at the head of the chain, for the caller to use and drop.\<close>

definition collection_method_scope :: "string \<Rightarrow> node \<Rightarrow> node an" where
  "collection_method_scope element_type call =
     abind fresh_loop_id (\<lambda>id.
     abind (the_ptr (n_name (attrs call))) (\<lambda>name.
     let ptr = name @ ''_e_'' @ show_nat id;
         index = name @ ''_i_'' @ show_nat id;
         elem = ''(*'' @ ptr @ '')'';
         ali = (if n_alias (attrs call) \<noteq> None then n_alias (attrs call)
                else infer_collection_alias (n_object call));
         call = upd_attrs (\<lambda>a. a\<lparr>index_name := Some index, element_ptr := Some ptr, n_alias := ali,
                  result_alias := (if result_alias a = None then ali else result_alias a)\<rparr>) call
     in athen (on_scope (\<lambda>s. scope_define s ''i'' ''INT'' (Some index) call))
       (athen (on_scope (\<lambda>s. scope_define s ''e'' element_type (Some elem) call))
       (athen (on_scope (scope_define_alias call ali element_type (Some elem)))
         (aret call)))))"

definition map_method_scope :: "string \<Rightarrow> string \<Rightarrow> node \<Rightarrow> node an" where
  "map_method_scope key_type value_type call =
     abind fresh_loop_id (\<lambda>id.
     abind (the_ptr (n_name (attrs call))) (\<lambda>name.
     let ptr = ''entry_'' @ show_nat id;
         index = name @ ''_i_'' @ show_nat id;
         call = upd_attrs (\<lambda>a. a\<lparr>index_name := Some index, element_ptr := Some ptr\<rparr>) call
     in athen (on_scope (\<lambda>s. scope_define s ''i'' ''INT'' (Some index) call))
       (athen (on_scope (\<lambda>s. scope_define s ''e'' key_type (Some (ptr @ ''->key'')) call))
       (athen (on_scope (\<lambda>s. scope_define s ''val'' value_type (Some (ptr @ ''->value'')) call))
       (athen (on_scope (scope_define_alias call (n_alias (attrs call)) value_type (Some (ptr @ ''->value''))))
         (aret call))))))"

section \<open>Method bodies\<close>

text \<open>The children \<open>reject_method_body_ret\<close> descends into, in its order.\<close>

definition ret_kids :: "node \<Rightarrow> node list" where
  "ret_kids n =
     List.map_filter id [n_body n, n_then_block n, n_else_block n, n_value n, n_target n, n_expr n,
       n_condition n, n_object n, n_index n, n_callee n, n_left n, n_right n]
     @ n_statements n @ n_args n @ n_elements n @ n_fields n @ n_elx_branches n"

lemma size_child:
  "n_body n = Some x \<Longrightarrow> size x < size n" "n_then_block n = Some x \<Longrightarrow> size x < size n"
  "n_else_block n = Some x \<Longrightarrow> size x < size n" "n_value n = Some x \<Longrightarrow> size x < size n"
  "n_target n = Some x \<Longrightarrow> size x < size n" "n_expr n = Some x \<Longrightarrow> size x < size n"
  "n_condition n = Some x \<Longrightarrow> size x < size n" "n_index n = Some x \<Longrightarrow> size x < size n"
  "n_callee n = Some x \<Longrightarrow> size x < size n" "n_left n = Some x \<Longrightarrow> size x < size n"
  "n_right n = Some x \<Longrightarrow> size x < size n" "n_object n = Some x \<Longrightarrow> size x < size n"
  by (cases n; simp)+

lemma size_item:
  "x \<in> set (n_statements n) \<Longrightarrow> size x < size n" "x \<in> set (n_args n) \<Longrightarrow> size x < size n"
  "x \<in> set (n_elements n) \<Longrightarrow> size x < size n" "x \<in> set (n_fields n) \<Longrightarrow> size x < size n"
  "x \<in> set (n_elx_branches n) \<Longrightarrow> size x < size n"
  by (cases n; force dest: size_list_estimation' [where f = size, OF _ order_refl])+

lemma in_map_filter_id: "x \<in> set (List.map_filter id xs) \<longleftrightarrow> Some x \<in> set xs"
  by (induction xs) (auto simp: map_filter_def split: option.splits)

lemma size_ret_kids: "x \<in> set (ret_kids n) \<Longrightarrow> size x < size n"
  by (auto simp: ret_kids_def in_map_filter_id simp del: map_filter_simps intro: size_child [OF sym] size_item)

lemma each_result_cong [fundef_cong]:
  "xs = ys \<Longrightarrow> (\<And>x. x \<in> set ys \<Longrightarrow> f x = g x) \<Longrightarrow> each_result f xs = each_result g ys"
  by (induction ys arbitrary: xs) auto

function reject_method_body_ret :: "string \<Rightarrow> node \<Rightarrow> unit result" where
  "reject_method_body_ret method n =
     (if n_kind n = NK_RET
      then die_node_at n (''.'' @ method @ ''() method bodies produce their final expression; ret is not allowed'')
      else each_result (reject_method_body_ret method) (ret_kids n))"
  by pat_completeness auto

termination
  by (relation "measure (\<lambda>(method, n). size n)") (auto dest: size_ret_kids)

declare reject_method_body_ret.simps [simp del]

definition needs_bool :: "(node \<Rightarrow> node option) \<Rightarrow> string \<Rightarrow> string \<times> node \<Rightarrow> node an" where
  "needs_bool get what r =
     (case r of (t, n) \<Rightarrow>
        athen (require_at (t = ''BOL'') (get n) (what @ '' must be BOL, got '' @ t)) (aret n))"

definition value_block_at ::
  "an_rec \<Rightarrow> string \<Rightarrow> (node \<Rightarrow> node option) \<Rightarrow> (node \<Rightarrow> node \<Rightarrow> node) \<Rightarrow> node \<Rightarrow> (string \<times> node) an" where
  "value_block_at R method get put n =
     (if get n = None then afail (Die 0 0 (''.'' @ method @ ''() method body needs a value''))
      else at_child get put (r_value_block R method) n)"

text \<open>An \<open>elx\<close> branch of a value \<open>if\<close>.\<close>

definition value_branch :: "an_rec \<Rightarrow> string \<Rightarrow> string \<Rightarrow> nat \<Rightarrow> node \<Rightarrow> unit \<Rightarrow> (unit \<times> node) an" where
  "value_branch R method branch_type i branch u =
     abind (at_condition (infer_of R) branch) (\<lambda>r.
     abind (needs_bool n_condition ''elx condition'' r) (\<lambda>branch.
     abind (value_block_at R method n_body set_body branch) (\<lambda>(t, branch).
     athen (require (t = branch_type) branch
              (''.'' @ method @ ''() if branches must produce the same type, got '' @ branch_type @ '' and '' @ t))
       (aret ((), branch)))))"

definition analyze_method_value_stmt :: "an_rec \<Rightarrow> string \<Rightarrow> node \<Rightarrow> (string \<times> node) an" where
  "analyze_method_value_stmt R method st =
     (if n_kind st = NK_EXPR_STMT
        then at_expr (infer_of R) (upd_attrs (\<lambda>a. a\<lparr>method_value := True\<rparr>) st)
      else if n_kind st = NK_IF then
        abind (at_condition (infer_of R) st) (\<lambda>r.
        abind (needs_bool n_condition ''if condition'' r) (\<lambda>st.
        abind (value_block_at R method n_then_block set_then_block st) (\<lambda>(branch_type, st).
        abind (at_items n_elx_branches with_branches (value_branch R method branch_type) () st) (\<lambda>(_, st).
        athen (require (n_else_block st \<noteq> None) st (''.'' @ method @ ''() value if needs an else branch''))
        (abind (value_block_at R method n_else_block set_else_block st) (\<lambda>(else_type, st).
        athen (require_at (else_type = branch_type) (n_else_block st)
                 (''.'' @ method @ ''() if branches must produce the same type, got '' @ branch_type
                  @ '' and '' @ else_type))
          (aret (branch_type, st))))))))
      else adie st (''.'' @ method @ ''() method body must end with an expression or if/else value''))"

text \<open>The statements of a value block: all but the last are plain.\<close>

primrec value_statements :: "an_rec \<Rightarrow> string \<Rightarrow> node list \<Rightarrow> (string \<times> node list) an" where
  "value_statements R method [] = afail OutOfBounds"
| "value_statements R method (st # sts) =
     athen (require (n_kind st \<noteq> NK_FN) st
              (''nested functions are not allowed inside .'' @ method @ ''() method bodies''))
       (if sts = [] then abind (analyze_method_value_stmt R method st) (\<lambda>(t, st). aret (t, [st]))
        else abind (r_stmt R st) (\<lambda>st. abind (value_statements R method sts) (\<lambda>(t, sts). aret (t, st # sts))))"

definition analyze_method_value_block :: "an_rec \<Rightarrow> string \<Rightarrow> node \<Rightarrow> (string \<times> node) an" where
  "analyze_method_value_block R method b =
     athen (require (n_statements b \<noteq> []) b (''.'' @ method @ ''() method body needs a value''))
       (scoped_statements (\<lambda>b. abind (value_statements R method (n_statements b)) (\<lambda>(t, sts).
          aret (t, with_statements sts b))) b)"

definition reject_ret_in_body :: "string \<Rightarrow> node \<Rightarrow> unit an" where
  "reject_ret_in_body method call =
     (case n_body call of None \<Rightarrow> aret () | Some b \<Rightarrow> queries (\<lambda>st. reject_method_body_ret method b))"

definition analyze_method_body :: "an_rec \<Rightarrow> node \<Rightarrow> (string \<times> node) an" where
  "analyze_method_body R call =
     abind (the_ptr (n_name (attrs call))) (\<lambda>method.
     athen (reject_ret_in_body method call)
       (with_ctx_copy (\<lambda>c. c\<lparr>cx_enforce_local_style := True\<rparr>)
          (value_block_at R method n_body set_body call)))"

section \<open>Aggregates\<close>

definition agg_body_uses_steps :: "node option \<Rightarrow> bool" where
  "agg_body_uses_steps bdy =
     opt_holds (\<lambda>b. opt_holds (\<lambda>st. n_kind st = NK_AGG_STEP) (item_at (n_statements b) 0)) bdy"

definition unify_agg_step_type :: "string option \<Rightarrow> string \<Rightarrow> string option" where
  "unify_agg_step_type left right =
     (case left of
        None \<Rightarrow> Some right
      | Some l \<Rightarrow> if l = right then Some l else numeric_binary_type (Some l) (Some right))"

definition is_agg_type :: "string \<Rightarrow> bool" where
  "is_agg_type t \<longleftrightarrow> t \<in> {''INT'', ''FLT'', ''STR''}"

definition agg_step_type :: "an_rec \<Rightarrow> nat \<Rightarrow> node \<Rightarrow> string option \<Rightarrow> (string option \<times> node) an" where
  "agg_step_type R i step value_type =
     athen (require (n_kind step = NK_AGG_STEP) step
              ''.agg() accumulator body only supports '+= expression' and '- expression' steps'')
     (abind (at_value (infer_of R) step) (\<lambda>(t, step).
      athen (require_at (is_agg_type t) (n_value step) (''.agg() step must produce INT, FLT, or STR, got '' @ t))
     (athen (require (\<not> (n_op (attrs step) = Some ''-'' \<and> t = ''STR'')) step
               ''.agg() '-' steps require INT or FLT values'')
       (case unify_agg_step_type value_type t of
          Some next_type \<Rightarrow> aret (Some next_type, step)
        | None \<Rightarrow> abind (the_ptr (n_value step)) (\<lambda>v. adie v
                    (''.agg() steps must produce one accumulator type, got '' @ shown value_type @ '' and '' @ t))))))"

definition analyze_agg_step_body :: "an_rec \<Rightarrow> node \<Rightarrow> (string \<times> node) an" where
  "analyze_agg_step_body R call =
     abind (the_ptr (n_name (attrs call))) (\<lambda>method.
     athen (reject_ret_in_body method call)
     (abind (with_ctx_copy (\<lambda>c. c\<lparr>cx_enforce_local_style := True\<rparr>)
               (at_body (at_items n_statements with_statements (agg_step_type R) None) call)) (\<lambda>(t, call).
        aret (case t of None \<Rightarrow> ''INT'' | Some t \<Rightarrow> t, call))))"

definition analyze_agg_value :: "an_rec \<Rightarrow> node \<Rightarrow> (string \<times> node) an" where
  "analyze_agg_value R call =
     (if n_body call \<noteq> None then
        athen (require (n_args call = []) call ''.agg() cannot mix expression arguments and method body'')
          (if agg_body_uses_steps (n_body call) then analyze_agg_step_body R call
           else adie call ''.agg() body only supports accumulator steps starting with += or -'')
      else adie call ''.agg() expects accumulator steps starting with += or -'')"

section \<open>Overlays\<close>

definition mark_open :: "string \<Rightarrow> unit an" where
  "mark_open t = upd_types (\<lambda>types. mark_struct_open types t)"

definition refine_named :: "string \<Rightarrow> string \<Rightarrow> unit an" where
  "refine_named t name = upd_scope (scope_update (refine_symbol_type t) name)"

text \<open>\<open>symbol_mark_owned_if_freeable(scope_resolve(s, n->name, n))\<close>\<close>

definition mark_owned :: "node \<Rightarrow> unit an" where
  "mark_owned n =
     abind (resolve (n_name (attrs n)) n) (\<lambda>sy.
       modifies (\<lambda>st. st\<lparr>an_scope := symbol_mark_owned_if_freeable (an_types st) (sym_name sy) (an_scope st)\<rparr>))"

definition is_struct :: "string \<Rightarrow> bool an" where
  "is_struct t = reads (\<lambda>st. is_struct_type (an_types st) t)"

definition open_map_entry :: "an_rec \<Rightarrow> nat \<Rightarrow> node \<Rightarrow> unit \<Rightarrow> (unit \<times> node) an" where
  "open_map_entry R i entry u =
     abind (at_target (expect_of R (Some ''STR'')) (set_type ''NUL'' entry)) (\<lambda>(kt, entry).
     athen (require_at (kt = ''STR'') (n_target entry) (''open MAP literal keys currently must be STR, got '' @ kt))
     (abind (at_value (infer_of R) entry) (\<lambda>(_, entry). aret ((), entry))))"

definition analyze_open_map_literal :: "an_rec \<Rightarrow> string \<Rightarrow> node \<Rightarrow> (string \<times> node) an" where
  "analyze_open_map_literal R type literal =
     abind (at_items n_fields with_fields (open_map_entry R) () literal) (\<lambda>(_, literal). a_type type literal)"

text \<open>\<open>if (!type_eq(got, want)) die_at(n->line, n->col, "... needs want, got got")\<close>\<close>

definition needs_type :: "string \<Rightarrow> string \<Rightarrow> string \<times> node \<Rightarrow> (string \<times> node) an" where
  "needs_type what want r =
     (case r of (got, n) \<Rightarrow>
        athen (require (got = want) n (what @ '' needs '' @ want @ '', got '' @ got)) (aret (got, n)))"

definition starts_nested :: "node \<Rightarrow> bool" where
  "starts_nested right = opt_holds (\<lambda>x. n_kind x = NK_ARRAY) (item_at (n_elements right) 0)"

definition analyze_join_right :: "an_rec \<Rightarrow> node \<Rightarrow> string \<Rightarrow> node \<Rightarrow> (string \<times> node) an" where
  "analyze_join_right R at left_type right =
     abind (is_struct left_type) (\<lambda>struct.
     if is_array_type left_type then
       (let et = array_elem_type left_type in
        if n_kind right = NK_ARRAY then
          (if is_array_type et \<and> \<not> starts_nested right then
             abind (abind (expect_of R (Some et) right) (needs_type ''array append'' et)) (\<lambda>(_, right).
               aret (left_type, right))
           else
             abind (if is_unknown_array_type left_type then infer_of R right
                    else expect_of R (Some left_type) right) (\<lambda>(rt, right).
             if is_unknown_array_type left_type \<and> is_array_type rt \<and> \<not> is_unknown_array_type rt
             then aret (rt, right)
             else abind (needs_type ''array join'' left_type (rt, right)) (\<lambda>(_, right). aret (left_type, right))))
        else
          abind (if is_unknown_type et then infer_of R right else expect_of R (Some et) right) (\<lambda>(vt, right).
          if is_unknown_type et then aret (array_type vt, right)
          else abind (needs_type ''array append'' et (vt, right)) (\<lambda>(_, right). aret (left_type, right))))
     else if is_map_type left_type then
       abind (abind (expect_of R (Some left_type) right) (needs_type ''join'' left_type)) (\<lambda>(_, right).
         aret (left_type, right))
     else if struct then
       (if n_kind right = NK_MAP_LITERAL then
          athen (mark_open left_type)
            (abind (analyze_open_map_literal R left_type right) (\<lambda>(_, right). aret (left_type, right)))
        else
          abind (abind (expect_of R (Some left_type) right) (needs_type ''join'' left_type)) (\<lambda>(_, right).
            aret (left_type, right)))
     else adie at (''+= join is not implemented for '' @ left_type))"

text \<open>A symbol that has no concrete element type yet takes the one that was found.\<close>

definition refine_if_named :: "string \<Rightarrow> node \<Rightarrow> unit an" where
  "refine_if_named t n =
     (if n_kind n = NK_NAME then
        abind (the_ptr (n_name (attrs n))) (\<lambda>name.
        abind (lookup (Some name)) (\<lambda>sym. if sym = None then aret () else refine_named t name))
      else aret ())"

definition analyze_array_add_result :: "an_rec \<Rightarrow> string \<Rightarrow> node \<Rightarrow> (string \<times> node) an" where
  "analyze_array_add_result R object_type call =
     athen (require (n_body call = None) call ''.add() does not take a method body'')
     (athen (require (length (n_args call) = 1) call ''.add() expects one value or one ARR value'')
     (let unknown = is_unknown_array_type object_type;
          et = (if unknown then ''?'' else array_elem_type object_type);
          is_record = (\<lambda>n. n_kind n = NK_RECORD_LITERAL);
          wrong = (\<lambda>at. ''.add() value must be '' @ et @ '' or '' @ object_type @ '', got '' @ at)
      in
      abind (is_struct et) (\<lambda>struct.
      abind (at_arg 0 (\<lambda>arg.
               if \<not> unknown \<and> is_record arg \<and> struct then expect_of R (Some et) arg
               else if \<not> unknown \<and> n_kind arg = NK_ARRAY \<and> \<not> is_array_type et
                 then expect_of R (Some object_type) arg
               else infer_of R arg) call) (\<lambda>(at, call).
      if unknown then
        athen (require_at (\<not> is_unknown_array_type at) (item_at (n_args call) 0) ''.add([]) needs a typed receiver'')
        (let rt = (if is_array_type at \<and> opt_holds (\<lambda>n. n_kind n \<noteq> NK_ARRAY) (item_at (n_args call) 0)
                   then array_type at else if is_array_type at then at else array_type at)
         in abind (at_object (\<lambda>obj. athen (refine_if_named rt obj) (aret ((), set_type rt obj))) call) (\<lambda>(_, call).
              a_type rt call))
      else if at = object_type then a_type object_type call
      else
        abind (reads (\<lambda>st. \<lambda>t. type_conforms_to_expected (Some t) (Some et)
                 \<or> type_assignable_to_expected (an_types st) (Some t) (Some et))) (\<lambda>fits.
        if fits at then
          abind (at_arg 0 (\<lambda>arg.
                   if is_record arg \<and> struct \<or> n_kind arg = NK_ARRAY \<and> is_array_type et \<and> at \<noteq> et
                   then expect_of R (Some et) arg else aret (at, arg)) call) (\<lambda>(at, call).
          athen (require_at (fits at) (item_at (n_args call) 0) (wrong at))
            (a_type object_type call))
        else athen (require_at False (item_at (n_args call) 0) (wrong at)) (a_type object_type call))))))"

text \<open>The left operand is returned too: an untyped array gets the type of the right one.\<close>

definition analyze_collection_plus_right ::
  "an_rec \<Rightarrow> node \<Rightarrow> string \<Rightarrow> node \<Rightarrow> node \<Rightarrow> (string \<times> node \<times> node) an" where
  "analyze_collection_plus_right R at left_type left right =
     abind (is_struct left_type) (\<lambda>struct.
     if is_array_type left_type then
       (if is_unknown_array_type left_type then
          abind (infer_of R right) (\<lambda>(rt, right).
          athen (require (is_array_type rt \<and> \<not> is_unknown_array_type rt) right
                   (''array '+' needs a typed ARR right side, got '' @ rt))
          (athen (refine_if_named rt left) (aret (rt, set_type rt left, right))))
        else
          abind (abind (expect_of R (Some left_type) right) (needs_type (''array '' @ quoted ''+'') left_type)) (\<lambda>(_, right).
            aret (left_type, left, right)))
     else if is_map_type left_type \<or> struct then
       abind (analyze_join_right R at left_type right) (\<lambda>(t, right). aret (t, left, right))
     else if is_open_data_type left_type then
       abind (expect_of R (Some ''OPEN'') right) (\<lambda>(rt, right).
       athen (require (is_open_data_type rt) right (''open MAP '+' needs OPEN, got '' @ rt))
         (aret (''OPEN'', left, right)))
     else adie at (''operator '+' is not implemented for '' @ left_type))"

definition refine_assignment_target :: "string \<Rightarrow> node \<Rightarrow> node an" where
  "refine_assignment_target t n =
     (if n_kind n \<noteq> NK_NAME then aret n
      else abind (resolve (n_name (attrs n)) n) (\<lambda>sy.
        if is_unknown_array_type (sym_type sy) \<and> is_array_type t \<and> \<not> is_unknown_array_type t
        then athen (refine_named t (sym_name sy)) (aret (set_type t n)) else aret n))"

section \<open>Mutation in place\<close>

definition is_mutating_collection_method_expr :: "node \<Rightarrow> bool" where
  "is_mutating_collection_method_expr e \<longleftrightarrow>
     is_star e \<and> opt_holds (\<lambda>call. n_kind call = NK_METHOD_CALL
       \<and> opt_holds (\<lambda>m. is_collection_method_name m \<or> m = ''add'') (n_name (attrs call))) (n_expr e)"

definition is_mutating_collection_plus_expr :: "node \<Rightarrow> bool" where
  "is_mutating_collection_plus_expr e \<longleftrightarrow>
     n_kind e = NK_BINARY \<and> n_op (attrs e) = Some ''+'' \<and> opt_holds is_star (n_left e)"

definition global_mutation_message :: "string \<Rightarrow> string" where
  "global_mutation_message name =
     ''direct mutation of top-level named value '' @ quoted name @
     '' inside a function is rejected; pass REF '' @ name @ '' to make mutation visible in the signature''"

definition is_complete_named_value :: "string option \<Rightarrow> bool an" where
  "is_complete_named_value name =
     abind (type_of_name name) (\<lambda>info.
       reads (\<lambda>st. info \<noteq> None \<and> type_has_complete_named_value (an_types st) info))"

definition reject_direct_global_mutation_target :: "node \<Rightarrow> unit an" where
  "reject_direct_global_mutation_target t =
     (if n_kind t \<noteq> NK_NAME then aret ()
      else
        abind (the_ptr (n_name (attrs t))) (\<lambda>name.
        abind (lookup (Some name)) (\<lambda>sym.
          case sym of
            Some sy \<Rightarrow> require (\<not> is_global sy) t (global_mutation_message name)
          | None \<Rightarrow> abind (is_complete_named_value (Some name)) (\<lambda>complete.
              require (\<not> complete) t (global_mutation_message name)))))"

definition collection_value_type :: "string \<Rightarrow> string" where
  "collection_value_type t = (if is_ref_type t then ref_target_type t else t)"

definition is_collection_join_type :: "type_table \<Rightarrow> string \<Rightarrow> bool" where
  "is_collection_join_type types t \<longleftrightarrow>
     is_array_type t \<or> is_map_type t \<or> is_struct_type types t \<or> is_open_data_type t"

definition add_literal_keys :: "an_rec \<Rightarrow> node option \<Rightarrow> string \<Rightarrow> unit an" where
  "add_literal_keys R expr name st =
     (case scope_try_resolve (an_scope st) name of
        None \<Rightarrow> Inl NullDeref
      | Some sy \<Rightarrow>
          rbind (symbol_add_source_literal_keys_from_expr (r_fuel R) (an_scope st) (an_types st) expr sy) (\<lambda>sy'.
            Inr ((), st\<lparr>an_scope := scope_update (\<lambda>_. sy') name (an_scope st)\<rparr>)))"

definition set_literal_keys :: "an_rec \<Rightarrow> node option \<Rightarrow> string \<Rightarrow> unit an" where
  "set_literal_keys R expr name st =
     (case scope_try_resolve (an_scope st) name of
        None \<Rightarrow> Inl NullDeref
      | Some sy \<Rightarrow>
          rbind (symbol_set_source_literal_keys_from_expr (r_fuel R) (an_scope st) (an_types st) expr sy) (\<lambda>sy'.
            Inr ((), st\<lparr>an_scope := scope_update (\<lambda>_. sy') name (an_scope st)\<rparr>)))"

definition analyze_mutating_collection_plus_stmt :: "an_rec \<Rightarrow> node \<Rightarrow> node an" where
  "analyze_mutating_collection_plus_stmt R expr =
     abind (the_ptr (n_left expr)) (\<lambda>left.
     abind (the_ptr (n_expr left)) (\<lambda>tgt.
     abind (the_ptr (n_right expr)) (\<lambda>right.
     athen (reject_direct_global_mutation_target tgt)
     (abind (infer_of R tgt) (\<lambda>(target_type, tgt).
      let ct = collection_value_type target_type in
      abind (reads (\<lambda>st. is_collection_join_type (an_types st) ct)) (\<lambda>joins.
      athen (require joins expr (''mutation operator with '+' expects ARR or MAP target, got '' @ target_type))
     (abind (is_struct ct) (\<lambda>struct.
      athen (require (\<not> (is_ref_type target_type \<and> struct)) expr
        ''mutating '+' on REF named MAP values is not implemented yet; mutate a field or assign a new value through the caller'')
     (abind (analyze_collection_plus_right R expr ct tgt right) (\<lambda>(result_type, tgt, right).
      abind (if n_kind tgt = NK_NAME then
               abind (refine_assignment_target result_type tgt) (\<lambda>tgt.
               abind (is_struct result_type) (\<lambda>result_struct.
               athen (if is_map_type result_type \<or> result_struct then
                        abind (resolve (n_name (attrs tgt)) tgt) (\<lambda>sy. add_literal_keys R (Some right) (sym_name sy))
                      else aret ())
              (athen (mark_owned tgt) (aret tgt))))
             else aret tgt) (\<lambda>tgt.
      abind (the_ptr (checked_type (attrs tgt))) (\<lambda>tt.
      athen (require (collection_value_type tt = result_type) expr
               (''mutating '+' cannot assign '' @ result_type @ '' to '' @ ct))
        (aret (set_type ''NUL'' (set_right right (set_left (set_expr tgt left) expr))))))))))))))))"

text \<open>The item of \<open>upd\<close> and the predicate of \<open>filt\<close> and \<open>any\<close>: a body or one expression.\<close>

definition body_or_arg :: "an_rec \<Rightarrow> string \<Rightarrow> string \<Rightarrow> node \<Rightarrow> (string \<times> node) an" where
  "body_or_arg R both neither call =
     (if n_body call \<noteq> None then
        athen (require (n_args call = []) call both) (analyze_method_body R call)
      else athen (require (length (n_args call) = 1) call neither) (at_arg 0 (infer_of R) call))"

definition mixed_body :: "string \<Rightarrow> string" where
  "mixed_body m = m @ ''() cannot mix expression arguments and method body''"

definition analyze_mutating_collection_method_stmt :: "an_rec \<Rightarrow> node \<Rightarrow> node an" where
  "analyze_mutating_collection_method_stmt R expr =
     abind (the_ptr (n_expr expr)) (\<lambda>call.
     abind (the_ptr (n_name (attrs call))) (\<lambda>name.
     athen (require (name \<noteq> ''agg'') call
       ''mutation operator does not apply to .agg(); use .agg() as a read-only expression'')
     (athen (require (name \<in> {''upd'', ''filt'', ''add''}) call
       ''mutation operator only supports .add(), .upd(), and .filt() collection methods'')
     (abind (the_ptr (n_object call)) (\<lambda>obj0.
      athen (reject_direct_global_mutation_target obj0)
     (let named_receiver = (n_kind obj0 = NK_NAME) in
      abind (if named_receiver then lookup (n_name (attrs obj0)) else aret None) (\<lambda>receiver_sym.
      let ref_receiver = opt_holds (\<lambda>sy. is_ref_type (sym_type sy)) receiver_sym in
      abind (at_object (infer_of R) call) (\<lambda>(receiver_type, call).
      let ct = collection_value_type receiver_type;
          done = (\<lambda>call. aret (set_type ''NUL'' (set_expr call expr)))
      in
      athen (require (ct \<noteq> ''STR'') call (''in-place STR.'' @ name @
        ''() is not supported without copying; use copy-producing .'' @ name @ ''()''))
     (athen (require (is_array_type ct) call (''in-place .'' @ name @
        ''() expects ARR[T] or REF[ARR[T]], got '' @ receiver_type))
     (if name = ''add'' then
        abind (analyze_array_add_result R ct call) (\<lambda>(result_type, call).
        if named_receiver \<and> \<not> ref_receiver then
          abind (at_object (\<lambda>obj. abind (refine_assignment_target result_type obj) (\<lambda>obj.
                    athen (case receiver_sym of
                             Some sy \<Rightarrow> modifies (\<lambda>st. st\<lparr>an_scope :=
                               symbol_mark_owned_if_freeable (an_types st) (sym_name sy) (an_scope st)\<rparr>)
                           | None \<Rightarrow> mark_owned obj) (aret ((), obj)))) call) (\<lambda>(_, call). done call)
        else done call)
      else
        athen (require named_receiver call (''in-place .'' @ name @ ''() currently requires a named array receiver''))
       (let et = array_elem_type ct in
        abind (method_scoped (abind (collection_method_scope et call) (\<lambda>call.
          if name = ''upd'' then
            abind (body_or_arg R (mixed_body ''*.upd'') ''*.upd() expects one expression or a method body'' call)
              (\<lambda>(item_type, call).
               athen (require (item_type = et) call
                 (''in-place .upd() must keep element type '' @ et @ '', got '' @ item_type)) (aret call))
          else
            abind (body_or_arg R (mixed_body ''*.filt'') ''*.filt() expects one BOL expression or a method body'' call)
              (\<lambda>(predicate_type, call).
               athen (require (predicate_type = ''BOL'') call
                 (''in-place .filt() predicate must be BOL, got '' @ predicate_type)) (aret call)))))
        (\<lambda>call. done (set_type ''NUL'' call)))))))))))))"

end
