(* ===== verification/AnalyzeCalls.thy ===== *)
theory AnalyzeCalls
  imports AnalyzeColl
begin

text \<open>
  Calls (\<open>src/caster/analyze/calls.c\<close>): functions, casts, built-in functions, constructors of
  fixed MAPs, the native adapters and the methods of collections.
\<close>

section \<open>Arguments\<close>

definition argc :: "(nat \<Rightarrow> bool) \<Rightarrow> string \<Rightarrow> node \<Rightarrow> unit an" where
  "argc ok msg call = require (ok (length (n_args call))) call msg"

definition infer_arg :: "an_rec \<Rightarrow> nat \<Rightarrow> node \<Rightarrow> (string \<times> node) an" where
  "infer_arg R i call = at_arg i (infer_of R) call"

definition require_arg :: "bool \<Rightarrow> nat \<Rightarrow> node \<Rightarrow> string \<Rightarrow> unit an" where
  "require_arg ok i call msg = require_at ok (item_at (n_args call) i) msg"

text \<open>An argument whose inferred type is the one asked for; \<open>msg\<close> goes before the actual type.\<close>

definition arg_of_type :: "an_rec \<Rightarrow> nat \<Rightarrow> string \<Rightarrow> string \<Rightarrow> node \<Rightarrow> node an" where
  "arg_of_type R i want msg call =
     abind (infer_arg R i call) (\<lambda>(t, call). athen (require_arg (t = want) i call (msg @ t)) (aret call))"

text \<open>The arguments of a function with parameters of types \<open>ps\<close>.\<close>

definition check_args :: "an_rec \<Rightarrow> string list \<Rightarrow> string \<Rightarrow> node \<Rightarrow> node an" where
  "check_args R ps what call =
     abind (at_items n_args with_args (\<lambda>i arg u.
        if i < length ps then
          abind (expect_of R (Some (ps ! i)) arg) (\<lambda>(t, arg).
          athen (require (t = ps ! i) arg
            (''argument '' @ show_nat (i + 1) @ '' to '' @ what @ '' must be '' @ ps ! i @ '', got '' @ t))
            (aret ((), arg)))
        else afail OutOfBounds) () call) (\<lambda>(_, call). aret call)"

text \<open>After the arguments the callee is analyzed, unless it has been or is being analyzed.\<close>

definition finish_fn_call :: "an_rec \<Rightarrow> string \<Rightarrow> node \<Rightarrow> (string \<times> node) an" where
  "finish_fn_call R fname call =
     athen (r_fn R fname)
     (abind (fn_of_name (Some fname)) (\<lambda>fn. abind (the_ptr fn) (\<lambda>fn.
      abind (the_ptr (return_type fn)) (\<lambda>t.
        a_type t (if returns_owned_ref fn \<and> is_ref_type t then set_ref_result_owned call else call)))))"

text \<open>A call through a function value of type \<open>ft\<close>.\<close>

definition fn_value_args :: "an_rec \<Rightarrow> string \<Rightarrow> node \<Rightarrow> (string \<times> node) an" where
  "fn_value_args R ft call =
     athen (argc (\<lambda>n. n = 1) ''function value expects one argument'' call)
     (abind (the_ptr (split_fn_type ft)) (\<lambda>(inp, out).
      abind (at_arg 0 (expect_of R (Some inp)) call) (\<lambda>(t, call).
      athen (require_arg (t = inp) 0 call (''function value argument must be '' @ inp @ '', got '' @ t))
        (aret (out, call)))))"

section \<open>Constructors of fixed MAPs\<close>

definition analyze_struct_constructor_call ::
  "an_rec \<Rightarrow> string \<Rightarrow> string \<Rightarrow> node \<Rightarrow> (string option \<times> node) an" where
  "analyze_struct_constructor_call R type_name display_name call =
     abind (type_of_name (Some type_name)) (\<lambda>info.
       case info of
         None \<Rightarrow> aret (None, call)
       | Some info \<Rightarrow>
           if ti_kind info \<noteq> TYPEINFO_STRUCT then aret (None, call)
           else
             let want = ti_name info in
             athen (require (length (n_args call) = 1 \<and> n_body call = None) call
                      (display_name @ ''(value) expects exactly one value''))
             (abind (with_ctx_copy (\<lambda>c. c\<lparr>cx_allow_json_decode_boundary := True\<rparr>)
                       (at_arg 0 (expect_of R (Some want)) call)) (\<lambda>(t, call).
              abind (reads (\<lambda>st. type_assignable_to_expected (an_types st) (Some t) (Some want)
                       \<or> type_conforms_to_expected (Some t) (Some want))) (\<lambda>ok.
              athen (require_arg ok 0 call (display_name @ ''(value) expects '' @ want @ '', got '' @ t))
                (aret (Some want, set_type want (with_type want call)))))))"

section \<open>Casts\<close>

definition analyze_cast_call :: "an_rec \<Rightarrow> string \<Rightarrow> node \<Rightarrow> (string \<times> node) an" where
  "analyze_cast_call R name call =
     (if name = ''ARR'' then
        athen (argc (\<lambda>n. n = 1 \<or> n = 2) ''ARR() expects text, or text and separator'' call)
        (abind (arg_of_type R 0 ''STR'' ''ARR() expects STR text, got '' call) (\<lambda>call.
         abind (if length (n_args call) = 2
                then arg_of_type R 1 ''STR'' ''ARR(text, separator) expects STR separator, got '' call
                else aret call) (\<lambda>call.
           a_type ''ARR[STR]'' call)))
      else if name = ''STR'' \<and> length (n_args call) = 2 then
        abind (infer_arg R 0 call) (\<lambda>(source_type, call).
        abind (infer_arg R 1 call) (\<lambda>(delimiter_type, call).
        athen (require_arg (is_str_array_type (Some source_type)) 0 call
                 (''STR(value, delimiter) expects ARR[STR], got '' @ source_type))
        (athen (require_arg (delimiter_type = ''STR'') 1 call
                 (''STR(value, delimiter) expects STR delimiter, got '' @ delimiter_type))
          (a_type ''STR'' call))))
      else
        athen (argc (\<lambda>n. n = 1) (name @ ''() expects exactly one argument'') call)
        (abind (infer_arg R 0 call) (\<lambda>(t, call).
         if name = ''STR'' \<and> is_str_array_type (Some t) then a_type ''STR'' call
         else
           athen (require_arg (is_cast_source_type (Some t)) 0 call
             (name @ ''() supports INT, FLT, BOL, STR'' @ (if name = ''STR'' then '', or ARR[STR]'' else [])
              @ '', got '' @ t))
             (a_type name call))))"

section \<open>Built-in functions\<close>

definition is_log_type :: "string \<Rightarrow> bool" where
  "is_log_type t \<longleftrightarrow> t \<in> {''INT'', ''FLT'', ''BOL'', ''STR'', ''OBJ''}"

definition analyze_log_call :: "an_rec \<Rightarrow> node \<Rightarrow> (string \<times> node) an" where
  "analyze_log_call R call =
     athen (argc (\<lambda>n. 1 \<le> n) ''log expects at least one argument'' call)
     (abind (at_items n_args with_args (\<lambda>i arg u.
        abind (infer_of R arg) (\<lambda>(t, arg).
        athen (require (is_log_type t) arg (''log does not support '' @ t)) (aret ((), arg)))) () call) (\<lambda>(_, call).
        a_type ''NUL'' call))"

definition analyze_assert_call :: "an_rec \<Rightarrow> node \<Rightarrow> (string \<times> node) an" where
  "analyze_assert_call R call =
     athen (argc (\<lambda>n. 1 \<le> n \<and> n \<le> 2) ''assert expects a BOL condition and optional STR message'' call)
     (abind (arg_of_type R 0 ''BOL'' ''assert condition must be BOL, got '' call) (\<lambda>call.
      abind (if length (n_args call) = 2 then arg_of_type R 1 ''STR'' ''assert message must be STR, got '' call
             else aret call) (\<lambda>call. a_type ''NUL'' call)))"

definition analyze_len_call :: "an_rec \<Rightarrow> node \<Rightarrow> (string \<times> node) an" where
  "analyze_len_call R call =
     athen (argc (\<lambda>n. n = 1) ''len expects exactly one argument'' call)
     (abind (infer_arg R 0 call) (\<lambda>(t, call).
      abind (reads (\<lambda>st. is_array_type t \<or> t = ''STR'' \<or> is_map_type t \<or> is_open_data_type t
               \<or> is_open_struct_type (an_types st) t)) (\<lambda>ok.
      athen (require_arg ok 0 call (''len expects ARR, STR, or MAP, got '' @ t)) (a_type ''INT'' call))))"

text \<open>The second argument of \<open>has\<close> and \<open>find\<close> against the type the collection asks for.\<close>

definition needle_is :: "string \<Rightarrow> string \<Rightarrow> string \<Rightarrow> string \<Rightarrow> node \<Rightarrow> (string \<times> node) an" where
  "needle_is want needle msg result_type call =
     athen (require_arg (needle = want) 1 call (msg @ '', got '' @ needle)) (a_type result_type call)"

definition analyze_has_call :: "an_rec \<Rightarrow> node \<Rightarrow> (string \<times> node) an" where
  "analyze_has_call R call =
     athen (argc (\<lambda>n. n = 2) ''has expects a collection and a value'' call)
     (abind (infer_arg R 0 call) (\<lambda>(ct, call).
      abind (infer_arg R 1 call) (\<lambda>(needle, call).
      abind (reads (\<lambda>st. is_open_struct_type (an_types st) ct)) (\<lambda>open_struct.
      if is_array_type ct
        then needle_is (array_elem_type ct) needle (''has needle must be '' @ array_elem_type ct) ''BOL'' call
      else if ct = ''STR'' then needle_is ''STR'' needle ''has on STR expects STR needle'' ''BOL'' call
      else if is_map_type ct then
        abind (the_ptr (map_key_type ct)) (\<lambda>kt.
          needle_is kt needle (''has on MAP expects '' @ kt @ '' key'') ''BOL'' call)
      else if is_open_data_type ct \<or> open_struct \<or> ct = ''OBJ''
        then needle_is ''STR'' needle ''has on open MAP expects STR key'' ''BOL'' call
      else adie call (''has expects ARR, STR, or MAP, got '' @ ct)))))"

definition analyze_find_call :: "an_rec \<Rightarrow> node \<Rightarrow> (string \<times> node) an" where
  "analyze_find_call R call =
     athen (argc (\<lambda>n. n = 2) ''find expects a collection and a value'' call)
     (abind (infer_arg R 0 call) (\<lambda>(ct, call).
      abind (infer_arg R 1 call) (\<lambda>(needle, call).
      if is_array_type ct
        then needle_is (array_elem_type ct) needle (''find needle must be '' @ array_elem_type ct) ''INT'' call
      else if ct = ''STR'' then needle_is ''STR'' needle ''find on STR expects STR needle'' ''INT'' call
      else adie call (''find expects ARR or STR, got '' @ ct))))"

definition analyze_min_max_call :: "an_rec \<Rightarrow> string \<Rightarrow> node \<Rightarrow> (string \<times> node) an" where
  "analyze_min_max_call R name call =
     athen (argc (\<lambda>n. n = 1) (name @ '' expects exactly one collection'') call)
     (abind (infer_arg R 0 call) (\<lambda>(ct, call).
      if is_array_type ct then
        athen (require (is_agg_type (array_elem_type ct)) call
          (name @ '' currently supports ARR[INT], ARR[FLT], or ARR[STR], got '' @ ct))
          (a_type (array_elem_type ct) call)
      else if ct = ''STR'' then a_type ''STR'' call
      else adie call (name @ '' expects ARR or STR, got '' @ ct)))"

definition analyze_text_call :: "an_rec \<Rightarrow> string \<Rightarrow> node \<Rightarrow> (string \<times> node) an" where
  "analyze_text_call R name call =
     athen (argc (\<lambda>n. n = 1) (name @ '' expects one STR'') call)
     (abind (infer_arg R 0 call) (\<lambda>(t, call).
      athen (require (t = ''STR'') call (name @ '' expects STR, got '' @ t)) (a_type ''STR'' call)))"

definition analyze_replace_call :: "an_rec \<Rightarrow> node \<Rightarrow> (string \<times> node) an" where
  "analyze_replace_call R call =
     athen (argc (\<lambda>n. n = 3) ''replace expects text, old, next'' call)
     (abind (arg_of_type R 0 ''STR'' ''replace arguments must be STR, got '' call) (\<lambda>call.
      abind (arg_of_type R 1 ''STR'' ''replace arguments must be STR, got '' call) (\<lambda>call.
      abind (arg_of_type R 2 ''STR'' ''replace arguments must be STR, got '' call) (\<lambda>call.
        a_type ''STR'' call))))"

definition analyze_affix_call :: "an_rec \<Rightarrow> string \<Rightarrow> node \<Rightarrow> (string \<times> node) an" where
  "analyze_affix_call R name call =
     athen (argc (\<lambda>n. n = 2) (name @ '' expects text and affix'') call)
     (abind (arg_of_type R 0 ''STR'' (name @ '' arguments must be STR, got '') call) (\<lambda>call.
      abind (arg_of_type R 1 ''STR'' (name @ '' arguments must be STR, got '') call) (\<lambda>call.
        a_type ''BOL'' call)))"

definition analyze_char_class_call :: "an_rec \<Rightarrow> string \<Rightarrow> node \<Rightarrow> (string \<times> node) an" where
  "analyze_char_class_call R name call =
     athen (argc (\<lambda>n. n = 1) (name @ '' expects one STR'') call)
     (abind (arg_of_type R 0 ''STR'' (name @ '' expects STR, got '') call) (\<lambda>call. a_type ''BOL'' call))"

definition analyze_json_call :: "an_rec \<Rightarrow> node \<Rightarrow> (string \<times> node) an" where
  "analyze_json_call R call =
     athen (argc (\<lambda>n. n = 1) ''JSON expects exactly one STR argument'' call)
     (abind (arg_of_type R 0 ''STR'' ''JSON expects STR, got '' call) (\<lambda>call. a_type ''OBJ'' call))"

definition analyze_rand_call :: "an_rec \<Rightarrow> node \<Rightarrow> (string \<times> node) an" where
  "analyze_rand_call R call =
     athen (argc (\<lambda>n. n = 1) ''RAND(scale) expects one INT or FLT scale'' call)
     (abind (infer_arg R 0 call) (\<lambda>(t, call).
      athen (require_arg (t = ''INT'' \<or> t = ''FLT'') 0 call (''RAND(scale) expects INT or FLT scale, got '' @ t))
        (a_type ''FLT'' call)))"

section \<open>Calls\<close>

definition argument_count_message :: "string \<Rightarrow> nat \<Rightarrow> node \<Rightarrow> string" where
  "argument_count_message what n call =
     ''function '' @ what @ '' expects '' @ show_nat n @ '' argument(s), got '' @ show_nat (length (n_args call))"

text \<open>A call of a nested function, through its symbol.\<close>

definition analyze_nested_call :: "an_rec \<Rightarrow> string \<Rightarrow> string \<Rightarrow> node \<Rightarrow> (string \<times> node) an" where
  "analyze_nested_call R name c call =
     abind (fn_of_name (Some c)) (\<lambda>fn.
       case fn of
         None \<Rightarrow> abind (the_ptr (n_callee call)) (\<lambda>callee. adie callee (''unknown nested function '' @ quoted name))
       | Some fn \<Rightarrow>
           athen (require (length (n_args call) = length (fi_param_types fn)) call
                    (argument_count_message (quoted name) (length (fi_param_types fn)) call))
           (abind (check_args R (fi_param_types fn) (quoted name) call) (\<lambda>call.
            abind (at_callee (\<lambda>callee. aret ((), set_type ''NUL'' (with_c_expr (Some c) callee))) call) (\<lambda>(_, call).
              finish_fn_call R c call))))"

definition analyze_fn_symbol_call :: "an_rec \<Rightarrow> symbol \<Rightarrow> node \<Rightarrow> (string \<times> node) an" where
  "analyze_fn_symbol_call R sy call =
     abind (fn_value_args R (sym_type sy) call) (\<lambda>(out, call).
     abind (at_callee (\<lambda>callee. aret ((), set_type (sym_type sy) (with_c_expr (sym_c_expr sy) callee))) call) (\<lambda>(_, call).
       a_type out call))"

definition analyze_user_call :: "an_rec \<Rightarrow> string \<Rightarrow> node \<Rightarrow> (string \<times> node) an" where
  "analyze_user_call R name call =
     abind (fn_of_name (Some name)) (\<lambda>fn.
       case fn of
         None \<Rightarrow> abind (the_ptr (n_callee call)) (\<lambda>callee. adie callee (''unknown function '' @ quoted name))
       | Some fn \<Rightarrow>
           athen (require (length (n_args call) = length (fi_param_types fn)) call
                    (argument_count_message (quoted name) (length (fi_param_types fn)) call))
           (abind (check_args R (fi_param_types fn) (quoted name) call) (\<lambda>call. finish_fn_call R name call)))"

text \<open>The names after a constructor and the symbols have been ruled out, in the order of the code.\<close>

definition analyze_named_call :: "an_rec \<Rightarrow> string \<Rightarrow> node \<Rightarrow> (string \<times> node) an" where
  "analyze_named_call R name call =
     (if name = ''log'' then analyze_log_call R call
      else if name = ''assert'' then analyze_assert_call R call
      else if name = ''HEAP'' then adie call
        (''HEAP is no longer user-facing; create a value with 'name = Type' and use '' @ quoted ''REF name'')
      else if name = ''len'' then analyze_len_call R call
      else if name = ''has'' then analyze_has_call R call
      else if name = ''find'' then analyze_find_call R call
      else if name = ''min'' \<or> name = ''max'' then analyze_min_max_call R name call
      else if name \<in> {''trim'', ''lower'', ''upper'', ''urlDecode''} then analyze_text_call R name call
      else if name = ''replace'' then analyze_replace_call R call
      else if name = ''starts'' \<or> name = ''ends'' then analyze_affix_call R name call
      else if name \<in> {''isDigit'', ''isAlpha'', ''isSpace''} then analyze_char_class_call R name call
      else if name = ''JSON'' then analyze_json_call R call
      else analyze_user_call R name call)"

definition analyze_call :: "an_rec \<Rightarrow> node \<Rightarrow> (string \<times> node) an" where
  "analyze_call R call =
     abind (the_ptr (n_callee call)) (\<lambda>callee.
     if n_kind callee \<noteq> NK_NAME then
       abind (at_callee (infer_of R) call) (\<lambda>(ft, call).
       athen (require (is_fn_type ft) call (''call target must be a function, got '' @ ft))
       (abind (fn_value_args R ft call) (\<lambda>(out, call). a_type out call)))
     else
       abind (the_ptr (n_name (attrs callee))) (\<lambda>name.
       if name = ''RAND'' then analyze_rand_call R call
       else if is_cast_call_name name then analyze_cast_call R name call
       else
         abind (analyze_struct_constructor_call R name name call) (\<lambda>(constructor_type, call).
         case constructor_type of
           Some t \<Rightarrow> aret (t, call)
         | None \<Rightarrow>
             abind (lookup (Some name)) (\<lambda>sym.
             case sym of
               None \<Rightarrow> analyze_named_call R name call
             | Some sy \<Rightarrow>
                 (case (is_nested_fn sy, sym_c_expr sy) of
                    (True, Some c) \<Rightarrow> analyze_nested_call R name c call
                  | _ \<Rightarrow> if is_fn_type (sym_type sy) then analyze_fn_symbol_call R sy call
                         else analyze_named_call R name call)))))"

section \<open>Native adapters\<close>

text \<open>
  What an adapter takes: an argument of a type (\<open>require_arg_type\<close>), a scalar, or the
  parameters of a query.
\<close>

datatype adapter_arg = OfType string | Scalar | Params

definition adapter_sigs :: "(string \<times> string \<times> adapter_arg list \<times> string) list" where
  "adapter_sigs =
     [(''OS'', ''args'', [], ''ARR[STR]''), (''OS'', ''exit'', [OfType ''INT''], ''NUL''),
      (''OS'', ''cwd'', [], ''STR''), (''OS'', ''platform'', [], ''STR''), (''OS'', ''arch'', [], ''STR''),
      (''OS'', ''chdir'', [OfType ''STR''], ''NUL''), (''OS'', ''env'', [OfType ''STR''], ''STR''),
      (''OS'', ''setEnv'', [OfType ''STR'', OfType ''STR''], ''NUL''),
      (''OS'', ''isWindows'', [], ''BOL''), (''OS'', ''isMac'', [], ''BOL''), (''OS'', ''isLinux'', [], ''BOL''),
      (''FS'', ''read'', [OfType ''STR''], ''STR''), (''FS'', ''readBytes'', [OfType ''STR''], ''ARR[INT]''),
      (''FS'', ''write'', [OfType ''STR'', OfType ''STR''], ''NUL''),
      (''FS'', ''append'', [OfType ''STR'', OfType ''STR''], ''NUL''),
      (''FS'', ''exists'', [OfType ''STR''], ''BOL''), (''FS'', ''remove'', [OfType ''STR''], ''NUL''),
      (''FS'', ''mkdir'', [OfType ''STR''], ''NUL''),
      (''FS'', ''rename'', [OfType ''STR'', OfType ''STR''], ''NUL''),
      (''FS'', ''copy'', [OfType ''STR'', OfType ''STR''], ''NUL''),
      (''FS'', ''list'', [OfType ''STR''], ''ARR[STR]''), (''FS'', ''stat'', [OfType ''STR''], ''FileStat''),
      (''PATH'', ''join'', [OfType ''ARR[STR]''], ''STR''), (''PATH'', ''parent'', [OfType ''STR''], ''STR''),
      (''PATH'', ''name'', [OfType ''STR''], ''STR''), (''PATH'', ''ext'', [OfType ''STR''], ''STR''),
      (''PATH'', ''absolute'', [OfType ''STR''], ''STR''), (''PATH'', ''normalize'', [OfType ''STR''], ''STR''),
      (''IO'', ''print'', [Scalar], ''NUL''), (''IO'', ''error'', [Scalar], ''NUL''),
      (''IO'', ''readLine'', [], ''STR''), (''IO'', ''stdin'', [], ''INT''), (''IO'', ''stdout'', [], ''INT''),
      (''IO'', ''stderr'', [], ''INT''),
      (''PROC'', ''run'', [OfType ''STR'', OfType ''ARR[STR]''], ''ProcResult''),
      (''BUF'', ''new'', [], ''Buffer''), (''BUF'', ''toStr'', [OfType ''Buffer''], ''STR''),
      (''BUF'', ''len'', [OfType ''Buffer''], ''INT''), (''BUF'', ''clear'', [OfType ''REF[Buffer]''], ''NUL''),
      (''BUF'', ''free'', [OfType ''REF[Buffer]''], ''NUL''),
      (''BUF'', ''write'', [OfType ''REF[Buffer]'', Scalar], ''NUL''),
      (''BUF'', ''line'', [OfType ''REF[Buffer]'', Scalar], ''NUL''),
      (''SQL'', ''open'', [OfType ''STR''], ''SQL_DB''), (''SQL'', ''close'', [OfType ''REF[SQL_DB]''], ''NUL''),
      (''SQL'', ''exec'', [OfType ''REF[SQL_DB]'', OfType ''STR'', Params], ''SQL_Exec''),
      (''SQL'', ''query'', [OfType ''REF[SQL_DB]'', OfType ''STR'', Params], ''OBJ'')]"

definition adapter_sig :: "string \<Rightarrow> string \<Rightarrow> (adapter_arg list \<times> string) option" where
  "adapter_sig obj name =
     map_option (\<lambda>(_, _, r). r) (List.find (\<lambda>(ob, n, _). ob = obj \<and> n = name) adapter_sigs)"

definition is_system_adapter :: "string \<Rightarrow> bool" where
  "is_system_adapter obj \<longleftrightarrow> obj \<in> {''OS'', ''FS'', ''PATH'', ''IO'', ''PROC'', ''BUF'', ''SQL''}"

definition method_object_name :: "node \<Rightarrow> string option" where
  "method_object_name call =
     (case n_object call of
        None \<Rightarrow> None
      | Some obj \<Rightarrow> if n_kind obj = NK_NAME then n_name (attrs obj) else None)"

definition is_scalar_type :: "string \<Rightarrow> bool" where
  "is_scalar_type t \<longleftrightarrow> t \<in> {''INT'', ''FLT'', ''BOL'', ''STR''}"

definition adapter_arg_step :: "an_rec \<Rightarrow> string \<Rightarrow> adapter_arg list \<Rightarrow> nat \<Rightarrow> node \<Rightarrow> unit \<Rightarrow> (unit \<times> node) an" where
  "adapter_arg_step R display specs i arg u =
     (if length specs \<le> i then afail OutOfBounds
      else case specs ! i of
        OfType want \<Rightarrow>
          abind (expect_of R (Some want) arg) (\<lambda>(t, arg).
          athen (require (t = want) arg
            (''argument '' @ show_nat (i + 1) @ '' to '' @ display @ ''() must be '' @ want @ '', got '' @ t))
            (aret ((), arg)))
      | Scalar \<Rightarrow>
          abind (infer_of R arg) (\<lambda>(t, arg).
          athen (require (is_scalar_type t) arg (display @ ''() supports INT, FLT, BOL, or STR, got '' @ t))
            (aret ((), arg)))
      | Params \<Rightarrow>
          abind (expect_of R (Some ''OBJ'') arg) (\<lambda>(t, arg).
          athen (require (t = ''OBJ'') arg (display @ ''() params must be a DYN array, got '' @ t))
            (aret ((), arg))))"

definition no_object_type :: "node \<Rightarrow> node an" where
  "no_object_type call = abind (at_object (\<lambda>obj. aret ((), set_type ''NUL'' obj)) call) (\<lambda>(_, call). aret call)"

definition analyze_system_adapter_call :: "an_rec \<Rightarrow> string \<Rightarrow> node \<Rightarrow> (string option \<times> node) an" where
  "analyze_system_adapter_call R name call =
     (case method_object_name call of
        None \<Rightarrow> aret (None, call)
      | Some obj \<Rightarrow>
          if \<not> is_system_adapter obj then aret (None, call)
          else
            (let display = obj @ ''.'' @ name in
             abind (type_of_name (Some ''Buffer'')) (\<lambda>buffer.
             athen (require (obj \<noteq> ''BUF'' \<or> buffer \<noteq> None) call (display @ ''() requires `use BUF`''))
             (case adapter_sig obj name of
                Some (specs, t) \<Rightarrow>
                  athen (argc (\<lambda>n. n = length specs) (display @ ''() expects '' @ show_nat (length specs)
                    @ '' argument(s), got '' @ show_nat (length (n_args call))) call)
                  (abind (at_items n_args with_args (adapter_arg_step R display specs) () call) (\<lambda>(_, call).
                   abind (no_object_type call) (\<lambda>call. aret (Some t, set_type t call))))
              | None \<Rightarrow>
                  if obj = ''PROC'' \<and> (name = ''spawn'' \<or> name = ''wait'')
                  then adie call (display @ ''() is planned but not implemented yet; use PROC.run(command, args)'')
                  else adie call (display @ ''() is not implemented'')))))"

end
