(* ===== verification/AnalyzeMethods.thy ===== *)
theory AnalyzeMethods
  imports AnalyzeCalls
begin

text \<open>
  Method calls (\<open>analyze_method_call\<close> in \<open>src/caster/analyze/calls.c\<close>): adapters and
  named values first, then functions of a module, then the methods of the receiver's type.
\<close>

section \<open>Servers and requests\<close>

text \<open>The leading arguments of a server: a port, and for TLS the two files.\<close>

definition req_port :: "an_rec \<Rightarrow> string \<Rightarrow> bool \<Rightarrow> node \<Rightarrow> node an" where
  "req_port R name tls call =
     abind (arg_of_type R 0 ''INT'' (''REQ.'' @ name @ ''() port must be INT, got '') call) (\<lambda>call.
     if \<not> tls then aret call
     else
       abind (arg_of_type R 1 ''STR'' (''REQ.'' @ name @ ''() certFile must be STR, got '') call) (\<lambda>call.
         arg_of_type R 2 ''STR'' (''REQ.'' @ name @ ''() keyFile must be STR, got '') call))"

definition req_handler_fn :: "string \<Rightarrow> string \<Rightarrow> node \<Rightarrow> fn_info an" where
  "req_handler_fn name what handler =
     athen (require (n_kind handler = NK_NAME) handler
              (''REQ.'' @ name @ ''() handler must be a top-level function name''))
     (abind (the_ptr (n_name (attrs handler))) (\<lambda>hname.
      abind (fn_of_name (Some hname)) (\<lambda>fn.
        case fn of None \<Rightarrow> adie handler (''unknown '' @ what @ '' handler function '' @ quoted hname)
        | Some fn \<Rightarrow> aret fn)))"

definition is_http_req :: "string \<Rightarrow> bool" where
  "is_http_req t \<longleftrightarrow> t = ''HttpReq'' \<or> t = ''REF[HttpReq]''"

definition host_handler :: "string \<Rightarrow> string option \<Rightarrow> node \<Rightarrow> (unit \<times> node) an" where
  "host_handler name ctx_type handler =
     abind (req_handler_fn name ''host'' handler) (\<lambda>fn.
     let ps = fi_param_types fn; ok_ret = (return_type fn = Some ''HttpRes'') in
     case ctx_type of
       None \<Rightarrow>
         athen (require (length ps = 1 \<and> is_http_req (ps ! 0) \<and> ok_ret) handler
           (''REQ.'' @ name @ ''() handler must be FN(HttpReq) -> HttpRes or FN(REF[HttpReq]) -> HttpRes''))
           (case ps of p # _ \<Rightarrow> aret ((), set_type ''NUL'' (with_type p handler)) | [] \<Rightarrow> afail OutOfBounds)
     | Some t \<Rightarrow>
         athen (require (length ps = 2 \<and> ps ! 0 = t \<and> is_http_req (ps ! 1) \<and> ok_ret) handler
           (''REQ.'' @ name @ ''() stateful handler must be FN('' @ t @ '', HttpReq) -> HttpRes or FN('' @ t
            @ '', REF[HttpReq]) -> HttpRes''))
           (case ps of _ # p # _ \<Rightarrow> aret ((), set_type ''NUL'' (with_type p handler)) | _ \<Rightarrow> afail OutOfBounds))"

definition analyze_req_host :: "an_rec \<Rightarrow> string \<Rightarrow> node \<Rightarrow> (string \<times> node) an" where
  "analyze_req_host R name call =
     (let tls = (name = ''hostTLS'');
          min_args = (if tls then 4 else 2);
          has_ctx = (length (n_args call) = min_args + 1);
          handler_index = (if has_ctx then min_args else min_args - 1)
      in
      athen (argc (\<lambda>n. n = min_args \<or> n = min_args + 1)
        (if tls then ''REQ.hostTLS() expects INT port, STR certFile, STR keyFile, and handler function, or INT port, STR certFile, STR keyFile, REF context, and handler function''
         else ''REQ.host() expects INT port and handler function, or INT port, REF context, and handler function'') call)
      (abind (req_port R name tls call) (\<lambda>call.
       abind (if has_ctx then
                abind (with_ctx_copy (\<lambda>c. c\<lparr>cx_preserve_ref_identity := True\<rparr>)
                         (infer_arg R (min_args - 1) call)) (\<lambda>(t, call).
                athen (require_arg (is_ref_type t) (min_args - 1) call
                         (''REQ.'' @ name @ ''() context must be REF[T], got '' @ t))
                  (aret (Some t, call)))
              else aret (None, call)) (\<lambda>(ctx_type, call).
       abind (at_arg handler_index (host_handler name ctx_type) call) (\<lambda>(_, call).
         a_type ''NUL'' call)))))"

definition ws_handler :: "string \<Rightarrow> node \<Rightarrow> (unit \<times> node) an" where
  "ws_handler name handler =
     abind (req_handler_fn name ''WebSocket'' handler) (\<lambda>fn.
     athen (require (fi_param_types fn = [''STR''] \<and> return_type fn = Some ''STR'') handler
              (''REQ.'' @ name @ ''() handler must be FN(STR) -> STR''))
       (aret ((), set_type ''NUL'' handler)))"

definition analyze_req_ws :: "an_rec \<Rightarrow> string \<Rightarrow> node \<Rightarrow> (string \<times> node) an" where
  "analyze_req_ws R name call =
     (let tls = (name = ''wsTLS''); expected = (if tls then 4 else 2) in
      athen (argc (\<lambda>n. n = expected)
        (if tls then ''REQ.wsTLS() expects INT port, STR certFile, STR keyFile, and FN(STR) -> STR handler''
         else ''REQ.ws() expects INT port and FN(STR) -> STR handler'') call)
      (abind (req_port R name tls call) (\<lambda>call.
       abind (at_arg (if tls then 3 else 1) (ws_handler name) call) (\<lambda>(_, call). a_type ''NUL'' call))))"

definition analyze_req_http :: "an_rec \<Rightarrow> string \<Rightarrow> node \<Rightarrow> (string \<times> node) an" where
  "analyze_req_http R name call =
     (let has_body = (name = ''post'' \<or> name = ''put'') in
      athen (require (has_body \<or> name = ''get'' \<or> name = ''delete'') call (''REQ.'' @ name
        @ ''() is not implemented yet; use REQ.get/delete(url), REQ.post/put(url, body), REQ.host(...), REQ.hostTLS(...), REQ.ws(...), or REQ.wsTLS(...)''))
      (athen (argc (\<lambda>n. n = (if has_body then 2 else 1)) (''REQ.'' @ name
         @ (if has_body then ''() expects STR url and STR body'' else ''() expects one STR url'')) call)
      (abind (arg_of_type R 0 ''STR'' (''REQ.'' @ name @ ''() url must be STR, got '') call) (\<lambda>call.
       abind (if has_body then arg_of_type R 1 ''STR'' (''REQ.'' @ name @ ''() body must be STR, got '') call
              else aret call) (\<lambda>call.
         a_type (task_type ''HttpRes'') call)))))"

definition analyze_req_call :: "an_rec \<Rightarrow> string \<Rightarrow> node \<Rightarrow> (string \<times> node) an" where
  "analyze_req_call R name call =
     (if name = ''host'' \<or> name = ''hostTLS'' then analyze_req_host R name call
      else if name = ''ws'' \<or> name = ''wsTLS'' then analyze_req_ws R name call
      else analyze_req_http R name call)"

section \<open>Named values, JSON and functions of a module\<close>

definition analyze_init_call :: "string \<Rightarrow> node \<Rightarrow> (string \<times> node) an" where
  "analyze_init_call obj call =
     athen (require (n_args call = [] \<and> n_body call = None) call (obj @ ''.INIT() expects no arguments or body''))
     (abind (is_complete_named_value (Some obj)) (\<lambda>complete.
      athen (require_at complete (n_object call) (''unknown named value '' @ quoted obj @ '' for INIT''))
     (abind (type_of_name (Some obj)) (\<lambda>info. abind (the_ptr info) (\<lambda>info.
      abind (no_object_type call) (\<lambda>call.
        a_type_ptr (named_value_type info) (with_type (ti_name info) call)))))))"

definition analyze_json_method :: "an_rec \<Rightarrow> string \<Rightarrow> node \<Rightarrow> (string \<times> node) an" where
  "analyze_json_method R name call =
     athen (require (name = ''stringify'') call (''JSON.'' @ name @ ''() is not implemented''))
     (athen (argc (\<lambda>n. n = 1) ''JSON.stringify() expects one DYN value'' call)
     (abind (arg_of_type R 0 ''OBJ'' ''JSON.stringify() expects DYN, got '' call) (\<lambda>call.
      abind (no_object_type call) (\<lambda>call. a_type ''STR'' call))))"

definition analyze_module_call :: "an_rec \<Rightarrow> string \<Rightarrow> string \<Rightarrow> node \<Rightarrow> (string option \<times> node) an" where
  "analyze_module_call R obj name call =
     (let qualified = obj @ ''_'' @ name; display = obj @ ''.'' @ name in
      abind (analyze_struct_constructor_call R qualified display call) (\<lambda>(constructor_type, call).
      case constructor_type of
        Some t \<Rightarrow> abind (no_object_type call) (\<lambda>call. aret (Some t, call))
      | None \<Rightarrow>
          (let call = (if obj = ''WEB'' \<and> name = ''json'' \<and> length (n_args call) = 1
                       then add_args (make_int_node 200 call) call else call) in
           abind (fn_of_name (Some qualified)) (\<lambda>fn.
           case fn of
             None \<Rightarrow> aret (None, call)
           | Some fn \<Rightarrow>
               athen (require (length (n_args call) = length (fi_param_types fn)) call
                        (argument_count_message (quoted display) (length (fi_param_types fn)) call))
               (abind (check_args R (fi_param_types fn) (quoted display) call) (\<lambda>call.
                abind (no_object_type (with_c_expr (Some qualified) call)) (\<lambda>call.
                abind (finish_fn_call R qualified call) (\<lambda>(t, call). aret (Some t, call)))))))))"

section \<open>Methods of arrays and texts\<close>

text \<open>The conversions \<open>.ARR()\<close> and \<open>.STR()\<close>.\<close>

definition delimiter_arg :: "an_rec \<Rightarrow> string \<Rightarrow> node \<Rightarrow> node an" where
  "delimiter_arg R what call =
     (if length (n_args call) = 1
      then arg_of_type R 0 ''STR'' (what @ ''(delimiter) expects STR delimiter, got '') call else aret call)"

definition analyze_to_arr :: "an_rec \<Rightarrow> string \<Rightarrow> node \<Rightarrow> (string \<times> node) an" where
  "analyze_to_arr R ot call =
     (if ot = ''STR'' then
        athen (argc (\<lambda>n. n = 0 \<or> n = 1) ''.ARR() expects no arguments or one STR delimiter'' call)
          (abind (delimiter_arg R ''.ARR'' call) (\<lambda>call. a_type ''ARR[STR]'' call))
      else if is_array_type ot then
        athen (argc (\<lambda>n. n = 0) ''.ARR() on ARR expects no arguments'' call) (a_type ot call)
      else
        abind (is_struct ot) (\<lambda>struct.
        if is_map_type ot \<or> struct \<or> is_open_data_type ot \<or> ot = ''OBJ'' then
          athen (argc (\<lambda>n. n = 0) ''.ARR() wrapping a value expects no arguments'' call)
            (a_type (array_type ot) call)
        else
          abind (delimiter_arg R ''.ARR'' call) (\<lambda>call.
            adie call (''.ARR() expects STR, ARR, MAP, or DYN receiver, got '' @ ot))))"

definition analyze_to_str :: "an_rec \<Rightarrow> string \<Rightarrow> node \<Rightarrow> (string \<times> node) an" where
  "analyze_to_str R ot call =
     athen (argc (\<lambda>n. n = 0 \<or> n = 1) ''.STR() expects no arguments or one STR delimiter'' call)
     (athen (require (is_str_array_type (Some ot)) call (''.STR() expects ARR[STR] receiver, got '' @ ot))
       (abind (delimiter_arg R ''.STR'' call) (\<lambda>call. a_type ''STR'' call)))"

text \<open>\<open>upd\<close> on an array: a record it produces becomes a generated MAP type.\<close>

definition upd_item :: "an_rec \<Rightarrow> node \<Rightarrow> (string \<times> node) an" where
  "upd_item R call =
     (if n_body call \<noteq> None then
        athen (require (n_args call = []) call (mixed_body ''.upd'')) (analyze_method_body R call)
      else
        athen (require (length (n_args call) = 1) call ''.upd() expects one expression or a method body'')
          (at_arg 0 (\<lambda>arg.
             abind (infer_of R arg) (\<lambda>(t, arg).
             if t = ''OPEN'' \<and> n_kind arg = NK_RECORD_LITERAL
             then abind (synthesize_record_type arg ''Row'') (\<lambda>t. a_type t arg) else aret (t, arg))) call))"

text \<open>The predicate of \<open>filt\<close> and \<open>any\<close>; \<open>on\<close> is \<open>''STR''\<close> for the methods of a text.\<close>

definition predicate_arg :: "an_rec \<Rightarrow> string \<Rightarrow> string \<Rightarrow> node \<Rightarrow> node an" where
  "predicate_arg R on name call =
     abind (body_or_arg R (mixed_body (''.'' @ name)) (''.'' @ name @ ''() expects one BOL expression or a method body'')
              call) (\<lambda>(t, call).
     athen (require (t = ''BOL'') call (on @ ''.'' @ name @ ''() predicate must be BOL, got '' @ t)) (aret call))"

definition tap_statement :: "an_rec \<Rightarrow> nat \<Rightarrow> node \<Rightarrow> unit \<Rightarrow> (unit \<times> node) an" where
  "tap_statement R i st u =
     athen (require (n_kind st \<noteq> NK_RET) st ''.tap() body cannot return a value'') (no_value (r_stmt R) st)"

definition analyze_tap :: "an_rec \<Rightarrow> string \<Rightarrow> node \<Rightarrow> (string \<times> node) an" where
  "analyze_tap R ot call =
     abind (get_ctx cx_allow_terminal_tap) (\<lambda>allow.
     athen (require allow call ''.tap(name)(...) must be followed by another collection method'')
     (athen (require (length (n_args call) = 1 \<and> opt_holds (\<lambda>a. n_kind a = NK_NAME) (item_at (n_args call) 0)) call
        ''.tap(name)(...) expects one collection alias name'')
     (athen (require (n_body call \<noteq> None) call ''.tap(name) expects a following statement block'')
     (abind fresh_loop_id (\<lambda>id.
      abind (the_ptr (Option.bind (item_at (n_args call) 0) (\<lambda>a. n_name (attrs a)))) (\<lambda>ali.
      let index = ''tap_'' @ show_nat id;
          call = upd_attrs (\<lambda>a. a\<lparr>index_name := Some index, n_alias := Some ali,
                   result_alias := infer_collection_alias (n_object call)\<rparr>) call
      in
      abind (at_body (scoped_statements (\<lambda>b.
               athen (on_scope (\<lambda>s. scope_define s ali ot (Some (''source_'' @ index)) call))
                 (with_ctx_copy (\<lambda>c. c\<lparr>cx_enforce_local_style := True, cx_allow_terminal_tap := False\<rparr>)
                   (at_items n_statements with_statements (tap_statement R) () b)))) call) (\<lambda>(_, call).
        a_type ot call)))))))"

definition analyze_group :: "an_rec \<Rightarrow> string \<Rightarrow> node \<Rightarrow> (string \<times> node) an" where
  "analyze_group R et call =
     athen (argc (\<lambda>n. n = 1) ''.group() expects one key expression'' call)
     (athen (require (n_body call = None) call ''.group() does not take a method body'')
     (abind (infer_arg R 0 call) (\<lambda>(kt, call).
      athen (require (kt = ''STR'' \<or> kt = ''INT'' \<or> kt = ''BOL'') call
        (''.group() currently supports STR, INT, or BOL keys, got '' @ kt))
     (abind (synthesize_group_type call kt et) (\<lambda>gt.
      let ali = (case Option.bind (item_at (n_args call) 0) infer_group_result_alias of
                   None \<Rightarrow> ''group'' | Some a \<Rightarrow> a)
      in a_type (array_type gt) (with_type kt (upd_attrs (\<lambda>a. a\<lparr>result_alias := Some ali\<rparr>) call)))))))"

definition analyze_sort :: "an_rec \<Rightarrow> string \<Rightarrow> node \<Rightarrow> (string \<times> node) an" where
  "analyze_sort R ot call =
     athen (argc (\<lambda>n. n = 1) ''.sort() expects one key expression and optional ASC or DESC'' call)
     (athen (require (n_body call = None) call ''.sort() does not take a method body'')
     (abind (infer_arg R 0 call) (\<lambda>(kt, call).
      athen (require (is_agg_type kt) call (''.sort() currently supports INT, FLT, or STR keys, got '' @ kt))
        (a_type ot (upd_attrs (\<lambda>a. a\<lparr>sort_dir := (if sort_dir a = None then Some ''ASC'' else sort_dir a)\<rparr>)
           (with_type kt call))))))"

definition analyze_agg :: "an_rec \<Rightarrow> string \<Rightarrow> node \<Rightarrow> (string \<times> node) an" where
  "analyze_agg R on call =
     abind (analyze_agg_value R call) (\<lambda>(t, call).
     athen (require (is_agg_type t) call (on @ ''.agg() currently supports INT, FLT, or STR accumulation, got '' @ t))
       (a_type t call))"

definition analyze_array_method :: "an_rec \<Rightarrow> string \<Rightarrow> string \<Rightarrow> node \<Rightarrow> (string \<times> node) an" where
  "analyze_array_method R name ot call =
     (let et = array_elem_type ot in
      if name = ''tap'' then
        abind (method_scoped (collection_method_scope et call)) (\<lambda>call. analyze_tap R ot call)
      else
        method_scoped (abind (collection_method_scope et call) (\<lambda>call.
          if name = ''upd'' then abind (upd_item R call) (\<lambda>(t, call). a_type (array_type t) call)
          else if name = ''filt'' then abind (predicate_arg R [] name call) (\<lambda>call. a_type ot call)
          else if name = ''any'' then abind (predicate_arg R [] name call) (\<lambda>call. a_type ''BOL'' call)
          else if name = ''group'' then analyze_group R et call
          else if name = ''sort'' then analyze_sort R ot call
          else analyze_agg R [] call)))"

text \<open>On a text the element is a character, which is not behind a pointer.\<close>

definition str_method_scope :: "node \<Rightarrow> node an" where
  "str_method_scope call =
     abind (collection_method_scope ''STR'' call) (\<lambda>call.
     let direct = (\<lambda>sy. sy\<lparr>sym_c_expr := element_ptr (attrs call)\<rparr>) in
     abind (resolve (Some ''e'') call) (\<lambda>_.
     athen (upd_scope (scope_update direct ''e''))
     (case n_alias (attrs call) of
        None \<Rightarrow> aret call
      | Some a \<Rightarrow> abind (resolve (Some a) call) (\<lambda>_. athen (upd_scope (scope_update direct a)) (aret call)))))"

definition analyze_str_method :: "an_rec \<Rightarrow> string \<Rightarrow> node \<Rightarrow> (string option \<times> node) an" where
  "analyze_str_method R name call =
     method_scoped (abind (str_method_scope call) (\<lambda>call.
       let with_t = (\<lambda>t call. aret (Some t, set_type t call)) in
       if name = ''upd'' then
         abind (body_or_arg R (mixed_body ''.upd'') ''.upd() expects one STR expression or a method body'' call)
           (\<lambda>(t, call). athen (require (t = ''STR'') call (''STR.upd() must produce STR, got '' @ t)) (with_t ''STR'' call))
       else if name = ''filt'' then abind (predicate_arg R ''STR'' name call) (\<lambda>call. with_t ''STR'' call)
       else if name = ''any'' then abind (predicate_arg R ''STR'' name call) (\<lambda>call. with_t ''BOL'' call)
       else if name = ''agg'' then abind (analyze_agg R ''STR'' call) (\<lambda>(t, call). aret (Some t, call))
       else aret (None, call)))"

section \<open>Methods of MAPs\<close>

definition analyze_map_method :: "an_rec \<Rightarrow> string \<Rightarrow> string \<Rightarrow> node \<Rightarrow> (string option \<times> node) an" where
  "analyze_map_method R name ot call =
     abind (the_ptr (split_map_type ot)) (\<lambda>(kt, vt).
     if name = ''add'' then adie call ''.add() is not used for MAP; use map = map + otherMap''
     else if name = ''has'' then
       athen (argc (\<lambda>n. n = 1) ''.has() on MAP expects key'' call)
         (abind (arg_of_type R 0 kt (''map key must be '' @ kt @ '', got '') call) (\<lambda>call.
            aret (Some ''BOL'', set_type ''BOL'' call)))
     else if name = ''agg'' then
       method_scoped (abind (map_method_scope kt vt call) (\<lambda>call.
         abind (analyze_agg R ''MAP'' call) (\<lambda>(t, call). aret (Some t, call))))
     else aret (None, call))"

definition analyze_open_has :: "an_rec \<Rightarrow> string \<Rightarrow> node \<Rightarrow> (string \<times> node) an" where
  "analyze_open_has R ot call =
     abind (is_struct ot) (\<lambda>struct.
     athen (if struct then mark_open ot else aret ())
     (athen (argc (\<lambda>n. n = 1) ''.has() on MAP expects key'' call)
     (abind (arg_of_type R 0 ''STR'' ''open MAP key must be STR, got '' call) (\<lambda>call. a_type ''BOL'' call))))"

definition analyze_shape_fill :: "an_rec \<Rightarrow> string \<Rightarrow> node \<Rightarrow> (string \<times> node) an" where
  "analyze_shape_fill R name call =
     athen (require (name = ''fill'') call ''shape literal only supports .fill(value)'')
     (athen (require (n_body call = None) call ''.fill() does not take a method body'')
     (athen (argc (\<lambda>n. n = 1) ''.fill(value) expects one value'' call)
     (abind (infer_arg R 0 call) (\<lambda>(t, call).
      abind (the_ptr (n_object call)) (\<lambda>obj. a_type (nested_array_type t (length (n_elements obj))) call)))))"

definition analyze_upd_overlay :: "an_rec \<Rightarrow> string \<Rightarrow> node \<Rightarrow> (string \<times> node) an" where
  "analyze_upd_overlay R ot call =
     athen (require (n_body call = None) call ''MAP.upd() does not take a method body'')
     (athen (argc (\<lambda>n. n = 1) ''MAP.upd() expects one MAP or field overlay'' call)
     (abind (the_ptr (n_object call)) (\<lambda>obj.
      abind (at_arg 0 (\<lambda>arg. abind (analyze_collection_plus_right R call ot obj arg) (\<lambda>(t, obj, arg).
               aret ((t, obj), arg))) call) (\<lambda>((t, obj), call).
        a_type t (set_object obj call)))))"

section \<open>Method calls\<close>

text \<open>A function kept in a field.\<close>

definition analyze_fn_field_call :: "an_rec \<Rightarrow> string \<Rightarrow> string \<Rightarrow> node \<Rightarrow> (string \<times> node) an" where
  "analyze_fn_field_call R name ft call =
     athen (argc (\<lambda>n. n = 1) (''function field '' @ quoted name @ '' expects one argument, got ''
              @ show_nat (length (n_args call))) call)
     (abind (the_ptr (split_fn_type ft)) (\<lambda>(inp, out).
      abind (at_arg 0 (expect_of R (Some inp)) call) (\<lambda>(t, call).
      athen (require_arg (t = inp) 0 call
        (''argument to function field '' @ quoted name @ '' must be '' @ inp @ '', got '' @ t))
        (a_type out call))))"

text \<open>What is left once the type of the receiver has ruled out its own methods.\<close>

definition analyze_last_methods :: "an_rec \<Rightarrow> string \<Rightarrow> string \<Rightarrow> node \<Rightarrow> (string \<times> node) an" where
  "analyze_last_methods R name ot call =
     abind (is_struct ot) (\<lambda>struct.
     if (struct \<or> is_open_data_type ot \<or> ot = ''OBJ'') \<and> name = ''has'' then analyze_open_has R ot call
     else adie call (''method '.'' @ name @ ''()' is not implemented in this pass''))"

definition or_last :: "an_rec \<Rightarrow> string \<Rightarrow> string \<Rightarrow> string option \<times> node \<Rightarrow> (string \<times> node) an" where
  "or_last R name ot r =
     (case r of (Some t, call) \<Rightarrow> aret (t, call) | (None, call) \<Rightarrow> analyze_last_methods R name ot call)"

definition analyze_receiver_method :: "an_rec \<Rightarrow> string \<Rightarrow> string \<Rightarrow> node \<Rightarrow> (string \<times> node) an" where
  "analyze_receiver_method R name ot call =
     abind (is_struct ot) (\<lambda>struct.
     if name = ''len'' then
       athen (argc (\<lambda>n. n = 0) ''.len() expects no arguments'' call)
         (athen (require (is_array_type ot \<or> ot = ''STR'') call (''.len() expects ARR or STR receiver, got '' @ ot))
           (a_type ''INT'' call))
     else if is_shape_type ot then analyze_shape_fill R name call
     else if name = ''ARR'' then analyze_to_arr R ot call
     else if name = ''STR'' then analyze_to_str R ot call
     else if (is_map_type ot \<or> struct \<or> is_open_data_type ot) \<and> name = ''upd'' then analyze_upd_overlay R ot call
     else if is_array_type ot \<and> name = ''add'' then analyze_array_add_result R ot call
     else if is_array_type ot \<and> is_collection_method_name name then analyze_array_method R name ot call
     else if ot = ''STR'' \<and> is_collection_method_name name
       then abind (analyze_str_method R name call) (or_last R name ot)
     else if is_map_type ot then abind (analyze_map_method R name ot call) (or_last R name ot)
     else analyze_last_methods R name ot call)"

definition analyze_chain_call :: "an_rec \<Rightarrow> string \<Rightarrow> node \<Rightarrow> (string \<times> node) an" where
  "analyze_chain_call R name call =
     abind (at_object (analyze_chain_receiver R) call) (\<lambda>(ot, call).
     abind (reads (\<lambda>st. Option.bind (struct_field (an_types st) ot name) (\<lambda>f. declared_type (attrs f)))) (\<lambda>ft.
     if opt_holds is_fn_type ft then analyze_fn_field_call R name (the ft) call
     else analyze_receiver_method R name ot call))"

definition analyze_method_call :: "an_rec \<Rightarrow> node \<Rightarrow> (string \<times> node) an" where
  "analyze_method_call R call =
     abind (the_ptr (n_name (attrs call))) (\<lambda>name.
     abind (analyze_system_adapter_call R name call) (\<lambda>(system_type, call).
     case system_type of
       Some t \<Rightarrow> aret (t, call)
     | None \<Rightarrow>
         (case method_object_name call of
            None \<Rightarrow> analyze_chain_call R name call
          | Some obj \<Rightarrow>
              if name = ''INIT'' then analyze_init_call obj call
              else if obj = ''JSON'' then analyze_json_method R name call
              else if obj = ''REQ'' then analyze_req_call R name call
              else abind (analyze_module_call R obj name call) (\<lambda>(t, call).
                case t of Some t \<Rightarrow> aret (t, call) | None \<Rightarrow> analyze_chain_call R name call))))"

end
