(* ===== verification/AnalyzeExpr.thy ===== *)
theory AnalyzeExpr
  imports AnalyzeMethods
begin

text \<open>
  Expressions (\<open>src/caster/analyze/expressions.c\<close>): one function per kind of node, then
  \<open>analyze_expr_expected\<close>, which chooses among them. \<open>want\<close> is the expected type, null in most
  places.
\<close>

section \<open>Names and literals\<close>

definition equality_operand_preserves_ref_identity :: "scope \<Rightarrow> node \<Rightarrow> bool" where
  "equality_operand_preserves_ref_identity s e =
     (if n_kind e = NK_UNARY \<and> n_op (attrs e) = Some ''REF'' then True
      else if n_kind e = NK_NAME then opt_holds (\<lambda>sy. is_ref_type (sym_type sy)) (resolve_node s e)
      else n_kind e = NK_DOT)"

text \<open>A name that is no symbol where a function value is expected: a function of the program.\<close>

definition fn_value_name :: "string option \<Rightarrow> node \<Rightarrow> (string \<times> node) option an" where
  "fn_value_name want e =
     abind (lookup (n_name (attrs e))) (\<lambda>found.
     case want of
       None \<Rightarrow> aret None
     | Some t \<Rightarrow>
         if \<not> is_fn_type t \<or> found \<noteq> None then aret None
         else
           abind (fn_of_name (n_name (attrs e))) (\<lambda>fn.
           case fn of
             None \<Rightarrow> aret None
           | Some fn \<Rightarrow>
               athen (require (length (fi_param_types fn) = 1
                        \<and> type_eq (Some (fi_param_types fn ! 0)) (fn_input_type t)
                        \<and> type_eq (return_type fn) (fn_output_type t)) e
                        (''function '' @ quoted (shown (n_name (attrs e))) @ '' does not match expected '' @ t))
                 (aret (Some (t, set_type t (with_c_expr (n_name (attrs e)) e))))))"

text \<open>\<open>return e->checked_type\<close>\<close>

definition returned :: "node \<Rightarrow> (string \<times> node) an" where
  "returned e = abind (the_ptr (checked_type (attrs e))) (\<lambda>t. aret (t, e))"

definition analyze_name_as :: "an_rec \<Rightarrow> string \<Rightarrow> symbol option \<Rightarrow> string \<Rightarrow> node \<Rightarrow> (string \<times> node) an" where
  "analyze_name_as R want found actual e =
     (if opt_holds (\<lambda>sy. is_unknown_array_type (sym_type sy)) found \<and> is_array_type want then
        athen (refine_if_named want e) (a_type want e)
      else
        abind (reads (\<lambda>st. is_json_decode_target_type (an_types st) want)) (\<lambda>decodes.
        if decodes \<and> is_json_dynamic_type (Some actual) then
          abind (queries (\<lambda>st. conform_inferred_open_local (r_fuel R)
                   (cx_allow_json_decode_boundary (an_ctx st)) (an_scope st) (an_types st) (Some e) (Some want)))
            (\<lambda>e. abind (the_ptr e) returned)
        else
          abind (reads (\<lambda>st. implicit_ref_read_if_assignable (an_types st) e actual (Some want))) (\<lambda>(actual, e).
          abind (reads (\<lambda>st. type_assignable_to_expected (an_types st) (Some actual) (Some want))) (\<lambda>ok.
          athen (require ok e (''expected '' @ want @ '', got '' @ actual)) (returned e)))))"

definition analyze_name_expr :: "an_rec \<Rightarrow> string option \<Rightarrow> node \<Rightarrow> (string \<times> node) an" where
  "analyze_name_expr R want e =
     abind (fn_value_name want e) (\<lambda>fv.
     case fv of
       Some r \<Rightarrow> aret r
     | None \<Rightarrow>
         abind (lookup (n_name (attrs e))) (\<lambda>found.
         abind (analyze_name e) (\<lambda>(actual, e).
         case want of
           Some t \<Rightarrow> analyze_name_as R t found actual e
         | None \<Rightarrow>
             abind (get_ctx cx_preserve_ref_identity) (\<lambda>preserve.
               returned (if preserve then e else snd (implicit_ref_read_value e actual))))))"

definition shape_dim :: "an_rec \<Rightarrow> nat \<Rightarrow> node \<Rightarrow> unit \<Rightarrow> (unit \<times> node) an" where
  "shape_dim R i dim u =
     abind (infer_of R dim) (\<lambda>(t, dim).
     athen (require (t = ''INT'') dim (''shape dimensions must be INT, got '' @ t)) (aret ((), dim)))"

definition analyze_shape :: "an_rec \<Rightarrow> string option \<Rightarrow> node \<Rightarrow> (string \<times> node) an" where
  "analyze_shape R want e =
     athen (require (2 \<le> length (n_elements e)) e ''shape literal needs at least two dimensions'')
     (abind (at_items n_elements with_elements (shape_dim R) () e) (\<lambda>(_, e).
      athen (require (case want of None \<Rightarrow> True | Some t \<Rightarrow> is_shape_type t) e
               ''shape literal must be used with .fill(value)'')
        (a_type ''SHAPE'' e)))"

text \<open>An expression for its effect on the tree only.\<close>

definition infer_item :: "an_rec \<Rightarrow> nat \<Rightarrow> node \<Rightarrow> unit \<Rightarrow> (unit \<times> node) an" where
  "infer_item R i n u = abind (infer_of R n) (\<lambda>(_, n). aret ((), n))"

definition array_item :: "an_rec \<Rightarrow> string option \<Rightarrow> nat \<Rightarrow> node \<Rightarrow> string option \<Rightarrow> (string option \<times> node) an" where
  "array_item R expected_element i item element_type =
     (case element_type of
        None \<Rightarrow> abind (r_expr R item expected_element) (\<lambda>(t, item). aret (Some t, item))
      | Some et \<Rightarrow>
          abind (r_expr R item (Some (case expected_element of None \<Rightarrow> et | Some x \<Rightarrow> x))) (\<lambda>(t, item).
          athen (require (t = et) item (''array literal elements must all have type '' @ et @ '', got '' @ t))
            (aret (Some et, item))))"

definition analyze_array :: "an_rec \<Rightarrow> string option \<Rightarrow> node \<Rightarrow> (string \<times> node) an" where
  "analyze_array R want e =
     (if want = Some ''OBJ'' then
        abind (at_items n_elements with_elements (infer_item R) () e) (\<lambda>(_, e). a_type ''OBJ'' e)
      else
        let arr = (case want of None \<Rightarrow> None | Some t \<Rightarrow> if is_array_type t then Some t else None) in
        if n_elements e = [] then a_type (case arr of Some t \<Rightarrow> t | None \<Rightarrow> ''ARR[?]'') e
        else
          abind (at_items n_elements with_elements (array_item R (map_option array_elem_type arr)) None e) (\<lambda>(et, e).
          abind (the_ptr et) (\<lambda>et.
          athen (require (arr = None \<or> arr = Some (array_type et)) e
                   (''array literal must be '' @ shown arr @ '', got '' @ array_type et))
            (a_type (array_type et) e))))"

section \<open>MAP literals\<close>

definition open_entry :: "an_rec \<Rightarrow> nat \<Rightarrow> node \<Rightarrow> unit \<Rightarrow> (unit \<times> node) an" where
  "open_entry R i entry u =
     abind (at_target (infer_of R) entry) (\<lambda>(kt, entry).
     athen (require_at (kt = ''STR'') (n_target entry)
              (''dynamic object literal keys currently must be STR, got '' @ kt))
     (abind (at_value (infer_of R) entry) (\<lambda>(_, entry). aret ((), set_type ''NUL'' entry))))"

definition map_entry :: "an_rec \<Rightarrow> string option \<Rightarrow> string option \<Rightarrow> nat \<Rightarrow> node \<Rightarrow> string option \<Rightarrow> (string option \<times> node) an" where
  "map_entry R key_type value_type i entry inferred =
     abind (at_target (\<lambda>k. r_expr R k key_type) (set_type ''NUL'' entry)) (\<lambda>(kt, entry).
     athen (require_at (kt = ''STR'') (n_target entry)
              (''dynamic map literal keys currently must be STR, got '' @ kt))
     (abind (at_value (\<lambda>v. r_expr R v value_type) entry) (\<lambda>(vt, entry).
      case (value_type, inferred) of
        (Some want, _) \<Rightarrow>
          athen (require_at (vt = want) (n_value entry) (''map value must be '' @ want @ '', got '' @ vt))
            (aret (inferred, entry))
      | (None, None) \<Rightarrow> aret (Some vt, entry)
      | (None, Some it) \<Rightarrow>
          athen (require_at (it = vt) (n_value entry)
                   (''map literal values must all have type '' @ it @ '', got '' @ vt))
            (aret (inferred, entry)))))"

definition type_fields :: "type_table \<Rightarrow> string \<Rightarrow> node list" where
  "type_fields types t = (case type_find types t of None \<Rightarrow> [] | Some info \<Rightarrow> n_fields (ti_node info))"

definition missing_field_message :: "node option \<Rightarrow> string \<Rightarrow> string" where
  "missing_field_message field t =
     ''missing required field '' @ quoted (case Option.bind field (\<lambda>f. n_name (attrs f)) of None \<Rightarrow> [] | Some x \<Rightarrow> x)
     @ '' for '' @ t"

definition require_fields :: "string \<Rightarrow> (type_table \<Rightarrow> node \<Rightarrow> bool) \<Rightarrow> node \<Rightarrow> unit an" where
  "require_fields t given e =
     abind (reads (\<lambda>st. List.find (\<lambda>f. \<not> given (an_types st) f \<and> \<not> field_has_default (an_types st) f)
              (type_fields (an_types st) t))) (\<lambda>missing.
       require (missing = None) e (missing_field_message missing t))"

definition analyze_map_literal :: "an_rec \<Rightarrow> string option \<Rightarrow> node \<Rightarrow> (string \<times> node) an" where
  "analyze_map_literal R want e =
     (let map_want = (case want of None \<Rightarrow> None | Some t \<Rightarrow> if is_map_type t then Some t else None);
          key_type = Option.bind map_want map_key_type;
          value_type = Option.bind map_want map_value_type
      in
      if want = Some ''OBJ'' then
        abind (at_items n_fields with_fields (open_entry R) () e) (\<lambda>(_, e). a_type ''OBJ'' e)
      else
        abind (case want of None \<Rightarrow> aret False | Some t \<Rightarrow> is_struct t) (\<lambda>struct.
        if struct then
          (if n_fields e = [] then
             athen (require_fields (the want) (\<lambda>types f. False) e) (a_type (the want) e)
           else athen (mark_open (the want)) (analyze_open_map_literal R (the want) e))
        else
          athen (require (want = None \<or> map_want \<noteq> None) e
                   (''dynamic map literal cannot initialize '' @ shown want))
          (athen (require (key_type = None \<or> key_type = Some ''STR'') e
                   (''dynamic map literals currently require STR keys, got '' @ shown key_type))
          (abind (at_items n_fields with_fields (map_entry R key_type value_type) None e) (\<lambda>(inferred, e).
           case (case value_type of Some t \<Rightarrow> Some t | None \<Rightarrow> inferred) of
             None \<Rightarrow> adie e ''empty map literal needs an expected MAP type''
           | Some t \<Rightarrow> a_type (case want of Some w \<Rightarrow> w | None \<Rightarrow> map_type ''STR'' t) e)))))"

definition record_entry :: "an_rec \<Rightarrow> nat \<Rightarrow> node \<Rightarrow> unit \<Rightarrow> (unit \<times> node) an" where
  "record_entry R i entry u = abind (at_value (infer_of R) entry) (\<lambda>(_, entry). aret ((), set_type ''NUL'' entry))"

definition struct_entry :: "an_rec \<Rightarrow> string \<Rightarrow> nat \<Rightarrow> node \<Rightarrow> unit \<Rightarrow> (unit \<times> node) an" where
  "struct_entry R t i entry u =
     abind (the_ptr (n_name (attrs entry))) (\<lambda>name.
     abind (reads (\<lambda>st. struct_field (an_types st) t name)) (\<lambda>field.
     case field of
       None \<Rightarrow> adie entry (''type '' @ t @ '' has no field '' @ quoted name)
     | Some f \<Rightarrow>
         abind (the_ptr (declared_type (attrs f))) (\<lambda>want.
         abind (at_value (expect_of R (Some want)) entry) (\<lambda>(et, entry).
         abind (reads (\<lambda>st. type_assignable_to_expected (an_types st) (Some et) (Some want))) (\<lambda>ok.
         athen (require_at ok (n_value entry) (''field '' @ quoted name @ '' must be '' @ want @ '', got '' @ et))
           (aret ((), set_type ''NUL'' entry)))))))"

definition analyze_record_literal :: "an_rec \<Rightarrow> string option \<Rightarrow> node \<Rightarrow> (string \<times> node) an" where
  "analyze_record_literal R want e =
     (case want of
        None \<Rightarrow> abind (at_items n_fields with_fields (record_entry R) () e) (\<lambda>(_, e). a_type ''OPEN'' e)
      | Some t \<Rightarrow>
          if t = ''OBJ'' then
            abind (at_items n_fields with_fields (record_entry R) () e) (\<lambda>(_, e). a_type ''OBJ'' e)
          else
            abind (is_struct t) (\<lambda>struct.
            athen (require struct e ''fixed-map literal needs an expected fixed MAP type'')
            (abind (at_items n_fields with_fields (struct_entry R t) () e) (\<lambda>(_, e).
             athen (require_fields t (\<lambda>types f. n_value f \<noteq> None
                      \<or> n_name (attrs f) \<in> (\<lambda>entry. n_name (attrs entry)) ` set (n_fields e)) e)
               (a_type t e)))))"

section \<open>Access with a dot\<close>

text \<open>\<open>r.x\<close> reads through a reference: the object is wrapped in place.\<close>

definition deref_object :: "string \<Rightarrow> node \<Rightarrow> (string \<times> node) an" where
  "deref_object ot e =
     (if is_ref_type ot then at_object (\<lambda>obj. aret (wrap_expr_as_implicit_deref obj ot)) e else aret (ot, e))"

text \<open>The index or the element of a loop, by the name of its source or its \<open>as\<close> name.\<close>

definition loop_frame_index :: "symbol \<Rightarrow> string \<Rightarrow> node \<Rightarrow> (string \<times> node) an" where
  "loop_frame_index sy obj e =
     (case ctx_index sy of
        None \<Rightarrow> adie e (''loop context '' @ quoted obj @ '' has no .i'')
      | Some c \<Rightarrow> a_type ''INT'' (with_c_expr (Some c) e))"

definition loop_frame_element :: "symbol \<Rightarrow> string \<Rightarrow> string \<Rightarrow> node \<Rightarrow> (string \<times> node) an" where
  "loop_frame_element sy t obj e =
     (case ctx_element sy of
        None \<Rightarrow> adie e (''loop context '' @ quoted obj @ '' has no .e'')
      | Some c \<Rightarrow> a_type t (with_c_expr (Some c) e))"

definition loop_frame_access :: "symbol \<Rightarrow> string \<Rightarrow> string \<Rightarrow> string \<Rightarrow> node \<Rightarrow> (string \<times> node) an" where
  "loop_frame_access sy access_type obj name e =
     abind (get_ctx cx_loop_depth) (\<lambda>depth.
     athen (require (\<not> (0 < ctx_min_depth sy \<and> int depth < ctx_min_depth sy)) e
       (''qualified loop source '' @ quoted (obj @ ''.'' @ name) @
        '' is only needed inside nested loops; use '' @ name @ '' in the current loop''))
       (if name = ''i'' then loop_frame_index sy obj e
        else loop_frame_element sy
          (case ctx_element_type sy of Some t \<Rightarrow> t | None \<Rightarrow> loop_ctx_element_type access_type) obj e))"

definition loop_ctx_access :: "string \<Rightarrow> node \<Rightarrow> (string \<times> node) an" where
  "loop_ctx_access access_type e =
     abind (the_ptr (n_object e)) (\<lambda>obj.
     athen (require (n_kind obj = NK_NAME) e ''loop context access requires a named context'')
     (case n_name (attrs e) of
        None \<Rightarrow> adie e ''loop context supports .i and .e''
      | Some name \<Rightarrow>
          abind (resolve (n_name (attrs obj)) obj) (\<lambda>sy.
          if name = ''i'' then loop_frame_index sy (sym_name sy) e
          else if name = ''e'' then loop_frame_element sy (loop_ctx_element_type access_type) (sym_name sy) e
          else adie e (''loop context '' @ quoted (sym_name sy) @ '' has no field '' @ quoted name))))"

text \<open>\<open>e->target = e->index; e->index = NULL\<close>\<close>

definition index_to_target :: "node \<Rightarrow> node an" where
  "index_to_target e = abind (the_ptr (n_index e)) (\<lambda>i. aret (with_index None (set_target i e)))"

definition source_key_type :: "an_rec \<Rightarrow> node \<Rightarrow> string \<Rightarrow> string an" where
  "source_key_type R e key =
     abind (queries (\<lambda>st. expr_source_literal_key_type (r_fuel R) (an_scope st) (an_types st) (n_object e) key))
       (\<lambda>t. aret (case t of None \<Rightarrow> ''OBJ'' | Some t \<Rightarrow> t))"

definition analyze_dot_index :: "an_rec \<Rightarrow> string \<Rightarrow> node \<Rightarrow> (string \<times> node) an" where
  "analyze_dot_index R t e =
     abind (with_ctx_copy (\<lambda>c. c\<lparr>cx_preserve_ref_identity := False\<rparr>) (at_index (infer_of R) e)) (\<lambda>(it, e).
     abind (the_ptr (n_index e)) (\<lambda>index.
     abind (reads (\<lambda>st. is_open_struct_type (an_types st) t)) (\<lambda>open_struct.
     if t = ''OBJ'' then
       (if it = ''INT'' then a_type ''OBJ'' e
        else if it = ''STR'' then abind (index_to_target e) (a_type ''OBJ'')
        else adie index (''DYN computed access needs INT index or STR key, got '' @ it))
     else if open_struct \<or> is_open_data_type t then
       athen (require (it = ''STR'') index (''computed open MAP access needs STR key, got '' @ it))
       (abind (case (n_kind index = NK_STR, n_text (attrs index)) of
                 (True, Some key) \<Rightarrow> source_key_type R e key | _ \<Rightarrow> aret ''OBJ'') (\<lambda>st.
        abind (index_to_target e) (a_type st)))
     else if is_map_type t then
       abind (the_ptr (split_map_type t)) (\<lambda>(kt, vt).
       athen (require (it = kt) index (''computed map access needs '' @ kt @ '' key, got '' @ it))
         (abind (index_to_target e) (a_type vt)))
     else
       athen (require (is_array_type t \<or> t = ''STR'') e
         (''computed dot access requires ARR, STR, DYN, or runtime-key MAP, got '' @ t))
       (athen (require (it = ''INT'') index (''computed sequence access needs INT index, got '' @ it))
         (a_type (if t = ''STR'' then ''STR'' else array_elem_type t) e)))))"

definition require_local :: "string \<Rightarrow> string \<Rightarrow> string \<Rightarrow> symbol \<Rightarrow> node \<Rightarrow> unit an" where
  "require_local what want name sy e =
     require (sym_type sy = want) e (what @ '' needs '' @ want @ '' local '' @ quoted name @ '', got '' @ sym_type sy)"

text \<open>\<open>x.n\<close> where \<open>n\<close> is a local: an index into a sequence.\<close>

definition dot_sequence :: "string \<Rightarrow> string \<Rightarrow> string \<Rightarrow> symbol \<Rightarrow> node \<Rightarrow> (string \<times> node) an" where
  "dot_sequence what t name sy e =
     athen (require_local what ''INT'' name sy e)
       (a_type t (upd_attrs (\<lambda>a. a\<lparr>n_name := None\<rparr>) (set_index (name_key e name sy ''INT'') e)))"

definition ambiguous_key :: "an_rec \<Rightarrow> bool \<Rightarrow> string \<Rightarrow> node \<Rightarrow> unit an" where
  "ambiguous_key R checked name e =
     (if \<not> checked then aret ()
      else
        abind (queries (\<lambda>st. expr_has_source_literal_key (r_fuel R) (an_scope st) (an_types st) (n_object e) name))
          (\<lambda>known. require (\<not> known) e (''ambiguous dot access '' @ quoted (''.'' @ name)
             @ '': source-visible map key conflicts with local '' @ quoted name)))"

definition dot_open :: "an_rec \<Rightarrow> string \<Rightarrow> string \<Rightarrow> symbol option \<Rightarrow> node \<Rightarrow> (string \<times> node) an" where
  "dot_open R t name found e =
     (case found of
        Some sy \<Rightarrow>
          athen (ambiguous_key R (\<not> is_open_data_type t) name e)
          (athen (require_local ''computed open MAP access'' ''STR'' name sy e)
            (a_type ''OBJ'' (set_target (name_key e name sy ''STR'') e)))
      | None \<Rightarrow> abind (source_key_type R e name) (\<lambda>vt. a_type vt (set_target (str_key e name) e)))"

definition dot_object :: "string \<Rightarrow> symbol option \<Rightarrow> node \<Rightarrow> (string \<times> node) an" where
  "dot_object name found e =
     (case found of
        Some sy \<Rightarrow>
          athen (require_local ''computed object access'' ''STR'' name sy e)
            (a_type ''OBJ'' (set_target (name_key e name sy ''STR'') e))
      | None \<Rightarrow> a_type ''OBJ'' (set_target (str_key e name) e))"

definition dot_map :: "an_rec \<Rightarrow> string \<Rightarrow> string \<Rightarrow> symbol option \<Rightarrow> node \<Rightarrow> (string \<times> node) an" where
  "dot_map R t name found e =
     abind (the_ptr (split_map_type t)) (\<lambda>(kt, vt).
     case found of
       Some sy \<Rightarrow>
         athen (ambiguous_key R True name e)
         (athen (require_local ''computed map access'' kt name sy e)
           (a_type vt (set_target (name_key e name sy (sym_type sy)) e)))
     | None \<Rightarrow>
         athen (require (kt = ''STR'') e (''literal dot map access requires STR keys, got '' @ kt))
           (a_type vt (set_target (str_key e name) e)))"

definition analyze_dot_name :: "an_rec \<Rightarrow> string \<Rightarrow> string \<Rightarrow> node \<Rightarrow> (string \<times> node) an" where
  "analyze_dot_name R t name e =
     abind (reads (\<lambda>st. struct_field (an_types st) t name)) (\<lambda>field.
     case field of
       Some f \<Rightarrow> a_type_ptr (declared_type (attrs f)) e
     | None \<Rightarrow>
         abind (lookup (Some name)) (\<lambda>found.
         abind (reads (\<lambda>st. is_open_struct_type (an_types st) t)) (\<lambda>open_struct.
         if found \<noteq> None \<and> is_array_type t
           then dot_sequence ''computed array access'' (array_elem_type t) name (the found) e
         else if found \<noteq> None \<and> t = ''STR'' then dot_sequence ''computed STR access'' ''STR'' name (the found) e
         else if open_struct \<or> is_open_data_type t then dot_open R t name found e
         else if t = ''OBJ'' then dot_object name found e
         else if is_map_type t then dot_map R t name found e
         else adie e (''type '' @ t @ '' has no field '' @ quoted name))))"

definition loop_source :: "node \<Rightarrow> symbol option an" where
  "loop_source e =
     (case (n_object e, n_name (attrs e)) of
        (Some obj, Some name) \<Rightarrow>
          if n_kind obj = NK_NAME then
            abind (lookup (n_name (attrs obj))) (\<lambda>found.
              aret (case found of
                      None \<Rightarrow> None
                    | Some sy \<Rightarrow> if (ctx_index sy \<noteq> None \<or> ctx_element sy \<noteq> None) \<and> (name = ''i'' \<or> name = ''e'')
                                then Some sy else None))
          else aret None
      | _ \<Rightarrow> aret None)"

definition analyze_dot :: "an_rec \<Rightarrow> node \<Rightarrow> (string \<times> node) an" where
  "analyze_dot R e =
     abind (at_object (infer_of R) e) (\<lambda>(ot, e).
     abind (deref_object ot e) (\<lambda>(t, e).
     abind (loop_source e) (\<lambda>source.
     case (source, n_name (attrs e)) of
       (Some sy, Some name) \<Rightarrow> loop_frame_access sy t (sym_name sy) name e
     | _ \<Rightarrow>
         if is_loop_ctx_type t then loop_ctx_access t e
         else if n_index e \<noteq> None then analyze_dot_index R t e
         else (case n_name (attrs e) of
                 Some name \<Rightarrow> analyze_dot_name R t name e
               | None \<Rightarrow> adie e ''invalid dot access''))))"

section \<open>Operators\<close>

definition read_value :: "string \<Rightarrow> node \<Rightarrow> (string \<times> node) an" where
  "read_value t n = aret (implicit_ref_read_value n t)"

definition mutating_method_message :: "node \<Rightarrow> string" where
  "mutating_method_message call =
     (let name = (case n_name (attrs call) of None \<Rightarrow> [] | Some x \<Rightarrow> x) in
      if name = ''agg''
      then ''mutation operator does not apply to .agg(); use .agg() as a read-only expression''
      else ''*.'' @ name @ ''() is statement-only; use copy-producing .'' @ name @ ''() when you need a value'')"

text \<open>\<open>REF\<close> of a named MAP value that no local shadows, or of a target.\<close>

definition named_value_target :: "node \<Rightarrow> type_info option an" where
  "named_value_target x =
     (if n_kind x = NK_NAME then
        abind (lookup (n_name (attrs x))) (\<lambda>found.
          if found = None then type_of_name (n_name (attrs x)) else aret None)
      else aret None)"

definition analyze_ref :: "an_rec \<Rightarrow> node \<Rightarrow> (string \<times> node) an" where
  "analyze_ref R e =
     abind (the_ptr (n_expr e)) (\<lambda>x.
     abind (named_value_target x) (\<lambda>info.
     case info of
       Some info \<Rightarrow>
         abind (reads (\<lambda>st. type_has_complete_named_value (an_types st) (Some info))) (\<lambda>ok.
         athen (require ok x (''MAP '' @ quoted (ti_name info) @ '' has no complete named value''))
         (abind (the_ptr (named_value_type info)) (\<lambda>t.
            a_type (ref_type t)
              (set_expr (set_type t (with_c_expr (Some (named_value_storage_name (ti_name info))) x)) e))))
     | None \<Rightarrow> abind (at_expr (r_lvalue R) e) (\<lambda>(t, e). a_type (ref_type t) e)))"

definition analyze_star :: "an_rec \<Rightarrow> node \<Rightarrow> (string \<times> node) an" where
  "analyze_star R e =
     athen (require (implicit_deref (attrs e) \<or> mutation_target (attrs e)) e
       (''mutation operator '' @ quoted ''*'' @ '' is statement-only; read REF values without '' @ quoted ''*''))
     (abind (at_expr (if mutation_target (attrs e) then r_lvalue R else infer_of R) e) (\<lambda>(t, e).
      athen (require (is_ref_type t) e (''dereference needs REF, got '' @ t))
        (a_type (ref_target_type t) e)))"

definition analyze_hold :: "an_rec \<Rightarrow> node \<Rightarrow> (string \<times> node) an" where
  "analyze_hold R e =
     abind (at_expr (infer_of R) e) (\<lambda>(t, e).
     if is_task_type t then a_type (task_result_type t) e
     else if is_array_type t then
       athen (require (is_task_type (array_elem_type t)) e (''hold array expects ARR[TSK[T]], got '' @ t))
         (a_type (array_type (task_result_type (array_elem_type t))) e)
     else adie e (''hold expects TSK[T] or ARR[TSK[T]], got '' @ t))"

definition analyze_sign :: "an_rec \<Rightarrow> string \<Rightarrow> node \<Rightarrow> (string \<times> node) an" where
  "analyze_sign R op e =
     abind (at_expr (infer_of R) e) (\<lambda>(t, e).
     abind (if op = ''-'' \<or> op = ''!'' then at_expr (read_value t) e else aret (t, e)) (\<lambda>(t, e).
     if op = ''-'' \<and> t = ''INT'' then a_type ''INT'' e
     else if op = ''-'' \<and> t = ''FLT'' then a_type ''FLT'' e
     else if op = ''!'' \<and> t = ''BOL'' then a_type ''BOL'' e
     else adie e (''operator '' @ quoted op @ '' cannot be applied to '' @ t)))"

definition analyze_unary :: "an_rec \<Rightarrow> node \<Rightarrow> (string \<times> node) an" where
  "analyze_unary R e =
     abind (the_ptr (n_op (attrs e))) (\<lambda>op.
     if is_mutating_collection_method_expr e then
       abind (the_ptr (n_expr e)) (\<lambda>call.
         adie (if n_name (attrs call) = Some ''agg'' then call else e) (mutating_method_message call))
     else if op = ''REF'' then analyze_ref R e
     else if op = ''*'' then analyze_star R e
     else if op = ''hold'' then analyze_hold R e
     else analyze_sign R op e)"

definition analyze_else :: "an_rec \<Rightarrow> node \<Rightarrow> (string \<times> node) an" where
  "analyze_else R e =
     abind (at_left (infer_of R) e) (\<lambda>(left, e).
     athen (require_at (left \<noteq> ''NUL'') (n_left e) ''else left side cannot be NUL'')
     (if left = ''OBJ'' then
        abind (at_right (infer_of R) e) (\<lambda>(right, e).
        athen (require_at (right \<noteq> ''NUL'' \<and> right \<noteq> ''OBJ'') (n_right e)
                 (''dynamic else fallback needs a concrete non-OBJ type, got '' @ right))
          (a_type right e))
      else
        abind (at_right (expect_of R (Some left)) e) (\<lambda>(right, e).
        abind (reads (\<lambda>st. type_conforms_to_expected (Some right) (Some left)
                 \<or> type_assignable_to_expected (an_types st) (Some right) (Some left))) (\<lambda>ok.
        athen (require_at ok (n_right e) (''else fallback must be '' @ left @ '', got '' @ right))
          (a_type left e)))))"

text \<open>
  The subject of an \<open>IS\<close> check is one node under every comparison of the chain: what the
  analysis stores in it under one comparison is there when the next one is analyzed. The tree
  repeats the subject, and equal subjects, which carry their place in the source, are that node.
\<close>

definition is_comparison :: "node \<Rightarrow> bool" where
  "is_comparison n \<longleftrightarrow> n_kind n = NK_BINARY \<and> n_op (attrs n) \<in> Some ` {''=='', ''!='', ''<'', ''<='', ''>'', ''>=''}"

definition is_connective :: "node \<Rightarrow> bool" where
  "is_connective n \<longleftrightarrow> n_kind n = NK_BINARY \<and> n_op (attrs n) \<in> Some ` {''&&'', ''||''}"

definition last_subject :: "node \<Rightarrow> node option" where
  "last_subject n =
     (if is_comparison n then n_left n
      else if is_connective n then
        (case n_right n of None \<Rightarrow> None | Some r \<Rightarrow> if is_comparison r then n_left r else None)
      else None)"

definition shares_subject :: "node \<Rightarrow> bool" where
  "shares_subject e \<longleftrightarrow>
     is_connective e \<and>
     (case (n_left e, n_right e) of
        (Some l, Some r) \<Rightarrow> is_comparison r \<and> n_left r \<noteq> None \<and> last_subject l = n_left r
      | _ \<Rightarrow> False)"

text \<open>The chain with another subject; the comparisons hang off the left spine.\<close>

function with_subject :: "node \<Rightarrow> node \<Rightarrow> node" where
  "with_subject x n =
     (if is_connective n then
        (case (n_left n, n_right n) of
           (Some l, Some r) \<Rightarrow> set_left (with_subject x l) (set_right (set_left x r) n)
         | _ \<Rightarrow> n)
      else set_left x n)"
  by pat_completeness auto

termination
  by (relation "measure (\<lambda>(x, n). size n)") (auto intro: size_child)

declare with_subject.simps [simp del]

definition subject_to_right :: "node \<Rightarrow> node" where
  "subject_to_right e =
     (case (Option.bind (n_left e) last_subject, n_right e) of
        (Some x, Some r) \<Rightarrow> set_right (set_left x r) e | _ \<Rightarrow> e)"

definition subject_to_left :: "node \<Rightarrow> node" where
  "subject_to_left e =
     (case (n_left e, Option.bind (n_right e) n_left) of
        (Some l, Some x) \<Rightarrow> set_left (with_subject x l) e | _ \<Rightarrow> e)"

definition analyze_logic :: "an_rec \<Rightarrow> string \<Rightarrow> node \<Rightarrow> (string \<times> node) an" where
  "analyze_logic R op e =
     (let shared = shares_subject e in
      abind (at_left (infer_of R) e) (\<lambda>(left, e).
      abind (at_right (infer_of R) (if shared then subject_to_right e else e)) (\<lambda>(right, e).
      let e = (if shared then subject_to_left e else e) in
      abind (at_left (read_value left) e) (\<lambda>(left, e).
      abind (at_right (read_value right) e) (\<lambda>(right, e).
      athen (require (left = ''BOL'' \<and> right = ''BOL'') e
        (''operator '' @ quoted op @ '' requires BOL operands, got '' @ left @ '' and '' @ right))
        (a_type ''BOL'' e))))))"

definition analyze_numeric :: "string \<Rightarrow> string \<Rightarrow> string \<Rightarrow> node \<Rightarrow> (string \<times> node) an" where
  "analyze_numeric op left right e =
     abind (at_left (read_value left) e) (\<lambda>(left, e).
     abind (at_right (read_value right) e) (\<lambda>(right, e).
     if op = ''%'' then
       athen (require (left = ''INT'' \<and> right = ''INT'') e
         (''operator '' @ quoted ''%'' @ '' requires INT operands, got '' @ left @ '' and '' @ right))
         (a_type ''INT'' e)
     else
       (case numeric_binary_type (Some left) (Some right) of
          Some t \<Rightarrow> a_type t e
        | None \<Rightarrow> adie e (''operator '' @ quoted op @ '' requires numeric operands, got '' @ left @ '' and '' @ right))))"

definition analyze_order :: "string \<Rightarrow> string \<Rightarrow> string \<Rightarrow> node \<Rightarrow> (string \<times> node) an" where
  "analyze_order op left right e =
     abind (at_left (read_value left) e) (\<lambda>(left, e).
     abind (at_right (read_value right) e) (\<lambda>(right, e).
     athen (require (is_numeric_type (Some left) \<and> is_numeric_type (Some right)) e
       (''operator '' @ quoted op @ '' requires numeric operands, got '' @ left @ '' and '' @ right))
       (a_type ''BOL'' e)))"

definition equal_types_ok :: "string \<Rightarrow> string \<Rightarrow> bool" where
  "equal_types_ok left right \<longleftrightarrow>
     left = right \<and> (is_scalar_type left \<or> is_ref_type left)
     \<or> is_numeric_type (Some left) \<and> is_numeric_type (Some right)"

definition analyze_equality :: "string \<Rightarrow> string \<Rightarrow> string \<Rightarrow> node \<Rightarrow> (string \<times> node) an" where
  "analyze_equality op left right e =
     (if left = ''NUL'' \<and> is_ref_type right \<or> is_ref_type left \<and> right = ''NUL'' then a_type ''BOL'' e
      else
        let identity = is_ref_type left \<and> is_ref_type right;
            rd = (\<lambda>t n. if identity then aret (t, n) else read_value t n)
        in
        abind (at_left (rd left) e) (\<lambda>(left, e).
        abind (at_right (rd right) e) (\<lambda>(right, e).
        athen (require (equal_types_ok left right) e
          (''operator '' @ quoted op @ '' requires matching INT, FLT, BOL, STR, or REF operands''))
          (a_type ''BOL'' e))))"

text \<open>An operand; for \<open>==\<close> and \<open>!=\<close> a reference may be kept as one.\<close>

definition operand :: "an_rec \<Rightarrow> bool \<Rightarrow> node \<Rightarrow> (string \<times> node) an" where
  "operand R equality n =
     abind (reads (\<lambda>st. equality \<and> equality_operand_preserves_ref_identity (an_scope st) n)) (\<lambda>preserves.
       if preserves then with_ctx_copy (\<lambda>c. c\<lparr>cx_preserve_ref_identity := True\<rparr>) (infer_of R n)
       else infer_of R n)"

definition analyze_plus_collection :: "an_rec \<Rightarrow> string \<Rightarrow> node \<Rightarrow> (string \<times> node) an" where
  "analyze_plus_collection R left e =
     abind (the_ptr (n_left e)) (\<lambda>l. abind (the_ptr (n_right e)) (\<lambda>r.
     abind (analyze_collection_plus_right R e left l r) (\<lambda>(t, l, r). a_type t (set_right r (set_left l e)))))"

definition analyze_plus :: "an_rec \<Rightarrow> string \<Rightarrow> node \<Rightarrow> (string \<times> node) an" where
  "analyze_plus R left e =
     abind (at_left (read_value left) e) (\<lambda>(left, e).
     abind (reads (\<lambda>st. is_collection_join_type (an_types st) left)) (\<lambda>joins.
     if joins then analyze_plus_collection R left e
     else
       abind (at_right (\<lambda>r. abind (infer_of R r) (\<lambda>(t, r). read_value t r)) e) (\<lambda>(right, e).
       if left = ''STR'' \<and> right = ''STR'' then a_type ''STR'' e else analyze_numeric ''+'' left right e)))"

definition analyze_binary :: "an_rec \<Rightarrow> node \<Rightarrow> (string \<times> node) an" where
  "analyze_binary R e =
     abind (the_ptr (n_op (attrs e))) (\<lambda>op.
     athen (require (\<not> is_mutating_collection_plus_expr e) e
       (''mutating '' @ quoted ''+'' @ '' is statement-only; use it as '' @ quoted ''*target + value''))
     (if op = ''else'' then analyze_else R e
      else if op = ''&&'' \<or> op = ''||'' then analyze_logic R op e
      else
        let equality = (op = ''=='' \<or> op = ''!='') in
        abind (at_left (operand R equality) e) (\<lambda>(left, e).
        if op = ''+'' then analyze_plus R left e
        else
          abind (at_right (operand R equality) e) (\<lambda>(right, e).
          if op \<in> {''-'', ''*'', ''/'', ''%''} then analyze_numeric op left right e
          else if op \<in> {''<'', ''<='', ''>'', ''>=''} then analyze_order op left right e
          else if equality then analyze_equality op left right e
          else adie e (''unknown binary operator '' @ quoted op)))))"

section \<open>Decoding and conditional expressions\<close>

definition analyze_decode :: "an_rec \<Rightarrow> node \<Rightarrow> (string \<times> node) an" where
  "analyze_decode R e =
     abind (at_expr (infer_of R) e) (\<lambda>(t, e).
     athen (require_at (is_open_data_type t \<or> t = ''OBJ'') (n_expr e) (''decode source must be JSON/DYN data, got '' @ t))
     (abind (the_ptr (declared_type (attrs e))) (\<lambda>raw.
      abind (on_types (\<lambda>types. resolve_type types raw e)) (\<lambda>want.
      abind (is_struct want) (\<lambda>struct.
      athen (require (struct \<or> is_map_type want) e
        (''JSON decode target must be a named MAP value type, got '' @ want))
        (a_type want (with_type want e)))))))"

definition analyze_if_expr :: "an_rec \<Rightarrow> node \<Rightarrow> (string \<times> node) an" where
  "analyze_if_expr R e =
     abind (at_value (infer_of R) e) (\<lambda>(vt, e).
     abind (at_condition (infer_of R) e) (\<lambda>r.
     abind (needs_bool n_condition ''conditional expression if'' r) (\<lambda>e.
     if n_right e = None then a_type vt e
     else
       abind (at_right (infer_of R) e) (\<lambda>(et, e).
       if vt = et then a_type vt e
       else
         (case numeric_binary_type (Some vt) (Some et) of
            Some t \<Rightarrow> a_type t e
          | None \<Rightarrow> abind (the_ptr (n_right e)) (\<lambda>r. adie r
              (''if expression branches must produce the same type, got '' @ vt @ '' and '' @ et)))))))"

section \<open>Expressions\<close>

definition analyze_expr_expected :: "an_rec \<Rightarrow> node \<Rightarrow> string option \<Rightarrow> (string \<times> node) an" where
  "analyze_expr_expected R e want =
     (case n_kind e of
        NK_INT \<Rightarrow> a_type (if want = Some ''FLT'' then ''FLT'' else ''INT'') e
      | NK_FLT \<Rightarrow> a_type ''FLT'' e
      | NK_BOL \<Rightarrow> a_type ''BOL'' e
      | NK_STR \<Rightarrow> a_type ''STR'' e
      | NK_NIL \<Rightarrow> a_type ''NUL'' e
      | NK_INIT \<Rightarrow> adie e ''INIT is only allowed inside MAP definitions''
      | NK_NAME \<Rightarrow> analyze_name_expr R want e
      | NK_SHAPE \<Rightarrow> analyze_shape R want e
      | NK_ARRAY \<Rightarrow> analyze_array R want e
      | NK_MAP_LITERAL \<Rightarrow> analyze_map_literal R want e
      | NK_RECORD_LITERAL \<Rightarrow> analyze_record_literal R want e
      | NK_DOT \<Rightarrow> analyze_dot R e
      | NK_UNARY \<Rightarrow> analyze_unary R e
      | NK_BINARY \<Rightarrow> analyze_binary R e
      | NK_CALL \<Rightarrow> analyze_call R e
      | NK_METHOD_CALL \<Rightarrow> analyze_method_call R e
      | NK_DECODE \<Rightarrow> analyze_decode R e
      | NK_IF_EXPR \<Rightarrow> analyze_if_expr R e
      | _ \<Rightarrow> adie e (''internal analyzer: bad expression '' @ node_kind_name (n_kind e)))"

end
