(* ===== verification/AnalyzeStmt.thy ===== *)
theory AnalyzeStmt
  imports AnalyzeExpr
begin

text \<open>
  Statements and blocks (\<open>src/caster/analyze/statements.c\<close>). A statement function returns the
  statement as the code leaves it; its checked type is \<open>NUL\<close> except for \<open>ret\<close>.
\<close>

definition nul :: "node \<Rightarrow> node an" where
  "nul st = aret (set_type ''NUL'' st)"

section \<open>Local style\<close>

definition is_native_module_name :: "string \<Rightarrow> bool" where
  "is_native_module_name name \<longleftrightarrow>
     name \<in> {''BUF'', ''FS'', ''IO'', ''OS'', ''PATH'', ''PROC'', ''REQ'', ''SQL'', ''TEST'', ''WEB''}"

definition is_native_qualified_fn_name :: "string \<Rightarrow> bool" where
  "is_native_qualified_fn_name name \<longleftrightarrow>
     CHR ''_'' \<in> set name \<and> is_native_module_name (takeWhile (\<lambda>c. c \<noteq> CHR ''_'') name)"

definition known_struct :: "string \<Rightarrow> bool an" where
  "known_struct name =
     abind (type_of_name (Some name)) (\<lambda>info. aret (opt_holds (\<lambda>i. ti_kind i = TYPEINFO_STRUCT) info))"

definition expr_contains_required_typed_call :: "node option \<Rightarrow> bool an" where
  "expr_contains_required_typed_call expr =
     (case expr of
        None \<Rightarrow> aret False
      | Some e \<Rightarrow>
          if n_kind e = NK_CALL then
            (case n_callee e of
               None \<Rightarrow> aret False
             | Some callee \<Rightarrow>
                 if n_kind callee \<noteq> NK_NAME then aret False
                 else
                   abind (the_ptr (n_name (attrs callee))) (\<lambda>name.
                   abind (known_struct name) (\<lambda>struct.
                   abind (fn_of_name (Some name)) (\<lambda>fn.
                     aret (struct \<or> fn \<noteq> None \<and> \<not> is_native_qualified_fn_name name)))))
          else if n_kind e = NK_METHOD_CALL then
            (case (method_object_name e, n_name (attrs e)) of
               (Some obj, Some name) \<Rightarrow>
                 abind (known_struct (obj @ ''_'' @ name)) (\<lambda>struct.
                 abind (fn_of_name (Some (obj @ ''_'' @ name))) (\<lambda>fn.
                   aret (struct \<or> fn \<noteq> None \<and> \<not> is_native_module_name obj)))
             | _ \<Rightarrow> aret False)
          else aret False)"

section \<open>Releasing a value\<close>

definition set_ownership_of :: "ownership_state \<Rightarrow> string \<Rightarrow> unit an" where
  "set_ownership_of own name = upd_scope (scope_update (set_ownership own) name)"

definition analyze_free_stmt :: "node \<Rightarrow> node an" where
  "analyze_free_stmt st =
     athen (require (opt_holds (\<lambda>e. n_kind e = NK_NAME) (n_expr st)) st
              ''FREE requires a plain owned local name'')
     (abind (the_ptr (n_expr st)) (\<lambda>e.
      abind (the_ptr (n_name (attrs e))) (\<lambda>name.
      abind (lookup (Some name)) (\<lambda>found.
      case found of
        None \<Rightarrow>
          abind (type_of_name (Some name)) (\<lambda>info.
            adie st (if info \<noteq> None then ''FREE cannot release top-level named MAP value '' @ quoted name
                     else ''unknown name '' @ quoted name))
      | Some sy \<Rightarrow>
          athen (require (\<not> is_param sy) st (''FREE cannot release borrowed parameter '' @ quoted name))
         (athen (require (\<not> is_global sy) st (''FREE cannot release global value '' @ quoted name))
         (abind (reads (\<lambda>s. type_is_manual_freeable (an_types s) (Some (sym_type sy)))) (\<lambda>freeable.
          athen (require freeable st (''FREE requires a heap-backed owned value, got '' @ sym_type sy))
         (athen (require (ownership sy \<noteq> OWNERSHIP_FREED) st (''value '' @ quoted name @ '' is already freed''))
         (athen (require (ownership sy = OWNERSHIP_OWNED) st
                   (''FREE requires a provably owned local value; '' @ quoted name
                    @ '' is borrowed or has unknown ownership''))
         (athen (set_ownership_of OWNERSHIP_FREED name)
            (nul (set_expr (set_type (sym_type sy) e) st))))))))))))"

section \<open>Destructuring\<close>

definition destructure_struct_info :: "node \<Rightarrow> string \<Rightarrow> type_info an" where
  "destructure_struct_info st source_type =
     abind (type_of_name (Some source_type)) (\<lambda>info.
       case info of
         Some i \<Rightarrow>
           if ti_kind i = TYPEINFO_STRUCT \<and> \<not> open_runtime i then aret i
           else athen (require_at False (n_value st)
                  (''destructure expects a fixed MAP result, got '' @ source_type)) (afail NullDeref)
       | None \<Rightarrow> athen (require_at False (n_value st)
                  (''destructure expects a fixed MAP result, got '' @ source_type)) (afail NullDeref))"

definition destructure_uses_property_fields :: "node \<Rightarrow> bool an" where
  "destructure_uses_property_fields st =
     (case n_fields st of
        [] \<Rightarrow> aret False
      | first # rest \<Rightarrow>
          (let property = (n_text (attrs first) \<noteq> None) in
           case List.find (\<lambda>f. (n_text (attrs f) \<noteq> None) \<noteq> property) rest of
             None \<Rightarrow> aret property
           | Some f \<Rightarrow> adie f ''destructure pattern cannot mix property fields and positional fields''))"

definition assign_ownership :: "node option \<Rightarrow> string \<Rightarrow> unit an" where
  "assign_ownership v name =
     modifies (\<lambda>st. st\<lparr>an_scope := symbol_set_assignment_ownership v (an_types st) name (an_scope st)\<rparr>)"

definition own_if_freeable :: "string \<Rightarrow> unit an" where
  "own_if_freeable name =
     modifies (\<lambda>st. st\<lparr>an_scope := symbol_mark_owned_if_freeable (an_types st) name (an_scope st)\<rparr>)"

definition destructure_binding ::
  "bool \<Rightarrow> string \<Rightarrow> type_info \<Rightarrow> nat \<Rightarrow> node \<Rightarrow> unit \<Rightarrow> (unit \<times> node) an" where
  "destructure_binding property source_type info i binding u =
     abind (the_ptr (declared_type (attrs binding))) (\<lambda>raw.
     abind (on_types (\<lambda>types. resolve_type types raw binding)) (\<lambda>declared.
     let binding = with_type declared binding in
     abind (if property then
              abind (the_ptr (n_text (attrs binding))) (\<lambda>f.
                reads (\<lambda>st. struct_field (an_types st) source_type f))
            else aret (item_at (n_fields (ti_node info)) i)) (\<lambda>field.
     athen (require (field \<noteq> None) binding (''type '' @ source_type @ '' has no field ''
       @ quoted (case n_text (attrs binding) of Some f \<Rightarrow> f | None \<Rightarrow> ''<positional>'')))
    (abind (the_ptr field) (\<lambda>field.
     abind (the_ptr (n_name (attrs field))) (\<lambda>field_name.
     abind (the_ptr (declared_type (attrs field))) (\<lambda>field_type.
     abind (the_ptr (n_name (attrs binding))) (\<lambda>name.
     let binding = (if n_text (attrs binding) = None then with_text field_name binding else binding) in
     abind (reads (\<lambda>st. type_assignable_to_expected (an_types st) (Some field_type) (Some declared))) (\<lambda>ok.
     athen (require ok binding (''destructure local '' @ quoted name @ '' must be '' @ declared @ '', got ''
              @ field_type @ '' from '' @ source_type @ ''.'' @ field_name))
    (athen (on_scope (\<lambda>s. scope_define s name declared None binding))
    (athen (if is_ref_type declared then set_ownership_of OWNERSHIP_BORROWED name else own_if_freeable name)
       (aret ((), set_type declared binding)))))))))))))"

definition analyze_destructure_stmt :: "an_rec \<Rightarrow> node \<Rightarrow> node an" where
  "analyze_destructure_stmt R st =
     athen (require (n_fields st \<noteq> []) st ''destructure pattern cannot be empty'')
     (abind (at_value (infer_of R) st) (\<lambda>(source_type, st).
      abind (destructure_struct_info st source_type) (\<lambda>info.
      let st = with_type source_type st; want = length (n_fields (ti_node info)); got = length (n_fields st) in
      abind (destructure_uses_property_fields st) (\<lambda>property.
      athen (require (property \<or> got = want) st
        (''positional destructure of '' @ source_type @ '' expects '' @ show_nat want @ '' bindings, got ''
         @ show_nat got))
     (abind (at_items n_fields with_fields (destructure_binding property source_type info) () st) (\<lambda>(_, st).
        nul st))))))"

section \<open>Declarations and assignments\<close>

definition analyze_var :: "an_rec \<Rightarrow> node \<Rightarrow> node an" where
  "analyze_var R st =
     abind (the_ptr (declared_type (attrs st))) (\<lambda>raw.
     abind (on_types (\<lambda>types. resolve_type types raw st)) (\<lambda>declared.
     let st = with_type declared st in
     abind (the_ptr (n_name (attrs st))) (\<lambda>name.
     abind (get_ctx cx_enforce_local_style) (\<lambda>enforce.
     abind (expr_contains_required_typed_call (n_value st)) (\<lambda>typed_call.
     athen (require (\<not> (enforce \<and> (n_value st = None \<or> \<not> typed_call))) st
       (''explicit local type for '' @ quoted name
        @ '' is only allowed when initializing from a user-written function call or MAP constructor''))
    (abind (if n_value st = None then aret st
            else
              abind (at_value (expect_of R (Some declared)) st) (\<lambda>(vt, st).
              abind (reads (\<lambda>s. type_assignable_to_expected (an_types s) (Some vt) (Some declared))) (\<lambda>ok.
              athen (require_at ok (n_value st) (''cannot initialize '' @ name @ '' as '' @ declared @ '' with '' @ vt))
                (aret st)))) (\<lambda>st.
     athen (on_scope (\<lambda>s. scope_define s name declared None st))
    (athen (assign_ownership (n_value st) name)
    (athen (if n_value st \<noteq> None \<and> is_map_type declared then set_literal_keys R (n_value st) name else aret ())
      (nul st))))))))))"

definition keeps_literal_keys :: "string \<Rightarrow> bool an" where
  "keeps_literal_keys t =
     abind (is_struct t) (\<lambda>struct. aret (is_map_type t \<or> struct \<or> is_open_data_type t))"

text \<open>\<open>x = value\<close> where \<open>x\<close> is not known yet declares \<open>x\<close>.\<close>

definition analyze_assign_new :: "an_rec \<Rightarrow> string \<Rightarrow> node \<Rightarrow> node an" where
  "analyze_assign_new R name st =
     abind (at_value (infer_of R) st) (\<lambda>(vt, st).
     abind (get_ctx cx_enforce_local_style) (\<lambda>enforce.
     abind (expr_contains_required_typed_call (n_value st)) (\<lambda>typed_call.
     athen (require (\<not> (enforce \<and> typed_call)) st
       (''local '' @ quoted name
        @ '' starts from a user-written function call or MAP constructor; declare the local type explicitly''))
    (athen (require_at (vt \<noteq> ''NUL'') (n_value st) ''cannot infer a local variable from NUL'')
    (let st = upd_attrs (\<lambda>a. a\<lparr>inferred_decl := True, n_name := Some name, declared_type := Some vt\<rparr>) st in
     athen (on_scope (\<lambda>s. scope_define s name vt None st))
    (athen (assign_ownership (n_value st) name)
    (abind (keeps_literal_keys vt) (\<lambda>keys.
     athen (if keys then set_literal_keys R (n_value st) name else aret ())
       (nul st)))))))))"

definition escape_value :: "string \<Rightarrow> node \<Rightarrow> (bool \<times> node) an" where
  "escape_value site st =
     abind (queries (\<lambda>s. mark_ref_escape_expr (n_value st) (an_scope s) site)) (\<lambda>(owned, v).
       aret (owned, case v of None \<Rightarrow> st | Some v \<Rightarrow> set_value v st))"

definition analyze_assign_existing :: "an_rec \<Rightarrow> symbol \<Rightarrow> node \<Rightarrow> node an" where
  "analyze_assign_existing R existing st =
     (let name = sym_name existing in
      abind (at_target (\<lambda>t.
               if ownership existing \<noteq> OWNERSHIP_FREED then analyze_name t
               else a_type (sym_type existing) (copy_c_expr existing t)) st) (\<lambda>(_, st).
      abind (at_value (expect_of R (Some (sym_type existing))) st) (\<lambda>(vt, st).
      abind (lookup (Some name)) (\<lambda>found. abind (the_ptr found) (\<lambda>existing.
      let et = sym_type existing in
      abind (at_target (\<lambda>t. a_type et t) st) (\<lambda>(_, st).
      if is_unknown_array_type et \<and> is_array_type vt \<and> \<not> is_unknown_array_type vt then
        athen (refine_named vt name)
          (abind (at_target (\<lambda>t. a_type vt t) st) (\<lambda>(_, st). nul st))
      else
        abind (reads (\<lambda>s. type_assignable_to_expected (an_types s) (Some vt) (Some et))) (\<lambda>ok.
        athen (require_at ok (n_value st) (''cannot assign '' @ vt @ '' to '' @ et @ '' target''))
       (abind (if is_global existing \<and> is_ref_type et then escape_value ''global assignment'' st
               else aret (False, st)) (\<lambda>(_, st).
        abind (keeps_literal_keys et) (\<lambda>keys.
        athen (if keys then set_literal_keys R (n_value st) name else aret ())
       (athen (assign_ownership (n_value st) name)
          (nul st))))))))))))"

text \<open>The target of \<open>+=\<close> and \<open>-=\<close> owns its new value, when it is a name.\<close>

definition own_target :: "node \<Rightarrow> unit an" where
  "own_target st =
     (case n_target st of
        None \<Rightarrow> afail NullDeref
      | Some t \<Rightarrow> if n_kind t = NK_NAME then mark_owned t else aret ())"

definition analyze_increment :: "string \<Rightarrow> node \<Rightarrow> node an" where
  "analyze_increment tt st =
     athen (require_at (tt = ''INT'') (n_target st) (''++ requires INT target, got '' @ tt)) (nul st)"

text \<open>An update of a number by a value of a type that \<open>ok\<close> accepts.\<close>

definition analyze_number_update :: "an_rec \<Rightarrow> (string \<Rightarrow> bool) \<Rightarrow> string \<Rightarrow> node \<Rightarrow> node an" where
  "analyze_number_update R ok msg st =
     abind (at_value (infer_of R) st) (\<lambda>(vt, st). athen (require (ok vt) st msg) (nul st))"

definition analyze_add_assign :: "an_rec \<Rightarrow> string \<Rightarrow> node \<Rightarrow> node an" where
  "analyze_add_assign R tt st =
     (if tt = ''INT'' then analyze_number_update R (\<lambda>t. t = ''INT'') ''+= on INT requires INT value'' st
      else if tt = ''FLT''
        then analyze_number_update R (\<lambda>t. is_numeric_type (Some t)) ''+= on FLT requires numeric value'' st
      else if tt = ''STR'' then
        abind (at_value (infer_of R) st) (\<lambda>(vt, st).
        athen (require (vt = ''STR'') st ''+= on STR requires STR value'')
          (athen (own_target st) (nul st)))
      else
        abind (reads (\<lambda>s. is_collection_join_type (an_types s) tt)) (\<lambda>joins.
        athen (require (\<not> joins) st ''+= only supports INT, FLT, and STR targets'')
       (abind (at_value (analyze_join_right R st tt) st) (\<lambda>(rt, st).
        abind (the_ptr (n_target st)) (\<lambda>tgt.
        abind (refine_assignment_target rt tgt) (\<lambda>tgt.
        let st = set_target tgt st in
        abind (is_struct rt) (\<lambda>struct.
        athen (if n_kind tgt = NK_NAME \<and> (is_map_type rt \<or> struct)
               then abind (resolve (n_name (attrs tgt)) tgt) (\<lambda>sy. add_literal_keys R (n_value st) (sym_name sy))
               else aret ())
       (athen (own_target st)
       (athen (require (is_unknown_array_type tt \<or> tt = rt) st (''+= cannot assign '' @ rt @ '' to '' @ tt))
          (nul st))))))))))"

definition forget_key :: "node \<Rightarrow> unit an" where
  "forget_key st =
     (case (n_target st, n_value st) of
        (Some t, Some v) \<Rightarrow>
          if n_kind t = NK_NAME \<and> n_kind v = NK_STR then
            abind (resolve (n_name (attrs t)) t) (\<lambda>sy.
            abind (the_ptr (n_text (attrs v))) (\<lambda>key.
              upd_scope (scope_update (symbol_remove_source_literal_key key) (sym_name sy))))
          else aret ()
      | _ \<Rightarrow> afail NullDeref)"

text \<open>A word after \<open>-=\<close> that is no local is a key.\<close>

definition struct_remove_key :: "an_rec \<Rightarrow> node \<Rightarrow> node an" where
  "struct_remove_key R st =
     abind (the_ptr (n_value st)) (\<lambda>v.
     abind (if n_kind v = NK_NAME then abind (lookup (n_name (attrs v))) (\<lambda>found. aret (found = None))
            else aret False) (\<lambda>is_key.
     if is_key then abind (the_ptr (n_name (attrs v))) (\<lambda>key. aret (set_value (str_key v key) st))
     else
       abind (at_value (infer_of R) st) (\<lambda>(vt, st).
       athen (require_at (vt = ''STR'') (n_value st) (''open MAP remove needs STR key, got '' @ vt)) (aret st))))"

definition reject_known_field :: "string \<Rightarrow> node \<Rightarrow> unit an" where
  "reject_known_field tt st =
     abind (the_ptr (n_value st)) (\<lambda>v.
     if n_kind v \<noteq> NK_NAME then aret ()
     else
       abind (the_ptr (n_name (attrs v))) (\<lambda>name.
       abind (lookup (Some name)) (\<lambda>found.
       abind (reads (\<lambda>s. struct_field (an_types s) tt name \<noteq> None)) (\<lambda>is_field.
         require (\<not> (found = None \<and> is_field)) st
           (''known-field MAP -= '' @ name @ '' is not supported in v0.1'')))))"

definition analyze_sub_assign :: "an_rec \<Rightarrow> string \<Rightarrow> node \<Rightarrow> node an" where
  "analyze_sub_assign R tt st =
     abind (is_struct tt) (\<lambda>struct.
     if tt = ''INT'' then analyze_number_update R (\<lambda>t. t = ''INT'') ''-= on INT requires INT value'' st
     else if tt = ''FLT''
       then analyze_number_update R (\<lambda>t. is_numeric_type (Some t)) ''-= on FLT requires numeric value'' st
     else if is_array_type tt then
       abind (at_value (infer_of R) st) (\<lambda>(vt, st).
       athen (require_at (vt = array_elem_type tt) (n_value st)
                (''array remove needs '' @ array_elem_type tt @ '', got '' @ vt))
         (athen (own_target st) (nul st)))
     else if is_map_type tt then
       abind (the_ptr (map_key_type tt)) (\<lambda>kt.
       abind (at_value (infer_of R) st) (\<lambda>(vt, st).
       athen (require_at (vt = kt) (n_value st) (''map remove needs '' @ kt @ '' key, got '' @ vt))
         (athen (forget_key st) (athen (own_target st) (nul st)))))
     else if struct then
       athen (reject_known_field tt st)
       (athen (mark_open tt)
       (abind (struct_remove_key R st) (\<lambda>st.
          athen (forget_key st) (athen (own_target st) (nul st)))))
     else adie st (''-= is not implemented for '' @ tt))"

definition analyze_store :: "an_rec \<Rightarrow> string \<Rightarrow> node \<Rightarrow> node an" where
  "analyze_store R tt st =
     abind (at_value (expect_of R (Some tt)) st) (\<lambda>(vt, st).
     abind (reads (\<lambda>s. type_assignable_to_expected (an_types s) (Some vt) (Some tt))) (\<lambda>ok.
     athen (require_at ok (n_value st) (''cannot assign '' @ vt @ '' to '' @ tt @ '' target''))
    (abind (reads (\<lambda>s. is_ref_type tt \<and> ref_assignment_target_may_escape (n_target st) (an_scope s))) (\<lambda>escapes.
     abind (if escapes then escape_value ''stored reference assignment'' st else aret (False, st)) (\<lambda>(_, st).
       nul st)))))"

definition analyze_assign :: "an_rec \<Rightarrow> node \<Rightarrow> node an" where
  "analyze_assign R st =
     (let op = (case n_op (attrs st) of None \<Rightarrow> ''='' | Some op \<Rightarrow> op) in
      abind (the_ptr (n_target st)) (\<lambda>tgt.
      if n_kind tgt = NK_NAME \<and> op = ''='' then
        abind (the_ptr (n_name (attrs tgt))) (\<lambda>name.
        abind (lookup (Some name)) (\<lambda>found.
          case found of None \<Rightarrow> analyze_assign_new R name st | Some sy \<Rightarrow> analyze_assign_existing R sy st))
      else
        abind (at_target (r_lvalue R) st) (\<lambda>(tt, st).
        if op = ''++'' then analyze_increment tt st
        else if op = ''+='' then analyze_add_assign R tt st
        else if op = ''-='' then analyze_sub_assign R tt st
        else analyze_store R tt st)))"

section \<open>Returns\<close>

text \<open>The declared type and the name of \<open>ctx->fn\<close>; the script is \<open>main\<close> and returns an \<open>INT\<close>.\<close>

definition current_fn :: "(string option \<times> string) an" where
  "current_fn =
     abind (get_ctx cx_fn) (\<lambda>f.
       case f of
         NoFn \<Rightarrow> afail NullDeref
       | ScriptFn \<Rightarrow> aret (Some ''INT'', ''main'')
       | TableFn x \<Rightarrow>
           abind (reads (\<lambda>s. fn_find (an_fns s) x)) (\<lambda>fn. abind (the_ptr fn) (\<lambda>fn.
             aret (Functions.declared_return_type fn, fi_name fn))))"

definition mark_returns_owned_ref :: "unit an" where
  "mark_returns_owned_ref =
     abind (get_ctx cx_fn) (\<lambda>f.
       case f of
         TableFn x \<Rightarrow> modifies (\<lambda>s. s\<lparr>an_fns := map (\<lambda>fn. if fi_name fn = x then fn\<lparr>returns_owned_ref := True\<rparr>
                                                        else fn) (an_fns s)\<rparr>)
       | _ \<Rightarrow> aret ())"

definition ret_value :: "an_rec \<Rightarrow> string option \<Rightarrow> node \<Rightarrow> (string \<times> node) an" where
  "ret_value R declared st =
     (if n_value st = None then aret (''NUL'', st)
      else
        abind (get_ctx cx_allow_json_decode_boundary) (\<lambda>old.
        athen (upd_ctx (\<lambda>c. c\<lparr>cx_allow_json_decode_boundary := True\<rparr>))
       (abind (at_value (expect_of R declared) st) (\<lambda>r.
        athen (upd_ctx (\<lambda>c. c\<lparr>cx_allow_json_decode_boundary := old\<rparr>)) (aret r)))))"

definition record_return :: "string \<Rightarrow> string \<Rightarrow> node \<Rightarrow> unit an" where
  "record_return fname t st =
     abind (get_ctx cx_saw_return) (\<lambda>saw.
     abind (get_ctx cx_return_type) (\<lambda>rt.
       if \<not> saw then upd_ctx (\<lambda>c. c\<lparr>cx_saw_return := True, cx_return_type := Some t\<rparr>)
       else require (rt = Some t) st
              (''function '' @ quoted fname @ '' cannot return both '' @ shown rt
               @ '' and '' @ t)))"

definition analyze_ret :: "an_rec \<Rightarrow> node \<Rightarrow> node an" where
  "analyze_ret R st =
     abind current_fn (\<lambda>(declared, fname).
     abind (ret_value R declared st) (\<lambda>(rt, st).
     abind (reads (\<lambda>s. type_assignable_to_expected (an_types s) (Some rt) declared)) (\<lambda>ok.
     athen (case declared of
              None \<Rightarrow> aret ()
            | Some d \<Rightarrow> require ok st (''function '' @ quoted fname @ '' must return '' @ d @ '', got '' @ rt))
    (let effective = (case declared of Some d \<Rightarrow> d | None \<Rightarrow> rt) in
     abind (if is_ref_type effective then escape_value ''return'' st else aret (False, st)) (\<lambda>(owned, st).
     athen (if owned then mark_returns_owned_ref else aret ())
    (athen (record_return fname effective st)
       (aret (set_type effective st))))))))"

section \<open>Conditionals\<close>

definition analyze_elx :: "an_rec \<Rightarrow> nat \<Rightarrow> node \<Rightarrow> unit \<Rightarrow> (unit \<times> node) an" where
  "analyze_elx R i branch u =
     abind (at_condition (infer_of R) branch) (\<lambda>r.
     abind (needs_bool n_condition ''elx condition'' r) (\<lambda>branch.
     abind (at_body (block_of R) branch) (\<lambda>(_, branch). aret ((), set_type ''NUL'' branch))))"

definition analyze_if :: "an_rec \<Rightarrow> node \<Rightarrow> node an" where
  "analyze_if R st =
     abind (at_condition (infer_of R) st) (\<lambda>r.
     abind (needs_bool n_condition ''if condition'' r) (\<lambda>st.
     abind (at_then_block (block_of R) st) (\<lambda>(_, st).
     abind (at_items n_elx_branches with_branches (analyze_elx R) () st) (\<lambda>(_, st).
     abind (if n_else_block st = None then aret ((), st) else at_else_block (block_of R) st) (\<lambda>(_, st).
       nul st)))))"

section \<open>Loops\<close>

text \<open>The scope of the loop is the head of the chain while these run.\<close>

definition loop_symbol :: "string \<Rightarrow> string \<Rightarrow> string option \<Rightarrow> node \<Rightarrow> unit an" where
  "loop_symbol name t c st = on_scope (\<lambda>s. scope_define s name t c st)"

definition loop_ctx_symbol :: "string \<Rightarrow> string option \<Rightarrow> string option \<Rightarrow> node \<Rightarrow> unit an" where
  "loop_ctx_symbol et index elem st =
     (case n_name (attrs st) of
        None \<Rightarrow> aret ()
      | Some name \<Rightarrow> on_scope (\<lambda>s. scope_define_ctx s name (loop_ctx_type et) index elem st))"

definition loop_as :: "string \<Rightarrow> string option \<Rightarrow> node \<Rightarrow> node" where
  "loop_as kind ptr = upd_attrs (\<lambda>a. a\<lparr>loop_kind := Some kind, element_ptr := ptr\<rparr>)"

definition finish_loop :: "an_rec \<Rightarrow> node \<Rightarrow> node an" where
  "finish_loop R st = abind (at_body (analyze_loop_body R) st) (\<lambda>(_, st). nul st)"

definition analyze_counted_loop :: "an_rec \<Rightarrow> string \<Rightarrow> string \<Rightarrow> node \<Rightarrow> node an" where
  "analyze_counted_loop R kind hint_msg st =
     athen (require (loop_hint (attrs st) = None) st hint_msg)
     (let index = index_name (attrs st); st = loop_as kind (element_ptr (attrs st)) st in
      athen (loop_symbol ''e'' ''INT'' index st)
     (athen (loop_ctx_symbol ''INT'' index index st)
        (finish_loop R st)))"

definition analyze_condition_loop :: "an_rec \<Rightarrow> node \<Rightarrow> node an" where
  "analyze_condition_loop R st =
     athen (require (loop_hint (attrs st) = None) st ''loop collection wrapper cannot wrap BOL'')
     (let st = loop_as ''condition'' (element_ptr (attrs st)) st in
      athen (loop_ctx_symbol ''INT'' (index_name (attrs st)) None st)
        (finish_loop R st))"

definition char_ptr :: "nat \<Rightarrow> string" where "char_ptr lid = ''char_'' @ show_nat lid"

definition analyze_str_loop :: "an_rec \<Rightarrow> nat \<Rightarrow> string \<Rightarrow> (node \<Rightarrow> node) \<Rightarrow> node \<Rightarrow> node an" where
  "analyze_str_loop R lid as_msg with_source st =
     athen (require (n_name (attrs st) = None) st as_msg)
     (let st = with_source (loop_as ''str'' (Some (char_ptr lid)) st) in
      athen (upd_scope (scope_update (\<lambda>sy. sy\<lparr>sym_node := Some st\<rparr>) ''i''))
     (athen (loop_symbol ''e'' ''STR'' (Some (char_ptr lid)) st)
        (finish_loop R st)))"

text \<open>\<open>loop([ARR(text)])\<close>\<close>

definition str_sequence :: "node \<Rightarrow> node option" where
  "str_sequence arg =
     (if n_kind arg = NK_CALL
         \<and> opt_holds (\<lambda>c. n_kind c = NK_NAME \<and> n_name (attrs c) = Some ''ARR'') (n_callee arg)
         \<and> length (n_args arg) = 1
         \<and> opt_holds (\<lambda>t. checked_type (attrs t) = Some ''STR'') (item_at (n_args arg) 0)
      then item_at (n_args arg) 0 else None)"

definition analyze_element_loop :: "an_rec \<Rightarrow> nat \<Rightarrow> string \<Rightarrow> node \<Rightarrow> node \<Rightarrow> node an" where
  "analyze_element_loop R lid t arg st =
     (let ptr = (case n_name (attrs st) of Some name \<Rightarrow> name @ ''_e'' | None \<Rightarrow> ''loop_e_'' @ show_nat lid);
          st = loop_as ''array'' (Some ptr) st;
          index = index_name (attrs st);
          et = array_elem_type t;
          elem = ''(*'' @ ptr @ '')''
      in athen (loop_symbol ''e'' et (Some elem) st)
        (athen (loop_ctx_symbol et index (Some elem) st)
        (abind (get_ctx cx_loop_depth) (\<lambda>depth.
         athen (on_scope (\<lambda>s. scope_define_loop_source_ctx s (tl s) (Some arg) index (Some elem) (Some et)
                  (int depth + 2)))
           (finish_loop R st)))))"

definition analyze_array_loop :: "an_rec \<Rightarrow> nat \<Rightarrow> string \<Rightarrow> node \<Rightarrow> node \<Rightarrow> node an" where
  "analyze_array_loop R lid t arg st =
     (let hint = loop_hint (attrs st) in
      athen (require (hint = None \<or> hint = Some ''array'') st (''loop({value}) expects a MAP/open object, got '' @ t))
     (athen (require (hint \<noteq> None \<or> n_kind arg = NK_ARRAY) arg ''ARR values use loop([value])'')
       (case (if hint \<noteq> None then str_sequence arg else None) of
          Some src \<Rightarrow>
            analyze_str_loop R lid ''STR sequence loop does not take 'as'; use e and i'' (set_value src) st
        | None \<Rightarrow> analyze_element_loop R lid t arg st)))"

definition analyze_text_loop :: "an_rec \<Rightarrow> nat \<Rightarrow> node \<Rightarrow> node \<Rightarrow> node an" where
  "analyze_text_loop R lid arg st =
     athen (require (loop_hint (attrs st) = None) st
              ''loop([value]) expects an ARR value; use ARR(text) to iterate a STR'')
     (athen (require (n_kind arg = NK_STR) arg ''STR variables must use loop([ARR(text)])'')
       (analyze_str_loop R lid ''STR loop does not take 'as'; use e and i'' (\<lambda>st. st) st))"

definition analyze_entry_loop ::
  "an_rec \<Rightarrow> nat \<Rightarrow> string \<Rightarrow> string \<Rightarrow> string \<Rightarrow> string \<times> string \<Rightarrow> string \<Rightarrow> node \<Rightarrow> node \<Rightarrow> node an" where
  "analyze_entry_loop R lid kind wrap_msg as_msg kv t arg st =
     (let hint = loop_hint (attrs st); ptr = ''entry_'' @ show_nat lid in
      athen (require (hint = None \<or> hint = Some ''map'') st (''loop([value]) expects an ARR value, got '' @ t))
     (athen (require (hint \<noteq> None \<or> n_kind arg = NK_MAP_LITERAL) arg wrap_msg)
     (athen (require (n_name (attrs st) = None) st as_msg)
     (let st = loop_as kind (Some ptr) st in
      athen (loop_symbol ''e'' (fst kv) (Some (ptr @ ''->key'')) st)
     (athen (loop_symbol ''val'' (snd kv) (Some (ptr @ ''->value'')) st)
        (finish_loop R st))))))"

definition analyze_loop_over :: "an_rec \<Rightarrow> nat \<Rightarrow> string \<Rightarrow> node \<Rightarrow> node \<Rightarrow> node an" where
  "analyze_loop_over R lid t arg st =
     abind (reads (\<lambda>s. is_open_struct_type (an_types s) t \<or> is_open_data_type t \<or> t = ''OBJ'')) (\<lambda>open_value.
     if t = ''INT'' then analyze_counted_loop R ''count'' ''loop collection wrapper cannot wrap INT'' st
     else if t = ''BOL'' then analyze_condition_loop R st
     else if is_array_type t then analyze_array_loop R lid t arg st
     else if t = ''STR'' then analyze_text_loop R lid arg st
     else if open_value then
       analyze_entry_loop R lid ''open_map'' ''MAP/open values use loop({value})''
         ''open MAP loop does not take 'as'; use e, val, and i'' (''STR'', ''OBJ'') t arg st
     else if is_map_type t then
       abind (the_ptr (map_key_type t)) (\<lambda>kt.
       abind (the_ptr (map_value_type t)) (\<lambda>vt.
         analyze_entry_loop R lid ''map'' ''MAP values use loop({value})''
           ''map loop does not take 'as'; use e, val, and i'' (kt, vt) t arg st))
     else adie arg (''loop does not support '' @ t))"

definition collect_type :: "an_rec \<Rightarrow> nat \<Rightarrow> node \<Rightarrow> string list \<Rightarrow> (string list \<times> node) an" where
  "collect_type R i arg ts = abind (infer_of R arg) (\<lambda>(t, arg). aret (ts @ [t], arg))"

definition loop_index_name :: "nat \<Rightarrow> node \<Rightarrow> string" where
  "loop_index_name lid st =
     (case n_name (attrs st) of Some name \<Rightarrow> name @ ''_i'' | None \<Rightarrow> ''loop_i_'' @ show_nat lid)"

definition analyze_loop :: "an_rec \<Rightarrow> node \<Rightarrow> node an" where
  "analyze_loop R st =
     athen (require (length (n_args st) \<in> {1, 2, 3}) st ''loop expects 1 argument or 2-3 range arguments'')
     (abind (at_items n_args with_args (collect_type R) [] st) (\<lambda>(ts, st).
      abind fresh_loop_id (\<lambda>lid.
      let st = upd_attrs (\<lambda>a. a\<lparr>index_name := Some (loop_index_name lid st)\<rparr>) st in
      method_scoped
        (athen (loop_symbol ''i'' ''INT'' (index_name (attrs st)) st)
          (case (ts, n_args st) of
             ([t], [arg]) \<Rightarrow> analyze_loop_over R lid t arg st
           | _ \<Rightarrow>
               athen (require (loop_hint (attrs st) = None) st ''loop collection wrappers only take one expression'')
              (athen (require (list_all (\<lambda>t. t = ''INT'') ts) st ''range loop arguments must all be INT'')
                (analyze_counted_loop R ''range'' '''' st)))))))"

section \<open>Statements\<close>

definition analyze_expr_stmt :: "an_rec \<Rightarrow> node \<Rightarrow> node an" where
  "analyze_expr_stmt R st =
     abind (at_expr (\<lambda>e.
        if is_mutating_collection_plus_expr e then no_value (analyze_mutating_collection_plus_stmt R) e
        else if is_mutating_collection_method_expr e then no_value (analyze_mutating_collection_method_stmt R) e
        else abind (infer_of R e) (\<lambda>(_, e). aret ((), e))) st) (\<lambda>(_, st). nul st)"

definition analyze_throw :: "an_rec \<Rightarrow> node \<Rightarrow> node an" where
  "analyze_throw R st =
     abind (at_value (infer_of R) st) (\<lambda>(t, st).
     athen (require_at (t = ''STR'') (n_value st) (''throw expects STR, got '' @ t)) (nul st))"

definition analyze_stmt :: "an_rec \<Rightarrow> node \<Rightarrow> node an" where
  "analyze_stmt R st =
     (case n_kind st of
        NK_VAR \<Rightarrow> analyze_var R st
      | NK_ASSIGN \<Rightarrow> analyze_assign R st
      | NK_DESTRUCTURE \<Rightarrow> analyze_destructure_stmt R st
      | NK_FREE \<Rightarrow> analyze_free_stmt st
      | NK_EXPR_STMT \<Rightarrow> analyze_expr_stmt R st
      | NK_RET \<Rightarrow> analyze_ret R st
      | NK_IF \<Rightarrow> analyze_if R st
      | NK_LOOP \<Rightarrow> analyze_loop R st
      | NK_PASS \<Rightarrow> nul st
      | NK_THROW \<Rightarrow> analyze_throw R st
      | k \<Rightarrow> adie st (''internal analyzer: bad statement '' @ node_kind_name k))"

section \<open>Blocks\<close>

function assignment_root_name :: "node option \<Rightarrow> node option" where
  "assignment_root_name None = None"
| "assignment_root_name (Some t) =
     (if n_kind t = NK_NAME then Some t
      else if n_kind t = NK_DOT then assignment_root_name (n_object t) else None)"
  by pat_completeness auto

termination
  by (relation "measure (\<lambda>x. case x of None \<Rightarrow> 0 | Some n \<Rightarrow> size n + 1)")
    (auto split: option.splits dest: size_object)

text \<open>The first pass over a block declares its nested functions.\<close>

definition owner_name :: "string option an" where
  "owner_name =
     abind (get_ctx cx_fn) (\<lambda>f.
       case f of
         TableFn x \<Rightarrow>
           abind (reads (\<lambda>s. fn_find (an_fns s) x)) (\<lambda>fn. abind (the_ptr fn) (\<lambda>fn.
             aret (n_name (attrs (fi_node fn)))))
       | _ \<Rightarrow> aret None)"

definition declare_nested :: "nat \<Rightarrow> node \<Rightarrow> unit \<Rightarrow> (unit \<times> node) an" where
  "declare_nested i st u =
     (if n_kind st \<noteq> NK_FN then aret ((), st)
      else
        abind owner_name (\<lambda>owner.
        abind (case c_expr (attrs st) of
                 Some c \<Rightarrow> aret c
               | None \<Rightarrow> queries (\<lambda>s. nested_function_c_name owner st)) (\<lambda>c.
        let st = with_c_expr (Some c) st in
        abind (the_ptr (n_name (attrs st))) (\<lambda>name.
        athen (on_scope (\<lambda>s. scope_define_symbol
                 ((new_symbol name ''NUL'' (Some c) st)\<lparr>ownership := OWNERSHIP_BORROWED\<rparr>) st s))
       (abind (the_ptr (node_attrs.declared_type (attrs st))) (\<lambda>t. aret ((), set_type t st)))))))"

text \<open>A store into a field of a top-level named value.\<close>

definition reject_named_value_store :: "node \<Rightarrow> unit an" where
  "reject_named_value_store st =
     (if n_kind st = NK_ASSIGN \<and> opt_holds (\<lambda>t. n_kind t \<noteq> NK_NAME) (n_target st) then
        (case assignment_root_name (n_target st) of
           None \<Rightarrow> aret ()
         | Some root \<Rightarrow>
             (case n_name (attrs root) of
                None \<Rightarrow> aret ()
              | Some name \<Rightarrow>
                  abind (lookup (Some name)) (\<lambda>found.
                  if found \<noteq> None then aret ()
                  else abind (is_complete_named_value (Some name)) (\<lambda>complete.
                    require (\<not> complete) root (global_mutation_message name)))))
      else aret ())"

definition block_statement :: "an_rec \<Rightarrow> nat \<Rightarrow> node \<Rightarrow> unit \<Rightarrow> (unit \<times> node) an" where
  "block_statement R i st u =
     (if n_kind st = NK_FN then
        abind (fn_of_name (c_expr (attrs st))) (\<lambda>found.
        case found of
          None \<Rightarrow> aret ((), st)
        | Some fn \<Rightarrow>
            athen (if fi_state fn \<noteq> 2 then r_fn R (fi_name fn) else aret ())
           (abind (fn_of_name (c_expr (attrs st))) (\<lambda>found. abind (the_ptr found) (\<lambda>fn.
              aret ((), fi_node fn)))))
      else
        athen (reject_named_value_store st)
          (abind (r_stmt R st) (\<lambda>st. aret ((), st))))"

definition analyze_block :: "an_rec \<Rightarrow> node \<Rightarrow> node an" where
  "analyze_block R b =
     abind (scoped_statements (\<lambda>b.
        abind (at_items n_statements with_statements declare_nested () b) (\<lambda>(_, b).
          at_items n_statements with_statements (block_statement R) () b)) b) (\<lambda>(_, b).
     aret (set_type ''NUL'' b))"

section \<open>No unresolved type is left\<close>

definition has_unknown :: "string option \<Rightarrow> bool" where
  "has_unknown t = opt_holds is_unknown_type t"

definition validate_here :: "node \<Rightarrow> unit result" where
  "validate_here n =
     (if inferred_decl (attrs n) \<and> has_unknown (node_attrs.declared_type (attrs n))
      then die_node_at n (''could not infer a concrete type for local ''
             @ quoted (case n_name (attrs n) of Some x \<Rightarrow> x | None \<Rightarrow> ''<anonymous>'') @ '' before C emission'')
      else if has_unknown (checked_type (attrs n))
        then die_node_at n (''could not infer a concrete type for '' @ node_kind_name (n_kind n) @ '' before C emission'')
      else Inr ())"

text \<open>The children \<open>validate_concrete_types\<close> visits, in its order.\<close>

definition typed_kids :: "node \<Rightarrow> node list" where
  "typed_kids n =
     (let ptrs = List.map_filter id in
      case n_kind n of
        NK_PROGRAM \<Rightarrow> n_globals n @ n_functions n @ n_statements n
      | NK_FN \<Rightarrow> ptrs [n_body n]
      | NK_BLOCK \<Rightarrow> n_statements n
      | NK_VAR \<Rightarrow> ptrs [n_target n, n_value n]
      | NK_ASSIGN \<Rightarrow> ptrs [n_target n, n_value n]
      | NK_DESTRUCTURE \<Rightarrow> n_fields n @ ptrs [n_value n]
      | NK_AGG_STEP \<Rightarrow> ptrs [n_value n]
      | NK_RET \<Rightarrow> ptrs [n_value n, n_expr n]
      | NK_THROW \<Rightarrow> ptrs [n_value n, n_expr n]
      | NK_EXPR_STMT \<Rightarrow> ptrs [n_value n, n_expr n]
      | NK_IF \<Rightarrow> ptrs [n_condition n, n_then_block n] @ n_elx_branches n @ ptrs [n_else_block n]
      | NK_ELX \<Rightarrow> ptrs [n_condition n, n_body n]
      | NK_LOOP \<Rightarrow> n_args n @ ptrs [n_body n]
      | NK_ARRAY \<Rightarrow> n_elements n
      | NK_SHAPE \<Rightarrow> n_elements n
      | NK_MAP_LITERAL \<Rightarrow> n_fields n
      | NK_RECORD_LITERAL \<Rightarrow> n_fields n
      | NK_FIELD \<Rightarrow> ptrs [n_target n, n_value n]
      | NK_DOT \<Rightarrow> ptrs [n_object n, n_index n, n_target n]
      | NK_UNARY \<Rightarrow> ptrs [n_expr n]
      | NK_BINARY \<Rightarrow> ptrs [n_left n, n_right n]
      | NK_CALL \<Rightarrow> ptrs [n_callee n] @ n_args n
      | NK_METHOD_CALL \<Rightarrow> ptrs [n_object n] @ n_args n @ ptrs [n_body n]
      | NK_DECODE \<Rightarrow> ptrs [n_expr n]
      | NK_IF_EXPR \<Rightarrow> ptrs [n_value n, n_condition n, n_right n]
      | _ \<Rightarrow> [])"

lemma size_fn_item:
  "x \<in> set (n_functions n) \<Longrightarrow> size x < size n" "x \<in> set (n_globals n) \<Longrightarrow> size x < size n"
  by (cases n; force dest: size_list_estimation' [where f = size, OF _ order_refl])+

lemma typed_kids_subset:
  "x \<in> set (typed_kids n) \<Longrightarrow> x \<in> set (ret_kids n) \<or> x \<in> set (n_functions n) \<or> x \<in> set (n_globals n)"
  by (cases "n_kind n"; simp add: typed_kids_def ret_kids_def in_map_filter_id Let_def del: map_filter_simps; blast)

lemma size_typed_kids: "x \<in> set (typed_kids n) \<Longrightarrow> size x < size n"
  using typed_kids_subset size_ret_kids size_fn_item by blast

function validate_concrete_types :: "node \<Rightarrow> unit result" where
  "validate_concrete_types n =
     (case validate_here n of
        Inl e \<Rightarrow> Inl e
      | Inr u \<Rightarrow> each_result validate_concrete_types (typed_kids n))"
  by pat_completeness auto

termination
  by (relation "measure size") (auto dest: size_typed_kids)

declare validate_concrete_types.simps [simp del]

end
