(* ===== verification/Analyze.thy ===== *)
theory Analyze
  imports AnalyzeStmt
begin

text \<open>
  Functions and programs (\<open>src/caster/analyze/program.c\<close>), and the knot: the analyses of
  expressions, targets, statements, blocks, method bodies and functions call each other, one
  level of fuel for each call. The analyzed declarations of types are the nodes of the type
  table, the analyzed functions those of the table of functions, from where they are put back
  into the program.
\<close>

section \<open>Functions\<close>

definition fresh_ctx :: "ctx_fn \<Rightarrow> bool \<Rightarrow> bool \<Rightarrow> bool \<Rightarrow> actx" where
  "fresh_ctx fn fns local_style json =
     \<lparr>cx_fn = fn, cx_fns = fns, cx_return_type = None, cx_saw_return = False,
      cx_enforce_local_style = local_style, cx_allow_json_decode_boundary = json,
      cx_allow_terminal_tap = False, cx_preserve_ref_identity = False, cx_next_loop_id = 1,
      cx_loop_depth = 0\<rparr>"

definition upd_fn :: "string \<Rightarrow> (fn_info \<Rightarrow> fn_info) \<Rightarrow> unit an" where
  "upd_fn name f = modifies (\<lambda>st. st\<lparr>an_fns := map (\<lambda>fn. if fi_name fn = name then f fn else fn) (an_fns st)\<rparr>)"

definition get_fn :: "string \<Rightarrow> fn_info an" where
  "get_fn name = abind (reads (\<lambda>st. fn_find (an_fns st) name)) the_ptr"

text \<open>A function body runs in a scope below the global one, with a context of its own.\<close>

definition in_fn_scope :: "actx \<Rightarrow> 'a an \<Rightarrow> 'a an" where
  "in_fn_scope c m st =
     (if an_scope st = [] then Inl NullDeref
      else case m (st\<lparr>an_scope := [[], last (an_scope st)], an_ctx := c\<rparr>) of
        Inl e \<Rightarrow> Inl e
      | Inr (x, st') \<Rightarrow>
          if an_scope st' = [] then Inl NullDeref
          else Inr (x, st'\<lparr>an_scope := butlast (an_scope st) @ [last (an_scope st')], an_ctx := an_ctx st\<rparr>))"

definition define_param :: "string list \<Rightarrow> nat \<Rightarrow> node \<Rightarrow> unit \<Rightarrow> (unit \<times> node) an" where
  "define_param types i param u =
     (if i < length types then
        abind (the_ptr (n_name (attrs param))) (\<lambda>name.
        athen (on_scope (\<lambda>s. scope_define_symbol
                 ((new_symbol name (types ! i) None param)\<lparr>is_param := True, ownership := OWNERSHIP_BORROWED\<rparr>)
                 param s))
          (aret ((), set_type (types ! i) param)))
      else afail OutOfBounds)"

definition fn_body :: "an_rec \<Rightarrow> fn_info \<Rightarrow> (string \<times> node) an" where
  "fn_body R fn =
     abind (at_items n_params with_params (define_param (fi_param_types fn)) () (fi_node fn)) (\<lambda>(_, n).
     abind (at_body (block_of R) n) (\<lambda>(_, n).
     abind (the_ptr (n_body n)) (\<lambda>b.
     athen (queries (\<lambda>st. validate_concrete_types b))
    (abind (get_ctx cx_saw_return) (\<lambda>saw.
     abind (get_ctx cx_return_type) (\<lambda>rt.
       case Functions.declared_return_type fn of
         Some t \<Rightarrow>
           athen (require (saw \<or> t = ''NUL'') n
             (''function '' @ quoted (fi_name fn) @ '' declares -> '' @ t @ '' but has no ret''))
             (aret (t, n))
       | None \<Rightarrow> if saw then abind (the_ptr rt) (\<lambda>t. aret (t, n)) else aret (''NUL'', n)))))))"

definition analyze_fn :: "an_rec \<Rightarrow> string \<Rightarrow> unit an" where
  "analyze_fn R name =
     abind (get_fn name) (\<lambda>fn.
     if fi_state fn = 2 then aret ()
     else if fi_state fn = 1 then
       (case Functions.declared_return_type fn of
          Some t \<Rightarrow> upd_fn name (\<lambda>fn. fn\<lparr>Functions.return_type := Some t\<rparr>)
        | None \<Rightarrow> adie (fi_node fn) (''recursive return inference for function '' @ quoted (fi_name fn)
            @ '' needs an explicit -> return type''))
     else
       athen (upd_fn name (\<lambda>fn. fn\<lparr>fi_state := 1\<rparr>))
      (abind (in_fn_scope (fresh_ctx (TableFn name) True True True) (fn_body R fn)) (\<lambda>(t, n).
         upd_fn name (\<lambda>fn. fn\<lparr>fi_node := set_type t n, Functions.return_type := Some t, fi_state := 2\<rparr>))))"

section \<open>The knot\<close>

primrec analyzer :: "nat \<Rightarrow> an_rec" where
  "analyzer 0 =
     \<lparr>r_fuel = 0, r_expr = (\<lambda>_ _. afail OutOfFuel), r_lvalue = (\<lambda>_. afail OutOfFuel),
      r_stmt = (\<lambda>_. afail OutOfFuel), r_block = (\<lambda>_. afail OutOfFuel),
      r_value_block = (\<lambda>_ _. afail OutOfFuel), r_fn = (\<lambda>_. afail OutOfFuel)\<rparr>"
| "analyzer (Suc n) =
     (let R = analyzer n in
      \<lparr>r_fuel = n, r_expr = analyze_expr_expected R, r_lvalue = analyze_lvalue R, r_stmt = analyze_stmt R,
       r_block = analyze_block R, r_value_block = analyze_method_value_block R, r_fn = analyze_fn R\<rparr>)"

section \<open>Named values\<close>

definition info_at :: "nat \<Rightarrow> type_info an" where
  "info_at i = abind (reads (\<lambda>st. if i < length (an_types st) then Some (an_types st ! i) else None)) the_ptr"

definition put_info_node :: "nat \<Rightarrow> (node \<Rightarrow> node) \<Rightarrow> unit an" where
  "put_info_node i f =
     abind (info_at i) (\<lambda>info. upd_types (\<lambda>types. types[i := info\<lparr>ti_node := f (ti_node info)\<rparr>]))"

text \<open>The entry of the type a field's text names; null when it names none.\<close>

definition field_info :: "node \<Rightarrow> type_info option an" where
  "field_info field = (case n_text (attrs field) of None \<Rightarrow> aret None | Some t \<Rightarrow> type_of_name (Some t))"

definition is_complete :: "type_info option \<Rightarrow> bool an" where
  "is_complete info = reads (\<lambda>st. info \<noteq> None \<and> type_has_complete_named_value (an_types st) info)"

definition field_without_default :: "node \<Rightarrow> unit an" where
  "field_without_default field =
     abind (field_info field) (\<lambda>info. abind (is_complete info) (\<lambda>complete.
       require (\<not> complete) field
         (''field '' @ quoted (shown (n_name (attrs field))) @ '' uses named MAP value ''
          @ quoted (shown (n_text (attrs field))) @ ''; write '' @
          quoted (shown (n_text (attrs field)) @ '' '' @ shown (n_name (attrs field)) @ '' = INIT'')
          @ '' for explicit nested initialization'')))"

definition init_field :: "node \<Rightarrow> node \<Rightarrow> node an" where
  "init_field field v =
     abind (field_info field) (\<lambda>info.
     case info of
       None \<Rightarrow> adie v ''INIT requires a named MAP value field''
     | Some fi \<Rightarrow>
         athen (require (named_value_type fi = node_attrs.declared_type (attrs field)) v
           (''INIT for field '' @ quoted (shown (n_name (attrs field))) @ '' must be ''
            @ shown (node_attrs.declared_type (attrs field)) @ '', got '' @ shown (named_value_type fi)))
        (abind (is_complete info) (\<lambda>complete.
         athen (require complete v
           (''INIT source '' @ quoted (shown (n_text (attrs field))) @ '' has no complete named value''))
        (abind (the_ptr (node_attrs.declared_type (attrs field))) (\<lambda>t. aret (set_value (set_type t v) field))))))"

definition default_field :: "an_rec \<Rightarrow> node \<Rightarrow> node an" where
  "default_field R field =
     (let want = node_attrs.declared_type (attrs field) in
      abind (at_value (expect_of R want) field) (\<lambda>(vt, field).
      abind (reads (\<lambda>st. type_assignable_to_expected (an_types st) (Some vt) want)) (\<lambda>ok.
      athen (require_at ok (n_value field)
        (''default for field '' @ quoted (shown (n_name (attrs field))) @ '' must be '' @ shown want @ '', got '' @ vt))
        (aret field))))"

definition named_field :: "an_rec \<Rightarrow> node \<Rightarrow> node an" where
  "named_field R field =
     (case n_value field of
        None \<Rightarrow> athen (field_without_default field) (aret field)
      | Some v \<Rightarrow> if n_kind v = NK_INIT then init_field field v else default_field R field)"

primrec named_fields :: "an_rec \<Rightarrow> nat \<Rightarrow> nat list \<Rightarrow> unit an" where
  "named_fields R i [] = aret ()"
| "named_fields R i (j # js) =
     abind (info_at i) (\<lambda>info.
     abind (the_ptr (item_at (n_fields (ti_node info)) j)) (\<lambda>field.
     abind (named_field R field) (\<lambda>field.
     athen (put_info_node i (\<lambda>n. with_fields ((n_fields n)[j := field]) n))
       (named_fields R i js))))"

definition named_alias :: "an_rec \<Rightarrow> nat \<Rightarrow> type_info \<Rightarrow> unit an" where
  "named_alias R i info =
     (if n_value (ti_node info) = None then aret ()
      else
        abind (at_value (expect_of R (target info)) (ti_node info)) (\<lambda>(vt, n).
        abind (reads (\<lambda>st. type_assignable_to_expected (an_types st) (Some vt) (target info))) (\<lambda>ok.
        athen (require_at ok (n_value n)
          (''named MAP value '' @ ti_name info @ '' must be '' @ shown (target info) @ '', got '' @ vt))
          (put_info_node i (\<lambda>_. n)))))"

definition named_value :: "an_rec \<Rightarrow> nat \<Rightarrow> unit an" where
  "named_value R i =
     abind (info_at i) (\<lambda>info.
       if ti_kind info = TYPEINFO_ALIAS then named_alias R i info
       else named_fields R i [0..<length (n_fields (ti_node info))])"

text \<open>The table may grow while it is walked: the types that literals synthesize are visited too.\<close>

primrec analyze_named_map_values :: "an_rec \<Rightarrow> nat \<Rightarrow> nat \<Rightarrow> unit an" where
  "analyze_named_map_values R 0 i = afail OutOfFuel"
| "analyze_named_map_values R (Suc k) i =
     abind (reads (\<lambda>st. i < length (an_types st))) (\<lambda>more.
       if more then athen (named_value R i) (analyze_named_map_values R k (i + 1)) else aret ())"

section \<open>Globals\<close>

definition analyze_global :: "an_rec \<Rightarrow> nat \<Rightarrow> node \<Rightarrow> unit \<Rightarrow> (unit \<times> node) an" where
  "analyze_global R i global u =
     abind (the_ptr (node_attrs.declared_type (attrs global))) (\<lambda>raw.
     abind (on_types (\<lambda>types. resolve_type types raw global)) (\<lambda>declared.
     abind (the_ptr (n_name (attrs global))) (\<lambda>name.
     let global = with_type declared global in
     athen (upd_ctx (\<lambda>_. fresh_ctx NoFn False False False))
    (abind (if n_value global = None then aret global
            else
              abind (at_value (expect_of R (Some declared)) global) (\<lambda>(vt, global).
              abind (reads (\<lambda>st. type_assignable_to_expected (an_types st) (Some vt) (Some declared))) (\<lambda>ok.
              athen (require_at ok (n_value global)
                (''cannot initialize global '' @ name @ '' as '' @ declared @ '' with '' @ vt)) (aret global)))) (\<lambda>global.
     let c = ''global_'' @ name; global = set_type ''NUL'' (with_c_expr (Some c) global) in
     athen (on_scope (\<lambda>s. scope_define_symbol
              ((new_symbol name declared (Some c) global)\<lparr>is_global := True, ownership := OWNERSHIP_BORROWED\<rparr>) global s))
       (aret ((), global)))))))"

section \<open>Programs\<close>

definition block_statements :: "node option \<Rightarrow> node list" where
  "block_statements b = (case b of None \<Rightarrow> [] | Some b \<Rightarrow> n_statements b)"

text \<open>The nested functions below a statement, and the registered node of a table entry.\<close>

definition block_kids :: "node \<Rightarrow> node list" where
  "block_kids n =
     (if n_kind n = NK_FN \<or> n_kind n = NK_LOOP then block_statements (n_body n)
      else if n_kind n = NK_IF then
        block_statements (n_then_block n) @ concat (map (\<lambda>br. block_statements (n_body br)) (n_elx_branches n))
        @ block_statements (n_else_block n)
      else [])"

lemma size_block_statements: "x \<in> set (block_statements b) \<Longrightarrow> \<exists>c. b = Some c \<and> size x < size c"
  by (cases b) (simp_all add: block_statements_def size_kids)

lemma size_block_kids: "x \<in> set (block_kids n) \<Longrightarrow> size x < size n"
  by (auto simp: block_kids_def split: if_splits dest!: size_block_statements size_kids)

function nested_fns :: "node \<Rightarrow> node list" where
  "nested_fns n = (if n_kind n = NK_FN then [n] else []) @ concat (map nested_fns (block_kids n))"
  by pat_completeness auto

termination
  by (relation "measure size") (auto dest: size_block_kids)

declare nested_fns.simps [simp del]

definition registered_node :: "node \<Rightarrow> string \<Rightarrow> node option" where
  "registered_node prog name =
     (case List.find (\<lambda>fn. n_name (attrs fn) = Some name) (n_functions prog) of
        Some fn \<Rightarrow> Some fn
      | None \<Rightarrow> List.find (\<lambda>fn. c_expr (attrs fn) = Some name)
                 (concat (map (\<lambda>fn. concat (map nested_fns (block_kids fn))) (n_functions prog))
                  @ concat (map nested_fns (n_statements prog))))"

definition link_nodes :: "node \<Rightarrow> fn_table \<Rightarrow> fn_table" where
  "link_nodes prog =
     map (\<lambda>fn. case registered_node prog (fi_name fn) of Some n \<Rightarrow> fn\<lparr>fi_node := n\<rparr> | None \<Rightarrow> fn)"

definition fn_from_table :: "fn_table \<Rightarrow> node \<Rightarrow> node" where
  "fn_from_table table fn =
     (case Option.bind (n_name (attrs fn)) (fn_find table) of Some f \<Rightarrow> fi_node f | None \<Rightarrow> fn)"

definition register_functions :: "node \<Rightarrow> node an" where
  "register_functions prog st =
     rbind (register_program prog (an_types st)) (\<lambda>(prog, table, types).
       Inr (prog, st\<lparr>an_fns := link_nodes prog table, an_types := types\<rparr>))"

primrec analyze_fns :: "an_rec \<Rightarrow> string list \<Rightarrow> unit an" where
  "analyze_fns R [] = aret ()"
| "analyze_fns R (f # fs) = athen (analyze_fn R f) (analyze_fns R fs)"

definition analyze_script :: "an_rec \<Rightarrow> node \<Rightarrow> node an" where
  "analyze_script R prog =
     (if n_statements prog = [] then aret (set_type ''NUL'' prog)
      else
        athen (upd_ctx (\<lambda>_. fresh_ctx ScriptFn True True True))
       (abind (analyze_block R prog) (\<lambda>prog.
        athen (queries (\<lambda>st. validate_concrete_types prog)) (aret prog))))"

text \<open>\<open>analyze_program\<close> once the type table is built.\<close>

definition analyze_declarations :: "nat \<Rightarrow> node \<Rightarrow> node an" where
  "analyze_declarations fuel prog =
     (let R = analyzer fuel in
      athen (analyze_named_map_values R fuel 0)
     (abind (at_items n_globals with_globals (analyze_global R) () prog) (\<lambda>(_, prog).
      abind (register_functions prog) (\<lambda>prog.
      abind (reads (\<lambda>st. map fi_name (an_fns st))) (\<lambda>names.
      athen (analyze_fns R names)
     (abind (reads (\<lambda>st. with_functions (map (fn_from_table (an_fns st)) (n_functions prog)) prog)) (\<lambda>prog.
        analyze_script R prog)))))))"

definition analyze_program :: "nat \<Rightarrow> node \<Rightarrow> (node \<times> an_state) result" where
  "analyze_program fuel prog =
     rbind (build_type_table prog) (\<lambda>types.
       analyze_declarations fuel prog
         \<lparr>an_scope = scope_new [], an_types = types, an_fns = [], an_ctx = fresh_ctx NoFn False False False\<rparr>)"

end
