(* ===== verification/AnalyzeSteps.thy ===== *)
theory AnalyzeSteps
  imports Analyze
begin

text \<open>
  What every pass of the analyzer does to the state, and what more fuel does to a pass. The two
  questions have the same answer for a composed pass once they have it for its parts, so they are
  asked together: \<open>agree r m m'\<close> says that \<open>m\<close> runs out of fuel or has the outcome of \<open>m'\<close>, and
  that it takes a state to one that \<open>r\<close> relates to it. \<open>preserved\<close> is the interface of the
  relations \<open>r\<close>: closed under the stores the passes make. \<open>recursion\<close> adds two sets of recursive
  calls that agree, and every pass is shown to agree with itself on them.
\<close>

named_theorems agree

definition agree :: "(an_state \<Rightarrow> an_state \<Rightarrow> bool) \<Rightarrow> 'a an \<Rightarrow> 'a an \<Rightarrow> bool" where
  "agree r m m' \<longleftrightarrow>
     (\<forall>st. m st = Inl OutOfFuel \<or> m st = m' st \<and> (\<forall>x st'. m st = Inr (x, st') \<longrightarrow> r st st'))"

lemma agreeI:
  "(\<And>st. m st \<noteq> Inl OutOfFuel \<Longrightarrow> m st = m' st) \<Longrightarrow> (\<And>st x st'. m st = Inr (x, st') \<Longrightarrow> r st st') \<Longrightarrow> agree r m m'"
  by (auto simp: agree_def)

lemma agree_outcome: "agree r m m' \<Longrightarrow> m st \<noteq> Inl OutOfFuel \<Longrightarrow> m' st = m st"
  unfolding agree_def by (drule spec [of _ st]) simp

lemma agree_step: "agree r m m' \<Longrightarrow> m st = Inr (x, st') \<Longrightarrow> r st st'"
  unfolding agree_def by (drule spec [of _ st]) simp

text \<open>Choices: both sides take the same one.\<close>

lemma agree_if [agree]:
  "(b \<Longrightarrow> agree r m m') \<Longrightarrow> (\<not> b \<Longrightarrow> agree r n n') \<Longrightarrow> agree r (if b then m else n) (if b then m' else n')"
  by simp

lemma agree_option [agree]:
  "agree r m m' \<Longrightarrow> (\<And>y. x = Some y \<Longrightarrow> agree r (f y) (f' y)) \<Longrightarrow>
     agree r (case x of None \<Rightarrow> m | Some y \<Rightarrow> f y) (case x of None \<Rightarrow> m' | Some y \<Rightarrow> f' y)"
  by (cases x) auto

lemma agree_prod [agree]:
  "(\<And>a b. p = (a, b) \<Longrightarrow> agree r (f a b) (f' a b)) \<Longrightarrow>
     agree r (case p of (a, b) \<Rightarrow> f a b) (case p of (a, b) \<Rightarrow> f' a b)"
  by (cases p) auto

lemma agree_prod_app [agree]:
  "(\<And>a b. p = (a, b) \<Longrightarrow> agree r (f a b c) (f' a b c)) \<Longrightarrow>
     agree r ((case p of (a, b) \<Rightarrow> f a b) c) ((case p of (a, b) \<Rightarrow> f' a b) c)"
  by (cases p) auto

lemma agree_list [agree]:
  "agree r m m' \<Longrightarrow> (\<And>y ys. agree r (f y ys) (f' y ys)) \<Longrightarrow>
     agree r (case xs of [] \<Rightarrow> m | y # ys \<Rightarrow> f y ys) (case xs of [] \<Rightarrow> m' | y # ys \<Rightarrow> f' y ys)"
  by (cases xs) auto

lemma agree_bool [agree]:
  "agree r m m' \<Longrightarrow> agree r n n' \<Longrightarrow>
     agree r (case b of True \<Rightarrow> m | False \<Rightarrow> n) (case b of True \<Rightarrow> m' | False \<Rightarrow> n')"
  by (cases b) auto

lemma agree_adapter_arg [agree]:
  "(\<And>t. agree r (f t) (f' t)) \<Longrightarrow> agree r m m' \<Longrightarrow> agree r n n' \<Longrightarrow>
     agree r (case a of OfType t \<Rightarrow> f t | Scalar \<Rightarrow> m | Params \<Rightarrow> n)
       (case a of OfType t \<Rightarrow> f' t | Scalar \<Rightarrow> m' | Params \<Rightarrow> n')"
  by (cases a) auto

lemma agree_ctx_fn [agree]:
  "agree r m m' \<Longrightarrow> agree r n n' \<Longrightarrow> (\<And>x. agree r (f x) (f' x)) \<Longrightarrow>
     agree r (case a of NoFn \<Rightarrow> m | ScriptFn \<Rightarrow> n | TableFn x \<Rightarrow> f x)
       (case a of NoFn \<Rightarrow> m' | ScriptFn \<Rightarrow> n' | TableFn x \<Rightarrow> f' x)"
  by (cases a) auto

lemma agree_fail [agree]: "agree r (afail e) (afail e)"
  by (simp add: agree_def afail_def)

lemma agree_die [agree]: "agree r (adie n msg) (adie n msg)"
  by (simp add: agree_def afail_def adie_def)

section \<open>More fuel for the walks over values\<close>

definition upto_fuel :: "'a result \<Rightarrow> 'a result \<Rightarrow> bool" where
  "upto_fuel a b \<longleftrightarrow> a = Inl OutOfFuel \<or> a = b"

named_theorems upto

lemma upto_fuelD: "upto_fuel a b \<Longrightarrow> a \<noteq> Inl OutOfFuel \<Longrightarrow> a = b"
  by (simp add: upto_fuel_def)

lemma upto_refl [upto]: "upto_fuel a a"
  by (simp add: upto_fuel_def)

lemma upto_0 [simp]: "upto_fuel (Inl OutOfFuel) b"
  by (simp add: upto_fuel_def)

lemma upto_bind [upto]:
  assumes "upto_fuel a a'" and "\<And>x. upto_fuel (f x) (f' x)"
  shows "upto_fuel (rbind a f) (rbind a' f')"
proof (cases a)
  case (Inr x)
  with assms(1) have "a' = Inr x" by (simp add: upto_fuel_def)
  with Inr assms(2) [of x] show ?thesis by simp
qed (use assms(1) in \<open>auto simp: upto_fuel_def\<close>)

lemma upto_if [upto]: "upto_fuel a a' \<Longrightarrow> upto_fuel b b' \<Longrightarrow> upto_fuel (if c then a else b) (if c then a' else b')"
  by simp

lemma upto_option [upto]:
  "upto_fuel a a' \<Longrightarrow> (\<And>y. upto_fuel (f y) (f' y)) \<Longrightarrow>
     upto_fuel (case x of None \<Rightarrow> a | Some y \<Rightarrow> f y) (case x of None \<Rightarrow> a' | Some y \<Rightarrow> f' y)"
  by (cases x) auto

lemma upto_prod [upto]:
  "(\<And>a b. upto_fuel (f a b) (f' a b)) \<Longrightarrow>
     upto_fuel (case p of (a, b) \<Rightarrow> f a b) (case p of (a, b) \<Rightarrow> f' a b)"
  by (cases p) auto

lemma upto_each [upto]: "(\<And>x. upto_fuel (f x) (f' x)) \<Longrightarrow> upto_fuel (each_result f xs) (each_result f' xs)"
  by (induction xs) (simp_all add: upto_refl upto_bind)

lemma upto_for_all [upto]:
  "(\<And>x. upto_fuel (f x) (f' x)) \<Longrightarrow> upto_fuel (for_all_result f xs) (for_all_result f' xs)"
  by (induction xs) (simp_all add: upto_refl upto_bind)

lemma upto_walk_step:
  "(\<And>e acc. upto_fuel (self e acc) (self' e acc)) \<Longrightarrow>
     upto_fuel (walk_step bm br bs bt self s types e acc) (walk_step bm br bs bt self' s types e acc)"
  unfolding walk_step_def by (intro upto)

lemma upto_collect_keys [upto]:
  "n \<le> m \<Longrightarrow> upto_fuel (collect_source_literal_keys n s types e acc) (collect_source_literal_keys m s types e acc)"
proof (induction n arbitrary: m e acc)
  case (Suc n)
  then obtain k where "m = Suc k" "n \<le> k" by (cases m) auto
  then show ?case by (simp add: upto_walk_step Suc.IH)
qed simp

lemma upto_collect_key_types [upto]:
  "n \<le> m \<Longrightarrow> upto_fuel (collect_source_literal_key_types n s types e acc) (collect_source_literal_key_types m s types e acc)"
proof (induction n arbitrary: m e acc)
  case (Suc n)
  then obtain k where "m = Suc k" "n \<le> k" by (cases m) auto
  then show ?case by (simp add: upto_walk_step Suc.IH)
qed simp

lemma upto_key_expr [upto]:
  "n \<le> m \<Longrightarrow> upto_fuel (expr_source_literal_key_expr n s types e key) (expr_source_literal_key_expr m s types e key)"
proof (induction n arbitrary: m e)
  case (Suc n)
  then obtain k where "m = Suc k" "n \<le> k" by (cases m) auto
  then show ?case unfolding expr_source_literal_key_expr.simps by (auto intro!: upto Suc.IH)
qed simp

lemma upto_key_walks [upto]:
  "n \<le> m \<Longrightarrow> upto_fuel (symbol_set_source_literal_keys_from_expr n s types e sy)
                 (symbol_set_source_literal_keys_from_expr m s types e sy)"
  "n \<le> m \<Longrightarrow> upto_fuel (symbol_add_source_literal_keys_from_expr n s types e sy)
                 (symbol_add_source_literal_keys_from_expr m s types e sy)"
  "n \<le> m \<Longrightarrow> upto_fuel (expr_has_source_literal_key n s types e key) (expr_has_source_literal_key m s types e key)"
  "n \<le> m \<Longrightarrow> upto_fuel (expr_source_literal_key_type n s types e key) (expr_source_literal_key_type m s types e key)"
  unfolding symbol_set_source_literal_keys_from_expr_def symbol_add_source_literal_keys_from_expr_def
    expr_has_source_literal_key_def expr_source_literal_key_type_def
  by (intro upto; assumption)+

lemma upto_open_step [upto]:
  assumes "n \<le> m" and v: "\<And>e t. upto_fuel (v e t) (v' e t)"
  shows "upto_fuel (validate_open_step v n s types e t) (validate_open_step v' m s types e t)"
  unfolding validate_open_step_def validate_open_field_def Let_def
  by (intro upto v assms(1))

lemma upto_conforms [upto]:
  "n \<le> m \<Longrightarrow> upto_fuel (validate_expr_conforms_to_type n s types e t) (validate_expr_conforms_to_type m s types e t)"
proof (induction n arbitrary: m e t)
  case (Suc n)
  then obtain k where "m = Suc k" "n \<le> k" by (cases m) auto
  then show ?case unfolding validate_expr_conforms_to_type.simps by (auto intro!: upto Suc.IH)
qed simp

lemma upto_conform_local [upto]:
  "n \<le> m \<Longrightarrow> upto_fuel (conform_inferred_open_local n allow s types e t) (conform_inferred_open_local m allow s types e t)"
  unfolding conform_inferred_open_local_def validate_open_conforms_to_struct_def
  by (intro upto; assumption)

section \<open>Sequencing\<close>

locale closed =
  fixes r :: "an_state \<Rightarrow> an_state \<Rightarrow> bool"
  assumes r_refl: "r st st"
    and r_trans: "r st st' \<Longrightarrow> r st' st'' \<Longrightarrow> r st st''"
begin

lemma agree_ret [agree]: "agree r (aret x) (aret x)"
  by (simp add: agree_def aret_def r_refl)

lemma agree_bind [agree]:
  assumes "agree r m m'" and "\<And>x. agree r (f x) (f' x)"
  shows "agree r (abind m f) (abind m' f')"
proof (rule agreeI)
  fix st
  assume ok: "abind m f st \<noteq> Inl OutOfFuel"
  then have "m st \<noteq> Inl OutOfFuel" by (auto simp: abind_def)
  then have same: "m' st = m st" by (rule agree_outcome [OF assms(1)])
  show "abind m f st = abind m' f' st"
  proof (cases "m st")
    case (Inr y)
    with ok agree_outcome [OF assms(2), of "fst y" "snd y"] show ?thesis
      by (simp add: abind_def same split: prod.splits)
  qed (simp add: abind_def same)
next
  fix st x st'
  assume "abind m f st = Inr (x, st')"
  then obtain y st1 where "m st = Inr (y, st1)" "f y st1 = Inr (x, st')"
    by (auto simp: abind_def split: sum.splits)
  then show "r st st'" using agree_step [OF assms(1)] agree_step [OF assms(2)] r_trans by blast
qed

lemma agree_then [agree]: "agree r m m' \<Longrightarrow> agree r k k' \<Longrightarrow> agree r (athen m k) (athen m' k')"
  by (simp add: athen_def agree_bind)

lemma agree_require [agree]: "agree r (require ok n msg) (require ok n msg)"
  by (simp add: require_def agree_if agree_ret agree_die)

lemma agree_require_at [agree]: "agree r (require_at ok x msg) (require_at ok x msg)"
  unfolding require_at_def by (intro agree_if agree_option agree_ret agree_die agree_fail)

lemma agree_ptr [agree]: "agree r (the_ptr x) (the_ptr x)"
  unfolding the_ptr_def by (intro agree_option agree_ret agree_fail)

lemma agree_reads [agree]: "agree r (reads f) (reads f)"
  by (simp add: agree_def reads_def r_refl)

lemma agree_queries: "(\<And>st. f st \<noteq> Inl OutOfFuel \<Longrightarrow> f st = f' st) \<Longrightarrow> agree r (queries f) (queries f')"
proof (rule agreeI)
  fix st
  assume same: "\<And>st. f st \<noteq> Inl OutOfFuel \<Longrightarrow> f st = f' st" and "queries f st \<noteq> Inl OutOfFuel"
  then have "f st \<noteq> Inl OutOfFuel" by (auto simp: queries_def)
  with same show "queries f st = queries f' st" by (simp add: queries_def)
qed (auto simp: queries_def r_refl rbind_eq_Inr)

lemma agree_query [agree]: "agree r (queries f) (queries f)"
  by (rule agree_queries) simp

lemma agree_modifies [agree]: "(\<And>st. r st (f st)) \<Longrightarrow> agree r (modifies f) (modifies f)"
  by (simp add: agree_def modifies_def)

lemma agree_on_scope [agree]:
  "(\<And>st sc. f (an_scope st) = Inr sc \<Longrightarrow> r st (st\<lparr>an_scope := sc\<rparr>)) \<Longrightarrow> agree r (on_scope f) (on_scope f)"
  by (auto simp: agree_def on_scope_def rbind_eq_Inr)

lemma agree_upd_scope [agree]:
  "(\<And>st. r st (st\<lparr>an_scope := f (an_scope st)\<rparr>)) \<Longrightarrow> agree r (upd_scope f) (upd_scope f)"
  by (simp add: upd_scope_def agree_modifies)

lemma agree_on_types [agree]:
  "(\<And>st x ts. f (an_types st) = Inr (x, ts) \<Longrightarrow> r st (st\<lparr>an_types := ts\<rparr>)) \<Longrightarrow> agree r (on_types f) (on_types f)"
  by (auto simp: agree_def on_types_def rbind_eq_Inr)

lemma agree_upd_types [agree]:
  "(\<And>st. r st (st\<lparr>an_types := f (an_types st)\<rparr>)) \<Longrightarrow> agree r (upd_types f) (upd_types f)"
  by (simp add: upd_types_def agree_modifies)

lemma agree_get_ctx [agree]: "agree r (get_ctx f) (get_ctx f)"
  by (simp add: get_ctx_def agree_reads)

lemma agree_lookups [agree]:
  "agree r (lookup name) (lookup name)" "agree r (resolve name n) (resolve name n)"
  "agree r (type_of_name name) (type_of_name name)" "agree r (fn_of_name name) (fn_of_name name)"
  unfolding lookup_def resolve_def type_of_name_def fn_of_name_def
  by (intro agree_option agree_fail agree_reads agree_query)+

lemma agree_child [agree]: "(\<And>c. agree r (f c) (f' c)) \<Longrightarrow> agree r (at_child get put f n) (at_child get put f' n)"
  unfolding at_child_def by (intro agree)

lemma agree_item [agree]: "(\<And>c. agree r (f c) (f' c)) \<Longrightarrow> agree r (at_item get put i f n) (at_item get put i f' n)"
  unfolding at_item_def by (intro agree)

lemma agree_afold: "(\<And>i c x. agree r (f i c x) (f' i c x)) \<Longrightarrow> agree r (afold f i ns x) (afold f' i ns x)"
  by (induction ns arbitrary: i x) (simp_all, intro agree, intro agree)

lemma agree_items [agree]:
  "(\<And>i c x. agree r (f i c x) (f' i c x)) \<Longrightarrow> agree r (at_items get put f x n) (at_items get put f' x n)"
  unfolding at_items_def by (intro agree agree_afold)

lemma agree_type [agree]: "agree r (a_type t n) (a_type t n)" "agree r (a_type_ptr x n) (a_type_ptr x n)"
  unfolding a_type_def a_type_ptr_def by (intro agree)+

lemma agree_no_value [agree]: "(\<And>x. agree r (f x) (f' x)) \<Longrightarrow> agree r (no_value f x) (no_value f' x)"
  unfolding no_value_def by (intro agree)

end

section \<open>Relations the passes respect\<close>

locale preserved = closed +
  assumes r_fn: "r st st' \<Longrightarrow> cx_fn (an_ctx st') = cx_fn (an_ctx st)"
    and r_ctx: "cx_fn c = cx_fn (an_ctx st) \<Longrightarrow> r st (st\<lparr>an_ctx := c\<rparr>)"
    and r_put: "an_scope st = frame # parent \<Longrightarrow> scope_items frame (sym_name sy) = None \<Longrightarrow> r st (st\<lparr>an_scope := (frame @ [sy]) # parent\<rparr>)"
    and r_update: "(\<And>sy. sym_name sy = name \<Longrightarrow> sym_name (f sy) = name) \<Longrightarrow> r st (st\<lparr>an_scope := scope_update f name (an_scope st)\<rparr>)"
    and r_scoped: "r (st\<lparr>an_scope := [] # an_scope st\<rparr>) st' \<Longrightarrow> an_scope st' = frame # parent \<Longrightarrow> r st (st'\<lparr>an_scope := parent\<rparr>)"
    and r_open: "r st (st\<lparr>an_types := mark_struct_open (an_types st) t\<rparr>)"
    and r_push: "type_push (an_types st) info = Inr ts \<Longrightarrow> r st (st\<lparr>an_types := ts\<rparr>)"
    and r_resolve: "resolve_type (an_types st) raw n = Inr (t, ts) \<Longrightarrow> r st (st\<lparr>an_types := ts\<rparr>)"
    and r_owned: "cx_fn (an_ctx st) = TableFn x \<Longrightarrow>
      r st (st\<lparr>an_fns := map (\<lambda>fn. if fi_name fn = x then fn\<lparr>returns_owned_ref := True\<rparr> else fn) (an_fns st)\<rparr>)"
    and r_again: "fn_find (an_fns st) x = Some fn \<Longrightarrow> fi_state fn = 1 \<Longrightarrow> Functions.declared_return_type fn = Some t \<Longrightarrow>
      r st (st\<lparr>an_fns := map (\<lambda>fn. if fi_name fn = x then fn\<lparr>Functions.return_type := Some t\<rparr> else fn) (an_fns st)\<rparr>)"
    and r_body: "fn_find (an_fns st) x = Some fn \<Longrightarrow> fi_state fn \<noteq> 1 \<Longrightarrow> fi_state fn \<noteq> 2 \<Longrightarrow> an_scope st \<noteq> [] \<Longrightarrow>
      r (st\<lparr>an_fns := map (\<lambda>fn. if fi_name fn = x then fn\<lparr>fi_state := 1\<rparr> else fn) (an_fns st),
            an_scope := [[], last (an_scope st)], an_ctx := fresh_ctx (TableFn x) True True True\<rparr>) st' \<Longrightarrow>
      an_scope st' \<noteq> [] \<Longrightarrow> (Functions.declared_return_type fn \<noteq> None \<Longrightarrow> Functions.declared_return_type fn = Some t) \<Longrightarrow>
      opt_holds (\<lambda>b. validate_concrete_types b = Inr ()) (n_body n) \<Longrightarrow>
      r st (st'\<lparr>an_scope := butlast (an_scope st) @ [last (an_scope st')], an_ctx := an_ctx st,
              an_fns := map (\<lambda>fn. if fi_name fn = x
                 then fn\<lparr>fi_node := n, Functions.return_type := Some t, fi_state := 2\<rparr> else fn) (an_fns st')\<rparr>)"
begin

lemma agree_upd_ctx [agree]: "(\<And>c. cx_fn (f c) = cx_fn c) \<Longrightarrow> agree r (upd_ctx f) (upd_ctx f)"
  unfolding upd_ctx_def by (intro agree_modifies r_ctx)

text \<open>Scopes and contexts around a pass.\<close>

lemma in_new_scope_run:
  "in_new_scope m st =
     (case m (st\<lparr>an_scope := [] # an_scope st\<rparr>) of
        Inl e \<Rightarrow> Inl e
      | Inr (x, st') \<Rightarrow>
          (case an_scope st' of [] \<Rightarrow> Inl NullDeref
           | frame # parent \<Rightarrow> Inr ((x, frame), st'\<lparr>an_scope := parent\<rparr>)))"
  by (auto simp: in_new_scope_def athen_def abind_def upd_scope_def modifies_def scope_new_def pop_frame_def
      aret_def split: sum.splits list.splits)

lemma agree_in_new_scope [agree]:
  assumes "agree r m m'"
  shows "agree r (in_new_scope m) (in_new_scope m')"
proof (rule agreeI)
  fix st
  assume "in_new_scope m st \<noteq> Inl OutOfFuel"
  then have "m (st\<lparr>an_scope := [] # an_scope st\<rparr>) \<noteq> Inl OutOfFuel" by (auto simp: in_new_scope_run)
  then show "in_new_scope m st = in_new_scope m' st"
    by (simp add: in_new_scope_run agree_outcome [OF assms])
next
  fix st x st'
  assume "in_new_scope m st = Inr (x, st')"
  then obtain y st1 frame parent where run: "m (st\<lparr>an_scope := [] # an_scope st\<rparr>) = Inr (y, st1)"
    and st1: "an_scope st1 = frame # parent" and st': "st' = st1\<lparr>an_scope := parent\<rparr>"
    by (auto simp: in_new_scope_run split: sum.splits list.splits)
  show "r st st'" unfolding st' by (rule r_scoped [OF agree_step [OF assms run] st1])
qed

lemma agree_method_scoped [agree]: "agree r m m' \<Longrightarrow> agree r (method_scoped m) (method_scoped m')"
  unfolding method_scoped_def by (intro agree)

lemma agree_scoped_statements [agree]:
  "(\<And>b. agree r (f b) (f' b)) \<Longrightarrow> agree r (scoped_statements f b) (scoped_statements f' b)"
  unfolding scoped_statements_def by (intro agree)

lemma agree_ctx_copy [agree]:
  assumes f: "\<And>c. cx_fn (f c) = cx_fn c" and m: "agree r m m'"
  shows "agree r (with_ctx_copy f m) (with_ctx_copy f m')"
proof (rule agreeI)
  fix st
  assume "with_ctx_copy f m st \<noteq> Inl OutOfFuel"
  then have "m (st\<lparr>an_ctx := f (an_ctx st)\<rparr>) \<noteq> Inl OutOfFuel" by (auto simp: with_ctx_copy_def)
  then show "with_ctx_copy f m st = with_ctx_copy f m' st"
    by (simp add: with_ctx_copy_def agree_outcome [OF m])
next
  fix st x st'
  assume "with_ctx_copy f m st = Inr (x, st')"
  then obtain st1 c where run: "m (st\<lparr>an_ctx := f (an_ctx st)\<rparr>) = Inr (x, st1)"
    and st': "st' = st1\<lparr>an_ctx := c\<rparr>" and c: "cx_fn c = cx_fn (an_ctx st)"
    by (auto simp: with_ctx_copy_def split: sum.splits)
  have "r st st1" using r_trans [OF r_ctx agree_step [OF m run]] by (simp add: f)
  moreover from r_fn [OF this] c have "r st1 st'" unfolding st' by (intro r_ctx) simp
  ultimately show "r st st'" by (rule r_trans)
qed

lemma agree_fresh_loop_id [agree]: "agree r fresh_loop_id fresh_loop_id"
  by (simp add: agree_def fresh_loop_id_def Let_def r_ctx)

text \<open>Stores in the scopes.\<close>

lemma r_put_symbol: "scope_define_symbol sy n (an_scope st) = Inr sc \<Longrightarrow> r st (st\<lparr>an_scope := sc\<rparr>)"
  by (cases "an_scope st")
    (auto simp: scope_define_symbol_def scope_lookup_current_def scope_put_def die_node_at_def
      split: if_splits intro: r_put)

lemma r_same_scope: "sc = an_scope st \<Longrightarrow> r st (st\<lparr>an_scope := sc\<rparr>)"
  by (simp add: r_refl)

lemma r_define:
  "scope_define_symbol sy n (an_scope st) = Inr sc \<Longrightarrow> r st (st\<lparr>an_scope := sc\<rparr>)"
  "scope_define (an_scope st) name t c n = Inr sc \<Longrightarrow> r st (st\<lparr>an_scope := sc\<rparr>)"
  "scope_define_ctx (an_scope st) name t i el n = Inr sc \<Longrightarrow> r st (st\<lparr>an_scope := sc\<rparr>)"
  "scope_define_alias call ali t c (an_scope st) = Inr sc \<Longrightarrow> r st (st\<lparr>an_scope := sc\<rparr>)"
  "scope_define_loop_source_ctx (an_scope st) p src i el et d = Inr sc \<Longrightarrow> r st (st\<lparr>an_scope := sc\<rparr>)"
  by (auto simp: scope_define_def scope_define_ctx_def scope_define_alias_def scope_define_loop_source_ctx_def
      rbind_eq_Inr split: option.splits if_splits intro: r_put_symbol r_same_scope)

definition scope_ok :: "(scope \<Rightarrow> scope) \<Rightarrow> bool" where
  "scope_ok f \<longleftrightarrow> (\<forall>st. r st (st\<lparr>an_scope := f (an_scope st)\<rparr>))"

lemma scope_okD: "scope_ok f \<Longrightarrow> r st (st\<lparr>an_scope := f (an_scope st)\<rparr>)"
  by (simp add: scope_ok_def)

lemma scope_ok_update: "(\<And>sy. sym_name (f sy) = sym_name sy) \<Longrightarrow> scope_ok (scope_update f name)"
  by (simp add: scope_ok_def r_update)

lemma r_scope_chain:
  assumes "r st (st\<lparr>an_scope := sc\<rparr>)" and "\<And>sy. sym_name (f sy) = sym_name sy"
  shows "r st (st\<lparr>an_scope := scope_update f name sc\<rparr>)"
proof -
  have "r (st\<lparr>an_scope := sc\<rparr>) (st\<lparr>an_scope := scope_update f name sc\<rparr>)"
    using r_update [of name f "st\<lparr>an_scope := sc\<rparr>"] assms(2) by simp
  with assms(1) show ?thesis by (rule r_trans)
qed

lemma r_ownership:
  "r st (st\<lparr>an_scope := symbol_set_ref_source_from_expr v name (an_scope st)\<rparr>)"
  "r st (st\<lparr>an_scope := symbol_set_assignment_ownership v types name (an_scope st)\<rparr>)"
  "r st (st\<lparr>an_scope := symbol_mark_owned_if_freeable types name (an_scope st)\<rparr>)"
proof -
  have source: "r st (st\<lparr>an_scope := symbol_set_ref_source_from_expr v name sc\<rparr>)"
    if "r st (st\<lparr>an_scope := sc\<rparr>)" for sc
    using that
    by (auto simp: symbol_set_ref_source_from_expr_def Let_def symbol_clear_ref_source_def symbol_set_ref_source_def
        split: option.splits intro!: r_scope_chain)
  show "r st (st\<lparr>an_scope := symbol_set_ref_source_from_expr v name (an_scope st)\<rparr>)"
    by (rule source) (simp add: r_refl)
  show "r st (st\<lparr>an_scope := symbol_set_assignment_ownership v types name (an_scope st)\<rparr>)"
    unfolding symbol_set_assignment_ownership_def Let_def
    by (auto split: option.splits simp: r_refl set_ownership_def symbol_clear_ref_source_def
        intro!: source r_scope_chain)
  show "r st (st\<lparr>an_scope := symbol_mark_owned_if_freeable types name (an_scope st)\<rparr>)"
    unfolding symbol_mark_owned_if_freeable_def by (rule r_update) (simp add: set_ownership_def)
qed

lemma r_refine: "r st (st\<lparr>an_scope := scope_update (refine_symbol_type t) name (an_scope st)\<rparr>)"
  by (rule r_update) (simp add: refine_symbol_type_def)

lemma r_forget_key: "r st (st\<lparr>an_scope := scope_update (symbol_remove_source_literal_key k) name (an_scope st)\<rparr>)"
  by (rule r_update) (simp add: symbol_remove_source_literal_key_def)

lemma r_restore:
  "r st (st\<lparr>an_scope := scope_update (sym_c_expr_update f) name (an_scope st)\<rparr>)"
  "r st (st\<lparr>an_scope := scope_update (sym_node_update g) name (an_scope st)\<rparr>)"
  by (rule r_update; simp)+

lemma r_replace: "sym_name sy = name \<Longrightarrow> r st (st\<lparr>an_scope := scope_update (\<lambda>_. sy) name (an_scope st)\<rparr>)"
  by (rule r_update) simp

lemma r_set_ownership: "r st (st\<lparr>an_scope := scope_update (set_ownership own) name (an_scope st)\<rparr>)"
  by (rule r_update) (simp add: set_ownership_def)

lemmas r_stores = r_define r_ownership r_refine r_forget_key r_restore r_set_ownership r_open r_push r_resolve

end

section \<open>The recursive calls\<close>

locale recursion = preserved +
  fixes R R' :: an_rec
  assumes rec_fuel: "r_fuel R \<le> r_fuel R'"
    and rec_expr: "agree r (r_expr R n want) (r_expr R' n want)"
    and rec_lvalue: "agree r (r_lvalue R n) (r_lvalue R' n)"
    and rec_stmt: "agree r (r_stmt R n) (r_stmt R' n)"
    and rec_block: "agree r (r_block R n) (r_block R' n)"
    and rec_value_block: "agree r (r_value_block R name n) (r_value_block R' name n)"
    and rec_fn: "agree r (r_fn R name) (r_fn R' name)"
begin

lemmas agree_rec [agree] = rec_expr rec_lvalue rec_stmt rec_block rec_value_block rec_fn

text \<open>The walks over values take the fuel of the recursion.\<close>

lemmas upto_rec = upto_key_walks [OF rec_fuel] upto_conform_local [OF rec_fuel]

lemma agree_walks [agree]:
  "agree r (queries (\<lambda>st. expr_has_source_literal_key (r_fuel R) (sc st) (ty st) e k))
     (queries (\<lambda>st. expr_has_source_literal_key (r_fuel R') (sc st) (ty st) e k))"
  "agree r (queries (\<lambda>st. expr_source_literal_key_type (r_fuel R) (sc st) (ty st) e k))
     (queries (\<lambda>st. expr_source_literal_key_type (r_fuel R') (sc st) (ty st) e k))"
  "agree r (queries (\<lambda>st. conform_inferred_open_local (r_fuel R) (ok st) (sc st) (ty st) v t))
     (queries (\<lambda>st. conform_inferred_open_local (r_fuel R') (ok st) (sc st) (ty st) v t))"
  by (rule agree_queries, rule upto_fuelD, rule upto_rec, assumption)+

lemma agree_literal_keys [agree]:
  "agree r (add_literal_keys R e name) (add_literal_keys R' e name)"
  "agree r (set_literal_keys R e name) (set_literal_keys R' e name)"
proof -
  have keys: "agree r m m'"
    if m: "\<And>st. m st = (case scope_try_resolve (an_scope st) name of None \<Rightarrow> Inl NullDeref
        | Some sy \<Rightarrow> rbind (walk st sy) (\<lambda>sy'. Inr ((), st\<lparr>an_scope := scope_update (\<lambda>_. sy') name (an_scope st)\<rparr>)))"
      and m': "\<And>st. m' st = (case scope_try_resolve (an_scope st) name of None \<Rightarrow> Inl NullDeref
        | Some sy \<Rightarrow> rbind (walk' st sy) (\<lambda>sy'. Inr ((), st\<lparr>an_scope := scope_update (\<lambda>_. sy') name (an_scope st)\<rparr>)))"
      and walk: "\<And>st sy. upto_fuel (walk st sy) (walk' st sy)"
      and named: "\<And>st sy sy'. walk st sy = Inr sy' \<Longrightarrow> sym_name sy' = sym_name sy"
    for m m' :: "unit an" and walk walk'
  proof (rule agreeI)
    fix st
    assume "m st \<noteq> Inl OutOfFuel"
    then show "m st = m' st"
    proof (cases "scope_try_resolve (an_scope st) name")
      case (Some sy)
      then show ?thesis
        using \<open>m st \<noteq> Inl OutOfFuel\<close> upto_fuelD [OF walk, of st sy] by (cases "walk st sy") (auto simp: m m')
    qed (simp add: m m')
  next
    fix st x st'
    assume "m st = Inr (x, st')"
    then show "r st st'"
      using named scope_try_resolve_name
      by (fastforce simp: m rbind_eq_Inr split: option.splits intro: r_replace)
  qed
  show "agree r (add_literal_keys R e name) (add_literal_keys R' e name)"
    by (rule keys [OF add_literal_keys_def add_literal_keys_def upto_rec(2)])
      (auto simp: symbol_add_source_literal_keys_from_expr_def rbind_eq_Inr)
  show "agree r (set_literal_keys R e name) (set_literal_keys R' e name)"
    by (rule keys [OF set_literal_keys_def set_literal_keys_def upto_rec(1)])
      (auto simp: symbol_set_source_literal_keys_from_expr_def rbind_eq_Inr)
qed

end

end
