(* ===== verification/AnalyzePasses.thy ===== *)
theory AnalyzePasses
  imports AnalyzeSteps
begin

text \<open>
  Every pass of the analyzer, in the order of the code, agrees with itself on recursive calls
  that agree: what more fuel changes, and what a pass does to the state, follow for the whole
  analyzer from the locale \<open>recursion\<close> by induction on the fuel.
\<close>

section \<open>The analysis of a function, as one step\<close>

lemma upd_fn_run: "upd_fn name f st = Inr ((), st\<lparr>an_fns := map (\<lambda>fn. if fi_name fn = name then f fn else fn) (an_fns st)\<rparr>)"
  by (simp add: upd_fn_def modifies_def)

lemma analyze_fn_run:
  "analyze_fn R name st =
     (case fn_find (an_fns st) name of
        None \<Rightarrow> Inl NullDeref
      | Some fn \<Rightarrow>
          if fi_state fn = 2 then Inr ((), st)
          else if fi_state fn = 1 then
            (case Functions.declared_return_type fn of
               Some t \<Rightarrow> upd_fn name (\<lambda>fn. fn\<lparr>Functions.return_type := Some t\<rparr>) st
             | None \<Rightarrow> adie (fi_node fn) (''recursive return inference for function '' @ quoted (fi_name fn)
                 @ '' needs an explicit -> return type'') st)
          else
            (case in_fn_scope (fresh_ctx (TableFn name) True True True) (fn_body R fn)
                    (st\<lparr>an_fns := map (\<lambda>fn. if fi_name fn = name then fn\<lparr>fi_state := 1\<rparr> else fn) (an_fns st)\<rparr>) of
               Inl e \<Rightarrow> Inl e
             | Inr ((t, n), st') \<Rightarrow>
                 upd_fn name (\<lambda>fn. fn\<lparr>fi_node := set_type t n, Functions.return_type := Some t, fi_state := 2\<rparr>) st'))"
  by (auto simp: analyze_fn_def get_fn_def the_ptr_def reads_def abind_def athen_def aret_def afail_def upd_fn_run
      split: option.splits sum.splits)

lemma analyze_fn_cases:
  assumes "analyze_fn R name st = Inr (x, st')"
  obtains (finished) fn where "fn_find (an_fns st) name = Some fn" "fi_state fn = 2" "st' = st"
  | (again) fn t where "fn_find (an_fns st) name = Some fn" "fi_state fn = 1"
      "Functions.declared_return_type fn = Some t"
      "st' = st\<lparr>an_fns := map (\<lambda>fn. if fi_name fn = name then fn\<lparr>Functions.return_type := Some t\<rparr> else fn) (an_fns st)\<rparr>"
  | (body) fn t n st1 where "fn_find (an_fns st) name = Some fn" "fi_state fn \<noteq> 1" "fi_state fn \<noteq> 2" "an_scope st \<noteq> []"
      "fn_body R fn (st\<lparr>an_fns := map (\<lambda>fn. if fi_name fn = name then fn\<lparr>fi_state := 1\<rparr> else fn) (an_fns st),
         an_scope := [[], last (an_scope st)], an_ctx := fresh_ctx (TableFn name) True True True\<rparr>) = Inr ((t, n), st1)"
      "an_scope st1 \<noteq> []"
      "st' = st1\<lparr>an_scope := butlast (an_scope st) @ [last (an_scope st1)], an_ctx := an_ctx st,
              an_fns := map (\<lambda>fn. if fi_name fn = name
                 then fn\<lparr>fi_node := set_type t n, Functions.return_type := Some t, fi_state := 2\<rparr> else fn) (an_fns st1)\<rparr>"
proof -
  obtain fn where fn: "fn_find (an_fns st) name = Some fn"
    using assms by (auto simp: analyze_fn_run split: option.splits)
  show thesis
  proof (cases "fi_state fn = 2 \<or> fi_state fn = 1")
    case True
    then show ?thesis
      using assms fn finished again
      by (auto simp: analyze_fn_run adie_def afail_def upd_fn_run split: option.splits if_splits)
  next
    case False
    with assms fn obtain t n st2 where run: "in_fn_scope (fresh_ctx (TableFn name) True True True) (fn_body R fn)
        (st\<lparr>an_fns := map (\<lambda>fn. if fi_name fn = name then fn\<lparr>fi_state := 1\<rparr> else fn) (an_fns st)\<rparr>) = Inr ((t, n), st2)"
      and st': "st' = st2\<lparr>an_fns := map (\<lambda>fn. if fi_name fn = name
                 then fn\<lparr>fi_node := set_type t n, Functions.return_type := Some t, fi_state := 2\<rparr> else fn) (an_fns st2)\<rparr>"
      by (auto simp: analyze_fn_run upd_fn_run split: option.splits sum.splits)
    from run obtain st1 where
      "fn_body R fn (st\<lparr>an_fns := map (\<lambda>fn. if fi_name fn = name then fn\<lparr>fi_state := 1\<rparr> else fn) (an_fns st),
         an_scope := [[], last (an_scope st)], an_ctx := fresh_ctx (TableFn name) True True True\<rparr>) = Inr ((t, n), st1)"
      "an_scope st \<noteq> []" "an_scope st1 \<noteq> []"
      "st2 = st1\<lparr>an_scope := butlast (an_scope st) @ [last (an_scope st1)], an_ctx := an_ctx st\<rparr>"
      by (auto simp: in_fn_scope_def split: if_splits sum.splits)
    then show ?thesis using False fn st' by (intro body) auto
  qed
qed

lemma abind_Inr: "abind m f st = Inr (x, st') \<longleftrightarrow> (\<exists>y st1. m st = Inr (y, st1) \<and> f y st1 = Inr (x, st'))"
  by (auto simp: abind_def split: sum.splits)

lemma athen_Inr: "athen m k st = Inr (x, st') \<longleftrightarrow> (\<exists>y st1. m st = Inr (y, st1) \<and> k st1 = Inr (x, st'))"
  by (simp add: athen_def abind_Inr)

lemma fn_body_declared:
  "fn_body R fn st = Inr ((t, n), st') \<Longrightarrow> Functions.declared_return_type fn \<noteq> None \<Longrightarrow>
     Functions.declared_return_type fn = Some t"
  by (auto simp: fn_body_def abind_Inr athen_Inr aret_def)

lemma set_type_body: "n_body (set_type t n) = n_body n"
  by (cases n) (simp add: set_type_def upd_attrs_def)

lemma fn_body_concrete:
  "fn_body R fn st = Inr ((t, n), st') \<Longrightarrow> opt_holds (\<lambda>b. validate_concrete_types b = Inr ()) (n_body (set_type t n))"
  by (auto simp: fn_body_def abind_Inr athen_Inr aret_def the_ptr_def afail_def queries_def rbind_eq_Inr set_type_body
      opt_holds_def split: option.splits if_splits)

context recursion
begin

section \<open>Names and generated types\<close>

lemma agree_analyze_name [agree]:
  "agree r (analyze_name n) (analyze_name n)"
  "agree r (synthesize_struct name at fs) (synthesize_struct name at fs)"
  unfolding analyze_name_def synthesize_struct_def Let_def
  by (intro agree; auto simp: rbind_eq_Inr intro: r_stores)+

lemma agree_synthesize_record_type [agree]:
  "agree r (synthesize_record_type rec pre) (synthesize_record_type rec pre)"
  "agree r (synthesize_group_type call key_type element_type) (synthesize_group_type call key_type element_type)"
  unfolding synthesize_record_type_def synthesize_group_type_def Let_def
  by (intro agree; auto intro: r_stores)+

section \<open>Collections (\<open>collections.c\<close>)\<close>

lemma agree_expect_of [agree]:
  "agree r (expect_of R want n) (expect_of R' want n)"
  "agree r (infer_of R n) (infer_of R' n)"
  "agree r (block_of R x1) (block_of R' x1)"
  unfolding expect_of_def infer_of_def block_of_def Let_def
  by (intro agree; auto intro: r_stores)+

lemma agree_analyze_chain_receiver [agree]:
  "agree r (analyze_chain_receiver R n) (analyze_chain_receiver R' n)"
  "agree r (analyze_loop_body R bdy) (analyze_loop_body R' bdy)"
  "agree r (analyze_lvalue R t) (analyze_lvalue R' t)"
  "agree r (collection_method_scope element_type call) (collection_method_scope element_type call)"
  "agree r (map_method_scope key_type value_type call) (map_method_scope key_type value_type call)"
  "agree r (needs_bool get what p) (needs_bool get what p)"
  "agree r (value_block_at R method get put n) (value_block_at R' method get put n)"
  unfolding analyze_chain_receiver_def analyze_loop_body_def analyze_lvalue_def collection_method_scope_def
    map_method_scope_def needs_bool_def value_block_at_def Let_def
  by (intro agree; auto intro: r_stores)+

lemma agree_value_branch [agree]:
  "agree r (value_branch R method branch_type i branch u) (value_branch R' method branch_type i branch u)"
  unfolding value_branch_def Let_def
  by (intro agree; auto intro: r_stores)

lemma agree_analyze_method_value_stmt [agree]:
  "agree r (analyze_method_value_stmt R method st) (analyze_method_value_stmt R' method st)"
  unfolding analyze_method_value_stmt_def Let_def
  by (intro agree; auto intro: r_stores)

lemma agree_value_statements [agree]: "agree r (value_statements R method sts) (value_statements R' method sts)"
proof (induction sts)
  case (Cons st sts)
  then show ?case unfolding value_statements.simps by (intro agree)
qed (simp add: agree_fail)

lemma agree_analyze_method_value_block [agree]:
  "agree r (analyze_method_value_block R method b) (analyze_method_value_block R' method b)"
  "agree r (reject_ret_in_body method call) (reject_ret_in_body method call)"
  unfolding analyze_method_value_block_def reject_ret_in_body_def Let_def
  by (intro agree; auto intro: r_stores)+

lemma agree_analyze_method_body [agree]:
  "agree r (analyze_method_body R call) (analyze_method_body R' call)"
  "agree r (agg_step_type R i step value_type) (agg_step_type R' i step value_type)"
  unfolding analyze_method_body_def agg_step_type_def Let_def
  by (intro agree; auto intro: r_stores)+

lemma agree_analyze_agg_step_body [agree]:
  "agree r (analyze_agg_step_body R call) (analyze_agg_step_body R' call)"
  unfolding analyze_agg_step_body_def Let_def
  by (intro agree; auto intro: r_stores)

lemma agree_analyze_agg_value [agree]:
  "agree r (analyze_agg_value R call) (analyze_agg_value R' call)"
  "agree r (mark_open t) (mark_open t)"
  "agree r (refine_named t name) (refine_named t name)"
  "agree r (mark_owned n) (mark_owned n)"
  "agree r (is_struct t) (is_struct t)"
  "agree r (open_map_entry R i entry u) (open_map_entry R' i entry u)"
  unfolding analyze_agg_value_def mark_open_def refine_named_def mark_owned_def is_struct_def open_map_entry_def
    Let_def
  by (intro agree; auto intro: r_stores)+

lemma agree_analyze_open_map_literal [agree]:
  "agree r (analyze_open_map_literal R type literal) (analyze_open_map_literal R' type literal)"
  "agree r (needs_type what want p) (needs_type what want p)"
  unfolding analyze_open_map_literal_def needs_type_def Let_def
  by (intro agree; auto intro: r_stores)+

lemma agree_analyze_join_right [agree]:
  "agree r (analyze_join_right R at left_type right) (analyze_join_right R' at left_type right)"
  "agree r (refine_if_named t n) (refine_if_named t n)"
  unfolding analyze_join_right_def refine_if_named_def Let_def
  by (intro agree; auto intro: r_stores)+

lemma agree_analyze_array_add_result [agree]:
  "agree r (analyze_array_add_result R object_type call) (analyze_array_add_result R' object_type call)"
  "agree r (analyze_collection_plus_right R at left_type left right) (analyze_collection_plus_right R' at left_type left right)"
  "agree r (refine_assignment_target t n) (refine_assignment_target t n)"
  "agree r (is_complete_named_value name) (is_complete_named_value name)"
  unfolding analyze_array_add_result_def analyze_collection_plus_right_def refine_assignment_target_def
    is_complete_named_value_def Let_def
  by (intro agree; auto intro: r_stores)+

lemma agree_reject_direct_global_mutation_target [agree]:
  "agree r (reject_direct_global_mutation_target t) (reject_direct_global_mutation_target t)"
  unfolding reject_direct_global_mutation_target_def
  by (intro agree)

lemma agree_analyze_mutating_collection_plus_stmt [agree]:
  "agree r (analyze_mutating_collection_plus_stmt R expr) (analyze_mutating_collection_plus_stmt R' expr)"
  "agree r (body_or_arg R both neither call) (body_or_arg R' both neither call)"
  unfolding analyze_mutating_collection_plus_stmt_def body_or_arg_def Let_def
  by (intro agree; auto intro: r_stores)+

lemma agree_analyze_mutating_collection_method_stmt [agree]:
  "agree r (analyze_mutating_collection_method_stmt R expr) (analyze_mutating_collection_method_stmt R' expr)"
  unfolding analyze_mutating_collection_method_stmt_def Let_def
  by (intro agree; auto intro: r_stores)

section \<open>Calls (\<open>calls.c\<close>)\<close>

lemma agree_argc [agree]:
  "agree r (argc okn msg call) (argc okn msg call)"
  "agree r (infer_arg R i call) (infer_arg R' i call)"
  "agree r (require_arg okc i call msg) (require_arg okc i call msg)"
  unfolding argc_def infer_arg_def require_arg_def Let_def
  by (intro agree; auto intro: r_stores)+

lemma agree_arg_of_type [agree]:
  "agree r (arg_of_type R i want msg call) (arg_of_type R' i want msg call)"
  "agree r (check_args R ps what call) (check_args R' ps what call)"
  "agree r (finish_fn_call R fname call) (finish_fn_call R' fname call)"
  "agree r (fn_value_args R ft call) (fn_value_args R' ft call)"
  "agree r (analyze_struct_constructor_call R type_name display_name call) (analyze_struct_constructor_call R' type_name display_name call)"
  unfolding arg_of_type_def check_args_def finish_fn_call_def fn_value_args_def
    analyze_struct_constructor_call_def Let_def
  by (intro agree; auto intro: r_stores)+

lemma agree_analyze_cast_call [agree]:
  "agree r (analyze_cast_call R name call) (analyze_cast_call R' name call)"
  "agree r (analyze_log_call R call) (analyze_log_call R' call)"
  "agree r (analyze_assert_call R call) (analyze_assert_call R' call)"
  "agree r (analyze_len_call R call) (analyze_len_call R' call)"
  "agree r (needle_is want needle msg result_type call) (needle_is want needle msg result_type call)"
  unfolding analyze_cast_call_def analyze_log_call_def analyze_assert_call_def analyze_len_call_def
    needle_is_def Let_def
  by (intro agree; auto intro: r_stores)+

lemma agree_analyze_has_call [agree]:
  "agree r (analyze_has_call R call) (analyze_has_call R' call)"
  "agree r (analyze_find_call R call) (analyze_find_call R' call)"
  "agree r (analyze_min_max_call R name call) (analyze_min_max_call R' name call)"
  "agree r (analyze_text_call R name call) (analyze_text_call R' name call)"
  "agree r (analyze_replace_call R call) (analyze_replace_call R' call)"
  "agree r (analyze_affix_call R name call) (analyze_affix_call R' name call)"
  "agree r (analyze_char_class_call R name call) (analyze_char_class_call R' name call)"
  "agree r (analyze_json_call R call) (analyze_json_call R' call)"
  unfolding analyze_has_call_def analyze_find_call_def analyze_min_max_call_def analyze_text_call_def
    analyze_replace_call_def analyze_affix_call_def analyze_char_class_call_def analyze_json_call_def Let_def
  by (intro agree; auto intro: r_stores)+

lemma agree_analyze_rand_call [agree]:
  "agree r (analyze_rand_call R call) (analyze_rand_call R' call)"
  "agree r (analyze_nested_call R name c call) (analyze_nested_call R' name c call)"
  "agree r (analyze_fn_symbol_call R sy call) (analyze_fn_symbol_call R' sy call)"
  "agree r (analyze_user_call R name call) (analyze_user_call R' name call)"
  unfolding analyze_rand_call_def analyze_nested_call_def analyze_fn_symbol_call_def analyze_user_call_def Let_def
  by (intro agree; auto intro: r_stores)+

lemma agree_analyze_named_call [agree]:
  "agree r (analyze_named_call R name call) (analyze_named_call R' name call)"
  unfolding analyze_named_call_def Let_def
  by (intro agree; auto intro: r_stores)

lemma agree_analyze_call [agree]:
  "agree r (analyze_call R call) (analyze_call R' call)"
  "agree r (adapter_arg_step R display specs i arg u) (adapter_arg_step R' display specs i arg u)"
  "agree r (no_object_type call) (no_object_type call)"
  unfolding analyze_call_def adapter_arg_step_def no_object_type_def Let_def
  by (intro agree; auto intro: r_stores)+

lemma agree_analyze_system_adapter_call [agree]:
  "agree r (analyze_system_adapter_call R name call) (analyze_system_adapter_call R' name call)"
  unfolding analyze_system_adapter_call_def Let_def
  by (intro agree; auto intro: r_stores)

section \<open>Methods (\<open>calls.c\<close>)\<close>

lemma agree_req_port [agree]:
  "agree r (req_port R name tls call) (req_port R' name tls call)"
  "agree r (req_handler_fn name what handler) (req_handler_fn name what handler)"
  unfolding req_port_def req_handler_fn_def Let_def
  by (intro agree; auto intro: r_stores)+

lemma agree_host_handler [agree]:
  "agree r (host_handler name ctx_type handler) (host_handler name ctx_type handler)"
  unfolding host_handler_def Let_def
  by (intro agree; auto intro: r_stores)

lemma agree_analyze_req_host [agree]:
  "agree r (analyze_req_host R name call) (analyze_req_host R' name call)"
  "agree r (ws_handler name handler) (ws_handler name handler)"
  unfolding analyze_req_host_def ws_handler_def Let_def
  by (intro agree; auto intro: r_stores)+

lemma agree_analyze_req_ws [agree]:
  "agree r (analyze_req_ws R name call) (analyze_req_ws R' name call)"
  "agree r (analyze_req_http R name call) (analyze_req_http R' name call)"
  unfolding analyze_req_ws_def analyze_req_http_def Let_def
  by (intro agree; auto intro: r_stores)+

lemma agree_analyze_req_call [agree]:
  "agree r (analyze_req_call R name call) (analyze_req_call R' name call)"
  "agree r (analyze_init_call obj call) (analyze_init_call obj call)"
  "agree r (analyze_json_method R name call) (analyze_json_method R' name call)"
  "agree r (analyze_module_call R obj name call) (analyze_module_call R' obj name call)"
  "agree r (delimiter_arg R what call) (delimiter_arg R' what call)"
  unfolding analyze_req_call_def analyze_init_call_def analyze_json_method_def analyze_module_call_def
    delimiter_arg_def Let_def
  by (intro agree; auto intro: r_stores)+

lemma agree_analyze_to_arr [agree]:
  "agree r (analyze_to_arr R ot call) (analyze_to_arr R' ot call)"
  "agree r (analyze_to_str R ot call) (analyze_to_str R' ot call)"
  "agree r (upd_item R call) (upd_item R' call)"
  "agree r (predicate_arg R on name call) (predicate_arg R' on name call)"
  "agree r (tap_statement R i st u) (tap_statement R' i st u)"
  unfolding analyze_to_arr_def analyze_to_str_def upd_item_def predicate_arg_def tap_statement_def Let_def
  by (intro agree; auto intro: r_stores)+

lemma agree_analyze_tap [agree]:
  "agree r (analyze_tap R ot call) (analyze_tap R' ot call)"
  "agree r (analyze_group R et call) (analyze_group R' et call)"
  "agree r (analyze_sort R ot call) (analyze_sort R' ot call)"
  "agree r (analyze_agg R on call) (analyze_agg R' on call)"
  unfolding analyze_tap_def analyze_group_def analyze_sort_def analyze_agg_def Let_def
  by (intro agree; auto intro: r_stores)+

lemma agree_analyze_array_method [agree]:
  "agree r (analyze_array_method R name ot call) (analyze_array_method R' name ot call)"
  "agree r (str_method_scope call) (str_method_scope call)"
  unfolding analyze_array_method_def str_method_scope_def Let_def
  by (intro agree; auto intro: r_stores)+

lemma agree_analyze_str_method [agree]:
  "agree r (analyze_str_method R name call) (analyze_str_method R' name call)"
  "agree r (analyze_map_method R name ot call) (analyze_map_method R' name ot call)"
  "agree r (analyze_open_has R ot call) (analyze_open_has R' ot call)"
  "agree r (analyze_shape_fill R name call) (analyze_shape_fill R' name call)"
  "agree r (analyze_upd_overlay R ot call) (analyze_upd_overlay R' ot call)"
  "agree r (analyze_fn_field_call R name ft call) (analyze_fn_field_call R' name ft call)"
  unfolding analyze_str_method_def analyze_map_method_def analyze_open_has_def analyze_shape_fill_def
    analyze_upd_overlay_def analyze_fn_field_call_def Let_def
  by (intro agree; auto intro: r_stores)+

lemma agree_analyze_last_methods [agree]:
  "agree r (analyze_last_methods R name ot call) (analyze_last_methods R' name ot call)"
  unfolding analyze_last_methods_def Let_def
  by (intro agree; auto intro: r_stores)

lemma agree_or_last [agree]:
  "agree r (or_last R name ot p) (or_last R' name ot p)"
  unfolding or_last_def Let_def
  by (intro agree; auto intro: r_stores)

lemma agree_analyze_receiver_method [agree]:
  "agree r (analyze_receiver_method R name ot call) (analyze_receiver_method R' name ot call)"
  unfolding analyze_receiver_method_def Let_def
  by (intro agree; auto intro: r_stores)

lemma agree_analyze_chain_call [agree]:
  "agree r (analyze_chain_call R name call) (analyze_chain_call R' name call)"
  unfolding analyze_chain_call_def Let_def
  by (intro agree; auto intro: r_stores)

lemma agree_analyze_method_call [agree]:
  "agree r (analyze_method_call R call) (analyze_method_call R' call)"
  unfolding analyze_method_call_def Let_def
  by (intro agree; auto intro: r_stores)

section \<open>Expressions (\<open>expressions.c\<close>)\<close>

lemma agree_fn_value_name [agree]:
  "agree r (fn_value_name want e) (fn_value_name want e)"
  "agree r (returned e) (returned e)"
  unfolding fn_value_name_def returned_def Let_def
  by (intro agree; auto intro: r_stores)+

lemma agree_analyze_name_as [agree]:
  "agree r (analyze_name_as R want found actual e) (analyze_name_as R' want found actual e)"
  unfolding analyze_name_as_def Let_def
  by (intro agree; auto intro: r_stores)

lemma agree_analyze_name_expr [agree]:
  "agree r (analyze_name_expr R want e) (analyze_name_expr R' want e)"
  "agree r (shape_dim R i dim u) (shape_dim R' i dim u)"
  unfolding analyze_name_expr_def shape_dim_def Let_def
  by (intro agree; auto intro: r_stores)+

lemma agree_analyze_shape [agree]:
  "agree r (analyze_shape R want e) (analyze_shape R' want e)"
  "agree r (infer_item R i n u) (infer_item R' i n u)"
  "agree r (array_item R expected_element i item element_type) (array_item R' expected_element i item element_type)"
  unfolding analyze_shape_def infer_item_def array_item_def Let_def
  by (intro agree; auto intro: r_stores)+

lemma agree_analyze_array [agree]:
  "agree r (analyze_array R want e) (analyze_array R' want e)"
  "agree r (open_entry R i entry u) (open_entry R' i entry u)"
  "agree r (map_entry R key_type value_type i entry inferred) (map_entry R' key_type value_type i entry inferred)"
  "agree r (require_fields t given e) (require_fields t given e)"
  unfolding analyze_array_def open_entry_def map_entry_def require_fields_def Let_def
  by (intro agree; auto intro: r_stores)+

lemma agree_analyze_map_literal [agree]:
  "agree r (analyze_map_literal R want e) (analyze_map_literal R' want e)"
  "agree r (record_entry R i entry u) (record_entry R' i entry u)"
  "agree r (struct_entry R t i entry u) (struct_entry R' t i entry u)"
  unfolding analyze_map_literal_def record_entry_def struct_entry_def Let_def
  by (intro agree; auto intro: r_stores)+

lemma agree_analyze_record_literal [agree]:
  "agree r (analyze_record_literal R want e) (analyze_record_literal R' want e)"
  "agree r (deref_object ot e) (deref_object ot e)"
  "agree r (loop_frame_index sy obj e) (loop_frame_index sy obj e)"
  "agree r (loop_frame_element sy t obj e) (loop_frame_element sy t obj e)"
  unfolding analyze_record_literal_def deref_object_def loop_frame_index_def loop_frame_element_def Let_def
  by (intro agree; auto intro: r_stores)+

lemma agree_loop_frame_access [agree]:
  "agree r (loop_frame_access sy access_type obj name e) (loop_frame_access sy access_type obj name e)"
  "agree r (loop_ctx_access access_type e) (loop_ctx_access access_type e)"
  "agree r (index_to_target e) (index_to_target e)"
  "agree r (source_key_type R e key) (source_key_type R' e key)"
  unfolding loop_frame_access_def loop_ctx_access_def index_to_target_def source_key_type_def Let_def
  by (intro agree; auto intro: r_stores)+

lemma agree_analyze_dot_index [agree]:
  "agree r (analyze_dot_index R t e) (analyze_dot_index R' t e)"
  "agree r (require_local what want name sy e) (require_local what want name sy e)"
  unfolding analyze_dot_index_def require_local_def Let_def
  by (intro agree; auto intro: r_stores)+

lemma agree_dot_sequence [agree]:
  "agree r (dot_sequence what t name sy e) (dot_sequence what t name sy e)"
  "agree r (ambiguous_key R checked name e) (ambiguous_key R' checked name e)"
  unfolding dot_sequence_def ambiguous_key_def Let_def
  by (intro agree; auto intro: r_stores)+

lemma agree_dot_open [agree]:
  "agree r (dot_open R t name found e) (dot_open R' t name found e)"
  "agree r (dot_object name found e) (dot_object name found e)"
  "agree r (dot_map R t name found e) (dot_map R' t name found e)"
  unfolding dot_open_def dot_object_def dot_map_def Let_def
  by (intro agree; auto intro: r_stores)+

lemma agree_analyze_dot_name [agree]:
  "agree r (analyze_dot_name R t name e) (analyze_dot_name R' t name e)"
  "agree r (loop_source e) (loop_source e)"
  unfolding analyze_dot_name_def loop_source_def Let_def
  by (intro agree; auto intro: r_stores)+

lemma agree_analyze_dot [agree]:
  "agree r (analyze_dot R e) (analyze_dot R' e)"
  "agree r (read_value t n) (read_value t n)"
  "agree r (named_value_target x) (named_value_target x)"
  unfolding analyze_dot_def read_value_def named_value_target_def Let_def
  by (intro agree; auto intro: r_stores)+

lemma agree_analyze_ref [agree]:
  "agree r (analyze_ref R e) (analyze_ref R' e)"
  "agree r (analyze_star R e) (analyze_star R' e)"
  "agree r (analyze_hold R e) (analyze_hold R' e)"
  "agree r (analyze_sign R op e) (analyze_sign R' op e)"
  unfolding analyze_ref_def analyze_star_def analyze_hold_def analyze_sign_def Let_def
  by (intro agree; auto intro: r_stores)+

lemma agree_analyze_unary [agree]:
  "agree r (analyze_unary R e) (analyze_unary R' e)"
  "agree r (analyze_else R e) (analyze_else R' e)"
  "agree r (analyze_logic R op e) (analyze_logic R' op e)"
  "agree r (analyze_numeric op left right e) (analyze_numeric op left right e)"
  "agree r (analyze_order op left right e) (analyze_order op left right e)"
  "agree r (analyze_equality op left right e) (analyze_equality op left right e)"
  "agree r (operand R equality n) (operand R' equality n)"
  "agree r (analyze_plus_collection R left e) (analyze_plus_collection R' left e)"
  unfolding analyze_unary_def analyze_else_def analyze_logic_def analyze_numeric_def analyze_order_def
    analyze_equality_def operand_def analyze_plus_collection_def Let_def
  by (intro agree; auto intro: r_stores)+

lemma agree_analyze_plus [agree]:
  "agree r (analyze_plus R left e) (analyze_plus R' left e)"
  unfolding analyze_plus_def Let_def
  by (intro agree; auto intro: r_stores)

lemma agree_analyze_binary [agree]:
  "agree r (analyze_binary R e) (analyze_binary R' e)"
  "agree r (analyze_decode R e) (analyze_decode R' e)"
  "agree r (analyze_if_expr R e) (analyze_if_expr R' e)"
  unfolding analyze_binary_def analyze_decode_def analyze_if_expr_def Let_def
  by (intro agree; auto intro: r_stores)+

lemma agree_analyze_expr_expected [agree]:
  "agree r (analyze_expr_expected R e want) (analyze_expr_expected R' e want)"
  unfolding analyze_expr_expected_def 
  by (cases "n_kind e") (simp_all add: agree)

section \<open>Statements (\<open>statements.c\<close>)\<close>

lemma agree_nul [agree]:
  "agree r (nul st) (nul st)"
  "agree r (known_struct name) (known_struct name)"
  unfolding nul_def known_struct_def Let_def
  by (intro agree; auto intro: r_stores)+

lemma agree_expr_contains_required_typed_call [agree]:
  "agree r (expr_contains_required_typed_call expr) (expr_contains_required_typed_call expr)"
  "agree r (set_ownership_of own name) (set_ownership_of own name)"
  unfolding expr_contains_required_typed_call_def set_ownership_of_def Let_def
  by (intro agree; auto intro: r_stores)+

lemma agree_analyze_free_stmt [agree]:
  "agree r (analyze_free_stmt st) (analyze_free_stmt st)"
  "agree r (destructure_struct_info st source_type) (destructure_struct_info st source_type)"
  "agree r (destructure_uses_property_fields st) (destructure_uses_property_fields st)"
  "agree r (assign_ownership v name) (assign_ownership v name)"
  "agree r (own_if_freeable name) (own_if_freeable name)"
  unfolding analyze_free_stmt_def destructure_struct_info_def destructure_uses_property_fields_def
    assign_ownership_def own_if_freeable_def Let_def
  by (intro agree; auto intro: r_stores)+

lemma agree_destructure_binding [agree]:
  "agree r (destructure_binding property source_type info i binding u) (destructure_binding property source_type info i binding u)"
  unfolding destructure_binding_def Let_def
  by (intro agree; auto intro: r_stores)

lemma agree_analyze_destructure_stmt [agree]:
  "agree r (analyze_destructure_stmt R st) (analyze_destructure_stmt R' st)"
  "agree r (analyze_var R st) (analyze_var R' st)"
  "agree r (keeps_literal_keys t) (keeps_literal_keys t)"
  unfolding analyze_destructure_stmt_def analyze_var_def keeps_literal_keys_def Let_def
  by (intro agree; auto intro: r_stores)+

lemma agree_analyze_assign_new [agree]:
  "agree r (analyze_assign_new R name st) (analyze_assign_new R' name st)"
  "agree r (escape_value site st) (escape_value site st)"
  unfolding analyze_assign_new_def escape_value_def Let_def
  by (intro agree; auto intro: r_stores)+

lemma agree_analyze_assign_existing [agree]:
  "agree r (analyze_assign_existing R existing st) (analyze_assign_existing R' existing st)"
  "agree r (own_target st) (own_target st)"
  "agree r (analyze_increment tt st) (analyze_increment tt st)"
  "agree r (analyze_number_update R ok msg st) (analyze_number_update R' ok msg st)"
  unfolding analyze_assign_existing_def own_target_def analyze_increment_def analyze_number_update_def Let_def
  by (intro agree; auto intro: r_stores)+

lemma agree_analyze_add_assign [agree]:
  "agree r (analyze_add_assign R tt st) (analyze_add_assign R' tt st)"
  "agree r (forget_key st) (forget_key st)"
  "agree r (struct_remove_key R st) (struct_remove_key R' st)"
  "agree r (reject_known_field tt st) (reject_known_field tt st)"
  unfolding analyze_add_assign_def forget_key_def struct_remove_key_def reject_known_field_def Let_def
  by (intro agree; auto intro: r_stores)+

lemma agree_analyze_sub_assign [agree]:
  "agree r (analyze_sub_assign R tt st) (analyze_sub_assign R' tt st)"
  "agree r (analyze_store R tt st) (analyze_store R' tt st)"
  unfolding analyze_sub_assign_def analyze_store_def Let_def
  by (intro agree; auto intro: r_stores)+

lemma agree_mark_returns_owned_ref [agree]: "agree r mark_returns_owned_ref mark_returns_owned_ref"
proof (rule agreeI)
  fix st x st'
  assume "mark_returns_owned_ref st = Inr (x, st')"
  then show "r st st'"
    by (auto simp: mark_returns_owned_ref_def get_ctx_def reads_def modifies_def abind_def aret_def r_refl
        split: ctx_fn.splits intro: r_owned)
qed simp

lemma agree_analyze_assign [agree]:
  "agree r (analyze_assign R st) (analyze_assign R' st)"
  "agree r (current_fn) (current_fn)"
  "agree r (ret_value R declared st) (ret_value R' declared st)"
  "agree r (record_return fname t st) (record_return fname t st)"
  unfolding analyze_assign_def current_fn_def ret_value_def record_return_def Let_def
  by (intro agree; auto intro: r_stores)+

lemma agree_analyze_ret [agree]:
  "agree r (analyze_ret R st) (analyze_ret R' st)"
  "agree r (analyze_elx R i branch u) (analyze_elx R' i branch u)"
  unfolding analyze_ret_def analyze_elx_def Let_def
  by (intro agree; auto intro: r_stores)+

lemma agree_analyze_if [agree]:
  "agree r (analyze_if R st) (analyze_if R' st)"
  "agree r (loop_symbol name t c st) (loop_symbol name t c st)"
  "agree r (loop_ctx_symbol et index elem st) (loop_ctx_symbol et index elem st)"
  "agree r (finish_loop R st) (finish_loop R' st)"
  unfolding analyze_if_def loop_symbol_def loop_ctx_symbol_def finish_loop_def Let_def
  by (intro agree; auto intro: r_stores)+

lemma agree_analyze_counted_loop [agree]:
  "agree r (analyze_counted_loop R kind hint_msg st) (analyze_counted_loop R' kind hint_msg st)"
  "agree r (analyze_condition_loop R st) (analyze_condition_loop R' st)"
  "agree r (analyze_str_loop R lid as_msg with_source st) (analyze_str_loop R' lid as_msg with_source st)"
  "agree r (analyze_element_loop R lid t arg st) (analyze_element_loop R' lid t arg st)"
  unfolding analyze_counted_loop_def analyze_condition_loop_def analyze_str_loop_def analyze_element_loop_def Let_def
  by (intro agree; auto intro: r_stores)+

lemma agree_analyze_array_loop [agree]:
  "agree r (analyze_array_loop R lid t arg st) (analyze_array_loop R' lid t arg st)"
  "agree r (analyze_text_loop R lid arg st) (analyze_text_loop R' lid arg st)"
  "agree r (analyze_entry_loop R lid kind wrap_msg as_msg kv t arg st) (analyze_entry_loop R' lid kind wrap_msg as_msg kv t arg st)"
  unfolding analyze_array_loop_def analyze_text_loop_def analyze_entry_loop_def Let_def
  by (intro agree; auto intro: r_stores)+

lemma agree_analyze_loop_over [agree]:
  "agree r (analyze_loop_over R lid t arg st) (analyze_loop_over R' lid t arg st)"
  "agree r (collect_type R i arg ts) (collect_type R' i arg ts)"
  unfolding analyze_loop_over_def collect_type_def Let_def
  by (intro agree; auto intro: r_stores)+

lemma agree_analyze_loop [agree]:
  "agree r (analyze_loop R st) (analyze_loop R' st)"
  "agree r (analyze_expr_stmt R st) (analyze_expr_stmt R' st)"
  "agree r (analyze_throw R st) (analyze_throw R' st)"
  unfolding analyze_loop_def analyze_expr_stmt_def analyze_throw_def Let_def
  by (intro agree; auto intro: r_stores)+

lemma agree_analyze_stmt [agree]:
  "agree r (analyze_stmt R st) (analyze_stmt R' st)"
  unfolding analyze_stmt_def 
  by (cases "n_kind st") (simp_all add: agree)

lemma agree_owner_name [agree]: "agree r owner_name owner_name"
  unfolding owner_name_def by (intro agree)

lemma agree_declare_nested [agree]:
  "agree r (declare_nested i st u) (declare_nested i st u)"
  "agree r (reject_named_value_store st) (reject_named_value_store st)"
  unfolding declare_nested_def reject_named_value_store_def Let_def
  by (intro agree; auto intro: r_stores)+

lemma agree_block_statement [agree]:
  "agree r (block_statement R i st u) (block_statement R' i st u)"
  unfolding block_statement_def Let_def
  by (intro agree; auto intro: r_stores)

lemma agree_analyze_block [agree]:
  "agree r (analyze_block R b) (analyze_block R' b)"
  unfolding analyze_block_def Let_def
  by (intro agree; auto intro: r_stores)

section \<open>Functions (\<open>program.c\<close>)\<close>

lemma agree_define_param [agree]:
  "agree r (define_param types i param u) (define_param types i param u)"
  "agree r (get_fn name) (get_fn name)"
  unfolding define_param_def get_fn_def
  by (intro agree; auto intro: r_stores)+

lemma agree_fn_body [agree]: "agree r (fn_body R fn) (fn_body R' fn)"
  unfolding fn_body_def by (intro agree)

lemma agree_analyze_fn [agree]: "agree r (analyze_fn R name) (analyze_fn R' name)"
proof (rule agreeI)
  fix st
  assume ok: "analyze_fn R name st \<noteq> Inl OutOfFuel"
  show "analyze_fn R name st = analyze_fn R' name st"
    using ok agree_outcome [OF agree_fn_body]
    by (fastforce simp: analyze_fn_run in_fn_scope_def split: option.splits sum.splits if_splits)
next
  fix st x st'
  assume "analyze_fn R name st = Inr (x, st')"
  then show "r st st'"
  proof (cases rule: analyze_fn_cases)
    case (body fn t n st1)
    show ?thesis unfolding body(7)
      by (rule r_body [OF body(1-4) agree_step [OF agree_fn_body body(5)] body(6) _ fn_body_concrete [OF body(5)]])
        (rule fn_body_declared [OF body(5)])
  qed (auto simp: r_refl intro: r_again)
qed

end

section \<open>More levels of the recursion\<close>

lemma recursion_next:
  assumes "recursion r R R'"
  shows "recursion r
    \<lparr>r_fuel = n, r_expr = analyze_expr_expected R, r_lvalue = analyze_lvalue R, r_stmt = analyze_stmt R,
     r_block = analyze_block R, r_value_block = analyze_method_value_block R, r_fn = analyze_fn R\<rparr>
    \<lparr>r_fuel = n + k, r_expr = analyze_expr_expected R', r_lvalue = analyze_lvalue R', r_stmt = analyze_stmt R',
     r_block = analyze_block R', r_value_block = analyze_method_value_block R', r_fn = analyze_fn R'\<rparr>"
proof -
  show ?thesis
    using recursion.axioms(1) [OF assms]
    by (rule recursion.intro)
      (simp add: recursion_axioms_def recursion.agree_analyze_expr_expected [OF assms]
        recursion.agree_analyze_chain_receiver [OF assms] recursion.agree_analyze_stmt [OF assms]
        recursion.agree_analyze_block [OF assms] recursion.agree_analyze_method_value_block [OF assms]
        recursion.agree_analyze_fn [OF assms])
qed

theorem recursion_analyzer: "preserved r \<Longrightarrow> recursion r (analyzer n) (analyzer (n + k))"
proof (induction n)
  case 0
  then show ?case
    by (intro recursion.intro) (auto simp: recursion_axioms_def agree_def afail_def)
next
  case (Suc n)
  then show ?case using recursion_next [of r "analyzer n" "analyzer (n + k)" n k] by (simp add: Let_def)
qed

end
