(* ===== verification/AnalyzeFacts.thy ===== *)
theory AnalyzeFacts
  imports AnalyzePasses
begin

text \<open>
  What holds of the analyzer as a whole. The relations between the state before a pass and the
  state after it are interpretations of \<open>preserved\<close>, and \<open>recursion_analyzer\<close> makes every pass
  at every fuel respect them: more fuel gives the same outcome, scopes are opened and dropped in
  pairs, the entries of the type table keep their place, and a function that was analyzed stays as
  it was.
\<close>

section \<open>More fuel\<close>

definition same_fn :: "an_state \<Rightarrow> an_state \<Rightarrow> bool" where
  "same_fn st st' \<longleftrightarrow> cx_fn (an_ctx st') = cx_fn (an_ctx st)"

interpretation same: preserved same_fn
  by unfold_locales (simp_all add: same_fn_def)

interpretation fuel: recursion same_fn "analyzer depth" "analyzer (depth + more)" for depth more
  by (rule recursion_analyzer) (rule same.preserved_axioms)

text \<open>
  The passes over declarations set \<open>ctx\<close> anew and store into the nodes of the type table: they
  respect less than the passes over bodies do.
\<close>

locale declarations = passes: preserved q + closed r for q r +
  assumes weaker: "q st st' \<Longrightarrow> r st st'"
    and no_fn_ctx: "cx_fn c = NoFn \<Longrightarrow> r st (st\<lparr>an_ctx := c\<rparr>)"
    and node_kept: "i < length (an_types st) \<Longrightarrow>
      r st (st\<lparr>an_types := (an_types st)[i := (an_types st ! i)\<lparr>ti_node := nd\<rparr>]\<rparr>)"
begin

lemma agree_weak: "agree q m m' \<Longrightarrow> agree r m m'"
  using weaker by (fastforce simp: agree_def)

lemma agree_expect: "agree r (expect_of (analyzer n) want e) (expect_of (analyzer (n + k)) want e)"
  by (rule agree_weak, rule recursion.agree_expect_of, rule recursion_analyzer, rule passes.preserved_axioms)

lemma agree_infos [agree]:
  "agree r (info_at i) (info_at i)"
  "agree r (field_info field) (field_info field)"
  "agree r (is_complete info) (is_complete info)"
  unfolding info_at_def field_info_def is_complete_def by (intro agree)+

lemma agree_put_info_node [agree]: "agree r (put_info_node i f) (put_info_node i f)"
  by (auto simp: agree_def put_info_node_def info_at_def abind_def reads_def the_ptr_def aret_def afail_def
      upd_types_def modifies_def split: option.splits intro: node_kept)

lemma agree_named_field [agree]:
  "agree r (field_without_default field) (field_without_default field)"
  "agree r (init_field field v) (init_field field v)"
  "agree r (default_field (analyzer n) field) (default_field (analyzer (n + k)) field)"
  unfolding field_without_default_def init_field_def default_field_def Let_def
  by (intro agree agree_expect)+

lemma agree_named_fields [agree]:
  "agree r (named_fields (analyzer n) i js) (named_fields (analyzer (n + k)) i js)"
proof (induction js)
  case (Cons j js)
  then show ?case unfolding named_fields.simps named_field_def by (intro agree)
qed (simp add: agree_ret)

lemma agree_named_values [agree]:
  "agree r (analyze_named_map_values (analyzer n) m i) (analyze_named_map_values (analyzer (n + k)) (m + l) i)"
proof (induction m arbitrary: i)
  case (Suc m)
  then show ?case unfolding analyze_named_map_values.simps add_Suc named_value_def named_alias_def
    by (intro agree agree_expect)
qed (simp add: agree_def afail_def)

lemma agree_set_ctx: "cx_fn c = NoFn \<Longrightarrow> agree r (upd_ctx (\<lambda>_. c)) (upd_ctx (\<lambda>_. c))"
  unfolding upd_ctx_def by (intro agree_modifies no_fn_ctx)

lemma agree_global [agree]:
  "agree r (analyze_global (analyzer n) i global u) (analyze_global (analyzer (n + k)) i global u)"
  unfolding analyze_global_def Let_def
  by (intro agree agree_expect agree_set_ctx;
      auto simp: fresh_ctx_def intro: weaker passes.r_resolve passes.r_define)

lemma agree_globals:
  "agree r (at_items n_globals with_globals (analyze_global (analyzer n)) () prog)
     (at_items n_globals with_globals (analyze_global (analyzer (n + k))) () prog)"
  by (intro agree)

end

definition any_step :: "an_state \<Rightarrow> an_state \<Rightarrow> bool" where
  "any_step st st' \<longleftrightarrow> True"

lemma any_stepI: "any_step st st'"
  by (simp add: any_step_def)

interpretation run: declarations same_fn any_step
  by unfold_locales (simp_all add: any_stepI)

lemma driver_upd_ctx: "agree any_step (upd_ctx f) (upd_ctx f)"
  by (simp add: agree_def upd_ctx_def modifies_def any_stepI)

lemma driver_fns: "agree any_step (analyze_fns (analyzer n) fs) (analyze_fns (analyzer (n + k)) fs)"
proof (induction fs)
  case (Cons f fs)
  then show ?case unfolding analyze_fns.simps
    by (intro run.agree_then run.agree_weak [OF fuel.agree_analyze_fn])
qed (simp only: named_fields.simps analyze_fns.simps run.agree_ret)

lemma driver_declarations: "agree any_step (analyze_declarations n prog) (analyze_declarations (n + k) prog)"
  unfolding analyze_declarations_def analyze_script_def register_functions_def Let_def
  by (intro agree run.agree_globals driver_fns driver_upd_ctx run.agree_weak [OF fuel.agree_analyze_block])
    (simp add: agree_def any_stepI)

section \<open>Scopes\<close>

definition frame_names :: "scope \<Rightarrow> string list list" where
  "frame_names s = map (map sym_name) s"

text \<open>The scope \<open>s'\<close> has the frames of \<open>s\<close>, the innermost with more names at its end.\<close>

definition scope_extends :: "scope \<Rightarrow> scope \<Rightarrow> bool" where
  "scope_extends s s' \<longleftrightarrow>
     length s' = length s \<and> tl (frame_names s') = tl (frame_names s) \<and>
     (s \<noteq> [] \<longrightarrow> prefix (hd (frame_names s)) (hd (frame_names s'))) \<and>
     (list_all distinct (frame_names s) \<longrightarrow> list_all distinct (frame_names s'))"

definition scopes_kept :: "an_state \<Rightarrow> an_state \<Rightarrow> bool" where
  "scopes_kept st st' \<longleftrightarrow> same_fn st st' \<and> scope_extends (an_scope st) (an_scope st')"

lemma scope_extends_refl [simp]: "scope_extends s s"
  by (simp add: scope_extends_def)

lemma scope_extends_names: "frame_names s' = frame_names s \<Longrightarrow> scope_extends s s'"
  using map_eq_imp_length_eq [of "map sym_name" s' "map sym_name" s] by (simp add: scope_extends_def frame_names_def)

lemma scope_extends_trans: "scope_extends s t \<Longrightarrow> scope_extends t u \<Longrightarrow> scope_extends s u"
  by (auto simp: scope_extends_def intro: prefix_order.trans)

lemma items_update_names:
  "(\<And>sy. sym_name sy = name \<Longrightarrow> sym_name (f sy) = name) \<Longrightarrow>
     map sym_name (items_update f name items) = map sym_name items"
  by (induction items) auto

lemma scope_update_names:
  "(\<And>sy. sym_name sy = name \<Longrightarrow> sym_name (f sy) = name) \<Longrightarrow>
     frame_names (scope_update f name s) = frame_names s"
  by (induction s) (simp_all add: frame_names_def items_update_names)

lemma scope_extends_put:
  "scope_items frame (sym_name sy) = None \<Longrightarrow> scope_extends (frame # parent) ((frame @ [sy]) # parent)"
  by (auto simp: scope_extends_def frame_names_def scope_items_None)

lemma scope_extends_dropped:
  "scope_extends ([] # s) (frame # parent) \<Longrightarrow> scope_extends s parent"
  by (auto simp: scope_extends_def frame_names_def neq_Nil_conv)

lemma scope_extends_last:
  assumes "s \<noteq> []" "scope_extends [[], last s] t" "t \<noteq> []"
  shows "scope_extends s (butlast s @ [last t])"
proof -
  obtain f g where t: "t = [f, g]"
    using assms(2) by (auto simp: scope_extends_def length_Suc_conv)
  have "map sym_name g = map sym_name (last s)" using assms(2) by (simp add: t scope_extends_def frame_names_def)
  then have "frame_names (butlast s @ [last t]) = frame_names (butlast s @ [last s])"
    by (simp add: t frame_names_def)
  then show ?thesis using assms(1) by (intro scope_extends_names) simp
qed

interpretation scoping: preserved scopes_kept
proof unfold_locales
  fix st st' frame parent
  assume "scopes_kept (st\<lparr>an_scope := [] # an_scope st\<rparr>) st'" "an_scope st' = frame # parent"
  then show "scopes_kept st (st'\<lparr>an_scope := parent\<rparr>)"
    by (auto simp: scopes_kept_def same_fn_def intro: scope_extends_dropped)
qed (auto simp: scopes_kept_def same_fn_def scope_update_names
    intro: scope_extends_trans scope_extends_put scope_extends_names scope_extends_last)

interpretation scoped: recursion scopes_kept "analyzer depth" "analyzer (depth + more)" for depth more
  by (rule recursion_analyzer) (rule scoping.preserved_axioms)

lemma block_names:
  assumes "analyze_block (analyzer n) b st = Inr (b', st')"
  shows "frame_names (an_scope st') = frame_names (an_scope st)"
proof -
  let ?m = "abind (at_items n_statements with_statements declare_nested () b) (\<lambda>(_, b).
          at_items n_statements with_statements (block_statement (analyzer n)) () b)"
  have "agree scopes_kept ?m ?m"
    using scoped.agree_block_statement [where depth = n and more = 0]
    by (intro scoping.agree_bind scoping.agree_items scoped.agree_declare_nested agree_prod) simp
  moreover obtain y st1 frame parent where run: "?m (st\<lparr>an_scope := [] # an_scope st\<rparr>) = Inr (y, st1)"
    "an_scope st1 = frame # parent" and out: "an_scope st' = parent"
    using assms by (auto simp: analyze_block_def scoped_statements_def abind_Inr scoping.in_new_scope_run aret_def
        split: sum.splits list.splits prod.splits)
  ultimately have "scope_extends ([] # an_scope st) (frame # parent)"
    using agree_step scopes_kept_def by fastforce
  then show ?thesis by (simp add: out scope_extends_def frame_names_def)
qed

section \<open>The type table\<close>

text \<open>What a pass may change in an entry: an alias gets resolved, a MAP gets open.\<close>

definition entry_kept :: "type_info \<Rightarrow> type_info \<Rightarrow> bool" where
  "entry_kept a b \<longleftrightarrow>
     b = a\<lparr>target := target b, resolving := resolving b, open_runtime := open_runtime b\<rparr> \<and>
     (target a \<noteq> None \<longrightarrow> target b \<noteq> None) \<and> (open_runtime a \<longrightarrow> open_runtime b)"

definition table_extends :: "type_table \<Rightarrow> type_table \<Rightarrow> bool" where
  "table_extends ts us \<longleftrightarrow>
     length ts \<le> length us \<and> (\<forall>i < length ts. entry_kept (ts ! i) (us ! i)) \<and>
     (distinct (map ti_name ts) \<longrightarrow> distinct (map ti_name us))"

definition types_kept :: "an_state \<Rightarrow> an_state \<Rightarrow> bool" where
  "types_kept st st' \<longleftrightarrow> same_fn st st' \<and> table_extends (an_types st) (an_types st')"

lemma entry_kept_refl [simp]: "entry_kept a a"
  by (simp add: entry_kept_def)

lemma entry_kept_trans: "entry_kept a b \<Longrightarrow> entry_kept b c \<Longrightarrow> entry_kept a c"
  by (cases a; cases b; cases c) (auto simp: entry_kept_def)

lemma entry_kept_name: "entry_kept a b \<Longrightarrow> ti_name b = ti_name a"
  unfolding entry_kept_def by (metis type_info.select_convs(1) type_info.surjective type_info.update_convs(5-7))

lemma table_extends_refl [simp]: "table_extends ts ts"
  by (simp add: table_extends_def)

lemma table_extends_trans: "table_extends ts us \<Longrightarrow> table_extends us vs \<Longrightarrow> table_extends ts vs"
  unfolding table_extends_def using entry_kept_trans by (meson le_trans less_le_trans)

lemma table_extends_same:
  assumes "list_all2 entry_kept ts us"
  shows "table_extends ts us"
proof -
  have "map ti_name us = map ti_name ts"
    using assms by (induction rule: list_all2_induct) (simp_all add: entry_kept_name)
  then show ?thesis using assms by (auto simp: table_extends_def list_all2_conv_all_nth)
qed

lemma table_extends_push: "type_push ts info = Inr us \<Longrightarrow> table_extends ts us"
  by (auto simp: type_push_def die_node_at_def table_extends_def nth_append type_find_None
      split: if_splits)

lemma table_extends_open: "table_extends ts (mark_struct_open ts t)"
  by (cases "type_index ts t")
    (auto simp: mark_struct_open_def entry_kept_def list_all2_conv_all_nth nth_list_update split: if_split
      dest: type_index_Some intro!: table_extends_same)

lemma table_extends_resolve: "resolve_type ts raw n = Inr (t, us) \<Longrightarrow> table_extends ts us"
proof (rule table_extends_same)
  assume "resolve_type ts raw n = Inr (t, us)"
  then have "list_all2 resolved_more ts us" using resolve_type_grows by (simp add: grows_def)
  then show "list_all2 entry_kept ts us"
  proof (rule list_all2_mono)
    fix a b assume "resolved_more a b"
    then show "entry_kept a b" by (cases a; cases b) (simp add: resolved_more_def entry_kept_def)
  qed
qed

interpretation typing: preserved types_kept
  by unfold_locales
    (auto simp: types_kept_def same_fn_def
      intro: table_extends_trans table_extends_push table_extends_open table_extends_resolve)

interpretation typed: recursion types_kept "analyzer depth" "analyzer (depth + more)" for depth more
  by (rule recursion_analyzer) (rule typing.preserved_axioms)

section \<open>Functions\<close>

text \<open>
  An entry that is analyzed (state 2) has its return type and a body without unresolved types, and
  nothing touches it any more; an
  entry keeps its name and its signature, and its state changes from waiting to analyzed only.
\<close>

definition finished :: "fn_info \<Rightarrow> bool" where
  "finished f \<longleftrightarrow> fi_state f = 2 \<and>
     (\<exists>t. Functions.return_type f = Some t \<and> (Functions.declared_return_type f = None \<or>
        Functions.declared_return_type f = Some t)) \<and>
     opt_holds (\<lambda>b. validate_concrete_types b = Inr ()) (n_body (fi_node f))"

definition same_signature :: "fn_info \<Rightarrow> fn_info \<Rightarrow> bool" where
  "same_signature f g \<longleftrightarrow>
     fi_name g = fi_name f \<and> fi_param_types g = fi_param_types f \<and>
     Functions.declared_return_type g = Functions.declared_return_type f"

definition fn_kept :: "fn_info \<Rightarrow> fn_info \<Rightarrow> bool" where
  "fn_kept f g \<longleftrightarrow>
     same_signature f g \<and> (fi_state f = 2 \<longrightarrow> g = f) \<and>
     (fi_state f \<noteq> 2 \<longrightarrow> (fi_state g = fi_state f \<or> fi_state f \<noteq> 1 \<and> finished g))"

text \<open>The function that is being analyzed is marked so (state 1).\<close>

definition live :: "an_state \<Rightarrow> bool" where
  "live st \<longleftrightarrow> distinct (map fi_name (an_fns st)) \<and>
     (\<forall>f \<in> set (an_fns st). cx_fn (an_ctx st) = TableFn (fi_name f) \<longrightarrow> fi_state f = 1)"

definition fns_kept :: "an_state \<Rightarrow> an_state \<Rightarrow> bool" where
  "fns_kept st st' \<longleftrightarrow> same_fn st st' \<and> (live st \<longrightarrow> list_all2 fn_kept (an_fns st) (an_fns st'))"

lemma fn_kept_refl [simp]: "fn_kept f f"
  by (simp add: fn_kept_def same_signature_def)

lemma fn_kept_trans: "fn_kept f g \<Longrightarrow> fn_kept g h \<Longrightarrow> fn_kept f h"
  by (auto simp: fn_kept_def same_signature_def finished_def)

lemma fn_kept_name: "fn_kept f g \<Longrightarrow> fi_name g = fi_name f"
  by (simp add: fn_kept_def same_signature_def)

lemma fns_names: "list_all2 fn_kept fs gs \<Longrightarrow> map fi_name gs = map fi_name fs"
  by (induction rule: list_all2_induct) (simp_all add: fn_kept_name)

lemma list_all2_back: "list_all2 P xs ys \<Longrightarrow> y \<in> set ys \<Longrightarrow> \<exists>x \<in> set xs. P x y"
  by (induction rule: list_all2_induct) auto

lemma live_kept:
  assumes "fns_kept st st'" "live st"
  shows "live st'"
proof -
  have all: "list_all2 fn_kept (an_fns st) (an_fns st')" and same: "same_fn st st'"
    using assms by (auto simp: fns_kept_def)
  have "fi_state g = 1" if g: "g \<in> set (an_fns st')" "cx_fn (an_ctx st') = TableFn (fi_name g)" for g
  proof -
    obtain f where "f \<in> set (an_fns st)" "fn_kept f g" using list_all2_back [OF all g(1)] by blast
    moreover from this have "fi_state f = 1"
      using assms(2) g(2) same fn_kept_name by (auto simp: live_def same_fn_def)
    ultimately show ?thesis by (auto simp: fn_kept_def)
  qed
  then show ?thesis using assms(2) fns_names [OF all] by (simp add: live_def)
qed

lemma fn_find_Some: "fn_find t x = Some f \<Longrightarrow> f \<in> set t \<and> fi_name f = x"
  by (auto simp: fn_find_def find_Some_iff)

lemma fn_find_unique: "distinct (map fi_name t) \<Longrightarrow> f \<in> set t \<Longrightarrow> fn_find t (fi_name f) = Some f"
  by (induction t) (auto simp: fn_find_def rev_image_eqI)

lemma fns_kept_update:
  assumes "\<And>f. f \<in> set fs \<Longrightarrow> fi_name f = x \<Longrightarrow> fn_kept f (h f)"
  shows "list_all2 fn_kept fs (map (\<lambda>f. if fi_name f = x then h f else f) fs)"
  using assms by (auto simp: list_all2_conv_all_nth)

lemma live_scope [simp]: "live (st\<lparr>an_scope := sc\<rparr>) \<longleftrightarrow> live st"
  by (simp add: live_def)

lemma updated_entry:
  assumes "g \<in> set (map (\<lambda>f. if fi_name f = x then h f else f) fs)" and "fi_name g = x"
  shows "\<exists>f. g = h f"
proof -
  from assms(1) obtain f where "g = (if fi_name f = x then h f else f)" unfolding set_map by (rule imageE)
  with assms(2) show ?thesis by metis
qed

lemma live_started:
  assumes "distinct (map fi_name (an_fns st))"
  shows "live (st\<lparr>an_fns := map (\<lambda>f. if fi_name f = x then f\<lparr>fi_state := 1\<rparr> else f) (an_fns st),
     an_scope := sc, an_ctx := fresh_ctx (TableFn x) True True True\<rparr>)" (is "live ?st")
proof -
  have fns: "an_fns ?st = map (\<lambda>f. if fi_name f = x then f\<lparr>fi_state := 1\<rparr> else f) (an_fns st)"
    and cx: "cx_fn (an_ctx ?st) = TableFn x" by (simp_all add: fresh_ctx_def)
  have "map fi_name (an_fns ?st) = map fi_name (an_fns st)" unfolding fns by simp
  with assms have "distinct (map fi_name (an_fns ?st))" by (simp only:)
  moreover have "\<forall>f \<in> set (an_fns ?st). TableFn x = TableFn (fi_name f) \<longrightarrow> fi_state f = 1"
  proof (intro ballI impI)
    fix f assume f: "f \<in> set (an_fns ?st)" and "TableFn x = TableFn (fi_name f)"
    then have "fi_name f = x" by (metis ctx_fn.inject)
    from updated_entry [OF f [unfolded fns] this] show "fi_state f = 1" by (elim exE) simp
  qed
  ultimately show ?thesis unfolding live_def cx by blast
qed

text \<open>The whole analysis of a function, seen from the outside.\<close>

lemma fns_kept_body:
  assumes find: "fn_find fs x = Some fn" and waits: "fi_state fn \<noteq> 1" "fi_state fn \<noteq> 2"
    and distinct: "distinct (map fi_name fs)"
    and kept: "list_all2 fn_kept (map (\<lambda>f. if fi_name f = x then f\<lparr>fi_state := 1\<rparr> else f) fs) gs"
    and declared: "Functions.declared_return_type fn \<noteq> None \<Longrightarrow> Functions.declared_return_type fn = Some t"
    and concrete: "opt_holds (\<lambda>b. validate_concrete_types b = Inr ()) (n_body n)"
  shows "list_all2 fn_kept fs
    (map (\<lambda>f. if fi_name f = x then f\<lparr>fi_node := n, Functions.return_type := Some t, fi_state := 2\<rparr> else f) gs)"
proof (rule list_all2_all_nthI)
  show len: "length fs = length (map (\<lambda>f. if fi_name f = x
      then f\<lparr>fi_node := n, Functions.return_type := Some t, fi_state := 2\<rparr> else f) gs)"
    using list_all2_lengthD [OF kept] by simp
  fix i assume i: "i < length fs"
  then have step: "fn_kept (if fi_name (fs ! i) = x then (fs ! i)\<lparr>fi_state := 1\<rparr> else fs ! i) (gs ! i)"
    using list_all2_nthD [OF kept, of i] by simp
  show "fn_kept (fs ! i) (map (\<lambda>f. if fi_name f = x
      then f\<lparr>fi_node := n, Functions.return_type := Some t, fi_state := 2\<rparr> else f) gs ! i)"
  proof (cases "fi_name (fs ! i) = x")
    case True
    then have "fs ! i = fn" using fn_find_unique [OF distinct, of "fs ! i"] find i by simp
    then show ?thesis
      using True step i len waits declared concrete
      by (cases "Functions.declared_return_type fn") (auto simp: fn_kept_def same_signature_def finished_def)
  next
    case False
    then show ?thesis using step i len fn_kept_name [OF step] by simp
  qed
qed

interpretation signatures: preserved fns_kept
proof unfold_locales
  fix st st' st'' assume one: "fns_kept st st'" and two: "fns_kept st' st''"
  show "fns_kept st st''"
    unfolding fns_kept_def
  proof (intro conjI impI)
    show "same_fn st st''" using one two by (simp add: fns_kept_def same_fn_def)
    assume "live st"
    then have "list_all2 fn_kept (an_fns st) (an_fns st')" "list_all2 fn_kept (an_fns st') (an_fns st'')"
      using one two live_kept [OF one] by (auto simp: fns_kept_def)
    then show "list_all2 fn_kept (an_fns st) (an_fns st'')"
      by (rule list_all2_trans [rotated]) (rule fn_kept_trans)
  qed
next
  fix st :: an_state and x
  assume "cx_fn (an_ctx st) = TableFn x"
  then show "fns_kept st (st\<lparr>an_fns := map (\<lambda>fn. if fi_name fn = x then fn\<lparr>returns_owned_ref := True\<rparr> else fn) (an_fns st)\<rparr>)"
    by (auto simp: fns_kept_def same_fn_def live_def fn_kept_def same_signature_def intro!: fns_kept_update)
next
  fix st :: an_state and x fn t
  assume "fn_find (an_fns st) x = Some fn" "fi_state fn = 1" "Functions.declared_return_type fn = Some t"
  then show "fns_kept st (st\<lparr>an_fns := map (\<lambda>fn. if fi_name fn = x then fn\<lparr>Functions.return_type := Some t\<rparr> else fn) (an_fns st)\<rparr>)"
    by (auto simp: fns_kept_def same_fn_def live_def fn_kept_def same_signature_def fn_find_unique intro!: fns_kept_update
        dest: fn_find_unique)
next
  fix st st' :: an_state and x fn t n
  assume find: "fn_find (an_fns st) x = Some fn" "fi_state fn \<noteq> 1" "fi_state fn \<noteq> 2"
    and kept: "fns_kept (st\<lparr>an_fns := map (\<lambda>fn. if fi_name fn = x then fn\<lparr>fi_state := 1\<rparr> else fn) (an_fns st),
            an_scope := [[], last (an_scope st)], an_ctx := fresh_ctx (TableFn x) True True True\<rparr>) st'"
    and declared: "Functions.declared_return_type fn \<noteq> None \<Longrightarrow> Functions.declared_return_type fn = Some t"
    and concrete: "opt_holds (\<lambda>b. validate_concrete_types b = Inr ()) (n_body n)"
  show "fns_kept st (st'\<lparr>an_scope := butlast (an_scope st) @ [last (an_scope st')], an_ctx := an_ctx st,
              an_fns := map (\<lambda>fn. if fi_name fn = x
                 then fn\<lparr>fi_node := n, Functions.return_type := Some t, fi_state := 2\<rparr> else fn) (an_fns st')\<rparr>)"
    unfolding fns_kept_def
  proof (intro conjI impI)
    assume l: "live st"
    have "live (st\<lparr>an_fns := map (\<lambda>fn. if fi_name fn = x then fn\<lparr>fi_state := 1\<rparr> else fn) (an_fns st),
        an_scope := [[], last (an_scope st)], an_ctx := fresh_ctx (TableFn x) True True True\<rparr>)"
      by (rule live_started) (use l in \<open>simp add: live_def\<close>)
    with kept have "list_all2 fn_kept (map (\<lambda>fn. if fi_name fn = x then fn\<lparr>fi_state := 1\<rparr> else fn) (an_fns st)) (an_fns st')"
      by (simp add: fns_kept_def)
    from fns_kept_body [OF find _ this declared concrete] l
    show "list_all2 fn_kept (an_fns st) (an_fns (st'\<lparr>an_scope := butlast (an_scope st) @ [last (an_scope st')],
        an_ctx := an_ctx st, an_fns := map (\<lambda>fn. if fi_name fn = x
           then fn\<lparr>fi_node := n, Functions.return_type := Some t, fi_state := 2\<rparr> else fn) (an_fns st')\<rparr>))"
      by (simp add: live_def)
  qed (simp add: same_fn_def)
qed (auto simp: fns_kept_def same_fn_def list_all2_refl)

interpretation tracked: recursion fns_kept "analyzer depth" "analyzer (depth + more)" for depth more
  by (rule recursion_analyzer) (rule signatures.preserved_axioms)

text \<open>Registration: the names are distinct and every function waits.\<close>

definition all_wait :: "tables \<Rightarrow> bool" where
  "all_wait tabs \<longleftrightarrow> distinct (map fi_name (fst tabs)) \<and> (\<forall>f \<in> set (fst tabs). fi_state f = 0)"

lemma each_node_inv:
  assumes "\<And>x s y s'. x \<in> set xs \<Longrightarrow> P s \<Longrightarrow> f x s = Inr (y, s') \<Longrightarrow> P s'"
    and "P s" and "each_node f xs s = Inr (ys, s')"
  shows "P s'"
  using assms
proof (induction xs arbitrary: s ys)
  case (Cons x xs)
  then obtain z t zs where "f x s = Inr (z, t)" "each_node f xs t = Inr (zs, s')" by (auto simp: rbind_eq_Inr)
  moreover from this have "P t" using Cons.prems(1) [of x s z t] Cons.prems(2) by simp
  moreover have "P s'" if "P t" "each_node f xs t = Inr (zs, s')" for t zs
    by (rule Cons.IH [OF _ that]) (use Cons.prems(1) in auto)
  ultimately show ?case by blast
qed simp

lemma on_block_inv:
  assumes step: "\<And>y s z s'. y \<in> set (n_statements b) \<Longrightarrow> P s \<Longrightarrow> f y s = Inr (z, s') \<Longrightarrow> P s'"
    and s: "P s" and run: "on_block f b s = Inr (c, s')"
  shows "P s'"
proof -
  obtain ss where ss: "each_node f (n_statements b) s = Inr (ss, s')"
    using run by (auto simp: on_block_def rbind_eq_Inr)
  show ?thesis by (rule each_node_inv [of "n_statements b" P f, OF step s ss])
qed

lemma blocks_inv:
  assumes step: "\<And>c y s z s'. b = Some c \<Longrightarrow> y \<in> set (n_statements c) \<Longrightarrow> P s \<Longrightarrow> f y s = Inr (z, s') \<Longrightarrow> P s'"
    and s: "P s" and run: "each_opt (on_block f) b s = Inr (c, s')"
  shows "P s'"
proof (cases b)
  case None
  then show ?thesis using s run by (simp add: each_opt_def)
next
  case (Some d)
  then obtain e where e: "on_block f d s = Inr (e, s')" using run by (auto simp: each_opt_def rbind_eq_Inr)
  show ?thesis by (rule on_block_inv [of d P f, OF step [OF Some] s e])
qed

lemma on_branch_inv:
  assumes step: "\<And>c y s z s'. n_body br = Some c \<Longrightarrow> y \<in> set (n_statements c) \<Longrightarrow> P s \<Longrightarrow> f y s = Inr (z, s') \<Longrightarrow> P s'"
    and s: "P s" and run: "on_branch f br s = Inr (c, s')"
  shows "P s'"
proof -
  obtain d where d: "each_opt (on_block f) (n_body br) s = Inr (d, s')"
    using run by (auto simp: on_branch_def rbind_eq_Inr)
  show ?thesis by (rule blocks_inv [of "n_body br" P f, OF step s d])
qed

lemma register_info_waits:
  "all_wait tabs \<Longrightarrow> register_function_info name fn tabs = Inr (fn', tabs') \<Longrightarrow> all_wait tabs'"
  by (auto simp: register_function_info_def all_wait_def die_node_at_def rbind_eq_Inr Let_def fntable_push_def
      fn_find_None split: prod.splits option.splits if_splits)

lemma register_statement_waits:
  "all_wait tabs \<Longrightarrow> register_statement owner n tabs = Inr (n', tabs') \<Longrightarrow> all_wait tabs'"
proof (induction n arbitrary: owner tabs n' tabs' rule: measure_induct_rule [where f = size])
  case (less n)
  have block: "all_wait t'"
    if "all_wait t" "each_opt (on_block (register_statement own)) x t = Inr (y, t')"
      "x = n_body n \<or> x = n_then_block n \<or> x = n_else_block n" for own x t y t'
  proof (rule blocks_inv [where P = all_wait, OF _ that(1,2)])
    fix c z s w s' assume "x = Some c" "z \<in> set (n_statements c)" "all_wait s" "register_statement own z s = Inr (w, s')"
    moreover have "size z < size n"
      using calculation(1,2) that(3) size_kids(1) [of z c] size_kids(3-5) [of n c] by auto
    ultimately show "all_wait s'" using less.IH by blast
  qed
  have branches: "all_wait t'"
    if "all_wait t" "each_node (on_branch (register_statement own)) (n_elx_branches n) t = Inr (y, t')" for own t y t'
  proof (rule each_node_inv [where P = all_wait, OF _ that])
    fix br s z s' assume br: "br \<in> set (n_elx_branches n)" and s: "all_wait s"
      and run: "on_branch (register_statement own) br s = Inr (z, s')"
    show "all_wait s'"
    proof (rule on_branch_inv [where P = all_wait, OF _ s run])
      fix c y s z s' assume c: "n_body br = Some c" "y \<in> set (n_statements c)" and s: "all_wait s"
        and run: "register_statement own y s = Inr (z, s')"
      have "size y < size n" using size_kids(1) [OF c(2)] size_kids(3) [OF c(1)] size_kids(2) [OF br] by simp
      then show "all_wait s'" using less.IH s run by blast
    qed
  qed
  show ?case
  proof (cases "n_kind n = NK_FN")
    case True
    then obtain c fn t1 b where "register_function_info c (upd_attrs (\<lambda>a. a\<lparr>c_expr := Some c\<rparr>) n) tabs = Inr (fn, t1)"
      "each_opt (on_block (register_statement (n_name (attrs n)))) (n_body n) t1 = Inr (b, tabs')"
      using less.prems(2) by (auto simp: register_statement.simps [of owner n] rbind_eq_Inr die_node_at_def
          split: if_splits option.splits)
    then show ?thesis using register_info_waits [OF less.prems(1)] block by blast
  next
    case no_fn: False
    show ?thesis
    proof (cases "n_kind n = NK_LOOP")
      case True
      then obtain b where "each_opt (on_block (register_statement owner)) (n_body n) tabs = Inr (b, tabs')"
        using less.prems(2) by (auto simp: register_statement.simps [of owner n] rbind_eq_Inr)
      then show ?thesis using less.prems(1) block by blast
    next
      case no_loop: False
      show ?thesis
      proof (cases "n_kind n = NK_IF")
        case True
        then obtain b t1 brs t2 e where
          "each_opt (on_block (register_statement owner)) (n_then_block n) tabs = Inr (b, t1)"
          "each_node (on_branch (register_statement owner)) (n_elx_branches n) t1 = Inr (brs, t2)"
          "each_opt (on_block (register_statement owner)) (n_else_block n) t2 = Inr (e, tabs')"
          using less.prems(2) by (auto simp: register_statement.simps [of owner n] rbind_eq_Inr)
        then show ?thesis using less.prems(1) block branches by blast
      next
        case False
        then show ?thesis using less.prems no_fn no_loop by (simp add: register_statement.simps [of owner n])
      qed
    qed
  qed
qed

lemma register_program_waits:
  assumes "register_program prog types = Inr (prog', tabs)"
  shows "all_wait tabs"
proof -
  obtain fns t1 fns' t2 where top: "each_node register_top (n_functions prog) ([], types) = Inr (fns, t1)"
    and nested: "each_node register_nested fns t1 = Inr (fns', t2)"
    and script: "t2 = tabs \<or> on_block (register_statement (Some ''script'')) (with_functions fns' prog) t2 = Inr (prog', tabs)"
    using assms by (auto simp: register_program_def Let_def rbind_eq_Inr split: if_splits)
  have "all_wait u" if "all_wait t" "register_top x t = Inr (y, u)" for x t y u
    using that register_info_waits by (auto simp: register_top_def split: option.splits)
  from each_node_inv [where P = all_wait, OF this _ top] have "all_wait t1" by (simp add: all_wait_def)
  moreover have "all_wait u" if t: "all_wait t" and run: "register_nested x t = Inr (y, u)" for x t y u
  proof -
    obtain b where b: "each_opt (on_block (register_statement (n_name (attrs x)))) (n_body x) t = Inr (b, u)"
      using run by (auto simp: register_nested_def register_nested_functions_in_block_def rbind_eq_Inr)
    show ?thesis by (rule blocks_inv [where P = all_wait, OF register_statement_waits t b])
  qed
  ultimately have "all_wait t2" using each_node_inv [where P = all_wait, OF _ _ nested] by blast
  moreover have "all_wait u" if t: "all_wait t" and b: "on_block (register_statement own) b t = Inr (c, u)" for own b t c u
    by (rule on_block_inv [where P = all_wait, OF register_statement_waits t b])
  ultimately show ?thesis using script by blast
qed

text \<open>The loop over the table: no function is being analyzed when the next one starts.\<close>

definition settled :: "fn_table \<Rightarrow> bool" where
  "settled t \<longleftrightarrow> (\<forall>f \<in> set t. fi_state f = 0 \<or> finished f)"

lemma fn_kept_finished: "fn_kept f g \<Longrightarrow> finished f \<Longrightarrow> g = f"
  unfolding fn_kept_def finished_def by blast

lemma fn_kept_settled: "fn_kept f g \<Longrightarrow> fi_state f = 0 \<or> finished f \<Longrightarrow> fi_state g = 0 \<or> finished g"
  using fn_kept_finished [of f g] unfolding fn_kept_def by force

lemma settled_kept: "list_all2 fn_kept t u \<Longrightarrow> settled t \<Longrightarrow> settled u"
  unfolding settled_def using list_all2_back fn_kept_settled by metis

lemma settledD: "settled t \<Longrightarrow> f \<in> set t \<Longrightarrow> fi_state f = 2 \<Longrightarrow> finished f"
  unfolding settled_def by force

lemma settled_no_1: "settled t \<Longrightarrow> f \<in> set t \<Longrightarrow> fi_state f \<noteq> 1"
  unfolding settled_def finished_def by force

lemma analyze_fn_finishes:
  assumes run: "analyze_fn (analyzer n) x st = Inr (u, st')" and live: "live st" and settled: "settled (an_fns st)"
    and g: "g \<in> set (an_fns st')" "fi_name g = x"
  shows "finished g"
proof -
  have "fns_kept st st'" using agree_step [OF tracked.agree_analyze_fn [where depth = n and more = 0]] run by simp
  then have kept: "list_all2 fn_kept (an_fns st) (an_fns st')" using live by (simp add: fns_kept_def)
  have "fi_state g = 2"
  proof (cases rule: analyze_fn_cases [OF run])
    case (1 fn)
    then have "fn = g" using g live fn_find_unique [of "an_fns st" g] by (simp add: live_def)
    with 1 show ?thesis by simp
  next
    case (2 fn t)
    then show ?thesis using settled_no_1 [OF settled] fn_find_Some [of "an_fns st" x fn] by simp
  next
    case (3 fn t m st1)
    have fns: "an_fns st' = map (\<lambda>f. if fi_name f = x
        then f\<lparr>fi_node := set_type t m, Functions.return_type := Some t, fi_state := 2\<rparr> else f) (an_fns st1)"
      unfolding 3(7) by simp
    from updated_entry [OF g(1) [unfolded fns] g(2)] show ?thesis by (elim exE) simp
  qed
  then show ?thesis by (rule settledD [OF settled_kept [OF kept settled] g(1)])
qed

lemma analyze_fns_finish:
  assumes "analyze_fns (analyzer n) xs st = Inr (u, st')" "live st" "settled (an_fns st)"
  shows "fns_kept st st' \<and> (\<forall>g \<in> set (an_fns st'). fi_name g \<in> set xs \<longrightarrow> finished g)"
  using assms
proof (induction xs arbitrary: st)
  case Nil
  then show ?case by (simp add: aret_def signatures.r_refl)
next
  case (Cons x xs)
  then obtain st1 where one: "analyze_fn (analyzer n) x st = Inr ((), st1)"
    and rest: "analyze_fns (analyzer n) xs st1 = Inr (u, st')" by (auto simp: athen_Inr)
  have k1: "fns_kept st st1" using agree_step [OF tracked.agree_analyze_fn [where depth = n and more = 0]] one by simp
  then have l1: "live st1" and s1: "settled (an_fns st1)"
    using live_kept [OF k1] settled_kept Cons.prems(2,3) by (auto simp: fns_kept_def)
  note ih = Cons.IH [OF rest l1 s1]
  have "finished g" if g: "g \<in> set (an_fns st')" "fi_name g = x" for g
  proof -
    have "list_all2 fn_kept (an_fns st1) (an_fns st')" using ih l1 unfolding fns_kept_def by blast
    from list_all2_back [OF this g(1)] obtain f where f: "f \<in> set (an_fns st1)" "fn_kept f g" by blast
    from fn_kept_name [OF f(2)] g(2) have "finished f"
      by (intro analyze_fn_finishes [OF one Cons.prems(2,3) f(1)]) simp
    then show ?thesis using fn_kept_finished [OF f(2)] by simp
  qed
  then show ?case using ih signatures.r_trans [OF k1] by auto
qed

definition no_fn :: "an_state \<Rightarrow> an_state \<Rightarrow> bool" where
  "no_fn st st' \<longleftrightarrow> (cx_fn (an_ctx st) = NoFn \<longrightarrow> cx_fn (an_ctx st') = NoFn)"

interpretation outside: declarations same_fn no_fn
  by unfold_locales (simp_all add: no_fn_def same_fn_def)

lemma script_keeps:
  assumes "analyze_script (analyzer n) prog st = Inr (prog', st')" "distinct (map fi_name (an_fns st))"
  shows "list_all2 fn_kept (an_fns st) (an_fns st')"
proof (cases "n_statements prog = []")
  case True
  then show ?thesis using assms(1) by (auto simp: analyze_script_def aret_def list_all2_refl)
next
  case False
  then obtain b where run: "analyze_block (analyzer n) prog (st\<lparr>an_ctx := fresh_ctx ScriptFn True True True\<rparr>) = Inr (b, st')"
    using assms(1) by (auto simp: analyze_script_def athen_Inr abind_Inr upd_ctx_def modifies_def queries_def
        aret_def rbind_eq_Inr)
  have "fns_kept (st\<lparr>an_ctx := fresh_ctx ScriptFn True True True\<rparr>) st'"
    using agree_step [OF tracked.agree_analyze_block [where depth = n and more = 0]] run by simp
  then show ?thesis using assms(2) by (simp add: fns_kept_def live_def fresh_ctx_def)
qed

lemma analyze_program_finished:
  assumes "analyze_program n prog = Inr (prog', st)"
  shows "\<exists>p types q table us. n_functions p = n_functions prog \<and> n_statements p = n_statements prog \<and>
    register_program p types = Inr (q, table, us) \<and>
    distinct (map fi_name table) \<and> list_all2 same_signature table (an_fns st) \<and> list_all finished (an_fns st)"
proof -
  obtain types0 where "build_type_table prog = Inr types0" using assms by (auto simp: analyze_program_def rbind_eq_Inr)
  with assms obtain st1 p st2 q st3 u st4 q' where
    named: "analyze_named_map_values (analyzer n) n 0
        \<lparr>an_scope = scope_new [], an_types = types0, an_fns = [], an_ctx = fresh_ctx NoFn False False False\<rparr> = Inr ((), st1)"
    and globals: "at_items n_globals with_globals (analyze_global (analyzer n)) () prog st1 = Inr (((), p), st2)"
    and reg: "register_functions p st2 = Inr (q, st3)"
    and fns: "analyze_fns (analyzer n) (map fi_name (an_fns st3)) st3 = Inr (u, st4)"
    and script: "analyze_script (analyzer n) q' st4 = Inr (prog', st)"
    by (auto simp: analyze_program_def analyze_declarations_def Let_def athen_Inr abind_Inr reads_def)
  have same: "n_functions p = n_functions prog" "n_statements p = n_statements prog"
    using globals by (auto simp: at_items_def abind_Inr aret_def with_globals_def)
  have "no_fn st1 st2" using agree_step [OF outside.agree_globals [where n = n and k = 0]] globals by simp
  moreover have "no_fn \<lparr>an_scope = scope_new [], an_types = types0, an_fns = [], an_ctx = fresh_ctx NoFn False False False\<rparr> st1"
    using agree_step [OF outside.agree_named_values [where n = n and k = 0 and m = n and l = 0]] named by simp
  ultimately have cx: "cx_fn (an_ctx st2) = NoFn" by (simp add: no_fn_def fresh_ctx_def)
  obtain table us where run: "register_program p (an_types st2) = Inr (q, table, us)"
    and st3: "st3 = st2\<lparr>an_fns := link_nodes q table, an_types := us\<rparr>"
    using reg by (auto simp: register_functions_def rbind_eq_Inr)
  have link: "map fi_name (link_nodes q table) = map fi_name table" "list_all2 same_signature table (link_nodes q table)"
    "\<forall>f \<in> set (link_nodes q table). \<exists>g \<in> set table. fi_state f = fi_state g"
    by (auto simp: link_nodes_def list_all2_conv_all_nth same_signature_def split: option.splits)
  have table: "distinct (map fi_name table)" "\<forall>f \<in> set table. fi_state f = 0"
    using register_program_waits [OF run] by (auto simp: all_wait_def)
  have live: "live st3" and settled: "settled (an_fns st3)"
    using table link cx by (auto simp: live_def settled_def st3)
  note fin = analyze_fns_finish [OF fns live settled]
  then have kept: "list_all2 fn_kept (an_fns st3) (an_fns st4)" using live by (simp add: fns_kept_def)
  have names: "map fi_name (an_fns st4) = map fi_name (an_fns st3)" by (rule fns_names [OF kept])
  have all_done: "finished g" if "g \<in> set (an_fns st4)" for g
    using fin that names by (metis imageI list.set_map)
  have last: "list_all2 fn_kept (an_fns st4) (an_fns st)"
    using script_keeps [OF script] live names by (simp add: live_def)
  have "finished g" if "g \<in> set (an_fns st)" for g
    using list_all2_back [OF last that] all_done fn_kept_finished by metis
  moreover have "list_all2 same_signature table (an_fns st)"
  proof -
    have all: "list_all2 fn_kept (an_fns st3) (an_fns st)"
      by (rule list_all2_trans [OF _ kept last]) (rule fn_kept_trans)
    show ?thesis
      by (rule list_all2_trans [OF _ link(2)]) (use all in \<open>auto simp: st3 fn_kept_def same_signature_def elim: list_all2_mono\<close>)
  qed
  ultimately show ?thesis using same run table(1) unfolding list_all_iff by blast
qed

end
