(* ===== verification/HasType.thy ===== *)
theory HasType
  imports AnalyzeFacts
begin

text \<open>
  The typing rules of scalar expressions, as a relation, and the analysis of expressions
  (\<open>src/caster/analyze/expressions.c\<close>) compared with them: literals, local names of scalar type,
  signs and negation, arithmetic, comparisons, connectives and conditional expressions.
\<close>

section \<open>The rules\<close>

definition scalars :: "string set" where
  "scalars = {''INT'', ''FLT'', ''BOL'', ''STR''}"

definition numbers :: "string set" where
  "numbers = {''INT'', ''FLT''}"

text \<open>The type of an operation on two numbers, and of two branches.\<close>

definition wider :: "string \<Rightarrow> string \<Rightarrow> string" where
  "wider a b = (if a = ''FLT'' \<or> b = ''FLT'' then ''FLT'' else ''INT'')"

definition common_type :: "string \<Rightarrow> string \<Rightarrow> string option" where
  "common_type a b =
     (if a = b then Some a else if a \<in> numbers \<and> b \<in> numbers then Some (wider a b) else None)"

text \<open>The signatures of the binary operators.\<close>

definition operator_type :: "string \<Rightarrow> string \<Rightarrow> string \<Rightarrow> string option" where
  "operator_type op a b =
     (if op = ''+'' \<and> a = ''STR'' \<and> b = ''STR'' then Some ''STR''
      else if op \<in> {''+'', ''-'', ''*'', ''/''} \<and> a \<in> numbers \<and> b \<in> numbers then Some (wider a b)
      else if op = ''%'' \<and> a = ''INT'' \<and> b = ''INT'' then Some ''INT''
      else if op \<in> {''<'', ''<='', ''>'', ''>=''} \<and> a \<in> numbers \<and> b \<in> numbers then Some ''BOL''
      else if op \<in> {''=='', ''!=''} \<and> (a = b \<or> a \<in> numbers \<and> b \<in> numbers) then Some ''BOL''
      else if op \<in> {''&&'', ''||''} \<and> a = ''BOL'' \<and> b = ''BOL'' then Some ''BOL''
      else None)"

definition is_unary :: "string \<Rightarrow> node \<Rightarrow> node \<Rightarrow> bool" where
  "is_unary op x e \<longleftrightarrow> n_kind e = NK_UNARY \<and> n_op (attrs e) = Some op \<and> n_expr e = Some x"

definition is_binary :: "string \<Rightarrow> node \<Rightarrow> node \<Rightarrow> node \<Rightarrow> bool" where
  "is_binary op l r e \<longleftrightarrow> n_kind e = NK_BINARY \<and> n_op (attrs e) = Some op \<and> n_left e = Some l \<and> n_right e = Some r"

definition is_if_expr :: "node \<Rightarrow> node \<Rightarrow> node option \<Rightarrow> node \<Rightarrow> bool" where
  "is_if_expr v c r e \<longleftrightarrow> n_kind e = NK_IF_EXPR \<and> n_value e = Some v \<and> n_condition e = Some c \<and> n_right e = r"

definition names :: "scope \<Rightarrow> node \<Rightarrow> symbol \<Rightarrow> bool" where
  "names s e sy \<longleftrightarrow> n_kind e = NK_NAME \<and>
     (\<exists>x. n_name (attrs e) = Some x \<and> scope_try_resolve s x = Some sy)"

inductive has_type :: "scope \<Rightarrow> node \<Rightarrow> string \<Rightarrow> bool" for s where
  int: "n_kind e = NK_INT \<Longrightarrow> has_type s e ''INT''"
| flt: "n_kind e = NK_FLT \<Longrightarrow> has_type s e ''FLT''"
| bol: "n_kind e = NK_BOL \<Longrightarrow> has_type s e ''BOL''"
| str: "n_kind e = NK_STR \<Longrightarrow> has_type s e ''STR''"
| name: "names s e sy \<Longrightarrow> sym_type sy \<in> scalars \<Longrightarrow> \<not> is_nested_fn sy \<Longrightarrow> ownership sy \<noteq> OWNERSHIP_FREED
    \<Longrightarrow> has_type s e (sym_type sy)"
| minus: "is_unary ''-'' x e \<Longrightarrow> has_type s x t \<Longrightarrow> t \<in> numbers \<Longrightarrow> has_type s e t"
| neg: "is_unary ''!'' x e \<Longrightarrow> has_type s x ''BOL'' \<Longrightarrow> has_type s e ''BOL''"
| binary: "is_binary op l r e \<Longrightarrow> has_type s l a \<Longrightarrow> has_type s r b \<Longrightarrow> operator_type op a b = Some t
    \<Longrightarrow> has_type s e t"
| cond: "is_if_expr v c None e \<Longrightarrow> has_type s v t \<Longrightarrow> has_type s c ''BOL'' \<Longrightarrow> has_type s e t"
| branches: "is_if_expr v c (Some r) e \<Longrightarrow> has_type s v a \<Longrightarrow> has_type s c ''BOL'' \<Longrightarrow> has_type s r b
    \<Longrightarrow> common_type a b = Some t \<Longrightarrow> has_type s e t"

text \<open>
  The expressions the rules are about, well typed or not. The comparisons of an \<open>IS\<close> chain share
  their subject and are left out.
\<close>

inductive scalar_expr :: "scope \<Rightarrow> node \<Rightarrow> bool" for s where
  lit: "n_kind e \<in> {NK_INT, NK_FLT, NK_BOL, NK_STR} \<Longrightarrow> scalar_expr s e"
| name: "names s e sy \<Longrightarrow> sym_type sy \<in> scalars \<Longrightarrow> scalar_expr s e"
| unary: "is_unary op x e \<Longrightarrow> op \<in> {''-'', ''!''} \<Longrightarrow> scalar_expr s x \<Longrightarrow> scalar_expr s e"
| binary: "is_binary op l r e \<Longrightarrow>
    op \<in> {''+'', ''-'', ''*'', ''/'', ''%'', ''<'', ''<='', ''>'', ''>='', ''=='', ''!='', ''&&'', ''||''} \<Longrightarrow>
    \<not> shares_subject e \<Longrightarrow> scalar_expr s l \<Longrightarrow> scalar_expr s r \<Longrightarrow> scalar_expr s e"
| cond: "is_if_expr v c None e \<Longrightarrow> scalar_expr s v \<Longrightarrow> scalar_expr s c \<Longrightarrow> scalar_expr s e"
| branches: "is_if_expr v c (Some r) e \<Longrightarrow> scalar_expr s v \<Longrightarrow> scalar_expr s c \<Longrightarrow> scalar_expr s r \<Longrightarrow> scalar_expr s e"

lemmas shape_defs = is_unary_def is_binary_def is_if_expr_def names_def

lemma result_scalar:
  "operator_type op a b = Some t \<Longrightarrow> t \<in> scalars"
  "a \<in> scalars \<Longrightarrow> common_type a b = Some t \<Longrightarrow> t \<in> scalars"
  by (auto simp: operator_type_def common_type_def scalars_def wider_def split: if_splits)

lemma has_type_scalar: "has_type s e t \<Longrightarrow> t \<in> scalars"
proof (induction rule: has_type.induct)
  case (binary op l r e a b t)
  then show ?case by (blast intro: result_scalar)
next
  case (branches v c r e a b t)
  then show ?case by (blast intro: result_scalar)
qed (simp_all add: scalars_def)

text \<open>Inversion, by the form of the expression.\<close>

lemma has_type_unary:
  "is_unary op x e \<Longrightarrow> has_type s e t \<longleftrightarrow>
     op = ''-'' \<and> has_type s x t \<and> t \<in> numbers \<or> op = ''!'' \<and> t = ''BOL'' \<and> has_type s x ''BOL''"
  by (subst has_type.simps) (auto simp: shape_defs)

lemma has_type_name:
  "names s e sy \<Longrightarrow> has_type s e t \<longleftrightarrow>
     t = sym_type sy \<and> t \<in> scalars \<and> \<not> is_nested_fn sy \<and> ownership sy \<noteq> OWNERSHIP_FREED"
  by (subst has_type.simps) (auto simp: shape_defs)

lemma has_type_if:
  "is_if_expr v c None e \<Longrightarrow> has_type s e t \<longleftrightarrow> has_type s v t \<and> has_type s c ''BOL''"
  "is_if_expr v c (Some r) e \<Longrightarrow> has_type s e t \<longleftrightarrow>
     has_type s c ''BOL'' \<and> (\<exists>a b. has_type s v a \<and> has_type s r b \<and> common_type a b = Some t)"
  by (subst has_type.simps; auto simp: shape_defs)+

lemma has_type_binary:
  "is_binary op l r e \<Longrightarrow>
     has_type s e t \<longleftrightarrow> (\<exists>a b. has_type s l a \<and> has_type s r b \<and> operator_type op a b = Some t)"
  by (subst has_type.simps) (auto simp: shape_defs)

lemma has_type_lit:
  "n_kind e = NK_INT \<Longrightarrow> has_type s e t \<longleftrightarrow> t = ''INT''"
  "n_kind e = NK_FLT \<Longrightarrow> has_type s e t \<longleftrightarrow> t = ''FLT''"
  "n_kind e = NK_BOL \<Longrightarrow> has_type s e t \<longleftrightarrow> t = ''BOL''"
  "n_kind e = NK_STR \<Longrightarrow> has_type s e t \<longleftrightarrow> t = ''STR''"
  by (subst has_type.simps; auto simp: shape_defs)+

lemmas has_type_inv = has_type_lit has_type_name has_type_unary has_type_if has_type_binary

lemma has_type_unique: "has_type s e t \<Longrightarrow> has_type s e u \<Longrightarrow> u = t"
proof (induction arbitrary: u rule: has_type.induct)
  case (binary op l r e a b t)
  then show ?case by (metis has_type_binary option.inject)
next
  case (branches v c r e a b t)
  then show ?case by (metis has_type_if(2) option.inject)
next
  case (name e sy)
  then show ?case by (simp add: has_type_name [OF name(1)])
next
  case (minus x e t)
  from minus.prems minus.IH show ?case unfolding has_type_unary [OF minus.hyps(1)] by blast
next
  case (neg x e)
  from neg.prems show ?case unfolding has_type_unary [OF neg.hyps(1)] by simp
next
  case (cond v c e t)
  from cond.prems cond.IH show ?case unfolding has_type_if(1) [OF cond.hyps(1)] by blast
qed (simp_all add: has_type_lit)

section \<open>The analysis follows the rules\<close>

text \<open>\<open>yields st t r\<close>: \<open>r\<close> is the type \<open>t\<close> in the state \<open>st\<close>, or a diagnostic when there is none.\<close>

definition yields :: "an_state \<Rightarrow> string option \<Rightarrow> (string \<times> node) an \<Rightarrow> bool" where
  "yields st t m \<longleftrightarrow>
     (case t of Some t \<Rightarrow> \<exists>e. m st = Inr ((t, e), st) | None \<Rightarrow> \<exists>l c msg. m st = Inl (Die l c msg))"

definition follows_rules :: "an_state \<Rightarrow> node \<Rightarrow> (string \<times> node) an \<Rightarrow> bool" where
  "follows_rules st e m \<longleftrightarrow> (\<exists>t. yields st t m \<and> (\<forall>u. has_type (an_scope st) e u \<longleftrightarrow> t = Some u))"

lemma follows_rulesI: "yields st t m \<Longrightarrow> (\<And>u. has_type (an_scope st) e u \<longleftrightarrow> t = Some u) \<Longrightarrow> follows_rules st e m"
  by (auto simp: follows_rules_def)

lemma follows_rules_run: "m st = m' st \<Longrightarrow> follows_rules st e m' \<Longrightarrow> follows_rules st e m"
  by (simp only: follows_rules_def yields_def)

lemma follows_rules_cases:
  assumes "follows_rules st e m"
  obtains (typed) t e' where "m st = Inr ((t, e'), st)" "has_type (an_scope st) e t"
  | (untyped) l c msg where "m st = Inl (Die l c msg)" "\<And>u. \<not> has_type (an_scope st) e u"
  using assms by (auto simp: follows_rules_def yields_def split: option.splits)

text \<open>No MAP is named like a scalar type: \<open>type_push\<close> refuses it.\<close>

definition scalars_free :: "type_table \<Rightarrow> bool" where
  "scalars_free types \<longleftrightarrow> (\<forall>t \<in> scalars. \<not> is_struct_type types t)"

lemma scalar_no_ref: "t \<in> scalars \<Longrightarrow> \<not> is_ref_type t"
  by (auto simp: scalars_def is_ref_type_def bracketed_def)

lemma scalar_no_join: "t \<in> scalars \<Longrightarrow> scalars_free types \<Longrightarrow> \<not> is_collection_join_type types t"
  by (auto simp: scalars_free_def is_collection_join_type_def scalars_def is_array_type_def is_map_type_def
      is_open_data_type_def bracketed_def)

lemma read_scalar: "t \<in> scalars \<Longrightarrow> read_value t x st = Inr ((t, x), st)"
  by (simp add: read_value_def implicit_ref_read_value_def scalar_no_ref aret_def)

lemma is_numeric_scalar: "is_numeric_type (Some t) \<longleftrightarrow> t \<in> numbers"
  by (auto simp: is_numeric_type_def type_eq_def numbers_def)

lemma numeric_binary: "numeric_binary_type (Some a) (Some b) = (if a \<in> numbers \<and> b \<in> numbers then Some (wider a b) else None)"
  by (auto simp: numeric_binary_type_def is_numeric_scalar wider_def type_eq_def)

lemma at_child_run:
  "get e = Some c \<Longrightarrow> at_child get put f e st =
     (case f c st of Inl err \<Rightarrow> Inl err | Inr ((t, c), st') \<Rightarrow> Inr ((t, put c e), st'))"
  by (auto simp: at_child_def the_ptr_def abind_def aret_def split: sum.splits)

lemma die_yields: "yields st None (adie n msg)"
  by (simp add: yields_def adie_def afail_def)

lemma type_yields: "yields st (Some t) (a_type t e)"
  by (simp add: yields_def a_type_def aret_def)

lemma require_run: "athen (require ok n msg) m st = (if ok then m st else Inl (Die (n_line (attrs n)) (n_col (attrs n)) msg))"
  by (simp add: require_def athen_def abind_def aret_def adie_def afail_def)

lemma require_at_run:
  "athen (require_at ok (Some n) msg) m st = (if ok then m st else Inl (Die (n_line (attrs n)) (n_col (attrs n)) msg))"
  by (simp add: require_at_def athen_def abind_def aret_def adie_def afail_def)

lemma abind_run: "m st = Inr (x, st') \<Longrightarrow> abind m f st = f x st'"
  by (simp add: abind_def)

lemma abind_fails: "m st = Inl err \<Longrightarrow> abind m f st = Inl err"
  by (simp add: abind_def)

text \<open>Two operands, read as values, and what is done with their types.\<close>

lemma operands_run:
  assumes "is_binary op l r e" "a \<in> scalars" "b \<in> scalars"
  shows "abind (at_left (read_value a) e) (\<lambda>(left, e). abind (at_right (read_value b) e) (\<lambda>(right, e). f left right e)) st
    = f a b (set_right r (set_left l e)) st"
  using assms by (simp add: is_binary_def at_child_run read_scalar abind_def)

lemma unary_follows:
  assumes e: "is_unary op x e" "op \<in> {''-'', ''!''}" and x: "follows_rules st x (infer_of R x)"
  shows "follows_rules st e (analyze_unary R e)"
proof -
  have kind: "n_op (attrs e) = Some op" "n_expr e = Some x" "\<not> is_mutating_collection_method_expr e"
    "op \<noteq> ''REF''" "op \<noteq> ''*''" "op \<noteq> ''hold''" "op = ''-'' \<or> op = ''!''"
    using e by (auto simp: is_unary_def is_mutating_collection_method_expr_def is_star_def)
  have run: "analyze_unary R e st = analyze_sign R op e st"
    using kind by (simp add: analyze_unary_def the_ptr_def abind_def aret_def)
  from x show ?thesis
  proof (cases rule: follows_rules_cases)
    case (typed t x')
    have t: "t \<in> scalars" using typed(2) by (rule has_type_scalar)
    have sign: "analyze_sign R op e st =
        (if op = ''-'' \<and> t = ''INT'' then a_type ''INT'' (set_expr x' (set_expr x' e)) st
         else if op = ''-'' \<and> t = ''FLT'' then a_type ''FLT'' (set_expr x' (set_expr x' e)) st
         else if op = ''!'' \<and> t = ''BOL'' then a_type ''BOL'' (set_expr x' (set_expr x' e)) st
         else adie (set_expr x' (set_expr x' e)) (''operator '' @ quoted op @ '' cannot be applied to '' @ t) st)"
      using kind(2,7) typed(1) t by (simp add: analyze_sign_def at_child_run abind_def read_scalar)
    have types: "has_type (an_scope st) e u \<longleftrightarrow> op = ''-'' \<and> u = t \<and> t \<in> numbers \<or> op = ''!'' \<and> u = ''BOL'' \<and> t = ''BOL''" for u
      using typed(2) has_type_unique unfolding has_type_unary [OF e(1)] by metis
    show ?thesis
    proof (cases "op = ''-'' \<and> t \<in> numbers \<or> op = ''!'' \<and> t = ''BOL''")
      case True
      then have "analyze_unary R e st = a_type t (set_expr x' (set_expr x' e)) st" unfolding run sign by (auto simp: numbers_def)
      then show ?thesis
        using True types by (intro follows_rulesI [where t = "Some t"]) (auto simp: yields_def a_type_def aret_def)
    next
      case False
      then have "analyze_unary R e st = adie (set_expr x' (set_expr x' e)) (''operator '' @ quoted op @ '' cannot be applied to '' @ t) st"
        unfolding run sign by (auto simp: numbers_def)
      then show ?thesis
        using False types by (intro follows_rulesI [where t = None]) (auto simp: yields_def adie_def afail_def)
    qed
  next
    case (untyped l c msg)
    then have "analyze_sign R op e st = Inl (Die l c msg)"
      using kind by (simp add: analyze_sign_def at_child_run abind_def)
    then show ?thesis
      using run untyped(2) by (intro follows_rulesI [where t = None]) (auto simp: yields_def has_type_unary [OF e(1)])
  qed
qed

text \<open>Operands: a scalar is never kept as a reference.\<close>

lemma scalar_operand:
  assumes "scalar_expr (an_scope st) x"
  shows "operand R eq x st = infer_of R x st"
proof -
  have "\<not> equality_operand_preserves_ref_identity (an_scope st) x"
    using assms
  proof cases
    case (name sy)
    then show ?thesis using scalar_no_ref
      by (auto simp: shape_defs equality_operand_preserves_ref_identity_def resolve_node_def)
  qed (auto simp: shape_defs equality_operand_preserves_ref_identity_def)
  then show ?thesis by (simp add: operand_def reads_def abind_def)
qed

lemma scalar_not_star: "scalar_expr s x \<Longrightarrow> \<not> is_star x"
  by (induction rule: scalar_expr.induct) (auto simp: shape_defs is_star_def)

lemma binary_types:
  assumes "is_binary op l r e" "has_type s l a" "has_type s r b"
  shows "has_type s e u \<longleftrightarrow> operator_type op a b = Some u"
  unfolding has_type_binary [OF assms(1)] using assms(2,3) has_type_unique by metis

lemma binary_untyped:
  assumes "is_binary op l r e" "(\<forall>u. \<not> has_type s l u) \<or> (\<forall>u. \<not> has_type s r u)"
  shows "\<not> has_type s e u"
  using assms by (auto simp: has_type_binary [OF assms(1)])

text \<open>The operators once both operands have their types.\<close>

lemma operator_types:
  "operator_type ''%'' a b = (if a = ''INT'' \<and> b = ''INT'' then Some ''INT'' else None)"
  "operator_type ''+'' a b = (if a = ''STR'' \<and> b = ''STR'' then Some ''STR''
     else if a \<in> numbers \<and> b \<in> numbers then Some (wider a b) else None)"
  "op \<in> {''-'', ''*'', ''/''} \<Longrightarrow> operator_type op a b = (if a \<in> numbers \<and> b \<in> numbers then Some (wider a b) else None)"
  "op \<in> {''<'', ''<='', ''>'', ''>=''} \<Longrightarrow> operator_type op a b = (if a \<in> numbers \<and> b \<in> numbers then Some ''BOL'' else None)"
  "op \<in> {''=='', ''!=''} \<Longrightarrow> operator_type op a b = (if a = b \<or> a \<in> numbers \<and> b \<in> numbers then Some ''BOL'' else None)"
  "op \<in> {''&&'', ''||''} \<Longrightarrow> operator_type op a b = (if a = ''BOL'' \<and> b = ''BOL'' then Some ''BOL'' else None)"
  by (simp add: operator_type_def, simp add: operator_type_def,
      (elim insertE emptyE; simp add: operator_type_def)+)

lemma finish_rest:
  assumes e: "is_binary ''%'' l r e" and ab: "a \<in> scalars" "b \<in> scalars"
  shows "yields st (operator_type ''%'' a b) (analyze_numeric ''%'' a b e)"
  unfolding yields_def analyze_numeric_def operands_run [OF e ab]
  by (simp add: require_run operator_types a_type_def aret_def)

lemma finish_numeric:
  assumes e: "is_binary op l r e" and op: "op \<noteq> ''%''" and ab: "a \<in> scalars" "b \<in> scalars"
    and "operator_type op a b = (if a \<in> numbers \<and> b \<in> numbers then Some (wider a b) else None)"
  shows "yields st (operator_type op a b) (analyze_numeric op a b e)"
  using op unfolding yields_def analyze_numeric_def operands_run [OF e ab]
  by (simp add: numeric_binary assms(5) a_type_def aret_def adie_def afail_def)

lemma finish_order:
  assumes e: "is_binary op l r e" and op: "op \<in> {''<'', ''<='', ''>'', ''>=''}" and ab: "a \<in> scalars" "b \<in> scalars"
  shows "yields st (operator_type op a b) (analyze_order op a b e)"
  unfolding yields_def analyze_order_def operands_run [OF e ab]
  by (simp add: is_numeric_scalar require_run operator_types(4) [OF op] a_type_def aret_def)

lemma finish_equality:
  assumes e: "is_binary op l r e" and op: "op \<in> {''=='', ''!=''}" and ab: "a \<in> scalars" "b \<in> scalars"
  shows "yields st (operator_type op a b) (analyze_equality op a b e)"
proof -
  have "equal_types_ok a b \<longleftrightarrow> a = b \<or> a \<in> numbers \<and> b \<in> numbers"
    using ab scalar_no_ref by (auto simp: equal_types_ok_def is_numeric_scalar is_scalar_type_def scalars_def)
  then show ?thesis
    using ab
    by (simp add: yields_def analyze_equality_def Let_def scalar_no_ref operands_run [OF e ab] require_run
        operator_types(5) [OF op] a_type_def aret_def)
qed

text \<open>A binary operator, from its operands.\<close>

lemma binary_start:
  assumes e: "is_binary op l r e" and op: "op \<noteq> ''else''" and l: "\<not> is_star l"
  shows "analyze_binary R e st =
    (if op = ''&&'' \<or> op = ''||'' then analyze_logic R op e st
     else abind (at_left (operand R (op = ''=='' \<or> op = ''!='')) e) (\<lambda>(left, e).
        if op = ''+'' then analyze_plus R left e
        else abind (at_right (operand R (op = ''=='' \<or> op = ''!='')) e) (\<lambda>(right, e).
          if op \<in> {''-'', ''*'', ''/'', ''%''} then analyze_numeric op left right e
          else if op \<in> {''<'', ''<='', ''>'', ''>=''} then analyze_order op left right e
          else if op = ''=='' \<or> op = ''!='' then analyze_equality op left right e
          else adie e (''unknown binary operator '' @ quoted op))) st)"
proof -
  have "\<not> is_mutating_collection_plus_expr e"
    using e l by (auto simp: is_binary_def is_mutating_collection_plus_expr_def opt_holds_def)
  moreover have ptr: "the_ptr (n_op (attrs e)) st = Inr (op, st)"
    using e by (simp add: is_binary_def the_ptr_def aret_def)
  ultimately show ?thesis
    using op unfolding analyze_binary_def Let_def abind_run [where m = "the_ptr (n_op (attrs e))", OF ptr] require_run
    by (cases "op = ''&&'' \<or> op = ''||''") (simp_all only: if_True if_False simp_thms)
qed

lemma logic_follows:
  assumes e: "is_binary op l r e" and op: "op \<in> {''&&'', ''||''}" and own: "\<not> shares_subject e"
    and l: "follows_rules st l (infer_of R l)" and r: "follows_rules st r (infer_of R r)"
  shows "follows_rules st e (analyze_logic R op e)"
  using l
proof (cases rule: follows_rules_cases)
  case (untyped i c msg)
  then have "analyze_logic R op e st = Inl (Die i c msg)"
    using e by (simp add: analyze_logic_def Let_def is_binary_def at_child_run abind_fails)
  then show ?thesis
    using binary_untyped [OF e] untyped(2) by (intro follows_rulesI [where t = None]) (auto simp: yields_def)
next
  case left: (typed a l')
  have e': "is_binary op l' r (set_left l' e)" using e by (simp add: is_binary_def)
  have one: "at_left (infer_of R) e st = Inr ((a, set_left l' e), st)"
    using e left by (simp add: is_binary_def at_child_run)
  from r show ?thesis
  proof (cases rule: follows_rules_cases)
    case (untyped i c msg)
    then have "analyze_logic R op e st = Inl (Die i c msg)"
      using e' own by (simp add: analyze_logic_def Let_def abind_run [where m = "at_left (infer_of R) e", OF one] is_binary_def at_child_run abind_fails)
    then show ?thesis
      using binary_untyped [OF e] untyped(2) by (intro follows_rulesI [where t = None]) (auto simp: yields_def)
  next
    case right: (typed b r')
    let ?e = "set_right r' (set_left l' e)"
    have two: "at_right (infer_of R) (set_left l' e) st = Inr ((b, ?e), st)"
      using e' right by (simp add: is_binary_def at_child_run)
    have e2: "is_binary op l' r' ?e" using e by (simp add: is_binary_def)
    have ab: "a \<in> scalars" "b \<in> scalars" using left right has_type_scalar by auto
    have "analyze_logic R op e st =
        abind (at_left (read_value a) ?e) (\<lambda>(left, e). abind (at_right (read_value b) e) (\<lambda>(right, e).
          athen (require (left = ''BOL'' \<and> right = ''BOL'') e (''operator '' @ quoted op @
            '' requires BOL operands, got '' @ left @ '' and '' @ right)) (a_type ''BOL'' e))) st"
      using own by (simp add: analyze_logic_def Let_def abind_run [where m = "at_left (infer_of R) e", OF one] abind_run [where m = "at_right (infer_of R) (set_left l' e)", OF two])
    then have "yields st (operator_type op a b) (analyze_logic R op e)"
      unfolding yields_def operands_run [OF e2 ab]
      by (simp add: require_run operator_types(6) [OF op] a_type_def aret_def)
    then show ?thesis
      using binary_types [OF e left(2) right(2)] by (rule follows_rulesI)
  qed
qed

lemma plus_run:
  assumes e: "is_binary ''+'' l r e" and a: "a \<in> scalars" and free: "scalars_free (an_types st)"
  shows "analyze_plus R a e st =
    (case infer_of R r st of
       Inl err \<Rightarrow> Inl err
     | Inr ((t, r'), st') \<Rightarrow>
         (case read_value t r' st' of
            Inl err \<Rightarrow> Inl err
          | Inr ((b, r'), st') \<Rightarrow>
              (if a = ''STR'' \<and> b = ''STR'' then a_type ''STR'' (set_right r' (set_left l e)) st'
               else analyze_numeric ''+'' a b (set_right r' (set_left l e)) st')))"
proof -
  have left: "at_left (read_value a) e st = Inr ((a, set_left l e), st)"
    using e a by (simp add: is_binary_def at_child_run read_scalar)
  have joins: "Analysis.reads (\<lambda>st. is_collection_join_type (an_types st) a) st = Inr (False, st)"
    using a free by (simp add: reads_def scalar_no_join)
  show ?thesis
    using e unfolding analyze_plus_def abind_run [where m = "at_left (read_value a) e", OF left]
    by (simp add: joins is_binary_def at_child_run abind_def split: sum.splits prod.splits)
qed

lemma binary_follows:
  assumes e: "is_binary op l r e" and own: "\<not> shares_subject e"
    and op: "op \<in> {''+'', ''-'', ''*'', ''/'', ''%'', ''<'', ''<='', ''>'', ''>='', ''=='', ''!='', ''&&'', ''||''}"
    and lr: "scalar_expr (an_scope st) l" "scalar_expr (an_scope st) r" and free: "scalars_free (an_types st)"
    and l: "follows_rules st l (infer_of R l)" and r: "follows_rules st r (infer_of R r)"
  shows "follows_rules st e (analyze_binary R e)"
proof (cases "op \<in> {''&&'', ''||''}")
  case True
  then have "analyze_binary R e st = analyze_logic R op e st"
    using binary_start [OF e _ scalar_not_star [OF lr(1)], of R st] op by auto
  then show ?thesis using logic_follows [OF e True own l r] by (rule follows_rules_run)
next
  case plain: False
  let ?eq = "op = ''=='' \<or> op = ''!=''"
  let ?k = "\<lambda>left e. if op = ''+'' then analyze_plus R left e
        else abind (at_right (operand R ?eq) e) (\<lambda>(right, e).
          if op \<in> {''-'', ''*'', ''/'', ''%''} then analyze_numeric op left right e
          else if op \<in> {''<'', ''<='', ''>'', ''>=''} then analyze_order op left right e
          else if ?eq then analyze_equality op left right e
          else adie e (''unknown binary operator '' @ quoted op))"
  have start: "analyze_binary R e st = abind (at_left (operand R ?eq) e) (\<lambda>(left, e). ?k left e) st"
    using op plain by (subst binary_start [OF e _ scalar_not_star [OF lr(1)]]) auto
  from l show ?thesis
  proof (cases rule: follows_rules_cases)
    case (untyped i c msg)
    then have "analyze_binary R e st = Inl (Die i c msg)"
      using e unfolding start by (simp add: is_binary_def at_child_run scalar_operand [OF lr(1)] abind_fails)
    then show ?thesis
      using binary_untyped [OF e] untyped(2) by (intro follows_rulesI [where t = None]) (auto simp: yields_def)
  next
    case left: (typed a l')
    have a: "a \<in> scalars" using left has_type_scalar by auto
    have e1: "is_binary op l' r (set_left l' e)" using e by (simp add: is_binary_def)
    have "at_left (operand R ?eq) e st = Inr ((a, set_left l' e), st)"
      using e left by (simp add: is_binary_def at_child_run scalar_operand [OF lr(1)])
    then have run: "analyze_binary R e st = ?k a (set_left l' e) st"
      unfolding start by (simp only: abind_def sum.case prod.case)
    from r show ?thesis
    proof (cases rule: follows_rules_cases)
      case (untyped i c msg)
      have "analyze_binary R e st = Inl (Die i c msg)"
      proof (cases "op = ''+''")
        case True
        then show ?thesis unfolding run by (simp add: plus_run [OF e1 [unfolded True] a free] untyped(1))
      next
        case False
        then show ?thesis
          using e1 untyped(1) unfolding run by (simp add: is_binary_def at_child_run scalar_operand [OF lr(2)] abind_fails)
      qed
      then show ?thesis
        using binary_untyped [OF e] untyped(2) by (intro follows_rulesI [where t = None]) (auto simp: yields_def)
    next
      case right: (typed b r')
      have b: "b \<in> scalars" using right has_type_scalar by auto
      have "yields st (operator_type op a b) (analyze_binary R e)"
      proof (cases "op = ''+''")
        case True
        let ?e = "set_right r' (set_left l' (set_left l' e))"
        have e2: "is_binary ''+'' l' r' ?e" using e True by (simp add: is_binary_def)
        have "analyze_binary R e st = (if a = ''STR'' \<and> b = ''STR'' then a_type ''STR'' ?e st else analyze_numeric ''+'' a b ?e st)"
          using True unfolding run by (simp add: plus_run [OF e1 [unfolded True] a free] right(1) read_scalar b)
        moreover have "yields st (operator_type ''+'' a b) (analyze_numeric ''+'' a b ?e)" if "\<not> (a = ''STR'' \<and> b = ''STR'')"
          using that by (intro finish_numeric [OF e2 _ a b]) (auto simp: operator_types)
        ultimately show ?thesis
          using True by (cases "a = ''STR'' \<and> b = ''STR''") (auto simp: yields_def operator_types a_type_def aret_def)
      next
        case False
        let ?e = "set_right r' (set_left l' e)"
        have e2: "is_binary op l' r' ?e" using e by (simp add: is_binary_def)
        have "at_right (operand R ?eq) (set_left l' e) st = Inr ((b, ?e), st)"
          using e1 right by (simp add: is_binary_def at_child_run scalar_operand [OF lr(2)])
        then have "analyze_binary R e st =
            (if op \<in> {''-'', ''*'', ''/'', ''%''} then analyze_numeric op a b ?e
             else if op \<in> {''<'', ''<='', ''>'', ''>=''} then analyze_order op a b ?e
             else if ?eq then analyze_equality op a b ?e
             else adie ?e (''unknown binary operator '' @ quoted op)) st"
          using False unfolding run by (simp only: if_False abind_def sum.case prod.case)
        moreover consider "op = ''%''" | "op \<in> {''-'', ''*'', ''/''}" | "op \<in> {''<'', ''<='', ''>'', ''>=''}" | "op \<in> {''=='', ''!=''}"
          using op plain False by (elim insertE emptyE) simp_all
        then have "yields st (operator_type op a b) (if op \<in> {''-'', ''*'', ''/'', ''%''} then analyze_numeric op a b ?e
             else if op \<in> {''<'', ''<='', ''>'', ''>=''} then analyze_order op a b ?e
             else if ?eq then analyze_equality op a b ?e
             else adie ?e (''unknown binary operator '' @ quoted op))"
        proof cases
          case 1
          then show ?thesis using finish_rest [OF e2 [unfolded 1] a b] by simp
        next
          case 2
          then have "op \<noteq> ''%''" by auto
          then show ?thesis using finish_numeric [OF e2 _ a b operator_types(3) [OF 2]] 2 by auto
        next
          case 3
          then show ?thesis using finish_order [OF e2 3 a b] by auto
        next
          case 4
          then show ?thesis using finish_equality [OF e2 4 a b] by auto
        qed
        ultimately show ?thesis unfolding yields_def by (simp only:)
      qed
      then show ?thesis using binary_types [OF e left(2) right(2)] by (rule follows_rulesI)
    qed
  qed
qed

section \<open>Conditional expressions and names\<close>

lemma needs_bool_run:
  "get n = Some c \<Longrightarrow> needs_bool get what (t, n) st =
     (if t = ''BOL'' then Inr (n, st)
      else Inl (Die (n_line (attrs c)) (n_col (attrs c)) (what @ '' must be BOL, got '' @ t)))"
  by (simp add: needs_bool_def require_at_run aret_def)

lemma if_run:
  assumes e: "is_if_expr v c r e" and v: "infer_of R v st = Inr ((a, v'), st)" and c: "infer_of R c st = Inr ((''BOL'', c'), st)"
  shows "analyze_if_expr R e st =
    (let e = set_condition c' (set_value v' e) in
     case r of
       None \<Rightarrow> a_type a e st
     | Some r \<Rightarrow>
         (case infer_of R r st of
            Inl err \<Rightarrow> Inl err
          | Inr ((b, r'), st') \<Rightarrow>
              (if a = b then a_type a (set_right r' e) st'
               else case numeric_binary_type (Some a) (Some b) of
                 Some t \<Rightarrow> a_type t (set_right r' e) st'
               | None \<Rightarrow> adie r' (''if expression branches must produce the same type, got '' @ a @ '' and '' @ b) st')))"
proof -
  have one: "at_value (infer_of R) e st = Inr ((a, set_value v' e), st)"
    using e v by (simp add: is_if_expr_def at_child_run)
  have two: "at_condition (infer_of R) (set_value v' e) st = Inr ((''BOL'', set_condition c' (set_value v' e)), st)"
    using e c by (simp add: is_if_expr_def at_child_run)
  have three: "needs_bool n_condition what (''BOL'', set_condition c' (set_value v' e)) st
      = Inr (set_condition c' (set_value v' e), st)" for what
    by (simp add: needs_bool_run [where c = c'])
  show ?thesis
    using e unfolding analyze_if_expr_def abind_run [where m = "at_value (infer_of R) e", OF one] prod.case
      abind_run [where m = "at_condition (infer_of R) (set_value v' e)", OF two]
      abind_run [where m = "needs_bool n_condition w (''BOL'', set_condition c' (set_value v' e))" for w, OF three]
    by (auto simp: is_if_expr_def at_child_run abind_def Let_def the_ptr_def aret_def adie_def afail_def
        split: sum.splits option.splits)
qed

lemma common_types:
  "a \<in> scalars \<Longrightarrow> a \<noteq> b \<Longrightarrow> numeric_binary_type (Some a) (Some b) = common_type a b"
  by (simp add: numeric_binary common_type_def)

lemma if_follows:
  assumes e: "is_if_expr v c r e" and v: "follows_rules st v (infer_of R v)" and c: "follows_rules st c (infer_of R c)"
    and r: "\<And>x. r = Some x \<Longrightarrow> follows_rules st x (infer_of R x)"
  shows "follows_rules st e (analyze_if_expr R e)"
proof -
  have untyped: "\<not> has_type (an_scope st) e u" if "\<forall>u. \<not> has_type (an_scope st) v u" for u
    using that e by (cases r) (auto simp: has_type_if)
  have no_bool: "\<not> has_type (an_scope st) e u" if "\<not> has_type (an_scope st) c ''BOL''" for u
    using that e by (cases r) (auto simp: has_type_if)
  from v show ?thesis
  proof (cases rule: follows_rules_cases)
    case (untyped i j msg)
    then have "analyze_if_expr R e st = Inl (Die i j msg)"
      using e by (simp add: analyze_if_expr_def is_if_expr_def at_child_run abind_fails)
    then show ?thesis using \<open>\<And>u. (\<forall>u. \<not> has_type (an_scope st) v u) \<Longrightarrow> \<not> has_type (an_scope st) e u\<close> untyped(2)
      by (intro follows_rulesI [where t = None]) (auto simp: yields_def)
  next
    case first: (typed a v')
    have one: "at_value (infer_of R) e st = Inr ((a, set_value v' e), st)"
      using e first by (simp add: is_if_expr_def at_child_run)
    from c show ?thesis
    proof (cases rule: follows_rules_cases)
      case (untyped i j msg)
      then have "analyze_if_expr R e st = Inl (Die i j msg)"
        using e unfolding analyze_if_expr_def abind_run [where m = "at_value (infer_of R) e", OF one]
        by (simp add: is_if_expr_def at_child_run abind_fails)
      then show ?thesis using no_bool untyped(2) by (intro follows_rulesI [where t = None]) (auto simp: yields_def)
    next
      case condition: (typed b c')
      show ?thesis
      proof (cases "b = ''BOL''")
        case False
        have "at_condition (infer_of R) (set_value v' e) st = Inr ((b, set_condition c' (set_value v' e)), st)"
          using e condition by (simp add: is_if_expr_def at_child_run)
        then have "\<exists>i j msg. analyze_if_expr R e st = Inl (Die i j msg)"
          using False unfolding analyze_if_expr_def abind_run [where m = "at_value (infer_of R) e", OF one]
          by (simp add: abind_def needs_bool_run [where c = c'])
        moreover have "\<not> has_type (an_scope st) c ''BOL''" using condition(2) False has_type_unique by blast
        ultimately show ?thesis using no_bool by (intro follows_rulesI [where t = None]) (auto simp: yields_def)
      next
        case True
        note run = if_run [OF e first(1) condition(1) [unfolded True]]
        have bool: "has_type (an_scope st) c ''BOL''" using condition(2) True by simp
        have av: "has_type (an_scope st) v u \<longleftrightarrow> u = a" for u using first(2) has_type_unique by blast
        show ?thesis
        proof (cases r)
          case None
          have "has_type (an_scope st) e u \<longleftrightarrow> u = a" for u using e None bool av by (simp add: has_type_if)
          then show ?thesis using None run
            by (intro follows_rulesI [where t = "Some a"]) (auto simp: yields_def Let_def a_type_def aret_def)
        next
          case (Some x)
          from r [OF Some] show ?thesis
          proof (cases rule: follows_rules_cases)
            case (untyped i j msg)
            then have "\<not> has_type (an_scope st) e u" for u using e Some by (simp add: has_type_if)
            then show ?thesis using untyped(1) run Some
              by (intro follows_rulesI [where t = None]) (auto simp: yields_def Let_def)
          next
            case right: (typed d x')
            have bx: "has_type (an_scope st) x u \<longleftrightarrow> u = d" for u using right(2) has_type_unique by blast
            have ty: "has_type (an_scope st) e u \<longleftrightarrow> common_type a d = Some u" for u
              using e Some bool av bx by (simp add: has_type_if)
            have "yields st (common_type a d) (analyze_if_expr R e)"
              using run Some right(1) common_types [OF has_type_scalar [OF first(2)], of d]
              by (cases "a = d") (auto simp: yields_def Let_def common_type_def a_type_def aret_def adie_def afail_def
                  split: option.splits)
            then show ?thesis using ty by (rule follows_rulesI)
          qed
        qed
      qed
    qed
  qed
qed

lemma name_follows:
  assumes e: "names (an_scope st) e sy" and t: "sym_type sy \<in> scalars"
  shows "follows_rules st e (analyze_name_expr R None e)"
proof -
  obtain x where x: "n_name (attrs e) = Some x" "scope_try_resolve (an_scope st) x = Some sy"
    using e by (auto simp: names_def)
  have look: "lookup (n_name (attrs e)) st = Inr (Some sy, st)"
    using x by (simp add: lookup_def reads_def)
  have copied: "n_name (attrs (copy_c_expr sy e)) = Some x"
    using x by (simp add: copy_c_expr_def with_c_expr_def split: option.split)
  have "analyze_name_expr R None e st =
      (case analyze_name e st of Inl err \<Rightarrow> Inl err
       | Inr ((actual, e), st') \<Rightarrow>
           returned (if cx_preserve_ref_identity (an_ctx st') then e else snd (implicit_ref_read_value e actual)) st')"
    by (simp add: analyze_name_expr_def fn_value_name_def look abind_def aret_def get_ctx_def reads_def split: sum.splits prod.splits)
  moreover have "analyze_name e st =
      (if is_nested_fn sy \<or> ownership sy = OWNERSHIP_FREED then (\<lambda>m. m st) (if is_nested_fn sy
         then adie e (''nested function '' @ quoted x @ '' can only be called directly inside its owning function'')
         else adie e (''use of freed value '' @ quoted x))
       else a_type (sym_type sy) (copy_c_expr sy e) st)"
    using x look by (simp add: analyze_name_def the_ptr_def abind_def aret_def)
  ultimately show ?thesis
    using has_type_name [OF e] t
    by (intro follows_rulesI [where t = "if is_nested_fn sy \<or> ownership sy = OWNERSHIP_FREED then None else Some (sym_type sy)"])
      (auto simp: yields_def adie_def afail_def a_type_def aret_def implicit_ref_read_value_def scalar_no_ref returned_def
        the_ptr_def abind_def set_type_def)
qed

section \<open>The theorem\<close>

lemma infer_next: "infer_of (analyzer (Suc n)) e = analyze_expr_expected (analyzer n) e None"
  by (simp add: infer_of_def Let_def)

lemma scalar_expr_follows:
  assumes "scalar_expr (an_scope st) e" "scalars_free (an_types st)" "size e \<le> n"
  shows "follows_rules st e (analyze_expr_expected (analyzer n) e None)"
  using assms(1,3)
proof (induction arbitrary: n rule: scalar_expr.induct)
  case (lit e)
  then show ?case
    by (elim insertE emptyE)
      (auto simp: follows_rules_def analyze_expr_expected_def a_type_def aret_def yields_def has_type_lit
        intro: exI [of _ "Some ''INT''"] exI [of _ "Some ''FLT''"] exI [of _ "Some ''BOL''"] exI [of _ "Some ''STR''"])
next
  case (name e sy)
  then show ?case
    using name_follows [OF name(1,2), of "analyzer n"] by (simp add: names_def analyze_expr_expected_def)
next
  case (unary op x e)
  then obtain m where n: "n = Suc m" "size x \<le> m" using size_child(6) [of e x] by (cases n) (auto simp: is_unary_def)
  show ?case
    using unary_follows [OF unary(1,2), of st "analyzer n"] unary.IH [OF n(2)] unary(1)
    by (simp add: n(1) infer_next is_unary_def analyze_expr_expected_def del: analyzer.simps)
next
  case (binary op l r e)
  then obtain m where n: "n = Suc m" "size l \<le> m" "size r \<le> m"
    using size_child(10) [of e l] size_child(11) [of e r] by (cases n) (auto simp: is_binary_def)
  have "follows_rules st e (analyze_binary (analyzer n) e)"
    by (rule binary_follows [OF binary(1,3,2,4,5) assms(2)]) (simp_all only: n(1) infer_next binary.IH n(2,3))
  then show ?case using binary(1) by (simp add: is_binary_def analyze_expr_expected_def)
next
  case (cond v c e)
  then obtain m where n: "n = Suc m" "size v \<le> m" "size c \<le> m"
    using size_child(4) [of e v] size_child(7) [of e c] by (cases n) (auto simp: is_if_expr_def)
  have "follows_rules st e (analyze_if_expr (analyzer n) e)"
    by (rule if_follows [OF cond(1)]) (simp_all add: n(1) infer_next cond.IH n(2,3) del: analyzer.simps)
  then show ?case using cond(1) by (simp add: is_if_expr_def analyze_expr_expected_def)
next
  case (branches v c r e)
  then obtain m where n: "n = Suc m" "size v \<le> m" "size c \<le> m" "size r \<le> m"
    using size_child(4) [of e v] size_child(7) [of e c] size_child(11) [of e r] by (cases n) (auto simp: is_if_expr_def)
  have "follows_rules st e (analyze_if_expr (analyzer n) e)"
    by (rule if_follows [OF branches(1)]) (auto simp: n(1) infer_next branches.IH n(2-4) simp del: analyzer.simps)
  then show ?case using branches(1) by (simp add: is_if_expr_def analyze_expr_expected_def)
qed

text \<open>
  C30: Scalar expressions are typed by the rules, no more and no less. With fuel for the depth of the
  expression, the analysis returns the type the rules give it and leaves the state as it was, or,
  when they give none, stops in a diagnostic; the type is unique.
\<close>

theorem scalar_typing:
  assumes "scalar_expr (an_scope st) e" and "scalars_free (an_types st)" and "size e \<le> n"
  shows "case analyze_expr_expected (analyzer n) e None st of
      Inl err \<Rightarrow> is_diagnostic err \<and> (\<forall>t. \<not> has_type (an_scope st) e t)
    | Inr ((t, e'), st') \<Rightarrow> st' = st \<and> has_type (an_scope st) e t \<and> (\<forall>u. has_type (an_scope st) e u \<longrightarrow> u = t)"
  using scalar_expr_follows [OF assms]
  by (cases rule: follows_rules_cases) (auto dest: has_type_unique)

definition sample_sum :: node where
  "sample_sum = set_right (with_name ''x'' (synthetic NK_NAME TK_NAME ''x''))
     (set_left (synthetic NK_INT TK_INT_LITERAL ''1'') (with_op ''+'' (synthetic NK_BINARY TK_PLUS ''+'')))"

definition sample_frame :: an_state where
  "sample_frame = \<lparr>an_scope = [[new_symbol ''x'' ''FLT'' None builtin_map_value]], an_types = [], an_fns = [],
     an_ctx = fresh_ctx NoFn False False False\<rparr>"

theorem scalar_typing_witness:
  "scalar_expr (an_scope sample_frame) sample_sum \<and> has_type (an_scope sample_frame) sample_sum ''FLT'' \<and>
   (case analyze_expr_expected (analyzer 90) sample_sum None sample_frame of
      Inl err \<Rightarrow> is_diagnostic err \<and> (\<forall>t. \<not> has_type (an_scope sample_frame) sample_sum t)
    | Inr ((t, e'), st') \<Rightarrow> st' = sample_frame \<and> has_type (an_scope sample_frame) sample_sum t \<and>
        (\<forall>u. has_type (an_scope sample_frame) sample_sum u \<longrightarrow> u = t))"
proof -
  let ?l = "synthetic NK_INT TK_INT_LITERAL ''1''" and ?r = "with_name ''x'' (synthetic NK_NAME TK_NAME ''x'')"
  let ?sy = "new_symbol ''x'' ''FLT'' None builtin_map_value"
  have e: "is_binary ''+'' ?l ?r sample_sum"
    by (simp add: is_binary_def sample_sum_def synthetic_def with_defs)
  have x: "names (an_scope sample_frame) ?r ?sy" by (simp add: names_def sample_frame_def with_defs synthetic_def new_symbol_def)
  have own: "\<not> shares_subject sample_sum"
    by (simp add: shares_subject_def is_connective_def sample_sum_def synthetic_def with_defs)
  have expr: "scalar_expr (an_scope sample_frame) sample_sum"
    by (rule scalar_expr.binary [OF e _ own scalar_expr.lit scalar_expr.name [OF x]])
      (simp_all add: synthetic_def scalars_def new_symbol_def)
  have "has_type (an_scope sample_frame) ?r (sym_type ?sy)"
    by (rule has_type.name [OF x]) (simp_all add: scalars_def new_symbol_def is_nested_fn_def builtin_map_value_def synthetic_def)
  then have "has_type (an_scope sample_frame) sample_sum ''FLT''"
    using has_type.int [of ?l] by (intro has_type.binary [OF e])
      (auto simp: operator_types numbers_def wider_def synthetic_def new_symbol_def)
  moreover have "scalars_free (an_types sample_frame)" by (simp add: scalars_free_def sample_frame_def is_struct_type_def type_find_def)
  moreover have "size sample_sum \<le> 90" by code_simp
  ultimately show ?thesis using expr scalar_typing [OF expr] by blast
qed

end
