(* ===== verification/Emit.thy ===== *)
theory Emit
  imports Names AnalyzeColl
begin

text \<open>
  The ground of the C emitter (\<open>src/caster/emit\<close>): \<open>strf\<close> formats, and emission as a function of
  the emitter's own state. A text written to the output file is returned, and the file is what
  they make together. Where C leaves the order of a call's arguments open, the model runs them
  from left to right; the order shows only in the numbers of the temporaries of destructuring.

  A format is written as in the source, with a backquote for the double quote and a tilde for the
  backslash, which a literal here cannot hold and no format of the emitter uses.
\<close>

section \<open>Formats\<close>

definition format_char :: "char \<Rightarrow> char" where
  "format_char c = (if c = CHR 0x60 then DQUOTE else if c = CHR 0x7E then BSLASH else c)"

fun strf :: "string \<Rightarrow> string list \<Rightarrow> string" where
  "strf [] args = []"
| "strf [c] args = [format_char c]"
| "strf (c # d # f) args =
     (if c = CHR ''%'' \<and> d = CHR ''s'' then
        (case args of [] \<Rightarrow> strf f [] | a # rest \<Rightarrow> a @ strf f rest)
      else if c = CHR ''%'' \<and> d = CHR ''%'' then CHR ''%'' # strf f args
      else format_char c # strf (d # f) args)"

definition show_int :: "int \<Rightarrow> string" where
  "show_int i = (if i < 0 then CHR ''-'' # show_nat (nat (- i)) else show_nat (nat i))"

text \<open>The loops that put \<open>i ? ", " : ""\<close> before each item.\<close>

fun commas :: "string list \<Rightarrow> string" where
  "commas [] = []"
| "commas [x] = x"
| "commas (x # y # xs) = x @ '', '' @ commas (y # xs)"

section \<open>The emitter's state\<close>

text \<open>
  \<open>g_owned_locals\<close>, \<open>g_return_tmp_id\<close> and \<open>g_destructure_tmp_id\<close>. The array of owned locals is a
  list; its capacity doubles as that of a vector does and is left out.
\<close>

record em_state =
  em_owned :: "(string \<times> string) list"
  em_return_tmp :: nat
  em_destructure_tmp :: nat

type_synonym 'a em = "em_state \<Rightarrow> ('a \<times> em_state) result"

definition eret :: "'a \<Rightarrow> 'a em" where
  "eret x st = Inr (x, st)"

definition ebind :: "'a em \<Rightarrow> ('a \<Rightarrow> 'b em) \<Rightarrow> 'b em" where
  "ebind m f st = (case m st of Inl e \<Rightarrow> Inl e | Inr (x, st') \<Rightarrow> f x st')"

definition efail :: "error \<Rightarrow> 'a em" where
  "efail e st = Inl e"

definition eres :: "'a result \<Rightarrow> 'a em" where
  "eres r = (case r of Inl e \<Rightarrow> efail e | Inr x \<Rightarrow> eret x)"

text \<open>A pointer that is read through.\<close>

definition eptr :: "'a option \<Rightarrow> 'a em" where
  "eptr x = (case x of None \<Rightarrow> efail NullDeref | Some y \<Rightarrow> eret y)"

definition egets :: "(em_state \<Rightarrow> 'a) \<Rightarrow> 'a em" where
  "egets f st = Inr (f st, st)"

definition emods :: "(em_state \<Rightarrow> em_state) \<Rightarrow> unit em" where
  "emods f st = Inr ((), f st)"

primrec eseq :: "'a em list \<Rightarrow> 'a list em" where
  "eseq [] = eret []"
| "eseq (m # ms) = ebind m (\<lambda>x. ebind (eseq ms) (\<lambda>xs. eret (x # xs)))"

text \<open>\<open>strf\<close> or \<open>fprintf\<close> with a list of emitted arguments, and texts one after the other.\<close>

definition emf :: "string \<Rightarrow> string em list \<Rightarrow> string em" where
  "emf f args = ebind (eseq args) (\<lambda>xs. eret (strf f xs))"

definition ecat :: "string em list \<Rightarrow> string em" where
  "ecat ms = ebind (eseq ms) (\<lambda>xs. eret (concat xs))"

definition ecommas :: "string em list \<Rightarrow> string em" where
  "ecommas ms = ebind (eseq ms) (\<lambda>xs. eret (commas xs))"

abbreviation lit :: "string \<Rightarrow> string em" where "lit s \<equiv> eret s"

text \<open>The same for texts that do not depend on the state.\<close>

primrec rseq :: "'a result list \<Rightarrow> 'a list result" where
  "rseq [] = Inr []"
| "rseq (m # ms) = rbind m (\<lambda>x. rbind (rseq ms) (\<lambda>xs. Inr (x # xs)))"

definition rmf :: "string \<Rightarrow> string result list \<Rightarrow> string result" where
  "rmf f args = rbind (rseq args) (\<lambda>xs. Inr (strf f xs))"

definition rcat :: "string result list \<Rightarrow> string result" where
  "rcat ms = rbind (rseq ms) (\<lambda>xs. Inr (concat xs))"

definition rptr :: "'a option \<Rightarrow> 'a result" where
  "rptr x = (case x of None \<Rightarrow> Inl NullDeref | Some y \<Rightarrow> Inr y)"

lemma rptr_simps [simp]: "rptr (Some x) = Inr x" "rptr None = Inl NullDeref"
  by (simp_all add: rptr_def)

lemma eret_run [simp]: "eret x st = Inr (x, st)"
  and efail_run [simp]: "efail e st = Inl e"
  and egets_run [simp]: "egets f st = Inr (f st, st)"
  and emods_run [simp]: "emods g st = Inr ((), g st)"
  by (simp_all add: eret_def efail_def egets_def emods_def)

lemma eres_run: "eres r st = (case r of Inl e \<Rightarrow> Inl e | Inr x \<Rightarrow> Inr (x, st))"
  by (simp add: eres_def split: sum.split)

lemma eres_simps [simp]: "eres (Inr x) = eret x" "eres (Inl e) = efail e"
  by (simp_all add: eres_def)

lemma eptr_simps [simp]: "eptr (Some x) = eret x" "eptr None = efail NullDeref"
  by (simp_all add: eptr_def)

lemma ebind_simps [simp]: "ebind (eret x) f = f x" "ebind (efail e) f = efail e"
  by (rule ext, simp add: ebind_def efail_def)+

lemma ebind_eq_Inr: "ebind m f st = Inr (y, st') \<longleftrightarrow> (\<exists>x s. m st = Inr (x, s) \<and> f x s = Inr (y, st'))"
  by (auto simp: ebind_def split: sum.splits)

section \<open>Reading nodes\<close>

text \<open>
  \<open>type_eq(n->checked_type, "...")\<close> and the tests of a type's form fail on a null type. A test that
  looks the type up in the table reads it, so that there the type is fetched first.
\<close>

abbreviation ctyp :: "node \<Rightarrow> string option" where "ctyp n \<equiv> checked_type (attrs n)"
abbreviation dtyp :: "node \<Rightarrow> string option" where "dtyp n \<equiv> declared_type (attrs n)"

definition item :: "node list \<Rightarrow> nat \<Rightarrow> node em" where
  "item xs i = (if i < length xs then eret (xs ! i) else efail OutOfBounds)"

lemma item_simps [simp]: "i < length xs \<Longrightarrow> item xs i = eret (xs ! i)" "\<not> i < length xs \<Longrightarrow> item xs i = efail OutOfBounds"
  by (simp_all add: item_def)

definition numbered :: "string \<Rightarrow> nat \<Rightarrow> nat \<Rightarrow> string" where
  "numbered p i j = strf (p @ ''_%s_%s'') [show_nat i, show_nat j]"

text \<open>A name with the place of one node, and with the line of one and the column of another.\<close>

definition placed2 :: "string \<Rightarrow> node \<Rightarrow> node \<Rightarrow> string" where
  "placed2 p a b = numbered p (n_line (attrs a)) (n_col (attrs b))"

abbreviation placed :: "string \<Rightarrow> node \<Rightarrow> string" where "placed p n \<equiv> placed2 p n n"

end
