(* ===== verification/EmitDrops.thy ===== *)
theory EmitDrops
  imports Emit
begin

text \<open>
  Which values the emitted code copies and drops (\<open>src/caster/emit/expr.c\<close>, \<open>stmt.c\<close>): the copy of a
  heap value, whether a type needs a drop and by which function, and the list of the locals that
  own a value, which a function drops, in reverse order, before it returns.
\<close>

section \<open>Copies\<close>

definition emit_heap_field_copy :: "type_table \<Rightarrow> string \<Rightarrow> string \<Rightarrow> string result" where
  "emit_heap_field_copy types t value =
     (if t = ''STR'' then Inr (strf ''flx_str_copy(%s)'' [value])
      else if is_array_type t then rbind (arr_make t) (\<lambda>f. Inr (strf ''%s(%s.data, %s.len)'' [f, value, value]))
      else if is_map_type t then rbind (map_fn t ''clone'') (\<lambda>f. Inr (strf ''%s(%s)'' [f, value]))
      else if t = ''OPEN'' \<or> is_open_struct_type types t then Inr (strf ''flx_objmap_clone(%s)'' [value])
      else if is_struct_type types t then
        rbind (struct_copy_fn_for_type t) (\<lambda>f. Inr (strf ''%s(%s)'' [f, value]))
      else Inr value)"

text \<open>\<open>INT(x)\<close> and the like never are; \<open>Point(x)\<close> is, with the one argument it wraps.\<close>

definition is_struct_constructor_expr :: "type_table \<Rightarrow> node \<Rightarrow> bool" where
  "is_struct_constructor_expr types value \<longleftrightarrow>
     (n_kind value = NK_CALL \<or> n_kind value = NK_METHOD_CALL) \<and>
     opt_holds (is_struct_type types) (dtyp value) \<and> length (n_args value) = 1"

lemma constructor_arg_smaller: "is_struct_constructor_expr types v \<Longrightarrow> size (hd (n_args v)) < size v"
  by (cases v; cases "n_args v") (auto simp: is_struct_constructor_expr_def)

text \<open>The wrapped value of constructors inside constructors.\<close>

function constructed :: "type_table \<Rightarrow> node \<Rightarrow> node" where
  "constructed types v =
     (if is_struct_constructor_expr types v then constructed types (hd (n_args v)) else v)"
  by pat_completeness auto

termination
  by (relation "measure (\<lambda>(types, v). size v)") (simp_all add: constructor_arg_smaller)

declare constructed.simps [simp del]

lemma constructed_not_constructor: "\<not> is_struct_constructor_expr types (constructed types v)"
proof (induction types v rule: constructed.induct)
  case (1 types v)
  show ?case
  proof (cases "is_struct_constructor_expr types v")
    case True
    with 1 [OF True] show ?thesis by (simp add: constructed.simps [of types v])
  next
    case False
    then show ?thesis by (simp add: constructed.simps [of types v])
  qed
qed

lemma constructed_plain: "\<not> is_struct_constructor_expr types v \<Longrightarrow> constructed types v = v"
  by (simp add: constructed.simps)

definition names_value_fn :: "node \<Rightarrow> bool" where
  "names_value_fn v = opt_holds (\<lambda>s. starts_with s ''flx_value_'') (c_expr (attrs v))"

definition field_value_should_copy :: "type_table \<Rightarrow> node \<Rightarrow> bool" where
  "field_value_should_copy types value =
     (let v = constructed types value in n_kind v = NK_NAME \<or> n_kind v = NK_DOT \<or> is_star v)"

definition initializer_may_own :: "type_table \<Rightarrow> node \<Rightarrow> bool" where
  "initializer_may_own types value =
     (let v = constructed types value in
      if n_kind v = NK_NAME then names_value_fn v
      else if n_kind v = NK_DOT then False
      else if n_kind v = NK_UNARY \<and> (n_op (attrs v) = Some ''REF'' \<or> n_op (attrs v) = Some ''*'') then False
      else True)"

definition assignment_value_should_copy :: "type_table \<Rightarrow> node \<Rightarrow> bool" where
  "assignment_value_should_copy types value =
     (let v = constructed types value in
      if n_kind v = NK_NAME then \<not> names_value_fn v
      else n_kind v = NK_DOT \<or> is_star v)"

section \<open>Drops\<close>

primrec type_needs_drop_n :: "nat \<Rightarrow> type_table \<Rightarrow> string option \<Rightarrow> bool" where
  "type_needs_drop_n 0 types t = False"
| "type_needs_drop_n (Suc k) types t =
     (case t of
        None \<Rightarrow> False
      | Some x \<Rightarrow>
          if x \<in> {''STR'', ''OBJ'', ''OPEN''} then True
          else if is_open_struct_type types x then True
          else if is_array_type x \<or> is_map_type x \<or> is_task_type x then True
          else if is_ref_type x then True
          else if is_fn_type x then False
          else
            (case type_find types x of
               None \<Rightarrow> False
             | Some info \<Rightarrow>
                 ti_kind info = TYPEINFO_STRUCT \<and> \<not> open_runtime info \<and>
                 list_ex (\<lambda>field. opt_holds is_ref_type (dtyp field) \<or> type_needs_drop_n k types (dtyp field))
                   (n_fields (ti_node info))))"

text \<open>\<open>depth > 16\<close> gives up: at depth 0 there are seventeen levels.\<close>

definition type_needs_drop_depth :: "type_table \<Rightarrow> string option \<Rightarrow> nat \<Rightarrow> bool" where
  "type_needs_drop_depth types t depth = type_needs_drop_n (17 - depth) types t"

definition field_type_needs_drop :: "type_table \<Rightarrow> string option \<Rightarrow> nat \<Rightarrow> bool" where
  "field_type_needs_drop types t depth \<longleftrightarrow> opt_holds is_ref_type t \<or> type_needs_drop_depth types t depth"

definition type_needs_drop :: "type_table \<Rightarrow> string option \<Rightarrow> bool" where
  "type_needs_drop types t = type_needs_drop_depth types t 0"

definition type_has_drop_helper_depth :: "type_table \<Rightarrow> string \<Rightarrow> nat \<Rightarrow> bool" where
  "type_has_drop_helper_depth types t depth =
     (if t = ''HttpReq'' \<or> t = ''HttpRes'' then True
      else if depth > 16 then False
      else if is_struct_type types t then
        (case type_find types t of
           None \<Rightarrow> False
         | Some info \<Rightarrow> \<not> open_runtime info \<and>
             list_ex (\<lambda>field. field_type_needs_drop types (dtyp field) (depth + 1)) (n_fields (ti_node info)))
      else type_needs_drop types (Some t))"

definition type_has_drop_helper :: "type_table \<Rightarrow> string \<Rightarrow> bool" where
  "type_has_drop_helper types t = type_has_drop_helper_depth types t 0"

text \<open>A null pointer where no function drops the type.\<close>

definition drop_fn_for_type :: "type_table \<Rightarrow> string \<Rightarrow> string option result" where
  "drop_fn_for_type types t =
     (if t = ''STR'' then Inr (Some ''flx_drop_str'')
      else if t = ''OBJ'' then Inr (Some ''flx_drop_obj'')
      else if t = ''OPEN'' \<or> is_open_struct_type types t then Inr (Some ''flx_drop_objmap'')
      else if is_array_type t then rbind (arr_drop t) (\<lambda>f. Inr (Some f))
      else if is_map_type t then rbind (map_fn t ''drop'') (\<lambda>f. Inr (Some f))
      else if is_task_type t \<and> task_result_type t = ''HttpRes'' then Inr (Some ''flx_drop_tsk_httpres'')
      else if is_struct_type types t then rbind (lower_mangle t) (\<lambda>m. Inr (Some (strf ''flx_drop_%s'' [m])))
      else Inr None)"

definition target_drop_fn :: "type_table \<Rightarrow> string \<Rightarrow> string option result" where
  "target_drop_fn types t = (if type_has_drop_helper types t then drop_fn_for_type types t else Inr None)"

definition emit_zero_value :: "type_table \<Rightarrow> string \<Rightarrow> string result" where
  "emit_zero_value types t =
     (if t = ''INT'' then Inr ''0''
      else if t = ''FLT'' then Inr ''0.0''
      else if t = ''BOL'' then Inr ''false''
      else if t = ''STR'' then Inr (strf ''flx_str_lit(``, 0)'' [])
      else if is_ref_type t \<or> is_fn_type t then Inr ''NULL''
      else rbind (ctype types t) (\<lambda>c. Inr (strf ''(%s){0}'' [c])))"

section \<open>Owned locals\<close>

definition owned_locals_reset :: "em_state \<Rightarrow> em_state" where
  "owned_locals_reset st = st\<lparr>em_owned := [], em_return_tmp := 0, em_destructure_tmp := 0\<rparr>"

definition owned_local_contains :: "string \<Rightarrow> (string \<times> string) list \<Rightarrow> bool" where
  "owned_local_contains name owned \<longleftrightarrow> name \<in> fst ` set owned"

primrec owned_local_remove :: "string \<Rightarrow> (string \<times> string) list \<Rightarrow> (string \<times> string) list" where
  "owned_local_remove name [] = []"
| "owned_local_remove name (x # xs) = (if fst x = name then xs else x # owned_local_remove name xs)"

definition owned_local_add :: "type_table \<Rightarrow> string option \<Rightarrow> string option \<Rightarrow> unit em" where
  "owned_local_add types name t = emods (\<lambda>st.
     case (name, t) of
       (Some n, Some x) \<Rightarrow>
         if \<not> type_needs_drop types t \<or> owned_local_contains n (em_owned st) then st
         else st\<lparr>em_owned := em_owned st @ [(n, x)]\<rparr>
     | _ \<Rightarrow> st)"

definition assignment_initializer_may_own :: "type_table \<Rightarrow> string option \<Rightarrow> node option \<Rightarrow> bool" where
  "assignment_initializer_may_own types target_type value =
     (case value of
        None \<Rightarrow> False
      | Some v \<Rightarrow>
          if \<not> type_needs_drop types target_type then False
          else if opt_holds is_ref_type target_type then ref_result_owned (attrs v)
          else if opt_holds is_task_type target_type \<and> assignment_value_should_copy types v then False
          else if assignment_value_should_copy types v then True
          else initializer_may_own types v)"

definition returned_owned_local_name :: "type_table \<Rightarrow> (string \<times> string) list \<Rightarrow> node \<Rightarrow> string option" where
  "returned_owned_local_name types owned value =
     (let v = constructed types value in
      if n_kind v \<noteq> NK_NAME then None
      else case n_name (attrs v) of
        None \<Rightarrow> None
      | Some name \<Rightarrow> if owned_local_contains name owned then Some name else None)"

definition return_expr_is_borrowed :: "type_table \<Rightarrow> (string \<times> string) list \<Rightarrow> node \<Rightarrow> bool" where
  "return_expr_is_borrowed types owned value =
     (let v = constructed types value in
      if ref_result_owned (attrs v) then False
      else if n_kind v = NK_NAME then
        returned_owned_local_name types owned v = None \<and> \<not> names_value_fn v
      else n_kind v = NK_DOT)"

text \<open>The lines a drop writes; a reference drops its target and frees the cell.\<close>

definition indent_text :: "nat \<Rightarrow> string" where
  "indent_text n = concat (replicate n ''    '')"

definition emit_drop_stmt_with_prefix :: "type_table \<Rightarrow> nat \<Rightarrow> string \<Rightarrow> string \<Rightarrow> bool \<Rightarrow> string result" where
  "emit_drop_stmt_with_prefix types ind t e already_indented =
     (let pad = (if already_indented then '''' else indent_text ind) in
      if is_ref_type t then
        rbind (if is_ref_type (ref_target_type t) then Inr None else target_drop_fn types (ref_target_type t))
          (\<lambda>target_drop. Inr (strf ''%s{\<newline>%sif (%s) {\<newline>%s%sfree(%s);\<newline>%s}\<newline>%s}\<newline>''
            [pad, indent_text (ind + 1), e,
             (case target_drop of None \<Rightarrow> '''' | Some f \<Rightarrow> strf ''%s%s(*%s);\<newline>'' [indent_text (ind + 2), f, e]),
             indent_text (ind + 2), e, indent_text (ind + 1), indent_text ind]))
      else rbind (drop_fn_for_type types t) (\<lambda>drop.
        case drop of None \<Rightarrow> Inr '''' | Some f \<Rightarrow> Inr (strf ''%s%s(%s);\<newline>'' [pad, f, e])))"

definition emit_drop_stmt :: "type_table \<Rightarrow> nat \<Rightarrow> string \<Rightarrow> string \<Rightarrow> string result" where
  "emit_drop_stmt types ind t e = emit_drop_stmt_with_prefix types ind t e False"

primrec drop_lines :: "type_table \<Rightarrow> nat \<Rightarrow> string option \<Rightarrow> (string \<times> string) list \<Rightarrow> string result" where
  "drop_lines types ind skip [] = Inr ''''"
| "drop_lines types ind skip (x # xs) =
     (if skip = Some (fst x) then drop_lines types ind skip xs
      else rbind (emit_drop_stmt types ind (snd x) (fst x)) (\<lambda>s.
           rbind (drop_lines types ind skip xs) (\<lambda>rest. Inr (s @ rest))))"

definition emit_owned_local_drops :: "type_table \<Rightarrow> nat \<Rightarrow> string option \<Rightarrow> string em" where
  "emit_owned_local_drops types ind skip =
     ebind (egets em_owned) (\<lambda>owned. eres (drop_lines types ind skip (rev owned)))"

end
