(* ===== verification/EmitTypes.thy ===== *)
theory EmitTypes
  imports EmitDrops
begin

text \<open>
  The C types of declared MAPs and their helpers (\<open>src/caster/emit/types.c\<close>): forward declarations
  and definitions of the structs, and the functions that copy, promote and drop them. Each
  function returns the text it writes.
\<close>

section \<open>Order of the array types\<close>

function depth_type :: "string \<Rightarrow> nat" where
  "depth_type t = (if is_array_type t then Suc (depth_type (array_elem_type t)) else 0)"
  by pat_completeness auto

termination
  by (relation "measure length") (simp_all add: array_elem_length)

declare depth_type.simps [simp del]

definition cmp_arr :: "string \<Rightarrow> string \<Rightarrow> int" where
  "cmp_arr left right = int (depth_type left) - int (depth_type right)"

section \<open>Structs\<close>

definition structs :: "type_table \<Rightarrow> type_info list" where
  "structs types = filter (\<lambda>info. ti_kind info = TYPEINFO_STRUCT) types"

definition fixed_structs :: "type_table \<Rightarrow> type_info list" where
  "fixed_structs types = filter (\<lambda>info. ti_kind info = TYPEINFO_STRUCT \<and> \<not> open_runtime info) types"

definition emit_struct_forwards :: "type_table \<Rightarrow> string" where
  "emit_struct_forwards types =
     concat (map (\<lambda>info.
         if open_runtime info then strf ''typedef FLX_OBJMAP FLX_%s;\<newline>'' [ti_name info]
         else strf ''typedef struct FLX_%s FLX_%s;\<newline>'' [ti_name info, ti_name info]) (structs types))
     @ (if types = [] then '''' else ''\<newline>'')"

definition field_name :: "node \<Rightarrow> string result" where
  "field_name field = rptr (n_name (attrs field))"

definition struct_member :: "type_table \<Rightarrow> node \<Rightarrow> string result" where
  "struct_member types field =
     rbind (rptr (dtyp field)) (\<lambda>t. rbind (field_name field) (\<lambda>name.
       rcat [rmf ''    %s %s;\<newline>'' [ctype types t, Inr name],
             Inr (if is_ref_type t then strf ''    bool %s;\<newline>'' [ref_owner_field_name name] else '''')]))"

definition emit_struct_defs :: "type_table \<Rightarrow> string result" where
  "emit_struct_defs types =
     rcat (map (\<lambda>info. rcat
         ([Inr (strf ''struct FLX_%s {\<newline>'' [ti_name info])]
          @ map (struct_member types) (n_fields (ti_node info))
          @ [Inr ''};\<newline>\<newline>''])) (fixed_structs types)
       @ [Inr (if fixed_structs types = [] then '''' else ''\<newline>'')])"

section \<open>Copy helpers\<close>

definition emit_promote_ref_target_expr :: "type_table \<Rightarrow> string \<Rightarrow> string \<Rightarrow> string result" where
  "emit_promote_ref_target_expr types target_type value =
     (if is_struct_type types target_type then
        rmf ''%s(%s)'' [struct_promote_ref_fn_for_type target_type, Inr value]
      else
        rbind (ctype types target_type) (\<lambda>target_ctype.
        rbind (emit_heap_field_copy types target_type (strf ''(*%s)'' [value])) (\<lambda>copy_value.
        rbind (rmf ''promoted_ref_field_%s'' [lower_mangle target_type]) (\<lambda>ptr.
          Inr (strf (''({ %s* %s = NULL; '' @
            ''if (%s) { '' @
            ''%s = malloc(sizeof(%s)); '' @
            ''if (!%s) { fprintf(stderr, `caster: REF field promotion allocation failed~n`); exit(1); } '' @
            ''*%s = %s; '' @
            ''} '' @
            ''%s; })'')
            [target_ctype, ptr, value, ptr, target_ctype, ptr, ptr, copy_value, ptr])))))"

definition emit_struct_copy_helper_decls :: "type_table \<Rightarrow> string result" where
  "emit_struct_copy_helper_decls types =
     (let any = fixed_structs types \<noteq> [] in rcat
       ([Inr (if any then ''/* fixed MAP copy helpers */\<newline>'' else '''')]
        @ map (\<lambda>info. let n = ti_name info in rcat
            [rmf ''static FLX_UNUSED FLX_%s %s(FLX_%s value);\<newline>'' [Inr n, struct_copy_fn_for_type n, Inr n],
             rmf ''static FLX_UNUSED FLX_%s %s(FLX_%s value);\<newline>'' [Inr n, struct_promote_fn_for_type n, Inr n],
             rmf ''static FLX_UNUSED FLX_%s* %s(FLX_%s* value);\<newline>''
               [Inr n, struct_promote_ref_fn_for_type n, Inr n]]) (fixed_structs types)
        @ [Inr (if any then ''\<newline>'' else '''')]))"

text \<open>
  A field of the copied struct, and for a reference the field that says whether it is owned. A
  copy promotes the references its source owns; a promotion promotes all of them.
\<close>

definition struct_init_entries :: "type_table \<Rightarrow> bool \<Rightarrow> node \<Rightarrow> string list result" where
  "struct_init_entries types promote field =
     rbind (field_name field) (\<lambda>name. rbind (rptr (dtyp field)) (\<lambda>t.
       let field_value = strf ''value.%s'' [name] in
       if is_ref_type t then
         rbind (emit_promote_ref_target_expr types (ref_target_type t) field_value) (\<lambda>promoted.
           Inr [strf ''        .%s = %s'' [name,
                  if promote then promoted
                  else strf ''value.%s && value.%s ? %s : value.%s'' [ref_owner_field_name name, name, promoted, name]],
                strf ''        .%s = %s'' [ref_owner_field_name name,
                  if promote then strf ''value.%s != NULL'' [name]
                  else strf ''value.%s && value.%s'' [name, ref_owner_field_name name]]])
       else rbind (emit_heap_field_copy types t field_value) (\<lambda>copy_value.
           Inr [strf ''        .%s = %s'' [name, copy_value]])))"

fun init_lines :: "string list \<Rightarrow> string" where
  "init_lines [] = ''''"
| "init_lines [x] = x"
| "init_lines (x # y # xs) = x @ '',\<newline>'' @ init_lines (y # xs)"

definition struct_copy_body :: "type_table \<Rightarrow> bool \<Rightarrow> type_info \<Rightarrow> string result" where
  "struct_copy_body types promote info =
     (if n_fields (ti_node info) = [] then
        Inr (strf ''    return (FLX_%s){0};\<newline>}\<newline>\<newline>'' [ti_name info])
      else rbind (rseq (map (struct_init_entries types promote) (n_fields (ti_node info)))) (\<lambda>entries.
        Inr (strf ''    return (FLX_%s){\<newline>%s\<newline>    };\<newline>}\<newline>\<newline>''
          [ti_name info, init_lines (concat entries)])))"

text \<open>A struct without fields ends with its copy helper: the source goes on to the next struct.\<close>

definition emit_struct_copy_helpers :: "type_table \<Rightarrow> string result" where
  "emit_struct_copy_helpers types = rcat (map (\<lambda>info. let n = ti_name info in rcat
     [rmf ''static FLX_UNUSED FLX_%s* %s(FLX_%s* value) {\<newline>'' [Inr n, struct_promote_ref_fn_for_type n, Inr n],
      Inr ''    if (!value) return NULL;\<newline>'',
      Inr (strf ''    FLX_%s* out = malloc(sizeof(FLX_%s));\<newline>'' [n, n]),
      Inr (strf ''    if (!out) { fprintf(stderr, `caster: REF copy allocation failed~n`); exit(1); }\<newline>'' []),
      rmf ''    *out = %s(*value);\<newline>'' [struct_promote_fn_for_type n],
      Inr ''    return out;\<newline>'',
      Inr ''}\<newline>\<newline>'',
      rmf ''static FLX_UNUSED FLX_%s %s(FLX_%s value) {\<newline>'' [Inr n, struct_copy_fn_for_type n, Inr n],
      struct_copy_body types False info,
      if n_fields (ti_node info) = [] then Inr ''''
      else rcat
        [rmf ''static FLX_UNUSED FLX_%s %s(FLX_%s value) {\<newline>'' [Inr n, struct_promote_fn_for_type n, Inr n],
         struct_copy_body types True info]]) (fixed_structs types))"

section \<open>Drop helpers\<close>

definition dropped_structs :: "type_table \<Rightarrow> type_info list" where
  "dropped_structs types = filter (\<lambda>info. type_has_drop_helper types (ti_name info)) (fixed_structs types)"

definition drop_signature :: "type_info \<Rightarrow> string result" where
  "drop_signature info =
     rmf ''static FLX_UNUSED void flx_drop_%s(FLX_%s value)'' [lower_mangle (ti_name info), Inr (ti_name info)]"

definition emit_struct_drop_helper_decls :: "type_table \<Rightarrow> string result" where
  "emit_struct_drop_helper_decls types =
     (let any = dropped_structs types \<noteq> [] in rcat
       ([Inr (if any then ''/* fixed MAP drop helpers */\<newline>'' else '''')]
        @ map (\<lambda>info. rmf ''%s;\<newline>'' [drop_signature info]) (dropped_structs types)
        @ [Inr (if any then ''\<newline>'' else '''')]))"

definition drop_field :: "type_table \<Rightarrow> node \<Rightarrow> string result" where
  "drop_field types field =
     (if \<not> field_type_needs_drop types (dtyp field) 0 then Inr ''''
      else rbind (rptr (dtyp field)) (\<lambda>t. rbind (field_name field) (\<lambda>name.
        if is_ref_type t then
          rbind (target_drop_fn types (ref_target_type t)) (\<lambda>target_drop.
            Inr (strf ''    if (value.%s && value.%s) {\<newline>%s        free(value.%s);\<newline>    }\<newline>''
              [ref_owner_field_name name, name,
               (case target_drop of None \<Rightarrow> '''' | Some f \<Rightarrow> strf ''        %s(*value.%s);\<newline>'' [f, name]),
               name]))
        else rbind (drop_fn_for_type types t) (\<lambda>drop.
          case drop of None \<Rightarrow> Inr '''' | Some f \<Rightarrow> Inr (strf ''    %s(value.%s);\<newline>'' [f, name])))))"

definition emit_struct_drop_helpers :: "type_table \<Rightarrow> string result" where
  "emit_struct_drop_helpers types = rcat
     (emit_struct_drop_helper_decls types #
      map (\<lambda>info.
        rbind (rcat (map (drop_field types) (n_fields (ti_node info)))) (\<lambda>fields.
          rmf ''%s {\<newline>%s}\<newline>\<newline>''
            [drop_signature info, Inr (if fields = '''' then ''    (void)value;\<newline>'' else fields)]))
        (dropped_structs types))"

end
