(* ===== verification/EmitParts.thy ===== *)
theory EmitParts
  imports EmitTypes "HOL-Library.Char_ord" "HOL-Library.List_Lexorder"
begin

text \<open>
  The parts of an expression's C text (\<open>src/caster/emit/expr.c\<close>, and \<open>emit_obj\<close> of \<open>names.c\<close>): literals
  of records and maps, joins, casts, fallbacks, searches and direct JSON. \<open>emit_expr\<close> and
  \<open>emit_block_text\<close> call themselves through these; their recursive calls are the fields of
  \<open>em_rec\<close>. \<open>e_float\<close> is what the C library prints for a literal under \<open>%.17g\<close>.
\<close>

text \<open>Where the values of a method's body go (\<open>stmt.c\<close>). The label of the end is never used.\<close>

record method_ctx =
  mc_method :: string
  mc_out_name :: string
  mc_out_type :: string
  mc_iter_done :: string
  mc_source_elem :: string
  mc_in_place :: bool
  mc_target_name :: string
  mc_write_name :: string
  mc_index_name :: string

record em_rec =
  e_types :: type_table
  e_float :: "string \<Rightarrow> string"
  e_expr :: "node \<Rightarrow> string em"
  e_block_text :: "node \<Rightarrow> nat \<Rightarrow> string option \<Rightarrow> method_ctx option \<Rightarrow> string em"

definition expr_at :: "em_rec \<Rightarrow> node option \<Rightarrow> string em" where
  "expr_at R x = ebind (eptr x) (e_expr R)"

definition arg_at :: "em_rec \<Rightarrow> node \<Rightarrow> nat \<Rightarrow> string em" where
  "arg_at R e i = ebind (item (n_args e) i) (e_expr R)"

definition emit_obj :: "em_rec \<Rightarrow> node \<Rightarrow> string em" where
  "emit_obj R e =
     (if n_kind e = NK_NAME \<or> n_kind e = NK_DOT then e_expr R e
      else if is_star e then e_expr R e
      else emf ''(%s)'' [e_expr R e])"

definition obj_at :: "em_rec \<Rightarrow> node option \<Rightarrow> string em" where
  "obj_at R x = ebind (eptr x) (emit_obj R)"

definition heap_copy :: "em_rec \<Rightarrow> string option \<Rightarrow> string \<Rightarrow> string em" where
  "heap_copy R t value = ebind (eptr t) (\<lambda>t. eres (emit_heap_field_copy (e_types R) t value))"

definition ctype_at :: "em_rec \<Rightarrow> string \<Rightarrow> string em" where
  "ctype_at R t = eres (ctype (e_types R) t)"

definition node_name :: "node \<Rightarrow> string em" where
  "node_name n = eptr (n_name (attrs n))"

section \<open>Fields and arguments\<close>

definition record_entry :: "node \<Rightarrow> string \<Rightarrow> node option" where
  "record_entry rec name = List.find (\<lambda>entry. n_name (attrs entry) = Some name) (n_fields rec)"

definition emit_host_adapter_name :: "node \<Rightarrow> string" where
  "emit_host_adapter_name call = placed ''caster_host_adapter'' call"

definition emit_field_default :: "em_rec \<Rightarrow> node \<Rightarrow> string em" where
  "emit_field_default R field =
     (let types = e_types R;
          info = (case n_text (attrs field) of None \<Rightarrow> None | Some t \<Rightarrow> type_find types t)
      in case n_value field of
        Some v \<Rightarrow>
          if n_kind v = NK_INIT then
            ebind (eptr (n_text (attrs field))) (\<lambda>t. eret (emit_named_value_fn_name t @ ''()''))
          else e_expr R v
      | None \<Rightarrow>
          if type_has_complete_named_value types info then
            eret (emit_named_value_fn_name (ti_name (the info)) @ ''()'')
          else (case dtyp field of
              None \<Rightarrow> eret ''/*missing_default*/''
            | Some t \<Rightarrow>
                if is_array_type t then emf ''%s(NULL, 0)'' [eres (arr_make t)]
                else if is_map_type t then emf ''%s(NULL, 0)'' [eres (map_fn t ''make'')]
                else if is_ref_type t \<or> is_fn_type t then eret ''NULL''
                else eret ''/*missing_default*/''))"

definition emit_record_field_value :: "em_rec \<Rightarrow> node \<Rightarrow> node option \<Rightarrow> string em" where
  "emit_record_field_value R field entry =
     (case entry of
        None \<Rightarrow> emit_field_default R field
      | Some en \<Rightarrow>
          ebind (eptr (n_value en)) (\<lambda>v. ebind (e_expr R v) (\<lambda>value.
            if field_value_should_copy (e_types R) v then heap_copy R (dtyp field) value else eret value)))"

definition emit_dynamic_field_value :: "em_rec \<Rightarrow> node \<Rightarrow> string em" where
  "emit_dynamic_field_value R v =
     ebind (e_expr R v) (\<lambda>value.
       if field_value_should_copy (e_types R) v then heap_copy R (ctyp v) value else eret value)"

definition emit_user_call_arg :: "em_rec \<Rightarrow> node \<Rightarrow> string em" where
  "emit_user_call_arg R arg =
     ebind (e_expr R arg) (\<lambda>value.
       if \<not> field_value_should_copy (e_types R) arg then eret value
       else if opt_holds is_task_type (ctyp arg) then eret value
       else heap_copy R (ctyp arg) value)"

definition emit_user_call_args :: "em_rec \<Rightarrow> node list \<Rightarrow> string em" where
  "emit_user_call_args R args = ecommas (map (emit_user_call_arg R) args)"

section \<open>Literals of maps and records\<close>

definition obj_value :: "string option \<Rightarrow> string \<Rightarrow> string em" where
  "obj_value t value = ebind (eptr t) (\<lambda>t. eres (emit_obj_value t value))"

definition objmap_of :: "string em list \<Rightarrow> string em" where
  "objmap_of entries =
     (if entries = [] then eret ''flx_objmap_make(NULL, 0)''
      else emf ''flx_objmap_make((FLX_OBJ_ENTRY[]){%s}, %s)''
        [ecommas entries, lit (show_nat (length entries))])"

definition emit_open_anonymous_record_literal :: "em_rec \<Rightarrow> node \<Rightarrow> string em" where
  "emit_open_anonymous_record_literal R rec =
     objmap_of (map (\<lambda>entry.
       ebind (eptr (n_value entry)) (\<lambda>v. ebind (emit_dynamic_field_value R v) (\<lambda>value.
       ebind (node_name entry) (\<lambda>name.
         emf ''{ %s, %s }'' [lit (emit_key_literal name), obj_value (ctyp v) value])))) (n_fields rec))"

definition emit_open_map_literal :: "em_rec \<Rightarrow> node \<Rightarrow> string em" where
  "emit_open_map_literal R m =
     objmap_of (map (\<lambda>entry.
       ebind (eptr (n_value entry)) (\<lambda>v. ebind (emit_dynamic_field_value R v) (\<lambda>value.
         emf ''{ %s, %s }'' [expr_at R (n_target entry), obj_value (ctyp v) value]))) (n_fields m))"

definition field_entry :: "(node \<Rightarrow> string em) \<Rightarrow> node \<Rightarrow> string em" where
  "field_entry value_of field =
     ebind (value_of field) (\<lambda>value. ebind (node_name field) (\<lambda>name.
       emf ''{ %s, %s }'' [lit (emit_key_literal name), obj_value (dtyp field) value]))"

definition emit_open_record_literal :: "em_rec \<Rightarrow> node \<Rightarrow> string \<Rightarrow> string em" where
  "emit_open_record_literal R rec t =
     (case type_find (e_types R) t of
        None \<Rightarrow> eret ''flx_objmap_make(NULL, 0)''
      | Some info \<Rightarrow> objmap_of (map (\<lambda>field. ebind (node_name field) (\<lambda>name.
          field_entry (\<lambda>f. emit_record_field_value R f (record_entry rec name)) field))
          (n_fields (ti_node info))))"

definition emit_open_named_value :: "em_rec \<Rightarrow> type_info \<Rightarrow> string em" where
  "emit_open_named_value R info = objmap_of (map (field_entry (emit_field_default R)) (n_fields (ti_node info)))"

text \<open>\<open>(T){ .a = x, .b = y }\<close>, with the fields as they are declared.\<close>

definition init_field :: "node \<Rightarrow> string em \<Rightarrow> string em" where
  "init_field field value =
     ebind value (\<lambda>v. ebind (node_name field) (\<lambda>name. eret (strf ''.%s = %s'' [name, v])))"

definition struct_literal :: "em_rec \<Rightarrow> string \<Rightarrow> (node \<Rightarrow> string em) \<Rightarrow> string em" where
  "struct_literal R t value_of =
     ebind (ecommas (case type_find (e_types R) t of
              None \<Rightarrow> []
            | Some info \<Rightarrow> map (\<lambda>field. init_field field (value_of field)) (n_fields (ti_node info)))) (\<lambda>fields.
       emf ''(%s){ %s }'' [ctype_at R t, lit fields])"

definition record_value :: "em_rec \<Rightarrow> node \<Rightarrow> node \<Rightarrow> string em" where
  "record_value R rec field =
     ebind (node_name field) (\<lambda>name. emit_record_field_value R field (record_entry rec name))"

primrec overlay_open :: "em_rec \<Rightarrow> string \<Rightarrow> string \<Rightarrow> node list \<Rightarrow> string em" where
  "overlay_open R t out [] = eret out"
| "overlay_open R t out (entry # rest) =
     ebind (node_name entry) (\<lambda>name.
     ebind (eptr (struct_field (e_types R) t name)) (\<lambda>field.
     ebind (emit_record_field_value R field (Some entry)) (\<lambda>value.
     ebind (eptr (dtyp field)) (\<lambda>ft.
     ebind (eres (emit_obj_set_typed out (emit_key_literal name) ft value)) (\<lambda>out'.
       overlay_open R t out' rest)))))"

definition emit_record_overlay :: "em_rec \<Rightarrow> node \<Rightarrow> node \<Rightarrow> string \<Rightarrow> string em" where
  "emit_record_overlay R left rec t =
     (if is_open_struct_type (e_types R) t then
        ebind (emit_obj R left) (\<lambda>out. overlay_open R t out (n_fields rec))
      else struct_literal R t (\<lambda>field. ebind (node_name field) (\<lambda>name.
        case record_entry rec name of
          Some entry \<Rightarrow> emit_record_field_value R field (Some entry)
        | None \<Rightarrow> ebind (emit_obj R left) (\<lambda>l. heap_copy R (dtyp field) (strf ''%s.%s'' [l, name])))))"

section \<open>Joins\<close>

definition emit_join_expr :: "em_rec \<Rightarrow> node \<Rightarrow> node \<Rightarrow> string \<Rightarrow> string em" where
  "emit_join_expr R left right t =
     (let types = e_types R; l = e_expr R left; r = e_expr R right in
      if is_array_type t then
        (if ctyp right = Some t then emf ''%s(%s, %s)'' [eres (arr_concat t), l, r]
         else emf ''%s(%s, %s)'' [eres (arr_add t), l, r])
      else if is_map_type t then emf ''%s(%s, %s)'' [eres (map_fn t ''join''), l, r]
      else if t = ''OPEN'' then emf ''flx_objmap_join(%s, %s)'' [l, r]
      else if is_struct_type types t then
        (if is_open_struct_type types t \<and> n_kind right = NK_MAP_LITERAL then
           emf ''flx_objmap_join(%s, %s)'' [l, r]
         else if n_kind right = NK_RECORD_LITERAL then emit_record_overlay R left right t
         else r)
      else eret ''/*badjoin*/'')"

definition emit_remove_expr :: "em_rec \<Rightarrow> node \<Rightarrow> node \<Rightarrow> string \<Rightarrow> string em" where
  "emit_remove_expr R left right t =
     (let l = e_expr R left; r = e_expr R right in
      if is_array_type t then emf ''%s(%s, %s)'' [eres (arr_sub_value t), l, r]
      else if is_map_type t then emf ''%s(%s, %s)'' [eres (map_fn t ''sub''), l, r]
      else if is_open_struct_type (e_types R) t then emf ''flx_objmap_sub(%s, %s)'' [l, r]
      else eret ''/*badremove*/'')"

definition emit_arr_conversion_expr :: "em_rec \<Rightarrow> node \<Rightarrow> string \<Rightarrow> string em" where
  "emit_arr_conversion_expr R obj result_type =
     (if opt_holds is_array_type (ctyp obj) then e_expr R obj
      else let out = placed ''arr_wrap'' obj in
        emf ''({ %s %s = %s(NULL, 0); %s = %s(%s, %s); %s; })''
          [ctype_at R result_type, lit out, eres (arr_make result_type), lit out, eres (arr_add result_type),
           lit out, e_expr R obj, lit out])"

section \<open>Filling a shape\<close>

definition level_name :: "string \<Rightarrow> node \<Rightarrow> nat \<Rightarrow> string" where
  "level_name p call level = strf ''%s_%s'' [placed p call, show_nat level]"

text \<open>
  The levels that are left, the last one filling in the value. A shape without dimensions, which
  has no last level, would never end.
\<close>

fun emit_shape_fill_level :: "em_rec \<Rightarrow> node \<Rightarrow> nat \<Rightarrow> string \<Rightarrow> string \<Rightarrow> nat \<Rightarrow> string em" where
  "emit_shape_fill_level R call left arr out level =
     (let idx = level_name ''fill_i'' call level; dim = level_name ''fill_dim'' call level in
      emf ''    for (int64_t %s = 0; %s < %s; %s++) {\<newline>%s    }\<newline>''
        [lit idx, lit idx, lit dim, lit idx,
         case left of
           0 \<Rightarrow> emf ''        %s = %s(%s, %s);\<newline>'' [lit out, eres (arr_add arr), lit out, arg_at R call 0]
         | Suc left' \<Rightarrow>
             let child_type = array_elem_type arr; child = level_name ''fill_child'' call level in
             ecat
               [emf ''        %s %s = %s(NULL, 0);\<newline>'' [ctype_at R child_type, lit child, eres (arr_make child_type)],
                emit_shape_fill_level R call left' child_type child (level + 1),
                emf ''        %s = %s(%s, %s);\<newline>'' [lit out, eres (arr_add arr), lit out, lit child]]])"

declare emit_shape_fill_level.simps [simp del]

definition emit_shape_fill_expr :: "em_rec \<Rightarrow> node \<Rightarrow> string em" where
  "emit_shape_fill_expr R call =
     ebind (eptr (n_object call)) (\<lambda>shape. ebind (eptr (ctyp call)) (\<lambda>t.
     let out = placed ''fill_out'' call; elements = n_elements shape in
     if elements = [] then efail OutOfFuel
     else emf ''({\<newline>%s%s%s    %s;\<newline>})''
       [ecat (map (\<lambda>i. let dim = level_name ''fill_dim'' call i in ecat
          [emf ''    int64_t %s = %s;\<newline>'' [lit dim, e_expr R (elements ! i)],
           lit (strf (''    if (%s < 0) { fprintf(stderr, `caster: shape dimensions must be nonnegative~n`); '' @
             ''exit(1); }\<newline>'') [dim])]) [0..<length elements]),
        emf ''    %s %s = %s(NULL, 0);\<newline>'' [ctype_at R t, lit out, eres (arr_make t)],
        emit_shape_fill_level R call (length elements - 1) t out 0,
        lit out]))"

section \<open>Dynamic values and casts\<close>

definition emit_obj_as_checked_type :: "type_table \<Rightarrow> string \<Rightarrow> string \<Rightarrow> string result" where
  "emit_obj_as_checked_type types t obj =
     (if is_struct_type types t \<or> is_map_type t then
        rmf ''%s(flx_obj_as_objmap(%s))'' [json_decode_fn t, Inr obj]
      else if is_array_type t then rmf ''%s(flx_obj_as_objarr(%s))'' [json_decode_fn t, Inr obj]
      else if is_ref_type t then rmf ''(%s)flx_obj_as_ref_nil(%s)'' [ctype types t, Inr obj]
      else if t = ''STR'' then Inr (strf ''flx_str_copy(flx_obj_as_str(%s))'' [obj])
      else rmf ''%s(%s)'' [obj_as_fn t, Inr obj])"

definition emit_else_fallback_value :: "em_rec \<Rightarrow> node \<Rightarrow> string \<Rightarrow> string em" where
  "emit_else_fallback_value R fallback result_type =
     ebind (e_expr R fallback) (\<lambda>value.
       if field_value_should_copy (e_types R) fallback then heap_copy R (Some result_type) value
       else eret value)"

definition emit_truthy_expr :: "string \<Rightarrow> string \<Rightarrow> string" where
  "emit_truthy_expr t value =
     (if t = ''BOL'' then value
      else if t = ''INT'' then strf ''(%s != 0)'' [value]
      else if t = ''FLT'' then strf ''(%s != 0.0)'' [value]
      else if t = ''STR'' then strf ''(%s.len != 0)'' [value]
      else if t = ''OBJ'' then strf ''flx_obj_truthy(%s)'' [value]
      else if is_ref_type t then strf ''(%s != NULL)'' [value]
      else ''true'')"

end
