(* ===== verification/EmitValues.thy ===== *)
theory EmitValues
  imports EmitParts
begin

text \<open>
  Expressions that need statements of their own (\<open>src/caster/emit/expr.c\<close>), written as statement
  expressions \<open>({ ... })\<close>: splitting, casts, \<open>else\<close> on dynamic data, searches, minima and maxima,
  and the JSON text of literals written without building an object.
\<close>

section \<open>Casts\<close>

definition emit_split_expr :: "em_rec \<Rightarrow> node \<Rightarrow> node \<Rightarrow> string em" where
  "emit_split_expr R txt sep =
     (let src = placed ''split_src'' txt; needle = placed ''split_sep'' sep;
          out = placed2 ''split_out'' txt sep in
      emf (''({ FLX_STR %s = %s; FLX_STR %s = %s; FLX_ARR_STR %s = flx_arr_str_make(NULL, 0); '' @
        ''int64_t start = 0; for (int64_t i = 0; i <= %s.len; ) { '' @
        ''bool match = %s.len > 0 && i <= %s.len - %s.len; '' @
        ''for (int64_t j = 0; match && j < %s.len; j++) if (%s.data[i + j] != %s.data[j]) match = false; '' @
        ''if (match || i == %s.len) { FLX_STR part = flx_str_alloc(i - start); '' @
        ''for (int64_t k = start; k < i; k++) part.data[k - start] = %s.data[k]; '' @
        ''%s = flx_arr_str_add(%s, part); i += match ? %s.len : 1; start = i; } '' @
        ''else i++; } %s; })'')
        [lit src, e_expr R txt, lit needle, e_expr R sep, lit out,
         lit src, lit needle, lit src, lit needle,
         lit needle, lit src, lit needle,
         lit src, lit src, lit out, lit out, lit needle, lit out])"

definition emit_cast_expr :: "em_rec \<Rightarrow> node \<Rightarrow> string \<Rightarrow> string em" where
  "emit_cast_expr R call tgt =
     ebind (item (n_args call) 0) (\<lambda>arg. ebind (e_expr R arg) (\<lambda>value.
     let source = ctyp arg; two = (length (n_args call) = 2) in
     if tgt = ''ARR'' then
       (if two then emit_split_expr R arg (n_args call ! 1) else eret (strf ''flx_str_chars(%s)'' [value]))
     else if tgt = ''INT'' then
       (if source = Some ''INT'' then eret value
        else if source = Some ''FLT'' then eret (strf ''((int64_t)(%s))'' [value])
        else if source = Some ''BOL'' then eret (strf ''((%s) ? 1 : 0)'' [value])
        else eret (strf ''flx_cast_str_to_int(%s)'' [value]))
     else if tgt = ''FLT'' then
       (if source = Some ''FLT'' then eret value
        else if source = Some ''INT'' then eret (strf ''((double)(%s))'' [value])
        else if source = Some ''BOL'' then eret (strf ''((%s) ? 1.0 : 0.0)'' [value])
        else eret (strf ''flx_cast_str_to_flt(%s)'' [value]))
     else if opt_holds (\<lambda>t. is_array_type t \<and> array_elem_type t = ''STR'') source then
       (if two then emf ''flx_arr_str_join_sep(%s, %s)'' [lit value, arg_at R call 1]
        else eret (strf ''flx_arr_str_join(%s)'' [value]))
     else if source = Some ''STR'' then eret (strf ''flx_str_copy(%s)'' [value])
     else if source = Some ''INT'' then eret (strf ''flx_cast_int_to_str(%s)'' [value])
     else if source = Some ''FLT'' then eret (strf ''flx_cast_flt_to_str(%s)'' [value])
     else eret (strf ''flx_cast_bol_to_str(%s)'' [value])))"

section \<open>\<open>else\<close>\<close>

definition as_checked :: "em_rec \<Rightarrow> string \<Rightarrow> string \<Rightarrow> string em" where
  "as_checked R t obj = eres (emit_obj_as_checked_type (e_types R) t obj)"

definition else_index_obj :: "em_rec \<Rightarrow> node \<Rightarrow> node \<Rightarrow> node \<Rightarrow> node \<Rightarrow> string \<Rightarrow> string em" where
  "else_index_obj R left object ix fallback rt =
     (let out = placed ''fallback'' left; idx = placed ''index'' ix; obj = placed ''object'' object;
          arr = placed2 ''array'' object ix; it = placed ''item'' left in
      emf (''({ %s %s; FLX_OBJ %s = %s; int64_t %s = %s; bool has_%s = false; if (flx_obj_truthy(%s)) { '' @
        ''FLX_OBJARR %s = flx_obj_as_objarr(%s); if (%s >= 0 && %s < %s.len) { FLX_OBJ %s = %s.data[%s]; '' @
        ''if (flx_obj_truthy(%s)) { %s = %s; has_%s = true; } } } if (!has_%s) %s = %s; %s; })'')
        [ctype_at R rt, lit out, lit obj, e_expr R object, lit idx, e_expr R ix, lit out, lit obj,
         lit arr, lit obj, lit idx, lit idx, lit arr, lit it, lit arr, lit idx,
         lit it, lit out, as_checked R rt it, lit out, lit out, lit out,
         emit_else_fallback_value R fallback rt, lit out])"

definition else_index_array :: "em_rec \<Rightarrow> node \<Rightarrow> node \<Rightarrow> string \<Rightarrow> node \<Rightarrow> node \<Rightarrow> string \<Rightarrow> string em" where
  "else_index_array R left object ot ix fallback rt =
     (let out = placed ''fallback'' left; idx = placed ''index'' ix; src = placed ''array'' object;
          item_type = array_elem_type ot; it = placed ''item'' left in
      emf (''({ %s %s; %s %s = %s; int64_t %s = %s; bool has_%s = false; if (%s >= 0 && %s < %s.len) { '' @
        ''%s %s = %s.data[%s]; if (%s) { %s = %s; has_%s = true; } } if (!has_%s) %s = %s; %s; })'')
        [ctype_at R rt, lit out, ctype_at R ot, lit src, e_expr R object, lit idx, e_expr R ix, lit out,
         lit idx, lit idx, lit src, ctype_at R item_type, lit it, lit src, lit idx,
         lit (emit_truthy_expr item_type it), lit out, lit it, lit out, lit out, lit out,
         emit_else_fallback_value R fallback rt, lit out])"

definition else_index_str :: "em_rec \<Rightarrow> node \<Rightarrow> node \<Rightarrow> node \<Rightarrow> node \<Rightarrow> string \<Rightarrow> string em" where
  "else_index_str R left object ix fallback rt =
     (let out = placed ''fallback'' left; idx = placed ''index'' ix; src = placed ''text'' object in
      emf (''({ %s %s; FLX_STR %s = %s; int64_t %s = %s; if (%s >= 0 && %s < %s.len) '' @
        ''%s = flx_str_char_at(%s, %s); else %s = %s; %s; })'')
        [ctype_at R rt, lit out, lit src, e_expr R object, lit idx, e_expr R ix, lit idx, lit idx, lit src,
         lit out, lit src, lit idx, lit out, emit_else_fallback_value R fallback rt, lit out])"

definition else_key_map :: "em_rec \<Rightarrow> node \<Rightarrow> node \<Rightarrow> string \<Rightarrow> node \<Rightarrow> node \<Rightarrow> string \<Rightarrow> string em" where
  "else_key_map R left object ot ky fallback rt =
     ebind (eptr (ctyp left)) (\<lambda>lt.
     let out = placed ''fallback'' left; key = placed ''key'' ky; src = placed ''map'' object;
          it = placed ''item'' left in
      emf (''({ %s %s; %s %s = %s; FLX_STR %s = %s; bool has_%s = false; if (%s(%s, %s)) { '' @
        ''%s %s = %s(%s, %s); if (%s) { %s = %s; has_%s = true; } } if (!has_%s) %s = %s; %s; })'')
        [ctype_at R rt, lit out, ctype_at R ot, lit src, e_expr R object, lit key, e_expr R ky, lit out,
         eres (map_fn ot ''has''), lit src, lit key, ctype_at R lt, lit it, eres (map_fn ot ''get''), lit src, lit key,
         lit (emit_truthy_expr lt it), lit out, lit it, lit out, lit out, lit out,
         emit_else_fallback_value R fallback rt, lit out])"

text \<open>The two lookups in an object differ in how the object is read and in what an \<open>OBJ\<close> item becomes.\<close>

definition else_key_obj :: "em_rec \<Rightarrow> bool \<Rightarrow> node \<Rightarrow> node \<Rightarrow> node \<Rightarrow> node \<Rightarrow> string \<Rightarrow> string em" where
  "else_key_obj R dynamic left object ky fallback rt =
     (let out = placed ''fallback'' left; key = placed ''key'' ky; src = placed ''map'' object;
          it = placed ''item'' left in
      emf (''({ %s %s; FLX_OBJMAP %s = %s; FLX_STR %s = %s; bool has_%s = false; '' @
        ''if (flx_objmap_has(%s, %s)) { FLX_OBJ %s = flx_objmap_get(%s, %s); '' @
        ''if (flx_obj_truthy(%s)) { %s = %s; has_%s = true; } } if (!has_%s) %s = %s; %s; })'')
        [ctype_at R rt, lit out, lit src,
         if dynamic then emf ''flx_obj_as_objmap(%s)'' [e_expr R object] else e_expr R object,
         lit key, e_expr R ky, lit out, lit src, lit key, lit it, lit src, lit key,
         lit it, lit out, if \<not> dynamic \<and> rt = ''OBJ'' then lit it else as_checked R rt it,
         lit out, lit out, lit out, emit_else_fallback_value R fallback rt, lit out])"

definition emit_dynamic_dot_else_expr :: "em_rec \<Rightarrow> node \<Rightarrow> node \<Rightarrow> string \<Rightarrow> string em option" where
  "emit_dynamic_dot_else_expr R left fallback rt =
     (if n_kind left \<noteq> NK_DOT then None
      else case (n_object left, case n_object left of None \<Rightarrow> None | Some obj \<Rightarrow> ctyp obj) of
        (Some obj, Some ot) \<Rightarrow>
          (case (case n_index left of
                   None \<Rightarrow> None
                 | Some ix \<Rightarrow>
                     if ot = ''OBJ'' then Some (else_index_obj R left obj ix fallback rt)
                     else if is_array_type ot then Some (else_index_array R left obj ot ix fallback rt)
                     else if ot = ''STR'' then Some (else_index_str R left obj ix fallback rt)
                     else None) of
             Some indexed \<Rightarrow> Some indexed
           | None \<Rightarrow>
               (case n_target left of
                  None \<Rightarrow> None
                | Some ky \<Rightarrow>
                    if is_map_type ot then Some (else_key_map R left obj ot ky fallback rt)
                    else if ot = ''OBJ'' then Some (else_key_obj R True left obj ky fallback rt)
                    else if ot = ''OPEN'' \<or> is_open_struct_type (e_types R) ot
                      then Some (else_key_obj R False left obj ky fallback rt)
                    else None))
      | _ \<Rightarrow> None)"

definition emit_else_expr :: "em_rec \<Rightarrow> node \<Rightarrow> string em" where
  "emit_else_expr R e =
     ebind (eptr (n_left e)) (\<lambda>left. ebind (eptr (n_right e)) (\<lambda>right. ebind (eptr (ctyp e)) (\<lambda>rt.
       case emit_dynamic_dot_else_expr R left right rt of
         Some special \<Rightarrow> special
       | None \<Rightarrow>
           ebind (eptr (ctyp left)) (\<lambda>lt.
           let value = placed ''value'' left in
           if lt = ''OBJ'' then
             emf ''({ FLX_OBJ %s = %s; %s ? %s : %s; })''
               [lit value, e_expr R left, lit (emit_truthy_expr lt value), as_checked R rt value, e_expr R right]
           else
             emf ''({ %s %s = %s; %s ? %s : %s; })''
               [ctype_at R lt, lit value, e_expr R left, lit (emit_truthy_expr lt value), lit value,
                e_expr R right]))))"

section \<open>Searches\<close>

definition element_eq :: "string \<Rightarrow> string \<Rightarrow> string \<Rightarrow> string" where
  "element_eq element_type src value =
     (if element_type = ''STR'' then strf ''flx_str_eq(%s.data[i], %s)'' [src, value]
      else strf ''%s.data[i] == %s'' [src, value])"

definition emit_array_has_expr :: "em_rec \<Rightarrow> node \<Rightarrow> string \<Rightarrow> node \<Rightarrow> string em" where
  "emit_array_has_expr R collection t needle =
     (let element_type = array_elem_type t; src = placed ''source'' collection; value = placed ''needle'' needle;
          out = placed2 ''found'' collection needle in
      emf (''({ %s %s = %s; %s %s = %s; bool %s = false; for (int64_t i = 0; i < %s.len; i++) { '' @
        ''if (%s) { %s = true; break; } } %s; })'')
        [ctype_at R t, lit src, e_expr R collection, ctype_at R element_type, lit value, e_expr R needle,
         lit out, lit src, lit (element_eq element_type src value), lit out, lit out])"

definition emit_array_find_expr :: "em_rec \<Rightarrow> node \<Rightarrow> string \<Rightarrow> node \<Rightarrow> string em" where
  "emit_array_find_expr R collection t needle =
     (let element_type = array_elem_type t; src = placed ''source'' collection; value = placed ''needle'' needle;
          out = placed2 ''index'' collection needle in
      emf (''({ %s %s = %s; %s %s = %s; int64_t %s = -1; for (int64_t i = 0; i < %s.len; i++) { '' @
        ''if (%s) { %s = i; break; } } %s; })'')
        [ctype_at R t, lit src, e_expr R collection, ctype_at R element_type, lit value, e_expr R needle,
         lit out, lit src, lit (element_eq element_type src value), lit out, lit out])"

definition emit_minmax_expr :: "em_rec \<Rightarrow> node \<Rightarrow> bool \<Rightarrow> string em" where
  "emit_minmax_expr R collection is_max =
     ebind (eptr (ctyp collection)) (\<lambda>t.
     let src = placed ''source'' collection; best = placed ''best'' collection;
         cmp = (if is_max then ''>'' else ''<'');
         str_cmp = (if is_max then ''flx_str_compare_gt'' else ''flx_str_compare_lt'');
         element_type = array_elem_type t in
     if t = ''STR'' then
       emf (''({ FLX_STR %s = %s; int64_t %s = 0; for (int64_t i = 1; i < %s.len; i++) '' @
         ''if (%s.data[i] %s %s.data[%s]) %s = i; %s.len ? flx_str_char_at(%s, %s) : flx_str_lit(``, 0); })'')
         [lit src, e_expr R collection, lit best, lit src, lit src, lit cmp, lit src, lit best, lit best,
          lit src, lit src, lit best]
     else if element_type = ''STR'' then
       emf (''({ %s %s = %s; %s %s = %s.len ? %s.data[0] : flx_str_lit(``, 0); '' @
         ''for (int64_t i = 1; i < %s.len; i++) if (%s(%s.data[i], %s)) %s = %s.data[i]; %s; })'')
         [ctype_at R t, lit src, e_expr R collection, ctype_at R element_type, lit best, lit src, lit src, lit src,
          lit str_cmp, lit src, lit best, lit best, lit src, lit best]
     else
       emf (''({ %s %s = %s; %s %s = %s.len ? %s.data[0] : 0; '' @
         ''for (int64_t i = 1; i < %s.len; i++) if (%s.data[i] %s %s) %s = %s.data[i]; %s; })'')
         [ctype_at R t, lit src, e_expr R collection, ctype_at R element_type, lit best, lit src, lit src, lit src,
          lit src, lit cmp, lit best, lit best, lit src, lit best])"

section \<open>Direct JSON\<close>

text \<open>
  \<open>qsort\<close> with \<open>strcmp\<close> on the names. It is not stable: fields of one name, which no record has,
  could come in either order.
\<close>

definition record_field_name :: "node \<Rightarrow> string" where
  "record_field_name field = (case n_name (attrs field) of None \<Rightarrow> '''' | Some name \<Rightarrow> name)"

definition cmp_record_field_name :: "node \<Rightarrow> node \<Rightarrow> int" where
  "cmp_record_field_name left right =
     (if record_field_name left < record_field_name right then - 1
      else if record_field_name left = record_field_name right then 0 else 1)"

definition json_field_prefix_literal :: "node \<Rightarrow> string" where
  "json_field_prefix_literal field = c_escape (strf ''`%s`:'' [record_field_name field])"

definition json_scalar :: "string option \<Rightarrow> bool" where
  "json_scalar t \<longleftrightarrow> opt_holds (\<lambda>t. t \<in> {''INT'', ''FLT'', ''BOL'', ''STR'', ''NUL''}) t"

lemma size_field_value: "f \<in> set (n_fields v) \<Longrightarrow> n_value f = Some x \<Longrightarrow> size x < size v"
  using size_item(4) size_child(4) by (meson less_trans)

function can_emit_direct_json_value :: "node \<Rightarrow> bool" where
  "can_emit_direct_json_value v =
     (if json_scalar (ctyp v) then True
      else if n_kind v = NK_RECORD_LITERAL then
        list_all (\<lambda>field. case n_value field of None \<Rightarrow> False | Some x \<Rightarrow> can_emit_direct_json_value x)
          (n_fields v)
      else if n_kind v = NK_ARRAY then list_all can_emit_direct_json_value (n_elements v)
      else False)"
  by pat_completeness auto

termination
  by (relation "measure size") (auto simp: size_field_value size_item)

declare can_emit_direct_json_value.simps [simp del]

text \<open>
  The statements that append a value to the text. A literal that itself is not direct is a null
  pointer, which makes the whole text one; the values below a direct one are direct.
\<close>

definition json_append :: "string \<Rightarrow> string \<Rightarrow> string em" where
  "json_append out c = eret (strf ''flx_json_out_append_c(&%s, '%s');'' [out, c])"

definition json_commas :: "string \<Rightarrow> string em list \<Rightarrow> string em" where
  "json_commas out items = ecat (map (\<lambda>(i, it). ecat
     [lit '' '', if i = 0 then lit '''' else emf ''%s '' [json_append out '',''], it]) (enumerate 0 items))"

definition json_scalar_statements :: "em_rec \<Rightarrow> node \<Rightarrow> string \<Rightarrow> string \<Rightarrow> string em" where
  "json_scalar_statements R v out buf =
     (if ctyp v = Some ''STR'' then emf ''flx_json_stringify_string(&%s, %s);'' [lit out, e_expr R v]
      else if ctyp v = Some ''INT'' then
        emf ''snprintf(%s, sizeof(%s), `%%lld`, (long long)(%s)); flx_json_out_append_text(&%s, %s);''
          [lit buf, lit buf, e_expr R v, lit out, lit buf]
      else if ctyp v = Some ''FLT'' then
        emf ''snprintf(%s, sizeof(%s), `%%.17g`, (double)(%s)); flx_json_out_append_text(&%s, %s);''
          [lit buf, lit buf, e_expr R v, lit out, lit buf]
      else if ctyp v = Some ''BOL'' then
        emf ''flx_json_out_append_text(&%s, (%s) ? `true` : `false`);'' [lit out, e_expr R v]
      else emf ''flx_json_out_append_text(&%s, `null`);'' [lit out])"

function emit_direct_json_value_statements :: "em_rec \<Rightarrow> node \<Rightarrow> string \<Rightarrow> string \<Rightarrow> string em" where
  "emit_direct_json_value_statements R v out buf =
     (if n_kind v = NK_RECORD_LITERAL then
        emf ''%s%s %s''
          [json_append out (CHR 0x7B # ''''),
           json_commas out (map (\<lambda>field.
             emf ''flx_json_out_append_text(&%s, %s); %s''
               [lit out, lit (json_field_prefix_literal field),
                case n_value field of
                  None \<Rightarrow> efail NullDeref
                | Some x \<Rightarrow> emit_direct_json_value_statements R x out buf])
             (sort_key record_field_name (n_fields v))),
           json_append out (CHR 0x7D # '''')]
      else if n_kind v = NK_ARRAY then
        emf ''%s%s %s''
          [json_append out ''['',
           json_commas out (map (\<lambda>x. emit_direct_json_value_statements R x out buf) (n_elements v)),
           json_append out '']'']
      else json_scalar_statements R v out buf)"
  by pat_completeness auto

termination
  by (relation "measure (\<lambda>(R, v, out, buf). size v)") (auto simp: size_field_value size_item)

declare emit_direct_json_value_statements.simps [simp del]

definition emit_direct_json_body_expr :: "em_rec \<Rightarrow> node \<Rightarrow> string em" where
  "emit_direct_json_body_expr R rec =
     (let out = placed ''json_out'' rec; buf = placed ''json_buf'' rec in
      ebind (emit_direct_json_value_statements R rec out buf) (\<lambda>code.
        eret (strf ''({ FLX_STR %s = flx_str_alloc(0); char %s[64]; (void)%s; %s %s; })''
          [out, buf, buf, code, out])))"

text \<open>\<open>WEB.json({...})\<close> with a literal body; \<open>None\<close> where the call is emitted as any other.\<close>

definition emit_web_json_direct_response :: "em_rec \<Rightarrow> node \<Rightarrow> string em option" where
  "emit_web_json_direct_response R call =
     (case (n_object call, n_args call) of
        (Some obj, body # rest) \<Rightarrow>
          if n_kind obj \<noteq> NK_NAME \<or> n_name (attrs obj) \<noteq> Some ''WEB'' \<or> n_name (attrs call) \<noteq> Some ''json''
             \<or> length rest > 1 \<or> n_kind body \<noteq> NK_RECORD_LITERAL \<or> \<not> can_emit_direct_json_value body
          then None
          else Some (
            ebind (emit_direct_json_body_expr R body) (\<lambda>body_expr.
            ebind (case rest of [] \<Rightarrow> eret ''200'' | status # _ \<Rightarrow> e_expr R status) (\<lambda>status_expr.
            let res = placed ''json_res'' call in
              emf ''({ FLX_HttpRes %s; %s.status = %s; %s.body = %s; %s.headers = %s; %s; })''
                [lit res, lit res, lit status_expr, lit res, lit body_expr, lit res,
                 emf (''%s((%s[]){{ flx_str_lit(`content-type`, 12), '' @
                   ''flx_str_lit(`application/json`, 16) }}, 1)'')
                   [eres (map_fn ''MAP[STR,STR]'' ''make''), eres (map_entry_ctype (e_types R) ''MAP[STR,STR]'')],
                 lit res])))
      | _ \<Rightarrow> None)"

end
