(* ===== verification/EmitText.thy ===== *)
theory EmitText
  imports EmitValues
begin

text \<open>
  Statements as text, which are those of the bodies of collection methods, and the collection
  methods themselves (\<open>src/caster/emit/stmt.c\<close>). A body belongs to the loop its method is emitted
  as: its values go where \<open>method_ctx\<close> says, and then to the label of the next round.
\<close>

text \<open>\<open>cond\<close> strips the outer characters when they look like parentheses around the whole.\<close>

definition cond_text :: "string \<Rightarrow> string" where
  "cond_text x =
     (if length x > 1 \<and> hd x = CHR ''('' \<and> last x = CHR '')'' then butlast (tl x) else x)"

definition emit_cond :: "em_rec \<Rightarrow> node \<Rightarrow> string em" where
  "emit_cond R e = ebind (e_expr R e) (\<lambda>x. eret (cond_text x))"

definition cond_at :: "em_rec \<Rightarrow> node option \<Rightarrow> string em" where
  "cond_at R x = ebind (eptr x) (emit_cond R)"

definition is_log_call :: "node \<Rightarrow> bool" where
  "is_log_call e \<longleftrightarrow>
     n_kind e = NK_CALL \<and> opt_holds (\<lambda>c. n_kind c = NK_NAME \<and> n_name (attrs c) = Some ''log'') (n_callee e)"

section \<open>Fields that are not plain C fields\<close>

definition dot_field :: "type_table \<Rightarrow> node \<Rightarrow> node option" where
  "dot_field types tgt =
     (case (n_object tgt, n_name (attrs tgt)) of
        (Some obj, Some name) \<Rightarrow> (case ctyp obj of None \<Rightarrow> None | Some t \<Rightarrow> struct_field types t name)
      | _ \<Rightarrow> None)"

definition is_open_struct_field_dot :: "type_table \<Rightarrow> node \<Rightarrow> bool" where
  "is_open_struct_field_dot types tgt \<longleftrightarrow>
     n_kind tgt = NK_DOT \<and>
     opt_holds (\<lambda>obj. opt_holds (is_open_struct_type types) (ctyp obj)) (n_object tgt) \<and>
     dot_field types tgt \<noteq> None"

definition is_ref_struct_field_dot :: "type_table \<Rightarrow> node \<Rightarrow> bool" where
  "is_ref_struct_field_dot types tgt \<longleftrightarrow>
     n_kind tgt = NK_DOT \<and> opt_holds (\<lambda>field. opt_holds is_ref_type (dtyp field)) (dot_field types tgt)"

definition emit_ref_field_owner_expr :: "em_rec \<Rightarrow> node \<Rightarrow> string em" where
  "emit_ref_field_owner_expr R tgt =
     ebind (node_name tgt) (\<lambda>name. emf ''%s.%s'' [obj_at R (n_object tgt), lit (ref_owner_field_name name)])"

definition emit_ref_field_value_expr :: "em_rec \<Rightarrow> node \<Rightarrow> string \<Rightarrow> string em" where
  "emit_ref_field_value_expr R value target_type =
     (if n_kind value = NK_NAME \<and> ref_result_owned (attrs value) then
        ebind (e_expr R value) (\<lambda>v. eres (emit_promote_ref_target_expr (e_types R) target_type v))
      else e_expr R value)"

definition emit_ref_field_assignment :: "em_rec \<Rightarrow> node \<Rightarrow> node \<Rightarrow> string em" where
  "emit_ref_field_assignment R tgt value =
     ebind (eptr (dot_field (e_types R) tgt)) (\<lambda>field. ebind (eptr (dtyp field)) (\<lambda>ft.
     ebind (e_expr R tgt) (\<lambda>target_expr.
     ebind (emit_ref_field_owner_expr R tgt) (\<lambda>owner_expr.
     ebind (eres (target_drop_fn (e_types R) (ref_target_type ft))) (\<lambda>target_drop.
     let drop_stmt = (case target_drop of
           Some f \<Rightarrow> strf ''if (%s && %s) { %s(*%s); free(%s); }'' [owner_expr, target_expr, f, target_expr, target_expr]
         | None \<Rightarrow> strf ''if (%s && %s) free(%s);'' [owner_expr, target_expr, target_expr])
     in emf ''{ %s %s = %s; %s = %s; }''
       [lit drop_stmt, lit target_expr, emit_ref_field_value_expr R value (ref_target_type ft), lit owner_expr,
        lit (if ref_result_owned (attrs value) then ''true'' else ''false'')])))))"

definition emit_open_field_update :: "em_rec \<Rightarrow> node \<Rightarrow> string em \<Rightarrow> string em" where
  "emit_open_field_update R tgt value =
     ebind value (\<lambda>v.
     ebind (eptr (dot_field (e_types R) tgt)) (\<lambda>field. ebind (eptr (dtyp field)) (\<lambda>ft.
     ebind (node_name tgt) (\<lambda>name.
       emf ''%s = %s''
         [expr_at R (n_object tgt),
          ebind (expr_at R (n_object tgt)) (\<lambda>obj. eres (emit_obj_set_typed obj (emit_key_literal name) ft v))]))))"

text \<open>The same with the value emitted last.\<close>

definition emit_open_field_assignment :: "em_rec \<Rightarrow> node \<Rightarrow> node \<Rightarrow> string em" where
  "emit_open_field_assignment R tgt value =
     ebind (eptr (dot_field (e_types R) tgt)) (\<lambda>field. ebind (eptr (dtyp field)) (\<lambda>ft.
     ebind (node_name tgt) (\<lambda>name.
       emf ''%s = %s''
         [expr_at R (n_object tgt),
          ebind (expr_at R (n_object tgt)) (\<lambda>obj. ebind (e_expr R value) (\<lambda>v.
            eres (emit_obj_set_typed obj (emit_key_literal name) ft v)))])))"

section \<open>Values of a method's body\<close>

definition emit_method_value_text :: "em_rec \<Rightarrow> node option \<Rightarrow> nat \<Rightarrow> method_ctx \<Rightarrow> string em" where
  "emit_method_value_text R value_node ind c =
     ebind (case value_node of None \<Rightarrow> eret ''0'' | Some v \<Rightarrow> e_expr R v) (\<lambda>value.
     ebind (case value_node of None \<Rightarrow> eret ''false'' | Some v \<Rightarrow> emit_cond R v) (\<lambda>condition.
     let pad = indent_text ind; m = mc_method c; out = mc_out_name c; next = mc_iter_done c;
         elem = mc_source_elem c; str = (mc_out_type c = ''STR'') in
     if m = ''upd'' then
       (if mc_in_place c then
          eret (strf ''%s%s = %s;\<newline>%sgoto %s;\<newline>'' [pad, elem, value, pad, next])
        else if str then
          eret (strf ''%s%s = flx_str_concat(%s, %s);\<newline>%sgoto %s;\<newline>'' [pad, out, out, value, pad, next])
        else
          emf ''%s%s = %s(%s, %s);\<newline>%sgoto %s;\<newline>''
            [lit pad, lit out, eres (arr_add (mc_out_type c)), lit out, lit value, lit pad, lit next])
     else if m = ''filt'' then
       (if mc_in_place c then
          let w = mc_write_name c; i = mc_index_name c; tgt = mc_target_name c in
          eret (strf (''%sif (%s) {\<newline>'' @
            ''%s    if (%s != %s) %s->data[%s] = %s->data[%s];\<newline>'' @
            ''%s    %s++;\<newline>'' @
            ''%s}\<newline>'' @
            ''%sgoto %s;\<newline>'')
            [pad, condition, pad, w, i, tgt, w, tgt, i, pad, w, pad, pad, next])
        else if str then
          eret (strf ''%sif (%s) %s = flx_str_concat(%s, %s);\<newline>%sgoto %s;\<newline>''
            [pad, condition, out, out, elem, pad, next])
        else
          emf ''%sif (%s) %s = %s(%s, %s);\<newline>%sgoto %s;\<newline>''
            [lit pad, lit condition, lit out, eres (arr_add (mc_out_type c)), lit out, lit elem, lit pad, lit next])
     else if m = ''agg'' then
       (if str then
          eret (strf ''%s%s = flx_str_concat(%s, %s);\<newline>%sgoto %s;\<newline>'' [pad, out, out, value, pad, next])
        else eret (strf ''%s%s += %s;\<newline>%sgoto %s;\<newline>'' [pad, out, value, pad, next]))
     else eret (strf ''%s/* invalid method ret */\<newline>'' [pad])))"

definition agg_line :: "node \<Rightarrow> string \<Rightarrow> method_ctx \<Rightarrow> string \<Rightarrow> string" where
  "agg_line step pad c value =
     (if n_op (attrs step) = Some ''-'' then strf ''%s%s -= %s;\<newline>'' [pad, mc_out_name c, value]
      else if mc_out_type c = ''STR'' then
        strf ''%s%s = flx_str_concat(%s, %s);\<newline>'' [pad, mc_out_name c, mc_out_name c, value]
      else strf ''%s%s += %s;\<newline>'' [pad, mc_out_name c, value])"

definition emit_agg_step_text :: "em_rec \<Rightarrow> node \<Rightarrow> nat \<Rightarrow> method_ctx \<Rightarrow> string em" where
  "emit_agg_step_text R step ind c =
     ebind (eptr (n_value step)) (\<lambda>v.
     let pad = indent_text ind in
     if n_kind v = NK_IF_EXPR \<and> n_right v = None then
       ebind (expr_at R (n_condition v)) (\<lambda>condition. ebind (expr_at R (n_value v)) (\<lambda>value.
         eret (strf ''%sif (%s) {\<newline>%s%s}\<newline>'' [pad, condition, agg_line step (indent_text (ind + 1)) c value, pad])))
     else ebind (e_expr R v) (\<lambda>value. eret (agg_line step pad c value)))"

definition emit_accumulate_stmt :: "string \<Rightarrow> string \<Rightarrow> string \<Rightarrow> string" where
  "emit_accumulate_stmt out t value =
     (if t = ''STR'' then strf ''%s = flx_str_concat(%s, %s);'' [out, out, value]
      else strf ''%s += %s;'' [out, value])"

definition emit_agg_value :: "em_rec \<Rightarrow> node \<Rightarrow> string \<Rightarrow> string em" where
  "emit_agg_value R call elem =
     (case n_args call of
        [] \<Rightarrow> eret elem
      | arg # _ \<Rightarrow> if n_kind arg = NK_IF_EXPR then expr_at R (n_value arg) else e_expr R arg)"

definition emit_agg_condition :: "em_rec \<Rightarrow> node \<Rightarrow> string option em" where
  "emit_agg_condition R call =
     (case n_args call of
        [] \<Rightarrow> eret None
      | arg # _ \<Rightarrow>
          if n_kind arg = NK_IF_EXPR then ebind (cond_at R (n_condition arg)) (\<lambda>x. eret (Some x)) else eret None)"

definition agg_round :: "em_rec \<Rightarrow> node \<Rightarrow> string \<Rightarrow> string \<Rightarrow> string \<Rightarrow> string em" where
  "agg_round R e elem out t =
     ebind (emit_agg_value R e elem) (\<lambda>value. ebind (emit_agg_condition R e) (\<lambda>condition.
       let stmt = emit_accumulate_stmt out t value in
       case condition of
         Some x \<Rightarrow> eret (strf ''        if (%s) %s\<newline>'' [x, stmt])
       | None \<Rightarrow> eret (strf ''        %s\<newline>'' [stmt])))"

definition emit_key_eq_expr :: "string \<Rightarrow> string \<Rightarrow> string \<Rightarrow> string" where
  "emit_key_eq_expr t left right =
     (if t = ''STR'' then strf ''flx_str_eq(%s, %s)'' [left, right] else strf ''(%s == %s)'' [left, right])"

definition emit_sort_swap_condition :: "string \<Rightarrow> string \<Rightarrow> string \<Rightarrow> string option \<Rightarrow> string" where
  "emit_sort_swap_condition t left right direction =
     (let desc = (direction = Some ''DESC'') in
      if t = ''STR'' then strf (if desc then ''flx_str_compare_gt(%s, %s)'' else ''flx_str_compare_lt(%s, %s)'') [right, left]
      else strf (if desc then ''(%s > %s)'' else ''(%s < %s)'') [right, left])"

section \<open>Collection methods\<close>

text \<open>A method with a body runs the body as the loop's round, and puts the label after it.\<close>

definition method_body :: "em_rec \<Rightarrow> node \<Rightarrow> method_ctx \<Rightarrow> string em" where
  "method_body R b c =
     emf ''%s%s:\<newline>        ;\<newline>'' [e_block_text R b 2 None (Some c), lit (mc_iter_done c)]"

definition value_ctx :: "string \<Rightarrow> string \<Rightarrow> string \<Rightarrow> string \<Rightarrow> string \<Rightarrow> method_ctx" where
  "value_ctx m out t next elem =
     \<lparr>mc_method = m, mc_out_name = out, mc_out_type = t, mc_iter_done = next, mc_source_elem = elem,
      mc_in_place = False, mc_target_name = [], mc_write_name = [], mc_index_name = []\<rparr>"

definition array_loop_head :: "em_rec \<Rightarrow> string \<Rightarrow> string \<Rightarrow> string \<Rightarrow> string \<Rightarrow> string em" where
  "array_loop_head R ix src elem_type ptr =
     emf (''    for (int64_t %s = 0; %s < %s.len; %s++) {\<newline>'' @ ''        %s* %s = &%s.data[%s];\<newline>'')
       [lit ix, lit ix, lit src, lit ix, ctype_at R elem_type, lit ptr, lit src, lit ix]"

definition emit_group :: "em_rec \<Rightarrow> node \<Rightarrow> string \<Rightarrow> string \<Rightarrow> string \<Rightarrow> string \<Rightarrow> string \<Rightarrow> string em" where
  "emit_group R e ix ptr src_type src out =
     ebind (eptr (ctyp e)) (\<lambda>t. ebind (eptr (dtyp e)) (\<lambda>key_type.
     let group_type = array_elem_type t; elem_type = array_elem_type src_type;
         value_type = array_type elem_type;
         key = strf ''key_%s'' [ix]; found = strf ''found_%s'' [ix]; gi = strf ''group_%s'' [ix];
         new_group = strf ''new_group_%s'' [ix]; elem = strf ''(*%s)'' [ptr] in
     ecat
       [emf ''    %s %s = %s(NULL, 0);\<newline>'' [ctype_at R t, lit out, eres (arr_make t)],
        array_loop_head R ix src elem_type ptr,
        emf ''        %s %s = %s;\<newline>'' [ctype_at R key_type, lit key, arg_at R e 0],
        lit (strf ''        bool %s = false;\<newline>'' [found]),
        lit (strf ''        for (int64_t %s = 0; %s < %s.len; %s++) {\<newline>'' [gi, gi, out, gi]),
        lit (strf ''            if (%s) {\<newline>'' [emit_key_eq_expr key_type (strf ''%s.data[%s].key'' [out, gi]) key]),
        emf ''                %s.data[%s].val = %s(%s.data[%s].val, %s);\<newline>''
          [lit out, lit gi, eres (arr_add value_type), lit out, lit gi, lit elem],
        lit (strf (''                %s = true;\<newline>                break;\<newline>            }\<newline>        }\<newline>'' @
          ''        if (!%s) {\<newline>'') [found, found]),
        emf ''            %s %s = { .key = %s, .val = %s(NULL, 0) };\<newline>''
          [ctype_at R group_type, lit new_group, lit key, eres (arr_make value_type)],
        emf ''            %s.val = %s(%s.val, %s);\<newline>'' [lit new_group, eres (arr_add value_type), lit new_group, lit elem],
        emf ''            %s = %s(%s, %s);\<newline>'' [lit out, eres (arr_add t), lit out, lit new_group],
        lit (strf ''        }\<newline>    }\<newline>    %s;\<newline>})'' [out])]))"

definition emit_sort :: "em_rec \<Rightarrow> node \<Rightarrow> string \<Rightarrow> string \<Rightarrow> string \<Rightarrow> string \<Rightarrow> string \<Rightarrow> string em" where
  "emit_sort R e ix ptr src_type src out =
     ebind (eptr (dtyp e)) (\<lambda>key_type.
     let elem_type = array_elem_type src_type;
         left = strf ''left_%s'' [ix]; right = strf ''right_%s'' [ix];
         outer = strf ''sort_outer_%s'' [ix]; inner = strf ''sort_inner_%s'' [ix]; tmp = strf ''tmp_%s'' [ix] in
     ecat
       [emf ''    %s %s = %s(%s.data, %s.len);\<newline>''
          [ctype_at R src_type, lit out, eres (arr_make src_type), lit src, lit src],
        lit (strf ''    for (int64_t %s = 0; %s < %s.len; %s++) {\<newline>'' [outer, outer, out, outer]),
        lit (strf ''        for (int64_t %s = %s + 1; %s < %s.len; %s++) {\<newline>'' [inner, outer, inner, out, inner]),
        emf ''            %s* %s = &%s.data[%s];\<newline>'' [ctype_at R elem_type, lit ptr, lit out, lit outer],
        emf ''            %s %s = %s;\<newline>'' [ctype_at R key_type, lit left, arg_at R e 0],
        lit (strf ''            %s = &%s.data[%s];\<newline>'' [ptr, out, inner]),
        emf ''            %s %s = %s;\<newline>'' [ctype_at R key_type, lit right, arg_at R e 0],
        lit (strf ''            if (%s) {\<newline>'' [emit_sort_swap_condition key_type left right (sort_dir (attrs e))]),
        emf ''                %s %s = %s.data[%s];\<newline>'' [ctype_at R elem_type, lit tmp, lit out, lit outer],
        lit (strf ''                %s.data[%s] = %s.data[%s];\<newline>'' [out, outer, out, inner]),
        lit (strf ''                %s.data[%s] = %s;\<newline>'' [out, inner, tmp]),
        lit (strf ''            }\<newline>        }\<newline>    }\<newline>    %s;\<newline>})'' [out])])"

definition emit_map_method :: "em_rec \<Rightarrow> node \<Rightarrow> string \<Rightarrow> string \<Rightarrow> string \<Rightarrow> string \<Rightarrow> string \<Rightarrow> string \<Rightarrow> string em" where
  "emit_map_method R e name ix ptr src_type src out =
     ebind (eptr (ctyp e)) (\<lambda>t.
     let elem = strf ''%s->value'' [ptr] in
     ecat
       [emf ''    %s %s = %s;\<newline>'' [ctype_at R t, lit out, eres (emit_zero_value (e_types R) t)],
        lit (strf ''    size_t iter_%s = 0;\<newline>    void* item_%s = NULL;\<newline>'' [ix, ix]),
        lit (strf ''    for (int64_t %s = 0; %s.raw && hashmap_iter(%s.raw, &iter_%s, &item_%s); %s++) {\<newline>''
          [ix, src, src, ix, ix, ix]),
        emf ''        %s* %s = item_%s;\<newline>        (void)%s;\<newline>        (void)%s;\<newline>''
          [eres (map_entry_ctype (e_types R) src_type), lit ptr, lit ix, lit ptr, lit ix],
        (case n_body e of
           Some b \<Rightarrow> method_body R b (value_ctx name out t (strf ''next_%s'' [ix]) elem)
         | None \<Rightarrow> agg_round R e elem out t),
        lit (strf ''    }\<newline>    %s;\<newline>})'' [out])])"

text \<open>The loop's round where the method has no body.\<close>

definition emit_round :: "em_rec \<Rightarrow> node \<Rightarrow> string \<Rightarrow> bool \<Rightarrow> string \<Rightarrow> string \<Rightarrow> string \<Rightarrow> string em" where
  "emit_round R e name string_source elem out t =
     (if name = ''upd'' then
        (if string_source then emf ''        %s = flx_str_concat(%s, %s);\<newline>'' [lit out, lit out, arg_at R e 0]
         else emf ''        %s = %s(%s, %s);\<newline>'' [lit out, eres (arr_add t), lit out, arg_at R e 0])
      else if name = ''filt'' then
        ebind (item (n_args e) 0) (\<lambda>arg.
          if string_source then
            emf ''        if (%s) %s = flx_str_concat(%s, %s);\<newline>'' [emit_cond R arg, lit out, lit out, lit elem]
          else
            emf ''        if (%s) %s = %s(%s, %s);\<newline>''
              [emit_cond R arg, lit out, eres (arr_add t), lit out, lit elem])
      else if name = ''agg'' then agg_round R e elem out t
      else if name = ''any'' then
        ebind (item (n_args e) 0) (\<lambda>arg.
          emf ''        if (%s) { %s = true; break; }\<newline>'' [emit_cond R arg, lit out])
      else eret [])"

definition emit_array_method :: "em_rec \<Rightarrow> node \<Rightarrow> string \<Rightarrow> string \<Rightarrow> string \<Rightarrow> string \<Rightarrow> string \<Rightarrow> string \<Rightarrow> string em" where
  "emit_array_method R e name ix ptr src_type src out =
     ebind (eptr (ctyp e)) (\<lambda>t.
     let string_source = (src_type = ''STR'');
         elem_type = (if string_source then ''STR'' else array_elem_type src_type);
         elem = (if string_source then ptr else strf ''(*%s)'' [ptr]) in
     ecat
       [if name = ''upd'' \<or> name = ''filt'' then
          (if string_source then lit (strf ''    FLX_STR %s = flx_str_lit(``, 0);\<newline>'' [out])
           else emf ''    %s %s = %s(NULL, 0);\<newline>'' [ctype_at R t, lit out, eres (arr_make t)])
        else if name = ''agg'' then
          emf ''    %s %s = %s;\<newline>'' [ctype_at R t, lit out, eres (emit_zero_value (e_types R) t)]
        else if name = ''any'' then lit (strf ''    bool %s = false;\<newline>'' [out])
        else lit [],
        if string_source then
          lit (strf (''    for (int64_t %s = 0; %s < %s.len; %s++) {\<newline>'' @
            ''        FLX_STR %s = flx_str_char_at(%s, %s);\<newline>'') [ix, ix, src, ix, ptr, src, ix])
        else array_loop_head R ix src elem_type ptr,
        lit (strf ''        (void)%s;\<newline>'' [ptr]),
        (case n_body e of
           Some b \<Rightarrow> method_body R b (value_ctx name out t (strf ''next_%s'' [ix]) elem)
         | None \<Rightarrow> emit_round R e name string_source elem out t),
        lit (strf ''    }\<newline>    %s;\<newline>})'' [out])])"

definition emit_collection_method :: "em_rec \<Rightarrow> node \<Rightarrow> string em" where
  "emit_collection_method R e =
     ebind (eptr (n_object e)) (\<lambda>obj. ebind (eptr (ctyp obj)) (\<lambda>src_type.
     ebind (node_name e) (\<lambda>name.
     ebind (eptr (index_name (attrs e))) (\<lambda>ix.
     let src = strf ''source_%s'' [ix]; out = strf ''result_%s'' [ix];
         head = emf ''({\<newline>    %s %s = %s;\<newline>'' [ctype_at R src_type, lit src, e_expr R obj] in
     if name = ''tap'' then
       ecat [head, ebind (eptr (n_body e)) (\<lambda>b. e_block_text R b 1 None None), lit (strf ''    %s;\<newline>})'' [src])]
     else ebind (eptr (element_ptr (attrs e))) (\<lambda>ptr.
       ecat [head,
         if name = ''group'' then emit_group R e ix ptr src_type src out
         else if name = ''sort'' then emit_sort R e ix ptr src_type src out
         else if is_map_type src_type then emit_map_method R e name ix ptr src_type src out
         else emit_array_method R e name ix ptr src_type src out])))))"

section \<open>Mutation in place\<close>

definition emit_mutation_target_expr :: "em_rec \<Rightarrow> node \<Rightarrow> string em" where
  "emit_mutation_target_expr R tgt =
     (if opt_holds is_ref_type (ctyp tgt) then emf ''(*%s)'' [e_expr R tgt] else e_expr R tgt)"

text \<open>The target's text is made first, and dropped where \<open>emit_join_expr\<close> makes it again.\<close>

definition emit_join_from_target_expr :: "em_rec \<Rightarrow> node \<Rightarrow> node \<Rightarrow> string \<Rightarrow> string em" where
  "emit_join_from_target_expr R tgt right t =
     ebind (emit_mutation_target_expr R tgt) (\<lambda>tx.
     if is_array_type t then
       (if ctyp right = Some t then emf ''%s(%s, %s)'' [eres (arr_concat t), lit tx, e_expr R right]
        else emf ''%s(%s, %s)'' [eres (arr_add t), lit tx, e_expr R right])
     else if is_map_type t then emf ''%s(%s, %s)'' [eres (map_fn t ''join''), lit tx, e_expr R right]
     else if t = ''OPEN'' then emf ''flx_objmap_join(%s, %s)'' [lit tx, e_expr R right]
     else if opt_holds is_ref_type (ctyp tgt) \<and> is_struct_type (e_types R) t then
       eret ''/* mutating ref struct join is not implemented */''
     else emit_join_expr R tgt right t)"

definition pointed_type :: "string \<Rightarrow> string" where
  "pointed_type t = (if is_ref_type t then ref_target_type t else t)"

definition emit_target_join :: "em_rec \<Rightarrow> node option \<Rightarrow> node option \<Rightarrow> nat \<Rightarrow> string em" where
  "emit_target_join R tgt right ind =
     ebind (eptr tgt) (\<lambda>tgt. ebind (eptr right) (\<lambda>right. ebind (eptr (ctyp tgt)) (\<lambda>t.
       emf ''%s%s = %s;\<newline>''
         [lit (indent_text ind), emit_mutation_target_expr R tgt,
          emit_join_from_target_expr R tgt right (pointed_type t)])))"

definition emit_mutating_collection_plus_stmt_text :: "em_rec \<Rightarrow> node \<Rightarrow> nat \<Rightarrow> string em" where
  "emit_mutating_collection_plus_stmt_text R e ind =
     ebind (eptr (n_left e)) (\<lambda>left. emit_target_join R (n_expr left) (n_right e) ind)"

definition emit_mutating_collection_add_stmt_text :: "em_rec \<Rightarrow> node \<Rightarrow> nat \<Rightarrow> string em" where
  "emit_mutating_collection_add_stmt_text R call ind =
     ebind (item (n_args call) 0) (\<lambda>arg. emit_target_join R (n_object call) (Some arg) ind)"

definition emit_mutating_round :: "em_rec \<Rightarrow> node \<Rightarrow> string \<Rightarrow> nat \<Rightarrow> method_ctx \<Rightarrow> string em" where
  "emit_mutating_round R call name ind c =
     (let body_pad = indent_text (ind + 2); w = mc_write_name c; ix = mc_index_name c; tgt = mc_target_name c in
      case n_body call of
        Some b \<Rightarrow>
          emf ''%s%s%s:\<newline>%s    ;\<newline>''
            [e_block_text R b (ind + 2) None (Some c), lit body_pad, lit (mc_iter_done c), lit body_pad]
      | None \<Rightarrow>
          if name = ''upd'' then emf ''%s%s = %s;\<newline>'' [lit body_pad, lit (mc_source_elem c), arg_at R call 0]
          else ebind (item (n_args call) 0) (\<lambda>arg.
            emf (''%sif (%s) {\<newline>'' @
              ''%s    if (%s != %s) %s->data[%s] = %s->data[%s];\<newline>'' @
              ''%s    %s++;\<newline>'' @
              ''%s}\<newline>'')
              [lit body_pad, emit_cond R arg,
               lit body_pad, lit w, lit ix, lit tgt, lit w, lit tgt, lit ix,
               lit body_pad, lit w, lit body_pad]))"

definition emit_mutating_loop :: "em_rec \<Rightarrow> node \<Rightarrow> string \<Rightarrow> nat \<Rightarrow> string em" where
  "emit_mutating_loop R call name ind =
     ebind (eptr (n_object call)) (\<lambda>obj. ebind (eptr (ctyp obj)) (\<lambda>receiver_type.
     ebind (eptr (index_name (attrs call))) (\<lambda>ix. ebind (eptr (element_ptr (attrs call))) (\<lambda>ptr.
     ebind (e_expr R obj) (\<lambda>receiver.
     let t = pointed_type receiver_type; tgt = strf ''target_%s'' [ix]; w = strf ''write_%s'' [ix];
         target_expr = (if is_ref_type receiver_type then receiver else strf ''&%s'' [receiver]);
         pad = indent_text ind; loop_pad = indent_text (ind + 1); body_pad = indent_text (ind + 2);
         c = \<lparr>mc_method = name, mc_out_name = [], mc_out_type = t, mc_iter_done = strf ''next_%s'' [ix],
              mc_source_elem = strf ''(*%s)'' [ptr], mc_in_place = True, mc_target_name = tgt,
              mc_write_name = w, mc_index_name = ix\<rparr> in
     ecat
       [emf ''%s{\<newline>%s%s* %s = %s;\<newline>'' [lit pad, lit loop_pad, ctype_at R t, lit tgt, lit target_expr],
        lit (if name = ''filt'' then strf ''%sint64_t %s = 0;\<newline>'' [loop_pad, w] else []),
        lit (strf ''%sfor (int64_t %s = 0; %s < %s->len; %s++) {\<newline>'' [loop_pad, ix, ix, tgt, ix]),
        emf ''%s%s* %s = &%s->data[%s];\<newline>%s(void)%s;\<newline>''
          [lit body_pad, ctype_at R (array_elem_type t), lit ptr, lit tgt, lit ix, lit body_pad, lit ptr],
        emit_mutating_round R call name ind c,
        lit (strf ''%s}\<newline>'' [loop_pad]),
        lit (if name = ''filt'' then strf ''%s%s->len = %s;\<newline>'' [loop_pad, tgt, w] else []),
        lit (strf ''%s}\<newline>'' [pad])])))))"

definition emit_mutating_collection_method_stmt_text :: "em_rec \<Rightarrow> node \<Rightarrow> nat \<Rightarrow> string em" where
  "emit_mutating_collection_method_stmt_text R e ind =
     ebind (eptr (n_expr e)) (\<lambda>call. ebind (node_name call) (\<lambda>name.
       if name = ''add'' then emit_mutating_collection_add_stmt_text R call ind
       else emit_mutating_loop R call name ind))"

section \<open>Statements of a body\<close>

definition fresh_destructure :: "string em" where
  "fresh_destructure =
     ebind (egets em_destructure_tmp) (\<lambda>i.
     ebind (emods (\<lambda>st. st\<lparr>em_destructure_tmp := i + 1\<rparr>)) (\<lambda>_.
       eret (strf ''__caster_destructure_%s'' [show_nat i])))"

definition emit_assignment_value_expr :: "em_rec \<Rightarrow> string option \<Rightarrow> node \<Rightarrow> string em" where
  "emit_assignment_value_expr R t value =
     ebind (e_expr R value) (\<lambda>x.
       if \<not> assignment_value_should_copy (e_types R) value then eret x
       else if opt_holds is_task_type t then eret x
       else heap_copy R t x)"

text \<open>\<open>T name = value; (void)name;\<close>, with the type of a declaration that has one.\<close>

definition dtype_at :: "em_rec \<Rightarrow> node \<Rightarrow> string em" where
  "dtype_at R n = ebind (eptr (dtyp n)) (ctype_at R)"

definition declared :: "em_rec \<Rightarrow> string \<Rightarrow> node \<Rightarrow> string \<Rightarrow> string em \<Rightarrow> string em" where
  "declared R pad n name value =
     emf ''%s%s %s = %s;\<newline>%s(void)%s;\<newline>'' [lit pad, dtype_at R n, lit name, value, lit pad, lit name]"

definition binding_value :: "em_rec \<Rightarrow> string \<Rightarrow> node \<Rightarrow> string em" where
  "binding_value R tmp binding =
     ebind (eptr (n_text (attrs binding))) (\<lambda>field. heap_copy R (dtyp binding) (strf ''%s.%s'' [tmp, field]))"

definition destructure_text :: "em_rec \<Rightarrow> node \<Rightarrow> string \<Rightarrow> string em" where
  "destructure_text R st pad =
     ebind fresh_destructure (\<lambda>tmp. ebind (eptr (n_value st)) (\<lambda>value.
       ecat (emf ''%s%s %s = %s;\<newline>''
           [lit pad, dtype_at R st, lit tmp, emit_assignment_value_expr R (dtyp st) value]
         # map (\<lambda>binding. ebind (node_name binding) (\<lambda>name.
             declared R pad binding name (binding_value R tmp binding))) (n_fields st))))"

definition numeric :: "string option \<Rightarrow> bool" where
  "numeric t \<longleftrightarrow> t = Some ''INT'' \<or> t = Some ''FLT''"

text \<open>\<open>+=\<close> and \<open>-=\<close>, which differ in what is made of the target where it is not a number.\<close>

definition compound_text :: "em_rec \<Rightarrow> node \<Rightarrow> node \<Rightarrow> string em" where
  "compound_text R tgt value =
     (if is_open_struct_field_dot (e_types R) tgt then
        emf ''%s;\<newline>'' [emit_open_field_update R tgt (ebind (eptr (ctyp tgt)) (emit_join_expr R tgt value))]
      else if numeric (ctyp tgt) then emf ''%s += %s;\<newline>'' [e_expr R tgt, e_expr R value]
      else if ctyp tgt = Some ''STR'' then
        emf ''%s = flx_str_concat(%s, %s);\<newline>'' [e_expr R tgt, e_expr R tgt, e_expr R value]
      else emf ''%s = %s;\<newline>'' [e_expr R tgt, ebind (eptr (ctyp tgt)) (emit_join_expr R tgt value)])"

definition compound_remove_text :: "em_rec \<Rightarrow> node \<Rightarrow> node \<Rightarrow> string em" where
  "compound_remove_text R tgt value =
     (if is_open_struct_field_dot (e_types R) tgt then
        emf ''%s;\<newline>'' [emit_open_field_update R tgt (ebind (eptr (ctyp tgt)) (emit_remove_expr R tgt value))]
      else if numeric (ctyp tgt) then emf ''%s -= %s;\<newline>'' [e_expr R tgt, e_expr R value]
      else emf ''%s = %s;\<newline>'' [e_expr R tgt, ebind (eptr (ctyp tgt)) (emit_remove_expr R tgt value)])"

text \<open>A plain assignment of a body stores the value as it is; that of a function copies it.\<close>

definition assign_text :: "em_rec \<Rightarrow> node \<Rightarrow> string \<Rightarrow> string em" where
  "assign_text R st pad =
     (if inferred_decl (attrs st) then
        ebind (node_name st) (\<lambda>name. declared R pad st name (expr_at R (n_value st)))
      else ebind (eptr (n_target st)) (\<lambda>tgt.
        if n_op (attrs st) = Some ''++'' then emf ''%s%s++;\<newline>'' [lit pad, e_expr R tgt]
        else ebind (eptr (n_value st)) (\<lambda>value. ecat [lit pad,
          if n_op (attrs st) = Some ''+='' then compound_text R tgt value
          else if n_op (attrs st) = Some ''-='' then compound_remove_text R tgt value
          else if is_open_struct_field_dot (e_types R) tgt then
            emf ''%s;\<newline>'' [emit_open_field_assignment R tgt value]
          else if is_ref_struct_field_dot (e_types R) tgt then
            emf ''%s;\<newline>'' [emit_ref_field_assignment R tgt value]
          else emf ''%s = %s;\<newline>'' [e_expr R tgt, e_expr R value]])))"

definition log_fn :: "node \<Rightarrow> string" where
  "log_fn arg =
     (if ctyp arg = Some ''INT'' then ''flx_log_int''
      else if ctyp arg = Some ''FLT'' then ''flx_log_flt''
      else if ctyp arg = Some ''BOL'' then ''flx_log_bol''
      else if ctyp arg = Some ''OBJ'' then ''flx_log_obj''
      else ''flx_log_str'')"

definition emit_log_stmt :: "em_rec \<Rightarrow> node \<Rightarrow> string \<Rightarrow> string em" where
  "emit_log_stmt R arg pad = emf ''%s%s(%s);\<newline>'' [lit pad, lit (log_fn arg), e_expr R arg]"

definition expr_stmt_text :: "em_rec \<Rightarrow> node \<Rightarrow> nat \<Rightarrow> method_ctx option \<Rightarrow> string em" where
  "expr_stmt_text R st ind mc =
     (let pad = indent_text ind in
      if mc \<noteq> None \<and> method_value (attrs st) then emit_method_value_text R (n_expr st) ind (the mc)
      else ebind (eptr (n_expr st)) (\<lambda>e.
        if is_mutating_collection_plus_expr e then emit_mutating_collection_plus_stmt_text R e ind
        else if is_mutating_collection_method_expr e then emit_mutating_collection_method_stmt_text R e ind
        else if is_log_call e then ecat (map (\<lambda>arg. emit_log_stmt R arg pad) (n_args e))
        else emf ''%s%s;\<newline>'' [lit pad, e_expr R e]))"

definition throw_text :: "em_rec \<Rightarrow> node \<Rightarrow> string \<Rightarrow> string em" where
  "throw_text R st pad =
     emf (''%s{\<newline>'' @
       ''%s    FLX_STR throw_message = %s;\<newline>'' @
       ''%s    fprintf(stderr, `%%.*s~n`, (int)throw_message.len, throw_message.data);\<newline>'' @
       ''%s    exit(1);\<newline>'' @
       ''%s}\<newline>'')
       [lit pad, lit pad, expr_at R (n_value st), lit pad, lit pad, lit pad]"

text \<open>
  Conditionals and loops are laid out alike for bodies and for functions. \<open>blk\<close> writes a block
  at an indentation; \<open>dropped\<close> is the drop of a string loop's element, which only functions have.
\<close>

definition if_text :: "em_rec \<Rightarrow> (node option \<Rightarrow> nat \<Rightarrow> string em) \<Rightarrow> node \<Rightarrow> nat \<Rightarrow> string em" where
  "if_text R blk st ind =
     (let pad = indent_text ind in ecat
       ([emf ''%sif (%s) {\<newline>%s%s}''
           [lit pad, cond_at R (n_condition st), blk (n_then_block st) (ind + 1), lit pad]]
        @ map (\<lambda>branch. emf '' else if (%s) {\<newline>%s%s}''
            [cond_at R (n_condition branch), blk (n_body branch) (ind + 1), lit pad]) (n_elx_branches st)
        @ [if n_else_block st = None then lit []
           else emf '' else {\<newline>%s%s}'' [blk (n_else_block st) (ind + 1), lit pad],
           lit ''\<newline>'']))"

definition count_loop_text :: "em_rec \<Rightarrow> (nat \<Rightarrow> string em) \<Rightarrow> node \<Rightarrow> string \<Rightarrow> nat \<Rightarrow> string em" where
  "count_loop_text R bdy st ix ind =
     (let pad = indent_text ind in
      emf ''%sfor (int64_t %s = 0; %s < %s; %s++) {\<newline>%s%s}\<newline>''
        [lit pad, lit ix, lit ix, arg_at R st 0, lit ix, bdy (ind + 1), lit pad])"

definition range_loop_text :: "em_rec \<Rightarrow> (nat \<Rightarrow> string em) \<Rightarrow> node \<Rightarrow> string \<Rightarrow> nat \<Rightarrow> string em" where
  "range_loop_text R bdy st ix ind =
     (let pad = indent_text ind in
      ebind (if length (n_args st) = 3 then arg_at R st 2 else eret ''1'') (\<lambda>step.
        emf ''%sfor (int64_t %s = %s; ((%s) >= 0 ? %s < %s : %s > %s); %s += %s) {\<newline>%s%s}\<newline>''
          [lit pad, lit ix, arg_at R st 0, lit step, lit ix, arg_at R st 1, lit ix, arg_at R st 1, lit ix, lit step,
           bdy (ind + 1), lit pad]))"

definition condition_loop_text :: "em_rec \<Rightarrow> (nat \<Rightarrow> string em) \<Rightarrow> node \<Rightarrow> string \<Rightarrow> nat \<Rightarrow> string em" where
  "condition_loop_text R bdy st ix ind =
     (let pad = indent_text ind in
      emf ''%sfor (int64_t %s = 0; %s; %s++) {\<newline>%s    (void)%s;\<newline>%s%s}\<newline>''
        [lit pad, lit ix, ebind (item (n_args st) 0) (emit_cond R), lit ix, lit pad, lit ix, bdy (ind + 1), lit pad])"

definition map_loop_text :: "em_rec \<Rightarrow> bool \<Rightarrow> (nat \<Rightarrow> string em) \<Rightarrow> node \<Rightarrow> string \<Rightarrow> string \<Rightarrow> nat \<Rightarrow> string em" where
  "map_loop_text R open_map bdy st ix ptr ind =
     ebind (item (n_args st) 0) (\<lambda>arg.
     ebind (if open_map \<and> ctyp arg = Some ''OBJ'' then emf ''flx_obj_as_objmap(%s)'' [emit_obj R arg]
            else emit_obj R arg) (\<lambda>obj.
     ebind (if open_map then eret ''FLX_OBJ_ENTRY''
            else ebind (eptr (ctyp arg)) (\<lambda>t. eres (map_entry_ctype (e_types R) t))) (\<lambda>entry_type.
     let pad = indent_text ind in
      emf (''%s{\<newline>'' @
        ''%s    size_t iter_%s = 0;\<newline>'' @
        ''%s    void* item_%s = NULL;\<newline>'' @
        ''%s    for (int64_t %s = 0; %s.raw && hashmap_iter(%s.raw, &iter_%s, &item_%s); %s++) {\<newline>'' @
        ''%s        %s* %s = item_%s;\<newline>'' @
        ''%s        (void)%s;\<newline>'' @
        ''%s        (void)%s;\<newline>'' @
        ''%s%s    }\<newline>'' @
        ''%s}\<newline>'')
        [lit pad,
         lit pad, lit ix,
         lit pad, lit ix,
         lit pad, lit ix, lit obj, lit obj, lit ix, lit ix, lit ix,
         lit pad, lit entry_type, lit ptr, lit ix,
         lit pad, lit ix,
         lit pad, lit ptr,
         bdy (ind + 2), lit pad,
         lit pad])))"

definition str_loop_text ::
    "em_rec \<Rightarrow> (string \<Rightarrow> string) \<Rightarrow> (nat \<Rightarrow> string em) \<Rightarrow> node \<Rightarrow> string \<Rightarrow> string \<Rightarrow> nat \<Rightarrow> string em" where
  "str_loop_text R dropped bdy st ix ptr ind =
     ebind (case n_value st of Some v \<Rightarrow> emit_obj R v | None \<Rightarrow> ebind (item (n_args st) 0) (emit_obj R)) (\<lambda>obj.
     let pad = indent_text ind in
      emf (''%sfor (int64_t %s = 0; %s < %s.len; %s++) {\<newline>'' @
        ''%s    FLX_STR %s = flx_str_char_at(%s, %s);\<newline>%s    (void)%s;\<newline>%s%s%s}\<newline>'')
        [lit pad, lit ix, lit ix, lit obj, lit ix, lit pad, lit ptr, lit obj, lit ix, lit pad, lit ptr,
         bdy (ind + 1), lit (dropped ptr), lit pad])"

definition array_loop_text :: "em_rec \<Rightarrow> (nat \<Rightarrow> string em) \<Rightarrow> node \<Rightarrow> string \<Rightarrow> string \<Rightarrow> nat \<Rightarrow> string em" where
  "array_loop_text R bdy st ix ptr ind =
     ebind (item (n_args st) 0) (\<lambda>arg. ebind (emit_obj R arg) (\<lambda>obj. ebind (eptr (ctyp arg)) (\<lambda>t.
     let pad = indent_text ind in
      emf (''%sfor (int64_t %s = 0; %s < %s.len; %s++) {\<newline>'' @
        ''%s    %s* %s = &%s.data[%s];\<newline>%s    (void)%s;\<newline>%s%s}\<newline>'')
        [lit pad, lit ix, lit ix, lit obj, lit ix,
         lit pad, ctype_at R (array_elem_type t), lit ptr, lit obj, lit ix, lit pad, lit ptr,
         bdy (ind + 1), lit pad])))"

definition loop_text :: "em_rec \<Rightarrow> (string \<Rightarrow> string) \<Rightarrow> (node option \<Rightarrow> nat \<Rightarrow> string em) \<Rightarrow> node \<Rightarrow> nat \<Rightarrow> string em" where
  "loop_text R dropped blk st ind =
     ebind (eptr (loop_kind (attrs st))) (\<lambda>kind.
     ebind (eptr (index_name (attrs st))) (\<lambda>ix.
     let bdy = blk (n_body st) in
     if kind = ''count'' then count_loop_text R bdy st ix ind
     else if kind = ''range'' then range_loop_text R bdy st ix ind
     else if kind = ''condition'' then condition_loop_text R bdy st ix ind
     else ebind (eptr (element_ptr (attrs st))) (\<lambda>ptr.
       if kind = ''map'' \<or> kind = ''open_map'' then map_loop_text R (kind = ''open_map'') bdy st ix ptr ind
       else if kind = ''str'' then str_loop_text R dropped bdy st ix ptr ind
       else array_loop_text R bdy st ix ptr ind)))"

definition emit_stmt_text :: "em_rec \<Rightarrow> node \<Rightarrow> nat \<Rightarrow> string option \<Rightarrow> method_ctx option \<Rightarrow> string em" where
  "emit_stmt_text R st ind fn mc =
     (let pad = indent_text ind; blk = (\<lambda>b i. ebind (eptr b) (\<lambda>b. e_block_text R b i fn mc)) in
      case n_kind st of
        NK_FN \<Rightarrow> eret []
      | NK_VAR \<Rightarrow>
          ebind (node_name st) (\<lambda>name.
            case n_value st of
              Some v \<Rightarrow> declared R pad st name (e_expr R v)
            | None \<Rightarrow> emf ''%s%s %s;\<newline>%s(void)%s;\<newline>'' [lit pad, dtype_at R st, lit name, lit pad, lit name])
      | NK_DESTRUCTURE \<Rightarrow> destructure_text R st pad
      | NK_ASSIGN \<Rightarrow> assign_text R st pad
      | NK_AGG_STEP \<Rightarrow>
          (case mc of
             Some c \<Rightarrow>
               if mc_method c = ''agg'' then emit_agg_step_text R st ind c
               else eret (pad @ ''/* agg step outside agg body */\<newline>'')
           | None \<Rightarrow> eret (pad @ ''/* agg step outside agg body */\<newline>''))
      | NK_EXPR_STMT \<Rightarrow> expr_stmt_text R st ind mc
      | NK_RET \<Rightarrow>
          if mc \<noteq> None then eret (pad @ ''/* ret is not allowed in collection method bodies */\<newline>'')
          else (case n_value st of
              Some v \<Rightarrow> emf ''%sreturn %s;\<newline>'' [lit pad, e_expr R v]
            | None \<Rightarrow> eret (pad @ (if fn = Some ''main'' then ''return 0;\<newline>'' else ''return;\<newline>'')))
      | NK_PASS \<Rightarrow> eret (pad @ '';\<newline>'')
      | NK_THROW \<Rightarrow> throw_text R st pad
      | NK_IF \<Rightarrow> if_text R blk st ind
      | NK_LOOP \<Rightarrow> loop_text R (\<lambda>_. []) blk st ind
      | _ \<Rightarrow> eret (pad @ ''/* bad stmt */\<newline>''))"

definition emit_block_text :: "em_rec \<Rightarrow> node \<Rightarrow> nat \<Rightarrow> string option \<Rightarrow> method_ctx option \<Rightarrow> string em" where
  "emit_block_text R b ind fn mc = ecat (map (\<lambda>st. emit_stmt_text R st ind fn mc) (n_statements b))"

end
