(* ===== verification/EmitExpr.thy ===== *)
theory EmitExpr
  imports EmitText
begin

text \<open>
  Expressions (\<open>emit_expr\<close> of \<open>src/caster/emit/expr.c\<close>), by the kind of node, and the knot that ties
  expressions, method bodies and blocks: one level of fuel for each call of \<open>emit_expr\<close> or
  \<open>emit_block_text\<close>. Defaults of fields are nodes of the type table, so that no bound comes from
  the expression alone.
\<close>

section \<open>Literals and accesses\<close>

definition emit_array :: "em_rec \<Rightarrow> node \<Rightarrow> string em" where
  "emit_array R e =
     ebind (eptr (ctyp e)) (\<lambda>t. let n = length (n_elements e) in
     if t = ''OBJ'' then
       ebind (ecommas (map (\<lambda>x. ebind (e_expr R x) (obj_value (ctyp x))) (n_elements e))) (\<lambda>values.
         if n = 0 then eret ''flx_obj_from_objarr(flx_objarr_make(NULL, 0))''
         else eret (strf ''flx_obj_from_objarr(flx_objarr_make((FLX_OBJ[]){%s}, %s))'' [values, show_nat n]))
     else
       ebind (ctype_at R (array_elem_type t)) (\<lambda>element_ctype.
       ebind (ecommas (map (e_expr R) (n_elements e))) (\<lambda>values.
         if n = 0 then emf ''%s(NULL, 0)'' [eres (arr_make t)]
         else emf ''%s((%s[]){%s}, %s)'' [eres (arr_make t), lit element_ctype, lit values, lit (show_nat n)])))"

definition emit_map_literal :: "em_rec \<Rightarrow> node \<Rightarrow> string em" where
  "emit_map_literal R e =
     ebind (eptr (ctyp e)) (\<lambda>t.
     if is_struct_type (e_types R) t \<and> n_fields e = [] then struct_literal R t (emit_field_default R)
     else if t = ''OBJ'' then emf ''flx_obj_from_objmap(%s)'' [emit_open_map_literal R e]
     else if is_open_struct_type (e_types R) t then emit_open_map_literal R e
     else
       ebind (eres (map_entry_ctype (e_types R) t)) (\<lambda>entry_type.
       ebind (ecommas (map (\<lambda>entry.
           emf ''{ %s, %s }'' [expr_at R (n_target entry), expr_at R (n_value entry)]) (n_fields e))) (\<lambda>values.
         emf ''%s((%s[]){%s}, %s)''
           [eres (map_fn t ''make''), lit entry_type, lit values, lit (show_nat (length (n_fields e)))])))"

definition emit_record_literal :: "em_rec \<Rightarrow> node \<Rightarrow> string em" where
  "emit_record_literal R e =
     ebind (eptr (ctyp e)) (\<lambda>t.
     if t = ''OBJ'' then emf ''flx_obj_from_objmap(%s)'' [emit_open_anonymous_record_literal R e]
     else if t = ''OPEN'' then emit_open_anonymous_record_literal R e
     else if is_open_struct_type (e_types R) t then emit_open_record_literal R e t
     else struct_literal R t (record_value R e))"

definition emit_dot_key :: "em_rec \<Rightarrow> node \<Rightarrow> node \<Rightarrow> string \<Rightarrow> node \<Rightarrow> string em option" where
  "emit_dot_key R e obj ot ky =
     (if ot = ''OBJ'' then
        Some (emf ''flx_objmap_get(flx_obj_as_objmap(%s), %s)'' [e_expr R obj, e_expr R ky])
      else if is_map_type ot then
        Some (emf ''%s(%s, %s)'' [eres (map_fn ot ''get''), e_expr R obj, e_expr R ky])
      else if ot = ''OPEN'' then Some (emf ''flx_objmap_get(%s, %s)'' [e_expr R obj, e_expr R ky])
      else if is_open_struct_type (e_types R) ot then
        Some (if ctyp e = Some ''OBJ'' then emf ''flx_objmap_get(%s, %s)'' [e_expr R obj, e_expr R ky]
              else ebind (eptr (ctyp e)) (\<lambda>t. ebind (emit_obj R obj) (\<lambda>o'. ebind (e_expr R ky) (\<lambda>k.
                eres (emit_obj_get_typed t o' k)))))
      else None)"

definition emit_dot_name :: "em_rec \<Rightarrow> node \<Rightarrow> node \<Rightarrow> string \<Rightarrow> string em" where
  "emit_dot_name R e obj ot =
     ebind (node_name e) (\<lambda>name.
     if ot = ''OPEN'' then emf ''flx_objmap_get(%s, %s)'' [e_expr R obj, lit (emit_key_literal name)]
     else case (if is_open_struct_type (e_types R) ot then struct_field (e_types R) ot name else None) of
       Some field \<Rightarrow>
         ebind (eptr (dtyp field)) (\<lambda>ft. ebind (emit_obj R obj) (\<lambda>o'.
           eres (emit_obj_get_typed ft o' (emit_key_literal name))))
     | None \<Rightarrow> emf ''%s.%s'' [emit_obj R obj, lit name])"

definition emit_dot :: "em_rec \<Rightarrow> node \<Rightarrow> string em" where
  "emit_dot R e =
     (case c_expr (attrs e) of
        Some c \<Rightarrow> eret c
      | None \<Rightarrow>
          ebind (eptr (n_object e)) (\<lambda>obj.
          case n_index e of
            Some ix \<Rightarrow>
              if ctyp obj = Some ''OBJ'' then
                emf ''flx_objarr_get(flx_obj_as_objarr(%s), %s)'' [e_expr R obj, e_expr R ix]
              else if ctyp obj = Some ''STR'' then
                emf ''flx_str_char_at(%s, %s)'' [emit_obj R obj, e_expr R ix]
              else emf ''%s.data[%s]'' [emit_obj R obj, e_expr R ix]
          | None \<Rightarrow>
              ebind (eptr (ctyp obj)) (\<lambda>ot.
              case (case n_target e of None \<Rightarrow> None | Some ky \<Rightarrow> emit_dot_key R e obj ot ky) of
                Some by_key \<Rightarrow> by_key
              | None \<Rightarrow> emit_dot_name R e obj ot)))"

section \<open>Operators\<close>

definition emit_unary :: "em_rec \<Rightarrow> node \<Rightarrow> string em" where
  "emit_unary R e =
     ebind (eptr (n_op (attrs e))) (\<lambda>op. ebind (eptr (n_expr e)) (\<lambda>x.
     let plain = emf ''(%s%s)'' [lit op, e_expr R x] in
     if op = ''REF'' then emf ''(&%s)'' [e_expr R x]
     else if op = ''*'' then emf ''(*%s)'' [e_expr R x]
     else if op = ''hold'' then
       (case ctyp x of
          None \<Rightarrow> plain
        | Some t \<Rightarrow>
            if is_task_type t then
              emf ''flx_hold_%s(%s)'' [eres (lower_mangle (task_result_type t)), e_expr R x]
            else if is_array_type t then
              emf ''flx_hold_all_%s(%s)'' [eres (lower_mangle (task_result_type (array_elem_type t))), e_expr R x]
            else plain)
     else plain))"

definition emit_binary :: "em_rec \<Rightarrow> node \<Rightarrow> string em" where
  "emit_binary R e =
     ebind (eptr (n_op (attrs e))) (\<lambda>op.
     if op = ''else'' then emit_else_expr R e
     else ebind (eptr (n_left e)) (\<lambda>left. ebind (eptr (n_right e)) (\<lambda>right.
     let text = (ctyp left = Some ''STR'') in
     ebind (if op = ''+'' then
              ebind (eptr (ctyp e)) (\<lambda>t. eret (is_collection_join_type (e_types R) t))
            else eret False) (\<lambda>joins.
     if joins then ebind (eptr (ctyp e)) (emit_join_expr R left right)
     else if text \<and> op = ''+'' then emf ''flx_str_concat(%s, %s)'' [e_expr R left, e_expr R right]
     else if text \<and> op = ''=='' then emf ''flx_str_eq(%s, %s)'' [e_expr R left, e_expr R right]
     else if text \<and> op = ''!='' then emf ''(!flx_str_eq(%s, %s))'' [e_expr R left, e_expr R right]
     else emf ''(%s %s %s)'' [e_expr R left, lit op, e_expr R right]))))"

section \<open>Calls\<close>

text \<open>Arguments first, then the callee's text.\<close>

definition call_text :: "em_rec \<Rightarrow> node \<Rightarrow> string em \<Rightarrow> string em" where
  "call_text R e callee =
     ebind (emit_user_call_args R (n_args e)) (\<lambda>args. emf ''%s(%s)'' [callee, lit args])"

text \<open>Functions of one argument that only change their name.\<close>

definition unary_runtime :: "string \<Rightarrow> string option" where
  "unary_runtime name =
     map_of [(''trim'', ''flx_str_trim''), (''lower'', ''flx_str_lower''), (''upper'', ''flx_str_upper''),
       (''urlDecode'', ''flx_str_url_decode''), (''isDigit'', ''flx_str_all_digit''),
       (''isAlpha'', ''flx_str_all_alpha''), (''isSpace'', ''flx_str_all_space''),
       (''JSON'', ''flx_json_parse_dyn'')] name"

definition emit_len :: "em_rec \<Rightarrow> node \<Rightarrow> string em" where
  "emit_len R arg =
     ebind (eptr (ctyp arg)) (\<lambda>t.
     if is_map_type t \<or> t = ''OPEN'' \<or> is_open_struct_type (e_types R) t then
       emf ''(int64_t)(%s.raw ? hashmap_count(%s.raw) : 0)'' [e_expr R arg, e_expr R arg]
     else emf ''%s.len'' [emit_obj R arg])"

definition emit_has :: "em_rec \<Rightarrow> node \<Rightarrow> node \<Rightarrow> string em" where
  "emit_has R coll needle =
     (let args = [e_expr R coll, e_expr R needle] in
      case ctyp coll of
        None \<Rightarrow> emf ''flx_objmap_has(%s, %s)'' args
      | Some t \<Rightarrow>
          if is_array_type t then emit_array_has_expr R coll t needle
          else if t = ''STR'' then emf ''flx_str_has(%s, %s)'' args
          else if is_map_type t then emf ''%s(%s, %s)'' (eres (map_fn t ''has'') # args)
          else if t = ''OBJ'' then emf ''flx_objmap_has(flx_obj_as_objmap(%s), %s)'' args
          else emf ''flx_objmap_has(%s, %s)'' args)"

definition emit_find :: "em_rec \<Rightarrow> node \<Rightarrow> node \<Rightarrow> string em" where
  "emit_find R coll needle =
     (case ctyp coll of
        Some t \<Rightarrow>
          if is_array_type t then emit_array_find_expr R coll t needle
          else emf ''flx_str_find(%s, %s)'' [e_expr R coll, e_expr R needle]
      | None \<Rightarrow> emf ''flx_str_find(%s, %s)'' [e_expr R coll, e_expr R needle])"

definition with_arg :: "node \<Rightarrow> nat \<Rightarrow> (node \<Rightarrow> string em) \<Rightarrow> string em" where
  "with_arg e i f = ebind (item (n_args e) i) f"

definition emit_named_call :: "em_rec \<Rightarrow> node \<Rightarrow> node \<Rightarrow> string \<Rightarrow> string em" where
  "emit_named_call R e callee name =
     (let a = arg_at R e in
      if name = ''len'' then with_arg e 0 (emit_len R)
      else if name = ''has'' then with_arg e 0 (\<lambda>c. with_arg e 1 (emit_has R c))
      else if name = ''find'' then with_arg e 0 (\<lambda>c. with_arg e 1 (emit_find R c))
      else if name = ''min'' then with_arg e 0 (\<lambda>c. emit_minmax_expr R c False)
      else if name = ''max'' then with_arg e 0 (\<lambda>c. emit_minmax_expr R c True)
      else if is_cast_call_name name then emit_cast_expr R e name
      else if unary_runtime name \<noteq> None then emf ''%s(%s)'' [lit (the (unary_runtime name)), a 0]
      else if name = ''replace'' then emf ''flx_str_replace(%s, %s, %s)'' [a 0, a 1, a 2]
      else if name = ''starts'' then emf ''flx_str_starts(%s, %s)'' [a 0, a 1]
      else if name = ''ends'' then emf ''flx_str_ends(%s, %s)'' [a 0, a 1]
      else if name = ''RAND'' then emf ''flx_rand((double)(%s))'' [a 0]
      else if name = ''assert'' then
        (if length (n_args e) = 1 then emf ''flx_assert(%s)'' [a 0]
         else emf ''flx_assert_msg(%s, %s)'' [a 0, a 1])
      else if name = ''log'' \<and> length (n_args e) = 1 then
        with_arg e 0 (\<lambda>arg. emf ''%s(%s)'' [lit (log_fn arg), e_expr R arg])
      else call_text R e (lit (case c_expr (attrs callee) of Some c \<Rightarrow> c | None \<Rightarrow> name)))"

definition emit_call :: "em_rec \<Rightarrow> node \<Rightarrow> string em" where
  "emit_call R e =
     (if is_struct_constructor_expr (e_types R) e then arg_at R e 0
      else ebind (eptr (n_callee e)) (\<lambda>callee.
        if n_kind callee \<noteq> NK_NAME then call_text R e (e_expr R callee)
        else if opt_holds is_fn_type (ctyp callee) then call_text R e (e_expr R callee)
        else ebind (node_name callee) (emit_named_call R e callee)))"

section \<open>Calls of the native modules\<close>

definition value_suffix :: "node \<Rightarrow> string" where
  "value_suffix v =
     (if ctyp v = Some ''INT'' then ''int''
      else if ctyp v = Some ''FLT'' then ''flt''
      else if ctyp v = Some ''BOL'' then ''bol''
      else ''str'')"

definition emit_buf_call :: "em_rec \<Rightarrow> node \<Rightarrow> string \<Rightarrow> string em" where
  "emit_buf_call R e name =
     (if name = ''new'' then eret ''BUF_new()''
      else if name \<in> {''toStr'', ''len'', ''clear'', ''free''} then
        emf ''BUF_%s(%s)'' [lit name, arg_at R e 0]
      else with_arg e 1 (\<lambda>value.
        emf ''BUF_%s_%s(%s, %s)'' [lit name, lit (value_suffix value), arg_at R e 0, e_expr R value]))"

definition emit_sql_call :: "em_rec \<Rightarrow> node \<Rightarrow> string \<Rightarrow> string em option" where
  "emit_sql_call R e name =
     (if name = ''open'' \<or> name = ''close'' then Some (emf ''SQL_%s(%s)'' [lit name, arg_at R e 0])
      else if name = ''exec'' \<or> name = ''query'' then
        Some (emf ''SQL_%s(%s, %s, %s)'' [lit name, arg_at R e 0, arg_at R e 1, arg_at R e 2])
      else None)"

definition emit_io_call :: "em_rec \<Rightarrow> node \<Rightarrow> string \<Rightarrow> string em option" where
  "emit_io_call R e name =
     (if name \<in> {''readLine'', ''stdin'', ''stdout'', ''stderr''} then Some (eret (strf ''IO_%s()'' [name]))
      else if name = ''print'' \<or> name = ''error'' then
        Some (with_arg e 0 (\<lambda>arg. emf ''IO_%s_%s(%s)'' [lit name, lit (value_suffix arg), e_expr R arg]))
      else None)"

definition host_fn :: "string \<Rightarrow> node \<Rightarrow> string" where
  "host_fn name handler = (if dtyp handler = Some ''REF[HttpReq]'' then name @ ''_ref'' else name)"

definition emit_req_call :: "em_rec \<Rightarrow> node \<Rightarrow> string \<Rightarrow> string em option" where
  "emit_req_call R e name =
     (let a = arg_at R e; n = length (n_args e); adapter = lit (emit_host_adapter_name e) in
      if name = ''host'' then Some (
        if n = 3 then with_arg e 2 (\<lambda>h. emf ''%s(%s, %s, %s)'' [lit (host_fn ''REQ_host_ctx'' h), a 0, a 1, adapter])
        else with_arg e 1 (\<lambda>h. emf ''%s(%s, %s)'' [lit (host_fn ''REQ_host'' h), a 0, node_name h]))
      else if name = ''hostTLS'' then Some (
        if n = 5 then with_arg e 4 (\<lambda>h. emf ''%s(%s, %s, %s, %s, %s)''
          [lit (host_fn ''REQ_hostTLS_ctx'' h), a 0, a 1, a 2, a 3, adapter])
        else with_arg e 3 (\<lambda>h. emf ''%s(%s, %s, %s, %s)'' [lit (host_fn ''REQ_hostTLS'' h), a 0, a 1, a 2, node_name h]))
      else if name = ''ws'' then Some (with_arg e 1 (\<lambda>h. emf ''REQ_ws(%s, %s)'' [a 0, node_name h]))
      else if name = ''wsTLS'' then
        Some (with_arg e 3 (\<lambda>h. emf ''REQ_wsTLS(%s, %s, %s, %s)'' [a 0, a 1, a 2, node_name h]))
      else if name = ''get'' \<or> name = ''delete'' then Some (emf ''REQ_%s(%s)'' [lit name, a 0])
      else if name = ''post'' \<or> name = ''put'' then Some (emf ''REQ_%s(%s, %s)'' [lit name, a 0, a 1])
      else None)"

definition emit_module_call :: "em_rec \<Rightarrow> node \<Rightarrow> string \<Rightarrow> string \<Rightarrow> string em option" where
  "emit_module_call R e obj name =
     (if name = ''INIT'' then
        Some (eret (strf ''%s()'' [emit_named_value_fn_name (case dtyp e of Some t \<Rightarrow> t | None \<Rightarrow> obj)]))
      else if obj \<in> {''OS'', ''FS'', ''PATH'', ''PROC''} then
        Some (emf ''%s_%s(%s)'' [lit obj, lit name, ecommas (map (e_expr R) (n_args e))])
      else if obj = ''BUF'' then Some (emit_buf_call R e name)
      else if obj = ''SQL'' then emit_sql_call R e name
      else if obj = ''IO'' then emit_io_call R e name
      else if obj = ''JSON'' \<and> name = ''stringify'' then Some (emf ''flx_json_stringify(%s)'' [arg_at R e 0])
      else if obj = ''REQ'' then emit_req_call R e name
      else None)"

section \<open>Method calls\<close>

definition emit_method_of :: "em_rec \<Rightarrow> node \<Rightarrow> node \<Rightarrow> string \<Rightarrow> string \<Rightarrow> string em" where
  "emit_method_of R e obj ot name =
     (let types = e_types R; a = arg_at R e in
      if name = ''ARR'' then
        (if ot = ''STR'' then
           (if length (n_args e) = 1 then emit_split_expr R obj (hd (n_args e))
            else emf ''flx_str_chars(%s)'' [e_expr R obj])
         else ebind (eptr (ctyp e)) (emit_arr_conversion_expr R obj))
      else if name = ''STR'' then
        (if length (n_args e) = 1 then emf ''flx_arr_str_join_sep(%s, %s)'' [e_expr R obj, a 0]
         else emf ''flx_arr_str_join(%s)'' [e_expr R obj])
      else if is_array_type ot \<and> name = ''add'' then
        with_arg e 0 (\<lambda>arg. ebind (eptr (ctyp e)) (emit_join_expr R obj arg))
      else if (is_map_type ot \<or> is_struct_type types ot \<or> is_open_data_type ot) \<and> name = ''upd''
          \<and> length (n_args e) = 1 then
        with_arg e 0 (\<lambda>arg. ebind (eptr (ctyp e)) (emit_join_expr R obj arg))
      else if name = ''len'' then emf ''%s.len'' [emit_obj R obj]
      else if (is_array_type ot \<or> ot = ''STR'' \<or> is_map_type ot) \<and> is_collection_method_name name then
        emit_collection_method R e
      else if is_map_type ot \<and> name = ''has'' then
        emf ''%s(%s, %s)'' [eres (map_fn ot ''has''), e_expr R obj, a 0]
      else if ot = ''OBJ'' \<and> name = ''has'' then
        emf ''flx_objmap_has(flx_obj_as_objmap(%s), %s)'' [e_expr R obj, a 0]
      else if (is_open_struct_type types ot \<or> ot = ''OPEN'') \<and> name = ''has'' then
        emf ''flx_objmap_has(%s, %s)'' [e_expr R obj, a 0]
      else eret ''/*badmethod*/'')"

definition emit_method :: "em_rec \<Rightarrow> node \<Rightarrow> string \<Rightarrow> string em" where
  "emit_method R e name =
     (case c_expr (attrs e) of
        Some c \<Rightarrow> call_text R e (lit c)
      | None \<Rightarrow>
          ebind (eptr (n_object e)) (\<lambda>obj. ebind (eptr (ctyp obj)) (\<lambda>ot.
          if is_shape_type ot \<and> name = ''fill'' then emit_shape_fill_expr R e
          else if opt_holds (\<lambda>f. opt_holds is_fn_type (dtyp f)) (struct_field (e_types R) ot name) then
            call_text R e (emf ''%s.%s'' [emit_obj R obj, lit name])
          else emit_method_of R e obj ot name)))"

definition emit_method_call :: "em_rec \<Rightarrow> node \<Rightarrow> string em" where
  "emit_method_call R e =
     (if is_struct_constructor_expr (e_types R) e then arg_at R e 0
      else case emit_web_json_direct_response R e of
        Some fast \<Rightarrow> fast
      | None \<Rightarrow>
          ebind (node_name e) (\<lambda>name.
          case n_object e of
            None \<Rightarrow> emit_method R e name
          | Some obj \<Rightarrow>
              if n_kind obj \<noteq> NK_NAME then emit_method R e name
              else ebind (node_name obj) (\<lambda>oname.
                case emit_module_call R e oname name of
                  Some m \<Rightarrow> m
                | None \<Rightarrow> emit_method R e name)))"

section \<open>The expressions\<close>

definition emit_decode :: "em_rec \<Rightarrow> node \<Rightarrow> string em" where
  "emit_decode R e =
     ebind (eptr (dtyp e)) (\<lambda>t. ebind (eptr (n_expr e)) (\<lambda>x.
       emf (if ctyp x = Some ''OBJ'' then ''%s(flx_obj_as_objmap(%s))'' else ''%s(%s)'')
         [eres (json_decode_fn t), e_expr R x]))"

definition emit_if_expr :: "em_rec \<Rightarrow> node \<Rightarrow> string em" where
  "emit_if_expr R e =
     (if n_right e \<noteq> None then
        emf ''(%s ? %s : %s)'' [expr_at R (n_condition e), expr_at R (n_value e), expr_at R (n_right e)]
      else expr_at R (n_value e))"

definition emit_expr :: "em_rec \<Rightarrow> node \<Rightarrow> string em" where
  "emit_expr R e =
     (case n_kind e of
        NK_INT \<Rightarrow> eret (show_int (int_value (attrs e)))
      | NK_FLT \<Rightarrow> eret (e_float R (float_value (attrs e)))
      | NK_BOL \<Rightarrow> eret (if bool_value (attrs e) then ''true'' else ''false'')
      | NK_STR \<Rightarrow> ebind (eptr (n_text (attrs e))) (\<lambda>s. eret (emit_key_literal s))
      | NK_NIL \<Rightarrow> eret ''NULL''
      | NK_NAME \<Rightarrow> (case c_expr (attrs e) of Some c \<Rightarrow> eret c | None \<Rightarrow> node_name e)
      | NK_INIT \<Rightarrow> eret ''/*badinit*/''
      | NK_ARRAY \<Rightarrow> emit_array R e
      | NK_SHAPE \<Rightarrow> eret ''/* shape literal requires .fill(value) */''
      | NK_MAP_LITERAL \<Rightarrow> emit_map_literal R e
      | NK_RECORD_LITERAL \<Rightarrow> emit_record_literal R e
      | NK_DOT \<Rightarrow> emit_dot R e
      | NK_UNARY \<Rightarrow> emit_unary R e
      | NK_BINARY \<Rightarrow> emit_binary R e
      | NK_CALL \<Rightarrow> emit_call R e
      | NK_METHOD_CALL \<Rightarrow> emit_method_call R e
      | NK_DECODE \<Rightarrow> emit_decode R e
      | NK_IF_EXPR \<Rightarrow> emit_if_expr R e
      | _ \<Rightarrow> eret ''/*badexpr*/'')"

primrec emitter :: "type_table \<Rightarrow> (string \<Rightarrow> string) \<Rightarrow> nat \<Rightarrow> em_rec" where
  "emitter types flt 0 =
     \<lparr>e_types = types, e_float = flt, e_expr = (\<lambda>_. efail OutOfFuel),
      e_block_text = (\<lambda>_ _ _ _. efail OutOfFuel)\<rparr>"
| "emitter types flt (Suc k) =
     (let R = emitter types flt k in
      \<lparr>e_types = types, e_float = flt, e_expr = emit_expr R, e_block_text = emit_block_text R\<rparr>)"

end
