(* ===== verification/EmitStmt.thy ===== *)
theory EmitStmt
  imports EmitExpr
begin

text \<open>
  Statements and functions as they are written to the file (\<open>src/caster/emit/stmt.c\<close>,
  \<open>program.c\<close>). A function keeps the list of the locals that own a value; what it returns is
  copied or moved into a temporary, then the locals it does not return are dropped.
\<close>

section \<open>Functions\<close>

definition function_c_name :: "node \<Rightarrow> string em" where
  "function_c_name fn = (case c_expr (attrs fn) of Some c \<Rightarrow> eret c | None \<Rightarrow> node_name fn)"

definition is_user_main :: "node \<Rightarrow> bool" where
  "is_user_main fn \<longleftrightarrow> c_expr (attrs fn) = None \<and> n_name (attrs fn) = Some ''main''"

definition function_return_ctype :: "em_rec \<Rightarrow> node \<Rightarrow> string em" where
  "function_return_ctype R fn =
     (if is_user_main fn then eret ''int''
      else ebind (eptr (ctyp fn)) (\<lambda>t. if t = ''NUL'' then eret ''void'' else ctype_at R t))"

section \<open>Statements\<close>

definition own :: "em_rec \<Rightarrow> bool \<Rightarrow> string option \<Rightarrow> string option \<Rightarrow> unit em" where
  "own R b name t = (if b then owned_local_add (e_types R) name t else eret ())"

text \<open>A text, then the state's change.\<close>

definition after :: "string em \<Rightarrow> unit em \<Rightarrow> string em" where
  "after m u = ebind m (\<lambda>x. ebind u (\<lambda>_. eret x))"

definition mark_line :: "string \<Rightarrow> string \<Rightarrow> string em" where
  "mark_line pad name = eret (strf ''%s(void)%s;\<newline>'' [pad, name])"

definition stmt_declared :: "em_rec \<Rightarrow> node \<Rightarrow> nat \<Rightarrow> string em" where
  "stmt_declared R st ind =
     (let pad = indent_text ind in
      ebind (node_name st) (\<lambda>name. ecat
        [after
           (case n_value st of
              Some v \<Rightarrow> emf ''%s%s %s = %s;\<newline>''
                [lit pad, dtype_at R st, lit name, emit_assignment_value_expr R (dtyp st) v]
            | None \<Rightarrow> emf ''%s%s %s;\<newline>'' [lit pad, dtype_at R st, lit name])
           (own R (ind = 1 \<and> assignment_initializer_may_own (e_types R) (dtyp st) (n_value st)) (Some name) (dtyp st)),
         mark_line pad name]))"

definition stmt_destructure :: "em_rec \<Rightarrow> node \<Rightarrow> nat \<Rightarrow> string em" where
  "stmt_destructure R st ind =
     (let pad = indent_text ind in
      ebind fresh_destructure (\<lambda>tmp. ebind (eptr (n_value st)) (\<lambda>value. ecat
        (after
           (emf ''%s%s %s = %s;\<newline>'' [lit pad, dtype_at R st, lit tmp, emit_assignment_value_expr R (dtyp st) value])
           (own R (ind = 1 \<and> assignment_initializer_may_own (e_types R) (dtyp st) (Some value)) (Some tmp) (dtyp st))
         # map (\<lambda>binding. ebind (node_name binding) (\<lambda>name. ecat
             [after
                (emf ''%s%s %s = %s;\<newline>'' [lit pad, dtype_at R binding, lit name, binding_value R tmp binding])
                (own R (ind = 1 \<and> type_needs_drop (e_types R) (dtyp binding)) (Some name) (dtyp binding)),
              mark_line pad name])) (n_fields st)))))"

definition stmt_assign :: "em_rec \<Rightarrow> node \<Rightarrow> nat \<Rightarrow> string em" where
  "stmt_assign R st ind =
     (if inferred_decl (attrs st) then stmt_declared R st ind
      else ebind (eptr (n_target st)) (\<lambda>tgt.
        let pad = lit (indent_text ind); types = e_types R;
            names = (ind = 1 \<and> n_kind tgt = NK_NAME);
            owns = (\<lambda>b. own R (names \<and> b) (n_name (attrs tgt)) (ctyp tgt)) in
        if n_op (attrs st) = Some ''++'' then emf ''%s%s++;\<newline>'' [pad, e_expr R tgt]
        else ebind (eptr (n_value st)) (\<lambda>value.
          if n_op (attrs st) = Some ''+='' then ebind (owns True) (\<lambda>_. ecat [pad, compound_text R tgt value])
          else if n_op (attrs st) = Some ''-='' then
            ebind (owns True) (\<lambda>_. ecat [pad, compound_remove_text R tgt value])
          else ebind (owns (assignment_initializer_may_own types (ctyp tgt) (Some value))) (\<lambda>_. ecat [pad,
            if is_open_struct_field_dot types tgt then emf ''%s;\<newline>'' [emit_open_field_assignment R tgt value]
            else if is_ref_struct_field_dot types tgt then emf ''%s;\<newline>'' [emit_ref_field_assignment R tgt value]
            else emf ''%s = %s;\<newline>'' [e_expr R tgt, emit_assignment_value_expr R (ctyp tgt) value]]))))"

definition stmt_free :: "em_rec \<Rightarrow> node \<Rightarrow> nat \<Rightarrow> string em" where
  "stmt_free R st ind =
     (let pad = indent_text ind in
      ebind (eptr (n_expr st)) (\<lambda>x. ebind (eptr (ctyp x)) (\<lambda>t. ecat
        [lit pad,
         after (ebind (e_expr R x) (\<lambda>e. eres (emit_drop_stmt_with_prefix (e_types R) ind t e True)))
           (case n_name (attrs x) of
              Some name \<Rightarrow>
                if n_kind x = NK_NAME then emods (\<lambda>s. s\<lparr>em_owned := owned_local_remove name (em_owned s)\<rparr>)
                else eret ()
            | None \<Rightarrow> eret ()),
         emf ''%s%s = %s;\<newline>'' [lit pad, e_expr R x, eres (emit_zero_value (e_types R) t)]])))"

definition emit_return_value_expr :: "em_rec \<Rightarrow> node \<Rightarrow> string em" where
  "emit_return_value_expr R value =
     ebind (e_expr R value) (\<lambda>x. ebind (egets em_owned) (\<lambda>owned.
       if return_expr_is_borrowed (e_types R) owned value then heap_copy R (ctyp value) x else eret x))"

definition fresh_return :: "string em" where
  "fresh_return =
     ebind (egets em_return_tmp) (\<lambda>i.
     ebind (emods (\<lambda>st. st\<lparr>em_return_tmp := i + 1\<rparr>)) (\<lambda>_. eret (strf ''flx_return_value_%s'' [show_nat i])))"

definition stmt_ret :: "em_rec \<Rightarrow> node \<Rightarrow> nat \<Rightarrow> node \<Rightarrow> string em" where
  "stmt_ret R st ind fn =
     (let pad = indent_text ind; types = e_types R in
      case n_value st of
        Some v \<Rightarrow>
          ebind fresh_return (\<lambda>tmp. ecat
            [emf ''%s%s %s = %s;\<newline>'' [lit pad, function_return_ctype R fn, lit tmp, emit_return_value_expr R v],
             ebind (egets em_owned) (\<lambda>owned.
               emit_owned_local_drops types ind (returned_owned_local_name types owned v)),
             lit (strf ''%sreturn %s;\<newline>'' [pad, tmp])])
      | None \<Rightarrow> ecat
          [lit pad, emit_owned_local_drops types ind None,
           lit (pad @ (if n_name (attrs fn) = Some ''main'' then ''return 0;\<newline>'' else ''return;\<newline>''))])"

definition stmt_expr :: "em_rec \<Rightarrow> node \<Rightarrow> nat \<Rightarrow> string em" where
  "stmt_expr R st ind =
     (let pad = indent_text ind in
      ebind (eptr (n_expr st)) (\<lambda>e.
        if is_mutating_collection_plus_expr e then emit_mutating_collection_plus_stmt_text R e ind
        else if is_mutating_collection_method_expr e then emit_mutating_collection_method_stmt_text R e ind
        else if is_log_call e then ecat (lit pad # map (\<lambda>arg. emit_log_stmt R arg pad) (n_args e))
        else emf ''%s%s;\<newline>'' [lit pad, e_expr R e]))"

definition stmt_throw :: "em_rec \<Rightarrow> node \<Rightarrow> nat \<Rightarrow> string em" where
  "stmt_throw R st ind = throw_text R st (indent_text ind)"

definition stmt_if :: "em_rec \<Rightarrow> (node option \<Rightarrow> nat \<Rightarrow> string em) \<Rightarrow> node \<Rightarrow> nat \<Rightarrow> string em" where
  "stmt_if R blk st ind = if_text R blk st ind"

text \<open>Unlike in a body written as text, the element of a loop over a string is dropped after each round.\<close>

definition stmt_loop :: "em_rec \<Rightarrow> (node option \<Rightarrow> nat \<Rightarrow> string em) \<Rightarrow> node \<Rightarrow> nat \<Rightarrow> string em" where
  "stmt_loop R blk st ind =
     loop_text R (\<lambda>ptr. strf ''%sflx_drop_str(%s);\<newline>'' [indent_text (ind + 1), ptr]) blk st ind"

definition emit_stmt :: "em_rec \<Rightarrow> (node \<Rightarrow> nat \<Rightarrow> string em) \<Rightarrow> node \<Rightarrow> nat \<Rightarrow> node \<Rightarrow> string em" where
  "emit_stmt R block st ind fn =
     (let pad = indent_text ind; blk = (\<lambda>b i. ebind (eptr b) (\<lambda>b. block b i)) in
      case n_kind st of
        NK_FN \<Rightarrow> eret pad
      | NK_VAR \<Rightarrow> stmt_declared R st ind
      | NK_DESTRUCTURE \<Rightarrow> stmt_destructure R st ind
      | NK_ASSIGN \<Rightarrow> stmt_assign R st ind
      | NK_FREE \<Rightarrow> stmt_free R st ind
      | NK_EXPR_STMT \<Rightarrow> stmt_expr R st ind
      | NK_RET \<Rightarrow> stmt_ret R st ind fn
      | NK_PASS \<Rightarrow> eret (pad @ '';\<newline>'')
      | NK_THROW \<Rightarrow> stmt_throw R st ind
      | NK_IF \<Rightarrow> stmt_if R blk st ind
      | NK_LOOP \<Rightarrow> stmt_loop R blk st ind
      | _ \<Rightarrow> eret (pad @ ''/* bad stmt */\<newline>''))"

primrec emit_block :: "nat \<Rightarrow> em_rec \<Rightarrow> node \<Rightarrow> nat \<Rightarrow> node \<Rightarrow> string em" where
  "emit_block 0 R b ind fn = efail OutOfFuel"
| "emit_block (Suc k) R b ind fn =
     ecat (map (\<lambda>st. emit_stmt R (\<lambda>b i. emit_block k R b i fn) st ind fn)
       (filter (\<lambda>st. n_kind st \<noteq> NK_FN) (n_statements b)))"

definition block_ends_with_return :: "node \<Rightarrow> bool" where
  "block_ends_with_return b \<longleftrightarrow> n_statements b \<noteq> [] \<and> n_kind (last (n_statements b)) = NK_RET"

section \<open>Definitions of functions\<close>

definition emit_function_signature :: "em_rec \<Rightarrow> bool \<Rightarrow> node \<Rightarrow> string em" where
  "emit_function_signature R sys fn =
     (if is_user_main fn \<and> sys then eret ''int main(int argc, char **argv)''
      else emf ''%s %s(%s)''
        [function_return_ctype R fn, function_c_name fn,
         if n_params fn = [] then lit ''void''
         else ecommas (map (\<lambda>param. emf ''%s %s'' [dtype_at R param, node_name param]) (n_params fn))])"

definition emit_function_param_marks :: "node \<Rightarrow> string em" where
  "emit_function_param_marks fn =
     ecat (map (\<lambda>param. ebind (node_name param) (\<lambda>name. mark_line ''    '' name)) (n_params fn))"

text \<open>What starts the program: arguments, named values, globals.\<close>

definition init_calls :: "bool \<Rightarrow> node \<Rightarrow> string" where
  "init_calls sys prog =
     (if sys then ''    flx_sys_init(argc, argv);\<newline>'' else []) @
     ''    flx_init_named_values();\<newline>'' @
     (if n_globals prog = [] then [] else ''    flx_init_globals();\<newline>'')"

text \<open>The statements of a body, then the drops unless its last statement returned.\<close>

definition body_text :: "nat \<Rightarrow> em_rec \<Rightarrow> node \<Rightarrow> node \<Rightarrow> string em" where
  "body_text k R b fn = ecat
     [emit_block k R b 1 fn,
      if block_ends_with_return b then lit [] else emit_owned_local_drops (e_types R) 1 None]"

definition emit_function_definition :: "nat \<Rightarrow> em_rec \<Rightarrow> bool \<Rightarrow> node \<Rightarrow> node \<Rightarrow> string em" where
  "emit_function_definition k R sys prog fn =
     ebind (emods owned_locals_reset) (\<lambda>_. ecat
       [emit_function_signature R sys fn, lit '' {\<newline>'', emit_function_param_marks fn,
        lit (if is_user_main fn then init_calls sys prog else []),
        ebind (eptr (n_body fn)) (\<lambda>b. body_text k R b fn),
        lit (if is_user_main fn then ''    return 0;\<newline>'' else []),
        lit ''}\<newline>\<newline>''])"

section \<open>Nested functions\<close>

text \<open>
  Where functions stand in a block: in its statements, loops and conditionals. Their declarations
  come outermost first, their definitions innermost first.
\<close>

definition inner_blocks :: "node \<Rightarrow> node list" where
  "inner_blocks st =
     List.map_filter id
       (if n_kind st = NK_LOOP then [n_body st]
        else if n_kind st = NK_IF then
          [n_then_block st] @ map n_body (n_elx_branches st) @ [n_else_block st]
        else [])"

lemma inner_blocks_smaller: "x \<in> set (inner_blocks st) \<Longrightarrow> size x < size st"
proof -
  assume "x \<in> set (inner_blocks st)"
  then consider "n_body st = Some x" | "n_then_block st = Some x" | "n_else_block st = Some x"
    | br where "br \<in> set (n_elx_branches st)" "n_body br = Some x"
    by (auto simp: inner_blocks_def in_map_filter_id simp del: map_filter_simps split: if_splits)
  then show "size x < size st"
  proof cases
    case 4
    then show ?thesis using size_item(5) [of br st] size_child(1) [of br x] by simp
  qed (simp_all add: size_child)
qed

lemma nested_smaller:
  "st \<in> set (n_statements b) \<Longrightarrow> n_body st = Some x \<Longrightarrow> size x < size b"
  "st \<in> set (n_statements b) \<Longrightarrow> x \<in> set (inner_blocks st) \<Longrightarrow> size x < size b"
  using size_item(1) size_child(1) inner_blocks_smaller by (meson less_trans)+

function collect_nested_functions :: "node \<Rightarrow> node list" where
  "collect_nested_functions b =
     concat (map (\<lambda>st.
       if n_kind st = NK_FN then
         st # (case n_body st of None \<Rightarrow> [] | Some x \<Rightarrow> collect_nested_functions x)
       else concat (map collect_nested_functions (inner_blocks st))) (n_statements b))"
  by pat_completeness auto

termination
  by (relation "measure size") (auto simp: nested_smaller)

declare collect_nested_functions.simps [simp del]

function nested_definitions :: "node \<Rightarrow> node list" where
  "nested_definitions b =
     concat (map (\<lambda>st.
       if n_kind st = NK_FN then
         (case n_body st of None \<Rightarrow> [] | Some x \<Rightarrow> nested_definitions x) @ [st]
       else concat (map nested_definitions (inner_blocks st))) (n_statements b))"
  by pat_completeness auto

termination
  by (relation "measure size") (auto simp: nested_smaller)

declare nested_definitions.simps [simp del]

definition emit_nested_function_definitions_in_block :: "nat \<Rightarrow> em_rec \<Rightarrow> bool \<Rightarrow> node \<Rightarrow> node \<Rightarrow> string em" where
  "emit_nested_function_definitions_in_block k R sys prog b =
     ecat (map (emit_function_definition k R sys prog) (nested_definitions b))"

definition emit_function_definition_with_nested :: "nat \<Rightarrow> em_rec \<Rightarrow> bool \<Rightarrow> node \<Rightarrow> node \<Rightarrow> string em" where
  "emit_function_definition_with_nested k R sys prog fn = ecat
     [case n_body fn of None \<Rightarrow> lit [] | Some b \<Rightarrow> emit_nested_function_definitions_in_block k R sys prog b,
      emit_function_definition k R sys prog fn]"

end
