(* ===== verification/EmitUses.thy ===== *)
theory EmitUses
  imports Emit
begin

text \<open>
  What a program makes the emitter write besides its own code (\<open>src/caster/emit/context.c\<close>): the
  flags of the runtime parts and the types that need declarations and helpers, collected from
  types, expressions and statements. A vector is a list; \<open>EmitCtx\<close> is passed on. Collection over
  nodes takes fuel for its depth; over a type to decode it takes fuel because it need not end.
\<close>

record emit_ctx =
  log_int :: bool
  log_flt :: bool
  log_bol :: bool
  log_str :: bool
  log_obj :: bool
  uses_assert :: bool
  uses_assert_msg :: bool
  uses_json :: bool
  uses_str :: bool
  uses_str_eq :: bool
  uses_str_concat :: bool
  uses_throw :: bool
  uses_heap :: bool
  uses_map :: bool
  uses_open :: bool
  uses_req :: bool
  uses_sys :: bool
  uses_cast :: bool
  uses_buf :: bool
  uses_sql :: bool
  uses_rand :: bool
  uses_req_headers :: bool
  array_types :: "string list"
  array_concat_types :: "string list"
  array_sub_value_types :: "string list"
  map_types :: "string list"
  fn_types :: "string list"
  json_decode_types :: "string list"
  host_ctx_calls :: "node list"

definition no_uses :: emit_ctx where
  "no_uses =
     \<lparr>log_int = False, log_flt = False, log_bol = False, log_str = False, log_obj = False,
      uses_assert = False, uses_assert_msg = False, uses_json = False, uses_str = False,
      uses_str_eq = False, uses_str_concat = False, uses_throw = False, uses_heap = False,
      uses_map = False, uses_open = False, uses_req = False, uses_sys = False, uses_cast = False,
      uses_buf = False, uses_sql = False, uses_rand = False, uses_req_headers = False,
      array_types = [], array_concat_types = [], array_sub_value_types = [], map_types = [],
      fn_types = [], json_decode_types = [], host_ctx_calls = []\<rparr>"

text \<open>\<open>if (!type_in_vec(v, type)) vec_push(v, type)\<close>.\<close>

definition push_new :: "string \<Rightarrow> string list \<Rightarrow> string list" where
  "push_new t v = (if t \<in> set v then v else v @ [t])"

lemma set_push_new [simp]: "set (push_new t v) = insert t (set v)"
  and distinct_push_new [simp]: "distinct (push_new t v) = distinct v"
  by (auto simp: push_new_def)

section \<open>Types\<close>

lemma split_map_type_length:
  assumes "is_map_type t" and "split_map_type t = Some (a, b)"
  shows "length a < length t" "length b < length t"
proof -
  have "4 < length t" using bracketed_length [of "''MAP[''" t] assms(1) by (simp add: is_map_type_def)
  then show "length a < length t" "length b < length t"
    using split_comma_length assms by (fastforce simp: split_map_type_def)+
qed

function add_type_use :: "type_table \<Rightarrow> string \<Rightarrow> emit_ctx \<Rightarrow> emit_ctx" where
  "add_type_use types t ctx =
     (if is_unknown_type t \<or> is_shape_type t then ctx
      else if t = ''STR'' then ctx\<lparr>uses_str := True\<rparr>
      else if t = ''OBJ'' \<or> t = ''OPEN'' then ctx\<lparr>uses_open := True, uses_str := True\<rparr>
      else if is_open_struct_type types t then ctx\<lparr>uses_open := True, uses_map := True, uses_str := True\<rparr>
      else if is_ref_type t then add_type_use types (ref_target_type t) ctx
      else if is_task_type t then
        add_type_use types (task_result_type t) (ctx\<lparr>uses_req := True, uses_str := True\<rparr>)
      else if is_fn_type t then
        (case split_fn_type t of
           None \<Rightarrow> ctx\<lparr>fn_types := push_new t (fn_types ctx)\<rparr>
         | Some (i, r) \<Rightarrow>
             add_type_use types r (add_type_use types i (ctx\<lparr>fn_types := push_new t (fn_types ctx)\<rparr>)))
      else if is_array_type t then
        add_type_use types (array_elem_type t) (ctx\<lparr>array_types := push_new t (array_types ctx)\<rparr>)
      else if is_map_type t then
        (case split_map_type t of
           None \<Rightarrow> ctx\<lparr>uses_map := True, map_types := push_new t (map_types ctx)\<rparr>
         | Some (k, v) \<Rightarrow>
             add_type_use types v (add_type_use types k
               (ctx\<lparr>uses_map := True, map_types := push_new t (map_types ctx)\<rparr>)))
      else ctx)"
  by pat_completeness auto

termination
  by (relation "measure (\<lambda>(types, t, ctx). length t)")
    (auto simp: ref_target_length task_result_length array_elem_length split_fn_type_length split_map_type_length)

declare add_type_use.simps [simp del]

text \<open>Actions on the context, in sequence.\<close>

type_synonym uses = "emit_ctx \<Rightarrow> emit_ctx result"

fun useq :: "uses list \<Rightarrow> uses" where
  "useq [] ctx = Inr ctx"
| "useq (a # acts) ctx = rbind (a ctx) (useq acts)"

definition marks :: "(emit_ctx \<Rightarrow> emit_ctx) \<Rightarrow> uses" where
  "marks f ctx = Inr (f ctx)"

definition whenever :: "bool \<Rightarrow> uses list \<Rightarrow> uses" where
  "whenever b acts = (if b then useq acts else Inr)"

definition on_node :: "node option \<Rightarrow> (node \<Rightarrow> uses) \<Rightarrow> uses" where
  "on_node x f = (case x of None \<Rightarrow> \<lambda>_. Inl NullDeref | Some n \<Rightarrow> f n)"

definition if_node :: "node option \<Rightarrow> (node \<Rightarrow> uses) \<Rightarrow> uses" where
  "if_node x f = (case x of None \<Rightarrow> Inr | Some n \<Rightarrow> f n)"

definition add_type_use_ptr :: "type_table \<Rightarrow> string option \<Rightarrow> uses" where
  "add_type_use_ptr types t = (case t of None \<Rightarrow> Inr | Some x \<Rightarrow> marks (add_type_use types x))"

definition decodable :: "type_table \<Rightarrow> string \<Rightarrow> bool" where
  "decodable types t \<longleftrightarrow> is_struct_type types t \<or> is_map_type t \<or> is_array_type t"

primrec add_json_decode_type :: "nat \<Rightarrow> type_table \<Rightarrow> string option \<Rightarrow> uses" where
  "add_json_decode_type 0 types t = (\<lambda>_. Inl OutOfFuel)"
| "add_json_decode_type (Suc k) types t =
     (case t of
        None \<Rightarrow> Inr
      | Some x \<Rightarrow>
          if \<not> decodable types x then Inr
          else useq
            [marks (\<lambda>ctx. ctx\<lparr>json_decode_types := push_new x (json_decode_types ctx)\<rparr>),
             marks (add_type_use types x),
             if is_struct_type types x then
               (case type_find types x of
                  None \<Rightarrow> Inr
                | Some info \<Rightarrow>
                    useq (map (\<lambda>field. add_json_decode_type k types (declared_type (attrs field)))
                      (n_fields (ti_node info))))
             else if is_map_type x then add_json_decode_type k types (map_value_type x)
             else add_json_decode_type k types (Some (array_elem_type x))])"

section \<open>Statements and expressions\<close>

text \<open>The two walks call each other; \<open>u_expr\<close> and \<open>u_block\<close> stand for the recursive calls.\<close>

record uses_rec =
  u_types :: type_table
  u_fuel :: nat
  u_expr :: "node \<Rightarrow> uses"
  u_block :: "node \<Rightarrow> uses"

definition type_used :: "uses_rec \<Rightarrow> string option \<Rightarrow> uses" where
  "type_used U t = add_type_use_ptr (u_types U) t"

definition json_decoded :: "uses_rec \<Rightarrow> string option \<Rightarrow> uses" where
  "json_decoded U t = add_json_decode_type (u_fuel U) (u_types U) t"

abbreviation use_str :: uses where "use_str \<equiv> marks (\<lambda>ctx. ctx\<lparr>uses_str := True\<rparr>)"
abbreviation use_str_eq :: uses where "use_str_eq \<equiv> marks (\<lambda>ctx. ctx\<lparr>uses_str_eq := True\<rparr>)"
abbreviation use_str_concat :: uses where "use_str_concat \<equiv> marks (\<lambda>ctx. ctx\<lparr>uses_str_concat := True\<rparr>)"
abbreviation use_open :: uses where "use_open \<equiv> marks (\<lambda>ctx. ctx\<lparr>uses_open := True\<rparr>)"
abbreviation use_json :: uses where
  "use_json \<equiv> marks (\<lambda>ctx. ctx\<lparr>uses_json := True, uses_open := True, uses_str := True\<rparr>)"

definition concat_used :: "string \<Rightarrow> uses" where
  "concat_used t = marks (\<lambda>ctx. ctx\<lparr>array_concat_types := push_new t (array_concat_types ctx)\<rparr>)"

definition sub_value_used :: "string \<Rightarrow> uses" where
  "sub_value_used t = marks (\<lambda>ctx. ctx\<lparr>array_sub_value_types := push_new t (array_sub_value_types ctx)\<rparr>)"

definition collect_if :: "uses_rec \<Rightarrow> node \<Rightarrow> uses" where
  "collect_if U st = useq
     [on_node (n_condition st) (u_expr U),
      on_node (n_then_block st) (u_block U),
      useq (map (\<lambda>branch. useq [on_node (n_condition branch) (u_expr U), on_node (n_body branch) (u_block U)])
        (n_elx_branches st)),
      if_node (n_else_block st) (u_block U)]"

definition collect_assign :: "uses_rec \<Rightarrow> node \<Rightarrow> uses" where
  "collect_assign U st = useq
     [type_used U (dtyp st),
      on_node (n_target st) (u_expr U),
      if_node (n_value st) (u_expr U),
      on_node (n_target st) (\<lambda>target. useq
        [if_node (n_value st) (\<lambda>value.
           case ctyp target of
             None \<Rightarrow> Inr
           | Some t \<Rightarrow> whenever (n_op (attrs st) = Some ''+='' \<and> is_array_type t
                 \<and> opt_holds is_array_type (ctyp value)) [concat_used t]),
         whenever (n_op (attrs st) = Some ''+='' \<and> ctyp target = Some ''STR'') [use_str_concat],
         case ctyp target of
           None \<Rightarrow> Inr
         | Some t \<Rightarrow> whenever (n_op (attrs st) = Some ''-='' \<and> is_array_type t)
             [sub_value_used t, whenever (array_elem_type t = ''STR'') [use_str_eq]]])]"

definition collect_stmt :: "uses_rec \<Rightarrow> node \<Rightarrow> uses" where
  "collect_stmt U st = useq
     [type_used U (ctyp st),
      case n_kind st of
        NK_FN \<Rightarrow> useq
          [type_used U (ctyp st),
           useq (map (\<lambda>param. type_used U (dtyp param)) (n_params st)),
           on_node (n_body st) (u_block U)]
      | NK_VAR \<Rightarrow> useq [type_used U (dtyp st), if_node (n_value st) (u_expr U)]
      | NK_DESTRUCTURE \<Rightarrow> useq
          [type_used U (dtyp st), if_node (n_value st) (u_expr U),
           useq (map (\<lambda>binding. type_used U (dtyp binding)) (n_fields st))]
      | NK_ASSIGN \<Rightarrow> collect_assign U st
      | NK_AGG_STEP \<Rightarrow> if_node (n_value st) (\<lambda>value. useq
          [u_expr U value,
           whenever (n_op (attrs st) = Some ''+='' \<and> ctyp value = Some ''STR'') [use_str_concat]])
      | NK_EXPR_STMT \<Rightarrow> on_node (n_expr st) (u_expr U)
      | NK_RET \<Rightarrow> if_node (n_value st) (u_expr U)
      | NK_THROW \<Rightarrow> useq [marks (\<lambda>ctx. ctx\<lparr>uses_throw := True\<rparr>), on_node (n_value st) (u_expr U)]
      | NK_LOOP \<Rightarrow> useq [useq (map (u_expr U) (n_args st)), on_node (n_body st) (u_block U)]
      | NK_IF \<Rightarrow> collect_if U st
      | _ \<Rightarrow> Inr]"

definition collect_block :: "uses_rec \<Rightarrow> node \<Rightarrow> uses" where
  "collect_block U b = useq (map (collect_stmt U) (n_statements b))"

text \<open>The type a \<open>+\<close> joins to: that of the target where the sum mutates it.\<close>

definition join_type :: "node \<Rightarrow> string option" where
  "join_type e =
     (if is_mutating_collection_plus_expr e then
        (case n_left e of
           None \<Rightarrow> ctyp e
         | Some l \<Rightarrow>
             (case (case n_expr l of None \<Rightarrow> None | Some x \<Rightarrow> ctyp x) of
                None \<Rightarrow> ctyp e
              | Some t \<Rightarrow> Some (if is_ref_type t then ref_target_type t else t)))
      else ctyp e)"

definition collect_binary :: "uses_rec \<Rightarrow> node \<Rightarrow> uses" where
  "collect_binary U e =
     (case n_op (attrs e) of
        None \<Rightarrow> \<lambda>_. Inl NullDeref
      | Some op \<Rightarrow> on_node (n_left e) (\<lambda>left. useq
          [whenever (op = ''else'' \<and> ctyp left = Some ''OBJ'')
             [use_open,
              case ctyp e of
                None \<Rightarrow> \<lambda>_. Inl NullDeref
              | Some t \<Rightarrow> whenever (decodable (u_types U) t)
                  [marks (\<lambda>ctx. ctx\<lparr>uses_json := True\<rparr>), json_decoded U (Some t)]],
           whenever (op = ''+'')
             [case join_type e of
                None \<Rightarrow> Inr
              | Some t \<Rightarrow> if_node (n_right e) (\<lambda>right.
                  whenever (is_array_type t \<and> ctyp right = Some t) [concat_used t])],
           whenever (ctyp left = Some ''STR'' \<and> op = ''+'') [use_str_concat],
           whenever (ctyp left = Some ''STR'' \<and> (op = ''=='' \<or> op = ''!='')) [use_str_eq],
           u_expr U left,
           on_node (n_right e) (u_expr U)]))"

definition collect_dot :: "uses_rec \<Rightarrow> node \<Rightarrow> uses" where
  "collect_dot U e = on_node (n_object e) (\<lambda>obj. useq
     [u_expr U obj,
      if_node (n_index e) (u_expr U),
      if_node (n_target e) (u_expr U),
      whenever (n_index e \<noteq> None \<and> ctyp obj = Some ''STR'') [use_str],
      whenever (n_name (attrs e) = Some ''headers'' \<and> ctyp obj = Some ''HttpReq'')
        [marks (\<lambda>ctx. ctx\<lparr>uses_req_headers := True\<rparr>)]])"

definition log_used :: "node \<Rightarrow> uses" where
  "log_used arg = marks (\<lambda>ctx.
     if ctyp arg = Some ''INT'' then ctx\<lparr>log_int := True\<rparr>
     else if ctyp arg = Some ''FLT'' then ctx\<lparr>log_flt := True\<rparr>
     else if ctyp arg = Some ''BOL'' then ctx\<lparr>log_bol := True\<rparr>
     else if ctyp arg = Some ''STR'' then ctx\<lparr>log_str := True\<rparr>
     else if ctyp arg = Some ''OBJ'' then ctx\<lparr>log_obj := True\<rparr>
     else ctx)"

definition string_function :: "string \<Rightarrow> bool" where
  "string_function name \<longleftrightarrow>
     name \<in> {''trim'', ''lower'', ''upper'', ''urlDecode'', ''replace'', ''starts'', ''ends'', ''isDigit'',
       ''isAlpha'', ''isSpace'', ''has'', ''find'', ''min'', ''max''}"

definition call_named :: "node \<Rightarrow> string \<Rightarrow> uses" where
  "call_named e name = useq
     [whenever (name = ''log'') (map log_used (n_args e)),
      whenever (name = ''assert'')
        [marks (\<lambda>ctx. ctx\<lparr>uses_assert := True\<rparr>),
         whenever (length (n_args e) = 2) [marks (\<lambda>ctx. ctx\<lparr>uses_assert_msg := True, uses_str := True\<rparr>)]],
      whenever (name = ''JSON'') [use_json],
      whenever (name = ''RAND'') [marks (\<lambda>ctx. ctx\<lparr>uses_rand := True\<rparr>)],
      whenever (is_cast_call_name name) [marks (\<lambda>ctx. ctx\<lparr>uses_cast := True, uses_str := True\<rparr>)],
      whenever (string_function name) [use_str],
      whenever ((name = ''has'' \<or> name = ''find'') \<and> length (n_args e) = 2
          \<and> opt_holds (\<lambda>t. is_array_type t \<and> array_elem_type t = ''STR'') (ctyp (hd (n_args e))))
        [use_str_eq]]"

definition collect_call :: "uses_rec \<Rightarrow> node \<Rightarrow> uses" where
  "collect_call U e = on_node (n_callee e) (\<lambda>callee. useq
     [if n_kind callee \<noteq> NK_NAME then u_expr U callee
      else (case n_name (attrs callee) of None \<Rightarrow> \<lambda>_. Inl NullDeref | Some name \<Rightarrow> call_named e name),
      useq (map (u_expr U) (n_args e))])"

text \<open>The calls of the native modules; a handler among the arguments of a host is not walked.\<close>

definition handler_index :: "string \<Rightarrow> nat \<Rightarrow> nat option" where
  "handler_index name n =
     (if name = ''host'' then (if n = 2 then Some 1 else if n = 3 then Some 2 else None)
      else if name = ''hostTLS'' then (if n = 4 then Some 3 else if n = 5 then Some 4 else None)
      else if name = ''ws'' then (if n = 2 then Some 1 else None)
      else if name = ''wsTLS'' then (if n = 4 then Some 3 else None)
      else None)"

definition collect_req :: "uses_rec \<Rightarrow> node \<Rightarrow> string \<Rightarrow> uses" where
  "collect_req U e name = useq
     [marks (\<lambda>ctx. ctx\<lparr>uses_req := True, uses_str := True, uses_map := True\<rparr>),
      type_used U (Some ''HttpReq''),
      type_used U (Some ''HttpRes''),
      whenever (name = ''host'' \<and> length (n_args e) = 3 \<or> name = ''hostTLS'' \<and> length (n_args e) = 5)
        [marks (\<lambda>ctx. ctx\<lparr>host_ctx_calls := host_ctx_calls ctx @ [e]\<rparr>)],
      useq (map (\<lambda>i. whenever (handler_index name (length (n_args e)) \<noteq> Some i) [u_expr U (n_args e ! i)])
        [0..<length (n_args e)])]"

definition collect_module_call :: "uses_rec \<Rightarrow> node \<Rightarrow> string \<Rightarrow> string \<Rightarrow> uses option" where
  "collect_module_call U e obj name =
     (let args = useq (map (u_expr U) (n_args e)) in
      if obj \<in> {''OS'', ''FS'', ''PATH'', ''IO'', ''PROC''} then Some (useq
        [marks (\<lambda>ctx. ctx\<lparr>uses_sys := True, uses_str := True, uses_str_concat := True\<rparr>),
         type_used U (Some ''ARR[STR]''), type_used U (Some ''ARR[INT]''),
         type_used U (Some ''FileStat''), type_used U (Some ''ProcResult''), args])
      else if obj = ''BUF'' then Some (useq
        [marks (\<lambda>ctx. ctx\<lparr>uses_buf := True, uses_str := True\<rparr>), type_used U (Some ''Buffer''), args])
      else if obj = ''SQL'' then Some (useq
        [marks (\<lambda>ctx. ctx\<lparr>uses_sql := True, uses_open := True, uses_str := True\<rparr>),
         type_used U (Some ''SQL_DB''), type_used U (Some ''SQL_Exec''), args])
      else if obj = ''JSON'' \<and> name = ''stringify'' then Some (useq [use_json, args])
      else if obj = ''REQ'' then Some (collect_req U e name)
      else None)"

definition collect_method :: "uses_rec \<Rightarrow> node \<Rightarrow> string \<Rightarrow> uses" where
  "collect_method U e name = on_node (n_object e) (\<lambda>obj. useq
     [u_expr U obj,
      useq (map (u_expr U) (n_args e)),
      if_node (n_body e) (u_block U),
      case ctyp e of
        None \<Rightarrow> Inr
      | Some t \<Rightarrow> whenever (name = ''add'' \<and> is_array_type t \<and> length (n_args e) = 1
            \<and> ctyp (hd (n_args e)) = Some t) [concat_used t],
      whenever (ctyp obj = Some ''STR'')
        [use_str, whenever (name = ''upd'' \<or> name = ''filt'' \<or> name = ''agg'') [use_str_concat]],
      whenever (name = ''agg'' \<and> ctyp e = Some ''STR'') [use_str_concat],
      whenever (name = ''group'' \<and> dtyp e = Some ''STR'') [use_str_eq],
      whenever (name = ''sort'' \<and> dtyp e = Some ''STR'') [use_str]])"

definition collect_method_call :: "uses_rec \<Rightarrow> node \<Rightarrow> uses" where
  "collect_method_call U e =
     (case n_name (attrs e) of
        None \<Rightarrow> \<lambda>_. Inl NullDeref
      | Some name \<Rightarrow>
          (case (case n_object e of
                   None \<Rightarrow> None
                 | Some obj \<Rightarrow>
                     if n_kind obj \<noteq> NK_NAME then None
                     else (case n_name (attrs obj) of
                             None \<Rightarrow> Some (\<lambda>_. Inl NullDeref)
                           | Some module \<Rightarrow> collect_module_call U e module name)) of
             Some acts \<Rightarrow> acts
           | None \<Rightarrow>
               if name = ''ARR'' \<or> name = ''STR'' then useq
                 [marks (\<lambda>ctx. ctx\<lparr>uses_cast := True, uses_str := True\<rparr>), type_used U (Some ''ARR[STR]''),
                  on_node (n_object e) (u_expr U), useq (map (u_expr U) (n_args e))]
               else if c_expr (attrs e) \<noteq> None then useq (map (u_expr U) (n_args e))
               else collect_method U e name))"

definition collect_entry :: "uses_rec \<Rightarrow> node \<Rightarrow> uses" where
  "collect_entry U field = useq [if_node (n_target field) (u_expr U), if_node (n_value field) (u_expr U)]"

definition collect_expr :: "uses_rec \<Rightarrow> node \<Rightarrow> uses" where
  "collect_expr U e = useq
     [type_used U (ctyp e),
      case dtyp e of
        None \<Rightarrow> Inr
      | Some t \<Rightarrow> whenever (c_expr (attrs e) \<noteq> None \<and> decodable (u_types U) t)
          [use_json, type_used U (Some t), json_decoded U (Some t)],
      case n_kind e of
        NK_BINARY \<Rightarrow> collect_binary U e
      | NK_UNARY \<Rightarrow> on_node (n_expr e) (u_expr U)
      | NK_ARRAY \<Rightarrow> useq (map (u_expr U) (n_elements e))
      | NK_SHAPE \<Rightarrow> useq (map (u_expr U) (n_elements e))
      | NK_MAP_LITERAL \<Rightarrow> useq (map (collect_entry U) (n_fields e))
      | NK_RECORD_LITERAL \<Rightarrow> useq (map (collect_entry U) (n_fields e))
      | NK_DOT \<Rightarrow> collect_dot U e
      | NK_CALL \<Rightarrow> collect_call U e
      | NK_METHOD_CALL \<Rightarrow> collect_method_call U e
      | NK_DECODE \<Rightarrow> useq
          [use_json, type_used U (dtyp e), json_decoded U (dtyp e), on_node (n_expr e) (u_expr U)]
      | NK_IF_EXPR \<Rightarrow> useq
          [on_node (n_value e) (u_expr U), on_node (n_condition e) (u_expr U),
           if_node (n_right e) (u_expr U)]
      | _ \<Rightarrow> Inr]"

primrec collector :: "type_table \<Rightarrow> nat \<Rightarrow> uses_rec" where
  "collector types 0 =
     \<lparr>u_types = types, u_fuel = 0, u_expr = (\<lambda>_ _. Inl OutOfFuel), u_block = (\<lambda>_ _. Inl OutOfFuel)\<rparr>"
| "collector types (Suc k) =
     (let U = collector types k in
      \<lparr>u_types = types, u_fuel = k, u_expr = collect_expr U, u_block = collect_block U\<rparr>)"

end
