(* ===== verification/EmitHelpers.thy ===== *)
theory EmitHelpers
  imports EmitStmt EmitUses
begin

text \<open>
  The helpers the emitted program needs (\<open>src/caster/emit/program.c\<close> and \<open>runtime.c\<close>): what types
  and bodies use is collected; for it come the headers, the declarations of types, and the
  functions that make, copy, join, search and drop values of each array and map type, box them
  and decode them from JSON.
\<close>

section \<open>Collecting\<close>

definition collect_type_decls :: "uses_rec \<Rightarrow> uses" where
  "collect_type_decls U = useq (map (\<lambda>info. useq
     [whenever (ti_kind info = TYPEINFO_ALIAS)
        [type_used U (target info), if_node (n_value (ti_node info)) (u_expr U)],
      whenever (ti_kind info = TYPEINFO_STRUCT)
        [whenever (open_runtime info) [type_used U (Some (ti_name info))],
         useq (map (\<lambda>field. useq [type_used U (dtyp field), if_node (n_value field) (u_expr U)])
           (n_fields (ti_node info)))]]) (u_types U))"

definition collect_program :: "uses_rec \<Rightarrow> node \<Rightarrow> uses" where
  "collect_program U prog = useq
     [collect_type_decls U,
      useq (map (\<lambda>global. useq [type_used U (dtyp global), if_node (n_value global) (u_expr U)]) (n_globals prog)),
      u_block U prog,
      useq (map (\<lambda>fn. useq
        [type_used U (ctyp fn), useq (map (\<lambda>param. type_used U (dtyp param)) (n_params fn)),
         on_node (n_body fn) (u_block U)]) (n_functions prog))]"

definition nested_functions :: "node \<Rightarrow> node list" where
  "nested_functions prog =
     collect_nested_functions prog @
     concat (map (\<lambda>fn. case n_body fn of None \<Rightarrow> [] | Some b \<Rightarrow> collect_nested_functions b) (n_functions prog))"

section \<open>Headers\<close>

definition include_line :: "bool \<Rightarrow> string \<Rightarrow> string" where
  "include_line b name = (if b then strf ''#include <%s>\<newline>'' [name] else [])"

definition quoted_include :: "bool \<Rightarrow> string \<Rightarrow> string" where
  "quoted_include b name = (if b then strf ''#include `%s`\<newline>'' [name] else [])"

definition headers_text :: "emit_ctx \<Rightarrow> string" where
  "headers_text c =
     include_line True ''stdbool.h'' @ include_line True ''stdint.h'' @ include_line True ''stdio.h'' @
     include_line (uses_str c) ''ctype.h'' @
     include_line (array_types c \<noteq> [] \<or> uses_throw c \<or> uses_heap c \<or> uses_str c \<or> uses_str_concat c \<or> uses_map c
       \<or> uses_open c \<or> uses_json c \<or> uses_sys c \<or> uses_cast c \<or> uses_buf c \<or> uses_sql c \<or> uses_rand c) ''stdlib.h'' @
     include_line (uses_open c \<or> uses_req c \<or> uses_json c \<or> uses_sys c \<or> uses_buf c \<or> uses_sql c) ''string.h'' @
     include_line (uses_req c) ''signal.h'' @
     quoted_include (uses_map c \<or> uses_open c \<or> uses_json c) ''vendor/hashmap.c/hashmap.h'' @
     quoted_include (uses_json c) ''vendor/cjson/cJSON.h''"

section \<open>Types\<close>

definition emit_fn_type_decls :: "type_table \<Rightarrow> emit_ctx \<Rightarrow> string result" where
  "emit_fn_type_decls types c =
     (if fn_types c = [] then Inr []
      else rcat ([Inr ''/* function pointer types */\<newline>'']
        @ map (\<lambda>t. rbind (rptr (split_fn_type t)) (\<lambda>(i, r).
            rmf ''typedef %s (*%s)(%s);\<newline>'' [ctype types r, ctype types t, ctype types i])) (fn_types c)
        @ [Inr ''\<newline>'']))"

definition emit_array_decl :: "type_table \<Rightarrow> string \<Rightarrow> string result" where
  "emit_array_decl types t =
     rmf (''typedef struct {\<newline>'' @ ''    %s* data;\<newline>'' @ ''    int64_t len;\<newline>'' @ ''    int64_t cap;\<newline>'' @ ''} %s;\<newline>\<newline>'')
       [ctype types (array_elem_type t), ctype types t]"

text \<open>\<open>qsort\<close> by depth: an array type comes after its element type. It is not stable.\<close>

definition sorted_arrays :: "emit_ctx \<Rightarrow> string list" where
  "sorted_arrays c = sort_key depth_type (array_types c)"

definition emit_map_type_decls :: "type_table \<Rightarrow> emit_ctx \<Rightarrow> string result" where
  "emit_map_type_decls types c =
     (if map_types c = [] then Inr []
      else rcat (Inr ''/* dynamic map types */\<newline>'' #
        map (\<lambda>t. if map_key_type t \<noteq> Some ''STR'' then Inr []
          else rmf (''typedef struct {\<newline>'' @ ''    struct hashmap* raw;\<newline>'' @ ''} %s;\<newline>\<newline>'') [ctype types t]) (map_types c)))"

section \<open>Array helpers\<close>

definition emit_array_helper :: "type_table \<Rightarrow> string \<Rightarrow> string result" where
  "emit_array_helper types t =
     (let et = array_elem_type t; copy = emit_heap_field_copy types et; ct = ctype types t; ect = ctype types et in
      rbind (target_drop_fn types et) (\<lambda>element_drop_fn.
      rmf (''static FLX_UNUSED %s %s(const %s* values, int64_t len) {\<newline>'' @
        ''    %s arr;\<newline>'' @
        ''    arr.len = len;\<newline>'' @
        ''    arr.cap = len;\<newline>'' @
        ''    arr.data = NULL;\<newline>'' @
        ''    if (len > 0) {\<newline>'' @
        ''        arr.data = malloc(sizeof(%s) * (size_t)len);\<newline>'' @
        ''        if (!arr.data) { fprintf(stderr, `caster: allocation failed~n`); exit(1); }\<newline>'' @
        ''        for (int64_t i = 0; i < len; i++) arr.data[i] = %s;\<newline>'' @
        ''    }\<newline>'' @
        ''    return arr;\<newline>'' @
        ''}\<newline>\<newline>'' @
        ''static FLX_UNUSED void %s(%s value) {\<newline>'' @
        ''%s'' @
        ''    free(value.data);\<newline>'' @
        ''}\<newline>\<newline>'' @
        ''static FLX_UNUSED %s %s(%s src, %s value) {\<newline>'' @
        ''    %s arr;\<newline>'' @
        ''    arr.len = src.len + 1;\<newline>'' @
        ''    arr.cap = arr.len;\<newline>'' @
        ''    arr.data = malloc(sizeof(%s) * (size_t)arr.len);\<newline>'' @
        ''    if (!arr.data) { fprintf(stderr, `caster: allocation failed~n`); exit(1); }\<newline>'' @
        ''    for (int64_t i = 0; i < src.len; i++) arr.data[i] = %s;\<newline>'' @
        ''    arr.data[src.len] = %s;\<newline>'' @
        ''    return arr;\<newline>'' @
        ''}\<newline>\<newline>'')
        [ct, arr_make t, ect, ct, ect, copy ''values[i]'', arr_drop t, ct,
         Inr (case element_drop_fn of
            Some f \<Rightarrow> strf ''    for (int64_t i = 0; i < value.len; i++) %s(value.data[i]);\<newline>'' [f] | None \<Rightarrow> []),
         ct, arr_add t, ct, ect, ct, ect, copy ''src.data[i]'', copy ''value'']))"

definition emit_array_concat_helper :: "type_table \<Rightarrow> string \<Rightarrow> string result" where
  "emit_array_concat_helper types t =
     (let et = array_elem_type t; copy = emit_heap_field_copy types et; ct = ctype types t in
      rmf (''static FLX_UNUSED %s %s(%s left, %s right) {\<newline>'' @
        ''    %s arr;\<newline>'' @
        ''    arr.len = left.len + right.len;\<newline>'' @
        ''    arr.cap = arr.len;\<newline>'' @
        ''    arr.data = arr.len > 0 ? malloc(sizeof(%s) * (size_t)arr.len) : NULL;\<newline>'' @
        ''    if (arr.len > 0 && !arr.data) { fprintf(stderr, `caster: allocation failed~n`); exit(1); }\<newline>'' @
        ''    for (int64_t i = 0; i < left.len; i++) arr.data[i] = %s;\<newline>'' @
        ''    for (int64_t i = 0; i < right.len; i++) arr.data[left.len + i] = %s;\<newline>'' @
        ''    return arr;\<newline>'' @
        ''}\<newline>\<newline>'')
        [ct, arr_concat t, ct, ct, ct, ctype types et, copy ''left.data[i]'', copy ''right.data[i]''])"

definition emit_array_sub_helper :: "type_table \<Rightarrow> string \<Rightarrow> string result" where
  "emit_array_sub_helper types t =
     (let et = array_elem_type t; copy = emit_heap_field_copy types et; ct = ctype types t; ect = ctype types et in
      if et \<notin> {''INT'', ''FLT'', ''BOL'', ''STR''} then
        Inr (strf ''/* array value removal equality is not implemented for ARR[%s] */\<newline>\<newline>'' [et])
      else
        rmf (''static FLX_UNUSED %s %s(%s src, %s value) {\<newline>'' @
          ''    %s arr;\<newline>'' @
          ''    arr.len = src.len;\<newline>'' @
          ''    arr.cap = src.len;\<newline>'' @
          ''    arr.data = src.len > 0 ? malloc(sizeof(%s) * (size_t)src.len) : NULL;\<newline>'' @
          ''    if (src.len > 0 && !arr.data) { fprintf(stderr, `caster: allocation failed~n`); exit(1); }\<newline>'' @
          ''    bool removed = false;\<newline>'' @
          ''    arr.len = 0;\<newline>'' @
          ''    for (int64_t i = 0; i < src.len; i++) {\<newline>'' @
          ''        if (!removed && %s) { removed = true; continue; }\<newline>'' @
          ''        arr.data[arr.len++] = %s;\<newline>'' @
          ''    }\<newline>'' @
          ''    arr.cap = arr.len;\<newline>'' @
          ''    return arr;\<newline>'' @
          ''}\<newline>\<newline>'')
          [ct, arr_sub_value t, ct, ect, ct, ect,
           Inr (if et = ''STR'' then ''flx_str_eq(src.data[i], value)'' else ''(src.data[i] == value)''),
           copy ''src.data[i]''])"

definition emit_array_helpers :: "type_table \<Rightarrow> emit_ctx \<Rightarrow> string result" where
  "emit_array_helpers types c =
     rcat (Inr (if array_types c = [] then [] else ''/* array helpers */\<newline>'') #
       map (\<lambda>t. rcat
         [emit_array_helper types t,
          if t \<in> set (array_concat_types c) then emit_array_concat_helper types t else Inr [],
          if t \<in> set (array_sub_value_types c) then emit_array_sub_helper types t else Inr []])
       (sorted_arrays c))"

section \<open>Map helpers\<close>

text \<open>What hashes, compares, makes and drops entries, then the operations on maps.\<close>

definition map_entry_text :: "type_table \<Rightarrow> string \<Rightarrow> string \<Rightarrow> string result" where
  "map_entry_text types t vt =
     (let ect = map_entry_ctype types t; mct = ctype types t; fn = map_fn t in
      rmf (''typedef struct {\<newline>'' @
        ''    FLX_STR key;\<newline>'' @
        ''    %s value;\<newline>'' @
        ''} %s;\<newline>\<newline>'' @
        ''static FLX_UNUSED uint64_t %s(const void* item, uint64_t seed0, uint64_t seed1) {\<newline>'' @
        ''    const %s* entry = item;\<newline>'' @
        ''    return hashmap_sip(entry->key.data, (size_t)entry->key.len, seed0, seed1);\<newline>'' @
        ''}\<newline>\<newline>'' @
        ''static FLX_UNUSED int %s(const void* a, const void* b, void* udata) {\<newline>'' @
        ''    (void)udata;\<newline>'' @
        ''    const %s* left = a;\<newline>'' @
        ''    const %s* right = b;\<newline>'' @
        ''    if (left->key.len != right->key.len) return left->key.len < right->key.len ? -1 : 1;\<newline>'' @
        ''    for (int64_t i = 0; i < left->key.len; i++) {\<newline>'' @
        ''        if (left->key.data[i] != right->key.data[i]) return (unsigned char)left->key.data[i]'' @
        '' < (unsigned char)right->key.data[i] ? -1 : 1;\<newline>'' @
        ''    }\<newline>'' @
        ''    return 0;\<newline>'' @
        ''}\<newline>\<newline>'' @
        ''static FLX_UNUSED %s %s(void) {\<newline>'' @
        ''    %s map;\<newline>'' @
        ''    map.raw = hashmap_new(sizeof(%s), 0, 0, 0, %s, %s, NULL, NULL);\<newline>'' @
        ''    if (!map.raw) { fprintf(stderr, `caster: hashmap allocation failed~n`); exit(1); }\<newline>'' @
        ''    return map;\<newline>'' @
        ''}\<newline>\<newline>'' @
        ''static FLX_UNUSED void %s(%s* entry) {\<newline>'' @
        ''    if (!entry) return;\<newline>'' @
        ''    flx_drop_str(entry->key);\<newline>'' @
        ''%s'' @
        ''}\<newline>\<newline>'' @
        ''static FLX_UNUSED void %s(%s* map, FLX_STR key, %s value) {\<newline>'' @
        ''    %s entry = { flx_str_copy(key), %s };\<newline>'' @
        ''    const %s* replaced = (%s*)hashmap_set(map->raw, &entry);\<newline>'' @
        ''    if (replaced) %s((%s*)replaced);\<newline>'' @
        ''    if (hashmap_oom(map->raw)) { fprintf(stderr, `caster: hashmap allocation failed~n`); exit(1); }\<newline>'' @
        ''}\<newline>\<newline>'')
        [ctype types vt, ect,
         fn ''hash'', ect,
         fn ''compare'', ect, ect,
         mct, fn ''new'',
         mct, ect, fn ''hash'', fn ''compare'',
         fn ''drop_entry'', ect,
         Inr (if vt = ''STR'' then ''    flx_drop_str(entry->value);\<newline>'' else []),
         fn ''set_copy'', mct, ctype types vt,
         ect, Inr (if vt = ''STR'' then ''flx_str_copy(value)'' else ''value''),
         ect, ect,
         fn ''drop_entry'', ect])"

definition map_operations_text :: "type_table \<Rightarrow> string \<Rightarrow> string \<Rightarrow> string result" where
  "map_operations_text types t vt =
     (let ect = map_entry_ctype types t; mct = ctype types t; fn = map_fn t in
      rmf (''static FLX_UNUSED %s %s(const %s* entries, int64_t len) {\<newline>'' @
        ''    %s map = %s();\<newline>'' @
        ''    for (int64_t i = 0; i < len; i++) %s(&map, entries[i].key, entries[i].value);\<newline>'' @
        ''    return map;\<newline>'' @
        ''}\<newline>\<newline>'' @
        ''static FLX_UNUSED %s %s(%s src) {\<newline>'' @
        ''    %s dst = %s();\<newline>'' @
        ''    size_t iter = 0;\<newline>'' @
        ''    void* item = NULL;\<newline>'' @
        ''    while (src.raw && hashmap_iter(src.raw, &iter, &item)) {\<newline>'' @
        ''        %s* entry = item;\<newline>'' @
        ''        %s(&dst, entry->key, entry->value);\<newline>'' @
        ''    }\<newline>'' @
        ''    return dst;\<newline>'' @
        ''}\<newline>\<newline>'' @
        ''static FLX_UNUSED %s %s(%s src, FLX_STR key, %s value) {\<newline>'' @
        ''    %s dst = %s(src);\<newline>'' @
        ''    %s(&dst, key, value);\<newline>'' @
        ''    return dst;\<newline>'' @
        ''}\<newline>\<newline>'' @
        ''static FLX_UNUSED %s %s(%s left, %s right) {\<newline>'' @
        ''    %s dst = %s(left);\<newline>'' @
        ''    size_t iter = 0;\<newline>'' @
        ''    void* item = NULL;\<newline>'' @
        ''    while (right.raw && hashmap_iter(right.raw, &iter, &item)) {\<newline>'' @
        ''        %s* entry = item;\<newline>'' @
        ''        %s(&dst, entry->key, entry->value);\<newline>'' @
        ''    }\<newline>'' @
        ''    return dst;\<newline>'' @
        ''}\<newline>\<newline>'')
        [mct, fn ''make'', ect,
         mct, fn ''new'',
         fn ''set_copy'',
         mct, fn ''clone'', mct,
         mct, fn ''new'',
         ect,
         fn ''set_copy'',
         mct, fn ''add'', mct, ctype types vt,
         mct, fn ''clone'',
         fn ''set_copy'',
         mct, fn ''join'', mct, mct,
         mct, fn ''clone'',
         ect,
         fn ''set_copy''])"

definition map_access_text :: "type_table \<Rightarrow> string \<Rightarrow> string \<Rightarrow> string result" where
  "map_access_text types t vt =
     (let ect = map_entry_ctype types t; mct = ctype types t; fn = map_fn t in
      rmf (''static FLX_UNUSED %s %s(%s src, FLX_STR key) {\<newline>'' @
        ''    %s probe;\<newline>'' @
        ''    probe.key = key;\<newline>'' @
        ''    %s* found = src.raw ? (%s*)hashmap_get(src.raw, &probe) : NULL;\<newline>'' @
        ''    if (!found) { fprintf(stderr, `caster: missing map key~n`); exit(1); }\<newline>'' @
        ''    return found->value;\<newline>'' @
        ''}\<newline>\<newline>'' @
        ''static FLX_UNUSED bool %s(%s src, FLX_STR key) {\<newline>'' @
        ''    %s probe;\<newline>'' @
        ''    probe.key = key;\<newline>'' @
        ''    return src.raw && hashmap_get(src.raw, &probe) != NULL;\<newline>'' @
        ''}\<newline>\<newline>'' @
        ''static FLX_UNUSED %s %s(%s src, FLX_STR key) {\<newline>'' @
        ''    %s dst = %s(src);\<newline>'' @
        ''    %s probe;\<newline>'' @
        ''    probe.key = key;\<newline>'' @
        ''    const %s* removed = (%s*)hashmap_delete(dst.raw, &probe);\<newline>'' @
        ''    if (removed) %s((%s*)removed);\<newline>'' @
        ''    return dst;\<newline>'' @
        ''}\<newline>\<newline>'' @
        ''static FLX_UNUSED void %s(%s value) {\<newline>'' @
        ''    if (value.raw) {\<newline>'' @
        ''        size_t iter = 0;\<newline>'' @
        ''        void* item = NULL;\<newline>'' @
        ''        while (hashmap_iter(value.raw, &iter, &item)) %s((%s*)item);\<newline>'' @
        ''        hashmap_free(value.raw);\<newline>'' @
        ''    }\<newline>'' @
        ''}\<newline>\<newline>'')
        [ctype types vt, fn ''get'', mct,
         ect,
         ect,
         ect,
         fn ''has'', mct,
         ect,
         mct, fn ''sub'', mct,
         mct, fn ''clone'',
         ect,
         ect, ect,
         fn ''drop_entry'', ect,
         fn ''drop'', mct,
         fn ''drop_entry'', ect])"

definition emit_map_runtime :: "type_table \<Rightarrow> string \<Rightarrow> string result" where
  "emit_map_runtime types t =
     (if map_key_type t \<noteq> Some ''STR'' then Inr (strf ''/* unsupported non-STR key map: %s */\<newline>'' [t])
      else rbind (rptr (map_value_type t)) (\<lambda>vt.
        rcat [map_entry_text types t vt, map_operations_text types t vt, map_access_text types t vt]))"

definition emit_map_runtimes :: "type_table \<Rightarrow> emit_ctx \<Rightarrow> string result" where
  "emit_map_runtimes types c =
     (if map_types c = [] then Inr []
      else rcat (Inr ''/* dynamic map runtime */\<newline>'' # map (emit_map_runtime types) (map_types c)))"

section \<open>Boxes and JSON decoders\<close>

definition boxed_types :: "type_table \<Rightarrow> emit_ctx \<Rightarrow> string list" where
  "boxed_types types c =
     filter (\<lambda>t. \<not> is_obj_scalar_type t \<and> t \<noteq> ''NUL'')
       (sorted_arrays c @ map_types c @ map ti_name (structs types))"

text \<open>The types in their order, each once.\<close>

definition firsts :: "string list \<Rightarrow> string list" where
  "firsts ts = rev (fold (\<lambda>t seen. if t \<in> set seen then seen else t # seen) ts [])"

definition emit_open_box_helper :: "type_table \<Rightarrow> string \<Rightarrow> string result" where
  "emit_open_box_helper types t =
     (let ct = ctype types t; suffix = lower_mangle t in
      rmf (''static FLX_UNUSED FLX_OBJ flx_obj_from_%s(%s value) {\<newline>'' @
        ''    return flx_obj_box_copy(&value, sizeof(%s));\<newline>'' @
        ''}\<newline>\<newline>'' @
        ''static FLX_UNUSED %s flx_obj_as_%s(FLX_OBJ value) {\<newline>'' @
        ''    return *(%s*)flx_obj_as_box(value);\<newline>'' @
        ''}\<newline>\<newline>'')
        [suffix, ct, ct, ct, suffix, ct])"

definition emit_open_box_helpers :: "type_table \<Rightarrow> emit_ctx \<Rightarrow> string result" where
  "emit_open_box_helpers types c =
     (if \<not> uses_open c then Inr []
      else rcat ([Inr ''/* open object typed boxes */\<newline>'']
        @ map (emit_open_box_helper types) (firsts (boxed_types types c)) @ [Inr ''\<newline>'']))"

definition decode_signature :: "type_table \<Rightarrow> string \<Rightarrow> string result" where
  "decode_signature types t =
     rmf ''static %s %s(%s src)''
       [ctype types t, json_decode_fn t, Inr (if is_array_type t then ''FLX_OBJARR'' else ''FLX_OBJMAP'')]"

text \<open>The same function as \<open>emit_obj_as_checked_type\<close>, written again in \<open>runtime.c\<close>.\<close>

definition emit_json_obj_as_type :: "type_table \<Rightarrow> string \<Rightarrow> string \<Rightarrow> string result" where
  "emit_json_obj_as_type types t obj =
     (if is_struct_type types t \<or> is_map_type t then
        rmf ''%s(flx_obj_as_objmap(%s))'' [json_decode_fn t, Inr obj]
      else if is_array_type t then rmf ''%s(flx_obj_as_objarr(%s))'' [json_decode_fn t, Inr obj]
      else if is_ref_type t then rmf ''(%s)flx_obj_as_ref_nil(%s)'' [ctype types t, Inr obj]
      else if t = ''STR'' then Inr (strf ''flx_str_copy(flx_obj_as_str(%s))'' [obj])
      else rmf ''%s(%s)'' [obj_as_fn t, Inr obj])"

lemma json_obj_as_type: "emit_json_obj_as_type = emit_obj_as_checked_type"
  by (rule ext)+ (simp add: emit_json_obj_as_type_def emit_obj_as_checked_type_def)

definition decode_field :: "type_table \<Rightarrow> string \<Rightarrow> node \<Rightarrow> string result" where
  "decode_field types t field =
     rbind (field_name field) (\<lambda>name. rbind (rptr (dtyp field)) (\<lambda>ft.
     let key = emit_key_literal name in
     rbind (emit_json_obj_as_type types ft (strf ''flx_objmap_get(src, %s)'' [key])) (\<lambda>value.
       if is_open_struct_type types t then
         rmf ''    if (flx_objmap_has(src, %s)) out = %s;\<newline>'' [Inr key, emit_obj_set_typed ''out'' key ft value]
       else Inr (strf ''    if (flx_objmap_has(src, %s)) out.%s = %s;\<newline>'' [key, name, value]))))"

definition decode_struct :: "type_table \<Rightarrow> string \<Rightarrow> string result" where
  "decode_struct types t =
     rcat [rmf ''%s {\<newline>'' [decode_signature types t],
       rmf ''    %s out = %s();\<newline>'' [ctype types t, Inr (emit_named_value_fn_name t)],
       (case type_find types t of
          None \<Rightarrow> Inr [] | Some info \<Rightarrow> rcat (map (decode_field types t) (n_fields (ti_node info)))),
       Inr ''    return out;\<newline>}\<newline>\<newline>'']"

definition decode_map :: "type_table \<Rightarrow> string \<Rightarrow> string result" where
  "decode_map types t =
     (if map_key_type t \<noteq> Some ''STR'' then
        Inr (strf ''/* JSON decode unsupported non-STR key map: %s */\<newline>'' [t])
      else rbind (rptr (map_value_type t)) (\<lambda>value_type.
        rcat [rmf ''%s {\<newline>'' [decode_signature types t],
          rmf ''    %s out = %s(NULL, 0);\<newline>'' [ctype types t, map_fn t ''make''],
          Inr ''    size_t iter = 0;\<newline>    void* item = NULL;\<newline>'',
          Inr (strf ''    while (src.raw && hashmap_iter(src.raw, &iter, &item)) {\<newline>'' []),
          Inr ''        FLX_OBJ_ENTRY* entry = item;\<newline>'',
          rmf ''        out = %s(out, entry->key, %s);\<newline>''
            [map_fn t ''add'', emit_json_obj_as_type types value_type ''entry->value''],
          Inr ''    }\<newline>    return out;\<newline>}\<newline>\<newline>'']))"

definition decode_array :: "type_table \<Rightarrow> string \<Rightarrow> string result" where
  "decode_array types t =
     rcat [rmf ''%s {\<newline>'' [decode_signature types t],
       rmf ''    %s out = %s(NULL, 0);\<newline>'' [ctype types t, arr_make t],
       Inr ''    for (int64_t i = 0; i < src.len; i++) {\<newline>'',
       rmf ''        out = %s(out, %s);\<newline>''
         [arr_add t, emit_json_obj_as_type types (array_elem_type t) ''src.data[i]''],
       Inr ''    }\<newline>    return out;\<newline>}\<newline>\<newline>'']"

definition emit_json_decode_helpers :: "type_table \<Rightarrow> emit_ctx \<Rightarrow> string result" where
  "emit_json_decode_helpers types c =
     (let ts = json_decode_types c in
      if ts = [] then Inr []
      else rcat ([Inr ''/* JSON decode helpers */\<newline>'']
        @ map (\<lambda>t. if decodable types t then rmf ''%s;\<newline>'' [decode_signature types t] else Inr []) ts
        @ [Inr ''\<newline>'']
        @ map (\<lambda>t. if is_struct_type types t then decode_struct types t
                   else if is_map_type t then decode_map types t
                   else if is_array_type t then decode_array types t
                   else Inr []) ts))"

end
