(* ===== verification/EmitProgram.thy ===== *)
theory EmitProgram
  imports EmitHelpers
begin

text \<open>
  The emitted program (\<open>emit_program\<close> of \<open>src/caster/emit/program.c\<close>): named values and globals, the
  functions, \<open>main\<close>, and the order of all the parts. The texts that do not depend on the program
  are named parts: \<open>fixed\<close> gives their text, and the model says which of them are written, where.
\<close>

section \<open>Named values and globals\<close>

definition emit_named_value :: "em_rec \<Rightarrow> type_info \<Rightarrow> string em" where
  "emit_named_value R info =
     (if ti_kind info = TYPEINFO_ALIAS then
        (case n_value (ti_node info) of
           Some v \<Rightarrow> e_expr R v
         | None \<Rightarrow>
             if opt_holds is_array_type (target info) then
               emf ''%s(NULL, 0)'' [ebind (eptr (target info)) (\<lambda>t. eres (arr_make t))]
             else if opt_holds is_map_type (target info) then
               emf ''%s(NULL, 0)'' [ebind (eptr (target info)) (\<lambda>t. eres (map_fn t ''make''))]
             else eret ''/*missing_named_value*/'')
      else if open_runtime info then emit_open_named_value R info
      else ebind (ecommas (map (\<lambda>field. ebind (node_name field) (\<lambda>name.
             emf ''.%s = %s'' [lit name, emit_field_default R field])) (n_fields (ti_node info)))) (\<lambda>fields.
        emf ''(%s){ %s }'' [ctype_at R (ti_name info), lit fields]))"

definition named_values :: "type_table \<Rightarrow> type_info list" where
  "named_values types = filter (\<lambda>info. type_has_complete_named_value types (Some info)) types"

definition named_value_ctype :: "em_rec \<Rightarrow> type_info \<Rightarrow> string em" where
  "named_value_ctype R info =
     (if ti_kind info = TYPEINFO_STRUCT then ctype_at R (ti_name info)
      else ebind (eptr (target info)) (ctype_at R))"

definition emit_named_value_helpers :: "em_rec \<Rightarrow> string em" where
  "emit_named_value_helpers R =
     (if e_types R = [] then eret []
      else ecat (lit ''/* named MAP values */\<newline>'' # map (\<lambda>info.
        emf (''static FLX_UNUSED %s %s(void) {\<newline>'' @ ''    return %s;\<newline>'' @ ''}\<newline>\<newline>'')
          [named_value_ctype R info, lit (emit_named_value_fn_name (ti_name info)), emit_named_value R info])
        (named_values (e_types R))))"

definition emit_named_value_storage :: "em_rec \<Rightarrow> string em" where
  "emit_named_value_storage R =
     (if e_types R = [] then eret []
      else ecat ([lit ''/* named MAP value storage for REF */\<newline>'']
        @ map (\<lambda>info. emf ''static %s %s;\<newline>''
            [named_value_ctype R info, lit (emit_named_value_storage_name (ti_name info))]) (named_values (e_types R))
        @ [lit ''\<newline>'']))"

definition emit_named_value_storage_init :: "type_table \<Rightarrow> string" where
  "emit_named_value_storage_init types =
     (if types = [] then []
      else ''static void flx_init_named_values(void) {\<newline>''
        @ concat (map (\<lambda>info. strf ''    %s = %s();\<newline>''
            [emit_named_value_storage_name (ti_name info), emit_named_value_fn_name (ti_name info)]) (named_values types))
        @ ''}\<newline>\<newline>'')"

definition global_name :: "node \<Rightarrow> string em" where
  "global_name g = (case c_expr (attrs g) of Some c \<Rightarrow> eret c | None \<Rightarrow> node_name g)"

definition emit_global_declarations :: "em_rec \<Rightarrow> node \<Rightarrow> string em" where
  "emit_global_declarations R prog =
     (if n_globals prog = [] then eret []
      else ecat ([lit ''/* globals */\<newline>'']
        @ map (\<lambda>g. emf ''static %s %s;\<newline>'' [dtype_at R g, global_name g]) (n_globals prog)
        @ [lit ''\<newline>'']))"

definition emit_global_init :: "em_rec \<Rightarrow> node \<Rightarrow> string em" where
  "emit_global_init R prog =
     (if n_globals prog = [] then eret []
      else ecat ([lit ''static void flx_init_globals(void) {\<newline>'']
        @ map (\<lambda>g. case n_value g of
            None \<Rightarrow> lit [] | Some v \<Rightarrow> emf ''    %s = %s;\<newline>'' [global_name g, e_expr R v]) (n_globals prog)
        @ [lit ''}\<newline>\<newline>'']))"

section \<open>Functions\<close>

definition emit_host_ctx_adapter :: "em_rec \<Rightarrow> node \<Rightarrow> string em" where
  "emit_host_ctx_adapter R call =
     (let tls = (n_name (attrs call) = Some ''hostTLS'') in
      ebind (item (n_args call) (if tls then 3 else 1)) (\<lambda>ctx_arg.
      ebind (item (n_args call) (if tls then 4 else 2)) (\<lambda>handler.
        emf (''static FLX_HttpRes %s(void *ctx, FLX_HttpReq %sreq) {\<newline>'' @
          ''    return %s((%s)ctx, req);\<newline>'' @
          ''}\<newline>\<newline>'')
          [lit (emit_host_adapter_name call),
           lit (if dtyp handler = Some ''REF[HttpReq]'' then ''*'' else []),
           node_name handler, ebind (eptr (ctyp ctx_arg)) (ctype_at R)])))"

definition emit_host_ctx_adapters :: "em_rec \<Rightarrow> emit_ctx \<Rightarrow> string em" where
  "emit_host_ctx_adapters R c =
     (if host_ctx_calls c = [] then eret []
      else ecat (lit ''/* host context adapters */\<newline>'' # map (emit_host_ctx_adapter R) (host_ctx_calls c)))"

text \<open>A script may have a function \<open>main\<close> too: its declaration is written then, and only then.\<close>

definition emit_declarations :: "em_rec \<Rightarrow> bool \<Rightarrow> node \<Rightarrow> string em" where
  "emit_declarations R sys prog =
     (let script = (n_statements prog \<noteq> []); nested = nested_functions prog;
          signature = (\<lambda>fn. emf ''%s;\<newline>'' [emit_function_signature R sys fn]) in
      if length (n_functions prog) > 1 \<or> script \<or> nested \<noteq> [] then
        ecat ([lit ''/* function declarations */\<newline>'']
          @ map signature (filter (\<lambda>fn. script \<or> n_name (attrs fn) \<noteq> Some ''main'') (n_functions prog))
          @ map signature nested
          @ [lit ''\<newline>''])
      else eret [])"

text \<open>The other functions first, then the last one that is \<open>main\<close>.\<close>

definition emit_functions :: "nat \<Rightarrow> em_rec \<Rightarrow> bool \<Rightarrow> node \<Rightarrow> string em" where
  "emit_functions k R sys prog =
     (let mains = filter is_user_main (n_functions prog);
          others = filter (\<lambda>fn. \<not> is_user_main fn) (n_functions prog) in
      ecat (map (emit_function_definition_with_nested k R sys prog)
        (others @ (if mains = [] then [] else [last mains]))))"

definition main_head :: "bool \<Rightarrow> string" where
  "main_head sys = (if sys then ''int main(int argc, char **argv) {\<newline>'' else ''int main(void) {\<newline>'')"

definition script_fn :: node where
  "script_fn = upd_attrs (\<lambda>a. a\<lparr>n_name := Some ''main''\<rparr>) (node_new NK_PROGRAM \<lparr>tk_kind = TK_EOF, tk_text = [], tk_line = 0, tk_col = 0\<rparr>)"

definition emit_main :: "nat \<Rightarrow> em_rec \<Rightarrow> bool \<Rightarrow> node \<Rightarrow> string em" where
  "emit_main k R sys prog =
     (if n_statements prog \<noteq> [] then
        ebind (emit_nested_function_definitions_in_block k R sys prog prog) (\<lambda>nested.
        ebind (emods owned_locals_reset) (\<lambda>_. ecat
          [lit nested, lit (main_head sys), lit (init_calls sys prog), body_text k R prog script_fn,
           lit ''    return 0;\<newline>}\<newline>\<newline>'']))
      else if list_ex (\<lambda>fn. n_name (attrs fn) = Some ''main'') (n_functions prog) then eret []
      else eret (main_head sys @ init_calls sys prog @ ''    return 0;\<newline>}\<newline>\<newline>''))"

section \<open>The program\<close>

definition part :: "(string \<Rightarrow> string) \<Rightarrow> bool \<Rightarrow> string \<Rightarrow> string em" where
  "part fixed b name = eret (if b then fixed name else [])"

definition runtime_parts :: "(string \<Rightarrow> string) \<Rightarrow> emit_ctx \<Rightarrow> string em" where
  "runtime_parts fixed c = ecat
     [part fixed (uses_str c) ''strings'',
      part fixed (uses_str c \<and> uses_str_eq c) ''string equality'',
      part fixed (uses_str c \<and> uses_str_concat c) ''string concatenation'',
      part fixed (uses_cast c) ''casts'',
      part fixed (uses_rand c) ''random'',
      part fixed (log_int c) ''log INT'', part fixed (log_flt c) ''log FLT'',
      part fixed (log_bol c) ''log BOL'', part fixed (log_str c) ''log STR'',
      part fixed (uses_assert c) ''assert'', part fixed (uses_assert_msg c) ''assert with message'',
      part fixed (uses_open c) ''objects'', part fixed (uses_json c) ''JSON'',
      part fixed (log_obj c) ''log OBJ'']"

definition req_parts :: "(string \<Rightarrow> string) \<Rightarrow> emit_ctx \<Rightarrow> string em" where
  "req_parts fixed c = ecat
     [lit (if uses_req c then strf ''#define FLX_HOST_READ_HEADERS %s\<newline>'' [if uses_req_headers c then ''1'' else ''0''] else []),
      lit (quoted_include (uses_req c) ''src/caster/adapters/req.c'' @ (if uses_req c then ''\<newline>'' else [])),
      part fixed (uses_req c) ''holding tasks'']"

definition adapter :: "bool \<Rightarrow> string \<Rightarrow> string em" where
  "adapter b name = eret (quoted_include b (strf ''src/caster/adapters/%s.c'' [name]) @ (if b then ''\<newline>'' else []))"

definition type_parts :: "(string \<Rightarrow> string) \<Rightarrow> em_rec \<Rightarrow> emit_ctx \<Rightarrow> string em" where
  "type_parts fixed R c =
     (let types = e_types R in ecat
       [lit (emit_struct_forwards types),
        part fixed (uses_req c) ''tasks'',
        eres (emit_fn_type_decls types c),
        lit (if array_types c = [] then [] else ''/* array types */\<newline>''),
        eres (rcat (map (emit_array_decl types) (sorted_arrays c))),
        eres (emit_map_type_decls types c),
        eres (emit_struct_defs types),
        adapter (uses_buf c) ''buf'',
        adapter (uses_sql c) ''sql'',
        eres (emit_map_runtimes types c),
        eres (emit_struct_copy_helper_decls types),
        eres (emit_struct_drop_helper_decls types),
        req_parts fixed c,
        eres (emit_open_box_helpers types c),
        eres (emit_array_helpers types c),
        part fixed (uses_cast c \<and> ''ARR[STR]'' \<in> set (array_types c)) ''characters and joining'',
        eres (emit_struct_copy_helpers types),
        eres (emit_struct_drop_helpers types),
        part fixed (uses_req c \<and> ''ARR[TSK[HttpRes]]'' \<in> set (array_types c) \<and> ''ARR[HttpRes]'' \<in> set (array_types c))
          ''holding arrays of tasks''])"

definition program_text :: "(string \<Rightarrow> string) \<Rightarrow> nat \<Rightarrow> em_rec \<Rightarrow> emit_ctx \<Rightarrow> node \<Rightarrow> string em" where
  "program_text fixed k R c prog =
     (let sys = uses_sys c in ecat
       [lit (headers_text c), part fixed True ''unused attribute'', runtime_parts fixed c, type_parts fixed R c,
        emit_named_value_helpers R, adapter sys ''sys'', eres (emit_json_decode_helpers (e_types R) c),
        emit_named_value_storage R, lit (emit_named_value_storage_init (e_types R)),
        emit_global_declarations R prog, emit_global_init R prog,
        emit_declarations R sys prog, emit_host_ctx_adapters R c,
        emit_functions k R sys prog, emit_main k R sys prog])"

definition em_start :: em_state where
  "em_start = \<lparr>em_owned = [], em_return_tmp = 0, em_destructure_tmp = 0\<rparr>"

definition emit_program :: "(string \<Rightarrow> string) \<Rightarrow> (string \<Rightarrow> string) \<Rightarrow> nat \<Rightarrow> type_table \<Rightarrow> node \<Rightarrow> string result" where
  "emit_program fixed flt k types prog =
     rbind (collect_program (collector types k) prog no_uses) (\<lambda>c.
     rbind (program_text fixed k (emitter types flt k) c prog em_start) (\<lambda>(text, st). Inr text))"

end
