(* ===== verification/EmitSteps.thy ===== *)
theory EmitSteps
  imports EmitProgram
begin

text \<open>
  What every step of the emitter does to its state, and what more fuel does to a step, asked
  together as in the analyzer: \<open>alike q m m'\<close> says that \<open>m\<close> runs out of fuel or has the outcome of
  \<open>m'\<close>, and that it takes a state to one that \<open>q\<close> relates to it. \<open>emission\<close> is the interface of
  the relations \<open>q\<close> that hold of texts and expressions, which only number their temporaries;
  \<open>emission_calls\<close> adds two sets of recursive calls that are alike, and every function of the
  emitter is shown to be alike on them. \<open>emission_stmts\<close> and \<open>emission_program\<close> extend it by what
  the statements of a function store, and by the fresh start of a function.
\<close>

named_theorems alike

definition alike :: "(em_state \<Rightarrow> em_state \<Rightarrow> bool) \<Rightarrow> 'a em \<Rightarrow> 'a em \<Rightarrow> bool" where
  "alike q m m' \<longleftrightarrow>
     (\<forall>st. m st = Inl OutOfFuel \<or> m st = m' st \<and> (\<forall>x st'. m st = Inr (x, st') \<longrightarrow> q st st'))"

lemma alikeI:
  "(\<And>st. m st \<noteq> Inl OutOfFuel \<Longrightarrow> m st = m' st) \<Longrightarrow> (\<And>st x st'. m st = Inr (x, st') \<Longrightarrow> q st st') \<Longrightarrow> alike q m m'"
  by (auto simp: alike_def)

lemma alike_outcome: "alike q m m' \<Longrightarrow> m st \<noteq> Inl OutOfFuel \<Longrightarrow> m' st = m st"
  unfolding alike_def by (drule spec [of _ st]) simp

lemma alike_step: "alike q m m' \<Longrightarrow> m st = Inr (x, st') \<Longrightarrow> q st st'"
  unfolding alike_def by (drule spec [of _ st]) simp

text \<open>Choices: both sides take the same one.\<close>

lemma alike_if [alike]:
  "(b \<Longrightarrow> alike q m m') \<Longrightarrow> (\<not> b \<Longrightarrow> alike q n n') \<Longrightarrow> alike q (if b then m else n) (if b then m' else n')"
  by simp

lemma alike_option [alike]:
  "alike q m m' \<Longrightarrow> (\<And>y. x = Some y \<Longrightarrow> alike q (f y) (f' y)) \<Longrightarrow>
     alike q (case x of None \<Rightarrow> m | Some y \<Rightarrow> f y) (case x of None \<Rightarrow> m' | Some y \<Rightarrow> f' y)"
  by (cases x) auto

lemma alike_list [alike]:
  "alike q m m' \<Longrightarrow> (\<And>y ys. alike q (f y ys) (f' y ys)) \<Longrightarrow>
     alike q (case xs of [] \<Rightarrow> m | y # ys \<Rightarrow> f y ys) (case xs of [] \<Rightarrow> m' | y # ys \<Rightarrow> f' y ys)"
  by (cases xs) auto

lemma alike_nat [alike]:
  "alike q m m' \<Longrightarrow> (\<And>k. n = Suc k \<Longrightarrow> alike q (f k) (f' k)) \<Longrightarrow>
     alike q (case n of 0 \<Rightarrow> m | Suc k \<Rightarrow> f k) (case n of 0 \<Rightarrow> m' | Suc k \<Rightarrow> f' k)"
  by (cases n) auto

text \<open>A text that is there or not, of the same length on both sides.\<close>

abbreviation alike_opt :: "(em_state \<Rightarrow> em_state \<Rightarrow> bool) \<Rightarrow> 'a em option \<Rightarrow> 'a em option \<Rightarrow> bool" where
  "alike_opt q \<equiv> rel_option (alike q)"

abbreviation alikes :: "(em_state \<Rightarrow> em_state \<Rightarrow> bool) \<Rightarrow> 'a em list \<Rightarrow> 'a em list \<Rightarrow> bool" where
  "alikes q \<equiv> list_all2 (alike q)"

lemma alike_maybe [alike]:
  "alike_opt q x x' \<Longrightarrow> alike q m m' \<Longrightarrow>
     alike q (case x of None \<Rightarrow> m | Some y \<Rightarrow> y) (case x' of None \<Rightarrow> m' | Some y \<Rightarrow> y)"
  by (cases x; cases x') auto

lemma alike_opt_maybe [alike]:
  "alike_opt q x x' \<Longrightarrow> alike_opt q m m' \<Longrightarrow>
     alike_opt q (case x of None \<Rightarrow> m | Some y \<Rightarrow> Some y) (case x' of None \<Rightarrow> m' | Some y \<Rightarrow> Some y)"
  by (cases x; cases x') auto

lemma alike_opt_intros [alike]:
  "alike_opt q None None"
  "alike q m m' \<Longrightarrow> alike_opt q (Some m) (Some m')"
  by simp_all

lemma alike_opt_if [alike]:
  "alike_opt q m m' \<Longrightarrow> alike_opt q n n' \<Longrightarrow> alike_opt q (if b then m else n) (if b then m' else n')"
  by simp

lemma alike_opt_option [alike]:
  "alike_opt q m m' \<Longrightarrow> (\<And>y. alike_opt q (f y) (f' y)) \<Longrightarrow>
     alike_opt q (case x of None \<Rightarrow> m | Some y \<Rightarrow> f y) (case x of None \<Rightarrow> m' | Some y \<Rightarrow> f' y)"
  by (cases x) auto

lemma alike_opt_prod [alike]:
  "(\<And>a b. alike_opt q (f a b) (f' a b)) \<Longrightarrow> alike_opt q (case p of (a, b) \<Rightarrow> f a b) (case p of (a, b) \<Rightarrow> f' a b)"
  by (cases p) auto

lemma alike_opt_list [alike]:
  "alike_opt q m m' \<Longrightarrow> (\<And>y ys. alike_opt q (f y ys) (f' y ys)) \<Longrightarrow>
     alike_opt q (case xs of [] \<Rightarrow> m | y # ys \<Rightarrow> f y ys) (case xs of [] \<Rightarrow> m' | y # ys \<Rightarrow> f' y ys)"
  by (cases xs) auto

lemma alikes_intros [alike]:
  "alikes q [] []"
  "alike q m m' \<Longrightarrow> alikes q ms ms' \<Longrightarrow> alikes q (m # ms) (m' # ms')"
  "alikes q ns ns' \<Longrightarrow> alikes q ms ms' \<Longrightarrow> alikes q (ns @ ms) (ns' @ ms')"
  by (simp_all add: list_all2_appendI)

lemma alikes_map [alike]: "(\<And>x. x \<in> set xs \<Longrightarrow> alike q (f x) (f' x)) \<Longrightarrow> alikes q (map f xs) (map f' xs)"
  by (simp add: list.rel_map list_all2_same)

lemma alikes_if [alike]:
  "alikes q m m' \<Longrightarrow> alikes q n n' \<Longrightarrow> alikes q (if b then m else n) (if b then m' else n')"
  by simp

lemma alikes_option [alike]:
  "alikes q m m' \<Longrightarrow> (\<And>y. alikes q (f y) (f' y)) \<Longrightarrow>
     alikes q (case x of None \<Rightarrow> m | Some y \<Rightarrow> f y) (case x of None \<Rightarrow> m' | Some y \<Rightarrow> f' y)"
  by (cases x) auto

lemma alike_fail [alike]: "alike q (efail e) (efail e)"
  by (simp add: alike_def)

section \<open>Sequencing\<close>

locale emission =
  fixes types :: type_table
    and q :: "em_state \<Rightarrow> em_state \<Rightarrow> bool"
  assumes q_refl: "q st st"
    and q_trans: "q st st' \<Longrightarrow> q st' st'' \<Longrightarrow> q st st''"
    and q_destructure: "q st (st\<lparr>em_destructure_tmp := Suc (em_destructure_tmp st)\<rparr>)"
begin

lemma alike_ret [alike]: "alike q (eret x) (eret x)"
  by (simp add: alike_def q_refl)

lemma alike_res [alike]: "alike q (eres r) (eres r)"
  by (cases r) (simp_all add: alike_ret alike_fail)

lemma alike_ptr [alike]: "alike q (eptr x) (eptr x)"
  by (cases x) (simp_all add: alike_ret alike_fail)

lemma alike_gets [alike]: "alike q (egets f) (egets f)"
  by (simp add: alike_def q_refl)

lemma alike_item [alike]: "alike q (item xs i) (item xs i)"
  by (simp add: item_def alike_ret alike_fail)

lemma alike_bind [alike]:
  assumes "alike q m m'" and "\<And>x. alike q (f x) (f' x)"
  shows "alike q (ebind m f) (ebind m' f')"
proof (rule alikeI)
  fix st
  assume ok: "ebind m f st \<noteq> Inl OutOfFuel"
  then have "m st \<noteq> Inl OutOfFuel" by (auto simp: ebind_def)
  then have same: "m' st = m st" by (rule alike_outcome [OF assms(1)])
  show "ebind m f st = ebind m' f' st"
  proof (cases "m st")
    case (Inr p)
    then have "f (fst p) (snd p) \<noteq> Inl OutOfFuel" using ok by (simp add: ebind_def split_beta)
    from alike_outcome [OF assms(2) this] show ?thesis using Inr same by (simp add: ebind_def split_beta)
  qed (simp add: ebind_def same)
next
  fix st x st'
  assume "ebind m f st = Inr (x, st')"
  then obtain y s where "m st = Inr (y, s)" "f y s = Inr (x, st')" by (auto simp: ebind_eq_Inr)
  then show "q st st'" using alike_step [OF assms(1)] alike_step [OF assms(2)] q_trans by blast
qed

lemma alike_seq [alike]: "alikes q ms ms' \<Longrightarrow> alike q (eseq ms) (eseq ms')"
  by (induction rule: list_all2_induct) (unfold eseq.simps, (intro alike; assumption)+)

lemma alike_texts [alike]:
  "alikes q ms ms' \<Longrightarrow> alike q (emf fmt ms) (emf fmt ms')"
  "alikes q ms ms' \<Longrightarrow> alike q (ecat ms) (ecat ms')"
  "alikes q ms ms' \<Longrightarrow> alike q (ecommas ms) (ecommas ms')"
  unfolding emf_def ecat_def ecommas_def by (intro alike; assumption)+

lemma alike_fresh_destructure [alike]: "alike q fresh_destructure fresh_destructure"
  by (simp add: alike_def fresh_destructure_def ebind_def q_destructure)

end

section \<open>Recursive calls\<close>

locale emission_calls = emission types q for types q +
  fixes R R' :: em_rec
  assumes types_R: "e_types R = types" "e_types R' = types"
    and floats: "e_float R' = e_float R"
    and alike_expr [alike]: "alike q (e_expr R e) (e_expr R' e)"
    and alike_block_text [alike]: "alike q (e_block_text R b ind fn mc) (e_block_text R' b ind fn mc)"
begin

subsection \<open>Parts\<close>

lemma alike_expr_at [alike]: "alike q (expr_at R x) (expr_at R' x)"
  unfolding expr_at_def Let_def types_R by (intro alike)

lemma alike_arg_at [alike]: "alike q (arg_at R e i) (arg_at R' e i)"
  unfolding arg_at_def Let_def types_R by (intro alike)

lemma alike_emit_obj [alike]: "alike q (emit_obj R e) (emit_obj R' e)"
  unfolding emit_obj_def Let_def types_R by (intro alike)

lemma alike_obj_at [alike]: "alike q (obj_at R x) (obj_at R' x)"
  unfolding obj_at_def Let_def types_R by (intro alike)

lemma alike_heap_copy [alike]: "alike q (heap_copy R t value) (heap_copy R' t value)"
  unfolding heap_copy_def Let_def types_R by (intro alike)

lemma alike_ctype_at [alike]: "alike q (ctype_at R t) (ctype_at R' t)"
  unfolding ctype_at_def Let_def types_R by (intro alike)

lemma alike_node_name [alike]: "alike q (node_name n) (node_name n)"
  unfolding node_name_def by (intro alike)

lemma alike_emit_field_default [alike]: "alike q (emit_field_default R field) (emit_field_default R' field)"
  unfolding emit_field_default_def Let_def types_R by (intro alike)

lemma alike_emit_record_field_value [alike]:
  "alike q (emit_record_field_value R field entry) (emit_record_field_value R' field entry)"
  unfolding emit_record_field_value_def Let_def types_R by (intro alike)

lemma alike_emit_dynamic_field_value [alike]: "alike q (emit_dynamic_field_value R v) (emit_dynamic_field_value R' v)"
  unfolding emit_dynamic_field_value_def Let_def types_R by (intro alike)

lemma alike_emit_user_call_arg [alike]: "alike q (emit_user_call_arg R arg) (emit_user_call_arg R' arg)"
  unfolding emit_user_call_arg_def Let_def types_R by (intro alike)

lemma alike_emit_user_call_args [alike]: "alike q (emit_user_call_args R args) (emit_user_call_args R' args)"
  unfolding emit_user_call_args_def Let_def types_R by (intro alike)

lemma alike_obj_value [alike]: "alike q (obj_value t value) (obj_value t value)"
  unfolding obj_value_def Let_def types_R by (intro alike)

lemma alike_objmap_of [alike]: "alikes q es es' \<Longrightarrow> alike q (objmap_of es) (objmap_of es')"
  unfolding objmap_of_def by (frule list_all2_lengthD, auto intro!: alike)

lemma alike_emit_open_anonymous_record_literal [alike]:
  "alike q (emit_open_anonymous_record_literal R rec) (emit_open_anonymous_record_literal R' rec)"
  unfolding emit_open_anonymous_record_literal_def Let_def types_R by (intro alike)

lemma alike_emit_open_map_literal [alike]: "alike q (emit_open_map_literal R m) (emit_open_map_literal R' m)"
  unfolding emit_open_map_literal_def Let_def types_R by (intro alike)

lemma alike_field_entry [alike]:
  "(\<And>x. alike q (value_of x) (value_of' x)) \<Longrightarrow> alike q (field_entry value_of field)
    (field_entry value_of' field)"
  unfolding field_entry_def Let_def types_R by (intro alike | assumption)+

lemma alike_emit_open_record_literal [alike]:
  "alike q (emit_open_record_literal R rec t) (emit_open_record_literal R' rec t)"
  unfolding emit_open_record_literal_def Let_def types_R by (intro alike)

lemma alike_emit_open_named_value [alike]: "alike q (emit_open_named_value R info) (emit_open_named_value R' info)"
  unfolding emit_open_named_value_def Let_def types_R by (intro alike)

lemma alike_init_field [alike]:
  "alike q value value' \<Longrightarrow> alike q (init_field field value) (init_field field value')"
  unfolding init_field_def Let_def types_R by (intro alike | assumption)+

lemma alike_struct_literal [alike]:
  "(\<And>x. alike q (value_of x) (value_of' x)) \<Longrightarrow> alike q (struct_literal R t value_of)
    (struct_literal R' t value_of')"
  unfolding struct_literal_def Let_def types_R by (intro alike | assumption)+

lemma alike_record_value [alike]: "alike q (record_value R rec field) (record_value R' rec field)"
  unfolding record_value_def Let_def types_R by (intro alike)

lemma alike_overlay_open [alike]: "alike q (overlay_open R t out entries) (overlay_open R' t out entries)"
proof (induction entries arbitrary: out)
  case (Cons entry rest)
  then show ?case unfolding overlay_open.simps types_R by (intro alike)
qed (simp add: alike_ret)

lemma alike_emit_record_overlay [alike]:
  "alike q (emit_record_overlay R left rec t) (emit_record_overlay R' left rec t)"
  unfolding emit_record_overlay_def Let_def types_R by (intro alike)

lemma alike_emit_join_expr [alike]: "alike q (emit_join_expr R left right t) (emit_join_expr R' left right t)"
  unfolding emit_join_expr_def Let_def types_R by (intro alike)

lemma alike_emit_remove_expr [alike]: "alike q (emit_remove_expr R left right t) (emit_remove_expr R' left right t)"
  unfolding emit_remove_expr_def Let_def types_R by (intro alike)

lemma alike_emit_arr_conversion_expr [alike]:
  "alike q (emit_arr_conversion_expr R obj result_type) (emit_arr_conversion_expr R' obj result_type)"
  unfolding emit_arr_conversion_expr_def Let_def types_R by (intro alike)

lemma alike_emit_shape_fill_level [alike]:
  "alike q (emit_shape_fill_level R call left arr out level) (emit_shape_fill_level R' call left arr out level)"
proof (induction left arbitrary: arr out level)
  case 0
  show ?case unfolding emit_shape_fill_level.simps [of _ _ 0] Let_def nat.case types_R by (intro alike)
next
  case (Suc left)
  show ?case unfolding emit_shape_fill_level.simps [of _ _ "Suc left"] Let_def nat.case types_R
    by (intro alike Suc.IH)
qed

lemma alike_emit_shape_fill_expr [alike]: "alike q (emit_shape_fill_expr R call) (emit_shape_fill_expr R' call)"
  unfolding emit_shape_fill_expr_def Let_def types_R by (intro alike)

lemma alike_emit_else_fallback_value [alike]:
  "alike q (emit_else_fallback_value R fallback result_type) (emit_else_fallback_value R' fallback result_type)"
  unfolding emit_else_fallback_value_def Let_def types_R by (intro alike)

subsection \<open>Values\<close>

lemma alike_emit_split_expr [alike]: "alike q (emit_split_expr R txt sep) (emit_split_expr R' txt sep)"
  unfolding emit_split_expr_def Let_def types_R by (intro alike)

lemma alike_emit_cast_expr [alike]: "alike q (emit_cast_expr R call tgt) (emit_cast_expr R' call tgt)"
  unfolding emit_cast_expr_def Let_def types_R by (intro alike)

lemma alike_as_checked [alike]: "alike q (as_checked R t obj) (as_checked R' t obj)"
  unfolding as_checked_def Let_def types_R by (intro alike)

lemma alike_else_index_obj [alike]:
  "alike q (else_index_obj R left object ix fallback rt) (else_index_obj R' left object ix fallback rt)"
  unfolding else_index_obj_def Let_def types_R by (intro alike)

lemma alike_else_index_array [alike]:
  "alike q (else_index_array R left object ot ix fallback rt) (else_index_array R' left object ot ix fallback
    rt)"
  unfolding else_index_array_def Let_def types_R by (intro alike)

lemma alike_else_index_str [alike]:
  "alike q (else_index_str R left object ix fallback rt) (else_index_str R' left object ix fallback rt)"
  unfolding else_index_str_def Let_def types_R by (intro alike)

lemma alike_else_key_map [alike]:
  "alike q (else_key_map R left object ot ky fallback rt) (else_key_map R' left object ot ky fallback rt)"
  unfolding else_key_map_def Let_def types_R by (intro alike)

lemma alike_else_key_obj [alike]:
  "alike q (else_key_obj R dynamic left object ky fallback rt) (else_key_obj R' dynamic left object ky fallback
    rt)"
  unfolding else_key_obj_def Let_def types_R by (intro alike)

lemma alike_emit_dynamic_dot_else_expr [alike]:
  "alike_opt q (emit_dynamic_dot_else_expr R left fallback rt) (emit_dynamic_dot_else_expr R' left fallback rt)"
  unfolding emit_dynamic_dot_else_expr_def Let_def types_R by (intro alike)

lemma alike_emit_else_expr [alike]: "alike q (emit_else_expr R e) (emit_else_expr R' e)"
  unfolding emit_else_expr_def Let_def types_R by (intro alike)

lemma alike_emit_array_has_expr [alike]:
  "alike q (emit_array_has_expr R collection t needle) (emit_array_has_expr R' collection t needle)"
  unfolding emit_array_has_expr_def Let_def types_R by (intro alike)

lemma alike_emit_array_find_expr [alike]:
  "alike q (emit_array_find_expr R collection t needle) (emit_array_find_expr R' collection t needle)"
  unfolding emit_array_find_expr_def Let_def types_R by (intro alike)

lemma alike_emit_minmax_expr [alike]:
  "alike q (emit_minmax_expr R collection is_max) (emit_minmax_expr R' collection is_max)"
  unfolding emit_minmax_expr_def Let_def types_R by (intro alike)

lemma alike_json_append [alike]: "alike q (json_append out c) (json_append out c)"
  unfolding json_append_def Let_def types_R by (intro alike)

lemma alike_json_commas [alike]: "alikes q items items' \<Longrightarrow> alike q (json_commas out items) (json_commas out items')"
  unfolding json_commas_def
  by (intro alike, auto simp: list_all2_conv_all_nth nth_enumerate_eq intro!: alike)

lemma alike_json_scalar_statements [alike]:
  "alike q (json_scalar_statements R v out buf) (json_scalar_statements R' v out buf)"
  unfolding json_scalar_statements_def Let_def types_R by (intro alike)

lemma alike_emit_direct_json_value_statements [alike]:
  "alike q (emit_direct_json_value_statements R v out buf) (emit_direct_json_value_statements R' v out buf)"
proof (induction v rule: measure_induct_rule [of size])
  case (less v)
  then show ?case unfolding emit_direct_json_value_statements.simps [of _ v] types_R
    by (intro alike less.IH; auto intro: size_field_value size_item)
qed

lemma alike_emit_direct_json_body_expr [alike]:
  "alike q (emit_direct_json_body_expr R rec) (emit_direct_json_body_expr R' rec)"
  unfolding emit_direct_json_body_expr_def Let_def types_R by (intro alike)

lemma alike_emit_web_json_direct_response [alike]:
  "alike_opt q (emit_web_json_direct_response R call) (emit_web_json_direct_response R' call)"
  unfolding emit_web_json_direct_response_def Let_def types_R by (intro alike)

subsection \<open>Statements of a body and collection methods\<close>

lemma alike_emit_cond [alike]: "alike q (emit_cond R e) (emit_cond R' e)"
  unfolding emit_cond_def Let_def types_R by (intro alike)

lemma alike_cond_at [alike]: "alike q (cond_at R x) (cond_at R' x)"
  unfolding cond_at_def Let_def types_R by (intro alike)

lemma alike_emit_ref_field_owner_expr [alike]:
  "alike q (emit_ref_field_owner_expr R tgt) (emit_ref_field_owner_expr R' tgt)"
  unfolding emit_ref_field_owner_expr_def Let_def types_R by (intro alike)

lemma alike_emit_ref_field_value_expr [alike]:
  "alike q (emit_ref_field_value_expr R value target_type) (emit_ref_field_value_expr R' value target_type)"
  unfolding emit_ref_field_value_expr_def Let_def types_R by (intro alike)

lemma alike_emit_ref_field_assignment [alike]:
  "alike q (emit_ref_field_assignment R tgt value) (emit_ref_field_assignment R' tgt value)"
  unfolding emit_ref_field_assignment_def Let_def types_R by (intro alike)

lemma alike_emit_open_field_update [alike]:
  "alike q value value' \<Longrightarrow> alike q (emit_open_field_update R tgt value) (emit_open_field_update
    R' tgt value')"
  unfolding emit_open_field_update_def Let_def types_R by (intro alike | assumption)+

lemma alike_emit_open_field_assignment [alike]:
  "alike q (emit_open_field_assignment R tgt value) (emit_open_field_assignment R' tgt value)"
  unfolding emit_open_field_assignment_def Let_def types_R by (intro alike)

lemma alike_emit_method_value_text [alike]:
  "alike q (emit_method_value_text R value_node ind c) (emit_method_value_text R' value_node ind c)"
  unfolding emit_method_value_text_def Let_def types_R by (intro alike)

lemma alike_emit_agg_step_text [alike]: "alike q (emit_agg_step_text R step ind c) (emit_agg_step_text R' step ind c)"
  unfolding emit_agg_step_text_def Let_def types_R by (intro alike)

lemma alike_emit_agg_value [alike]: "alike q (emit_agg_value R call elem) (emit_agg_value R' call elem)"
  unfolding emit_agg_value_def Let_def types_R by (intro alike)

lemma alike_emit_agg_condition [alike]: "alike q (emit_agg_condition R call) (emit_agg_condition R' call)"
  unfolding emit_agg_condition_def Let_def types_R by (intro alike)

lemma alike_agg_round [alike]: "alike q (agg_round R e elem out t) (agg_round R' e elem out t)"
  unfolding agg_round_def Let_def types_R by (intro alike)

lemma alike_method_body [alike]: "alike q (method_body R b c) (method_body R' b c)"
  unfolding method_body_def Let_def types_R by (intro alike)

lemma alike_array_loop_head [alike]:
  "alike q (array_loop_head R ix src elem_type ptr) (array_loop_head R' ix src elem_type ptr)"
  unfolding array_loop_head_def Let_def types_R by (intro alike)

lemma alike_emit_group [alike]:
  "alike q (emit_group R e ix ptr src_type src out) (emit_group R' e ix ptr src_type src out)"
  unfolding emit_group_def Let_def types_R by (intro alike)

lemma alike_emit_sort [alike]:
  "alike q (emit_sort R e ix ptr src_type src out) (emit_sort R' e ix ptr src_type src out)"
  unfolding emit_sort_def Let_def types_R by (intro alike)

lemma alike_emit_map_method [alike]:
  "alike q (emit_map_method R e name ix ptr src_type src out) (emit_map_method R' e name ix ptr src_type src
    out)"
  unfolding emit_map_method_def Let_def types_R by (intro alike)

lemma alike_emit_round [alike]:
  "alike q (emit_round R e name string_source elem out t) (emit_round R' e name string_source elem out t)"
  unfolding emit_round_def Let_def types_R by (intro alike)

lemma alike_emit_array_method [alike]:
  "alike q (emit_array_method R e name ix ptr src_type src out) (emit_array_method R' e name ix ptr src_type src
    out)"
  unfolding emit_array_method_def Let_def types_R by (intro alike)

lemma alike_emit_collection_method [alike]: "alike q (emit_collection_method R e) (emit_collection_method R' e)"
  unfolding emit_collection_method_def Let_def types_R by (intro alike)

lemma alike_emit_mutation_target_expr [alike]:
  "alike q (emit_mutation_target_expr R tgt) (emit_mutation_target_expr R' tgt)"
  unfolding emit_mutation_target_expr_def Let_def types_R by (intro alike)

lemma alike_emit_join_from_target_expr [alike]:
  "alike q (emit_join_from_target_expr R tgt right t) (emit_join_from_target_expr R' tgt right t)"
  unfolding emit_join_from_target_expr_def Let_def types_R by (intro alike)

lemma alike_emit_target_join [alike]: "alike q (emit_target_join R tgt right ind) (emit_target_join R' tgt right ind)"
  unfolding emit_target_join_def Let_def types_R by (intro alike)

lemma alike_emit_mutating_collection_plus_stmt_text [alike]:
  "alike q (emit_mutating_collection_plus_stmt_text R e ind) (emit_mutating_collection_plus_stmt_text R' e ind)"
  unfolding emit_mutating_collection_plus_stmt_text_def Let_def types_R by (intro alike)

lemma alike_emit_mutating_collection_add_stmt_text [alike]:
  "alike q (emit_mutating_collection_add_stmt_text R call ind) (emit_mutating_collection_add_stmt_text R' call
    ind)"
  unfolding emit_mutating_collection_add_stmt_text_def Let_def types_R by (intro alike)

lemma alike_emit_mutating_round [alike]:
  "alike q (emit_mutating_round R call name ind c) (emit_mutating_round R' call name ind c)"
  unfolding emit_mutating_round_def Let_def types_R by (intro alike)

lemma alike_emit_mutating_loop [alike]:
  "alike q (emit_mutating_loop R call name ind) (emit_mutating_loop R' call name ind)"
  unfolding emit_mutating_loop_def Let_def types_R by (intro alike)

lemma alike_emit_mutating_collection_method_stmt_text [alike]:
  "alike q (emit_mutating_collection_method_stmt_text R e ind) (emit_mutating_collection_method_stmt_text R' e
    ind)"
  unfolding emit_mutating_collection_method_stmt_text_def Let_def types_R by (intro alike)

lemma alike_emit_assignment_value_expr [alike]:
  "alike q (emit_assignment_value_expr R t value) (emit_assignment_value_expr R' t value)"
  unfolding emit_assignment_value_expr_def Let_def types_R by (intro alike)

lemma alike_dtype_at [alike]: "alike q (dtype_at R n) (dtype_at R' n)"
  unfolding dtype_at_def Let_def types_R by (intro alike)

lemma alike_declared [alike]:
  "alike q value value' \<Longrightarrow> alike q (declared R pad n name value) (declared R' pad n name value')"
  unfolding declared_def Let_def types_R by (intro alike | assumption)+

lemma alike_binding_value [alike]: "alike q (binding_value R tmp binding) (binding_value R' tmp binding)"
  unfolding binding_value_def Let_def types_R by (intro alike)

lemma alike_destructure_text [alike]: "alike q (destructure_text R st pad) (destructure_text R' st pad)"
  unfolding destructure_text_def Let_def types_R by (intro alike)

lemma alike_compound_text [alike]: "alike q (compound_text R tgt value) (compound_text R' tgt value)"
  unfolding compound_text_def Let_def types_R by (intro alike)

lemma alike_compound_remove_text [alike]:
  "alike q (compound_remove_text R tgt value) (compound_remove_text R' tgt value)"
  unfolding compound_remove_text_def Let_def types_R by (intro alike)

lemma alike_assign_text [alike]: "alike q (assign_text R st pad) (assign_text R' st pad)"
  unfolding assign_text_def Let_def types_R by (intro alike)

lemma alike_emit_log_stmt [alike]: "alike q (emit_log_stmt R arg pad) (emit_log_stmt R' arg pad)"
  unfolding emit_log_stmt_def Let_def types_R by (intro alike)

lemma alike_expr_stmt_text [alike]: "alike q (expr_stmt_text R st ind mc) (expr_stmt_text R' st ind mc)"
  unfolding expr_stmt_text_def Let_def types_R by (intro alike)

lemma alike_throw_text [alike]: "alike q (throw_text R st pad) (throw_text R' st pad)"
  unfolding throw_text_def Let_def types_R by (intro alike)

lemma alike_if_text [alike]:
  "(\<And>x y. alike q (blk x y) (blk' x y)) \<Longrightarrow> alike q (if_text R blk st ind) (if_text R' blk'
    st ind)"
  unfolding if_text_def Let_def types_R by (intro alike | assumption)+

lemma alike_count_loop_text [alike]:
  "(\<And>x. alike q (bdy x) (bdy' x)) \<Longrightarrow> alike q (count_loop_text R bdy st ix ind)
    (count_loop_text R' bdy' st ix ind)"
  unfolding count_loop_text_def Let_def types_R by (intro alike | assumption)+

lemma alike_range_loop_text [alike]:
  "(\<And>x. alike q (bdy x) (bdy' x)) \<Longrightarrow> alike q (range_loop_text R bdy st ix ind)
    (range_loop_text R' bdy' st ix ind)"
  unfolding range_loop_text_def Let_def types_R by (intro alike | assumption)+

lemma alike_condition_loop_text [alike]:
  "(\<And>x. alike q (bdy x) (bdy' x)) \<Longrightarrow> alike q (condition_loop_text R bdy st ix ind)
    (condition_loop_text R' bdy' st ix ind)"
  unfolding condition_loop_text_def Let_def types_R by (intro alike | assumption)+

lemma alike_map_loop_text [alike]:
  "(\<And>x. alike q (bdy x) (bdy' x)) \<Longrightarrow> alike q (map_loop_text R open_map bdy st ix ptr ind)
    (map_loop_text R' open_map bdy' st ix ptr ind)"
  unfolding map_loop_text_def Let_def types_R by (intro alike | assumption)+

lemma alike_str_loop_text [alike]:
  "(\<And>x. alike q (bdy x) (bdy' x)) \<Longrightarrow> alike q (str_loop_text R dropped bdy st ix ptr ind)
    (str_loop_text R' dropped bdy' st ix ptr ind)"
  unfolding str_loop_text_def Let_def types_R by (intro alike | assumption)+

lemma alike_array_loop_text [alike]:
  "(\<And>x. alike q (bdy x) (bdy' x)) \<Longrightarrow> alike q (array_loop_text R bdy st ix ptr ind)
    (array_loop_text R' bdy' st ix ptr ind)"
  unfolding array_loop_text_def Let_def types_R by (intro alike | assumption)+

lemma alike_loop_text [alike]:
  "(\<And>x y. alike q (blk x y) (blk' x y)) \<Longrightarrow> alike q (loop_text R dropped blk st ind)
    (loop_text R' dropped blk' st ind)"
  unfolding loop_text_def Let_def types_R by (intro alike | assumption)+

lemma alike_emit_stmt_text [alike]:
  "alike q (emit_stmt_text R st ind fn mc) (emit_stmt_text R' st ind fn mc)"
  unfolding emit_stmt_text_def Let_def types_R by (cases "n_kind st"; simp only: node_kind.case; intro alike)

lemma alike_emit_block_text [alike]: "alike q (emit_block_text R b ind fn mc) (emit_block_text R' b ind fn mc)"
  unfolding emit_block_text_def Let_def types_R by (intro alike)

subsection \<open>Expressions\<close>

lemma alike_emit_array [alike]: "alike q (emit_array R e) (emit_array R' e)"
  unfolding emit_array_def Let_def types_R by (intro alike)

lemma alike_emit_map_literal [alike]: "alike q (emit_map_literal R e) (emit_map_literal R' e)"
  unfolding emit_map_literal_def Let_def types_R by (intro alike)

lemma alike_emit_record_literal [alike]: "alike q (emit_record_literal R e) (emit_record_literal R' e)"
  unfolding emit_record_literal_def Let_def types_R by (intro alike)

lemma alike_emit_dot_key [alike]: "alike_opt q (emit_dot_key R e obj ot ky) (emit_dot_key R' e obj ot ky)"
  unfolding emit_dot_key_def Let_def types_R by (intro alike)

lemma alike_emit_dot_name [alike]: "alike q (emit_dot_name R e obj ot) (emit_dot_name R' e obj ot)"
  unfolding emit_dot_name_def Let_def types_R by (intro alike)

lemma alike_emit_dot [alike]: "alike q (emit_dot R e) (emit_dot R' e)"
  unfolding emit_dot_def Let_def types_R by (intro alike)

lemma alike_emit_unary [alike]: "alike q (emit_unary R e) (emit_unary R' e)"
  unfolding emit_unary_def Let_def types_R by (intro alike)

lemma alike_emit_binary [alike]: "alike q (emit_binary R e) (emit_binary R' e)"
  unfolding emit_binary_def Let_def types_R by (intro alike)

lemma alike_call_text [alike]:
  "alike q callee callee' \<Longrightarrow> alike q (call_text R e callee) (call_text R' e callee')"
  unfolding call_text_def Let_def types_R by (intro alike | assumption)+

lemma alike_emit_len [alike]: "alike q (emit_len R arg) (emit_len R' arg)"
  unfolding emit_len_def Let_def types_R by (intro alike)

lemma alike_emit_has [alike]: "alike q (emit_has R coll needle) (emit_has R' coll needle)"
  unfolding emit_has_def Let_def types_R by (intro alike)

lemma alike_emit_find [alike]: "alike q (emit_find R coll needle) (emit_find R' coll needle)"
  unfolding emit_find_def Let_def types_R by (intro alike)

lemma alike_with_arg [alike]:
  "(\<And>x. alike q (f x) (f' x)) \<Longrightarrow> alike q (with_arg e i f) (with_arg e i f')"
  unfolding with_arg_def Let_def types_R by (intro alike | assumption)+

lemma alike_emit_named_call [alike]: "alike q (emit_named_call R e callee name) (emit_named_call R' e callee name)"
  unfolding emit_named_call_def Let_def types_R by (intro alike)

lemma alike_emit_call [alike]: "alike q (emit_call R e) (emit_call R' e)"
  unfolding emit_call_def Let_def types_R by (intro alike)

lemma alike_emit_buf_call [alike]: "alike q (emit_buf_call R e name) (emit_buf_call R' e name)"
  unfolding emit_buf_call_def Let_def types_R by (intro alike)

lemma alike_emit_sql_call [alike]: "alike_opt q (emit_sql_call R e name) (emit_sql_call R' e name)"
  unfolding emit_sql_call_def Let_def types_R by (intro alike)

lemma alike_emit_io_call [alike]: "alike_opt q (emit_io_call R e name) (emit_io_call R' e name)"
  unfolding emit_io_call_def Let_def types_R by (intro alike)

lemma alike_emit_req_call [alike]: "alike_opt q (emit_req_call R e name) (emit_req_call R' e name)"
  unfolding emit_req_call_def Let_def types_R by (intro alike)

lemma alike_emit_module_call [alike]: "alike_opt q (emit_module_call R e obj name) (emit_module_call R' e obj name)"
  unfolding emit_module_call_def Let_def types_R by (intro alike)

lemma alike_emit_method_of [alike]: "alike q (emit_method_of R e obj ot name) (emit_method_of R' e obj ot name)"
  unfolding emit_method_of_def Let_def types_R by (intro alike)

lemma alike_emit_method [alike]: "alike q (emit_method R e name) (emit_method R' e name)"
  unfolding emit_method_def Let_def types_R by (intro alike)

lemma alike_emit_method_call [alike]: "alike q (emit_method_call R e) (emit_method_call R' e)"
  unfolding emit_method_call_def Let_def types_R by (intro alike)

lemma alike_emit_decode [alike]: "alike q (emit_decode R e) (emit_decode R' e)"
  unfolding emit_decode_def Let_def types_R by (intro alike)

lemma alike_emit_if_expr [alike]: "alike q (emit_if_expr R e) (emit_if_expr R' e)"
  unfolding emit_if_expr_def Let_def types_R by (intro alike)

lemma alike_emit_expr: "alike q (emit_expr R e) (emit_expr R' e)"
  unfolding emit_expr_def types_R floats by (cases "n_kind e"; simp only: node_kind.case; intro alike)

subsection \<open>Returned values\<close>

lemma alike_function_c_name [alike]: "alike q (function_c_name fn) (function_c_name fn)"
  unfolding function_c_name_def Let_def types_R by (intro alike)

lemma alike_function_return_ctype [alike]: "alike q (function_return_ctype R fn) (function_return_ctype R' fn)"
  unfolding function_return_ctype_def Let_def types_R by (intro alike)

lemma alike_drops [alike]:
  "alike q (emit_owned_local_drops types ind skip) (emit_owned_local_drops types ind skip)"
  unfolding emit_owned_local_drops_def by (intro alike)

lemma alike_emit_return_value_expr [alike]: "alike q (emit_return_value_expr R value) (emit_return_value_expr R' value)"
  unfolding emit_return_value_expr_def Let_def types_R by (intro alike)

end

section \<open>Statements\<close>

text \<open>Statements of functions also change the list of the owned locals and make return values.\<close>

locale emission_stmts = emission_calls +
  assumes q_own: "type_needs_drop types (Some t) \<Longrightarrow> name \<notin> fst ` set (em_owned st) \<Longrightarrow>
      q st (st\<lparr>em_owned := em_owned st @ [(name, t)]\<rparr>)"
    and q_free: "q st (st\<lparr>em_owned := owned_local_remove name (em_owned st)\<rparr>)"
    and q_return: "q st (st\<lparr>em_return_tmp := Suc (em_return_tmp st)\<rparr>)"
begin

lemma alike_owned_local_add [alike]: "alike q (owned_local_add types name t) (owned_local_add types name t)"
  by (auto simp: alike_def owned_local_add_def owned_local_contains_def q_refl q_own split: option.splits)

lemma alike_owned_local_remove [alike]:
  "alike q (emods (\<lambda>st. st\<lparr>em_owned := owned_local_remove name (em_owned st)\<rparr>))
     (emods (\<lambda>st. st\<lparr>em_owned := owned_local_remove name (em_owned st)\<rparr>))"
  by (simp add: alike_def q_free)

lemma alike_fresh_return [alike]: "alike q fresh_return fresh_return"
  by (simp add: alike_def fresh_return_def ebind_def q_return)

lemma alike_own [alike]: "alike q (own R b name t) (own R' b name t)"
  unfolding own_def Let_def types_R by (intro alike)

lemma alike_after [alike]:
  "alike q m m' \<Longrightarrow> alike q u u' \<Longrightarrow> alike q (after m u) (after m' u')"
  unfolding after_def Let_def types_R by (intro alike | assumption)+

lemma alike_mark_line [alike]: "alike q (mark_line pad name) (mark_line pad name)"
  unfolding mark_line_def Let_def types_R by (intro alike)

lemma alike_stmt_declared [alike]: "alike q (stmt_declared R st ind) (stmt_declared R' st ind)"
  unfolding stmt_declared_def Let_def types_R by (intro alike)

lemma alike_stmt_destructure [alike]: "alike q (stmt_destructure R st ind) (stmt_destructure R' st ind)"
  unfolding stmt_destructure_def Let_def types_R by (intro alike)

lemma alike_stmt_assign [alike]: "alike q (stmt_assign R st ind) (stmt_assign R' st ind)"
  unfolding stmt_assign_def Let_def types_R by (intro alike)

lemma alike_stmt_free [alike]: "alike q (stmt_free R st ind) (stmt_free R' st ind)"
  unfolding stmt_free_def Let_def types_R by (intro alike)

lemma alike_stmt_ret [alike]: "alike q (stmt_ret R st ind fn) (stmt_ret R' st ind fn)"
  unfolding stmt_ret_def Let_def types_R by (intro alike)

lemma alike_stmt_expr [alike]: "alike q (stmt_expr R st ind) (stmt_expr R' st ind)"
  unfolding stmt_expr_def Let_def types_R by (intro alike)

lemma alike_emit_stmt [alike]:
  "(\<And>b i. alike q (block b i) (block' b i)) \<Longrightarrow> alike q (emit_stmt R block st ind fn) (emit_stmt R' block' st ind fn)"
  unfolding emit_stmt_def stmt_throw_def stmt_if_def stmt_loop_def Let_def types_R by (cases "n_kind st"; simp only: node_kind.case; (intro alike | assumption)+)

lemma alike_emit_block [alike]: "alike q (emit_block n R b ind fn) (emit_block (n + k) R' b ind fn)"
proof (induction n arbitrary: b ind)
  case (Suc n)
  then show ?case unfolding emit_block.simps add_Suc by (intro alike)
qed (simp add: alike_def)

lemma alike_emit_function_signature [alike]:
  "alike q (emit_function_signature R sys fn) (emit_function_signature R' sys fn)"
  unfolding emit_function_signature_def Let_def types_R by (intro alike)

lemma alike_emit_function_param_marks [alike]: "alike q (emit_function_param_marks fn) (emit_function_param_marks fn)"
  unfolding emit_function_param_marks_def Let_def types_R by (intro alike)

lemma alike_body_text [alike]: "alike q (body_text n R b fn) (body_text (n + k) R' b fn)"
  unfolding body_text_def types_R by (intro alike)

end

section \<open>Functions and the program\<close>

text \<open>A function starts with no owned local and with fresh temporaries.\<close>

locale emission_program = emission_stmts +
  assumes q_reset: "q st (owned_locals_reset st)"
begin

lemma alike_reset [alike]: "alike q (emods owned_locals_reset) (emods owned_locals_reset)"
  by (simp add: alike_def q_reset)

lemma alike_emit_function_definition [alike]:
  "alike q (emit_function_definition n R sys prog fn) (emit_function_definition (n + k) R' sys prog fn)"
  unfolding emit_function_definition_def Let_def types_R by (intro alike)

lemma alike_emit_nested_function_definitions_in_block [alike]:
  "alike q (emit_nested_function_definitions_in_block n R sys prog b) (emit_nested_function_definitions_in_block (n + k) R' sys prog b)"
  unfolding emit_nested_function_definitions_in_block_def Let_def types_R by (intro alike)

lemma alike_emit_function_definition_with_nested [alike]:
  "alike q (emit_function_definition_with_nested n R sys prog fn) (emit_function_definition_with_nested (n + k) R' sys prog fn)"
  unfolding emit_function_definition_with_nested_def Let_def types_R by (intro alike)

lemma alike_emit_named_value [alike]: "alike q (emit_named_value R info) (emit_named_value R' info)"
  unfolding emit_named_value_def Let_def types_R by (intro alike)

lemma alike_named_value_ctype [alike]: "alike q (named_value_ctype R info) (named_value_ctype R' info)"
  unfolding named_value_ctype_def Let_def types_R by (intro alike)

lemma alike_emit_named_value_helpers [alike]: "alike q (emit_named_value_helpers R) (emit_named_value_helpers R')"
  unfolding emit_named_value_helpers_def Let_def types_R by (intro alike)

lemma alike_emit_named_value_storage [alike]: "alike q (emit_named_value_storage R) (emit_named_value_storage R')"
  unfolding emit_named_value_storage_def Let_def types_R by (intro alike)

lemma alike_global_name [alike]: "alike q (global_name g) (global_name g)"
  unfolding global_name_def Let_def types_R by (intro alike)

lemma alike_emit_global_declarations [alike]:
  "alike q (emit_global_declarations R prog) (emit_global_declarations R' prog)"
  unfolding emit_global_declarations_def Let_def types_R by (intro alike)

lemma alike_emit_global_init [alike]: "alike q (emit_global_init R prog) (emit_global_init R' prog)"
  unfolding emit_global_init_def Let_def types_R by (intro alike)

lemma alike_emit_host_ctx_adapter [alike]: "alike q (emit_host_ctx_adapter R call) (emit_host_ctx_adapter R' call)"
  unfolding emit_host_ctx_adapter_def Let_def types_R by (intro alike)

lemma alike_emit_host_ctx_adapters [alike]: "alike q (emit_host_ctx_adapters R c) (emit_host_ctx_adapters R' c)"
  unfolding emit_host_ctx_adapters_def Let_def types_R by (intro alike)

lemma alike_emit_declarations [alike]: "alike q (emit_declarations R sys prog) (emit_declarations R' sys prog)"
  unfolding emit_declarations_def Let_def types_R by (intro alike)

lemma alike_emit_functions [alike]:
  "alike q (emit_functions n R sys prog) (emit_functions (n + k) R' sys prog)"
  unfolding emit_functions_def Let_def types_R by (intro alike)

lemma alike_emit_main [alike]:
  "alike q (emit_main n R sys prog) (emit_main (n + k) R' sys prog)"
  unfolding emit_main_def Let_def types_R by (intro alike)

lemma alike_parts [alike]:
  "alike q (part fixed b name) (part fixed b name)"
  "alike q (adapter b name) (adapter b name)"
  unfolding part_def adapter_def by (intro alike)+

lemma alike_runtime_parts [alike]:
  "alike q (runtime_parts fixed c) (runtime_parts fixed c)"
  "alike q (req_parts fixed c) (req_parts fixed c)"
  unfolding runtime_parts_def req_parts_def by (intro alike)+

lemma alike_type_parts [alike]: "alike q (type_parts fixed R c) (type_parts fixed R' c)"
  unfolding type_parts_def Let_def types_R by (intro alike)

lemma alike_program_text: "alike q (program_text fixed n R c prog) (program_text fixed (n + k) R' c prog)"
  unfolding program_text_def Let_def types_R by (intro alike)

end

end
