(* ===== verification/EmitFacts.thy ===== *)
theory EmitFacts
  imports EmitSteps AnalyzeSteps
begin

text \<open>
  What holds of the emitter as a whole: more fuel gives the same program; expressions leave the
  owned locals alone; the statements of a function keep them distinct, so that what a return
  writes drops every one once; and the collection of the types to decode ends exactly where no
  type contains itself.
\<close>

section \<open>More fuel\<close>

text \<open>Expressions and the texts of bodies store nothing but the numbers of their temporaries.\<close>

definition temporaries :: "em_state \<Rightarrow> em_state \<Rightarrow> bool" where
  "temporaries st st' \<longleftrightarrow>
     em_owned st' = em_owned st \<and> em_return_tmp st' = em_return_tmp st \<and>
     em_destructure_tmp st \<le> em_destructure_tmp st'"

context emission
begin

lemma emission_calls_emitter:
  "emission_calls types q (emitter types flt n) (emitter types flt (n + k))"
proof (induction n)
  case 0
  show ?case by unfold_locales (simp_all add: alike_def, (cases k; simp add: Let_def)+)
next
  case (Suc n)
  show ?case
    by unfold_locales
      (simp_all add: Let_def emission_calls.alike_emit_expr [OF Suc] emission_calls.alike_emit_block_text [OF Suc])
qed

end

interpretation temporaries: emission types temporaries for types
  by unfold_locales (auto simp: temporaries_def)

interpretation anything: emission types "\<lambda>_ _. True" for types
  by unfold_locales simp_all

interpretation stored: emission_calls types temporaries "emitter types flt n" "emitter types flt (n + k)" for types flt n k
  by (rule temporaries.emission_calls_emitter)

section \<open>More fuel for the collection\<close>

named_theorems covers

definition covers :: "uses \<Rightarrow> uses \<Rightarrow> bool" where
  "covers a b \<longleftrightarrow> (\<forall>ctx. upto_fuel (a ctx) (b ctx))"

lemma covers_refl [covers]: "covers a a"
  by (simp add: covers_def upto_refl)

lemma covers_out_of_fuel [simp]: "covers (\<lambda>_. Inl OutOfFuel) a"
  by (simp add: covers_def)

lemma covers_if [covers]: "covers a a' \<Longrightarrow> covers b b' \<Longrightarrow> covers (if c then a else b) (if c then a' else b')"
  by simp

lemma covers_option [covers]:
  "covers a a' \<Longrightarrow> (\<And>y. covers (f y) (f' y)) \<Longrightarrow>
     covers (case x of None \<Rightarrow> a | Some y \<Rightarrow> f y) (case x of None \<Rightarrow> a' | Some y \<Rightarrow> f' y)"
  by (cases x) auto

abbreviation covers_all :: "uses list \<Rightarrow> uses list \<Rightarrow> bool" where "covers_all \<equiv> list_all2 covers"

lemma covers_all_intros [covers]:
  "covers_all [] []"
  "covers a a' \<Longrightarrow> covers_all as as' \<Longrightarrow> covers_all (a # as) (a' # as')"
  by simp_all

lemma covers_all_map [covers]: "(\<And>x. covers (f x) (f' x)) \<Longrightarrow> covers_all (map f xs) (map f' xs)"
  by (simp add: list.rel_map list_all2_same)

lemma covers_seq [covers]: "covers_all as as' \<Longrightarrow> covers (useq as) (useq as')"
proof (induction rule: list_all2_induct)
  case (Cons a as a' as')
  then show ?case by (simp add: covers_def upto_bind)
qed (rule covers_refl)

lemma covers_guards [covers]:
  "covers_all as as' \<Longrightarrow> covers (whenever b as) (whenever b as')"
  "(\<And>n. covers (f n) (f' n)) \<Longrightarrow> covers (on_node x f) (on_node x f')"
  "(\<And>n. covers (f n) (f' n)) \<Longrightarrow> covers (if_node x f) (if_node x f')"
  unfolding whenever_def on_node_def if_node_def by (intro covers | assumption)+

lemma covers_json_decode [covers]:
  "n \<le> m \<Longrightarrow> covers (add_json_decode_type n types t) (add_json_decode_type m types t)"
proof (induction n arbitrary: m t)
  case (Suc n)
  then obtain k where "m = Suc k" "n \<le> k" by (cases m) auto
  then show ?case unfolding add_json_decode_type.simps by (auto intro!: covers Suc.IH)
qed simp

locale collection =
  fixes U U' :: uses_rec
  assumes types_U: "u_types U' = u_types U"
    and fuel_U: "u_fuel U \<le> u_fuel U'"
    and covers_expr [covers]: "covers (u_expr U e) (u_expr U' e)"
    and covers_block [covers]: "covers (u_block U b) (u_block U' b)"
begin

lemma covers_types [covers]:
  "covers (type_used U t) (type_used U' t)"
  "covers (json_decoded U t) (json_decoded U' t)"
  unfolding type_used_def json_decoded_def types_U by (intro covers fuel_U)+

lemma covers_stmts [covers]:
  "covers (collect_if U st) (collect_if U' st)"
  "covers (collect_assign U st) (collect_assign U' st)"
  unfolding collect_if_def collect_assign_def by (intro covers)+

lemma covers_collect_stmt [covers]: "covers (collect_stmt U st) (collect_stmt U' st)"
  unfolding collect_stmt_def by (cases "n_kind st"; simp only: node_kind.case; intro covers)

lemma covers_collect_block: "covers (collect_block U b) (collect_block U' b)"
  unfolding collect_block_def by (intro covers)

lemma covers_operands [covers]:
  "covers (collect_binary U e) (collect_binary U' e)"
  "covers (collect_dot U e) (collect_dot U' e)"
  "covers (collect_call U e) (collect_call U' e)"
  "covers (collect_entry U e) (collect_entry U' e)"
  unfolding collect_binary_def collect_dot_def collect_call_def collect_entry_def types_U by (intro covers)+

lemma covers_methods [covers]:
  "covers (collect_req U e name) (collect_req U' e name)"
  "covers (collect_method U e name) (collect_method U' e name)"
  unfolding collect_req_def collect_method_def by (intro covers)+

lemma covers_module_call [covers]:
  "rel_option covers (collect_module_call U e obj name) (collect_module_call U' e obj name)"
  unfolding collect_module_call_def Let_def by (auto intro!: covers)

lemma covers_maybe [covers]:
  "rel_option covers x x' \<Longrightarrow> covers b b' \<Longrightarrow>
     covers (case x of Some a \<Rightarrow> a | None \<Rightarrow> b) (case x' of Some a \<Rightarrow> a | None \<Rightarrow> b')"
  by (cases x; cases x') auto

lemma covers_method_call [covers]: "covers (collect_method_call U e) (collect_method_call U' e)"
  unfolding collect_method_call_def
  by (intro covers; auto intro!: covers split: option.split)

lemma covers_collect_expr: "covers (collect_expr U e) (collect_expr U' e)"
  unfolding collect_expr_def types_U by (cases "n_kind e"; simp only: node_kind.case; intro covers)

lemma covers_program: "covers (collect_program U prog) (collect_program U' prog)"
  unfolding collect_program_def collect_type_decls_def types_U by (intro covers)

end

lemma collection_collector: "collection (collector types n) (collector types (n + k))"
proof (induction n)
  case 0
  show ?case by unfold_locales (simp_all, (cases k; simp add: Let_def)+)
next
  case (Suc n)
  show ?case
    by unfold_locales
      (simp_all add: Let_def collection.covers_collect_expr [OF Suc] collection.covers_collect_block [OF Suc])
qed

interpretation collector: collection "collector types n" "collector types (n + k)" for types n k
  by (rule collection_collector)

section \<open>The program\<close>

interpretation emitter: emission_program types "\<lambda>_ _. True" "emitter types flt n" "emitter types flt (n + k)" for types flt n k
  by (intro emission_program.intro emission_stmts.intro anything.emission_calls_emitter
      emission_stmts_axioms.intro emission_program_axioms.intro) simp_all

text \<open>
  Fuel only bounds the depth of the recursion of collection and emission: when some fuel gives a
  program text or a failure, every larger fuel gives the same.
\<close>

lemma emit_program_fuel:
  assumes "emit_program fixed flt n types prog \<noteq> Inl OutOfFuel" and "n \<le> m"
  shows "emit_program fixed flt m types prog = emit_program fixed flt n types prog"
proof -
  obtain k where m: "m = n + k" using assms(2) by (auto simp: le_iff_add)
  have collected: "collect_program (collector types n) prog no_uses = Inl OutOfFuel \<or>
      collect_program (collector types n) prog no_uses = collect_program (collector types m) prog no_uses"
    using collector.covers_program by (auto simp: covers_def upto_fuel_def m)
  show ?thesis
  proof (cases "collect_program (collector types n) prog no_uses")
    case (Inr c)
    then have "program_text fixed n (emitter types flt n) c prog em_start \<noteq> Inl OutOfFuel"
      using assms(1) by (auto simp: emit_program_def)
    then have "program_text fixed m (emitter types flt m) c prog em_start = program_text fixed n (emitter types flt n) c prog em_start"
      unfolding m by (rule alike_outcome [OF emitter.alike_program_text])
    moreover have "collect_program (collector types m) prog no_uses = Inr c" using Inr collected by auto
    ultimately show ?thesis using Inr by (simp add: emit_program_def)
  next
    case (Inl e)
    then have "e \<noteq> OutOfFuel" using assms(1) by (auto simp: emit_program_def)
    then have "collect_program (collector types m) prog no_uses = Inl e" using Inl collected by auto
    then show ?thesis using Inl by (simp add: emit_program_def)
  qed
qed

section \<open>Types to decode\<close>

text \<open>The types directly inside a type that is decoded.\<close>

definition inside :: "type_table \<Rightarrow> string \<Rightarrow> string option list" where
  "inside types t =
     (if \<not> decodable types t then []
      else if is_struct_type types t then
        (case type_find types t of
           None \<Rightarrow> []
         | Some info \<Rightarrow> map (\<lambda>field. node_attrs.declared_type (attrs field)) (n_fields (ti_node info)))
      else if is_map_type t then [map_value_type t]
      else [Some (array_elem_type t)])"

definition contains_rel :: "type_table \<Rightarrow> (string \<times> string) set" where
  "contains_rel types = {(y, x). Some y \<in> set (inside types x)}"

definition noted :: "type_table \<Rightarrow> string \<Rightarrow> emit_ctx \<Rightarrow> emit_ctx" where
  "noted types t ctx = add_type_use types t (ctx\<lparr>json_decode_types := push_new t (json_decode_types ctx)\<rparr>)"

lemma rbind_useq_Nil [simp]: "rbind r (useq []) = r"
  by (cases r) simp_all

lemma add_json_decode_type_step:
  "add_json_decode_type (Suc n) types (Some t) ctx =
     (if decodable types t then useq (map (add_json_decode_type n types) (inside types t)) (noted types t ctx) else Inr ctx)"
  by (auto simp: inside_def noted_def marks_def comp_def split: option.split)

text \<open>The statements of a sequence that ends, and of one that fails, each in some context.\<close>

lemma useq_Inr_each: "useq as ctx = Inr ctx' \<Longrightarrow> a \<in> set as \<Longrightarrow> \<exists>c c'. a c = Inr c'"
  by (induction as arbitrary: ctx) (auto simp: rbind_eq_Inr)

lemma useq_Inl_some: "useq as ctx = Inl e \<Longrightarrow> \<exists>a \<in> set as. \<exists>c. a c = Inl e"
  by (induction as arbitrary: ctx) (auto simp: rbind_eq_Inl)

lemma useq_total: "(\<And>a c. a \<in> set as \<Longrightarrow> \<exists>c'. a c = Inr c') \<Longrightarrow> \<exists>c'. useq as c = Inr c'"
proof (induction as arbitrary: c)
  case (Cons a as)
  then obtain c1 where "a c = Inr c1" by fastforce
  with Cons show ?case by simp
qed simp

lemma add_json_decode_type_failure: "add_json_decode_type n types t ctx = Inl e \<Longrightarrow> e = OutOfFuel"
proof (induction n arbitrary: t ctx)
  case (Suc n)
  then show ?case
    by (cases t) (auto simp: add_json_decode_type_step simp del: add_json_decode_type.simps(2) dest!: useq_Inl_some
        split: if_splits simp: add_json_decode_type.simps(2) [of _ _ None])
qed simp

lemma decoded_acc: "add_json_decode_type n types (Some t) ctx = Inr ctx' \<Longrightarrow> t \<in> Wellfounded.acc (contains_rel types)"
proof (induction n arbitrary: t ctx ctx')
  case (Suc n)
  show ?case
  proof (rule accI)
    fix y
    assume "(y, t) \<in> contains_rel types"
    then have y: "Some y \<in> set (inside types t)" by (simp add: contains_rel_def)
    then have "decodable types t" by (auto simp: inside_def split: if_splits)
    with Suc.prems y obtain c c' where "add_json_decode_type n types (Some y) c = Inr c'"
      unfolding add_json_decode_type_step by (auto dest!: useq_Inr_each)
    then show "y \<in> Wellfounded.acc (contains_rel types)" by (rule Suc.IH)
  qed
qed simp

lemma acc_decoded: "t \<in> Wellfounded.acc (contains_rel types) \<Longrightarrow> \<exists>n. \<forall>ctx. \<exists>ctx'. add_json_decode_type n types (Some t) ctx = Inr ctx'"
proof (induction rule: acc.induct)
  case (accI t)
  have "\<exists>n. \<forall>ctx. \<exists>ctx'. add_json_decode_type n types y ctx = Inr ctx'" if "y \<in> set (inside types t)" for y
  proof (cases y)
    case None
    then have "\<forall>ctx. add_json_decode_type 1 types y ctx = Inr ctx" by simp
    then show ?thesis by blast
  next
    case (Some z)
    then show ?thesis using accI that by (auto simp: contains_rel_def)
  qed
  then obtain f where f: "\<And>y ctx. y \<in> set (inside types t) \<Longrightarrow> \<exists>ctx'. add_json_decode_type (f y) types y ctx = Inr ctx'"
    by metis
  define n where "n = Max (insert 0 (f ` set (inside types t)))"
  have "\<exists>ctx'. add_json_decode_type n types y ctx = Inr ctx'" if y: "y \<in> set (inside types t)" for y ctx
  proof -
    have "f y \<le> n" using y by (simp add: n_def)
    then have "upto_fuel (add_json_decode_type (f y) types y ctx) (add_json_decode_type n types y ctx)"
      using covers_json_decode by (simp add: covers_def)
    then show ?thesis using f [OF y, of ctx] by (auto simp: upto_fuel_def)
  qed
  then have "\<exists>ctx'. add_json_decode_type (Suc n) types (Some t) ctx = Inr ctx'" for ctx
    unfolding add_json_decode_type_step by (auto intro!: useq_total)
  then show ?case by blast
qed


text \<open>A MAP with an array of itself is such a type.\<close>

lemma mutual_not_acc: "t \<in> Wellfounded.acc (contains_rel types) \<Longrightarrow> (y, t) \<in> contains_rel types \<Longrightarrow> (t, y) \<notin> contains_rel types"
  by (induction arbitrary: y rule: acc.induct) blast

text \<open>\<open>MAP Tree = { ARR[Tree] kids = [] }\<close>\<close>

definition tree_types :: type_table where
  "tree_types =
     (case build_type_table (add_type_decls
        (builtin_struct ''Tree'' [builtin_field ''ARR[Tree]'' ''kids'' (synthetic NK_ARRAY TK_LBRACKET ''['')])
        (synthetic NK_PROGRAM TK_EOF [])) of
      Inl _ \<Rightarrow> [] | Inr types \<Rightarrow> types)"

lemma inside_tree: "inside tree_types ''Tree'' = [Some ''ARR[Tree]'']" "inside tree_types ''ARR[Tree]'' = [Some ''Tree'']"
  by code_simp+

lemma decode_tree_never_ends: "add_json_decode_type n tree_types (Some ''Tree'') ctx = Inl OutOfFuel"
proof -
  have "''Tree'' \<notin> Wellfounded.acc (contains_rel tree_types)"
    using mutual_not_acc [of "''Tree''" tree_types "''ARR[Tree]''"] by (auto simp: contains_rel_def inside_tree)
  then show ?thesis
    using decoded_acc add_json_decode_type_failure by (metis sum.exhaust)
qed

section \<open>Owned locals\<close>

definition owned_ok :: "type_table \<Rightarrow> em_state \<Rightarrow> bool" where
  "owned_ok types st \<longleftrightarrow>
     distinct (map fst (em_owned st)) \<and> (\<forall>(x, t) \<in> set (em_owned st). type_needs_drop types (Some t))"

text \<open>What a statement does: the owned locals stay distinct, and no number is given out twice.\<close>

definition tracked :: "type_table \<Rightarrow> em_state \<Rightarrow> em_state \<Rightarrow> bool" where
  "tracked types st st' \<longleftrightarrow>
     (owned_ok types st \<longrightarrow> owned_ok types st') \<and> em_return_tmp st \<le> em_return_tmp st' \<and>
     em_destructure_tmp st \<le> em_destructure_tmp st'"

lemma set_owned_local_remove: "set (owned_local_remove name xs) \<subseteq> set xs"
  by (induction xs) auto

lemma distinct_owned_local_remove: "distinct (map fst xs) \<Longrightarrow> distinct (map fst (owned_local_remove name xs))"
  by (induction xs) (simp_all, meson image_mono set_owned_local_remove subsetD)

interpretation tracked: emission types "tracked types" for types
proof
  fix st st' st''
  show "tracked types st st" by (simp add: tracked_def)
  show "tracked types st st' \<Longrightarrow> tracked types st' st'' \<Longrightarrow> tracked types st st''"
    unfolding tracked_def by (meson le_trans)
  show "tracked types st (st\<lparr>em_destructure_tmp := Suc (em_destructure_tmp st)\<rparr>)"
    by (simp add: tracked_def owned_ok_def)
qed

lemma tracked_own:
  "type_needs_drop types (Some t) \<Longrightarrow> name \<notin> fst ` set (em_owned st) \<Longrightarrow>
     tracked types st (st\<lparr>em_owned := em_owned st @ [(name, t)]\<rparr>)"
  by (simp add: tracked_def owned_ok_def)

lemma tracked_free: "tracked types st (st\<lparr>em_owned := owned_local_remove name (em_owned st)\<rparr>)"
  using set_owned_local_remove [of name "em_owned st"]
  by (simp add: tracked_def owned_ok_def distinct_owned_local_remove subset_eq)

lemma tracked_return: "tracked types st (st\<lparr>em_return_tmp := Suc (em_return_tmp st)\<rparr>)"
  by (simp add: tracked_def owned_ok_def)

interpretation tracked_stmts: emission_stmts types "tracked types" "emitter types flt n" "emitter types flt (n + k)" for types flt n k
  by (intro emission_stmts.intro tracked.emission_calls_emitter emission_stmts_axioms.intro
      tracked_own tracked_free tracked_return)

lemma owned_ok_reset: "owned_ok types (owned_locals_reset st)"
  by (simp add: owned_ok_def owned_locals_reset_def)

lemma drop_lines_each:
  "drop_lines types ind skip xs = Inr s \<Longrightarrow>
     \<exists>lines. s = concat lines \<and>
       list_all2 (\<lambda>p line. emit_drop_stmt types ind (snd p) (fst p) = Inr line) (filter (\<lambda>p. skip \<noteq> Some (fst p)) xs) lines"
proof (induction xs arbitrary: s)
  case (Cons p xs)
  show ?case
  proof (cases "skip = Some (fst p)")
    case True
    then show ?thesis using Cons by simp
  next
    case False
    then obtain l r where "emit_drop_stmt types ind (snd p) (fst p) = Inr l" "drop_lines types ind skip xs = Inr r" "s = l @ r"
      using Cons.prems by (auto simp: rbind_eq_Inr)
    moreover from Cons.IH [OF this(2)] obtain lines where "r = concat lines"
      "list_all2 (\<lambda>p line. emit_drop_stmt types ind (snd p) (fst p) = Inr line) (filter (\<lambda>p. skip \<noteq> Some (fst p)) xs) lines" by blast
    ultimately show ?thesis using False by (intro exI [of _ "l # lines"]) simp
  qed
qed simp

lemma eres_eq_Inr: "eres r st = Inr (x, st') \<longleftrightarrow> r = Inr x \<and> st' = st"
  by (auto simp: eres_run split: sum.split)

lemma emitter_types [simp]: "e_types (emitter types flt n) = types"
  by (cases n) (simp_all add: Let_def)

lemma emf_four:
  assumes "emf fmt [lit a, m, lit b, m'] st = Inr (text, st')"
  obtains t st1 x where "m st = Inr (t, st1)" "m' st1 = Inr (x, st')" "text = strf fmt [a, t, b, x]"
  using assms by (auto simp: emf_def ebind_eq_Inr simp del: strf.simps)

text \<open>
  C33: A return drops every owned local once. Whatever statements (\<open>before\<close>, each at its
  indentation) were emitted since the function began, the text of \<open>ret v\<close> is exactly: one
  declaration that stores the emitted value in a fresh variable of the function's return type, one
  drop for each local that owns a value, the latest first, but none for the local that is returned,
  and the return of that variable. The owned locals are distinct, their types all have a drop, and
  the set of owned locals is left as it was.
\<close>

theorem return_drops_owned_locals:
  assumes before: "eseq (map (\<lambda>(s, i). emit_stmt (emitter types flt k)
        (\<lambda>b i. emit_block n (emitter types flt k) b i fn) s i fn) before) (owned_locals_reset st0) = Inr (texts, st)"
    and ret: "stmt_ret (emitter types flt k) s ind fn st = Inr (text, st')"
    and v: "n_value s = Some v"
  shows "\<exists>ty val st1 drops. let tmp = strf ''flx_return_value_%s'' [show_nat (em_return_tmp st)] in
      function_return_ctype (emitter types flt k) fn (st\<lparr>em_return_tmp := Suc (em_return_tmp st)\<rparr>) = Inr (ty, st1) \<and>
      emit_return_value_expr (emitter types flt k) v st1 = Inr (val, st') \<and>
      text = strf ''%s%s %s = %s;\<newline>'' [indent_text ind, ty, tmp, val] @ concat drops @
        strf ''%sreturn %s;\<newline>'' [indent_text ind, tmp] \<and>
      list_all2 (\<lambda>p line. emit_drop_stmt types ind (snd p) (fst p) = Inr line)
        (rev (filter (\<lambda>p. returned_owned_local_name types (em_owned st) v \<noteq> Some (fst p)) (em_owned st))) drops \<and>
      distinct (map fst (em_owned st)) \<and> (\<forall>p \<in> set (em_owned st). type_needs_drop types (Some (snd p))) \<and>
      em_owned st' = em_owned st"
proof -
  let ?R = "emitter types flt k" and ?R' = "emitter types flt (k + 0)"
  have "alike (tracked types) (emit_block n ?R b i fn) (emit_block (n + 0) ?R' b i fn)" for b i
    by (rule tracked_stmts.alike_emit_block)
  then have "alike (tracked types)
      (case p of (s, i) \<Rightarrow> emit_stmt ?R (\<lambda>b i. emit_block n ?R b i fn) s i fn)
      (case p of (s, i) \<Rightarrow> emit_stmt ?R' (\<lambda>b i. emit_block (n + 0) ?R' b i fn) s i fn)" for p
    by (cases p) (simp only: prod.case tracked_stmts.alike_emit_stmt)
  then have "alike (tracked types)
      (eseq (map (\<lambda>(s, i). emit_stmt ?R (\<lambda>b i. emit_block n ?R b i fn) s i fn) before))
      (eseq (map (\<lambda>(s, i). emit_stmt ?R' (\<lambda>b i. emit_block (n + 0) ?R' b i fn) s i fn) before))"
    by (intro tracked.alike_seq alikes_map)
  from alike_step [OF this before] have ok: "owned_ok types st"
    using owned_ok_reset by (auto simp: tracked_def)
  let ?st1 = "st\<lparr>em_return_tmp := Suc (em_return_tmp st)\<rparr>"
  let ?tmp = "strf ''flx_return_value_%s'' [show_nat (em_return_tmp st)]"
  obtain decl st2 drops where
      decl: "emf ''%s%s %s = %s;\<newline>'' [lit (indent_text ind), function_return_ctype (emitter types flt k) fn, lit ?tmp,
        emit_return_value_expr (emitter types flt k) v] ?st1 = Inr (decl, st2)"
    and drops: "drop_lines types ind (returned_owned_local_name types (em_owned st2) v) (rev (em_owned st2)) = Inr drops"
    and out: "text = decl @ drops @ strf ''%sreturn %s;\<newline>'' [indent_text ind, ?tmp]" "st' = st2"
    using ret v
    by (auto simp: stmt_ret_def fresh_return_def Let_def ebind_eq_Inr ecat_def emit_owned_local_drops_def
        eres_eq_Inr simp del: strf.simps)
  have "alike temporaries
      (emf fmt [lit pad, function_return_ctype ?R fn, lit tmp, emit_return_value_expr ?R v])
      (emf fmt [lit pad, function_return_ctype ?R' fn, lit tmp, emit_return_value_expr ?R' v])" for fmt pad tmp
    by (intro temporaries.alike_texts alikes_intros temporaries.alike_ret stored.alike_function_return_ctype
        stored.alike_emit_return_value_expr)
  from alike_step [OF this decl] have "temporaries ?st1 st2" .
  then have owned: "em_owned st2 = em_owned st" by (simp add: temporaries_def)
  from drop_lines_each [OF drops] obtain lines where "drops = concat lines"
    "list_all2 (\<lambda>p line. emit_drop_stmt types ind (snd p) (fst p) = Inr line)
      (rev (filter (\<lambda>p. returned_owned_local_name types (em_owned st) v \<noteq> Some (fst p)) (em_owned st))) lines"
    unfolding owned by (auto simp: rev_filter)
  moreover from emf_four [OF decl] obtain ty st3 val where
    "function_return_ctype (emitter types flt k) fn ?st1 = Inr (ty, st3)"
    "emit_return_value_expr (emitter types flt k) v st3 = Inr (val, st2)"
    "decl = strf ''%s%s %s = %s;\<newline>'' [indent_text ind, ty, ?tmp, val]" .
  ultimately show ?thesis
    using out owned ok unfolding Let_def
    by (intro exI [of _ ty] exI [of _ val] exI [of _ st3] exI [of _ lines])
      (auto simp: owned_ok_def simp del: strf.simps)
qed

text \<open>\<open>STR a = "x"\<close>, \<open>STR b = "x"\<close>, \<open>ret a\<close>.\<close>

definition typed :: "node \<Rightarrow> node" where
  "typed n = upd_attrs (\<lambda>a. a\<lparr>checked_type := Some ''STR''\<rparr>) n"

definition sample_local :: "string \<Rightarrow> node" where
  "sample_local name = set_value (typed (with_text ''x'' (synthetic NK_STR TK_STRING_LITERAL ''x'')))
     (with_name name (with_type ''STR'' (synthetic NK_VAR TK_NAME name)))"

definition sample_ret :: node where
  "sample_ret = set_value (typed (with_name ''a'' (synthetic NK_NAME TK_NAME ''a''))) (synthetic NK_RET TK_RET ''ret'')"

definition sample_owning_fn :: node where
  "sample_owning_fn = typed (with_name ''f'' (synthetic NK_FN TK_FN ''FN''))"

definition sample_before :: "string list em" where
  "sample_before = eseq (map (\<lambda>(s, i). emit_stmt (emitter [] id 3)
     (\<lambda>b i. emit_block 1 (emitter [] id 3) b i sample_owning_fn) s i sample_owning_fn)
     [(sample_local ''a'', 1), (sample_local ''b'', 1)])"

definition sample_owning :: "string list \<times> em_state" where
  "sample_owning = (case sample_before (owned_locals_reset em_start) of Inr r \<Rightarrow> r | Inl _ \<Rightarrow> ([], em_start))"

definition sample_returned :: "string \<times> em_state" where
  "sample_returned = (case stmt_ret (emitter [] id 3) sample_ret 1 sample_owning_fn (snd sample_owning) of
     Inr r \<Rightarrow> r | Inl _ \<Rightarrow> ([], em_start))"

lemma sample_owning_runs:
  "sample_before (owned_locals_reset em_start) = Inr (fst sample_owning, snd sample_owning)"
  "stmt_ret (emitter [] id 3) sample_ret 1 sample_owning_fn (snd sample_owning) = Inr (fst sample_returned, snd sample_returned)"
  "n_value sample_ret = Some (typed (with_name ''a'' (synthetic NK_NAME TK_NAME ''a'')))"
  by code_simp+

theorem return_drops_owned_locals_witness:
  "em_owned (snd sample_owning) = [(''a'', ''STR''), (''b'', ''STR'')] \<and>
   (\<exists>ty val drops.
      fst sample_returned =
        strf ''%s%s %s = %s;\<newline>'' [indent_text 1, ty, ''flx_return_value_0'', val] @ concat drops @
        ''    return flx_return_value_0;\<newline>'' \<and>
      list_all2 (\<lambda>p line. emit_drop_stmt [] 1 (snd p) (fst p) = Inr line) [(''b'', ''STR'')] drops)"
proof -
  have owned: "em_owned (snd sample_owning) = [(''a'', ''STR''), (''b'', ''STR'')]"
    and number: "em_return_tmp (snd sample_owning) = 0"
    and kept: "rev (filter (\<lambda>p. returned_owned_local_name [] [(''a'', ''STR''), (''b'', ''STR'')]
        (typed (with_name ''a'' (synthetic NK_NAME TK_NAME ''a''))) \<noteq> Some (fst p)) [(''a'', ''STR''), (''b'', ''STR'')]) = [(''b'', ''STR'')]"
    and line: "strf ''flx_return_value_%s'' [show_nat 0] = ''flx_return_value_0''"
      "strf ''%sreturn %s;\<newline>'' [indent_text 1, ''flx_return_value_0''] = ''    return flx_return_value_0;\<newline>''"
    by code_simp+
  from return_drops_owned_locals [OF sample_owning_runs(1) [unfolded sample_before_def] sample_owning_runs(2,3)]
  show ?thesis unfolding owned number kept line Let_def by blast
qed

end
