(* ===== verification/Paths.thy ===== *)
theory Paths
  imports Common
begin

text \<open>
  The driver's helpers on paths, shell words and the CMake cache
  (\<open>src/caster/driver/compiler.c\<close>, lines 38 to 320). The file system is the record \<open>world\<close>:
  what \<open>realpath\<close>, \<open>stat\<close>, \<open>access\<close> and \<open>fopen\<close> answer, and the global \<open>g_repo_root\<close>.
\<close>

section \<open>The world\<close>

record world =
  w_real :: "string \<Rightarrow> string option"
  w_regular :: "string \<Rightarrow> bool"
  w_readable :: "string \<Rightarrow> bool"
  w_disk :: "string \<Rightarrow> string option"
  w_root :: string

definition stringvec_push :: "string vec \<Rightarrow> string \<Rightarrow> string vec" where
  "stringvec_push v s = push_from 8 v s"

interpretation stringvec: growable vec_empty stringvec_push contents vec_ok
  by unfold_locales
    (simp_all add: vec_ok_empty contents_empty stringvec_push_def vec_ok_push_from contents_push_from)

definition stringvec_contains :: "string vec \<Rightarrow> string \<Rightarrow> bool" where
  "stringvec_contains v s \<longleftrightarrow> list_ex (\<lambda>i. v_items v ! i = Some s) [0..<v_len v]"

text \<open>From here on a \<open>StringVec\<close> is the list of its contents.\<close>

lemma stringvec_contains_contents:
  assumes "vec_ok v"
  shows "stringvec_contains v s \<longleftrightarrow> s \<in> set (contents v)"
proof -
  have len: "v_len v \<le> length (v_items v)" using assms by (simp add: vec_ok_def)
  have "v_items v ! i = Some s \<longleftrightarrow> contents v ! i = s" if "i < v_len v" for i
    using that assms len by (auto simp: vec_ok_def contents_def)
  moreover have "length (contents v) = v_len v" using len by (simp add: contents_def)
  ultimately show ?thesis
    by (auto simp: stringvec_contains_def list_ex_iff in_set_conv_nth [of s "contents v"])
qed

section \<open>Paths\<close>

definition file_exists :: "world \<Rightarrow> string \<Rightarrow> bool" where
  "file_exists w path = w_regular w path"

definition path_is_absolute :: "string \<Rightarrow> bool" where
  "path_is_absolute path \<longleftrightarrow> chead path = SLASH"

definition path_join :: "string \<Rightarrow> string \<Rightarrow> string" where
  "path_join dir name =
     (if path_is_absolute name then name
      else if dir = [] \<or> dir = ''.'' then name
      else if last dir = SLASH then dir @ name
      else dir @ ''/'' @ name)"

definition path_ends_with :: "string \<Rightarrow> string \<Rightarrow> bool" where
  "path_ends_with path ending = ends_with path ending"

text \<open>\<open>strrchr(path, '/')\<close> as an index.\<close>

definition last_slash :: "string \<Rightarrow> nat option" where
  "last_slash path =
     (if SLASH \<in> set path
      then Some (length path - 1 - length (takeWhile (\<lambda>c. c \<noteq> SLASH) (rev path))) else None)"

definition path_dirname :: "string \<Rightarrow> string" where
  "path_dirname path =
     (case last_slash path of
        None \<Rightarrow> ''.''
      | Some i \<Rightarrow> if i = 0 then ''/'' else take i path)"

definition path_basename :: "string \<Rightarrow> string" where
  "path_basename path = (case last_slash path of None \<Rightarrow> path | Some i \<Rightarrow> drop (i + 1) path)"

definition has_caster_ext :: "string \<Rightarrow> bool" where
  "has_caster_ext path = ends_with path ''.cast''"

definition path_with_caster_ext :: "string \<Rightarrow> string" where
  "path_with_caster_ext path = (if has_caster_ext path then path else path @ ''.cast'')"

definition canonical_existing_path :: "world \<Rightarrow> string \<Rightarrow> string" where
  "canonical_existing_path w path = (case w_real w path of Some r \<Rightarrow> r | None \<Rightarrow> path)"

lemma last_slash_append:
  assumes "SLASH \<notin> set base"
  shows "last_slash (dir @ SLASH # base) = Some (length dir)"
proof -
  have "takeWhile (\<lambda>c. c \<noteq> SLASH) (rev (dir @ SLASH # base)) = rev base"
    using assms by (simp add: takeWhile_append)
  then show ?thesis by (simp add: last_slash_def)
qed

lemma last_slash_none: "SLASH \<notin> set base \<Longrightarrow> last_slash base = None"
  by (simp add: last_slash_def)

lemma path_split:
  assumes "SLASH \<notin> set base"
  shows "path_basename (dir @ SLASH # base) = base"
    and "dir \<noteq> [] \<Longrightarrow> path_dirname (dir @ SLASH # base) = dir"
    and "path_basename base = base"
  using assms
  by (simp_all add: path_basename_def path_dirname_def last_slash_append last_slash_none)

section \<open>Module names\<close>

text \<open>\<open>upper_scan\<close> returns \<open>all_upper\<close> and \<open>saw_alpha\<close> after the first loop.\<close>

fun upper_scan :: "bool \<Rightarrow> bool \<Rightarrow> string \<Rightarrow> bool \<times> bool" where
  "upper_scan all_upper saw_alpha [] = (all_upper, saw_alpha)"
| "upper_scan all_upper saw_alpha (c # s) =
     (if isalpha c then (if \<not> isupper c then (False, True) else upper_scan True True s)
      else upper_scan all_upper saw_alpha s)"

fun camel :: "bool \<Rightarrow> string \<Rightarrow> string" where
  "camel cap_next [] = []"
| "camel cap_next (c # s) =
     (if \<not> isalnum c then camel True s
      else (if cap_next \<and> isalpha c then toupper c else c) # camel False s)"

definition module_stem :: "string \<Rightarrow> string" where
  "module_stem path =
     (let base = path_basename path
      in if ends_with base ''.cast'' then take (length base - 5) base else base)"

definition module_name_from_path :: "string \<Rightarrow> string" where
  "module_name_from_path path =
     (let stem = module_stem path; (all_upper, saw_alpha) = upper_scan False False stem
      in if all_upper \<and> saw_alpha then stem
         else (let out = camel True stem in if out \<noteq> [] then out else stem))"

definition module_prefix_from_path :: "string \<Rightarrow> string" where
  "module_prefix_from_path path = module_name_from_path path @ ''_''"

definition is_native_import_path :: "string \<Rightarrow> bool" where
  "is_native_import_path path \<longleftrightarrow>
     starts_with path ''native_libs/'' \<or> starts_with path ''./native_libs/'' \<or> contains path ''/native_libs/''"

definition default_exe_path_from_output :: "string \<Rightarrow> string" where
  "default_exe_path_from_output output_path =
     (if path_ends_with output_path ''.C'' then take (length output_path - 2) output_path
      else output_path @ ''.out'')"

lemma upper_scan_eq:
  "fst (upper_scan True True s) \<longleftrightarrow> list_all (\<lambda>c. isalpha c \<longrightarrow> isupper c) s"
  "fst (upper_scan False False s) \<longleftrightarrow> list_ex isalpha s \<and> list_all (\<lambda>c. isalpha c \<longrightarrow> isupper c) s"
  by (induction s) auto

lemma camel_alnum: "c \<in> set (camel cap s) \<Longrightarrow> isalnum c"
  by (induction cap s rule: camel.induct) (auto split: if_splits)

lemma camel_Nil: "camel cap s = [] \<longleftrightarrow> list_all (\<lambda>c. \<not> isalnum c) s"
  by (induction cap s rule: camel.induct) auto

section \<open>Shell words\<close>

definition shell_quote_char :: "char \<Rightarrow> string" where
  "shell_quote_char c = (if c = SQUOTE then [SQUOTE, BSLASH, SQUOTE, SQUOTE] else [c])"

definition shell_quote :: "string \<Rightarrow> string" where
  "shell_quote s = [SQUOTE] @ concat (map shell_quote_char s) @ [SQUOTE]"

text \<open>
  What a POSIX shell reads as one word (XCU 2.2 and 2.3), for input without double quotes and
  expansions outside single quotes: text in single quotes is literal, a backslash outside
  quotes takes the next character, an unquoted blank ends the word. \<open>q\<close> says whether the
  reader is inside single quotes; the result is the word and what follows it.
\<close>

fun sh_word :: "bool \<Rightarrow> string \<Rightarrow> (string \<times> string) option" where
  "sh_word q [] = (if q then None else Some ([], []))"
| "sh_word True (c # s) =
     (if c = SQUOTE then sh_word False s else map_option (\<lambda>(w, r). (c # w, r)) (sh_word True s))"
| "sh_word False (c # s) =
     (if c = SQUOTE then sh_word True s
      else if c = BSLASH then
        (case s of [] \<Rightarrow> None | d # s' \<Rightarrow> map_option (\<lambda>(w, r). (d # w, r)) (sh_word False s'))
      else if c = SPACE \<or> c = TAB \<or> c = NL then Some ([], c # s)
      else if c \<in> set ''|&;<>()$\"`*?[#~'' then None
      else map_option (\<lambda>(w, r). (c # w, r)) (sh_word False s))"

lemma sh_word_quoted:
  "sh_word True (concat (map shell_quote_char s) @ SQUOTE # r) =
     map_option (\<lambda>(w, r). (s @ w, r)) (sh_word False r)"
proof (induction s)
  case Nil
  then show ?case by (simp add: option.map_ident case_prod_unfold)
next
  case (Cons c s)
  then show ?case
    by (simp add: shell_quote_char_def option.map_comp comp_def case_prod_unfold)
qed

section \<open>The CMake cache\<close>

text \<open>The cache entry \<open>KEY:TYPE=VALUE\<close> of a key: the first line with the key before its first
  \<open>:\<close>, when a \<open>=\<close> follows.\<close>

definition cache_line_value :: "string \<Rightarrow> string \<Rightarrow> string option" where
  "cache_line_value key line =
     (let colon = length (takeWhile (\<lambda>c. c \<noteq> CHR '':'') line);
          equals = length (takeWhile (\<lambda>c. c \<noteq> CHR ''='') line)
      in if colon < length line \<and> equals < length line \<and> colon < equals
            \<and> colon = length key \<and> take (length key) line = key
         then Some (drop (equals + 1) line) else None)"

function cmake_find :: "string \<Rightarrow> string \<Rightarrow> string" where
  "cmake_find key src =
     (if src = [] then []
      else (let line = takeWhile (\<lambda>c. c \<noteq> NL) src
            in case cache_line_value key line of
                 Some v \<Rightarrow> v
               | None \<Rightarrow> cmake_find key (drop (length line + 1) src)))"
  by pat_completeness auto
termination
  by (relation "measure (\<lambda>(key, src). length src)") (auto simp: Let_def)

declare cmake_find.simps [simp del]

definition cmake_cache_value :: "world \<Rightarrow> string \<Rightarrow> string \<Rightarrow> string result" where
  "cmake_cache_value w cache_path key =
     rbind (read_file (w_disk w) cache_path) (\<lambda>src. Inr (cmake_find key src))"

definition cmake_cache_missing_value :: "string \<Rightarrow> bool" where
  "cmake_cache_missing_value v \<longleftrightarrow> v = [] \<or> contains v ''-NOTFOUND''"

definition cmake_cache_first_value :: "world \<Rightarrow> string \<Rightarrow> string \<Rightarrow> string \<Rightarrow> string result" where
  "cmake_cache_first_value w cache_path first_key second_key =
     rbind (cmake_cache_value w cache_path first_key) (\<lambda>v.
       if \<not> cmake_cache_missing_value v then Inr v
       else cmake_cache_value w cache_path second_key)"

text \<open>The items of a CMake list, cut at every \<open>;\<close>.\<close>

fun split_semicolons :: "string \<Rightarrow> string list" where
  "split_semicolons [] = [[]]"
| "split_semicolons (c # s) =
     (if c = CHR '';'' then [] # split_semicolons s
      else (case split_semicolons s of [] \<Rightarrow> [[c]] | x # xs \<Rightarrow> (c # x) # xs))"

definition link_flag :: "string \<Rightarrow> string" where
  "link_flag item =
     (if item = [] then []
      else if chead item = SLASH \<or> chead item = CHR ''-'' then '' '' @ shell_quote item
      else '' -l'' @ item)"

definition link_flags_from_cmake_list :: "string \<Rightarrow> string" where
  "link_flags_from_cmake_list v =
     (if cmake_cache_missing_value v then [] else concat (map link_flag (split_semicolons v)))"

definition h2o_dirs :: "string list" where
  "h2o_dirs =
    [''vendor/h2o/include'', ''vendor/h2o/deps/cloexec'', ''vendor/h2o/deps/golombset'',
     ''vendor/h2o/deps/hiredis'', ''vendor/h2o/deps/libgkc'', ''vendor/h2o/deps/libyrmcds'',
     ''vendor/h2o/deps/klib'', ''vendor/h2o/deps/neverbleed'', ''vendor/h2o/deps/picohttpparser'',
     ''vendor/h2o/deps/picotest'', ''vendor/h2o/deps/picotls/deps/cifra/src/ext'',
     ''vendor/h2o/deps/picotls/deps/cifra/src'', ''vendor/h2o/deps/picotls/deps/micro-ecc'',
     ''vendor/h2o/deps/picotls/include'', ''vendor/h2o/deps/quicly/include'',
     ''vendor/h2o/deps/yaml/include'', ''vendor/h2o/deps/yoml'', ''vendor/h2o/build'']"

definition h2o_include_flags :: "string \<Rightarrow> string \<Rightarrow> string \<Rightarrow> bool \<Rightarrow> string" where
  "h2o_include_flags repo_root openssl_include wslay_include enable_websocket =
     concat (map (\<lambda>d. '' -isystem '' @ shell_quote (path_join repo_root d)) h2o_dirs)
     @ (if \<not> cmake_cache_missing_value openssl_include
        then '' -isystem '' @ shell_quote openssl_include else [])
     @ (if enable_websocket \<and> \<not> cmake_cache_missing_value wslay_include
        then '' -isystem '' @ shell_quote wslay_include @ '' -DFLX_ENABLE_WEBSOCKET=1'' else [])"

definition h2o_cache :: "world \<Rightarrow> string" where
  "h2o_cache w = path_join (w_root w) ''vendor/h2o/build/CMakeCache.txt''"

definition h2o_lib :: "world \<Rightarrow> string" where
  "h2o_lib w = path_join (w_root w) ''vendor/h2o/build/libh2o-evloop.a''"

definition require_h2o :: "world \<Rightarrow> unit exit_result" where
  "require_h2o w =
     (if \<not> w_readable w (h2o_lib w) \<or> \<not> w_readable w (h2o_cache w)
      then Inl (ExitMsg (''caster: error: REQ requires H2O at '' @ h2o_lib w
                  @ ''; run `make -f build/Makefile h2o` first''))
      else Inr ())"

definition h2o_link_flags :: "world \<Rightarrow> string exit_result" where
  "h2o_link_flags w =
     rbind (require_h2o w) (\<lambda>_.
     rbind (or_failed (cmake_cache_value w (h2o_cache w) ''OPENSSL_SSL_LIBRARY'')) (\<lambda>ssl.
     rbind (or_failed (cmake_cache_value w (h2o_cache w) ''OPENSSL_CRYPTO_LIBRARY'')) (\<lambda>crypto.
     rbind (or_failed (cmake_cache_first_value w (h2o_cache w) ''ZLIB_LIBRARY_RELEASE'' ''ZLIB_LIBRARY'')) (\<lambda>zlib.
     rbind (or_failed (cmake_cache_first_value w (h2o_cache w) ''WSLAY_LIBRARIES'' ''WSLAY_LIBS'')) (\<lambda>wslay.
     if cmake_cache_missing_value ssl \<or> cmake_cache_missing_value crypto
     then Inl (ExitMsg ''caster: error: H2O build is missing OpenSSL libraries; rerun `make -f build/Makefile h2o`'')
     else Inr (shell_quote (h2o_lib w) @ '' '' @ shell_quote ssl @ '' '' @ shell_quote crypto
            @ (if \<not> cmake_cache_missing_value zlib then '' '' @ shell_quote zlib else [])
            @ (if \<not> cmake_cache_missing_value wslay then '' '' @ link_flags_from_cmake_list wslay else [])
            @ '' -lm -pthread''))))))"

definition h2o_compile_flags :: "world \<Rightarrow> string exit_result" where
  "h2o_compile_flags w =
     rbind (require_h2o w) (\<lambda>_.
     rbind (or_failed (cmake_cache_value w (h2o_cache w) ''OPENSSL_INCLUDE_DIR'')) (\<lambda>openssl_include.
     rbind (or_failed (cmake_cache_first_value w (h2o_cache w) ''WSLAY_INCLUDE_DIR'' ''WSLAY_INCLUDEDIR'')) (\<lambda>wslay_include.
     rbind (or_failed (cmake_cache_first_value w (h2o_cache w) ''WSLAY_LIBRARIES'' ''WSLAY_LIBS'')) (\<lambda>wslay.
     Inr (h2o_include_flags (w_root w) openssl_include wslay_include
            (\<not> cmake_cache_missing_value wslay_include \<and> \<not> cmake_cache_missing_value wslay))))))"

section \<open>Properties\<close>

text \<open>
  The CMake cache lookup returns the value of the first line that has the key, and the empty
  string when there is none.
\<close>

theorem cmake_find_lines:
  assumes "\<forall>l \<in> set ls. NL \<notin> set l"
  shows "cmake_find key (concat (map (\<lambda>l. l @ [NL]) ls)) =
     (case List.map_filter (cache_line_value key) ls of [] \<Rightarrow> [] | v # vs \<Rightarrow> v)"
  using assms
proof (induction ls)
  case Nil
  then show ?case by (simp add: cmake_find.simps List.map_filter_def)
next
  case (Cons l ls)
  have "takeWhile (\<lambda>c. c \<noteq> NL) ((l @ [NL]) @ t) = l" for t
    using Cons.prems by (simp add: takeWhile_append)
  then show ?case
    using Cons
    by (subst cmake_find.simps) (auto simp: Let_def List.map_filter_def split: option.splits)
qed

theorem cmake_find_lines_witness:
  "cmake_find ''K'' (concat (map (\<lambda>l. l @ [NL]) [''J:S=1'', ''K:S=2''])) =
     (case List.map_filter (cache_line_value ''K'') [''J:S=1'', ''K:S=2''] of [] \<Rightarrow> [] | v # vs \<Rightarrow> v)"
  by (rule cmake_find_lines) simp

end
