(* ===== verification/Modules.thy ===== *)
theory Modules
  imports Paths
begin

text \<open>
  Rewriting module sources (\<open>src/caster/driver/compiler.c\<close>, lines 322 to 801). Six loops of
  the driver walk source text with the same flags \<open>in_line_comment\<close>, \<open>in_block_comment\<close>,
  \<open>in_string\<close>, \<open>in_raw\<close> and differ in what they do with a word. The walk is modelled once, as
  the list of pieces it cuts the text into; each loop is a map or fold over the pieces.
\<close>

section \<open>The walk\<close>

datatype scan_mode = Code | LineComment | BlockComment | InString | InRaw

definition is_ident_start :: "char \<Rightarrow> bool" where
  "is_ident_start c \<longleftrightarrow> isalpha c \<or> c = CHR ''_''"

definition is_ident_char :: "char \<Rightarrow> bool" where
  "is_ident_char c \<longleftrightarrow> isalnum c \<or> c = CHR ''_''"

text \<open>
  A round of the loop on text that is a comment, a literal or the start of one: the next mode
  and the number of bytes passed over. \<open>None\<close> is a round on program text.
\<close>

definition mode_step :: "scan_mode \<Rightarrow> string \<Rightarrow> (scan_mode \<times> nat) option" where
  "mode_step mode s =
     (let ch = chead s; ch1 = chead (tl s) in
      case mode of
        LineComment \<Rightarrow> Some (if ch = NL \<or> ch = CR then Code else LineComment, 1)
      | BlockComment \<Rightarrow> if ch = STAR \<and> ch1 = SLASH then Some (Code, 2) else Some (BlockComment, 1)
      | InString \<Rightarrow>
          if ch = BSLASH \<and> ch1 \<noteq> NUL then Some (InString, 2)
          else if ch = DQUOTE then Some (Code, 1) else Some (InString, 1)
      | InRaw \<Rightarrow> Some (if ch = BQUOTE then Code else InRaw, 1)
      | Code \<Rightarrow>
          if ch = SLASH \<and> ch1 = SLASH then Some (LineComment, 2)
          else if ch = SLASH \<and> ch1 = STAR then Some (BlockComment, 2)
          else if ch = DQUOTE then Some (InString, 1)
          else if ch = BQUOTE then Some (InRaw, 1)
          else None)"

text \<open>
  A piece of the text: bytes of a comment or literal, a word with the text before it (backwards)
  and after it, or one other byte of program text.
\<close>

datatype piece = Skip string | Word string string string | Other char

lemma ident_start_char [simp]: "is_ident_start c \<Longrightarrow> is_ident_char c"
  by (auto simp: is_ident_start_def is_ident_char_def)

lemma mode_step_pos: "mode_step mode s = Some (mode', n) \<Longrightarrow> 0 < n"
  by (auto simp: mode_step_def Let_def split: scan_mode.splits if_splits)

lemma length_dropWhile_ident: "s \<noteq> [] \<Longrightarrow> is_ident_start (chead s) \<Longrightarrow>
    length (dropWhile is_ident_char s) < length s"
  by (cases s) (auto simp: length_dropWhile_le le_imp_less_Suc)

function pieces :: "scan_mode \<Rightarrow> string \<Rightarrow> string \<Rightarrow> piece list" where
  "pieces mode past s =
     (if s = [] then []
      else (case mode_step mode s of
              Some (mode', n) \<Rightarrow> Skip (take n s) # pieces mode' (rev (take n s) @ past) (drop n s)
            | None \<Rightarrow>
                if is_ident_start (chead s)
                then (let w = takeWhile is_ident_char s; s' = dropWhile is_ident_char s
                      in Word past w s' # pieces mode (rev w @ past) s')
                else Other (chead s) # pieces mode (chead s # past) (tl s)))"
  by pat_completeness auto
termination
  by (relation "measure (\<lambda>(mode, past, s). length s)")
    (auto simp: length_dropWhile_ident dest: mode_step_pos)

declare pieces.simps [simp del]

fun piece_text :: "piece \<Rightarrow> string" where
  "piece_text (Skip t) = t"
| "piece_text (Word past w rest) = w"
| "piece_text (Other c) = [c]"

section \<open>Names declared by a module\<close>

definition ident_head :: "string \<Rightarrow> string list" where
  "ident_head s = (if is_ident_start (chead s) then [takeWhile is_ident_char s] else [])"

definition is_blank :: "char \<Rightarrow> bool" where
  "is_blank c \<longleftrightarrow> c = SPACE \<or> c = TAB \<or> c = CR \<or> c = NL"

fun native_fn_name :: "piece \<Rightarrow> string list" where
  "native_fn_name (Word past w rest) = (if w = ''FN'' then ident_head (dropWhile is_blank rest) else [])"
| "native_fn_name _ = []"

definition collect_native_function_names :: "string \<Rightarrow> string list" where
  "collect_native_function_names src = concat (map native_fn_name (pieces Code [] src))"

definition prev_nonspace :: "string \<Rightarrow> string" where
  "prev_nonspace past = dropWhile isspace past"

definition next_nonspace :: "string \<Rightarrow> string" where
  "next_nonspace rest = dropWhile isspace rest"

text \<open>\<open>skip_balanced_brackets\<close> from the first byte; \<open>depth\<close> is a C \<open>int\<close>.\<close>

fun skip_balanced_brackets :: "int \<Rightarrow> string \<Rightarrow> string" where
  "skip_balanced_brackets depth [] = []"
| "skip_balanced_brackets depth (c # s) =
     (if c = CHR ''['' then skip_balanced_brackets (depth + 1) s
      else if c = CHR '']'' then
        (if depth - 1 = 0 then s else skip_balanced_brackets (depth - 1) s)
      else skip_balanced_brackets depth s)"

definition collect_ident_after_keyword :: "string \<Rightarrow> string list" where
  "collect_ident_after_keyword rest = ident_head (next_nonspace rest)"

definition collect_ident_after_type_head :: "string \<Rightarrow> string list" where
  "collect_ident_after_type_head rest =
     (let s = next_nonspace rest
      in ident_head (if chead s = CHR ''['' then next_nonspace (skip_balanced_brackets 0 s) else s))"

definition export_names :: "string \<Rightarrow> string \<Rightarrow> string list" where
  "export_names w rest =
     (if w = ''FN'' then collect_ident_after_type_head rest
      else if w = ''TYPE'' then collect_ident_after_keyword rest
      else if w = ''MAP'' \<or> w = ''ARR'' \<or> w = ''REF'' \<or> w = ''TSK'' then collect_ident_after_type_head rest
      else if w = ''INT'' \<or> w = ''FLT'' \<or> w = ''BOL'' \<or> w = ''STR'' \<or> w = ''DYN''
        then collect_ident_after_keyword rest
      else [])"

record depths =
  paren_depth :: nat
  brace_depth :: nat
  bracket_depth :: nat

definition depth_step :: "char \<Rightarrow> depths \<Rightarrow> depths" where
  "depth_step c d =
     (if c = CHR ''('' then d\<lparr>paren_depth := paren_depth d + 1\<rparr>
      else if c = CHR '')'' \<and> 0 < paren_depth d then d\<lparr>paren_depth := paren_depth d - 1\<rparr>
      else if c = CHR ''{'' then d\<lparr>brace_depth := brace_depth d + 1\<rparr>
      else if c = CHR ''}'' \<and> 0 < brace_depth d then d\<lparr>brace_depth := brace_depth d - 1\<rparr>
      else if c = CHR ''['' then d\<lparr>bracket_depth := bracket_depth d + 1\<rparr>
      else if c = CHR '']'' \<and> 0 < bracket_depth d then d\<lparr>bracket_depth := bracket_depth d - 1\<rparr>
      else d)"

definition top_level :: "depths \<Rightarrow> bool" where
  "top_level d \<longleftrightarrow> paren_depth d = 0 \<and> brace_depth d = 0 \<and> bracket_depth d = 0"

fun exports_from :: "depths \<Rightarrow> piece list \<Rightarrow> string list" where
  "exports_from d [] = []"
| "exports_from d (Skip t # ps) = exports_from d ps"
| "exports_from d (Word past w rest # ps) =
     (if top_level d then export_names w rest else []) @ exports_from d ps"
| "exports_from d (Other c # ps) = exports_from (depth_step c d) ps"

definition collect_local_module_export_names :: "string \<Rightarrow> string list" where
  "collect_local_module_export_names src =
     exports_from \<lparr>paren_depth = 0, brace_depth = 0, bracket_depth = 0\<rparr> (pieces Code [] src)"

section \<open>Rewriting\<close>

definition should_prefix_local_ident :: "string list \<Rightarrow> string \<Rightarrow> string \<Rightarrow> string \<Rightarrow> string \<Rightarrow> bool" where
  "should_prefix_local_ident names pre past ident rest \<longleftrightarrow>
     ident \<in> set names \<and> \<not> starts_with ident pre \<and>
     \<not> (prev_nonspace past \<noteq> [] \<and> hd (prev_nonspace past) = CHR ''.'') \<and>
     chead (next_nonspace rest) \<noteq> CHR ''.''"

definition is_native_fn_declaration :: "string \<Rightarrow> bool" where
  "is_native_fn_declaration past \<longleftrightarrow>
     (case prev_nonspace past of
        n # f # before \<Rightarrow>
          n = CHR ''N'' \<and> f = CHR ''F'' \<and>
          (case prev_nonspace before of [] \<Rightarrow> True | c # _ \<Rightarrow> \<not> is_ident_char c)
      | _ \<Rightarrow> False)"

definition should_prefix_native_ident :: "string list \<Rightarrow> string \<Rightarrow> string \<Rightarrow> string \<Rightarrow> bool" where
  "should_prefix_native_ident fn_names past ident rest \<longleftrightarrow>
     ident \<in> set fn_names \<and>
     (is_native_fn_declaration past \<or>
      chead (next_nonspace rest) = CHR ''('' \<or>
      (prev_nonspace past \<noteq> [] \<and> hd (prev_nonspace past) = CHR '','' \<and>
       chead (next_nonspace rest) = CHR '')''))"

fun rewrite_piece :: "(string \<Rightarrow> string \<Rightarrow> string \<Rightarrow> bool) \<Rightarrow> string \<Rightarrow> piece \<Rightarrow> string" where
  "rewrite_piece should pre (Word past w rest) = (if should past w rest then pre @ w else w)"
| "rewrite_piece should pre p = piece_text p"

definition rewrite_local_module_source :: "string \<Rightarrow> string \<Rightarrow> string" where
  "rewrite_local_module_source src pre =
     (let names = collect_local_module_export_names src
      in if names = [] then src
         else concat (map (rewrite_piece (should_prefix_local_ident names pre) pre) (pieces Code [] src)))"

definition rewrite_native_module_source :: "string \<Rightarrow> string \<Rightarrow> string" where
  "rewrite_native_module_source src pre =
     (let fn_names = collect_native_function_names src
      in if fn_names = [] then src
         else concat (map (rewrite_piece (should_prefix_native_ident fn_names) pre) (pieces Code [] src)))"

section \<open>Qualified names\<close>

definition is_module_ident :: "string \<Rightarrow> bool" where
  "is_module_ident ident \<longleftrightarrow> ident \<noteq> [] \<and> isupper (hd ident)"

fun unknown_module :: "string list \<Rightarrow> string list \<Rightarrow> piece \<Rightarrow> bool" where
  "unknown_module visible local (Word past w rest) =
     (chead (next_nonspace rest) = CHR ''.'' \<and> is_module_ident w \<and> w \<notin> set visible \<and> w \<notin> set local)"
| "unknown_module visible local p = False"

definition validate_qualified_modules :: "string \<Rightarrow> string \<Rightarrow> string list \<Rightarrow> string list \<Rightarrow> unit result" where
  "validate_qualified_modules path src visible_modules local_names =
     (case filter (unknown_module visible_modules local_names) (pieces Code [] src) of
        [] \<Rightarrow> Inr ()
      | p # _ \<Rightarrow> Inl (DieMsg (path @ '': module '' @ [SQUOTE] @ piece_text p @ [SQUOTE] @ '' is not imported'')))"

section \<open>The pieces make up the text\<close>

lemma pieces_text: "concat (map piece_text (pieces mode past s)) = s"
proof (induction mode past s rule: pieces.induct)
  case (1 mode past s)
  then show ?case
    by (subst pieces.simps) (cases s; auto simp: Let_def split: option.splits)
qed

lemma ident_start_plain:
  "is_ident_start c \<Longrightarrow> c \<noteq> SLASH \<and> c \<noteq> STAR \<and> c \<noteq> DQUOTE \<and> c \<noteq> BQUOTE \<and> c \<noteq> NUL"
  by (auto simp: is_ident_start_def char_defs)

text \<open>Only program text is cut into words.\<close>

lemma mode_step_None: "mode_step mode s = None \<Longrightarrow> mode = Code"
  by (auto simp: mode_step_def Let_def split: scan_mode.splits if_splits)

section \<open>Rewriting changes nothing but words\<close>

lemma pieces_Nil: "pieces mode past [] = []"
  by (simp add: pieces.simps)

lemma pieces_skip:
  "s \<noteq> [] \<Longrightarrow> mode_step mode s = Some (mode', n) \<Longrightarrow>
     pieces mode past s = Skip (take n s) # pieces mode' (rev (take n s) @ past) (drop n s)"
  by (subst pieces.simps) simp

lemma pieces_word:
  "s \<noteq> [] \<Longrightarrow> mode_step mode s = None \<Longrightarrow> is_ident_start (chead s) \<Longrightarrow>
     pieces mode past s = Word past (takeWhile is_ident_char s) (dropWhile is_ident_char s)
       # pieces mode (rev (takeWhile is_ident_char s) @ past) (dropWhile is_ident_char s)"
  by (subst pieces.simps) (simp add: Let_def)

lemma pieces_other:
  "s \<noteq> [] \<Longrightarrow> mode_step mode s = None \<Longrightarrow> \<not> is_ident_start (chead s) \<Longrightarrow>
     pieces mode past s = Other (chead s) # pieces mode (chead s # past) (tl s)"
  by (subst pieces.simps) simp

text \<open>Two next bytes the walk cannot tell apart.\<close>

definition same_look :: "char \<Rightarrow> char \<Rightarrow> bool" where
  "same_look a b \<longleftrightarrow> a = b \<or> is_ident_start a \<and> is_ident_start b"

lemma mode_step_look:
  "same_look a b \<Longrightarrow> chead s = chead t \<Longrightarrow> chead (tl s) = a \<Longrightarrow> chead (tl t) = b \<Longrightarrow>
    mode_step mode s = mode_step mode t"
  using ident_start_plain by (auto simp: same_look_def mode_step_def Let_def split: scan_mode.splits)

definition good_rewrite :: "string \<Rightarrow> (piece \<Rightarrow> string) \<Rightarrow> bool" where
  "good_rewrite pre f \<longleftrightarrow>
     (\<forall>p. f p = piece_text p \<or> (\<exists>past w rest. p = Word past w rest \<and> f p = pre @ w))"

lemma good_rewriteD:
  assumes "good_rewrite pre f"
  shows "f (Skip t) = t" "f (Other c) = [c]"
    "f (Word past w rest) = w \<or> f (Word past w rest) = pre @ w"
proof -
  have *: "f p = piece_text p \<or> (\<exists>past w rest. p = Word past w rest \<and> f p = pre @ w)" for p
    using assms by (simp add: good_rewrite_def)
  show "f (Skip t) = t" "f (Other c) = [c]" "f (Word past w rest) = w \<or> f (Word past w rest) = pre @ w"
    using * [of "Skip t"] * [of "Other c"] * [of "Word past w rest"] by auto
qed

definition ident_prefix :: "string \<Rightarrow> bool" where
  "ident_prefix pre \<longleftrightarrow> is_ident_start (chead pre) \<and> list_all is_ident_char pre"

lemma not_ident_after_word: "\<not> is_ident_char (chead (dropWhile is_ident_char s))"
proof (induction s)
  case Nil
  then show ?case by (simp add: is_ident_char_def char_defs)
qed simp

lemma pieces_word_then:
  assumes w: "is_ident_start (chead w)" "\<forall>c \<in> set w. is_ident_char c" "w \<noteq> []"
    and out: "out = [] \<or> \<not> is_ident_char (hd out)"
  shows "pieces Code past (w @ out) = Word past w out # pieces Code (rev w @ past) out"
proof -
  have tw: "takeWhile is_ident_char (w @ out) = w" "dropWhile is_ident_char (w @ out) = out"
    using w(2) out by (cases out; auto simp: takeWhile_append dropWhile_append)+
  have hd: "is_ident_start (chead (w @ out))" "w @ out \<noteq> []"
    using w by (cases w; simp)+
  have "mode_step Code (w @ out) = None"
    using ident_start_plain [OF hd(1)] by (simp add: mode_step_def Let_def)
  from pieces_word [OF hd(2) this hd(1)] show ?thesis unfolding tw .
qed

lemma rewrite_look:
  assumes f: "good_rewrite pre f" and pre: "ident_prefix pre"
  shows "same_look (chead (concat (map f (pieces mode past s)))) (chead s)"
proof (cases "s = []")
  case True
  then show ?thesis by (simp add: pieces.simps same_look_def)
next
  case False
  show ?thesis
  proof (cases "mode_step mode s")
    case (Some r)
    obtain mode' n where r: "r = (mode', n)" by (cases r)
    have "take n s \<noteq> []" using mode_step_pos [of mode s mode' n] Some r False by auto
    moreover have "f (Skip (take n s)) = take n s" using good_rewriteD [OF f] by auto
    ultimately show ?thesis
      using False Some r by (subst pieces.simps) (cases s; cases n; auto simp: same_look_def)
  next
    case None
    have other: "f (Other (chead s)) = [chead s]" using good_rewriteD [OF f] by auto
    have "f (Word past (takeWhile is_ident_char s) (dropWhile is_ident_char s)) \<in>
        {takeWhile is_ident_char s, pre @ takeWhile is_ident_char s}"
      using good_rewriteD [OF f] by auto
    then show ?thesis
      using False None other pre
      by (subst pieces.simps) (cases s; cases pre; auto simp: same_look_def ident_prefix_def Let_def)
  qed
qed

section \<open>Source text\<close>

text \<open>
  What source text is, apart from any walk over it: a sequence of line comments, block comments,
  strings, raw strings, words and other bytes. Only the last item may be left open by the end of
  the text. A string is made of plain bytes and of escapes of two bytes.
\<close>

datatype item_kind = LineItem | BlockItem | StringItem | RawItem | WordItem | ByteItem

definition string_unit :: "string \<Rightarrow> bool" where
  "string_unit u \<longleftrightarrow> (\<exists>c. u = [c] \<and> c \<noteq> DQUOTE \<and> c \<noteq> BSLASH) \<or> (\<exists>c. u = [BSLASH, c] \<and> c \<noteq> NUL)"

inductive source_items :: "(item_kind \<times> string) list \<Rightarrow> string \<Rightarrow> bool" where
  no_items: "source_items [] []"
| line_comment: "NL \<notin> set t \<Longrightarrow> CR \<notin> set t \<Longrightarrow> e = NL \<or> e = CR \<Longrightarrow> source_items is s \<Longrightarrow>
    source_items ((LineItem, [SLASH, SLASH] @ t @ [e]) # is) ([SLASH, SLASH] @ t @ [e] @ s)"
| line_comment_open: "NL \<notin> set t \<Longrightarrow> CR \<notin> set t \<Longrightarrow> source_items [(LineItem, [SLASH, SLASH] @ t)] ([SLASH, SLASH] @ t)"
| block_comment: "\<nexists>a b. t @ [STAR] = a @ [STAR, SLASH] @ b \<Longrightarrow> source_items is s \<Longrightarrow>
    source_items ((BlockItem, [SLASH, STAR] @ t @ [STAR, SLASH]) # is) ([SLASH, STAR] @ t @ [STAR, SLASH] @ s)"
| block_comment_open: "\<nexists>a b. t = a @ [STAR, SLASH] @ b \<Longrightarrow> source_items [(BlockItem, [SLASH, STAR] @ t)] ([SLASH, STAR] @ t)"
| string_literal: "list_all string_unit us \<Longrightarrow> source_items is s \<Longrightarrow>
    source_items ((StringItem, [DQUOTE] @ concat us @ [DQUOTE]) # is) ([DQUOTE] @ concat us @ [DQUOTE] @ s)"
| string_open: "list_all string_unit us \<Longrightarrow> e = [] \<or> e = [BSLASH] \<Longrightarrow>
    source_items [(StringItem, [DQUOTE] @ concat us @ e)] ([DQUOTE] @ concat us @ e)"
| raw_string: "BQUOTE \<notin> set t \<Longrightarrow> source_items is s \<Longrightarrow>
    source_items ((RawItem, [BQUOTE] @ t @ [BQUOTE]) # is) ([BQUOTE] @ t @ [BQUOTE] @ s)"
| raw_open: "BQUOTE \<notin> set t \<Longrightarrow> source_items [(RawItem, [BQUOTE] @ t)] ([BQUOTE] @ t)"
| word_item: "is_ident_start (chead w) \<Longrightarrow> list_all is_ident_char w \<Longrightarrow> w \<noteq> [] \<Longrightarrow> \<not> is_ident_char (chead s) \<Longrightarrow>
    source_items is s \<Longrightarrow> source_items ((WordItem, w) # is) (w @ s)"
| byte_item: "\<not> is_ident_start c \<Longrightarrow> c \<noteq> DQUOTE \<Longrightarrow> c \<noteq> BQUOTE \<Longrightarrow> (c = SLASH \<longrightarrow> chead s \<noteq> SLASH \<and> chead s \<noteq> STAR) \<Longrightarrow>
    source_items is s \<Longrightarrow> source_items ((ByteItem, [c]) # is) (c # s)"

text \<open>The walk over a comment or a literal: it is skipped, whatever follows.\<close>

definition skips :: "scan_mode \<Rightarrow> string \<Rightarrow> scan_mode \<Rightarrow> string \<Rightarrow> bool" where
  "skips mode t mode' rest \<longleftrightarrow> (\<forall>past. \<exists>ps past'. pieces mode past (t @ rest) = map Skip ps @ pieces mode' past' rest \<and> concat ps = t)"

lemma skips_Nil: "skips mode [] mode rest"
  unfolding skips_def by (metis append_Nil concat.simps(1) list.simps(8))

lemma skips_step:
  assumes "mode_step mode (t @ u @ rest) = Some (mode', length t)" and "t \<noteq> []" and "skips mode' u mode'' rest"
  shows "skips mode (t @ u) mode'' rest"
  unfolding skips_def
proof
  fix past
  obtain ps past' where "pieces mode' (rev t @ past) (u @ rest) = map Skip ps @ pieces mode'' past' rest" "concat ps = u"
    using assms(3) unfolding skips_def by blast
  then show "\<exists>ps past'. pieces mode past ((t @ u) @ rest) = map Skip ps @ pieces mode'' past' rest \<and> concat ps = t @ u"
    using pieces_skip [of "t @ u @ rest" mode mode' "length t" past] assms(1,2)
    by (intro exI [of _ "t # ps"] exI [of _ past']) simp
qed

lemma skips_byte:
  "mode_step mode (c # u @ rest) = Some (mode', 1) \<Longrightarrow> skips mode' u mode'' rest \<Longrightarrow> skips mode (c # u) mode'' rest"
  using skips_step [of mode "[c]" u rest mode' mode''] by simp

lemma skips_two:
  "mode_step mode (c # d # u @ rest) = Some (mode', 2) \<Longrightarrow> skips mode' u mode'' rest \<Longrightarrow> skips mode (c # d # u) mode'' rest"
  using skips_step [of mode "[c, d]" u rest mode' mode''] by (simp add: numeral_2_eq_2)

lemma skips_append: "skips mode t mode' (u @ rest) \<Longrightarrow> skips mode' u mode'' rest \<Longrightarrow> skips mode (t @ u) mode'' rest"
  unfolding skips_def
proof
  fix past
  assume t: "\<forall>past. \<exists>ps past'. pieces mode past (t @ u @ rest) = map Skip ps @ pieces mode' past' (u @ rest) \<and> concat ps = t"
    and u: "\<forall>past. \<exists>ps past'. pieces mode' past (u @ rest) = map Skip ps @ pieces mode'' past' rest \<and> concat ps = u"
  obtain ps past1 where 1: "pieces mode past (t @ u @ rest) = map Skip ps @ pieces mode' past1 (u @ rest)" "concat ps = t"
    using t by blast
  obtain qs past2 where 2: "pieces mode' past1 (u @ rest) = map Skip qs @ pieces mode'' past2 rest" "concat qs = u"
    using u by blast
  show "\<exists>ps past'. pieces mode past ((t @ u) @ rest) = map Skip ps @ pieces mode'' past' rest \<and> concat ps = t @ u"
    using 1 2 by (intro exI [of _ "ps @ qs"] exI [of _ past2]) simp
qed

lemma skips_line: "NL \<notin> set t \<Longrightarrow> CR \<notin> set t \<Longrightarrow> skips LineComment t LineComment rest"
  by (induction t) (auto intro!: skips_Nil skips_byte simp: mode_step_def Let_def)

lemma skips_raw: "BQUOTE \<notin> set t \<Longrightarrow> skips InRaw t InRaw rest"
  by (induction t) (auto intro!: skips_Nil skips_byte simp: mode_step_def Let_def)

lemma skips_string: "list_all string_unit us \<Longrightarrow> skips InString (concat us) InString rest"
proof (induction us)
  case (Cons u us)
  then have "skips InString (concat us) InString rest" "string_unit u" by simp_all
  then show ?case
    by (auto simp: string_unit_def mode_step_def Let_def intro!: skips_byte skips_two)
qed (simp add: skips_Nil)

lemma skips_block:
  "\<nexists>a b. t @ (if rest = [] then [] else [hd rest]) = a @ [STAR, SLASH] @ b \<Longrightarrow> skips BlockComment t BlockComment rest"
proof (induction t)
  case (Cons c t)
  have "skips BlockComment t BlockComment rest"
    by (rule Cons.IH) (use Cons.prems in \<open>metis append_Cons\<close>)
  moreover have "\<not> (c = STAR \<and> chead (t @ rest) = SLASH)"
  proof
    assume c: "c = STAR \<and> chead (t @ rest) = SLASH"
    show False
    proof (cases t)
      case Nil
      then show False using c Cons.prems by (cases rest) (auto simp: char_defs)
    next
      case (Cons d t')
      then show False using c Cons.prems by (metis append_Cons append_Nil chead_simps(2))
    qed
  qed
  ultimately show ?case by (intro skips_byte) (auto simp: mode_step_def Let_def)
qed (rule skips_Nil)

text \<open>Each comment and literal as a whole.\<close>

lemma skipped_literals:
  "NL \<notin> set t \<Longrightarrow> CR \<notin> set t \<Longrightarrow> e = NL \<or> e = CR \<Longrightarrow> skips Code ([SLASH, SLASH] @ t @ [e]) Code rest"
  "NL \<notin> set t \<Longrightarrow> CR \<notin> set t \<Longrightarrow> skips Code ([SLASH, SLASH] @ t) LineComment []"
  "\<nexists>a b. t @ [STAR] = a @ [STAR, SLASH] @ b \<Longrightarrow> skips Code ([SLASH, STAR] @ t @ [STAR, SLASH]) Code rest"
  "\<nexists>a b. t = a @ [STAR, SLASH] @ b \<Longrightarrow> skips Code ([SLASH, STAR] @ t) BlockComment []"
  "list_all string_unit us \<Longrightarrow> skips Code ([DQUOTE] @ concat us @ [DQUOTE]) Code rest"
  "list_all string_unit us \<Longrightarrow> e' = [] \<or> e' = [BSLASH] \<Longrightarrow> skips Code ([DQUOTE] @ concat us @ e') InString []"
  "BQUOTE \<notin> set t \<Longrightarrow> skips Code ([BQUOTE] @ t @ [BQUOTE]) Code rest"
  "BQUOTE \<notin> set t \<Longrightarrow> skips Code ([BQUOTE] @ t) InRaw []"
proof -
  have one: "skips mode [c] mode' rest" if "mode_step mode (c # rest) = Some (mode', 1)" for mode mode' c rest
    using skips_byte [of mode c "[]" rest mode' mode'] that by (simp add: skips_Nil)
  have two: "skips mode [c, d] mode' rest" if "mode_step mode (c # d # rest) = Some (mode', 2)" for mode mode' c d rest
    using skips_two [of mode c d "[]" rest mode' mode'] that by (simp add: skips_Nil)
  have step: "mode_step Code (SLASH # SLASH # r) = Some (LineComment, 2)" "mode_step Code (SLASH # STAR # r) = Some (BlockComment, 2)"
    "mode_step Code (DQUOTE # r) = Some (InString, 1)" "mode_step Code (BQUOTE # r) = Some (InRaw, 1)"
    "e = NL \<or> e = CR \<Longrightarrow> mode_step LineComment (e # r) = Some (Code, 1)"
    "mode_step BlockComment (STAR # SLASH # r) = Some (Code, 2)" "mode_step InString (DQUOTE # r) = Some (Code, 1)"
    "mode_step InString [BSLASH] = Some (InString, 1)" "mode_step InRaw (BQUOTE # r) = Some (Code, 1)" for e r
    by (auto simp: mode_step_def Let_def)
  show "NL \<notin> set t \<Longrightarrow> CR \<notin> set t \<Longrightarrow> e = NL \<or> e = CR \<Longrightarrow> skips Code ([SLASH, SLASH] @ t @ [e]) Code rest"
    by (rule skips_append [OF two [OF step(1)] skips_append [OF skips_line one [OF step(5)]]])
  show "NL \<notin> set t \<Longrightarrow> CR \<notin> set t \<Longrightarrow> skips Code ([SLASH, SLASH] @ t) LineComment []"
    by (rule skips_append [OF two [OF step(1)] skips_line])
  show "\<nexists>a b. t @ [STAR] = a @ [STAR, SLASH] @ b \<Longrightarrow> skips Code ([SLASH, STAR] @ t @ [STAR, SLASH]) Code rest"
    by (rule skips_append [OF two [OF step(2)] skips_append [OF skips_block two [OF step(6)]]]) simp
  show "\<nexists>a b. t = a @ [STAR, SLASH] @ b \<Longrightarrow> skips Code ([SLASH, STAR] @ t) BlockComment []"
    by (rule skips_append [OF two [OF step(2)] skips_block]) simp
  show "list_all string_unit us \<Longrightarrow> skips Code ([DQUOTE] @ concat us @ [DQUOTE]) Code rest"
    by (rule skips_append [OF one [OF step(3)] skips_append [OF skips_string one [OF step(7)]]])
  have "skips InString e' InString []" if "e' = [] \<or> e' = [BSLASH]"
    using that one [OF step(8)] skips_Nil by auto
  then show "list_all string_unit us \<Longrightarrow> e' = [] \<or> e' = [BSLASH] \<Longrightarrow> skips Code ([DQUOTE] @ concat us @ e') InString []"
    by (intro skips_append [OF one [OF step(3)] skips_append [OF skips_string]])
  show "BQUOTE \<notin> set t \<Longrightarrow> skips Code ([BQUOTE] @ t @ [BQUOTE]) Code rest"
    by (rule skips_append [OF one [OF step(4)] skips_append [OF skips_raw one [OF step(9)]]])
  show "BQUOTE \<notin> set t \<Longrightarrow> skips Code ([BQUOTE] @ t) InRaw []"
    by (rule skips_append [OF one [OF step(4)] skips_raw])
qed

lemma rewrite_skipped:
  assumes "skips mode t mode' rest" and "good_rewrite pre f"
  shows "\<exists>past'. concat (map f (pieces mode past (t @ rest))) = t @ concat (map f (pieces mode' past' rest))"
proof -
  obtain ps past' where "pieces mode past (t @ rest) = map Skip ps @ pieces mode' past' rest" "concat ps = t"
    using assms(1) unfolding skips_def by blast
  moreover have "map (f \<circ> Skip) ps = ps" using good_rewriteD(1) [OF assms(2)] by (simp add: map_idI)
  ultimately show ?thesis by (metis (no_types, lifting) concat_append map_append map_map)
qed

definition rewritten_item :: "(piece \<Rightarrow> string) \<Rightarrow> item_kind \<times> string \<Rightarrow> item_kind \<times> string \<Rightarrow> bool" where
  "rewritten_item f new old \<longleftrightarrow>
     fst new = fst old \<and> (snd new = snd old \<or> fst old = WordItem \<and> (\<exists>past rest. snd new = f (Word past (snd old) rest)))"

lemma rewritten_self [simp]: "rewritten_item f x x"
  by (simp add: rewritten_item_def)

lemma items_rewritten:
  assumes f: "good_rewrite pre f" and pre: "ident_prefix pre"
  shows "source_items is s \<Longrightarrow>
    \<exists>js. source_items js (concat (map f (pieces Code past s))) \<and> list_all2 (rewritten_item f) js is"
proof (induction "is" s arbitrary: past rule: source_items.induct)
  case no_items
  then show ?case by (auto simp: pieces_Nil intro: source_items.no_items)
next
  case (line_comment t e "is" s)
  then show ?case
    using rewrite_skipped [OF skipped_literals(1) f, of t e past s] source_items.line_comment [of t e]
    by (metis append.assoc list_all2_Cons rewritten_self)
next
  case (line_comment_open t)
  then show ?case
    using rewrite_skipped [OF skipped_literals(2) f, of t past] source_items.line_comment_open [of t]
    by (metis append_Nil2 concat.simps(1) list.simps(8) list_all2_Cons list_all2_Nil pieces_Nil rewritten_self)
next
  case (block_comment t "is" s)
  then show ?case
    using rewrite_skipped [OF skipped_literals(3) f, of t past s] source_items.block_comment [of t]
    by (metis append.assoc list_all2_Cons rewritten_self)
next
  case (block_comment_open t)
  then show ?case
    using rewrite_skipped [OF skipped_literals(4) f, of t past] source_items.block_comment_open [of t]
    by (metis append_Nil2 concat.simps(1) list.simps(8) list_all2_Cons list_all2_Nil pieces_Nil rewritten_self)
next
  case (string_literal us "is" s)
  then show ?case
    using rewrite_skipped [OF skipped_literals(5) f, of us past s] source_items.string_literal [of us]
    by (metis append.assoc list_all2_Cons rewritten_self)
next
  case (string_open us e)
  then show ?case
    using rewrite_skipped [OF skipped_literals(6) f, of us e past] source_items.string_open [of us e]
    by (metis append_Nil2 concat.simps(1) list.simps(8) list_all2_Cons list_all2_Nil pieces_Nil rewritten_self)
next
  case (raw_string t "is" s)
  then show ?case
    using rewrite_skipped [OF skipped_literals(7) f, of t past s] source_items.raw_string [of t]
    by (metis append.assoc list_all2_Cons rewritten_self)
next
  case (raw_open t)
  then show ?case
    using rewrite_skipped [OF skipped_literals(8) f, of t past] source_items.raw_open [of t]
    by (metis append_Nil2 concat.simps(1) list.simps(8) list_all2_Cons list_all2_Nil pieces_Nil rewritten_self)
next
  case (word_item w s "is")
  let ?past = "rev w @ past"
  have s: "s = [] \<or> \<not> is_ident_char (hd s)" using word_item(4) by (cases s) simp_all
  have p: "pieces Code past (w @ s) = Word past w s # pieces Code ?past s"
    using word_item(1-3) s by (intro pieces_word_then) (simp_all add: list_all_iff)
  obtain js where js: "source_items js (concat (map f (pieces Code ?past s)))" "list_all2 (rewritten_item f) js is"
    using word_item(6) by blast
  have word: "f (Word past w s) = w \<or> f (Word past w s) = pre @ w" using good_rewriteD [OF f] by auto
  then have "is_ident_start (chead (f (Word past w s)))" "list_all is_ident_char (f (Word past w s))" "f (Word past w s) \<noteq> []"
    using word_item(1-3) pre by (cases pre; auto simp: ident_prefix_def)+
  moreover have "\<not> is_ident_char (chead (concat (map f (pieces Code ?past s))))"
    using rewrite_look [OF f pre, of Code ?past s] word_item(4) by (auto simp: same_look_def)
  ultimately have "source_items ((WordItem, f (Word past w s)) # js) (f (Word past w s) @ concat (map f (pieces Code ?past s)))"
    using js(1) by (rule source_items.word_item)
  moreover have "rewritten_item f (WordItem, f (Word past w s)) (WordItem, w)" by (auto simp: rewritten_item_def)
  ultimately show ?case using js(2) p by (intro exI [of _ "(WordItem, f (Word past w s)) # js"]) simp
next
  case (byte_item c s "is")
  have "mode_step Code (c # s) = None" using byte_item(1-4) by (simp add: mode_step_def Let_def)
  then have p: "pieces Code past (c # s) = Other c # pieces Code (c # past) s"
    using byte_item(1) pieces_other [of "c # s" Code past] by simp
  obtain js where js: "source_items js (concat (map f (pieces Code (c # past) s)))" "list_all2 (rewritten_item f) js is"
    using byte_item(6) by blast
  have look: "same_look (chead (concat (map f (pieces Code (c # past) s)))) (chead s)" by (rule rewrite_look [OF f pre])
  have "source_items ((ByteItem, [c]) # js) (c # concat (map f (pieces Code (c # past) s)))"
    using byte_item(1-4) look ident_start_plain by (intro source_items.byte_item js(1)) (auto simp: same_look_def)
  then show ?case using js(2) p good_rewriteD(2) [OF f, of c] by (intro exI [of _ "(ByteItem, [c]) # js"]) simp
qed

text \<open>Every C string is such a sequence.\<close>

lemma string_units:
  "NUL \<notin> set r \<Longrightarrow> \<exists>us. list_all string_unit us \<and>
     ((\<exists>r'. r = concat us @ [DQUOTE] @ r') \<or> (\<exists>e. (e = [] \<or> e = [BSLASH]) \<and> r = concat us @ e))"
proof (induction r rule: length_induct)
  case (1 r)
  show ?case
  proof (cases r)
    case Nil
    then show ?thesis by (intro exI [of _ "[]"]) simp
  next
    case (Cons c s)
    consider "c = DQUOTE" | d s' where "c = BSLASH" "s = d # s'" | "c = BSLASH" "s = []" | "c \<noteq> DQUOTE" "c \<noteq> BSLASH"
      by (cases s) auto
    then show ?thesis
    proof cases
      case 1
      then show ?thesis using Cons by (intro exI [of _ "[]"]) simp
    next
      case (2 d s')
      then obtain us where us: "list_all string_unit us"
        "(\<exists>r'. s' = concat us @ [DQUOTE] @ r') \<or> (\<exists>e. (e = [] \<or> e = [BSLASH]) \<and> s' = concat us @ e)"
        using 1 Cons by (metis (no_types, lifting) length_Cons lessI less_SucI list.set_intros(2))
      have "string_unit [BSLASH, d]" using 1 Cons 2 by (auto simp: string_unit_def)
      then show ?thesis using us Cons 2 by (intro exI [of _ "[BSLASH, d] # us"]) auto
    next
      case 3
      then show ?thesis using Cons by (intro exI [of _ "[]"]) simp
    next
      case 4
      then obtain us where us: "list_all string_unit us"
        "(\<exists>r'. s = concat us @ [DQUOTE] @ r') \<or> (\<exists>e. (e = [] \<or> e = [BSLASH]) \<and> s = concat us @ e)"
        using 1 Cons by (metis length_Cons lessI list.set_intros(2))
      have "string_unit [c]" using 4 by (auto simp: string_unit_def)
      then show ?thesis using us Cons by (intro exI [of _ "[c] # us"]) auto
    qed
  qed
qed

lemma first_block_end:
  assumes "r = a @ [STAR, SLASH] @ b"
  shows "\<exists>a b. r = a @ [STAR, SLASH] @ b \<and> (\<nexists>c d. a @ [STAR] = c @ [STAR, SLASH] @ d)"
  using assms
proof (induction a arbitrary: b rule: length_induct)
  case (1 a)
  show ?case
  proof (cases "\<exists>c d. a @ [STAR] = c @ [STAR, SLASH] @ d")
    case True
    then obtain c d where c: "a @ [STAR] = c @ [STAR, SLASH] @ d" by blast
    from arg_cong [OF c, of length] have "length c < length a" by simp
    moreover have "r = c @ [STAR, SLASH] @ d @ [SLASH] @ b"
      using 1(2) c by (metis append.assoc append_Cons append_Nil)
    ultimately show ?thesis using 1(1) by blast
  next
    case False
    then show ?thesis using 1(2) by blast
  qed
qed

lemma source_items_exist: "NUL \<notin> set s \<Longrightarrow> \<exists>is. source_items is s"
proof (induction s rule: length_induct)
  case (1 s)
  have IH: "\<exists>is. source_items is t" if "s = u @ t" "u \<noteq> []" for t u
    using 1 that by (metis Un_iff length_append length_greater_0_conv less_add_same_cancel2 set_append)
  show ?case
  proof (cases s)
    case Nil
    then show ?thesis using no_items by blast
  next
    case (Cons c r)
    consider (line) r' where "s = [SLASH, SLASH] @ r'" | (block) r' where "s = [SLASH, STAR] @ r'"
      | (str) "c = DQUOTE" | (raw) "c = BQUOTE" | (word) "is_ident_start c"
      | (byte) "\<not> is_ident_start c" "c \<noteq> DQUOTE" "c \<noteq> BQUOTE" "c = SLASH \<longrightarrow> chead r \<noteq> SLASH \<and> chead r \<noteq> STAR"
      using Cons by (cases r) auto
    then show ?thesis
    proof cases
      case line
      let ?p = "\<lambda>c. c \<noteq> NL \<and> c \<noteq> CR"
      have t: "NL \<notin> set (takeWhile ?p r')" "CR \<notin> set (takeWhile ?p r')" by (auto dest: set_takeWhileD)
      show ?thesis
      proof (cases "dropWhile ?p r'")
        case Nil
        then have "r' = takeWhile ?p r'" by (metis append_Nil2 takeWhile_dropWhile_id)
        then show ?thesis using line line_comment_open [OF t] by metis
      next
        case (Cons e u)
        then have "\<not> ?p e" using hd_dropWhile [of ?p r'] by simp
        then have e: "e = NL \<or> e = CR" by blast
        have "s = ([SLASH, SLASH] @ takeWhile ?p r' @ [e]) @ u"
          using line Cons by (metis append.assoc append_Cons append_Nil takeWhile_dropWhile_id)
        moreover from IH [OF this] obtain "is" where "source_items is u" by blast
        ultimately show ?thesis using line_comment [OF t e] by auto
      qed
    next
      case block
      show ?thesis
      proof (cases "\<exists>a b. r' = a @ [STAR, SLASH] @ b")
        case True
        then obtain a b where ab: "r' = a @ [STAR, SLASH] @ b" "\<nexists>c d. a @ [STAR] = c @ [STAR, SLASH] @ d"
          using first_block_end by metis
        then have "s = ([SLASH, STAR] @ a @ [STAR, SLASH]) @ b" using block by simp
        moreover from IH [OF this] obtain "is" where "source_items is b" by blast
        ultimately show ?thesis using block_comment [OF ab(2)] by auto
      next
        case False
        then show ?thesis using block block_comment_open by metis
      qed
    next
      case str
      obtain us where us: "list_all string_unit us"
        "(\<exists>r'. r = concat us @ [DQUOTE] @ r') \<or> (\<exists>e. (e = [] \<or> e = [BSLASH]) \<and> r = concat us @ e)"
        using string_units [of r] 1(2) Cons by auto
      then consider r' where "r = concat us @ [DQUOTE] @ r'" | e where "e = [] \<or> e = [BSLASH]" "r = concat us @ e" by blast
      then show ?thesis
      proof cases
        case (1 r')
        then have "s = ([DQUOTE] @ concat us @ [DQUOTE]) @ r'" using Cons str by simp
        moreover from IH [OF this] obtain "is" where "source_items is r'" by blast
        ultimately show ?thesis using string_literal [OF us(1)] by auto
      next
        case (2 e)
        then have "s = [DQUOTE] @ concat us @ e" using Cons str by simp
        then show ?thesis using string_open [OF us(1) 2(1)] by metis
      qed
    next
      case raw
      have t: "BQUOTE \<notin> set (takeWhile (\<lambda>c. c \<noteq> BQUOTE) r)" by (auto dest: set_takeWhileD)
      show ?thesis
      proof (cases "dropWhile (\<lambda>c. c \<noteq> BQUOTE) r")
        case Nil
        then have "s = [BQUOTE] @ takeWhile (\<lambda>c. c \<noteq> BQUOTE) r"
          using Cons raw by (metis append_Cons append_Nil append_Nil2 takeWhile_dropWhile_id)
        then show ?thesis using raw_open [OF t] by metis
      next
        case q: (Cons e u)
        then have e: "e = BQUOTE" using hd_dropWhile [of "\<lambda>c. c \<noteq> BQUOTE" r] by simp
        have "s = ([BQUOTE] @ takeWhile (\<lambda>c. c \<noteq> BQUOTE) r @ [BQUOTE]) @ u"
          using Cons raw q e by (metis append.assoc append_Cons append_Nil takeWhile_dropWhile_id)
        moreover from IH [OF this] obtain "is" where "source_items is u" by blast
        ultimately show ?thesis using raw_string [OF t] by auto
      qed
    next
      case word
      let ?w = "takeWhile is_ident_char s" and ?s' = "dropWhile is_ident_char s"
      have w: "is_ident_start (chead ?w)" "list_all is_ident_char ?w" "?w \<noteq> []"
        using word Cons by (auto simp: list_all_iff dest: set_takeWhileD)
      have s: "s = ?w @ ?s'" by simp
      from IH [OF s w(3)] obtain "is" where "source_items is ?s'" by blast
      from word_item [OF w not_ident_after_word this] s show ?thesis by auto
    next
      case byte
      from IH [of "[c]" r] Cons obtain "is" where "source_items is r" by auto
      from byte_item [OF byte this] Cons show ?thesis by auto
    qed
  qed
qed

section \<open>Properties\<close>



end
