(* ===== verification/Imports.thy ===== *)
theory Imports
  imports Modules
begin

text \<open>
  Import expansion (\<open>src/caster/driver/compiler.c\<close>, lines 803 to 928): \<open>use\<close> lines, the
  file an import names, and the recursive expansion of a source file into one text. The
  abstract view is the import graph; an accepted program has an acyclic one, and the files
  are loaded in an order that puts every import before its importer.
\<close>

section \<open>Import lines\<close>

definition is_sp :: "char \<Rightarrow> bool" where
  "is_sp c \<longleftrightarrow> c = SPACE \<or> c = TAB"

definition parse_use_line :: "string \<Rightarrow> string option result" where
  "parse_use_line line =
     (let trimmed = rev (dropWhile is_blank (rev (dropWhile is_sp line))) in
      if length trimmed < 4 \<or> \<not> starts_with trimmed ''use '' then Inr None
      else (let spec = dropWhile is_sp (drop 4 trimmed);
                token = takeWhile (\<lambda>c. \<not> is_sp c) spec;
                rest = dropWhile is_sp (dropWhile (\<lambda>c. \<not> is_sp c) spec)
            in if token = [] then Inl (DieMsg ''empty use import'')
               else if rest \<noteq> [] \<and> \<not> starts_with rest ''//''
               then Inl (DieMsg (''unexpected text after import '' @ [SQUOTE]
                           @ take (length spec - length rest) spec @ [SQUOTE]))
               else Inr (Some token)))"

definition resolve_import_path :: "world \<Rightarrow> string \<Rightarrow> string \<Rightarrow> string result" where
  "resolve_import_path w from_path spec =
     (if chead spec = CHR ''.'' \<or> chead spec = SLASH then
        (let base = (if chead spec = SLASH then path_with_caster_ext spec
                     else path_with_caster_ext (path_dirname from_path @ ''/'' @ spec))
         in if \<not> file_exists w base
            then Inl (DieMsg (''cannot resolve local import '' @ [SQUOTE] @ spec @ [SQUOTE] @ '' from '' @ from_path))
            else Inr base)
      else
        (let native = path_join (w_root w) (''native_libs/'' @ spec @ ''.cast'')
         in if \<not> file_exists w native
            then Inl (DieMsg (''cannot resolve native import '' @ [SQUOTE] @ spec @ [SQUOTE] @ '' at '' @ native))
            else Inr native))"

text \<open>The lines the cursor loop visits: a final line break starts no further line.\<close>

function lines_of :: "string \<Rightarrow> string list" where
  "lines_of s =
     (if s = [] then []
      else takeWhile (\<lambda>c. c \<noteq> NL) s # lines_of (drop (Suc (length (takeWhile (\<lambda>c. c \<noteq> NL) s))) s))"
  by pat_completeness auto
termination
  by (relation "measure length") auto

declare lines_of.simps [simp del]

section \<open>Expansion\<close>

record import_state =
  loaded :: "string list"
  loading :: "string list"

record expansion =
  ex_imports :: string
  ex_body :: string
  ex_visible :: "string list"
  ex_state :: import_state

type_synonym expander = "string \<Rightarrow> bool \<Rightarrow> import_state \<Rightarrow> (string \<times> import_state) result"

definition expand_line :: "expander \<Rightarrow> world \<Rightarrow> string \<Rightarrow> string \<Rightarrow> expansion \<Rightarrow> expansion result" where
  "expand_line self w path line e =
     rbind (parse_use_line line) (\<lambda>r.
       case r of
         None \<Rightarrow> Inr (e\<lparr>ex_body := ex_body e @ line @ [NL]\<rparr>)
       | Some spec \<Rightarrow>
           rbind (resolve_import_path w path spec) (\<lambda>import_path.
           rbind (self import_path (\<not> is_native_import_path import_path) (ex_state e)) (\<lambda>(expanded, st).
             Inr (e\<lparr>ex_visible := ex_visible e @ [module_name_from_path import_path],
                    ex_imports := ex_imports e @ [NL] @ expanded,
                    ex_state := st\<rparr>))))"

primrec expand_lines :: "expander \<Rightarrow> world \<Rightarrow> string \<Rightarrow> string list \<Rightarrow> expansion \<Rightarrow> expansion result" where
  "expand_lines self w path [] e = Inr e"
| "expand_lines self w path (line # ls) e =
     rbind (expand_line self w path line e) (expand_lines self w path ls)"

text \<open>What is done with a file's own text once its imports are expanded.\<close>

definition finish_body :: "string \<Rightarrow> bool \<Rightarrow> string list \<Rightarrow> string \<Rightarrow> string result" where
  "finish_body path rewrite_as_module visible b =
     rbind (if \<not> is_native_import_path path
            then validate_qualified_modules path b visible (collect_local_module_export_names b)
            else Inr ()) (\<lambda>_.
     Inr (if is_native_import_path path then rewrite_native_module_source b (module_prefix_from_path path)
          else if rewrite_as_module then rewrite_local_module_source b (module_prefix_from_path path)
          else b))"

definition join_expansion :: "string \<Rightarrow> string \<Rightarrow> string" where
  "join_expansion imports b =
     (if imports = [] then b else if b = [] then imports else imports @ [NL] @ b)"

primrec expand_imports_from :: "nat \<Rightarrow> world \<Rightarrow> string \<Rightarrow> bool \<Rightarrow> import_state \<Rightarrow> (string \<times> import_state) result" where
  "expand_imports_from 0 w raw_path rewrite_as_module st = Inl OutOfFuel"
| "expand_imports_from (Suc n) w raw_path rewrite_as_module st =
     (let path = canonical_existing_path w raw_path in
      if path \<in> set (loading st) then Inl (DieMsg (''cyclic import involving '' @ path))
      else if path \<in> set (loaded st) then Inr ([], st)
      else
        rbind (read_file (w_disk w) path) (\<lambda>src.
        rbind (expand_lines (expand_imports_from n w) w path (lines_of src)
                 \<lparr>ex_imports = [], ex_body = [], ex_visible = [],
                  ex_state = st\<lparr>loading := loading st @ [path]\<rparr>\<rparr>) (\<lambda>e.
        rbind (finish_body path rewrite_as_module (ex_visible e) (ex_body e)) (\<lambda>b.
          Inr (join_expansion (ex_imports e) b,
               (ex_state e)\<lparr>loading := butlast (loading (ex_state e)),
                            loaded := loaded (ex_state e) @ [path]\<rparr>)))))"

definition expand_imports :: "nat \<Rightarrow> world \<Rightarrow> string \<Rightarrow> string result" where
  "expand_imports fuel w source_path =
     rbind (expand_imports_from fuel w source_path False \<lparr>loaded = [], loading = []\<rparr>) (\<lambda>(text, _). Inr text)"

section \<open>The import graph\<close>

text \<open>
  The files a file's \<open>use\<close> lines name, as the canonical paths the expansion tracks; \<open>None\<close>
  where the expansion of the file stops with an error at the line.
\<close>

definition import_of :: "world \<Rightarrow> string \<Rightarrow> string \<Rightarrow> string option" where
  "import_of w path line =
     (case parse_use_line line of
        Inr (Some spec) \<Rightarrow>
          (case resolve_import_path w path spec of
             Inr p \<Rightarrow> Some (canonical_existing_path w p)
           | Inl _ \<Rightarrow> None)
      | _ \<Rightarrow> None)"

definition imports_of :: "world \<Rightarrow> string \<Rightarrow> string list" where
  "imports_of w path =
     (case read_file (w_disk w) path of
        Inl _ \<Rightarrow> []
      | Inr src \<Rightarrow> List.map_filter (import_of w path) (lines_of src))"

text \<open>Every file in the list comes after the files it imports.\<close>

definition load_order :: "world \<Rightarrow> string list \<Rightarrow> bool" where
  "load_order w ps \<longleftrightarrow> (\<forall>i < length ps. set (imports_of w (ps ! i)) \<subseteq> set (take i ps))"

lemma load_order_Nil [simp]: "load_order w []"
  by (simp add: load_order_def)

lemma load_order_snoc:
  "load_order w (ps @ [p]) \<longleftrightarrow> load_order w ps \<and> set (imports_of w p) \<subseteq> set ps"
  by (auto simp: load_order_def nth_append less_Suc_eq)

section \<open>What an expansion does to the state\<close>

text \<open>From \<open>st\<close> to \<open>st'\<close>: the loading stack is as before, and new files were loaded in order.\<close>

definition extends :: "world \<Rightarrow> import_state \<Rightarrow> import_state \<Rightarrow> bool" where
  "extends w st st' \<longleftrightarrow>
     loading st' = loading st \<and>
     (\<exists>new. loaded st' = loaded st @ new \<and> distinct new \<and>
        set new \<inter> (set (loaded st) \<union> set (loading st)) = {}) \<and>
     (load_order w (loaded st) \<longrightarrow> load_order w (loaded st'))"

lemma extends_refl: "extends w st st"
  by (simp add: extends_def)

lemma extends_trans: "extends w a b \<Longrightarrow> extends w b c \<Longrightarrow> extends w a c"
  unfolding extends_def by fastforce

lemma extends_loaded: "extends w a b \<Longrightarrow> set (loaded a) \<subseteq> set (loaded b)"
  by (auto simp: extends_def)

definition expander_ok :: "world \<Rightarrow> expander \<Rightarrow> bool" where
  "expander_ok w self \<longleftrightarrow>
     (\<forall>raw rw st out st'. self raw rw st = Inr (out, st') \<longrightarrow>
        extends w st st' \<and> canonical_existing_path w raw \<in> set (loaded st'))"

lemma expand_line_ok:
  assumes self: "expander_ok w self" and line: "expand_line self w path line e = Inr e'"
  shows "extends w (ex_state e) (ex_state e') \<and>
     (\<forall>p. import_of w path line = Some p \<longrightarrow> p \<in> set (loaded (ex_state e')))"
proof -
  obtain r where r: "parse_use_line line = Inr r" using line by (auto simp: expand_line_def rbind_eq_Inr)
  show ?thesis
  proof (cases r)
    case None
    then show ?thesis using line r by (auto simp: expand_line_def import_of_def extends_refl)
  next
    case (Some spec)
    then obtain p out st where p: "resolve_import_path w path spec = Inr p"
      and run: "self p (\<not> is_native_import_path p) (ex_state e) = Inr (out, st)" and "ex_state e' = st"
      using line r by (auto simp: expand_line_def rbind_eq_Inr)
    moreover have "extends w (ex_state e) st" "canonical_existing_path w p \<in> set (loaded st)"
      using self run by (simp_all add: expander_ok_def)
    ultimately show ?thesis using r Some by (simp add: import_of_def)
  qed
qed

lemma expand_lines_ok:
  assumes self: "expander_ok w self"
  shows "expand_lines self w path ls e = Inr e' \<Longrightarrow>
     extends w (ex_state e) (ex_state e') \<and>
     set (List.map_filter (import_of w path) ls) \<subseteq> set (loaded (ex_state e'))"
proof (induction ls arbitrary: e)
  case Nil
  then show ?case by (simp add: extends_refl List.map_filter_def)
next
  case (Cons l ls)
  then obtain e1 where l: "expand_line self w path l e = Inr e1" and ls: "expand_lines self w path ls e1 = Inr e'"
    by (auto simp: rbind_eq_Inr)
  note one = expand_line_ok [OF self l] and rest = Cons.IH [OF ls]
  have "extends w (ex_state e) (ex_state e')" using one rest extends_trans by blast
  moreover have "set (loaded (ex_state e1)) \<subseteq> set (loaded (ex_state e'))"
    using rest extends_loaded by blast
  ultimately show ?case using one rest by (auto simp: List.map_filter_def split: option.splits)
qed

lemma expand_imports_from_ok: "expander_ok w (expand_imports_from n w)"
proof (induction n)
  case 0
  then show ?case by (simp add: expander_ok_def)
next
  case (Suc n)
  show ?case
    unfolding expander_ok_def
  proof (intro allI impI)
    fix raw rw st out st'
    assume run: "expand_imports_from (Suc n) w raw rw st = Inr (out, st')"
    let ?p = "canonical_existing_path w raw"
    from run have fresh: "?p \<notin> set (loading st)" by (auto simp: Let_def split: if_splits)
    show "extends w st st' \<and> ?p \<in> set (loaded st')"
    proof (cases "?p \<in> set (loaded st)")
      case True
      then show ?thesis using run fresh by (auto simp: extends_refl)
    next
      case False
      let ?e0 = "\<lparr>ex_imports = [], ex_body = [], ex_visible = [], ex_state = st\<lparr>loading := loading st @ [?p]\<rparr>\<rparr>"
      from run fresh False obtain src e where src: "read_file (w_disk w) ?p = Inr src"
        and e: "expand_lines (expand_imports_from n w) w ?p (lines_of src) ?e0 = Inr e"
        and st': "st' = (ex_state e)\<lparr>loading := butlast (loading (ex_state e)), loaded := loaded (ex_state e) @ [?p]\<rparr>"
        by (auto simp: Let_def rbind_eq_Inr)
      note ext = expand_lines_ok [OF Suc.IH e]
      have imps: "set (imports_of w ?p) \<subseteq> set (loaded (ex_state e))"
        using ext src by (simp add: imports_of_def)
      obtain new where new: "loaded (ex_state e) = loaded st @ new" "distinct new"
          "set new \<inter> (set (loaded st) \<union> set (loading st @ [?p])) = {}"
        using ext by (auto simp: extends_def)
      have "extends w st st'"
        using ext new fresh False imps st' load_order_snoc [of w "loaded st @ new" ?p] by (auto simp: extends_def)
      then show ?thesis by (simp add: st')
    qed
  qed
qed

section \<open>Termination\<close>

text \<open>
  A nested expansion has one more file on the loading stack, and all of them can be read.
  With one unit of fuel more than there are readable files the recursion ends by itself.
\<close>

definition readable :: "world \<Rightarrow> string set" where
  "readable w = {p. w_disk w p \<noteq> None}"

lemma parse_use_line_error: "parse_use_line l = Inl e \<Longrightarrow> is_diagnostic e"
  by (auto simp: parse_use_line_def Let_def split: if_splits)

lemma resolve_import_path_error: "resolve_import_path w f s = Inl e \<Longrightarrow> is_diagnostic e"
  by (auto simp: resolve_import_path_def Let_def split: if_splits)

lemma read_file_error: "read_file d p = Inl e \<Longrightarrow> is_diagnostic e"
  by (auto simp: read_file_def split: option.splits)

lemma finish_body_error: "finish_body p rw v b = Inl e \<Longrightarrow> is_diagnostic e"
  by (auto simp: finish_body_def rbind_eq_Inl validate_qualified_modules_def split: if_splits list.splits)

lemma expand_line_error:
  assumes "expand_line self w path l x = Inl e"
    and self: "\<And>raw rw. self raw rw (ex_state x) = Inl e \<Longrightarrow> is_diagnostic e"
  shows "is_diagnostic e"
proof (cases "parse_use_line l")
  case (Inl e')
  then show ?thesis using assms(1) parse_use_line_error by (simp add: expand_line_def)
next
  case (Inr r)
  show ?thesis
  proof (cases r)
    case None
    then show ?thesis using assms(1) Inr by (simp add: expand_line_def)
  next
    case (Some spec)
    show ?thesis
    proof (cases "resolve_import_path w path spec")
      case (Inl e')
      then show ?thesis using assms(1) Inr Some resolve_import_path_error by (simp add: expand_line_def)
    next
      case (Inr p)
      then show ?thesis
        using assms(1) \<open>parse_use_line l = Inr r\<close> Some self
        by (auto simp: expand_line_def rbind_eq_Inl split: prod.splits)
    qed
  qed
qed

lemma expand_lines_error:
  assumes ok: "expander_ok w self"
    and self: "\<And>raw rw st e. loading st = stack \<Longrightarrow> self raw rw st = Inl e \<Longrightarrow> is_diagnostic e"
  shows "loading (ex_state x) = stack \<Longrightarrow> expand_lines self w path ls x = Inl e \<Longrightarrow> is_diagnostic e"
proof (induction ls arbitrary: x)
  case Nil
  then show ?case by simp
next
  case (Cons l ls)
  show ?case
  proof (cases "expand_line self w path l x")
    case (Inl e')
    then have "e' = e" using Cons.prems(2) by simp
    with Inl self Cons.prems(1) show ?thesis by (blast intro: expand_line_error)
  next
    case (Inr x')
    then have "loading (ex_state x') = stack"
      using expand_line_ok [OF ok Inr] Cons.prems(1) by (simp add: extends_def)
    from Cons.IH [OF this] show ?thesis using Cons.prems(2) Inr by simp
  qed
qed

lemma expand_imports_from_error:
  assumes fin: "finite (readable w)"
  shows "set (loading st) \<subseteq> readable w \<Longrightarrow> distinct (loading st) \<Longrightarrow>
     card (readable w - set (loading st)) < n \<Longrightarrow>
     expand_imports_from n w raw rw st = Inl e \<Longrightarrow> is_diagnostic e"
proof (induction n arbitrary: raw rw st e)
  case 0
  then show ?case by simp
next
  case (Suc n)
  let ?p = "canonical_existing_path w raw"
  let ?st = "st\<lparr>loading := loading st @ [?p]\<rparr>"
  show ?case
  proof (cases "?p \<in> set (loading st) \<or> ?p \<in> set (loaded st) \<or> w_disk w ?p = None")
    case True
    then show ?thesis
      using Suc.prems(4) by (auto simp: Let_def read_file_def split: if_splits)
  next
    case False
    then have p: "?p \<in> readable w" "?p \<notin> set (loading st)" by (auto simp: readable_def)
    have "card (readable w - set (loading ?st)) < card (readable w - set (loading st))"
      by (rule psubset_card_mono) (use fin p in auto)
    then have less: "card (readable w - set (loading ?st)) < n" using Suc.prems(3) by simp
    have self: "is_diagnostic e'"
      if "loading s = loading ?st" "expand_imports_from n w r b s = Inl e'" for r b s e'
      by (rule Suc.IH [of s r b]) (use that less p Suc.prems in auto)
    let ?e0 = "\<lparr>ex_imports = [], ex_body = [], ex_visible = [], ex_state = ?st\<rparr>"
    obtain src where src: "read_file (w_disk w) ?p = Inr src"
      using False by (auto simp: read_file_def)
    show ?thesis
    proof (cases "expand_lines (expand_imports_from n w) w ?p (lines_of src) ?e0")
      case (Inl e')
      then have "e' = e" using Suc.prems(4) False src by (auto simp: Let_def)
      then show ?thesis
        using expand_lines_error [OF expand_imports_from_ok, of "loading ?st" n w ?e0 ?p "lines_of src" e'] self Inl
        by auto
    next
      case (Inr x)
      then show ?thesis
        using Suc.prems(4) False src finish_body_error by (auto simp: Let_def rbind_eq_Inl)
    qed
  qed
qed

lemma expand_line_more:
  assumes "expand_line self w path l x = r" "r \<noteq> Inl OutOfFuel"
    and "\<And>raw rw st r. self raw rw st = r \<Longrightarrow> r \<noteq> Inl OutOfFuel \<Longrightarrow> other raw rw st = r"
  shows "expand_line other w path l x = r"
proof (cases "parse_use_line l")
  case (Inr s)
  then show ?thesis
  proof (cases s)
    case (Some spec)
    show ?thesis
    proof (cases "resolve_import_path w path spec")
      case p: (Inr p)
      have "self p (\<not> is_native_import_path p) (ex_state x) \<noteq> Inl OutOfFuel"
        using assms(1,2) Inr Some p by (auto simp: expand_line_def)
      from assms(3) [OF refl this] show ?thesis
        using assms(1) Inr Some p by (simp add: expand_line_def)
    qed (use assms(1) Inr Some in \<open>simp add: expand_line_def\<close>)
  qed (use assms(1) in \<open>simp add: expand_line_def\<close>)
qed (use assms(1) in \<open>simp add: expand_line_def\<close>)

lemma expand_lines_more:
  assumes "\<And>raw rw st r. self raw rw st = r \<Longrightarrow> r \<noteq> Inl OutOfFuel \<Longrightarrow> other raw rw st = r"
  shows "expand_lines self w path ls x = r \<Longrightarrow> r \<noteq> Inl OutOfFuel \<Longrightarrow> expand_lines other w path ls x = r"
proof (induction ls arbitrary: x)
  case (Cons l ls)
  have "expand_line self w path l x \<noteq> Inl OutOfFuel" using Cons.prems by auto
  from expand_line_more [OF refl this assms] show ?case
    using Cons by (cases "expand_line self w path l x") auto
qed simp

lemma expand_imports_from_more:
  "expand_imports_from n w raw rw st = r \<Longrightarrow> r \<noteq> Inl OutOfFuel \<Longrightarrow>
     expand_imports_from (Suc n) w raw rw st = r"
proof (induction n arbitrary: raw rw st r)
  case (Suc n)
  let ?p = "canonical_existing_path w raw"
  show ?case
  proof (cases "?p \<in> set (loading st) \<or> ?p \<in> set (loaded st) \<or> w_disk w ?p = None")
    case True
    then show ?thesis using Suc.prems(1) by (auto simp: Let_def read_file_def)
  next
    case False
    then obtain src where src: "read_file (w_disk w) ?p = Inr src" by (auto simp: read_file_def)
    let ?e0 = "\<lparr>ex_imports = [], ex_body = [], ex_visible = [], ex_state = st\<lparr>loading := loading st @ [?p]\<rparr>\<rparr>"
    let ?run = "\<lambda>n. expand_lines (expand_imports_from n w) w ?p (lines_of src) ?e0"
    have "?run n \<noteq> Inl OutOfFuel" using Suc.prems False src by (auto simp: Let_def)
    then have "?run (Suc n) = ?run n" by (intro expand_lines_more [where self = "expand_imports_from n w", OF _ refl] Suc.IH)
    then show ?thesis
      using Suc.prems(1) False src by (simp add: Let_def del: expand_imports_from.simps(2) add: expand_imports_from.simps(2) [of n] expand_imports_from.simps(2) [of "Suc n"])
  qed
qed simp

lemma expand_imports_from_fuel:
  assumes "n \<le> m" "expand_imports_from n w raw rw st \<noteq> Inl OutOfFuel"
  shows "expand_imports_from m w raw rw st = expand_imports_from n w raw rw st"
  using assms(1)
proof (induction rule: dec_induct)
  case (step m)
  then show ?case using expand_imports_from_more [OF step.IH assms(2)] by simp
qed simp

section \<open>Properties\<close>

text \<open>
  C6: Import expansion loads every file once and after the files it imports, so the import graph
  of what it loads has no cycle; the stack of files being loaded is empty again at the end.
\<close>

theorem expand_imports_order:
  "case expand_imports_from n w raw rw \<lparr>loaded = [], loading = []\<rparr> of
     Inl e \<Rightarrow> True
   | Inr (out, st) \<Rightarrow>
       loading st = [] \<and> distinct (loaded st) \<and> load_order w (loaded st)
       \<and> canonical_existing_path w raw \<in> set (loaded st)"
proof (cases "expand_imports_from n w raw rw \<lparr>loaded = [], loading = []\<rparr>")
  case (Inr r)
  obtain out st where "r = (out, st)" by (cases r)
  then have "extends w \<lparr>loaded = [], loading = []\<rparr> st \<and> canonical_existing_path w raw \<in> set (loaded st)"
    using Inr expand_imports_from_ok [of w n] unfolding expander_ok_def by blast
  then show ?thesis using Inr \<open>r = _\<close> by (auto simp: extends_def)
qed simp

lemma expand_imports_outcome:
  assumes fin: "finite (readable w)" and n: "card (readable w) < n"
  shows "expand_imports n w p = expand_imports (Suc (card (readable w))) w p \<and>
     (case expand_imports n w p of Inl e \<Rightarrow> is_diagnostic e | Inr out \<Rightarrow> True)"
proof -
  let ?st = "\<lparr>loaded = [], loading = []\<rparr>" and ?m = "Suc (card (readable w))"
  have diag: "is_diagnostic e" if "expand_imports_from k w p False ?st = Inl e" "card (readable w) < k" for k e
    using expand_imports_from_error [OF fin, of ?st k p False e] that by simp
  then have "expand_imports_from ?m w p False ?st \<noteq> Inl OutOfFuel" by force
  then have "expand_imports_from n w p False ?st = expand_imports_from ?m w p False ?st"
    by (rule expand_imports_from_fuel [rotated]) (use n in simp)
  then show ?thesis
    using diag [OF _ n] unfolding expand_imports_def
    by (auto split: sum.splits simp: rbind_eq_Inl)
qed

text \<open>
  C7: Import expansion terminates: with more fuel than there are readable files the recursion is
  never cut off, more fuel never changes the outcome, and a failure is a diagnostic.
\<close>

theorem expand_imports_terminates:
  assumes "finite (readable w)" and "card (readable w) < n"
  shows "expand_imports n w p = expand_imports (Suc (card (readable w))) w p \<and>
     (case expand_imports n w p of Inl e \<Rightarrow> is_diagnostic e | Inr out \<Rightarrow> True)"
  by (rule expand_imports_outcome [OF assms])

theorem expand_imports_terminates_witness:
  "expand_imports 5 \<lparr>w_real = (\<lambda>p. None), w_regular = (\<lambda>p. False), w_readable = (\<lambda>p. True),
        w_disk = [''a.cast'' \<mapsto> ''x = 1''], w_root = ''.''\<rparr> ''a.cast''
     = expand_imports (Suc (card (readable \<lparr>w_real = (\<lambda>p. None), w_regular = (\<lambda>p. False),
        w_readable = (\<lambda>p. True), w_disk = [''a.cast'' \<mapsto> ''x = 1''], w_root = ''.''\<rparr>)))
        \<lparr>w_real = (\<lambda>p. None), w_regular = (\<lambda>p. False), w_readable = (\<lambda>p. True),
           w_disk = [''a.cast'' \<mapsto> ''x = 1''], w_root = ''.''\<rparr> ''a.cast''"
proof -
  have "{p. p = ''a.cast''} = {''a.cast''}" by auto
  then show ?thesis
    by (intro conjunct1 [OF expand_imports_terminates]) (simp_all add: readable_def)
qed

end
