(* ===== verification/Driver.thy ===== *)
theory Driver
  imports Imports FrontEnd
begin

text \<open>
  The entry point (\<open>main\<close> of \<open>src/caster/driver/compiler.c\<close>): command-line options, the
  front half of the pipeline up to the syntax tree, and the command line handed to
  \<open>system\<close> for the generated C.
\<close>

section \<open>Options\<close>

record options =
  source_path :: string
  output_path :: string
  exe_path :: "string option"
  repo_root :: string
  check_only :: bool
  json_output :: bool
  run_output :: bool

definition default_options :: options where
  "default_options =
     \<lparr>source_path = ''tests/authoritative.cast'', output_path = ''output/output.C'', exe_path = None,
      repo_root = ''.'', check_only = False, json_output = False, run_output = True\<rparr>"

fun parse_args :: "options \<Rightarrow> string list \<Rightarrow> options" where
  "parse_args opts [] = opts"
| "parse_args opts (arg # args) =
     (if arg = ''check'' \<or> arg = ''--check''
        then parse_args (opts\<lparr>check_only := True, run_output := False\<rparr>) args
      else if arg = ''--json'' then parse_args (opts\<lparr>json_output := True\<rparr>) args
      else if arg = ''--no-run'' then parse_args (opts\<lparr>run_output := False\<rparr>) args
      else (case args of
              val # rest \<Rightarrow>
                if arg = ''-o'' \<or> arg = ''--output'' then parse_args (opts\<lparr>output_path := val\<rparr>) rest
                else if arg = ''--exe'' then parse_args (opts\<lparr>exe_path := Some val\<rparr>) rest
                else if arg = ''--repo-root'' then parse_args (opts\<lparr>repo_root := val\<rparr>) rest
                else parse_args (opts\<lparr>source_path := arg\<rparr>) args
            | [] \<Rightarrow> opts\<lparr>source_path := arg\<rparr>))"

section \<open>The front half of the pipeline\<close>

definition compile_front :: "nat \<Rightarrow> world \<Rightarrow> options \<Rightarrow> node result" where
  "compile_front fuel w opts =
     rbind (expand_imports fuel (w\<lparr>w_root := repo_root opts\<rparr>) (source_path opts)) front_end"

section \<open>The C compiler's command line\<close>

text \<open>The globals the emitter sets, as far as the command depends on them.\<close>

record emit_uses =
  uses_json :: bool
  uses_sql :: bool
  uses_req :: bool

definition generated_cflags :: "string option \<Rightarrow> string" where
  "generated_cflags env =
     (case env of
        Some v \<Rightarrow> if v = [] then ''-O3 -DNDEBUG -std=c11 -Wall -Wextra'' else v
      | None \<Rightarrow> ''-O3 -DNDEBUG -std=c11 -Wall -Wextra'')"

definition output_exe :: "options \<Rightarrow> string" where
  "output_exe opts =
     (case exe_path opts of Some e \<Rightarrow> e | None \<Rightarrow> default_exe_path_from_output (output_path opts))"

definition runtime_sources :: "options \<Rightarrow> emit_uses \<Rightarrow> string" where
  "runtime_sources opts uses =
     shell_quote (path_join (repo_root opts) ''vendor/hashmap.c/hashmap.c'')
     @ (if uses_json uses
        then '' '' @ shell_quote (path_join (repo_root opts) ''vendor/cjson/cJSON.c'') else [])
     @ (if uses_sql uses
        then '' '' @ shell_quote (path_join (repo_root opts) ''vendor/sqlite/sqlite3.c'') else [])"

definition compile_command :: "world \<Rightarrow> options \<Rightarrow> emit_uses \<Rightarrow> string option \<Rightarrow> string exit_result" where
  "compile_command w opts uses env =
     (let w = w\<lparr>w_root := repo_root opts\<rparr>;
          sql_cflags = (if uses_sql uses then ''-DSQLITE_THREADSAFE=0 -DSQLITE_OMIT_LOAD_EXTENSION'' else []);
          head = ''cc '' @ generated_cflags env @ '' '' @ sql_cflags @ '' -I'' @ shell_quote (repo_root opts);
          input = '' -x c '' @ shell_quote (output_path opts) @ '' -x none '' @ runtime_sources opts uses;
          out = '' -o '' @ shell_quote (output_exe opts)
      in if uses_req uses
         then rbind (h2o_compile_flags w) (\<lambda>h2o_cflags. rbind (h2o_link_flags w) (\<lambda>h2o_ldflags.
                Inr (head @ '' '' @ h2o_cflags @ '' -DH2O_USE_LIBUV=0'' @ input @ '' '' @ h2o_ldflags @ out)))
         else Inr (head @ input @ out))"

section \<open>The command as the shell reads it\<close>

lemma sh_word_shorter: "sh_word q s = Some (w, r) \<Longrightarrow> length r \<le> length s"
  by (induction q s arbitrary: w rule: sh_word.induct)
    (auto split: if_splits list.splits simp: le_SucI)

definition is_sh_blank :: "char \<Rightarrow> bool" where
  "is_sh_blank c \<longleftrightarrow> c = SPACE \<or> c = TAB \<or> c = NL"

lemma sh_word_progress:
  assumes "sh_word False (c # s) = Some (w, r)" "\<not> is_sh_blank c"
  shows "length r < length (c # s)"
  using assms sh_word_shorter
  by (fastforce simp: is_sh_blank_def less_Suc_eq_le le_SucI split: if_splits list.splits)

lemma sh_words_shorter:
  assumes d: "dropWhile is_sh_blank s = c # t" and w: "sh_word False (c # t) = Some (w, r)"
  shows "length r < length s"
proof -
  have "\<not> is_sh_blank c" using d by (metis dropWhile_eq_Cons_conv)
  then have "length r < length (c # t)" by (rule sh_word_progress [OF w])
  also have "\<dots> \<le> length s" unfolding d [symmetric] by (rule length_dropWhile_le)
  finally show ?thesis .
qed

function sh_words :: "string \<Rightarrow> string list option" where
  "sh_words s =
     (case dropWhile is_sh_blank s of
        [] \<Rightarrow> Some []
      | c # t \<Rightarrow> (case sh_word False (c # t) of
                   None \<Rightarrow> None
                 | Some (w, r) \<Rightarrow> map_option ((#) w) (sh_words r)))"
  by pat_completeness auto
termination
  by (relation "measure length") (auto intro: sh_words_shorter)

declare sh_words.simps [simp del]

lemma sh_words_blank [simp]: "is_sh_blank c \<Longrightarrow> sh_words (c # s) = sh_words s"
  by (subst (1 2) sh_words.simps) simp

lemma sh_words_Nil [simp]: "sh_words [] = Some []"
  by (simp add: sh_words.simps)

lemma sh_words_step:
  "\<not> is_sh_blank c \<Longrightarrow> sh_word False (c # s) = Some (w, r) \<Longrightarrow> sh_words (c # s) = map_option ((#) w) (sh_words r)"
  by (subst sh_words.simps) simp

definition sh_plain :: "string \<Rightarrow> bool" where
  "sh_plain s \<longleftrightarrow> (\<forall>c \<in> set s. c \<notin> set ''|&;<>()$\"`*?[#~'' \<and> c \<noteq> SQUOTE \<and> c \<noteq> BSLASH \<and> \<not> is_sh_blank c)"

lemma sh_word_plain:
  "sh_plain s \<Longrightarrow> sh_word False (s @ t) = map_option (\<lambda>(w, r). (s @ w, r)) (sh_word False t)"
  by (induction s) (auto simp: sh_plain_def is_sh_blank_def option.map_comp comp_def case_prod_unfold
      option.map_ident)

lemma sh_word_quote:
  "sh_word False (shell_quote s @ t) = map_option (\<lambda>(w, r). (s @ w, r)) (sh_word False t)"
  using sh_word_quoted [of s t] by (simp add: shell_quote_def)

text \<open>One word of a command: plain text, then a quoted string, and a blank after it.\<close>

lemma sh_words_plain:
  assumes "sh_plain s" "s \<noteq> []"
  shows "sh_words (s @ SPACE # t) = map_option ((#) s) (sh_words t)"
proof (cases s)
  case (Cons c s')
  then have "\<not> is_sh_blank c" using assms by (simp add: sh_plain_def)
  then show ?thesis
    using sh_words_step [of c "s' @ SPACE # t" s "SPACE # t"] sh_word_plain [OF assms(1), of "SPACE # t"] Cons
    by (simp add: is_sh_blank_def)
qed (use assms in simp)

lemma sh_words_quote:
  assumes "sh_plain s"
  shows "sh_words (s @ shell_quote v @ SPACE # t) = map_option ((#) (s @ v)) (sh_words t)"
proof -
  have "sh_word False (s @ shell_quote v @ SPACE # t) = Some (s @ v, SPACE # t)"
    by (simp add: sh_word_plain [OF assms] sh_word_quote)
  moreover have "\<exists>c r. s @ shell_quote v @ SPACE # t = c # r \<and> \<not> is_sh_blank c"
    using assms by (cases s) (auto simp: shell_quote_def sh_plain_def is_sh_blank_def)
  ultimately show ?thesis by (metis is_sh_blank_def sh_words_blank sh_words_step)
qed

lemma sh_words_last:
  "sh_words (shell_quote v) = Some [v]"
proof -
  have "sh_word False (shell_quote v) = Some (v, [])" using sh_word_quote [of v "[]"] by simp
  moreover have "shell_quote v = SQUOTE # tl (shell_quote v)" by (simp add: shell_quote_def)
  ultimately show ?thesis
    using sh_words_step [of SQUOTE "tl (shell_quote v)" v "[]"] by (simp add: is_sh_blank_def)
qed

section \<open>Properties\<close>

text \<open>
  A text that a shell reads as the words \<open>ws\<close> when a blank follows it, and a text that adds words
  to any such text before it.
\<close>

definition sh_reads :: "string \<Rightarrow> string list \<Rightarrow> bool" where
  "sh_reads s ws \<longleftrightarrow> (\<forall>t. sh_words (s @ SPACE # t) = map_option ((@) ws) (sh_words t))"

definition sh_adds :: "string \<Rightarrow> string list \<Rightarrow> bool" where
  "sh_adds f ws \<longleftrightarrow> (\<forall>s us. sh_reads s us \<longrightarrow> sh_reads (s @ f) (us @ ws))"

lemma append_fun: "(@) [] = (\<lambda>r. r)" "(@) (x # xs) = (\<lambda>r. x # xs @ r)"
  by auto

lemma sh_reads_Nil: "sh_reads [] []"
  by (simp add: sh_reads_def is_sh_blank_def append_fun option.map_ident)

lemma sh_reads_plain: "sh_plain s \<Longrightarrow> s \<noteq> [] \<Longrightarrow> sh_reads s [s]"
  by (simp add: sh_reads_def sh_words_plain append_fun)

lemma sh_reads_quote: "sh_plain s \<Longrightarrow> sh_reads (s @ shell_quote v) [s @ v]"
  by (simp add: sh_reads_def sh_words_quote append_fun)

lemmas sh_reads_quoted = sh_reads_quote [of "[]", simplified]

lemma sh_word_blank: "sh_word q s = Some (w, r) \<Longrightarrow> sh_word q (s @ SPACE # t) = Some (w, r @ SPACE # t)"
  by (induction q s arbitrary: w r rule: sh_word.induct) (fastforce split: if_splits list.splits)+

lemma dropWhile_blank_append:
  "dropWhile is_sh_blank s = c # u \<Longrightarrow> dropWhile is_sh_blank (s @ t) = c # u @ t"
  by (induction s) auto

lemma sh_reads_text: "sh_words s = Some ws \<Longrightarrow> sh_reads s ws"
proof (induction s arbitrary: ws rule: sh_words.induct)
  case (1 s)
  show ?case
  proof (cases "dropWhile is_sh_blank s")
    case Nil
    then have "list_all is_sh_blank s" by (simp add: dropWhile_eq_Nil_conv list_all_iff)
    then have "sh_words (s @ SPACE # t) = sh_words t" for t
      by (induction s) (simp_all add: is_sh_blank_def)
    moreover have "ws = []" using 1(2) Nil by (simp add: sh_words.simps [of s])
    ultimately show ?thesis by (simp add: sh_reads_def append_fun option.map_ident)
  next
    case (Cons c u)
    then obtain w r vs where w: "sh_word False (c # u) = Some (w, r)" and vs: "sh_words r = Some vs" and ws: "ws = w # vs"
      using 1(2) by (auto simp: sh_words.simps [of s] split: option.splits)
    from 1(1) [OF Cons w refl vs] have "sh_reads r vs" .
    then show ?thesis
      unfolding sh_reads_def sh_words.simps [of "s @ _"] dropWhile_blank_append [OF Cons]
      using sh_word_blank [OF w]
      by (simp add: ws append_fun option.map_comp comp_def)
  qed
qed

lemma sh_adds_Nil: "sh_adds [] []"
  by (simp add: sh_adds_def)

lemma sh_adds_append: "sh_adds f us \<Longrightarrow> sh_adds g vs \<Longrightarrow> sh_adds (f @ g) (us @ vs)"
  unfolding sh_adds_def by (metis append.assoc)

lemma sh_adds_word: "sh_reads f ws \<Longrightarrow> sh_adds (SPACE # f) ws"
  unfolding sh_adds_def sh_reads_def by (auto simp: option.map_comp comp_def intro: option.map_cong)

lemma sh_adds_if: "(b \<Longrightarrow> sh_adds f us) \<Longrightarrow> (\<not> b \<Longrightarrow> sh_adds g vs) \<Longrightarrow> sh_adds (if b then f else g) (if b then us else vs)"
  by simp

lemma sh_adds_concat:
  "(\<And>x. x \<in> set xs \<Longrightarrow> sh_adds (f x) (g x)) \<Longrightarrow> sh_adds (concat (map f xs)) (concat (map g xs))"
  by (induction xs) (simp_all add: sh_adds_Nil sh_adds_append)

lemma sh_reads_adds: "sh_reads s us \<Longrightarrow> sh_adds f vs \<Longrightarrow> sh_reads (s @ f) (us @ vs)"
  by (simp add: sh_adds_def)

lemma sh_words_reads_last: "sh_reads s ws \<Longrightarrow> sh_words (s @ SPACE # shell_quote v) = Some (ws @ [v])"
  by (simp add: sh_reads_def sh_words_last)

subsection \<open>The words of the parts\<close>

definition sql_words :: "emit_uses \<Rightarrow> string list" where
  "sql_words uses = (if uses_sql uses then [''-DSQLITE_THREADSAFE=0'', ''-DSQLITE_OMIT_LOAD_EXTENSION''] else [])"

definition runtime_files :: "options \<Rightarrow> emit_uses \<Rightarrow> string list" where
  "runtime_files opts uses =
     map (path_join (repo_root opts))
       (''vendor/hashmap.c/hashmap.c'' # (if uses_json uses then [''vendor/cjson/cJSON.c''] else [])
         @ (if uses_sql uses then [''vendor/sqlite/sqlite3.c''] else []))"

text \<open>Values of the CMake cache of the H2O build, empty where the lookup fails.\<close>

definition cached :: "world \<Rightarrow> string \<Rightarrow> string" where
  "cached w key = (case cmake_cache_value w (h2o_cache w) key of Inr v \<Rightarrow> v | Inl _ \<Rightarrow> [])"

definition cached_first :: "world \<Rightarrow> string \<Rightarrow> string \<Rightarrow> string" where
  "cached_first w k l = (if cmake_cache_missing_value (cached w k) then cached w l else cached w k)"

definition wslay_items :: "world \<Rightarrow> string list" where
  "wslay_items w =
     (let v = cached_first w ''WSLAY_LIBRARIES'' ''WSLAY_LIBS'' in
      if cmake_cache_missing_value v then [] else filter (\<lambda>item. item \<noteq> []) (split_semicolons v))"

definition is_file_or_flag :: "string \<Rightarrow> bool" where
  "is_file_or_flag item \<longleftrightarrow> chead item = SLASH \<or> chead item = CHR ''-''"

definition h2o_cc_words :: "world \<Rightarrow> string list" where
  "h2o_cc_words w =
     (let ssl = cached w ''OPENSSL_INCLUDE_DIR''; ws = cached_first w ''WSLAY_INCLUDE_DIR'' ''WSLAY_INCLUDEDIR'' in
      concat (map (\<lambda>d. [''-isystem'', path_join (w_root w) d]) h2o_dirs)
      @ (if \<not> cmake_cache_missing_value ssl then [''-isystem'', ssl] else [])
      @ (if \<not> cmake_cache_missing_value ws \<and> \<not> cmake_cache_missing_value (cached_first w ''WSLAY_LIBRARIES'' ''WSLAY_LIBS'')
         then [''-isystem'', ws, ''-DFLX_ENABLE_WEBSOCKET=1''] else [])
      @ [''-DH2O_USE_LIBUV=0''])"

definition h2o_ld_words :: "world \<Rightarrow> string list" where
  "h2o_ld_words w =
     (let zlib = cached_first w ''ZLIB_LIBRARY_RELEASE'' ''ZLIB_LIBRARY'' in
      [h2o_lib w, cached w ''OPENSSL_SSL_LIBRARY'', cached w ''OPENSSL_CRYPTO_LIBRARY'']
      @ (if \<not> cmake_cache_missing_value zlib then [zlib] else [])
      @ map (\<lambda>item. if is_file_or_flag item then item else ''-l'' @ item) (wslay_items w)
      @ [''-lm'', ''-pthread''])"

lemma sh_adds_blank: "sh_adds [SPACE] []"
  using sh_adds_word [OF sh_reads_Nil] by simp

lemma sh_adds_path: "sh_adds (SPACE # shell_quote v) [v]"
  by (rule sh_adds_word [OF sh_reads_quoted]) (simp add: sh_plain_def)

lemma sh_adds_plain: "sh_plain s \<Longrightarrow> s \<noteq> [] \<Longrightarrow> sh_adds (SPACE # s) [s]"
  by (rule sh_adds_word [OF sh_reads_plain])

lemma sh_adds_option: "sh_adds ('' -isystem '' @ shell_quote v) [''-isystem'', v]"
  using sh_adds_append [OF sh_adds_plain sh_adds_path, of "''-isystem''" v] by (simp add: sh_plain_def is_sh_blank_def)

lemma sh_adds_sql:
  "sh_adds (SPACE # (if uses_sql uses then ''-DSQLITE_THREADSAFE=0 -DSQLITE_OMIT_LOAD_EXTENSION'' else [])) (sql_words uses)"
proof -
  have "sh_adds (SPACE # ''-DSQLITE_THREADSAFE=0'' @ SPACE # ''-DSQLITE_OMIT_LOAD_EXTENSION'')
      ([''-DSQLITE_THREADSAFE=0''] @ [''-DSQLITE_OMIT_LOAD_EXTENSION''])"
    unfolding append_Cons [symmetric] by (intro sh_adds_append sh_adds_plain) (simp_all add: sh_plain_def is_sh_blank_def)
  then show ?thesis by (simp add: sql_words_def sh_adds_blank)
qed

lemma sh_adds_runtime: "sh_adds (SPACE # runtime_sources opts uses) (runtime_files opts uses)"
proof -
  let ?p = "path_join (repo_root opts)"
  have "sh_adds ((SPACE # shell_quote (?p ''vendor/hashmap.c/hashmap.c''))
      @ (if uses_json uses then SPACE # shell_quote (?p ''vendor/cjson/cJSON.c'') else [])
      @ (if uses_sql uses then SPACE # shell_quote (?p ''vendor/sqlite/sqlite3.c'') else []))
    ([?p ''vendor/hashmap.c/hashmap.c''] @ (if uses_json uses then [?p ''vendor/cjson/cJSON.c''] else [])
      @ (if uses_sql uses then [?p ''vendor/sqlite/sqlite3.c''] else []))"
    by (intro sh_adds_append sh_adds_path sh_adds_if sh_adds_Nil)
  then show ?thesis by (simp add: runtime_sources_def runtime_files_def if_distrib [of "map ?p"] cong: if_cong)
qed

lemma sh_adds_link_flag:
  assumes "item \<noteq> [] \<Longrightarrow> \<not> is_file_or_flag item \<Longrightarrow> sh_plain item"
  shows "sh_adds (link_flag item)
    (if item = [] then [] else [if is_file_or_flag item then item else ''-l'' @ item])"
proof -
  have "sh_adds (SPACE # ''-l'' @ item) [''-l'' @ item]" if "sh_plain item"
    by (rule sh_adds_plain) (use that in \<open>simp_all add: sh_plain_def is_sh_blank_def\<close>)
  then show ?thesis using assms by (auto simp: link_flag_def is_file_or_flag_def sh_adds_Nil sh_adds_path)
qed

lemma sh_adds_link_flags:
  assumes "\<And>item. item \<in> set items \<Longrightarrow> item \<noteq> [] \<Longrightarrow> \<not> is_file_or_flag item \<Longrightarrow> sh_plain item"
  shows "sh_adds (concat (map link_flag items))
    (map (\<lambda>item. if is_file_or_flag item then item else ''-l'' @ item) (filter (\<lambda>item. item \<noteq> []) items))"
proof -
  have "concat (map (\<lambda>item. if item = [] then [] else [if is_file_or_flag item then item else ''-l'' @ item]) items) =
      map (\<lambda>item. if is_file_or_flag item then item else ''-l'' @ item) (filter (\<lambda>item. item \<noteq> []) items)"
    by (induction items) auto
  then show ?thesis
    using sh_adds_concat [of items link_flag, OF sh_adds_link_flag [OF assms]] by simp
qed

lemma cached_value: "cmake_cache_value w (h2o_cache w) key = Inr v \<Longrightarrow> cached w key = v"
  by (simp add: cached_def)

lemma cached_first_value: "cmake_cache_first_value w (h2o_cache w) k l = Inr v \<Longrightarrow> cached_first w k l = v"
  by (auto simp: cmake_cache_first_value_def cached_first_def rbind_eq_Inr cached_def split: if_splits)

lemma h2o_compile_flags_words:
  assumes "h2o_compile_flags w = Inr flags"
  shows "sh_adds (SPACE # flags @ '' -DH2O_USE_LIBUV=0'') (h2o_cc_words w)"
proof -
  let ?ssl = "cached w ''OPENSSL_INCLUDE_DIR''" and ?ws = "cached_first w ''WSLAY_INCLUDE_DIR'' ''WSLAY_INCLUDEDIR''"
  let ?lib = "cached_first w ''WSLAY_LIBRARIES'' ''WSLAY_LIBS''"
  have flags: "flags = h2o_include_flags (w_root w) ?ssl ?ws (\<not> cmake_cache_missing_value ?ws \<and> \<not> cmake_cache_missing_value ?lib)"
    using assms by (auto simp: h2o_compile_flags_def rbind_eq_Inr dest!: cached_value cached_first_value)
  have "sh_adds ([SPACE] @ concat (map (\<lambda>d. '' -isystem '' @ shell_quote (path_join (w_root w) d)) h2o_dirs)
      @ (if \<not> cmake_cache_missing_value ?ssl then '' -isystem '' @ shell_quote ?ssl else [])
      @ (if \<not> cmake_cache_missing_value ?ws \<and> \<not> cmake_cache_missing_value ?lib
         then ('' -isystem '' @ shell_quote ?ws) @ (SPACE # ''-DFLX_ENABLE_WEBSOCKET=1'') else [])
      @ (SPACE # ''-DH2O_USE_LIBUV=0''))
    ([] @ concat (map (\<lambda>d. [''-isystem'', path_join (w_root w) d]) h2o_dirs)
      @ (if \<not> cmake_cache_missing_value ?ssl then [''-isystem'', ?ssl] else [])
      @ (if \<not> cmake_cache_missing_value ?ws \<and> \<not> cmake_cache_missing_value ?lib
         then [''-isystem'', ?ws] @ [''-DFLX_ENABLE_WEBSOCKET=1''] else [])
      @ [''-DH2O_USE_LIBUV=0''])"
    by (intro sh_adds_append sh_adds_blank sh_adds_concat sh_adds_option sh_adds_if sh_adds_Nil sh_adds_plain)
      (simp_all add: sh_plain_def is_sh_blank_def)
  then show ?thesis
    by (cases "cmake_cache_missing_value ?ssl"; cases "cmake_cache_missing_value ?ws"; cases "cmake_cache_missing_value ?lib")
      (simp_all add: flags h2o_include_flags_def h2o_cc_words_def)
qed

lemma h2o_link_flags_words:
  assumes "h2o_link_flags w = Inr flags"
    and "\<And>item. item \<in> set (wslay_items w) \<Longrightarrow> \<not> is_file_or_flag item \<Longrightarrow> sh_plain item"
  shows "sh_adds (SPACE # flags) (h2o_ld_words w)"
proof -
  let ?ssl = "cached w ''OPENSSL_SSL_LIBRARY''" and ?crypto = "cached w ''OPENSSL_CRYPTO_LIBRARY''"
  let ?zlib = "cached_first w ''ZLIB_LIBRARY_RELEASE'' ''ZLIB_LIBRARY''"
  let ?ws = "cached_first w ''WSLAY_LIBRARIES'' ''WSLAY_LIBS''"
  have flags: "flags = shell_quote (h2o_lib w) @ '' '' @ shell_quote ?ssl @ '' '' @ shell_quote ?crypto
      @ (if \<not> cmake_cache_missing_value ?zlib then '' '' @ shell_quote ?zlib else [])
      @ (if \<not> cmake_cache_missing_value ?ws then '' '' @ link_flags_from_cmake_list ?ws else []) @ '' -lm -pthread''"
    using assms(1)
    by (auto simp: h2o_link_flags_def rbind_eq_Inr split: if_splits dest!: cached_value cached_first_value)
  have ws: "sh_adds (if \<not> cmake_cache_missing_value ?ws then [SPACE] @ link_flags_from_cmake_list ?ws else [])
      (map (\<lambda>item. if is_file_or_flag item then item else ''-l'' @ item) (wslay_items w))"
  proof (cases "cmake_cache_missing_value ?ws")
    case False
    then have "sh_adds (link_flags_from_cmake_list ?ws)
        (map (\<lambda>item. if is_file_or_flag item then item else ''-l'' @ item) (wslay_items w))"
      using sh_adds_link_flags [of "split_semicolons ?ws"] assms(2)
      by (simp add: link_flags_from_cmake_list_def wslay_items_def Let_def)
    from sh_adds_append [OF sh_adds_blank this] False show ?thesis by simp
  qed (simp add: wslay_items_def Let_def sh_adds_Nil)
  have "sh_adds ((SPACE # shell_quote (h2o_lib w)) @ (SPACE # shell_quote ?ssl) @ (SPACE # shell_quote ?crypto)
      @ (if \<not> cmake_cache_missing_value ?zlib then SPACE # shell_quote ?zlib else [])
      @ (if \<not> cmake_cache_missing_value ?ws then [SPACE] @ link_flags_from_cmake_list ?ws else [])
      @ (SPACE # ''-lm'') @ (SPACE # ''-pthread''))
    ([h2o_lib w] @ [?ssl] @ [?crypto] @ (if \<not> cmake_cache_missing_value ?zlib then [?zlib] else [])
      @ map (\<lambda>item. if is_file_or_flag item then item else ''-l'' @ item) (wslay_items w) @ [''-lm''] @ [''-pthread''])"
    by (intro sh_adds_append sh_adds_path sh_adds_if sh_adds_Nil ws sh_adds_plain)
      (simp_all add: sh_plain_def is_sh_blank_def)
  then show ?thesis by (simp add: flags h2o_ld_words_def Let_def cong: if_cong)
qed


text \<open>A program with REQ, on a disk with the cache of an H2O build, and compiler flags of its own.\<close>

definition sample_cache :: world where
  "sample_cache = \<lparr>w_real = (\<lambda>p. None), w_regular = (\<lambda>p. False), w_readable = (\<lambda>p. True),
     w_disk = [''vendor/h2o/build/CMakeCache.txt'' \<mapsto>
       ''OPENSSL_SSL_LIBRARY:F=/ssl\<newline>OPENSSL_CRYPTO_LIBRARY:F=/it's\<newline>WSLAY_LIBRARIES:S=wslay;/m\<newline>''],
     w_root = ''.''\<rparr>"

definition sample_uses :: emit_uses where
  "sample_uses = \<lparr>uses_json = False, uses_sql = False, uses_req = True\<rparr>"


end
