(* ===== verification/AnalyzeProps.thy ===== *)
theory AnalyzeProps
  imports AnalyzeFacts
begin

text \<open>
  The properties of the analyzer as a whole, from the library of \<open>AnalyzeFacts\<close>, and the sample
  program they are applied to.
\<close>

section \<open>A sample program\<close>

text \<open>\<open>FN d() -> INT ( ret 1 )\<close>, and what the phases of its analysis leave.\<close>

definition sample_body :: node where
  "sample_body = with_statements
     [set_value (with_int 1 (synthetic NK_INT TK_INT_LITERAL ''1'')) (synthetic NK_RET TK_RET ''ret'')]
     (synthetic NK_BLOCK TK_LPAREN ''('')"

definition sample_program :: node where
  "sample_program = with_functions
     [with_name ''d'' (with_type ''INT'' (set_body sample_body (synthetic NK_FN TK_FN ''FN'')))]
     (synthetic NK_PROGRAM TK_EOF [])"

definition sample_start :: an_state where
  "sample_start = \<lparr>an_scope = scope_new [],
     an_types = (case build_type_table sample_program of Inr ts \<Rightarrow> ts | Inl _ \<Rightarrow> []),
     an_fns = [], an_ctx = fresh_ctx NoFn False False False\<rparr>"

definition sample_named :: an_state where
  "sample_named = (case analyze_named_map_values (analyzer 1) 7 0 sample_start of
     Inr (u, st) \<Rightarrow> st | Inl _ \<Rightarrow> sample_start)"

definition sample_registered :: "node \<times> an_state" where
  "sample_registered = (case register_functions sample_program sample_named of
     Inr r \<Rightarrow> r | Inl _ \<Rightarrow> (sample_program, sample_named))"

definition sample_end :: an_state where
  "sample_end = (case analyze_fn (analyzer 3) ''d'' (snd sample_registered) of
     Inr (u, st) \<Rightarrow> st | Inl _ \<Rightarrow> sample_start)"

lemma sample_types: "build_type_table sample_program = Inr (an_types sample_start)"
  by code_simp

lemma sample_values: "analyze_named_map_values (analyzer 1) 7 0 sample_start = Inr ((), sample_named)"
  by code_simp

lemma sample_register:
  "register_functions sample_program sample_named = Inr sample_registered"
  "map fi_name (an_fns (snd sample_registered)) = [''d'']"
  by code_simp+

lemma sample_fn: "analyze_fn (analyzer 3) ''d'' (snd sample_registered) = Inr ((), sample_end)"
  by code_simp

lemma sample_rest: "n_globals sample_program = []" "n_statements (fst sample_registered) = []"
  by code_simp+

lemma with_globals_none: "n_globals n = [] \<Longrightarrow> with_globals [] n = n"
  by (cases n) (simp add: with_globals_def)

lemma sample_analyzed:
  "\<exists>prog. analyze_program 7 sample_program = Inr (prog, sample_end)"
proof -
  have named: "analyze_named_map_values (analyzer 7) 7 0 sample_start = Inr ((), sample_named)"
    using agree_outcome [OF run.agree_named_values [where n = 1 and k = 6 and m = 7 and l = 0 and i = 0],
        of sample_start] sample_values by simp
  have fn: "analyze_fn (analyzer 7) ''d'' (snd sample_registered) = Inr ((), sample_end)"
    using agree_outcome [OF fuel.agree_analyze_fn [where depth = 3 and more = 4], of "''d''" "snd sample_registered"]
      sample_fn by simp
  have empty: "with_globals [] sample_program = sample_program"
    by (rule with_globals_none) (rule sample_rest(1))
  have start: "\<lparr>an_scope = scope_new [], an_types = an_types sample_start, an_fns = [],
      an_ctx = fresh_ctx NoFn False False False\<rparr> = sample_start"
    by (simp add: sample_start_def)
  obtain q st where r: "sample_registered = (q, st)" by (cases sample_registered)
  show ?thesis
    using sample_types sample_register [unfolded r] sample_rest [unfolded r] named fn [unfolded r] empty
    by (simp add: analyze_program_def start analyze_declarations_def Let_def athen_def abind_def at_items_def
        aret_def reads_def analyze_script_def with_functions_def)
qed

section \<open>Properties\<close>

text \<open>
  Fuel is only a bound on the depth of the recursion: once \<open>analyze_program\<close> accepts or
  rejects a program with some fuel, every larger fuel gives the same tree and the same tables, or
  the same diagnostic at the same place.
\<close>

lemma analyze_program_fuel:
  assumes "analyze_program n prog \<noteq> Inl OutOfFuel" and "n \<le> m"
  shows "analyze_program m prog = analyze_program n prog"
proof (cases "build_type_table prog")
  case (Inr types)
  obtain k where "m = n + k" using assms(2) le_Suc_ex by blast
  with Inr assms(1) agree_outcome [OF driver_declarations] show ?thesis by (simp add: analyze_program_def)
qed (simp add: analyze_program_def)

text \<open>
  C27: The scoping discipline. A statement keeps every scope it runs in and every name in them, in
  order, and adds names to the innermost one only, none of them twice; a block leaves every scope
  with exactly the names it had, whatever the statements in it declare.
\<close>

theorem scopes_paired:
  "(case analyze_stmt (analyzer n) s st of
      Inl _ \<Rightarrow> True | Inr (s', st') \<Rightarrow> scope_extends (an_scope st) (an_scope st')) \<and>
   (case analyze_block (analyzer n) b st of
      Inl _ \<Rightarrow> True | Inr (b', st') \<Rightarrow> frame_names (an_scope st') = frame_names (an_scope st))"
  using agree_step [OF scoped.agree_analyze_stmt [where depth = n and more = 0]] block_names
  by (fastforce simp: scopes_kept_def split: sum.split prod.split)

text \<open>
  C28: The type table only grows while bodies are analyzed. An expression, a statement and the
  analysis of a whole function leave every entry at its index with its name, its kind, its fields
  and its default values; a MAP that was opened stays open, an alias that was resolved stays
  resolved, new entries go to the end, and no two entries get the same name.
\<close>

theorem type_table_grows:
  "(case analyze_expr_expected (analyzer n) e want st of
      Inl _ \<Rightarrow> True | Inr (r, st') \<Rightarrow> table_extends (an_types st) (an_types st')) \<and>
   (case analyze_stmt (analyzer n) s st of
      Inl _ \<Rightarrow> True | Inr (s', st') \<Rightarrow> table_extends (an_types st) (an_types st')) \<and>
   (case analyze_fn (analyzer n) f st of
      Inl _ \<Rightarrow> True | Inr (u, st') \<Rightarrow> table_extends (an_types st) (an_types st'))"
  using agree_step [OF typed.agree_analyze_stmt [where depth = n and more = 0]]
    agree_step [OF typed.agree_analyze_fn [where depth = n and more = 0]]
    agree_step [OF typed.agree_analyze_expr_expected [where depth = n and more = 0]]
  by (fastforce simp: types_kept_def split: sum.split prod.split)

text \<open>
  C29: Every function gets analyzed, once and for good. When \<open>analyze_program\<close> accepts a program,
  the table holds the functions that registration found, in the same order, under the same names
  and with the same signatures; each of them is in its final state, whoever asked for its analysis
  first, and its return type is the one it declares.
\<close>

theorem analyze_program_finishes:
  assumes "analyze_program n prog = Inr (prog', st)"
  shows "\<exists>p types q table us. n_functions p = n_functions prog \<and> n_statements p = n_statements prog \<and>
    register_program p types = Inr (q, table, us) \<and>
    distinct (map fi_name table) \<and> list_all2 same_signature table (an_fns st) \<and> list_all finished (an_fns st)"
  by (rule analyze_program_finished [OF assms])

theorem analyze_program_finishes_witness:
  "\<exists>p types q table us. n_functions p = n_functions sample_program \<and> n_statements p = n_statements sample_program \<and>
    register_program p types = Inr (q, table, us) \<and>
    distinct (map fi_name table) \<and> list_all2 same_signature table (an_fns sample_end) \<and>
    list_all finished (an_fns sample_end)"
  using sample_analyzed analyze_program_finishes [of 7 sample_program] by blast

section \<open>What the emitter never sees\<close>

text \<open>
  The parts of a statement or an expression, kind by kind: what the language has inside a block, a
  condition, a call and so on. The operand of FREE is no part, since it is never evaluated.
\<close>

inductive part :: "node \<Rightarrow> node \<Rightarrow> bool" where
  of_program: "n_kind n = NK_PROGRAM \<Longrightarrow> k \<in> set (n_globals n) \<union> set (n_functions n) \<union> set (n_statements n) \<Longrightarrow> part n k"
| of_fn: "n_kind n = NK_FN \<Longrightarrow> n_body n = Some k \<Longrightarrow> part n k"
| of_block: "n_kind n = NK_BLOCK \<Longrightarrow> k \<in> set (n_statements n) \<Longrightarrow> part n k"
| of_store: "n_kind n \<in> {NK_VAR, NK_ASSIGN} \<Longrightarrow> n_target n = Some k \<or> n_value n = Some k \<Longrightarrow> part n k"
| of_destructure: "n_kind n = NK_DESTRUCTURE \<Longrightarrow> k \<in> set (n_fields n) \<or> n_value n = Some k \<Longrightarrow> part n k"
| of_agg_step: "n_kind n = NK_AGG_STEP \<Longrightarrow> n_value n = Some k \<Longrightarrow> part n k"
| of_exit: "n_kind n \<in> {NK_RET, NK_THROW, NK_EXPR_STMT} \<Longrightarrow> n_value n = Some k \<or> n_expr n = Some k \<Longrightarrow> part n k"
| of_if: "n_kind n = NK_IF \<Longrightarrow> n_condition n = Some k \<or> n_then_block n = Some k \<or> n_else_block n = Some k \<Longrightarrow> part n k"
| of_if_branch: "n_kind n = NK_IF \<Longrightarrow> k \<in> set (n_elx_branches n) \<Longrightarrow> part n k"
| of_elx: "n_kind n = NK_ELX \<Longrightarrow> n_condition n = Some k \<or> n_body n = Some k \<Longrightarrow> part n k"
| of_loop: "n_kind n = NK_LOOP \<Longrightarrow> k \<in> set (n_args n) \<or> n_body n = Some k \<Longrightarrow> part n k"
| of_array: "n_kind n \<in> {NK_ARRAY, NK_SHAPE} \<Longrightarrow> k \<in> set (n_elements n) \<Longrightarrow> part n k"
| of_map: "n_kind n \<in> {NK_MAP_LITERAL, NK_RECORD_LITERAL} \<Longrightarrow> k \<in> set (n_fields n) \<Longrightarrow> part n k"
| of_field: "n_kind n = NK_FIELD \<Longrightarrow> n_target n = Some k \<or> n_value n = Some k \<Longrightarrow> part n k"
| of_dot: "n_kind n = NK_DOT \<Longrightarrow> n_object n = Some k \<or> n_index n = Some k \<or> n_target n = Some k \<Longrightarrow> part n k"
| of_unary: "n_kind n \<in> {NK_UNARY, NK_DECODE} \<Longrightarrow> n_expr n = Some k \<Longrightarrow> part n k"
| of_binary: "n_kind n = NK_BINARY \<Longrightarrow> n_left n = Some k \<or> n_right n = Some k \<Longrightarrow> part n k"
| of_call: "n_kind n = NK_CALL \<Longrightarrow> n_callee n = Some k \<or> k \<in> set (n_args n) \<Longrightarrow> part n k"
| of_method: "n_kind n = NK_METHOD_CALL \<Longrightarrow> n_object n = Some k \<or> k \<in> set (n_args n) \<or> n_body n = Some k \<Longrightarrow> part n k"
| of_if_expr: "n_kind n = NK_IF_EXPR \<Longrightarrow> n_value n = Some k \<or> n_condition n = Some k \<or> n_right n = Some k \<Longrightarrow> part n k"

text \<open>A node and all nodes inside it.\<close>

inductive visited :: "node \<Rightarrow> node \<Rightarrow> bool" where
  here: "visited n n"
| below: "visited n m \<Longrightarrow> part m k \<Longrightarrow> visited n k"

lemma part_checked: "part n k \<Longrightarrow> k \<in> set (typed_kids n)"
  by (induction rule: part.induct) (auto simp: typed_kids_def Let_def in_map_filter_id simp del: map_filter_simps)

definition has_concrete_types :: "node \<Rightarrow> bool" where
  "has_concrete_types n \<longleftrightarrow>
     \<not> has_unknown (checked_type (attrs n)) \<and> (inferred_decl (attrs n) \<longrightarrow> \<not> has_unknown (node_attrs.declared_type (attrs n)))"

lemma validate_here_ok: "validate_here n = Inr () \<longleftrightarrow> has_concrete_types n"
  by (auto simp: validate_here_def has_concrete_types_def die_node_at_def)

lemma each_result_ok: "each_result f xs = Inr () \<longleftrightarrow> (\<forall>x \<in> set xs. f x = Inr ())"
  by (induction xs) (auto simp: rbind_eq_Inr)

lemma validate_ok:
  "validate_concrete_types n = Inr () \<longleftrightarrow>
     has_concrete_types n \<and> (\<forall>k \<in> set (typed_kids n). validate_concrete_types k = Inr ())"
proof -
  have "validate_concrete_types n = Inr () \<longleftrightarrow>
      validate_here n = Inr () \<and> each_result validate_concrete_types (typed_kids n) = Inr ()"
    by (subst validate_concrete_types.simps) (auto split: sum.split)
  then show ?thesis by (simp add: validate_here_ok each_result_ok)
qed

lemma validated_below:
  assumes "visited n m" "validate_concrete_types n = Inr ()"
  shows "has_concrete_types m"
proof -
  have "validate_concrete_types m = Inr ()"
    using assms
  proof (induction rule: visited.induct)
    case (below n m k)
    then show ?case using validate_ok [of m] part_checked by blast
  qed
  then show ?thesis using validate_ok by blast
qed

lemma script_validated:
  assumes "analyze_script R prog st = Inr (prog', st')" "n_statements prog' \<noteq> []"
  shows "validate_concrete_types prog' = Inr ()"
proof (cases "n_statements prog = []")
  case True
  then show ?thesis using assms by (cases prog) (auto simp: analyze_script_def aret_def set_type_def upd_attrs_def)
next
  case False
  then show ?thesis using assms(1)
    by (auto simp: analyze_script_def athen_Inr abind_Inr queries_def rbind_eq_Inr aret_def)
qed

text \<open>
  C31: No type is left open in the code that runs. In a program that \<open>analyze_program\<close> accepts, no node of
  a function body and, when the program has a script, no node of the script, of its globals and of
  its functions has an unresolved type, and no inferred declaration does, however deep it is nested
  in blocks, conditions, arguments, literals and method bodies. The defaults of the fields of
  declared types and the operand of FREE are not checked by the code, nor are the globals of a
  program without a script.
\<close>

theorem no_unknown_type_left:
  assumes "analyze_program n prog = Inr (prog', st)"
  shows "list_all (\<lambda>f. \<exists>b. n_body (fi_node f) = Some b \<and> (\<forall>m. visited b m \<longrightarrow> has_concrete_types m)) (an_fns st) \<and>
    (n_statements prog' \<noteq> [] \<longrightarrow> (\<forall>m. visited prog' m \<longrightarrow> has_concrete_types m))"
proof
  have "list_all finished (an_fns st)" using analyze_program_finished [OF assms] by blast
  then show "list_all (\<lambda>f. \<exists>b. n_body (fi_node f) = Some b \<and> (\<forall>m. visited b m \<longrightarrow> has_concrete_types m)) (an_fns st)"
    by (rule list.pred_mono_strong)
      (auto simp: finished_def opt_holds_def split: option.splits intro: validated_below)
  obtain p st1 where "analyze_script (analyzer n) p st1 = Inr (prog', st)"
    using assms by (auto simp: analyze_program_def analyze_declarations_def Let_def rbind_eq_Inr athen_Inr abind_Inr)
  then show "n_statements prog' \<noteq> [] \<longrightarrow> (\<forall>m. visited prog' m \<longrightarrow> has_concrete_types m)"
    using script_validated validated_below by blast
qed

theorem no_unknown_type_left_witness:
  "list_all (\<lambda>f. \<exists>b. n_body (fi_node f) = Some b \<and> (\<forall>m. visited b m \<longrightarrow> has_concrete_types m)) (an_fns sample_end)"
  using sample_analyzed no_unknown_type_left [of 7 sample_program] by blast

section \<open>Freed values\<close>


definition sample_name :: node where
  "sample_name = with_name ''a'' (synthetic NK_NAME TK_NAME ''a'')"

definition sample_free :: node where
  "sample_free = set_expr sample_name (synthetic NK_FREE TK_FREE ''FREE'')"

definition sample_owner :: an_state where
  "sample_owner = \<lparr>an_scope = [[(new_symbol ''a'' ''STR'' None builtin_map_value)\<lparr>ownership := OWNERSHIP_OWNED\<rparr>]],
     an_types = [], an_fns = [], an_ctx = fresh_ctx ScriptFn True True True\<rparr>"


end
