(* ===== verification/AstPrint.thy ===== *)
theory AstPrint
  imports Emit FrontEnd
begin

text \<open>
  The JSON-like print of the checked tree (\<open>src/caster/ast/ast_printer.c\<close>), which the driver writes
  to standard output, and the grammar of JSON it follows. \<open>flt\<close> is what the C library prints for
  a literal under \<open>%.17g\<close>, as in the emitter.
\<close>

section \<open>The printer\<close>

definition indent_by :: "nat \<Rightarrow> string" where
  "indent_by n = replicate n SPACE"

definition raw_member :: "string \<Rightarrow> string \<Rightarrow> string" where
  "raw_member key v = strf ''`%s`: %s'' [key, v]"

definition text_member :: "string \<Rightarrow> string \<Rightarrow> string" where
  "text_member key s = strf ''`%s`: `%s`'' [key, s]"

definition opt_member :: "string \<Rightarrow> string option \<Rightarrow> string list" where
  "opt_member key v = (case v of None \<Rightarrow> [] | Some s \<Rightarrow> [text_member key s])"

definition flag_member :: "bool \<Rightarrow> string \<Rightarrow> string \<Rightarrow> string list" where
  "flag_member b key v = (if b then [raw_member key v] else [])"

text \<open>\<open>"kind"\<close> and \<open>"loc"\<close>, and what the scalar fields of a node add. A string literal always has its text.\<close>

definition head_members :: "node_attrs \<Rightarrow> string list" where
  "head_members a =
     [text_member ''kind'' (node_kind_name (a_kind a)),
      strf ''`loc`: {`line`: %s, `col`: %s}'' [show_nat (n_line a), show_nat (n_col a)]]"

definition attr_members :: "(string \<Rightarrow> string) \<Rightarrow> node_attrs \<Rightarrow> string list result" where
  "attr_members flt a =
     (if a_kind a = NK_STR \<and> n_text a = None then Inl NullDeref
      else Inr (head_members a
        @ opt_member ''checkedType'' (checked_type a)
        @ opt_member ''name'' (n_name a)
        @ opt_member ''alias'' (n_alias a)
        @ opt_member ''declaredType'' (node_attrs.declared_type a)
        @ flag_member (inferred_decl a) ''inferredDecl'' ''true''
        @ opt_member ''cExpr'' (c_expr a)
        @ opt_member ''loopKind'' (loop_kind a)
        @ flag_member (a_kind a = NK_INT) ''value'' (show_int (int_value a))
        @ flag_member (a_kind a = NK_FLT) ''value'' (flt (float_value a))
        @ flag_member (a_kind a = NK_BOL) ''value'' (if bool_value a then ''true'' else ''false'')
        @ (if a_kind a = NK_STR then opt_member ''value'' (n_text a) else [])
        @ (if a_kind a = NK_FIELD then opt_member ''key'' (n_text a) else [])
        @ opt_member ''op'' (n_op a)))"

definition child_members :: "node \<Rightarrow> (string \<times> node) list" where
  "child_members n =
     concat (map (\<lambda>(key, c). case c of None \<Rightarrow> [] | Some x \<Rightarrow> [(key, x)])
       [(''body'', n_body n), (''value'', n_value n), (''target'', n_target n), (''expr'', n_expr n),
        (''condition'', n_condition n), (''thenBlock'', n_then_block n), (''elseBlock'', n_else_block n),
        (''object'', n_object n), (''index'', n_index n), (''callee'', n_callee n), (''left'', n_left n),
        (''right'', n_right n)])"

definition vector_members :: "node \<Rightarrow> (string \<times> node list) list" where
  "vector_members n =
     filter (\<lambda>(key, xs). xs \<noteq> [])
       [(''typeDecls'', n_type_decls n), (''globals'', n_globals n), (''fields'', n_fields n),
        (''functions'', n_functions n), (''params'', n_params n), (''statements'', n_statements n),
        (''args'', n_args n), (''elements'', n_elements n), (''elxBranches'', n_elx_branches n)]"

lemma child_member_smaller: "(key, x) \<in> set (child_members n) \<Longrightarrow> size x < size n"
  by (auto simp: child_members_def split: option.splits intro: size_child)

lemma size_declaration:
  "x \<in> set (n_type_decls n) \<Longrightarrow> size x < size n" "x \<in> set (n_globals n) \<Longrightarrow> size x < size n"
  "x \<in> set (n_functions n) \<Longrightarrow> size x < size n" "x \<in> set (n_params n) \<Longrightarrow> size x < size n"
  by (cases n; force dest: size_list_estimation' [where f = size, OF _ order_refl])+

lemma vector_member_smaller: "(key, xs) \<in> set (vector_members n) \<Longrightarrow> x \<in> set xs \<Longrightarrow> size x < size n"
  by (auto simp: vector_members_def simp del: filter.simps intro: size_item size_declaration)

text \<open>\<open>print_vec\<close> with its items printed, a member list with its commas, and the whole node.\<close>

fun comma_lines :: "string list \<Rightarrow> string" where
  "comma_lines [] = []"
| "comma_lines [x] = x"
| "comma_lines (x # y # xs) = x @ '',\<newline>'' @ comma_lines (y # xs)"

definition vec_text :: "nat \<Rightarrow> string \<Rightarrow> string list \<Rightarrow> string" where
  "vec_text ind key items = strf ''`%s`: [\<newline>'' [key] @ comma_lines items @ ''\<newline>'' @ indent_by ind @ '']''"

definition object_text :: "nat \<Rightarrow> string list \<Rightarrow> string" where
  "object_text ind members =
     indent_by ind @ ''{\<newline>'' @ comma_lines (map (\<lambda>m. indent_by (ind + 2) @ m) members) @ ''\<newline>'' @ indent_by ind @ ''}''"

text \<open>A node from its scalar members, and its children and vectors printed.\<close>

definition node_members ::
  "string list result \<Rightarrow> nat \<Rightarrow> (string \<times> string result) list \<Rightarrow> (string \<times> string result list) list \<Rightarrow> string list result" where
  "node_members scalars ind children vectors =
     rbind scalars (\<lambda>ms.
     rbind (rseq (map (\<lambda>(key, r). rbind r (\<lambda>t. Inr (raw_member key t))) children)) (\<lambda>cs.
     rbind (rseq (map (\<lambda>(key, rs). rbind (rseq rs) (\<lambda>ts. Inr (vec_text (ind + 2) key ts))) vectors)) (\<lambda>vs.
     Inr (ms @ cs @ vs))))"

function print_node :: "(string \<Rightarrow> string) \<Rightarrow> node \<Rightarrow> nat \<Rightarrow> string result" where
  "print_node flt n ind =
     rbind (node_members (attr_members flt (attrs n)) ind
         (map (\<lambda>(key, c). (key, print_node flt c (ind + 2))) (child_members n))
         (map (\<lambda>(key, xs). (key, map (\<lambda>x. print_node flt x (ind + 4)) xs)) (vector_members n)))
       (\<lambda>members. Inr (object_text ind members))"
  by pat_completeness auto

termination
  by (relation "measure (\<lambda>(flt, n, ind). size n)") (auto intro: child_member_smaller vector_member_smaller)

declare print_node.simps [simp del]

section \<open>JSON\<close>

text \<open>
  A part of the grammar of RFC 8259: blanks around tokens, strings, numbers, nonempty objects,
  arrays. What it derives is JSON.
\<close>

definition blank :: "string \<Rightarrow> bool" where
  "blank s \<longleftrightarrow> set s \<subseteq> {SPACE, TAB, NL, CR}"

definition unescaped :: "string \<Rightarrow> bool" where
  "unescaped s \<longleftrightarrow> (\<forall>c \<in> set s. c \<noteq> DQUOTE \<and> c \<noteq> BSLASH \<and> 32 \<le> code c)"

text \<open>The units of a string literal: plain characters and the two kinds of escapes.\<close>

definition json_unit :: "string \<Rightarrow> bool" where
  "json_unit u \<longleftrightarrow> (\<exists>c. u = [c] \<and> unescaped [c]) \<or> (\<exists>e. u = [BSLASH, e] \<and> json_simple_escape e \<noteq> None) \<or>
     (\<exists>ds. u = BSLASH # CHR ''u'' # ds \<and> length ds = 4 \<and> (\<forall>d \<in> set ds. hex_val d \<noteq> None))"

definition json_chars :: "string \<Rightarrow> bool" where
  "json_chars s \<longleftrightarrow> (\<exists>us. s = concat us \<and> list_all json_unit us)"

definition json_digits :: "string \<Rightarrow> bool" where
  "json_digits s \<longleftrightarrow> s \<noteq> [] \<and> list_all isdigit s"

definition json_whole :: "string \<Rightarrow> bool" where
  "json_whole s \<longleftrightarrow> json_digits s \<and> (hd s = CHR ''0'' \<longrightarrow> length s = 1)"

definition json_number :: "string \<Rightarrow> bool" where
  "json_number s \<longleftrightarrow> (\<exists>sign whole frac ex. s = sign @ whole @ frac @ ex \<and> (sign = [] \<or> sign = ''-'') \<and>
     json_whole whole \<and> (frac = [] \<or> (\<exists>ds. frac = ''.'' @ ds \<and> json_digits ds)) \<and>
     (ex = [] \<or> (\<exists>e sg ds. ex = e @ sg @ ds \<and> (e = ''e'' \<or> e = ''E'') \<and> (sg = [] \<or> sg = ''+'' \<or> sg = ''-'') \<and>
       json_digits ds)))"

inductive json :: "string \<Rightarrow> bool" and json_members :: "string \<Rightarrow> bool" and json_items :: "string \<Rightarrow> bool" where
  json_string: "json_chars s \<Longrightarrow> json (DQUOTE # s @ [DQUOTE])"
| json_num: "json_number s \<Longrightarrow> json s"
| json_true: "json ''true''"
| json_false: "json ''false''"
| json_object: "json_members ms \<Longrightarrow> json (''{'' @ ms @ ''}'')"
| json_array: "json_items xs \<Longrightarrow> json (''['' @ xs @ '']'')"
| json_no_items: "blank a \<Longrightarrow> json (''['' @ a @ '']'')"
| json_member: "json_chars k \<Longrightarrow> json v \<Longrightarrow> blank a \<Longrightarrow> blank b \<Longrightarrow> blank c \<Longrightarrow>
    json_members (a @ DQUOTE # k @ DQUOTE # '':'' @ b @ v @ c)"
| json_more_members: "json_members ms \<Longrightarrow> json_members ns \<Longrightarrow> json_members (ms @ '','' @ ns)"
| json_item: "json v \<Longrightarrow> blank a \<Longrightarrow> blank b \<Longrightarrow> json_items (a @ v @ b)"
| json_more_items: "json_items xs \<Longrightarrow> json_items ys \<Longrightarrow> json_items (xs @ '','' @ ys)"

lemma unescaped_chars: "unescaped s \<Longrightarrow> json_chars s"
  unfolding json_chars_def
  by (intro exI [of _ "map (\<lambda>c. [c]) s"]) (auto simp: json_unit_def unescaped_def list_all_iff)

lemma escaped_char_unit: "json_unit (json_escape_char c)"
proof -
  have "code c div 16 < 16" "code c mod 16 < 16" using code_less [of c] by simp_all
  then show ?thesis
    by (auto simp: json_unit_def json_escape_char_def json_simple_escape_def unescaped_def hex_val_hex_digit)
qed

lemma escaped_chars: "json_chars (concat (map json_escape_char s))"
  unfolding json_chars_def by (intro exI [of _ "map json_escape_char s"]) (simp add: list_all_iff escaped_char_unit)

lemma blank_simps [simp]:
  "blank []" "blank (a @ b) \<longleftrightarrow> blank a \<and> blank b" "blank (indent_by n)" "blank (c # a) \<longleftrightarrow> c \<in> {SPACE, TAB, NL, CR} \<and> blank a"
  by (auto simp: blank_def indent_by_def)

lemma json_digits_show: "json_digits (show_nat n)"
  using show_nat_digits [of n] by (subst show_nat.simps) (auto simp: json_digits_def list_all_iff show_nat.simps [of n] split: if_splits)

lemma hd_show_nat: "0 < n \<Longrightarrow> hd (show_nat n) \<noteq> CHR ''0''"
proof (induction n rule: show_nat.induct)
  case (1 n)
  show ?case
  proof (cases "n < 10")
    case True
    then have "hd (show_nat n) = char_of (48 + n)" by (simp add: show_nat.simps [of n])
    moreover have "char_of (48 + n) \<noteq> CHR ''0''"
    proof
      assume "char_of (48 + n) = CHR ''0''"
      then have "of_char (char_of (48 + n) :: char) = (48 :: nat)" by simp
      then show False using True 1(2) by (simp add: of_char_of)
    qed
    ultimately show ?thesis by simp
  next
    case False
    then have "show_nat (n div 10) \<noteq> []" using json_digits_show by (simp add: json_digits_def)
    with False 1 show ?thesis by (simp add: show_nat.simps [of n])
  qed
qed

lemma json_number_show [simp]: "json_number (show_nat n)"
proof -
  have "json_whole (show_nat n)"
    using json_digits_show [of n] hd_show_nat [of n] by (cases "n = 0") (auto simp: json_whole_def show_nat.simps [of 0])
  then show ?thesis unfolding json_number_def by (metis append_Nil append_Nil2)
qed

lemma json_number_int: "json_number (show_int i)"
proof (cases "i < 0")
  case True
  have "json_whole (show_nat (nat (- i)))"
    using json_digits_show [of "nat (- i)"] hd_show_nat [of "nat (- i)"] True by (simp add: json_whole_def)
  moreover have "show_int i = ''-'' @ show_nat (nat (- i)) @ [] @ []" using True by (simp add: show_int_def)
  ultimately show ?thesis unfolding json_number_def by blast
qed (simp add: show_int_def)

lemma json_members_padded: "json_members ms \<Longrightarrow> blank a \<Longrightarrow> json_members (a @ ms)"
proof (induction ms rule: json_json_members_json_items.inducts(2) [where ?P1.0 = "\<lambda>_. True" and ?P3.0 = "\<lambda>_. True"])
  case (json_member k v b c d)
  then show ?case using json_json_members_json_items.json_member [of k v "a @ b" c d] by simp
next
  case (json_more_members ms ns)
  then show ?case using json_json_members_json_items.json_more_members [of "a @ ms" ns] by simp
qed simp_all

lemma json_members_closed: "json_members ms \<Longrightarrow> blank a \<Longrightarrow> json_members (ms @ a)"
proof (induction ms rule: json_json_members_json_items.inducts(2) [where ?P1.0 = "\<lambda>_. True" and ?P3.0 = "\<lambda>_. True"])
  case (json_member k v b c d)
  then show ?case using json_json_members_json_items.json_member [of k v b c "d @ a"] by simp
next
  case (json_more_members ms ns)
  then show ?case using json_json_members_json_items.json_more_members [of ms "ns @ a"] by simp
qed simp_all

lemma json_items_padded: "json_items xs \<Longrightarrow> blank a \<Longrightarrow> json_items (a @ xs)"
proof (induction xs rule: json_json_members_json_items.inducts(3) [where ?P1.0 = "\<lambda>_. True" and ?P2.0 = "\<lambda>_. True"])
  case (json_item v b c)
  then show ?case using json_json_members_json_items.json_item [of v "a @ b" c] by simp
next
  case (json_more_items xs ys)
  then show ?case using json_json_members_json_items.json_more_items [of "a @ xs" ys] by simp
qed simp_all

lemma json_items_closed: "json_items xs \<Longrightarrow> blank a \<Longrightarrow> json_items (xs @ a)"
proof (induction xs rule: json_json_members_json_items.inducts(3) [where ?P1.0 = "\<lambda>_. True" and ?P2.0 = "\<lambda>_. True"])
  case (json_item v b c)
  then show ?case using json_json_members_json_items.json_item [of v b "c @ a"] by simp
next
  case (json_more_items xs ys)
  then show ?case using json_json_members_json_items.json_more_items [of xs "ys @ a"] by simp
qed simp_all

lemma comma_lines_members: "ms \<noteq> [] \<Longrightarrow> (\<And>m. m \<in> set ms \<Longrightarrow> json_members m) \<Longrightarrow> json_members (comma_lines ms)"
proof (induction ms rule: comma_lines.induct)
  case (3 x y xs)
  then have "json_members (''\<newline>'' @ comma_lines (y # xs))" by (intro json_members_padded) simp_all
  with 3 show ?case using json_more_members [of x "''\<newline>'' @ comma_lines (y # xs)"] by simp
qed simp_all

lemma comma_lines_items: "xs \<noteq> [] \<Longrightarrow> (\<And>x. x \<in> set xs \<Longrightarrow> json_items x) \<Longrightarrow> json_items (comma_lines xs)"
proof (induction xs rule: comma_lines.induct)
  case (3 x y xs)
  then have "json_items (''\<newline>'' @ comma_lines (y # xs))" by (intro json_items_padded) simp_all
  with 3 show ?case using json_more_items [of x "''\<newline>'' @ comma_lines (y # xs)"] by simp
qed simp_all

text \<open>A printed value: blanks, then a value of the grammar.\<close>

definition prints_json :: "string \<Rightarrow> bool" where
  "prints_json t \<longleftrightarrow> (\<exists>a v. t = a @ v \<and> blank a \<and> json v)"

lemma prints_json_value: "json v \<Longrightarrow> prints_json v"
  unfolding prints_json_def by (metis append_Nil blank_simps(1))

lemma json_member_of: "json_chars k \<Longrightarrow> prints_json t \<Longrightarrow> json_members (raw_member k t)"
  unfolding prints_json_def raw_member_def
  using json_member [of k _ "[]" "'' '' @ _" "[]"] by (auto simp: format_char_def)

lemma object_json:
  assumes "ms \<noteq> []" and "\<And>m. m \<in> set ms \<Longrightarrow> json_members m"
  shows "prints_json (object_text ind ms)"
proof -
  let ?body = "comma_lines (map (\<lambda>m. indent_by (ind + 2) @ m) ms)"
  have "json_members ?body" using assms by (intro comma_lines_members) (auto intro: json_members_padded)
  then have "json_members (''\<newline>'' @ ?body @ ''\<newline>'' @ indent_by ind)"
    by (intro json_members_padded json_members_closed) simp_all
  then have "json (''{'' @ (''\<newline>'' @ ?body @ ''\<newline>'' @ indent_by ind) @ ''}'')" by (rule json_object)
  moreover have "object_text ind ms = indent_by ind @ ''{'' @ (''\<newline>'' @ ?body @ ''\<newline>'' @ indent_by ind) @ ''}''"
    by (simp add: object_text_def)
  ultimately show ?thesis unfolding prints_json_def using blank_simps(3) by blast
qed

lemma vec_json:
  assumes "json_chars k" "ts \<noteq> []" and "\<And>t. t \<in> set ts \<Longrightarrow> prints_json t"
  shows "json_members (vec_text ind k ts)"
proof -
  have "json_items t" if "prints_json t" for t
    using that json_item [of _ _ "[]"] unfolding prints_json_def by fastforce
  then have "json_items (comma_lines ts)" using assms(2,3) by (intro comma_lines_items) auto
  then have "json_items (''\<newline>'' @ comma_lines ts @ ''\<newline>'' @ indent_by ind)"
    by (intro json_items_padded json_items_closed) simp_all
  from json_member_of [OF assms(1) prints_json_value [OF json_array [OF this]]]
  show ?thesis by (simp add: vec_text_def raw_member_def format_char_def)
qed

section \<open>The print of a tree\<close>

text \<open>The nodes the printer visits below \<open>n\<close>, and the fields it prints without escaping them.\<close>

inductive printed :: "node \<Rightarrow> node \<Rightarrow> bool" where
  printed_self: "printed n n"
| printed_child: "(key, c) \<in> set (child_members n) \<Longrightarrow> printed c m \<Longrightarrow> printed n m"
| printed_item: "(key, xs) \<in> set (vector_members n) \<Longrightarrow> x \<in> set xs \<Longrightarrow> printed x m \<Longrightarrow> printed n m"

definition plain_text :: "string option \<Rightarrow> bool" where
  "plain_text t = (case t of None \<Rightarrow> True | Some s \<Rightarrow> unescaped s)"

definition plain_attrs :: "(string \<Rightarrow> string) \<Rightarrow> node_attrs \<Rightarrow> bool" where
  "plain_attrs flt a \<longleftrightarrow>
     list_all plain_text [checked_type a, n_name a, n_alias a, node_attrs.declared_type a, c_expr a, loop_kind a, n_op a] \<and>
     (a_kind a = NK_STR \<longrightarrow> n_text a \<noteq> None) \<and>
     (a_kind a = NK_STR \<or> a_kind a = NK_FIELD \<longrightarrow> plain_text (n_text a)) \<and>
     (a_kind a = NK_FLT \<longrightarrow> json_number (flt (float_value a)))"

lemma unescaped_Cons: "unescaped (c # s) \<longleftrightarrow> c \<noteq> DQUOTE \<and> c \<noteq> BSLASH \<and> 32 \<le> code c \<and> unescaped s"
  and unescaped_Nil: "unescaped []"
  by (auto simp: unescaped_def)

lemmas unescaped_literal = unescaped_Cons unescaped_Nil char_defs

lemma kind_name_unescaped: "unescaped (node_kind_name k)"
  by (cases k) (simp_all add: node_kind_name_def unescaped_literal)

lemma json_quoted: "unescaped s \<Longrightarrow> prints_json (strf ''`%s`'' [s])"
  using prints_json_value [OF json_string [OF unescaped_chars]] by (simp add: format_char_def)

lemma text_member_json: "unescaped k \<Longrightarrow> unescaped s \<Longrightarrow> json_members (text_member k s)"
  using json_member_of [OF unescaped_chars, of k "strf ''`%s`'' [s]"] json_quoted [of s]
  by (simp add: format_char_def text_member_def raw_member_def)

lemma opt_member_json: "unescaped k \<Longrightarrow> plain_text v \<Longrightarrow> list_all json_members (opt_member k v)"
  by (auto simp: opt_member_def plain_text_def text_member_json split: option.splits)

lemma flag_member_json: "unescaped k \<Longrightarrow> b \<longrightarrow> prints_json v \<Longrightarrow> list_all json_members (flag_member b k v)"
  by (auto simp: flag_member_def json_member_of unescaped_chars split: if_splits)

lemma head_members_json: "list_all json_members (head_members a)"
proof -
  let ?l = "raw_member ''line'' (show_nat (n_line a))" and ?c = "raw_member ''col'' (show_nat (n_col a))"
  have "json_members ?l" "json_members ?c"
    by (intro json_member_of unescaped_chars prints_json_value json_num json_number_show; simp add: unescaped_literal)+
  then have "json_members (?l @ '','' @ '' '' @ ?c)" by (intro json_more_members json_members_padded) simp_all
  from json_member_of [OF unescaped_chars prints_json_value [OF json_object [OF this]], of "''loc''"]
  have "json_members (strf ''`loc`: {`line`: %s, `col`: %s}'' [show_nat (n_line a), show_nat (n_col a)])"
    by (simp add: raw_member_def format_char_def unescaped_literal)
  then show ?thesis
    by (simp add: head_members_def text_member_json kind_name_unescaped unescaped_literal)
qed

lemma attr_members_json:
  assumes "plain_attrs flt a"
  shows "\<exists>ms. attr_members flt a = Inr ms \<and> ms \<noteq> [] \<and> list_all json_members ms"
proof -
  have "prints_json (flt (float_value a))" if "a_kind a = NK_FLT"
    using that assms by (simp add: plain_attrs_def prints_json_value json_num)
  moreover have "prints_json ''true''" "prints_json ''false''" "prints_json (show_int i)" for i
    by (intro prints_json_value json_true json_false json_num json_number_int)+
  moreover have "list_all json_members (if a_kind a = k then opt_member key (n_text a) else [])"
    if "k = NK_STR \<or> k = NK_FIELD" "unescaped key" for k key
    using that assms by (auto simp: plain_attrs_def opt_member_json)
  ultimately show ?thesis
    using assms head_members_json [of a]
    by (simp add: attr_members_def plain_attrs_def opt_member_json flag_member_json unescaped_literal)
      (simp add: head_members_def)
qed

lemma rseq_all:
  "(\<And>r. r \<in> set rs \<Longrightarrow> \<exists>x. r = Inr x \<and> P x) \<Longrightarrow> \<exists>xs. rseq rs = Inr xs \<and> length xs = length rs \<and> list_all P xs"
proof (induction rs)
  case (Cons r rs)
  then obtain xs where "rseq rs = Inr xs" "length xs = length rs" "list_all P xs" by auto
  moreover obtain x where "r = Inr x" "P x" using Cons.prems [of r] by auto
  ultimately show ?case by simp
qed simp

lemma member_keys:
  "(key, c) \<in> set (child_members n) \<Longrightarrow> unescaped key"
  "(key, xs) \<in> set (vector_members n) \<Longrightarrow> unescaped key \<and> xs \<noteq> []"
  by (auto simp: child_members_def vector_members_def unescaped_literal simp del: filter.simps split: option.splits)

lemma node_members_json:
  assumes "scalars = Inr ms" "list_all json_members ms"
    and "\<And>key r. (key, r) \<in> set children \<Longrightarrow> unescaped key \<and> (\<exists>t. r = Inr t \<and> prints_json t)"
    and "\<And>key rs r. (key, rs) \<in> set vectors \<Longrightarrow> unescaped key \<and> rs \<noteq> [] \<and> (r \<in> set rs \<longrightarrow> (\<exists>t. r = Inr t \<and> prints_json t))"
  shows "\<exists>xs. node_members scalars ind children vectors = Inr (ms @ xs) \<and> list_all json_members xs"
proof -
  have "\<exists>cs. rseq (map (\<lambda>(key, r). rbind r (\<lambda>t. Inr (raw_member key t))) children) = Inr cs \<and>
      length cs = length (map (\<lambda>(key, r). rbind r (\<lambda>t. Inr (raw_member key t))) children) \<and> list_all json_members cs"
    using assms(3) by (intro rseq_all) (fastforce intro: json_member_of unescaped_chars)
  moreover have "\<exists>t. rbind (rseq rs) (\<lambda>ts. Inr (vec_text (ind + 2) key ts)) = Inr t \<and> json_members t"
    if v: "(key, rs) \<in> set vectors" for key rs
  proof -
    obtain ts where "rseq rs = Inr ts" "length ts = length rs" "list_all prints_json ts"
      using rseq_all [of rs prints_json] assms(4) [OF v] by blast
    moreover from this have "ts \<noteq> []" "json_chars key" using assms(4) [OF v] unescaped_chars by auto
    ultimately show ?thesis using vec_json [of key ts] by (simp add: list_all_iff)
  qed
  then have "\<exists>vs. rseq (map (\<lambda>(key, rs). rbind (rseq rs) (\<lambda>ts. Inr (vec_text (ind + 2) key ts))) vectors) = Inr vs \<and>
      length vs = length (map (\<lambda>(key, rs). rbind (rseq rs) (\<lambda>ts. Inr (vec_text (ind + 2) key ts))) vectors) \<and>
      list_all json_members vs"
    by (intro rseq_all) auto
  ultimately show ?thesis using assms(1,2) by (auto simp: node_members_def)
qed


text \<open>The statement \<open>ret 1\<close>, checked.\<close>

definition sample_one :: node where
  "sample_one = upd_attrs (\<lambda>a. a\<lparr>checked_type := Some ''INT''\<rparr>)
     (node_new NK_INT \<lparr>tk_kind = TK_INT_LITERAL, tk_text = ''1'', tk_line = 1, tk_col = 5\<rparr>)"

definition sample_ret :: node where
  "sample_ret = set_value sample_one (node_new NK_RET \<lparr>tk_kind = TK_RET, tk_text = ''ret'', tk_line = 1, tk_col = 1\<rparr>)"

lemma sample_members:
  "child_members sample_one = []" "vector_members sample_one = []"
  "child_members sample_ret = [(''value'', sample_one)]" "vector_members sample_ret = []"
  by (simp_all add: child_members_def vector_members_def sample_one_def sample_ret_def set_value_def node_new_def upd_attrs_def)

lemma sample_plain: "plain_attrs id (attrs sample_one)" "plain_attrs id (attrs sample_ret)"
  by (simp_all add: plain_attrs_def plain_text_def sample_one_def sample_ret_def set_value_def node_new_def upd_attrs_def
      attrs_new_def unescaped_literal)

lemma printed_sample_one: "printed sample_one m \<Longrightarrow> m = sample_one"
  by (erule printed.cases) (auto simp: sample_members)

lemma printed_sample_ret: "printed sample_ret m \<Longrightarrow> m = sample_ret \<or> m = sample_one"
  by (erule printed.cases) (auto simp: sample_members dest: printed_sample_one)


end
