(* ===== verification/Pipeline.thy ===== *)
theory Pipeline
  imports Driver AnalyzeProps EmitProgram AstPrint
begin

text \<open>
  A run of the compiler: \<open>main\<close> of \<open>src/caster/driver/compiler.c\<close> from its arguments to its exit
  status, through every phase. What a run depends on outside the program is its argument: the
  disk, the environment, whether the output file can be created and what \<open>system\<close> returns for a
  command. What it leaves is its outcome: both output streams, the C file, the commands it ran.
\<close>

section \<open>What a run sees and leaves\<close>

record surroundings =
  disk :: world
  cflags_env :: "string option"
  creatable :: "string \<Rightarrow> bool"
  system_status :: "string \<Rightarrow> int"

text \<open>A process that dies while it writes the file leaves a part of it.\<close>

datatype output_file = Untouched | Partial | Complete string

record process =
  p_stdout :: string
  p_stderr :: string
  p_file :: output_file
  p_commands :: "string list"
  p_status :: nat

text \<open>
  The end of a run that dies, after what was printed before. The outcomes that are no diagnostics
  are no runs of a correct compiler and stay errors.
\<close>

definition die_with :: "options \<Rightarrow> string \<Rightarrow> output_file \<Rightarrow> exit_error \<Rightarrow> process result" where
  "die_with opts out file e =
     (let died = (\<lambda>(o', e'). Inr \<lparr>p_stdout = out @ o', p_stderr = e', p_file = file, p_commands = [], p_status = 1\<rparr>);
          json = json_output opts; src = Some (source_path opts) in
      case e of
        Failed (Die l c m) \<Rightarrow> died (die_at json src l c m)
      | Failed (DieMsg m) \<Rightarrow> died (die_message json src m)
      | ExitMsg m \<Rightarrow> died ([], m @ [NL])
      | Failed err \<Rightarrow> Inl err)"

definition exits :: "string \<Rightarrow> output_file \<Rightarrow> string list \<Rightarrow> nat \<Rightarrow> process result" where
  "exits out file cmds status =
     Inr \<lparr>p_stdout = out, p_stderr = [], p_file = file, p_commands = cmds, p_status = status\<rparr>"

section \<open>The checked tree\<close>

text \<open>
  Declarations of types are nodes of the tree and of the type table at once; what the analyzer
  wrote into those of the table is written into those of the tree.
\<close>

definition with_type_decls :: "node list \<Rightarrow> node \<Rightarrow> node" where
  "with_type_decls ds n =
     Node (attrs n) (n_body n) (n_value n) (n_target n) (n_expr n) (n_condition n) (n_then_block n)
       (n_else_block n) (n_object n) (n_index n) (n_callee n) (n_left n) (n_right n) ds
       (n_globals n) (n_fields n) (n_functions n) (n_params n) (n_statements n) (n_args n) (n_elements n)
       (n_elx_branches n)"

function stored_decl :: "type_table \<Rightarrow> node \<Rightarrow> node" where
  "stored_decl types d =
     with_type_decls (map (stored_decl types) (n_type_decls d))
       (case Option.bind (n_name (attrs d)) (type_find types) of Some info \<Rightarrow> ti_node info | None \<Rightarrow> d)"
  by pat_completeness auto

termination
  by (relation "measure (\<lambda>(types, d). size d)") (auto dest: size_type_decls)

declare stored_decl.simps [simp del]

definition check_source :: "nat \<Rightarrow> world \<Rightarrow> options \<Rightarrow> (node \<times> type_table) result" where
  "check_source k w opts =
     rbind (compile_front k w opts) (\<lambda>prog.
     rbind (analyze_program k prog) (\<lambda>(prog', st).
       Inr (with_type_decls (map (stored_decl (an_types st)) (n_type_decls prog')) prog', an_types st)))"

section \<open>The output file\<close>

text \<open>\<open>emit_program\<close> with the file it opens once it has collected what the program uses.\<close>

definition emit_file ::
  "(string \<Rightarrow> string) \<Rightarrow> (string \<Rightarrow> string) \<Rightarrow> nat \<Rightarrow> type_table \<Rightarrow> node \<Rightarrow> bool \<Rightarrow> string \<Rightarrow> output_file \<times> emit_ctx exit_result" where
  "emit_file fixed flt k types prog can path =
     (case collect_program (collector types k) prog no_uses of
        Inl e \<Rightarrow> (Untouched, Inl (Failed e))
      | Inr c \<Rightarrow>
          if \<not> can then (Untouched, Inl (ExitMsg (''caster: error: cannot write '' @ path)))
          else (case program_text fixed k (emitter types flt k) c prog em_start of
                  Inl e \<Rightarrow> (Partial, Inl (Failed e))
                | Inr (text, st) \<Rightarrow> (Complete text, Inr c)))"

definition uses_of :: "emit_ctx \<Rightarrow> emit_uses" where
  "uses_of c = \<lparr>Driver.emit_uses.uses_json = EmitUses.emit_ctx.uses_json c, Driver.emit_uses.uses_sql = EmitUses.emit_ctx.uses_sql c,
     Driver.emit_uses.uses_req = EmitUses.emit_ctx.uses_req c\<rparr>"

section \<open>The run\<close>

definition run_commands :: "surroundings \<Rightarrow> options \<Rightarrow> emit_ctx \<Rightarrow> output_file \<Rightarrow> string \<Rightarrow> process result" where
  "run_commands sys opts c file out =
     (case compile_command (disk sys) opts (uses_of c) (cflags_env sys) of
        Inl e \<Rightarrow> die_with opts out file e
      | Inr cmd \<Rightarrow>
          let exe = shell_quote (output_exe opts);
              out1 = out @ ''\<newline>Compiling '' @ output_path opts @ ''...\<newline>'';
              out2 = out1 @ ''Running generated program:\<newline>'' in
          if system_status sys cmd \<noteq> 0 then exits out1 file [cmd] 1
          else exits out2 file [cmd, exe] (if system_status sys exe \<noteq> 0 then 1 else 0))"

definition options_of :: "string list \<Rightarrow> options" where
  "options_of args = parse_args default_options args"

definition caster_main ::
  "(string \<Rightarrow> string) \<Rightarrow> (string \<Rightarrow> string) \<Rightarrow> nat \<Rightarrow> surroundings \<Rightarrow> string list \<Rightarrow> process result" where
  "caster_main fixed flt k sys args =
     (let opts = options_of args in
      case check_source k (disk sys) opts of
        Inl e \<Rightarrow> die_with opts [] Untouched (Failed e)
      | Inr (prog, types) \<Rightarrow>
          if check_only opts then
            exits (if json_output opts then ''[]\<newline>'' else ''caster: check passed\<newline>'') Untouched [] 0
          else rbind (print_node flt prog 0) (\<lambda>ast.
            let out = ''AST:\<newline>'' @ ast @ ''\<newline>'' in
            case emit_file fixed flt k types prog (creatable sys (output_path opts)) (output_path opts) of
              (file, Inl e) \<Rightarrow> die_with opts out file e
            | (file, Inr c) \<Rightarrow>
                if run_output opts then run_commands sys opts c file out else exits out file [] 0))"

section \<open>What a run may do\<close>

lemma die_with_effects:
  assumes "die_with opts out file e = Inr p"
  shows "p_status p = 1" "p_file p = file" "p_commands p = []"
  using assms by (auto simp: die_with_def Let_def split: prod.splits exit_error.splits error.splits)

lemma exits_sel [simp]:
  "exits out file cmds s = Inr p \<longleftrightarrow>
     p = \<lparr>p_stdout = out, p_stderr = [], p_file = file, p_commands = cmds, p_status = s\<rparr>"
  by (auto simp: exits_def)

lemma emit_file_complete:
  "emit_file fixed flt k types prog can path = (file, Inr c) \<Longrightarrow>
     \<exists>text. file = Complete text \<and> emit_program fixed flt k types prog = Inr text"
  by (auto simp: emit_file_def emit_program_def split: sum.splits if_splits prod.splits)

lemma emit_file_stopped:
  "emit_file fixed flt k types prog can path = (file, Inl e) \<Longrightarrow> file = Untouched \<or> file = Partial"
  by (auto simp: emit_file_def split: sum.splits if_splits prod.splits)

lemma run_commands_effects:
  assumes "run_commands sys opts c file out = Inr p"
  shows "p_file p = file"
    and "p_commands p \<noteq> [] \<Longrightarrow> \<exists>cmd. compile_command (disk sys) opts (uses_of c) (cflags_env sys) = Inr cmd \<and>
      p_commands p = (if system_status sys cmd = 0 then [cmd, shell_quote (output_exe opts)] else [cmd])"
    and "p_status p = 0 \<longleftrightarrow> length (p_commands p) = 2 \<and> (\<forall>x \<in> set (p_commands p). system_status sys x = 0)"
  using assms die_with_effects [where p = p]
  by (auto simp: run_commands_def Let_def split: sum.splits if_splits)

text \<open>The ways a run ends.\<close>

lemma main_cases [consumes 1, case_names rejected checked stopped emitted ran]:
  assumes "caster_main fixed flt k sys args = Inr p"
  obtains e where "check_source k (disk sys) (options_of args) = Inl e" "die_with (options_of args) [] Untouched (Failed e) = Inr p"
  | prog types where "check_source k (disk sys) (options_of args) = Inr (prog, types)" "check_only (options_of args)"
      "p = \<lparr>p_stdout = (if json_output (options_of args) then ''[]\<newline>'' else ''caster: check passed\<newline>''),
        p_stderr = [], p_file = Untouched, p_commands = [], p_status = 0\<rparr>"
  | prog types out cfile e where "check_source k (disk sys) (options_of args) = Inr (prog, types)"
      "\<not> check_only (options_of args)" "cfile = Untouched \<or> cfile = Partial" "die_with (options_of args) out cfile e = Inr p"
  | prog types out written where "check_source k (disk sys) (options_of args) = Inr (prog, types)"
      "\<not> check_only (options_of args)" "emit_program fixed flt k types prog = Inr written" "\<not> run_output (options_of args)"
      "p = \<lparr>p_stdout = out, p_stderr = [], p_file = Complete written, p_commands = [], p_status = 0\<rparr>"
  | prog types out written c where "check_source k (disk sys) (options_of args) = Inr (prog, types)"
      "\<not> check_only (options_of args)" "emit_program fixed flt k types prog = Inr written"
      "run_output (options_of args)" "run_commands sys (options_of args) c (Complete written) out = Inr p"
proof (cases "check_source k (disk sys) (options_of args)")
  case (Inl e)
  then show ?thesis using that(1) assms by (simp add: caster_main_def Let_def)
next
  case (Inr r)
  then obtain prog types where r: "check_source k (disk sys) (options_of args) = Inr (prog, types)" by (cases r) simp
  show ?thesis
  proof (cases "check_only (options_of args)")
    case True
    then show ?thesis using that(2) [OF r] assms r by (simp add: caster_main_def Let_def)
  next
    case False
    let ?out = "output_path (options_of args)"
    obtain cfile r' where f: "emit_file fixed flt k types prog (creatable sys ?out) ?out = (cfile, r')"
      by (cases "emit_file fixed flt k types prog (creatable sys ?out) ?out")
    show ?thesis
    proof (cases r')
      case (Inl e)
      then obtain out where "die_with (options_of args) out cfile e = Inr p"
        using assms r False f by (auto simp: caster_main_def Let_def rbind_eq_Inr)
      moreover have "cfile = Untouched \<or> cfile = Partial" using f Inl emit_file_stopped by simp
      ultimately show ?thesis by (rule that(3) [OF r False, rotated])
    next
      case (Inr c)
      then obtain written where "cfile = Complete written" "emit_program fixed flt k types prog = Inr written"
        using emit_file_complete f by metis
      moreover from this obtain out where
        "(if run_output (options_of args) then run_commands sys (options_of args) c (Complete written) out
          else exits out (Complete written) [] 0) = Inr p"
        using assms r False f Inr by (auto simp: caster_main_def Let_def rbind_eq_Inr split del: if_split)
      ultimately show ?thesis using that(4,5) [OF r False]
        by (cases "run_output (options_of args)") (simp, simp)
    qed
  qed
qed

text \<open>
  C4: A run does nothing before the whole program is accepted, and nothing with an incomplete C file:
  with \<open>--check\<close> no file is touched and no command run; otherwise a file that is touched belongs to
  an accepted program, commands run only on the complete text that \<open>emit_program\<close> gives for it, the
  C compiler first and the executable only when the compiler succeeded; and the exit status is 0
  exactly when the program was accepted and, unless it was only checked, its text completely
  written and every command asked for ran and succeeded.
\<close>

theorem main_effects:
  assumes "caster_main fixed flt k sys args = Inr p"
  shows "(check_only (options_of args) \<longrightarrow> p_file p = Untouched \<and> p_commands p = []) \<and>
    (p_file p \<noteq> Untouched \<longrightarrow> (\<exists>prog types. check_source k (disk sys) (options_of args) = Inr (prog, types))) \<and>
    (\<forall>text. p_file p = Complete text \<longrightarrow> (\<exists>prog types.
      check_source k (disk sys) (options_of args) = Inr (prog, types) \<and> emit_program fixed flt k types prog = Inr text)) \<and>
    (p_commands p \<noteq> [] \<longrightarrow> (\<exists>text cmd uses. p_file p = Complete text \<and>
      compile_command (disk sys) (options_of args) uses (cflags_env sys) = Inr cmd \<and>
      p_commands p = (if system_status sys cmd = 0 then [cmd, shell_quote (output_exe (options_of args))] else [cmd]))) \<and>
    (p_status p = 0 \<longleftrightarrow> (\<exists>prog types. check_source k (disk sys) (options_of args) = Inr (prog, types)) \<and>
      (\<not> check_only (options_of args) \<longrightarrow> (\<exists>text. p_file p = Complete text) \<and>
        (run_output (options_of args) \<longrightarrow> length (p_commands p) = 2) \<and> (\<forall>x \<in> set (p_commands p). system_status sys x = 0)))"
  using assms
proof (cases rule: main_cases)
  case (ran prog types out written c)
  note effects = run_commands_effects [OF ran(5)]
  have "p_commands p \<noteq> [] \<longrightarrow> (\<exists>written cmd uses. p_file p = Complete written \<and>
      compile_command (disk sys) (options_of args) uses (cflags_env sys) = Inr cmd \<and>
      p_commands p = (if system_status sys cmd = 0 then [cmd, shell_quote (output_exe (options_of args))] else [cmd]))"
    using effects(1,2) by blast
  with ran effects(1,3) show ?thesis by auto
qed (auto dest: die_with_effects)

section \<open>A run on an empty source\<close>

text \<open>A disk with one empty file, and the program that is in it.\<close>

definition sample_disk :: world where
  "sample_disk = \<lparr>w_real = (\<lambda>p. None), w_regular = (\<lambda>p. False), w_readable = (\<lambda>p. True),
     w_disk = [''a.cast'' \<mapsto> []], w_root = ''.''\<rparr>"

definition sample_sys :: surroundings where
  "sample_sys = \<lparr>disk = sample_disk, cflags_env = None, creatable = (\<lambda>_. True), system_status = (\<lambda>_. 0)\<rparr>"

definition empty_program :: node where
  "empty_program = synthetic NK_PROGRAM TK_EOF []"

lemma empty_front: "compile_front 7 sample_disk (options_of [''check'', ''--json'', ''a.cast'']) = Inr empty_program"
  by code_simp

definition empty_end :: "node \<times> an_state" where
  "empty_end = (case register_functions empty_program sample_named of Inr r \<Rightarrow> r | Inl _ \<Rightarrow> (empty_program, sample_named))"

lemma empty_registered:
  "register_functions empty_program sample_named = Inr empty_end" "an_fns (snd empty_end) = []"
  "n_globals empty_program = []" "n_statements (fst empty_end) = []"
  by code_simp+

lemma empty_types: "build_type_table empty_program = Inr (an_types sample_start)"
  by code_simp

lemma empty_analyzed: "\<exists>prog st. analyze_program 7 empty_program = Inr (prog, st)"
proof -
  have named: "analyze_named_map_values (analyzer 7) 7 0 sample_start = Inr ((), sample_named)"
    using agree_outcome [OF run.agree_named_values [where n = 1 and k = 6 and m = 7 and l = 0 and i = 0],
        of sample_start] sample_values by simp
  have empty: "with_globals [] empty_program = empty_program"
    by (rule with_globals_none) (rule empty_registered(3))
  have start: "\<lparr>an_scope = scope_new [], an_types = an_types sample_start, an_fns = [],
      an_ctx = fresh_ctx NoFn False False False\<rparr> = sample_start"
    by (simp add: sample_start_def)
  obtain q st where r: "empty_end = (q, st)" by (cases empty_end)
  show ?thesis
    using empty_types empty_registered [unfolded r] named empty
    by (simp add: analyze_program_def start analyze_declarations_def Let_def athen_def abind_def at_items_def
        aret_def reads_def analyze_script_def with_functions_def)
qed

text \<open>The runs that only check it, with diagnostics as JSON.\<close>

abbreviation sample_args :: "string list" where
  "sample_args \<equiv> [''check'', ''--json'', ''a.cast'']"

lemma sample_run:
  "\<exists>p. caster_main (\<lambda>_. []) id 7 sample_sys sample_args = Inr p \<and> p_status p = 0 \<and> p_stdout p = ''[]\<newline>''"
  "check_only (options_of sample_args)" "json_output (options_of sample_args)"
proof -
  show opts: "check_only (options_of sample_args)" "json_output (options_of sample_args)"
    by (simp_all add: options_of_def default_options_def)
  obtain prog types where "check_source 7 sample_disk (options_of sample_args) = Inr (prog, types)"
    using empty_front empty_analyzed by (auto simp: check_source_def)
  then show "\<exists>p. caster_main (\<lambda>_. []) id 7 sample_sys sample_args = Inr p \<and> p_status p = 0 \<and> p_stdout p = ''[]\<newline>''"
    using opts by (simp_all add: caster_main_def sample_sys_def Let_def)
qed

theorem main_effects_witness:
  "\<exists>p prog types. caster_main (\<lambda>_. []) id 7 sample_sys sample_args = Inr p \<and> p_file p = Untouched \<and> p_commands p = [] \<and>
     check_source 7 (disk sample_sys) (options_of sample_args) = Inr (prog, types)"
proof -
  obtain p where p: "caster_main (\<lambda>_. []) id 7 sample_sys sample_args = Inr p" "p_status p = 0" using sample_run(1) by blast
  show ?thesis using main_effects [OF p(1)] p sample_run(2) by blast
qed

section \<open>Diagnostics for tools\<close>

lemma json_escaped: "json (json_write_escaped s)"
  using json_string [OF escaped_chars] by (simp add: json_write_escaped_def)

lemma member_of_diagnostic: "unescaped k \<Longrightarrow> json v \<Longrightarrow> json_members ([DQUOTE] @ k @ [DQUOTE] @ '': '' @ v)"
  using json_member_of [OF unescaped_chars prints_json_value] by (simp add: raw_member_def format_char_def)

text \<open>The members of a diagnostic, which is an object printed in an array.\<close>

definition diagnostic_members :: "string option \<Rightarrow> nat \<Rightarrow> nat \<Rightarrow> string \<Rightarrow> string list" where
  "diagnostic_members src l c msg =
     (let m = (\<lambda>k v. [DQUOTE] @ k @ [DQUOTE] @ '': '' @ v);
          line = (if 0 < l then l else 1); col = (if 0 < c then c else 1) in
      [m ''file'' (json_write_escaped (case src of Some f \<Rightarrow> f | None \<Rightarrow> [])),
       m ''line'' (show_nat line), m ''col'' (show_nat col), m ''endLine'' (show_nat line), m ''endCol'' (show_nat (col + 1)),
       m ''severity'' ([DQUOTE] @ ''error'' @ [DQUOTE]), m ''message'' (json_write_escaped msg)])"

lemma diagnostic_text:
  "print_json_diagnostic src l c msg = ''['' @ ([NL] @ object_text 2 (diagnostic_members src l c msg) @ [NL]) @ '']'' @ [NL]"
  by (simp add: print_json_diagnostic_def diagnostic_members_def object_text_def indent_by_def Let_def
      numeral_eq_Suc split: option.split)

lemma diagnostic_members_json: "m \<in> set (diagnostic_members src l c msg) \<Longrightarrow> json_members m"
proof -
  have error: "json (DQUOTE # ''error'' @ [DQUOTE])"
    by (rule json_string, rule unescaped_chars) (simp add: unescaped_literal)
  have "list_all json_members (diagnostic_members src l c msg)"
    unfolding diagnostic_members_def Let_def list.pred_inject
    by (intro conjI TrueI member_of_diagnostic; use error in \<open>simp add: unescaped_literal json_escaped json_num\<close>)
  then show "m \<in> set (diagnostic_members src l c msg) \<Longrightarrow> json_members m" by (simp add: list_all_iff)
qed

lemma diagnostic_json: "\<exists>v. print_json_diagnostic src l c msg = v @ [NL] \<and> json v"
proof -
  have "diagnostic_members src l c msg \<noteq> []" by (simp add: diagnostic_members_def Let_def)
  then obtain a v where "object_text 2 (diagnostic_members src l c msg) = a @ v" "blank a" "json v"
    using object_json diagnostic_members_json unfolding prints_json_def by metis
  then have "json_items ([NL] @ object_text 2 (diagnostic_members src l c msg) @ [NL])"
    using json_item [of v "[NL] @ a" "[NL]"] by simp
  from json_array [OF this] diagnostic_text show ?thesis by (metis append_assoc)
qed

lemma die_with_json:
  assumes "die_with opts [] file (Failed e) = Inr p" and "json_output opts"
  shows "p_stderr p = []" and "\<exists>l c m. p_stdout p = print_json_diagnostic (Some (source_path opts)) l c m"
  using assms by (cases e; fastforce simp: die_with_def die_at_def die_message_def)+



end
