(* ===== verification/Spec2Isabelle.thy ===== *)
theory Spec2Isabelle
  imports FunctionFacts BufFacts HasType EmitFacts Pipeline
begin

text \<open>
  A model of the Caster compiler (\<open>src/src/caster\<close>), a C program of one translation unit that
  turns Caster source into C: import expansion, lexer, parser, analyzer, C emitter. Every phase
  stops the process at the first error, so a phase is a function into \<open>error + 'a\<close>
  (\<open>Prelude\<close>), where the diagnostics of the program are kept apart from the four outcomes a
  correct compiler never has: a read outside an array, a signed overflow, a null dereference,
  and a recursion the model's fuel cut off.

  Theories, in the order of the compiler's phases, with the file each one models:

  \<open>Prelude\<close>: errors, results and their sequencing, bytes and character classes, C string helpers. The
  few exits that write to standard error themselves, whatever the mode of the diagnostics, are the
  extra constructor of \<open>exit_error\<close>; only the link flags and the opening of the output file have them.
  \<open>Common\<close> (\<open>driver/common.c\<close>): JSON diagnostics and growable vectors; the interface
  \<open>growable\<close> is interpreted on every vector of the program.
  \<open>Paths\<close>, \<open>Modules\<close>, \<open>Imports\<close>, \<open>Driver\<close> (\<open>driver/compiler.c\<close>): path helpers and shell
  quoting; the scan of a module's text and the prefixing of its exported names, with a grammar of
  its items (\<open>source_items\<close>) that does not rest on the scan; the recursive
  expansion of \<open>use\<close> lines; options, the front end over expanded source, and the C compiler's
  command line with the words a shell reads in it. The disk
  is an argument (\<open>world\<close>), \<open>realpath\<close>, \<open>access\<close> and \<open>fopen\<close> are read from it.
  \<open>Lexer\<close> (\<open>lex/lexer.c\<close>), with its facts in \<open>LexerFacts\<close>: one function per kind of token, the
  state is what is left of the source, the position and the tokens so far.
  \<open>Ast\<close> (\<open>ast/ast.c\<close>): the \<open>Node\<close> struct with its fields as the source has them.
  \<open>TypeText\<close> (\<open>ast/ast.c\<close>, \<open>analyze/types.c\<close>): types as texts, their builders and tests, and
  the type \<open>cty\<close> they spell.
  \<open>ParserCore\<close>, \<open>Parser\<close> (\<open>parse/parser.c\<close>): a state monad over the token array, one function
  per parse function. \<open>AstShape\<close> says what a well-formed tree is, \<open>ParserLogic\<close> is a small
  program logic (a judgement with consumption and result), \<open>ParserSafe\<close> applies it to every
  parse function, \<open>FrontEnd\<close> composes lexer and parser.
  \<open>TypeTable\<close> (\<open>analyze/types.c\<close>), with \<open>TypeFacts\<close> and \<open>TypeBuild\<close>: the declarations, the
  resolution of type texts with cached, cycle-checked aliases, and the table of a program. The
  abstract specification is the relation \<open>denotes\<close>.

  \<open>Symbols\<close> (\<open>analyze/symbols.c\<close>), with \<open>SymbolFacts\<close>: scopes and symbols, and the
  literal keys known of open MAPs. The tables of the analyzer share the interface \<open>keyed\<close>.
  \<open>Functions\<close> (\<open>analyze/symbols.c\<close>, \<open>analyze/program.c\<close>), with \<open>FunctionFacts\<close>: the table of
  functions and the registration of every function, nested ones included.
  \<open>TypeRules\<close> (\<open>analyze/type_rules.c\<close>), with \<open>TypeRuleFacts\<close>: assignability, ownership, borrows
  and their escape, conformance of open data, the JSON decoding boundary. Where the code changes
  a symbol through a pointer into the scope it reads, the model changes the scope by name.

  The passes over function bodies (\<open>analyze/\<close>) share the state of \<open>Analysis\<close>: scopes, type table,
  function table, context, and an expression is returned with the fields the analyzer wrote into
  its node. \<open>AnalyzeColl\<close>, \<open>AnalyzeCalls\<close>, \<open>AnalyzeMethods\<close>, \<open>AnalyzeExpr\<close> and \<open>AnalyzeStmt\<close> have one
  definition per function or per kind of node; their mutual recursion goes through the record
  \<open>an_rec\<close>, and \<open>Analyze\<close> (\<open>analyze/program.c\<close>, \<open>analyzer.c\<close>) ties the knot with fuel that bounds the
  depth of the recursion only. \<open>AnalyzeSteps\<close> and \<open>AnalyzePasses\<close> show of every pass, in the
  interface \<open>recursion\<close>, what it keeps of the state and that more fuel changes nothing;
  \<open>AnalyzeFacts\<close> interprets it on the relations of the properties in \<open>AnalyzeProps\<close>. \<open>HasType\<close>
  compares the analysis of scalar expressions with typing rules.

  \<open>Names\<close> (\<open>emit/names.c\<close>): C names and C types of the emitted program, and its string literals,
  with the part of a C compiler that reads them back.

  The emitter (\<open>emit/\<close>): \<open>Emit\<close> has its formats (a literal writes a backquote for the double quote
  and a tilde for the backslash), its state (the owned locals of a function, temporaries) and its
  steps; a text printed to the output file is returned. \<open>EmitUses\<close> (\<open>context.c\<close>) collects the types
  and runtime parts in use; \<open>EmitDrops\<close> (\<open>stmt.c\<close>, \<open>expr.c\<close>) says what is cloned, moved and dropped;
  \<open>EmitTypes\<close> (\<open>types.c\<close>) gives the C types and their helpers; \<open>EmitParts\<close>, \<open>EmitValues\<close>, \<open>EmitText\<close>
  and \<open>EmitExpr\<close> (\<open>expr.c\<close>, \<open>stmt.c\<close>) give expressions and the bodies of collection methods, with
  the knot \<open>emitter\<close> over \<open>em_rec\<close>; \<open>EmitStmt\<close> gives statements and functions, \<open>EmitHelpers\<close> and
  \<open>EmitProgram\<close> (\<open>program.c\<close>, \<open>runtime.c\<close>) the whole program. Two parameters: \<open>fixed\<close>, the runtime
  texts that do not depend on the program, and \<open>flt\<close>, the printing of a double by \<open>%.17g\<close>.
  \<open>EmitSteps\<close> treats every step of the emitter as \<open>AnalyzeSteps\<close> does the passes, in the interfaces
  \<open>emission\<close> and its extensions, and \<open>EmitFacts\<close> draws the properties from their interpretations.

  \<open>AstPrint\<close> (\<open>ast/ast_printer.c\<close>): the print of the checked tree, and the grammar of JSON.
  \<open>Pipeline\<close> (\<open>main\<close> of \<open>driver/compiler.c\<close>): a run of the compiler through every phase, from its
  arguments to both output streams, the C file, the commands run and the exit status.

  \<open>Buf\<close> (\<open>adapters/buf.c\<close>), with \<open>BufFacts\<close>: run-time code of the compiled
  program, the table of growable texts behind \<open>BUF.*\<close>, at the level of bytes and 64-bit
  lengths; the interface \<open>simulation\<close> carries its refinement of a map from handles to texts.

  Bounds. Loops over the source text are structural or have a measure. The parser's recursion
  has fuel twice the number of tokens left plus one, and \<open>ParserSafe\<close> shows it is never used
  up; type resolution has fuel from the number of unresolved aliases and the length of their
  texts, and \<open>TypeFacts\<close> shows the same; import expansion takes fuel as an argument and needs
  one unit more than there are readable files. Analyzer and emitter take fuel as an argument: a
  program that is analyzed or emitted with some fuel is so, in the same way, with all greater fuel,
  as the lemmas \<open>analyze_program_fuel\<close> and \<open>emit_program_fuel\<close> say; two
  recursions of the code that do not end (self-referring initializers, and the decoding of a MAP
  that contains itself) are characterized exactly.

  Modelling conventions. A C string is the list of its bytes. A pointer into an array is an
  index; a pointer to a node is the node, so a later update through another pointer is made
  where the model keeps the node. \<open>int\<close> counters of lines, columns and lengths are unbounded:
  no source text reaches their range. Memory allocation never fails. Where C leaves the order of
  the arguments of a call open, they run from left to right, and \<open>qsort\<close> of the array types, whose
  order between equal keys C leaves open, is a stable sort.

  Not modelled: the wrappers of memory allocation; the fixed texts
  of the runtime that \<open>program.c\<close> and \<open>runtime.c\<close> print, which are no code of the compiler but C
  code of the compiled program; the native adapters other than
  the buffers (\<open>req.c\<close>, \<open>sql.c\<close>, \<open>sys.c\<close>), which run in the compiled program and are wrappers
  of sockets, TLS, SQLite, processes and files.
\<close>

section \<open>Properties that span components\<close>

text \<open>
  C2: From source text to resolved declarations: lexing, parsing and building the type table of any
  source ends with a diagnostic, or with a table whose names are distinct, in which every alias
  is cached with the canonical type it denotes and every field of a MAP has a canonical type.
\<close>

theorem typed_front_end_total:
  "case rbind (front_end src) build_type_table of
     Inl e \<Rightarrow> is_diagnostic e
   | Inr ts \<Rightarrow> distinct (map ti_name ts) \<and> list_all (entry_done ts) ts"
proof (cases "front_end src")
  case (Inl e)
  then show ?thesis using front_end_outcome [of src] by simp
next
  case (Inr n)
  then show ?thesis using front_end_outcome [of src] build_type_table_correct [of n] by (cases "build_type_table n") simp_all
qed

end
